(* ===== verification/Codemem_Prelude.thy ===== *)
theory Codemem_Prelude
  imports Complex_Main "HOL-Library.AList" "HOL-Library.List_Lexorder" "HOL-Library.Char_ord"
begin

text \<open>
  Shared vocabulary of the development: the parts of the JavaScript and SQLite standard
  behaviour that several components use (trimming, lower-casing, prefix tests, text ordering,
  \<open>??\<close> on nullable values, first row of a query, upsert into a keyed table) and the generic
  lemmas on them.

  Text is a list of code units. Isabelle's \<^typ>\<open>char\<close> has 256 values, so the model covers text
  over the code units below 256; on those, JavaScript's \<open><\<close> on strings (code-unit order) and
  SQLite's BINARY collation (UTF-8 byte order) are the same order, the lexicographic one.
\<close>

named_theorems text_simps \<open>normalisation of trimmed and cleaned text\<close>
named_theorems table_simps \<open>reading a keyed table after a write\<close>
named_theorems frame \<open>fields of the database an operation leaves alone\<close>


section \<open>Trimming and case\<close>

text \<open>\<open>String.prototype.trim\<close> removes JavaScript white space: tab, line feed, vertical tab, form feed,
  carriage return, space and no-break space (below code unit 256).\<close>

definition js_space :: "char \<Rightarrow> bool" where
  "js_space c \<longleftrightarrow> c = CHR '' '' \<or> c = CHR 0x09 \<or> c = CHR 0x0A \<or> c = CHR 0x0B \<or> c = CHR 0x0C
     \<or> c = CHR 0x0D \<or> c = CHR 0xA0"

definition trim_by :: "('a \<Rightarrow> bool) \<Rightarrow> 'a list \<Rightarrow> 'a list" where
  "trim_by p s = rev (dropWhile p (rev (dropWhile p s)))"

definition js_trim :: "string \<Rightarrow> string" where
  "js_trim = trim_by js_space"

text \<open>SQLite's one-argument \<open>TRIM\<close> removes spaces only.\<close>

definition sql_trim :: "string \<Rightarrow> string" where
  "sql_trim = trim_by (\<lambda>c. c = CHR '' '')"

text \<open>\<open>toLowerCase\<close> below code unit 256: ASCII capitals and the Latin-1 capitals (without the
  multiplication sign 215) move up by 32.\<close>

definition lower_char :: "char \<Rightarrow> char" where
  "lower_char c = (let n = (of_char c :: nat) in
     if (65 \<le> n \<and> n \<le> 90) \<or> (192 \<le> n \<and> n \<le> 222 \<and> n \<noteq> 215) then char_of (n + 32) else c)"

definition js_lower :: "string \<Rightarrow> string" where
  "js_lower = map lower_char"

definition starts_with :: "string \<Rightarrow> string \<Rightarrow> bool" where
  "starts_with p s \<longleftrightarrow> take (length p) s = p"

definition ends_with :: "string \<Rightarrow> string \<Rightarrow> bool" where
  "ends_with p s \<longleftrightarrow> starts_with (rev p) (rev s)"

fun text_contains :: "string \<Rightarrow> string \<Rightarrow> bool" where
  "text_contains p [] = (p = [])"
| "text_contains p (c # s) = (starts_with p (c # s) \<or> text_contains p s)"

lemma dropWhile_idem [simp]: "dropWhile p (dropWhile p s) = dropWhile p s"
  by (induction s) auto

lemma hd_dropWhile_False: "dropWhile p s = c # t \<Longrightarrow> \<not> p c"
  by (induction s) (auto split: if_splits)

lemma trim_by_idem [text_simps]: "trim_by p (trim_by p s) = trim_by p s"
proof -
  let ?d = "dropWhile p s"
  have front: "dropWhile p (rev (dropWhile p (rev ?d))) = rev (dropWhile p (rev ?d))"
  proof (cases "rev (dropWhile p (rev ?d))")
    case (Cons c t)
    have "rev ?d = takeWhile p (rev ?d) @ dropWhile p (rev ?d)" by simp
    then have "?d = rev (dropWhile p (rev ?d)) @ rev (takeWhile p (rev ?d))"
      by (metis rev_append rev_rev_ident)
    with Cons have "?d = c # (t @ rev (takeWhile p (rev ?d)))" by simp
    then have "\<not> p c" by (rule hd_dropWhile_False)
    with Cons show ?thesis by simp
  next
    case Nil
    show ?thesis by (simp only: Nil dropWhile.simps)
  qed
  show ?thesis
    unfolding trim_by_def by (simp add: front)
qed

lemma js_trim_idem [simp, text_simps]: "js_trim (js_trim s) = js_trim s"
  by (simp add: js_trim_def trim_by_idem)

lemma js_trim_Nil [simp]: "js_trim [] = []"
  by (simp add: js_trim_def trim_by_def)

lemma starts_with_append [simp]: "starts_with p (p @ s)"
  by (simp add: starts_with_def)

lemma starts_with_iff: "starts_with p s \<longleftrightarrow> (\<exists>t. s = p @ t)"
  unfolding starts_with_def by (metis append_eq_conv_conj append_take_drop_id)

lemma trim_by_ends:
  assumes "s \<noteq> []" "\<not> p (hd s)" "\<not> p (last s)"
  shows "trim_by p s = s"
proof -
  have "dropWhile p s = s" using assms(1,2) by (cases s) auto
  moreover have "dropWhile p (rev s) = rev s" using assms(1,3) by (cases s rule: rev_cases) auto
  ultimately show ?thesis by (simp add: trim_by_def)
qed

lemma trimmed_hd:
  assumes "trim_by p s = s" "s \<noteq> []"
  shows "\<not> p (hd s)"
proof
  assume "p (hd s)"
  with assms(2) have "length (dropWhile p s) < length s"
    using length_dropWhile_le [of p "tl s"] by (cases s) auto
  moreover have "length (trim_by p s) \<le> length (dropWhile p s)"
    unfolding trim_by_def using length_dropWhile_le [of p "rev (dropWhile p s)"] by simp
  ultimately show False using assms(1) by simp
qed

lemma split_first:
  assumes "c \<notin> set xs" "c \<notin> set xs'" "xs @ c # ys = xs' @ c # ys'"
  shows "xs = xs' \<and> ys = ys'"
  using assms
proof (induction xs arbitrary: xs')
  case Nil
  then show ?case by (cases xs') auto
next
  case (Cons x xs)
  then show ?case by (cases xs') auto
qed

lemma split_last:
  assumes "c \<notin> set ys" "c \<notin> set ys'" "xs @ c # ys = xs' @ c # ys'"
  shows "xs = xs' \<and> ys = ys'"
proof -
  have "rev ys @ c # rev xs = rev ys' @ c # rev xs'"
    using arg_cong [OF assms(3), of rev] by simp
  from split_first [OF _ _ this] assms(1,2) show ?thesis by simp
qed

section \<open>Nullable values\<close>

text \<open>\<open>a ?? b\<close> on a nullable column, and SQL's two-argument \<open>COALESCE\<close>.\<close>

definition coalesce :: "'a option \<Rightarrow> 'a option \<Rightarrow> 'a option" where
  "coalesce a b = (case a of None \<Rightarrow> b | Some x \<Rightarrow> Some x)"

definition or_default :: "'a option \<Rightarrow> 'a \<Rightarrow> 'a" where
  "or_default a d = (case a of None \<Rightarrow> d | Some x \<Rightarrow> x)"

lemma coalesce_simps [simp]:
  "coalesce None b = b" "coalesce (Some x) b = Some x" "coalesce a None = a"
  by (simp_all add: coalesce_def split: option.splits)

lemma or_default_simps [simp]: "or_default None d = d" "or_default (Some x) d = x"
  by (simp_all add: or_default_def)

lemma coalesce_assoc: "coalesce a (coalesce b c) = coalesce (coalesce a b) c"
  by (cases a) auto

text \<open>SQL equality: a comparison with \<open>NULL\<close> does not hold.\<close>

definition sql_eq :: "'a option \<Rightarrow> 'a option \<Rightarrow> bool" where
  "sql_eq a b = (case a of None \<Rightarrow> False | Some x \<Rightarrow> b = Some x)"

lemma sql_eq_simps [simp]:
  "sql_eq None b = False" "sql_eq a None = False" "sql_eq (Some x) (Some y) = (x = y)"
  by (auto simp: sql_eq_def split: option.splits)

lemma sql_eq_iff: "sql_eq a b \<longleftrightarrow> (\<exists>x. a = Some x \<and> b = Some x)"
  by (auto simp: sql_eq_def split: option.splits)

text \<open>The helper \<open>cleanText\<close> (also named \<open>clean\<close>) that the sync modules repeat: trimmed text, with blank
  text and a missing value both read as \<open>null\<close>.\<close>

definition clean_text :: "string option \<Rightarrow> string option" where
  "clean_text v = (case v of None \<Rightarrow> None
     | Some s \<Rightarrow> if js_trim s = [] then None else Some (js_trim s))"

lemma clean_text_None [simp]: "clean_text None = None"
  by (simp add: clean_text_def)

lemma clean_text_idem [simp, text_simps]: "clean_text (clean_text v) = clean_text v"
  by (simp add: clean_text_def split: option.splits)

lemma clean_text_SomeD [dest]: "clean_text v = Some s \<Longrightarrow> clean_text (Some s) = Some s"
  by (metis clean_text_idem)

lemma clean_text_Some_nonempty: "clean_text v = Some s \<Longrightarrow> s \<noteq> []"
  by (auto simp: clean_text_def split: option.splits if_splits)

text \<open>The largest integer a JavaScript number holds exactly.\<close>

definition MAX_SAFE_INTEGER :: int where "MAX_SAFE_INTEGER = 9007199254740991"

definition safe_integer :: "int \<Rightarrow> bool" where
  "safe_integer n \<longleftrightarrow> \<bar>n\<bar> \<le> MAX_SAFE_INTEGER"

section \<open>Keyed tables\<close>

text \<open>A table is the list of its rows in rowid order; a query is a filter, a sort and a prefix.\<close>

definition first_where :: "('r \<Rightarrow> bool) \<Rightarrow> 'r list \<Rightarrow> 'r option" where
  "first_where p rows = List.find p rows"

definition exists_where :: "('r \<Rightarrow> bool) \<Rightarrow> 'r list \<Rightarrow> bool" where
  "exists_where p rows \<longleftrightarrow> list_ex p rows"

definition update_where :: "('r \<Rightarrow> bool) \<Rightarrow> ('r \<Rightarrow> 'r) \<Rightarrow> 'r list \<Rightarrow> 'r list" where
  "update_where p f rows = map (\<lambda>r. if p r then f r else r) rows"

definition delete_where :: "('r \<Rightarrow> bool) \<Rightarrow> 'r list \<Rightarrow> 'r list" where
  "delete_where p rows = filter (\<lambda>r. \<not> p r) rows"

text \<open>\<open>INSERT ... ON CONFLICT (key) DO UPDATE\<close>: the conflicting row is rewritten in place by
  \<open>merge new old\<close>; without a conflict the new row is appended.\<close>

definition upsert_row :: "('r \<Rightarrow> 'k) \<Rightarrow> ('r \<Rightarrow> 'r \<Rightarrow> 'r) \<Rightarrow> 'r \<Rightarrow> 'r list \<Rightarrow> 'r list" where
  "upsert_row key merge new rows =
     (if exists_where (\<lambda>r. key r = key new) rows
      then update_where (\<lambda>r. key r = key new) (merge new) rows
      else rows @ [new])"

text \<open>\<open>INSERT OR IGNORE\<close> and \<open>ON CONFLICT DO NOTHING\<close>.\<close>

definition insert_or_ignore :: "('r \<Rightarrow> 'k) \<Rightarrow> 'r \<Rightarrow> 'r list \<Rightarrow> 'r list" where
  "insert_or_ignore key new rows =
     (if exists_where (\<lambda>r. key r = key new) rows then rows else rows @ [new])"

lemma exists_where_iff: "exists_where p rows \<longleftrightarrow> (\<exists>r\<in>set rows. p r)"
  by (simp add: exists_where_def list_ex_iff)

lemma map_sum_Inr_iff: "map_sum id g x = Inr y \<longleftrightarrow> (\<exists>z. x = Inr z \<and> y = g z)"
  by (cases x) auto

lemma first_where_None_iff: "first_where p rows = None \<longleftrightarrow> (\<forall>r\<in>set rows. \<not> p r)"
  by (auto simp: first_where_def find_None_iff)

lemma first_where_SomeD: "first_where p rows = Some r \<Longrightarrow> r \<in> set rows \<and> p r"
  by (auto simp: first_where_def find_Some_iff)

lemma first_where_simps [simp]:
  "first_where p [] = None"
  "first_where p (r # rows) = (if p r then Some r else first_where p rows)"
  by (simp_all add: first_where_def)

lemma first_where_append:
  "first_where p (xs @ ys) = coalesce (first_where p xs) (first_where p ys)"
  by (induction xs) auto

lemma first_where_update:
  assumes "\<And>r. p (f r) = p r"
  shows "first_where p (update_where q f rows) =
    map_option (\<lambda>r. if q r then f r else r) (first_where p rows)"
  using assms by (induction rows) (auto simp: update_where_def)

lemma first_where_upsert [table_simps]:
  assumes "\<And>old. key old = key new \<Longrightarrow> key (merge new old) = key new"
  shows "first_where (\<lambda>r. key r = k) (upsert_row key merge new rows) =
    (if k = key new
     then Some (case first_where (\<lambda>r. key r = k) rows of None \<Rightarrow> new | Some old \<Rightarrow> merge new old)
     else first_where (\<lambda>r. key r = k) rows)"
proof (cases "exists_where (\<lambda>r. key r = key new) rows")
  case True
  then obtain r0 where r0: "first_where (\<lambda>r. key r = key new) rows = Some r0"
    by (cases "first_where (\<lambda>r. key r = key new) rows")
      (auto simp: exists_where_iff first_where_None_iff)
  have upd: "first_where (\<lambda>r. key r = k) (update_where (\<lambda>r. key r = key new) (merge new) rows) =
    map_option (\<lambda>r. if key r = key new then merge new r else r) (first_where (\<lambda>r. key r = k) rows)"
    using assms by (induction rows) (auto simp: update_where_def)
  show ?thesis
  proof (cases "k = key new")
    case True
    with upd r0 first_where_SomeD [OF r0] show ?thesis
      using \<open>exists_where _ _\<close> by (simp add: upsert_row_def)
  next
    case False
    have "map_option (\<lambda>r. if key r = key new then merge new r else r)
        (first_where (\<lambda>r. key r = k) rows) = first_where (\<lambda>r. key r = k) rows"
      using False by (cases "first_where (\<lambda>r. key r = k) rows") (auto dest: first_where_SomeD)
    with upd False \<open>exists_where _ _\<close> show ?thesis by (simp add: upsert_row_def)
  qed
next
  case False
  then have none: "first_where (\<lambda>r. key r = key new) rows = None"
    by (simp add: exists_where_iff first_where_None_iff)
  show ?thesis
    using False none by (cases "first_where (\<lambda>r. key r = k) rows")
      (auto simp: upsert_row_def first_where_append)
qed

text \<open>A batch of upserts with distinct keys acts on each key once.\<close>

lemma first_where_upserts [table_simps]:
  assumes "\<And>new old. key old = key new \<Longrightarrow> key (merge new old) = key new"
    and "distinct (map key news)"
  shows "first_where (\<lambda>r. key r = k) (fold (upsert_row key merge) news rows) =
    (case first_where (\<lambda>r. key r = k) news of
       None \<Rightarrow> first_where (\<lambda>r. key r = k) rows
     | Some new \<Rightarrow> Some (case first_where (\<lambda>r. key r = k) rows of None \<Rightarrow> new | Some old \<Rightarrow> merge new old))"
  using assms(2)
proof (induction news arbitrary: rows)
  case Nil
  show ?case by simp
next
  case (Cons n news)
  have up: "first_where (\<lambda>r. key r = k) (upsert_row key merge n rows) =
      (if k = key n
       then Some (case first_where (\<lambda>r. key r = k) rows of None \<Rightarrow> n | Some old \<Rightarrow> merge n old)
       else first_where (\<lambda>r. key r = k) rows)"
    by (rule first_where_upsert) (rule assms(1))
  have ih: "first_where (\<lambda>r. key r = k) (fold (upsert_row key merge) news (upsert_row key merge n rows)) =
      (case first_where (\<lambda>r. key r = k) news of
         None \<Rightarrow> first_where (\<lambda>r. key r = k) (upsert_row key merge n rows)
       | Some new \<Rightarrow> Some (case first_where (\<lambda>r. key r = k) (upsert_row key merge n rows) of
           None \<Rightarrow> new | Some old \<Rightarrow> merge new old))"
    using Cons.prems by (intro Cons.IH) simp
  show ?case
  proof (cases "k = key n")
    case True
    with Cons.prems have "first_where (\<lambda>r. key r = k) news = None"
      by (fastforce simp: first_where_None_iff image_iff)
    with True ih up show ?thesis by simp
  next
    case False
    then have "key n \<noteq> k" by simp
    with False ih up show ?thesis by (simp cong: option.case_cong)
  qed
qed

lemma set_insert_or_ignore: "set (insert_or_ignore key new rows) \<subseteq> insert new (set rows)"
  by (auto simp: insert_or_ignore_def)

lemma insert_or_ignore_key_present [table_simps]:
  "exists_where (\<lambda>r. key r = key new) (insert_or_ignore key new rows)"
  by (auto simp: insert_or_ignore_def exists_where_iff)

lemma distinct_insert_or_ignore:
  "distinct (map key rows) \<Longrightarrow> distinct (map key (insert_or_ignore key new rows))"
  by (auto simp: insert_or_ignore_def exists_where_iff)

lemma map_update_where_key:
  "(\<And>r. key (f r) = key r) \<Longrightarrow> map key (update_where p f rows) = map key rows"
  by (simp add: update_where_def)

lemma distinct_delete_where: "distinct (map key rows) \<Longrightarrow> distinct (map key (delete_where p rows))"
  unfolding delete_where_def by (induction rows) auto

lemma set_delete_where: "set (delete_where p rows) = {r \<in> set rows. \<not> p r}"
  by (auto simp: delete_where_def)

end
