(* ===== verification/Json_Values.thy ===== *)
theory Json_Values
  imports Codemem_Prelude
begin

text \<open>
  JSON values as JavaScript sees them, the text columns that hold JSON, and the coercions the sync
  modules apply to untyped payload fields (\<open>packages/core/src/db.ts\<close> and the helpers at the head of
  \<open>packages/core/src/sync-replication.ts\<close>).

  A JSON text column is represented by what \<open>JSON.parse\<close> makes of it: \<open>JsonDoc v\<close> for text that parses
  to \<open>v\<close>, \<open>BadText s\<close> for text \<open>s\<close> that \<open>JSON.parse\<close> rejects (the empty and the blank text among them).
  Serialising with \<open>JSON.stringify\<close> and parsing back is then the identity. A JSON object is the list of
  its properties with distinct keys; numbers are the finite values of a JavaScript number.
\<close>

datatype json =
    JNull
  | JBool bool
  | JNum rat
  | JStr string
  | JArr "json list"
  | JObj "(string \<times> json) list"

type_synonym json_obj = "(string \<times> json) list"

datatype json_text = JsonDoc json | BadText string

section \<open>Parsing and serialising columns\<close>

definition json_parse :: "json_text \<Rightarrow> json option" where
  "json_parse t = (case t of JsonDoc v \<Rightarrow> Some v | BadText _ \<Rightarrow> None)"

definition text_is_empty :: "json_text option \<Rightarrow> bool" where
  "text_is_empty t = (case t of None \<Rightarrow> True | Some (BadText s) \<Rightarrow> s = [] | Some (JsonDoc _) \<Rightarrow> False)"

definition text_is_blank :: "json_text option \<Rightarrow> bool" where
  "text_is_blank t = (case t of None \<Rightarrow> True | Some (BadText s) \<Rightarrow> js_trim s = []
     | Some (JsonDoc _) \<Rightarrow> False)"

definition as_object :: "json \<Rightarrow> json_obj option" where
  "as_object v = (case v of JObj ps \<Rightarrow> Some ps | _ \<Rightarrow> None)"

text \<open>\<open>fromJson\<close>: the lenient reader, an empty object for anything that is not a JSON object.\<close>

definition fromJson :: "json_text option \<Rightarrow> json_obj" where
  "fromJson t =
     (if text_is_empty t then []
      else (case t of None \<Rightarrow> []
            | Some txt \<Rightarrow> (case json_parse txt of None \<Rightarrow> [] | Some v \<Rightarrow> or_default (as_object v) [])))"

text \<open>\<open>fromJsonStrict\<close>: the reader of the mutation paths, \<open>Inl\<close> for the exception.\<close>

definition fromJsonStrict :: "json_text option \<Rightarrow> string + json_obj" where
  "fromJsonStrict t =
     (if text_is_empty t then Inr []
      else (case t of None \<Rightarrow> Inr []
            | Some txt \<Rightarrow>
               (case json_parse txt of
                  None \<Rightarrow> Inl ''JSON.parse: invalid JSON''
                | Some v \<Rightarrow>
                   (case v of
                      JObj ps \<Rightarrow> Inr ps
                    | JArr _ \<Rightarrow> Inl ''fromJsonStrict: expected object, got array''
                    | JNull \<Rightarrow> Inl ''fromJsonStrict: expected object, got object''
                    | JBool _ \<Rightarrow> Inl ''fromJsonStrict: expected object, got boolean''
                    | JNum _ \<Rightarrow> Inl ''fromJsonStrict: expected object, got number''
                    | JStr _ \<Rightarrow> Inl ''fromJsonStrict: expected object, got string''))))"

text \<open>\<open>toJson\<close> and \<open>toJsonNullable\<close>: the latter keeps \<open>null\<close>, and reads an empty object as \<open>null\<close>.\<close>

definition toJson :: "json \<Rightarrow> json_text" where
  "toJson v = (if v = JNull then JsonDoc (JObj []) else JsonDoc v)"

definition toJsonNullable :: "json \<Rightarrow> json_text option" where
  "toJsonNullable v = (if v = JNull \<or> v = JObj [] then None else Some (JsonDoc v))"

text \<open>\<open>parsePayload\<close> of \<open>sync-replication.ts\<close>: \<open>null\<close> unless the text is a JSON object.\<close>

definition parsePayload :: "json_text option \<Rightarrow> json_obj option" where
  "parsePayload t =
     (if text_is_blank t then None
      else (case t of None \<Rightarrow> None
            | Some txt \<Rightarrow> (case json_parse txt of None \<Rightarrow> None | Some v \<Rightarrow> as_object v)))"

text \<open>\<open>parseSqliteJson\<close>: a column that does not parse is passed on as the raw string.\<close>

definition parseSqliteJson :: "json_text option \<Rightarrow> json" where
  "parseSqliteJson t = (case t of None \<Rightarrow> JNull | Some (JsonDoc v) \<Rightarrow> v | Some (BadText s) \<Rightarrow> JStr s)"

section \<open>Reading untyped fields\<close>

text \<open>\<open>payload?.field\<close>: \<open>None\<close> is \<open>undefined\<close>. \<open>a ?? b\<close> passes over \<open>undefined\<close> and \<open>null\<close>.\<close>

definition field :: "string \<Rightarrow> json_obj \<Rightarrow> json option" where
  "field k obj = map_of obj k"

definition field_of :: "string \<Rightarrow> json_obj option \<Rightarrow> json option" where
  "field_of k p = (case p of None \<Rightarrow> None | Some obj \<Rightarrow> field k obj)"

definition nullish :: "json option \<Rightarrow> bool" where
  "nullish v \<longleftrightarrow> v = None \<or> v = Some JNull"

definition nullish_or :: "json option \<Rightarrow> json option \<Rightarrow> json option" where
  "nullish_or a b = (if nullish a then b else a)"

definition set_field :: "string \<Rightarrow> json \<Rightarrow> json_obj \<Rightarrow> json_obj" where
  "set_field k v obj = AList.update k v obj"

definition spread :: "json_obj \<Rightarrow> json_obj \<Rightarrow> json_obj" where
  "spread base overrides = fold (\<lambda>(k, v) obj. set_field k v obj) overrides base"

lemma field_set_field [simp]: "field k (set_field k' v obj) = (if k = k' then Some v else field k obj)"
  by (simp add: field_def set_field_def update_conv)

text \<open>\<open>cleanText\<close> on an untyped value: only strings have text.\<close>

definition as_text :: "json option \<Rightarrow> string option" where
  "as_text v = (case v of Some (JStr s) \<Rightarrow> Some s | _ \<Rightarrow> None)"

definition cleanText :: "json option \<Rightarrow> string option" where
  "cleanText v = clean_text (as_text v)"

lemma cleanText_JStr [simp]: "cleanText (Some (JStr s)) = clean_text (Some s)"
  by (simp add: cleanText_def as_text_def)

lemma cleanText_undefined [simp]: "cleanText None = None" "cleanText (Some JNull) = None"
  by (simp_all add: cleanText_def as_text_def)

lemma clean_text_cleanText [simp]: "clean_text (cleanText v) = cleanText v"
  by (simp add: cleanText_def)

text \<open>\<open>metadataRecord\<close> and \<open>metadataObject\<close> of \<open>sync-replication.ts\<close>: the nested metadata object.\<close>

definition metadataRecord :: "json_obj option \<Rightarrow> json_obj" where
  "metadataRecord p = (case field_of ''metadata_json'' p of Some (JObj ps) \<Rightarrow> ps | _ \<Rightarrow> [])"

section \<open>\<open>String(value)\<close> and \<open>Number(text)\<close>\<close>

fun nat_digits :: "nat \<Rightarrow> string" where
  "nat_digits n = (if n < 10 then [char_of (48 + n)] else nat_digits (n div 10) @ [char_of (48 + n mod 10)])"

declare nat_digits.simps [simp del]

definition int_text :: "int \<Rightarrow> string" where
  "int_text i = (if i < 0 then CHR ''-'' # nat_digits (nat (- i)) else nat_digits (nat i))"

text \<open>Fraction digits until the remainder is zero, at most \<open>fuel\<close> of them: exact for every decimal
  with at most 20 fraction digits, which covers the shortest form of the numbers the payloads carry.\<close>

fun fraction_digits :: "nat \<Rightarrow> rat \<Rightarrow> string" where
  "fraction_digits 0 q = []"
| "fraction_digits (Suc fuel) q =
     (if q = 0 then []
      else char_of (48 + nat \<lfloor>q * 10\<rfloor>) # fraction_digits fuel (q * 10 - of_int \<lfloor>q * 10\<rfloor>))"

definition number_text :: "rat \<Rightarrow> string" where
  "number_text q =
     (let a = \<bar>q\<bar>; ip = \<lfloor>a\<rfloor>; fp = a - of_int ip
      in (if q < 0 then ''-'' else []) @ int_text ip
         @ (if fp = 0 then [] else CHR ''.'' # fraction_digits 20 fp))"

fun join_text :: "string \<Rightarrow> string list \<Rightarrow> string" where
  "join_text sep [] = []"
| "join_text sep [x] = x"
| "join_text sep (x # y # xs) = x @ sep @ join_text sep (y # xs)"

fun js_String :: "json \<Rightarrow> string" where
  "js_String JNull = ''null''"
| "js_String (JBool b) = (if b then ''true'' else ''false'')"
| "js_String (JNum q) = number_text q"
| "js_String (JStr s) = s"
| "js_String (JArr vs) = join_text '','' (map (\<lambda>v. if v = JNull then [] else js_String v) vs)"
| "js_String (JObj ps) = ''[object Object]''"

definition is_digit :: "char \<Rightarrow> bool" where
  "is_digit c \<longleftrightarrow> (let n = (of_char c :: nat) in 48 \<le> n \<and> n \<le> 57)"

definition digit_value :: "char \<Rightarrow> nat" where
  "digit_value c = (let n = (of_char c :: nat) in
     if 48 \<le> n \<and> n \<le> 57 then n - 48
     else if 65 \<le> n \<and> n \<le> 90 then n - 55
     else if 97 \<le> n \<and> n \<le> 122 then n - 87 else 99)"

definition digits_value :: "nat \<Rightarrow> string \<Rightarrow> nat" where
  "digits_value base ds = fold (\<lambda>c acc. acc * base + digit_value c) ds 0"

text \<open>\<open>StrDecimalLiteral\<close>: digits, an optional fraction, an optional exponent.\<close>

definition exponent_value :: "string \<Rightarrow> int option" where
  "exponent_value s =
     (let (neg, ds) = (case s of
          c # t \<Rightarrow> if c = CHR ''-'' then (True, t) else if c = CHR ''+'' then (False, t) else (False, s)
        | [] \<Rightarrow> (False, []))
      in if ds \<noteq> [] \<and> list_all is_digit ds
         then Some (if neg then - int (digits_value 10 ds) else int (digits_value 10 ds)) else None)"

definition decimal_value :: "string \<Rightarrow> rat option" where
  "decimal_value s =
     (let ip = takeWhile is_digit s; r1 = dropWhile is_digit s;
          (fp, r2) = (case r1 of
              c # t \<Rightarrow> if c = CHR ''.'' then (takeWhile is_digit t, dropWhile is_digit t) else ([], r1)
            | [] \<Rightarrow> ([], []));
          mant = (of_nat (digits_value 10 (ip @ fp)) :: rat) / 10 ^ length fp
      in if ip = [] \<and> fp = [] then None
         else (case r2 of
             [] \<Rightarrow> Some mant
           | c # t \<Rightarrow>
               if c = CHR ''e'' \<or> c = CHR ''E''
               then map_option (\<lambda>e. if 0 \<le> e then mant * 10 ^ nat e else mant / 10 ^ nat (- e))
                      (exponent_value t)
               else None))"

definition radix_value :: "nat \<Rightarrow> string \<Rightarrow> rat option" where
  "radix_value base ds =
     (if ds \<noteq> [] \<and> list_all (\<lambda>c. digit_value c < base) ds
      then Some (of_nat (digits_value base ds)) else None)"

text \<open>\<open>Number(text)\<close> where the result is finite; \<open>NaN\<close> and the infinities are \<open>None\<close>. A magnitude of
  \<open>2 ^ 1024 - 2 ^ 970\<close> or more rounds to an infinity.\<close>

definition js_Number :: "string \<Rightarrow> rat option" where
  "js_Number raw =
     (let s = js_trim raw;
          v = (case s of
              [] \<Rightarrow> Some 0
            | c # t \<Rightarrow>
                if c = CHR ''-'' then map_option uminus (decimal_value t)
                else if c = CHR ''+'' then decimal_value t
                else (case t of
                    x # ds \<Rightarrow>
                      if c = CHR ''0'' \<and> (x = CHR ''x'' \<or> x = CHR ''X'') then radix_value 16 ds
                      else if c = CHR ''0'' \<and> (x = CHR ''b'' \<or> x = CHR ''B'') then radix_value 2 ds
                      else if c = CHR ''0'' \<and> (x = CHR ''o'' \<or> x = CHR ''O'') then radix_value 8 ds
                      else decimal_value s
                  | [] \<Rightarrow> decimal_value s))
      in (case v of None \<Rightarrow> None
          | Some q \<Rightarrow> if \<bar>q\<bar> < 2 ^ 1024 - 2 ^ 970 then Some q else None))"

section \<open>Coercions of payload fields\<close>

definition asNumberOrNull :: "json option \<Rightarrow> rat option" where
  "asNumberOrNull v = (case v of
     Some (JNum q) \<Rightarrow> Some q
   | Some (JStr s) \<Rightarrow> if js_trim s \<noteq> [] then js_Number s else None
   | _ \<Rightarrow> None)"

definition asStringOrNull :: "json option \<Rightarrow> string option" where
  "asStringOrNull v = (case v of None \<Rightarrow> None | Some JNull \<Rightarrow> None | Some x \<Rightarrow> Some (js_String x))"

definition json_strings :: "json list \<Rightarrow> string list" where
  "json_strings vs = List.map_filter (\<lambda>v. case v of JStr s \<Rightarrow> Some s | _ \<Rightarrow> None) vs"

definition asStringArrayOrNull :: "json \<Rightarrow> string list option" where
  "asStringArrayOrNull v = (case v of
     JArr vs \<Rightarrow> (let ss = json_strings vs in if ss \<noteq> [] then Some ss else None)
   | _ \<Rightarrow> None)"

text \<open>The text of an optional column as a JSON value, for building payloads from rows.\<close>

definition json_of_text :: "string option \<Rightarrow> json" where
  "json_of_text v = (case v of None \<Rightarrow> JNull | Some s \<Rightarrow> JStr s)"

definition json_of_num :: "rat option \<Rightarrow> json" where
  "json_of_num v = (case v of None \<Rightarrow> JNull | Some q \<Rightarrow> JNum q)"

lemma asStringOrNull_json_of_text [simp]: "asStringOrNull (Some (json_of_text v)) = v"
  by (simp add: asStringOrNull_def json_of_text_def split: option.splits)

lemma asNumberOrNull_json_of_num [simp]: "asNumberOrNull (Some (json_of_num v)) = v"
  by (simp add: asNumberOrNull_def json_of_num_def split: option.splits)

lemma parsePayload_doc [simp]: "parsePayload (Some (JsonDoc v)) = as_object v"
  by (simp add: parsePayload_def text_is_blank_def json_parse_def)

lemma fromJson_toJson [simp]: "fromJson (Some (toJson (JObj ps))) = ps"
  by (simp add: fromJson_def toJson_def text_is_empty_def json_parse_def as_object_def)

section \<open>Digits\<close>

lemma digit_char [simp]:
  assumes "n < 10"
  shows "digit_value (char_of (48 + n)) = n" "is_digit (char_of (48 + n))"
  using assms by (simp_all add: digit_value_def is_digit_def Let_def)

lemma digits_value_snoc: "digits_value b (ds @ [c]) = digits_value b ds * b + digit_value c"
  by (simp add: digits_value_def)

lemma nat_digits_value: "digits_value 10 (nat_digits n) = n"
proof (induction n rule: nat_digits.induct)
  case (1 n)
  show ?case
  proof (cases "n < 10")
    case True
    then show ?thesis by (simp add: nat_digits.simps digits_value_def)
  next
    case False
    with 1 show ?thesis by (subst nat_digits.simps) (simp add: digits_value_snoc)
  qed
qed

lemma nat_digits_digits: "c \<in> set (nat_digits n) \<Longrightarrow> is_digit c"
proof (induction n rule: nat_digits.induct)
  case (1 n)
  then show ?case
    by (subst (asm) (2) nat_digits.simps) (auto split: if_splits)
qed

lemma nat_digits_plain: "CHR '':'' \<notin> set (nat_digits n)" "CHR ''-'' \<notin> set (nat_digits n)" "nat_digits n \<noteq> []"
proof -
  have "\<not> is_digit CHR '':''" "\<not> is_digit CHR ''-''" by code_simp+
  then show "CHR '':'' \<notin> set (nat_digits n)" "CHR ''-'' \<notin> set (nat_digits n)" using nat_digits_digits by blast+
  show "nat_digits n \<noteq> []" by (subst nat_digits.simps) simp
qed

lemma int_text_inj:
  assumes "int_text i = int_text j"
  shows "i = j"
proof -
  have inj: "nat_digits a = nat_digits b \<Longrightarrow> a = b" for a b by (metis nat_digits_value)
  have minus: "nat_digits a \<noteq> CHR ''-'' # s" for a s
    using nat_digits_plain(2) [of a] by (metis list.set_intros(1))
  show ?thesis
  proof (cases "i < 0"; cases "j < 0")
    assume "i < 0" "j < 0"
    with assms inj [of "nat (- i)" "nat (- j)"] show ?thesis by (simp add: int_text_def)
  next
    assume "\<not> i < 0" "\<not> j < 0"
    with assms inj [of "nat i" "nat j"] show ?thesis by (simp add: int_text_def)
  qed (use assms minus in \<open>simp_all add: int_text_def minus [symmetric]\<close>)
qed

lemma int_text_plain: "CHR '':'' \<notin> set (int_text i)"
  using nat_digits_plain(1) by (simp add: int_text_def)

lemma digit_not_space: "is_digit c \<Longrightarrow> \<not> js_space c"
  by (auto simp: is_digit_def js_space_def Let_def)

lemma decimal_value_digits:
  assumes "s \<noteq> []" "list_all is_digit s"
  shows "decimal_value s = Some (of_nat (digits_value 10 s))"
proof -
  have ends: "takeWhile is_digit s = s" "dropWhile is_digit s = []"
    using assms(2) by (auto simp: list_all_iff)
  show ?thesis using assms(1) by (simp add: decimal_value_def Let_def ends)
qed

text \<open>The text of an id reads back as the number.\<close>

lemma js_Number_int_text:
  assumes "0 \<le> i" "i \<le> MAX_SAFE_INTEGER"
  shows "js_Number (int_text i) = Some (of_int i)"
proof -
  let ?s = "nat_digits (nat i)"
  have digits: "list_all is_digit ?s" using nat_digits_digits by (auto simp: list_all_iff)
  have shown: "int_text i = ?s" using assms(1) by (simp add: int_text_def)
  have "\<not> js_space (hd ?s)" "\<not> js_space (last ?s)"
    using digits nat_digits_plain(3) by (auto simp: list_all_iff intro!: digit_not_space)
  then have trim: "js_trim ?s = ?s" using nat_digits_plain(3) by (simp add: js_trim_def trim_by_ends)
  have val: "decimal_value ?s = Some (of_int i)"
    using decimal_value_digits [OF nat_digits_plain(3) digits] assms(1) by (simp add: nat_digits_value)
  have bound: "\<bar>of_int i :: rat\<bar> < 2 ^ 1024 - 2 ^ 970"
  proof -
    have "(of_int i :: rat) \<le> 9007199254740991" using assms(2) by (simp add: MAX_SAFE_INTEGER_def)
    also have "\<dots> < 2 ^ 1024 - 2 ^ 970" by simp
    finally show ?thesis using assms(1) by simp
  qed
  obtain c t where ct: "?s = c # t" using nat_digits_plain(3) by (cases ?s) auto
  have c: "is_digit c" and t: "\<forall>x\<in>set t. is_digit x" using digits ct by (auto simp: list_all_iff)
  have signs: "\<not> is_digit CHR ''-''" "\<not> is_digit CHR ''+''" "\<not> is_digit CHR ''x''" "\<not> is_digit CHR ''X''"
    "\<not> is_digit CHR ''b''" "\<not> is_digit CHR ''B''" "\<not> is_digit CHR ''o''" "\<not> is_digit CHR ''O''"
    by code_simp+
  have first: "c \<noteq> CHR ''-''" "c \<noteq> CHR ''+''" using c signs(1,2) by metis+
  have second: "x \<noteq> CHR ''x''" "x \<noteq> CHR ''X''" "x \<noteq> CHR ''b''" "x \<noteq> CHR ''B''" "x \<noteq> CHR ''o''" "x \<noteq> CHR ''O''"
    if "x \<in> set t" for x
    using t that signs(3-8) by metis+
  have plain: "(case ?s of [] \<Rightarrow> Some 0
      | c # t \<Rightarrow> if c = CHR ''-'' then map_option uminus (decimal_value t)
          else if c = CHR ''+'' then decimal_value t
          else (case t of
              x # ds \<Rightarrow>
                if c = CHR ''0'' \<and> (x = CHR ''x'' \<or> x = CHR ''X'') then radix_value 16 ds
                else if c = CHR ''0'' \<and> (x = CHR ''b'' \<or> x = CHR ''B'') then radix_value 2 ds
                else if c = CHR ''0'' \<and> (x = CHR ''o'' \<or> x = CHR ''O'') then radix_value 8 ds
                else decimal_value ?s
            | [] \<Rightarrow> decimal_value ?s)) = decimal_value ?s"
    using second unfolding ct list.case if_not_P [OF first(1)] if_not_P [OF first(2)] by (cases t) simp_all
  show ?thesis unfolding shown js_Number_def Let_def trim plain using bound by (simp add: val)
qed

end
