(* ===== verification/Sync_State.thy ===== *)
theory Sync_State
  imports Json_Values
begin

text \<open>
  The state of the replication engine: the rows of the SQLite tables it reads and writes
  (\<open>packages/core/src/schema.ts\<close> and the tables the modules create themselves) and the database
  \<open>db\<close> that holds them. A table is the list of its rows in rowid order; the column names carry the
  table's initial. \<open>TEXT\<close> columns that hold JSON have type \<^typ>\<open>json_text option\<close>; nullable columns
  are options; numeric columns that payload values reach unconverted are rationals.

  \<open>ReplicationOp\<close> is the wire and log record of one change (\<open>packages/core/src/types.ts\<close>).
\<close>

record replication_op =
  op_id :: string
  op_entity_type :: string
  op_entity_id :: string
  op_type :: string
  op_payload :: "json_text option"
  op_clock_rev :: int
  op_clock_updated_at :: string
  op_clock_device_id :: string
  op_device_id :: string
  op_created_at :: string
  op_scope_id :: "string option"

record session_row =
  s_id :: int
  s_started_at :: string
  s_ended_at :: "string option"
  s_cwd :: "string option"
  s_project :: "string option"
  s_git_remote :: "string option"
  s_git_branch :: "string option"
  s_user :: "string option"
  s_tool_version :: "string option"
  s_metadata :: "json_text option"
  s_import_key :: "string option"

record memory_row =
  m_id :: int
  m_session_id :: int
  m_kind :: string
  m_title :: string
  m_subtitle :: "string option"
  m_body_text :: string
  m_confidence :: "rat option"
  m_tags_text :: "string option"
  m_active :: "rat option"
  m_created_at :: string
  m_updated_at :: string
  m_metadata :: "json_text option"
  m_actor_id :: "string option"
  m_actor_display_name :: "string option"
  m_visibility :: "string option"
  m_workspace_id :: "string option"
  m_workspace_kind :: "string option"
  m_origin_device_id :: "string option"
  m_origin_source :: "string option"
  m_trust_state :: "string option"
  m_facts :: "json_text option"
  m_narrative :: "string option"
  m_concepts :: "json_text option"
  m_files_read :: "json_text option"
  m_files_modified :: "json_text option"
  m_user_prompt_id :: "rat option"
  m_prompt_number :: "rat option"
  m_deleted_at :: "string option"
  m_rev :: "int option"
  m_dedup_key :: "string option"
  m_import_key :: "string option"
  m_scope_id :: "string option"
  m_project :: "string option"

text \<open>\<open>replication_cursors\<close> and \<open>replication_cursors_v2\<close>: how far a peer was applied and acknowledged.\<close>

record legacy_cursor_row =
  lc_peer :: string
  lc_last_applied :: "string option"
  lc_last_acked :: "string option"
  lc_updated_at :: string

record cursor_row =
  cr_peer :: string
  cr_scope :: string
  cr_last_applied :: "string option"
  cr_last_acked :: "string option"
  cr_updated_at :: string

text \<open>\<open>sync_reset_state\<close> (its row with \<open>id = 1\<close>) and \<open>sync_reset_state_v2\<close>.\<close>

record legacy_reset_row =
  lr_generation :: int
  lr_snapshot_id :: string
  lr_baseline_cursor :: "string option"
  lr_retained_floor_cursor :: "string option"
  lr_updated_at :: string

record reset_row =
  rs_scope :: string
  rs_generation :: int
  rs_snapshot_id :: string
  rs_baseline_cursor :: "string option"
  rs_retained_floor_cursor :: "string option"
  rs_updated_at :: string

record scope_row =
  sc_id :: string
  sc_label :: string
  sc_kind :: string
  sc_authority_type :: string
  sc_coordinator_id :: "string option"
  sc_group_id :: "string option"
  sc_manifest_issuer :: "string option"
  sc_epoch :: int
  sc_manifest_hash :: "string option"
  sc_status :: string
  sc_created_at :: string
  sc_updated_at :: string

record membership_row =
  sm_scope :: string
  sm_device :: string
  sm_role :: string
  sm_status :: string
  sm_epoch :: int
  sm_coordinator_id :: "string option"
  sm_group_id :: "string option"
  sm_manifest_issuer :: "string option"
  sm_manifest_hash :: "string option"
  sm_signed_manifest :: "string option"
  sm_updated_at :: string

record cache_state_row =
  cs_coordinator :: string
  cs_group :: string
  cs_last_refresh_at :: string
  cs_last_success_at :: "string option"
  cs_last_error :: "string option"
  cs_updated_at :: string
  cs_revision :: int

record deny_row =
  dn_project :: string
  dn_scope :: string
  dn_device :: string
  dn_generation :: int
  dn_reason :: string
  dn_created_at :: string
  dn_updated_at :: string

text \<open>The coordinator's answer for a scope (\<open>ScopeMembershipSnapshot\<close>) and the evidence table that keeps it,
  one member per row. The stored JSON is the snapshot it holds, \<open>None\<close> where it does not parse as one.\<close>

record enrollment =
  en_group :: string
  en_device :: string
  en_public_key :: string
  en_fingerprint :: string
  en_identity :: "string option"
  en_display_name :: "string option"
  en_enabled :: int
  en_created_at :: string

record snapshot_item =
  si_membership :: membership_row
  si_enrollment :: enrollment
  si_key_id :: string

record scope_snapshot =
  sn_version :: int
  sn_scope :: scope_row
  sn_items :: "snapshot_item list"

record evidence_row =
  ev_coordinator :: string
  ev_group :: string
  ev_scope :: string
  ev_device :: string
  ev_snapshot :: "scope_snapshot option"

text \<open>Provenance: who a memory identity belongs to, and where it may no longer be.\<close>

record retirement_row =
  rt_entity :: string
  rt_source :: string
  rt_scope :: string
  rt_at :: string

datatype evidence = LocalCreation | AuthenticatedNamespace

record binding_row =
  bd_entity :: string
  bd_source :: string
  bd_evidence :: evidence
  bd_created_at :: string

datatype write_path = ReplicationPath | BootstrapPath | ImportPath

record foreign_row =
  fr_entity :: string
  fr_path :: write_path
  fr_created_at :: string

text \<open>The columns \<open>CREATION_CONTENT_SQL\<close> captures, in its order.\<close>

record creation_content =
  cc_kind :: string
  cc_title :: string
  cc_subtitle :: "string option"
  cc_body_text :: string
  cc_confidence :: "rat option"
  cc_tags_text :: "string option"
  cc_visibility :: "string option"
  cc_workspace_kind :: "string option"
  cc_origin_source :: "string option"
  cc_trust_state :: "string option"
  cc_narrative :: "string option"
  cc_facts :: "json_text option"
  cc_concepts :: "json_text option"
  cc_files_read :: "json_text option"
  cc_files_modified :: "json_text option"
  cc_user_prompt_id :: "rat option"
  cc_prompt_number :: "rat option"
  cc_project :: "string option"
  cc_active :: "rat option"
  cc_deleted_at :: "string option"
  cc_metadata :: json

record creation_row =
  cn_entity :: string
  cn_scope :: "string option"
  cn_content :: creation_content
  cn_public_key :: "string option"
  cn_fingerprint :: "string option"
  cn_created_at :: string

record device_row =
  dv_id :: string
  dv_public_key :: string
  dv_fingerprint :: string
  dv_created_at :: string

record capture_row =
  cp_capture_id :: string
  cp_created_at :: string

record adoption_row =
  ad_capture_id :: string
  ad_device_id :: string
  ad_public_key :: string
  ad_fingerprint :: string
  ad_created_at :: string

record actor_row =
  ac_id :: string
  ac_is_local :: int
  ac_status :: string
  ac_merged_into :: "string option"

record file_ref_row =
  ff_memory :: int
  ff_path :: string
  ff_relation :: string

record concept_ref_row =
  cf_memory :: int
  cf_concept :: string

record peer_row =
  p_device :: string
  p_projects_include :: "json_text option"
  p_projects_exclude :: "json_text option"
  p_claimed_local_actor :: int
  p_actor_id :: "string option"
  p_pinned_fingerprint :: "string option"
  p_public_key :: "string option"
  p_direct_version :: "int option"
  p_name :: "string option"
  p_addresses :: "json_text option"
  p_manual_addresses :: "json_text option"
  p_last_success_address :: "string option"
  p_pending_grant :: "string option"
  p_discovered_coordinator :: "string option"
  p_discovered_group :: "string option"
  p_trust_provenance :: "string option"

text \<open>A row of which only the key is given.\<close>

definition new_peer :: "string \<Rightarrow> peer_row" where
  "new_peer device = \<lparr> p_device = device, p_projects_include = None, p_projects_exclude = None, p_claimed_local_actor = 0,
     p_actor_id = None, p_pinned_fingerprint = None, p_public_key = None, p_direct_version = None, p_name = None,
     p_addresses = None, p_manual_addresses = None, p_last_success_address = None, p_pending_grant = None,
     p_discovered_coordinator = None, p_discovered_group = None, p_trust_provenance = None \<rparr>"

text \<open>\<open>sync_peer_signature_state\<close>, \<open>sync_attempts\<close> and \<open>sync_daemon_state\<close>.\<close>

record signature_row =
  sv_peer :: string
  sv_version :: int

record attempt_row =
  at_id :: int
  at_peer :: string
  at_started_at :: string
  at_finished_at :: "string option"
  at_ok :: int
  at_ops_in :: int
  at_ops_out :: int
  at_error :: "string option"
  at_local_capability :: "string option"
  at_peer_capability :: "string option"
  at_negotiated_capability :: "string option"
  at_failure_category :: "string option"

record daemon_row =
  dm_id :: int
  dm_last_error :: "string option"
  dm_last_traceback :: "string option"
  dm_last_error_at :: "string option"
  dm_last_ok_at :: "string option"
  dm_phase :: "string option"

record rejection_row =
  rj_id :: int
  rj_peer :: "string option"
  rj_op_id :: string
  rj_entity_type :: string
  rj_entity_id :: string
  rj_scope :: "string option"
  rj_reason :: string
  rj_created_at :: string

text \<open>\<open>project_scope_mappings\<close>, \<open>memory_retirement_deliveries\<close>, \<open>memory_retirement_receipts\<close>, \<open>sync_nonces\<close>.\<close>

record mapping_row =
  pm_id :: "int option"
  pm_workspace_identity :: "string option"
  pm_project_pattern :: string
  pm_scope_id :: string
  pm_priority :: "int option"
  pm_source :: "string option"
  pm_updated_at :: "string option"

record delivery_row =
  dl_control :: string
  dl_peer :: string
  dl_entity :: string
  dl_source :: string
  dl_scope :: string
  dl_acknowledged_at :: "string option"

record receipt_row =
  rc_control :: string
  rc_source :: string
  rc_received_at :: string

record nonce_row =
  no_nonce :: string
  no_device :: string
  no_created_at :: string

record db =
  memories :: "memory_row list"
  sessions :: "session_row list"
  ops :: "replication_op list"
  legacy_cursors :: "legacy_cursor_row list"
  cursors :: "cursor_row list"
  legacy_reset :: "legacy_reset_row option"
  reset_states :: "reset_row list"
  scopes :: "scope_row list"
  memberships :: "membership_row list"
  cache_states :: "cache_state_row list"
  scope_evidence :: "evidence_row list"
  deny_overlays :: "deny_row list"
  retirements :: "retirement_row list"
  source_bindings :: "binding_row list"
  creation_snapshots :: "creation_row list"
  foreign_revisions :: "foreign_row list"
  local_capture :: "capture_row option"
  capture_adoptions :: "adoption_row list"
  sync_devices :: "device_row list"
  actors :: "actor_row list"
  file_refs :: "file_ref_row list"
  concept_refs :: "concept_ref_row list"
  peers :: "peer_row list"
  rejections :: "rejection_row list"
  scope_mappings :: "mapping_row list"
  retirement_deliveries :: "delivery_row list"
  retirement_receipts :: "receipt_row list"
  nonces :: "nonce_row list"
  signature_states :: "signature_row list"
  sync_attempts :: "attempt_row list"
  daemon_states :: "daemon_row list"

text \<open>A freshly created database.\<close>

definition empty_db :: db where
  "empty_db = \<lparr> memories = [], sessions = [], ops = [], legacy_cursors = [], cursors = [], legacy_reset = None,
     reset_states = [], scopes = [], memberships = [], cache_states = [], scope_evidence = [], deny_overlays = [],
     retirements = [], source_bindings = [], creation_snapshots = [], foreign_revisions = [],
     local_capture = None, capture_adoptions = [], sync_devices = [], actors = [], file_refs = [],
     concept_refs = [], peers = [], rejections = [], scope_mappings = [], retirement_deliveries = [],
     retirement_receipts = [], nonces = [], signature_states = [],
     sync_attempts = [], daemon_states = [] \<rparr>"

text \<open>An op on a memory, for the concrete instances: its id, key, kind, revision and device, in the scope
  ''team'' with a small payload.\<close>

definition sample_op :: "string \<Rightarrow> string \<Rightarrow> string \<Rightarrow> int \<Rightarrow> string \<Rightarrow> replication_op" where
  "sample_op i k t rv dev = \<lparr> op_id = i, op_entity_type = ''memory_item'', op_entity_id = k, op_type = t,
     op_payload = Some (JsonDoc (JObj [(''title'', JStr ''t'')])), op_clock_rev = rv,
     op_clock_updated_at = ''2026'', op_clock_device_id = dev, op_device_id = dev,
     op_created_at = ''2026'', op_scope_id = Some ''team'' \<rparr>"

definition DEFAULT_SYNC_SCOPE_ID :: string where
  "DEFAULT_SYNC_SCOPE_ID = ''local-default''"

definition ACCESS_CLEANUP_OP_TYPE :: string where
  "ACCESS_CLEANUP_OP_TYPE = ''access_cleanup''"

definition REASSIGN_SCOPE_OP_TYPE :: string where
  "REASSIGN_SCOPE_OP_TYPE = ''reassign_scope''"

definition LEGACY_SHARED_REVIEW_SCOPE_ID :: string where
  "LEGACY_SHARED_REVIEW_SCOPE_ID = ''legacy-shared-review''"

text \<open>\<open>normalizeCursor\<close> and \<open>normalizeSyncStateScopeId\<close>.\<close>

definition normalizeCursor :: "string option \<Rightarrow> string option" where
  "normalizeCursor v = (let trimmed = js_trim (or_default v []) in
     if trimmed \<noteq> [] then Some trimmed else None)"

definition normalizeSyncStateScopeId :: "string option \<Rightarrow> string" where
  "normalizeSyncStateScopeId v = (let trimmed = js_trim (or_default v []) in
     if trimmed \<noteq> [] then trimmed else DEFAULT_SYNC_SCOPE_ID)"

lemma normalizeCursor_clean [text_simps]: "normalizeCursor v = clean_text v"
  by (simp add: normalizeCursor_def clean_text_def or_default_def split: option.splits)

lemma normalizeSyncStateScopeId_clean:
  "normalizeSyncStateScopeId v = or_default (clean_text v) DEFAULT_SYNC_SCOPE_ID"
  by (simp add: normalizeSyncStateScopeId_def clean_text_def split: option.splits)

lemma normalizeSyncStateScopeId_None [simp]: "normalizeSyncStateScopeId None = DEFAULT_SYNC_SCOPE_ID"
  by (simp add: normalizeSyncStateScopeId_def)

end
