(* ===== verification/Op_Batches.thy ===== *)
theory Op_Batches
  imports Sync_State
begin

text \<open>
  Splitting the outbound ops into request bodies (\<open>chunkOpsBySize\<close>) and picking the well-formed ops out
  of a received body (\<open>extractReplicationOps\<close>), \<open>packages/core/src/sync-replication.ts\<close>. The byte counts
  are those of \<open>JSON.stringify\<close> under UTF-8, modelled here for the values the log carries.
\<close>

section \<open>\<open>JSON.stringify\<close> and UTF-8 length\<close>

definition hex_digit :: "nat \<Rightarrow> char" where
  "hex_digit n = (if n < 10 then char_of (48 + n) else char_of (87 + n))"

definition json_escape :: "char \<Rightarrow> string" where
  "json_escape c = (let n = (of_char c :: nat) in
     if n = 34 then [CHR 0x5C, CHR 0x22]
     else if n = 92 then [CHR 0x5C, CHR 0x5C]
     else if n = 8 then [CHR 0x5C, CHR ''b'']
     else if n = 12 then [CHR 0x5C, CHR ''f'']
     else if n = 10 then [CHR 0x5C, CHR ''n'']
     else if n = 13 then [CHR 0x5C, CHR ''r'']
     else if n = 9 then [CHR 0x5C, CHR ''t'']
     else if n < 32 then CHR 0x5C # ''u00'' @ [hex_digit (n div 16), hex_digit (n mod 16)]
     else [c])"

definition json_quote :: "string \<Rightarrow> string" where
  "json_quote s = CHR 0x22 # concat (map json_escape s) @ [CHR 0x22]"

fun json_stringify :: "json \<Rightarrow> string" where
  "json_stringify JNull = ''null''"
| "json_stringify (JBool b) = (if b then ''true'' else ''false'')"
| "json_stringify (JNum q) = number_text q"
| "json_stringify (JStr s) = json_quote s"
| "json_stringify (JArr vs) = ''['' @ join_text '','' (map json_stringify vs) @ '']''"
| "json_stringify (JObj ps) =
     ''{'' @ join_text '','' (map (\<lambda>p. json_quote (fst p) @ '':'' @ json_stringify (snd p)) ps) @ ''}''"

text \<open>The bytes of \<open>TextEncoder.encode\<close>: one below code unit 128, two up to 255.\<close>

definition char_bytes :: "char \<Rightarrow> nat" where
  "char_bytes c = (if (of_char c :: nat) < 128 then 1 else 2)"

definition utf8_length :: "string \<Rightarrow> nat" where
  "utf8_length s = sum_list (map char_bytes s)"

text \<open>The text of a payload column: the serialised document, or the text that did not parse.\<close>

definition payload_text :: "json_text \<Rightarrow> string" where
  "payload_text t = (case t of JsonDoc v \<Rightarrow> json_stringify v | BadText s \<Rightarrow> s)"

definition op_json :: "replication_op \<Rightarrow> json" where
  "op_json r = JObj [
     (''op_id'', JStr (op_id r)),
     (''entity_type'', JStr (op_entity_type r)),
     (''entity_id'', JStr (op_entity_id r)),
     (''op_type'', JStr (op_type r)),
     (''payload_json'', json_of_text (map_option payload_text (op_payload r))),
     (''clock_rev'', JNum (of_int (op_clock_rev r))),
     (''clock_updated_at'', JStr (op_clock_updated_at r)),
     (''clock_device_id'', JStr (op_clock_device_id r)),
     (''device_id'', JStr (op_device_id r)),
     (''created_at'', JStr (op_created_at r)),
     (''scope_id'', json_of_text (op_scope_id r))]"

definition op_bytes :: "replication_op \<Rightarrow> int" where
  "op_bytes r = int (utf8_length (json_stringify (op_json r)))"

text \<open>The request body of a batch, \<open>JSON.stringify({ ops })\<close>, and its size on the wire.\<close>

definition batch_body :: "replication_op list \<Rightarrow> string" where
  "batch_body batch = json_stringify (JObj [(''ops'', JArr (map op_json batch))])"

definition body_bytes :: "replication_op list \<Rightarrow> int" where
  "body_bytes batch = int (utf8_length (batch_body batch))"

section \<open>Chunking\<close>

definition WRAPPER_OVERHEAD :: int where "WRAPPER_OVERHEAD = 9"
definition COMMA_OVERHEAD :: int where "COMMA_OVERHEAD = 1"

definition single_op_error :: string where
  "single_op_error = ''single op exceeds size limit''"

fun chunk_loop :: "int \<Rightarrow> replication_op list list \<Rightarrow> replication_op list \<Rightarrow> int \<Rightarrow>
    replication_op list \<Rightarrow> string + replication_op list list" where
  "chunk_loop maxBytes batches current currentBytes [] =
     Inr (if current \<noteq> [] then batches @ [current] else batches)"
| "chunk_loop maxBytes batches current currentBytes (r # rest) =
     (let opBytes = op_bytes r;
          addedBytes = (if current = [] then opBytes else opBytes + COMMA_OVERHEAD)
      in if currentBytes + addedBytes \<le> maxBytes
         then chunk_loop maxBytes batches (current @ [r]) (currentBytes + addedBytes) rest
         else if current = [] then Inl single_op_error
         else if WRAPPER_OVERHEAD + opBytes > maxBytes then Inl single_op_error
         else chunk_loop maxBytes (batches @ [current]) [r] (WRAPPER_OVERHEAD + opBytes) rest)"

definition chunkOpsBySize :: "replication_op list \<Rightarrow> int \<Rightarrow> string + replication_op list list" where
  "chunkOpsBySize rs maxBytes = chunk_loop maxBytes [] [] WRAPPER_OVERHEAD rs"

text \<open>What the loop adds up for a batch.\<close>

definition counted_bytes :: "replication_op list \<Rightarrow> int" where
  "counted_bytes batch = WRAPPER_OVERHEAD + sum_list (map op_bytes batch)
     + COMMA_OVERHEAD * (int (length batch) - (if batch = [] then 0 else 1))"

lemma counted_bytes_simps [simp]:
  "counted_bytes [] = WRAPPER_OVERHEAD"
  "counted_bytes [r] = WRAPPER_OVERHEAD + op_bytes r"
  by (simp_all add: counted_bytes_def)

lemma counted_bytes_snoc:
  "counted_bytes (batch @ [r]) =
     counted_bytes batch + (if batch = [] then op_bytes r else op_bytes r + COMMA_OVERHEAD)"
  by (simp add: counted_bytes_def algebra_simps)

lemma op_bytes_nonneg [simp]: "0 \<le> op_bytes r"
  by (simp add: op_bytes_def)

lemma counted_bytes_mono: "r \<in> set batch \<Longrightarrow> WRAPPER_OVERHEAD + op_bytes r \<le> counted_bytes batch"
proof -
  assume r: "r \<in> set batch"
  have "sum_list (map op_bytes batch) \<ge> op_bytes r"
    using r member_le_sum_list [of "op_bytes r" "map op_bytes batch"]
    by (intro member_le_sum_list) auto
  moreover have "0 \<le> COMMA_OVERHEAD * (int (length batch) - (if batch = [] then 0 else 1))"
    using r by (cases batch) (auto simp: COMMA_OVERHEAD_def)
  ultimately show ?thesis by (simp add: counted_bytes_def)
qed

subsection \<open>The size of the body\<close>

lemma utf8_length_simps [simp]:
  "utf8_length [] = 0"
  "utf8_length (c # s) = char_bytes c + utf8_length s"
  "utf8_length (s @ t) = utf8_length s + utf8_length t"
  by (simp_all add: utf8_length_def)

lemma utf8_length_join:
  "utf8_length (join_text sep ss) =
     sum_list (map utf8_length ss) + utf8_length sep * (length ss - 1)"
  by (induction sep ss rule: join_text.induct) (simp_all add: algebra_simps)

lemma wrapper_bytes:
  "batch_body batch = CHR ''{'' # json_quote ''ops'' @ '':['' @
     join_text '','' (map (\<lambda>r. json_stringify (op_json r)) batch) @ '']}''"
  by (simp add: batch_body_def comp_def)

lemma body_bytes_counted: "body_bytes batch = counted_bytes batch + 1"
proof -
  have quote: "utf8_length (json_quote ''ops'') = 5" by code_simp
  have ascii: "char_bytes CHR ''{'' = 1" "char_bytes CHR '':'' = 1" "char_bytes CHR ''['' = 1"
    "char_bytes CHR '']'' = 1" "char_bytes CHR ''}'' = 1" "char_bytes CHR '','' = 1"
    by code_simp+
  have comma: "int (length batch - Suc 0) = int (length batch) - (if batch = [] then 0 else 1)"
    by (cases batch) auto
  have sums: "int (sum_list (map (utf8_length \<circ> (\<lambda>r. json_stringify (op_json r))) batch))
      = sum_list (map op_bytes batch)"
    by (induction batch) (simp_all add: op_bytes_def)
  have "body_bytes batch = 10 + int (sum_list (map (utf8_length \<circ> (\<lambda>r. json_stringify (op_json r))) batch))
      + int (length batch - Suc 0)"
    by (simp add: body_bytes_def wrapper_bytes utf8_length_join quote ascii)
  then show ?thesis
    by (simp add: sums comma counted_bytes_def WRAPPER_OVERHEAD_def COMMA_OVERHEAD_def)
qed

subsection \<open>The loop\<close>

text \<open>The batches cover the ops in order, none is empty, each is counted within the limit, and none
  could have taken the first op of the next one.\<close>

definition maximal_batches :: "int \<Rightarrow> replication_op list list \<Rightarrow> bool" where
  "maximal_batches maxBytes bs \<longleftrightarrow>
     (\<forall>i < length bs - 1. counted_bytes (bs ! i @ [hd (bs ! Suc i)]) > maxBytes)"

lemma maximal_batches_snoc:
  assumes "maximal_batches maxBytes bs"
    and "bs \<noteq> [] \<Longrightarrow> counted_bytes (last bs @ [hd b]) > maxBytes"
  shows "maximal_batches maxBytes (bs @ [b])"
  unfolding maximal_batches_def
proof (intro allI impI)
  fix i
  assume i: "i < length (bs @ [b]) - 1"
  show "counted_bytes ((bs @ [b]) ! i @ [hd ((bs @ [b]) ! Suc i)]) > maxBytes"
  proof (cases "i = length bs - 1")
    case True
    then have "bs \<noteq> []" using i by auto
    moreover from this have "last bs = bs ! i" using True by (simp add: last_conv_nth)
    ultimately show ?thesis using assms(2) True by (simp add: nth_append)
  next
    case False
    then have "i < length bs - 1" using i by auto
    moreover from this have "Suc i < length bs" "i < length bs" by auto
    ultimately show ?thesis using assms(1) by (simp add: maximal_batches_def nth_append)
  qed
qed

lemma chunk_loop_Cons:
  assumes "added = (if current = [] then op_bytes r else op_bytes r + COMMA_OVERHEAD)"
  shows "chunk_loop maxBytes batches current currentBytes (r # rest) =
    (if currentBytes + added \<le> maxBytes
     then chunk_loop maxBytes batches (current @ [r]) (currentBytes + added) rest
     else if current = [] \<or> WRAPPER_OVERHEAD + op_bytes r > maxBytes then Inl single_op_error
     else chunk_loop maxBytes (batches @ [current]) [r] (WRAPPER_OVERHEAD + op_bytes r) rest)"
  unfolding assms chunk_loop.simps Let_def by simp

lemma chunk_loop_result:
  assumes "chunk_loop maxBytes batches current currentBytes rs = Inr bs"
    and "currentBytes = counted_bytes current"
    and "current \<noteq> [] \<Longrightarrow> counted_bytes current \<le> maxBytes"
    and "\<forall>b\<in>set batches. b \<noteq> [] \<and> counted_bytes b \<le> maxBytes"
    and "maximal_batches maxBytes batches"
    and "batches \<noteq> [] \<Longrightarrow> current \<noteq> [] \<and> counted_bytes (last batches @ [hd current]) > maxBytes"
  shows "concat bs = concat batches @ current @ rs
    \<and> (\<forall>b\<in>set bs. b \<noteq> [] \<and> counted_bytes b \<le> maxBytes) \<and> maximal_batches maxBytes bs"
  using assms
proof (induction maxBytes batches current currentBytes rs arbitrary: bs rule: chunk_loop.induct)
  case (1 maxBytes batches current currentBytes)
  then show ?case by (cases "current = []") (auto simp: maximal_batches_snoc)
next
  case (2 maxBytes batches current currentBytes r rest)
  define added where "added = (if current = [] then op_bytes r else op_bytes r + COMMA_OVERHEAD)"
  have snoc: "counted_bytes (current @ [r]) = currentBytes + added"
    using 2(4) by (simp add: counted_bytes_snoc added_def)
  show ?case
  proof (cases "currentBytes + added \<le> maxBytes")
    case True
    have run: "chunk_loop maxBytes batches (current @ [r]) (currentBytes + added) rest = Inr bs"
      using 2(3) True by (simp only: chunk_loop_Cons [OF added_def] if_True)
    have "concat bs = concat batches @ (current @ [r]) @ rest
      \<and> (\<forall>b\<in>set bs. b \<noteq> [] \<and> counted_bytes b \<le> maxBytes) \<and> maximal_batches maxBytes bs"
    proof (rule 2(1) [OF refl added_def True run])
      show "batches \<noteq> [] \<Longrightarrow> current @ [r] \<noteq> []
          \<and> counted_bytes (last batches @ [hd (current @ [r])]) > maxBytes"
        using 2(8) by (simp add: hd_append)
    qed (use 2(4-7) True snoc in auto)
    then show ?thesis by simp
  next
    case False
    with 2(3) have cur: "current \<noteq> []" and fits: "\<not> WRAPPER_OVERHEAD + op_bytes r > maxBytes"
      and run: "chunk_loop maxBytes (batches @ [current]) [r] (WRAPPER_OVERHEAD + op_bytes r) rest = Inr bs"
      by (simp_all only: chunk_loop_Cons [OF added_def] if_False split: if_splits) auto
    have "concat bs = concat (batches @ [current]) @ [r] @ rest
      \<and> (\<forall>b\<in>set bs. b \<noteq> [] \<and> counted_bytes b \<le> maxBytes) \<and> maximal_batches maxBytes bs"
    proof (rule 2(2) [OF refl added_def False cur fits run])
      show "maximal_batches maxBytes (batches @ [current])"
        using 2(7,8) by (simp add: maximal_batches_snoc)
    qed (use 2(4-6) cur fits False snoc in auto)
    then show ?thesis by simp
  qed
qed

lemma chunk_loop_error:
  assumes "currentBytes = counted_bytes current"
  shows "(\<exists>e. chunk_loop maxBytes batches current currentBytes rs = Inl e)
    \<longleftrightarrow> (\<exists>r\<in>set rs. WRAPPER_OVERHEAD + op_bytes r > maxBytes)"
  using assms
proof (induction maxBytes batches current currentBytes rs rule: chunk_loop.induct)
  case (1 maxBytes batches current currentBytes)
  then show ?case by simp
next
  case (2 maxBytes batches current currentBytes r rest)
  define added where "added = (if current = [] then op_bytes r else op_bytes r + COMMA_OVERHEAD)"
  have snoc: "counted_bytes (current @ [r]) = currentBytes + added"
    using 2(3) by (simp add: counted_bytes_snoc added_def)
  show ?case
  proof (cases "currentBytes + added \<le> maxBytes")
    case True
    have "WRAPPER_OVERHEAD + op_bytes r \<le> maxBytes"
      using counted_bytes_mono [of r "current @ [r]"] snoc True by simp
    moreover have "(\<exists>e. chunk_loop maxBytes batches (current @ [r]) (currentBytes + added) rest = Inl e)
        \<longleftrightarrow> (\<exists>r\<in>set rest. WRAPPER_OVERHEAD + op_bytes r > maxBytes)"
      using 2(1) [OF refl added_def True] snoc by simp
    ultimately show ?thesis using True
      by (simp only: chunk_loop_Cons [OF added_def] if_True) auto
  next
    case False
    note no_room = False
    show ?thesis
    proof (cases "current = [] \<or> WRAPPER_OVERHEAD + op_bytes r > maxBytes")
      case True
      moreover from this have "WRAPPER_OVERHEAD + op_bytes r > maxBytes"
        using no_room 2(3) by (auto simp: added_def)
      ultimately show ?thesis using no_room
        by (simp only: chunk_loop_Cons [OF added_def] if_True if_False) auto
    next
      case False
      then have cur: "current \<noteq> []" and fits: "\<not> WRAPPER_OVERHEAD + op_bytes r > maxBytes" by auto
      have "(\<exists>e. chunk_loop maxBytes (batches @ [current]) [r] (WRAPPER_OVERHEAD + op_bytes r) rest = Inl e)
        \<longleftrightarrow> (\<exists>r\<in>set rest. WRAPPER_OVERHEAD + op_bytes r > maxBytes)"
        by (rule 2(2) [OF refl added_def no_room cur fits counted_bytes_simps(2) [symmetric]])
      with False no_room show ?thesis
        by (simp only: chunk_loop_Cons [OF added_def] if_False) auto
    qed
  qed
qed

section \<open>Extraction\<close>

definition REQUIRED_OP_FIELDS :: "string list" where
  "REQUIRED_OP_FIELDS = [''op_id'', ''entity_type'', ''entity_id'', ''op_type'', ''clock_rev'',
     ''clock_updated_at'', ''clock_device_id'', ''device_id'', ''created_at'']"

definition well_formed_op :: "json \<Rightarrow> bool" where
  "well_formed_op v = (case v of
     JObj ps \<Rightarrow> list_all (\<lambda>f. \<not> nullish (field f ps)) REQUIRED_OP_FIELDS
   | _ \<Rightarrow> False)"

definition extractReplicationOps :: "json \<Rightarrow> json list" where
  "extractReplicationOps payload = (case payload of
     JObj ps \<Rightarrow> (case field ''ops'' ps of Some (JArr vs) \<Rightarrow> filter well_formed_op vs | _ \<Rightarrow> [])
   | _ \<Rightarrow> [])"

end
