(* ===== verification/Memory_Refs.thy ===== *)
theory Memory_Refs
  imports Op_Batches
begin

text \<open>
  Bookkeeping around a memory row: the file and concept references kept beside it
  (\<open>packages/core/src/ref-populate.ts\<close>) and the export key its session must keep when its memories go
  (\<open>session-export-identity.ts\<close>, \<open>session-export-identity-mutation.ts\<close>). \<open>sha256\<close> is the hex digest.
\<close>

section \<open>References\<close>

definition normalizeConcept :: "string \<Rightarrow> string" where
  "normalizeConcept c = js_lower (js_trim c)"

definition clearMemoryRefs :: "db \<Rightarrow> int \<Rightarrow> db" where
  "clearMemoryRefs d memoryId =
     d\<lparr> file_refs := delete_where (\<lambda>f. ff_memory f = memoryId) (file_refs d),
        concept_refs := delete_where (\<lambda>c. cf_memory c = memoryId) (concept_refs d) \<rparr>"

definition file_ref_key :: "file_ref_row \<Rightarrow> int \<times> string \<times> string" where
  "file_ref_key f = (ff_memory f, ff_path f, ff_relation f)"

definition concept_ref_key :: "concept_ref_row \<Rightarrow> int \<times> string" where
  "concept_ref_key c = (cf_memory c, cf_concept c)"

definition insert_file_refs :: "int \<Rightarrow> string \<Rightarrow> string list option \<Rightarrow> file_ref_row list \<Rightarrow> file_ref_row list" where
  "insert_file_refs memoryId relation paths rows =
     fold (\<lambda>p. if p = [] then (\<lambda>rs. rs)
               else insert_or_ignore file_ref_key \<lparr> ff_memory = memoryId, ff_path = p, ff_relation = relation \<rparr>)
       (or_default paths []) rows"

definition insert_concept_refs :: "int \<Rightarrow> string list option \<Rightarrow> concept_ref_row list \<Rightarrow> concept_ref_row list" where
  "insert_concept_refs memoryId concepts rows =
     fold (\<lambda>c. if normalizeConcept c = [] then (\<lambda>rs. rs)
               else insert_or_ignore concept_ref_key \<lparr> cf_memory = memoryId, cf_concept = normalizeConcept c \<rparr>)
       (or_default concepts []) rows"

definition populateMemoryRefs ::
    "db \<Rightarrow> int \<Rightarrow> string list option \<Rightarrow> string list option \<Rightarrow> string list option \<Rightarrow> db" where
  "populateMemoryRefs d memoryId filesRead filesModified concepts =
     d\<lparr> file_refs := insert_file_refs memoryId ''modified'' filesModified
          (insert_file_refs memoryId ''read'' filesRead (file_refs d)),
        concept_refs := insert_concept_refs memoryId concepts (concept_refs d) \<rparr>"

section \<open>Session export keys\<close>

definition nonblankString :: "string option \<Rightarrow> string option" where
  "nonblankString v = (case v of None \<Rightarrow> None | Some s \<Rightarrow> if js_trim s \<noteq> [] then Some s else None)"

definition hash_identity :: "(string \<Rightarrow> string) \<Rightarrow> json \<Rightarrow> string" where
  "hash_identity sha256 v = sha256 (json_stringify v)"

definition session_key_prefix :: string where "session_key_prefix = ''export-session:v1:''"
definition remap_infix :: string where "remap_infix = '':remap:''"

definition hex_char :: "char \<Rightarrow> bool" where
  "hex_char c = (let n = (of_char c :: nat) in (97 \<le> n \<and> n \<le> 102) \<or> (48 \<le> n \<and> n \<le> 57))"

definition hex64 :: "string \<Rightarrow> bool" where
  "hex64 s \<longleftrightarrow> length s = 64 \<and> list_all hex_char s"

definition isCanonicalSessionKey :: "string option \<Rightarrow> bool" where
  "isCanonicalSessionKey v = (case v of
     None \<Rightarrow> False
   | Some s \<Rightarrow> starts_with session_key_prefix s
       \<and> (let rest = drop (length session_key_prefix) s; tail_part = drop 64 rest in
          hex64 (take 64 rest)
          \<and> (tail_part = [] \<or> (starts_with remap_infix tail_part \<and> hex64 (drop (length remap_infix) tail_part)))))"

definition firstNonblankMemoryKey :: "db \<Rightarrow> int \<Rightarrow> string option" where
  "firstNonblankMemoryKey d sessionId =
     (case first_where (\<lambda>m. m_session_id m = sessionId \<and> nonblankString (m_import_key m) \<noteq> None) (memories d) of
        None \<Rightarrow> None | Some m \<Rightarrow> m_import_key m)"

definition exportedSessionKey :: "(string \<Rightarrow> string) \<Rightarrow> db \<Rightarrow> session_row \<Rightarrow> string + string" where
  "exportedSessionKey sha256 d row =
     (let sourceKey = nonblankString (s_import_key row) in
      if isCanonicalSessionKey sourceKey then Inr (or_default sourceKey [])
      else (case sourceKey of
              Some k \<Rightarrow> Inr (session_key_prefix @ hash_identity sha256 (JArr [JStr ''import_key'', JStr k]))
            | None \<Rightarrow>
                (case firstNonblankMemoryKey d (s_id row) of
                   None \<Rightarrow> Inl ''session_identity_unavailable: session has no immutable source key''
                 | Some k \<Rightarrow> Inr (session_key_prefix @ hash_identity sha256 (JArr [JStr ''memory_key'', JStr k])))))"

definition remappedSessionKey :: "(string \<Rightarrow> string) \<Rightarrow> string \<Rightarrow> string \<Rightarrow> string" where
  "remappedSessionKey sha256 marker remapProject =
     (let cut = length marker - (64 + length remap_infix);
          suffix = drop cut marker;
          base = (if 64 + length remap_infix \<le> length marker \<and> starts_with remap_infix suffix
                    \<and> hex64 (drop (length remap_infix) suffix)
                  then take cut marker else marker)
      in base @ remap_infix @ hash_identity sha256 (JStr remapProject))"

definition snapshot_session :: "(string \<Rightarrow> string) \<Rightarrow> session_row \<Rightarrow> db \<Rightarrow> string + db" where
  "snapshot_session sha256 row d =
     (if nonblankString (s_import_key row) \<noteq> None then Inr d
      else if firstNonblankMemoryKey d (s_id row) = None then Inr d
      else (case exportedSessionKey sha256 d row of
              Inl e \<Rightarrow> Inl e
            | Inr key \<Rightarrow> Inr (d\<lparr> sessions := update_where
                (\<lambda>s. s_id s = s_id row \<and> s_import_key s = s_import_key row)
                (\<lambda>s. s\<lparr> s_import_key := Some key \<rparr>) (sessions d) \<rparr>)))"

fun snapshot_sessions :: "(string \<Rightarrow> string) \<Rightarrow> session_row list \<Rightarrow> db \<Rightarrow> string + db" where
  "snapshot_sessions sha256 [] d = Inr d"
| "snapshot_sessions sha256 (row # rows) d =
     (case snapshot_session sha256 row d of Inl e \<Rightarrow> Inl e | Inr d' \<Rightarrow> snapshot_sessions sha256 rows d')"

definition snapshotSessionExportKeysForMemoryIds ::
    "(string \<Rightarrow> string) \<Rightarrow> bool \<Rightarrow> db \<Rightarrow> int list \<Rightarrow> string + db" where
  "snapshotSessionExportKeysForMemoryIds sha256 in_tx d memoryIds =
     (if \<not> in_tx then Inl ''session_export_identity_transaction_required''
      else snapshot_sessions sha256
             (filter (\<lambda>s. exists_where (\<lambda>m. m_id m \<in> set memoryIds \<and> m_session_id m = s_id s) (memories d))
                (sessions d)) d)"

section \<open>Lemmas\<close>

lemma populate_keeps_others [frame]:
  "memories (populateMemoryRefs d i a b c) = memories d" "ops (populateMemoryRefs d i a b c) = ops d"
  "retirements (populateMemoryRefs d i a b c) = retirements d"
  "memories (clearMemoryRefs d i) = memories d" "ops (clearMemoryRefs d i) = ops d"
  "retirements (clearMemoryRefs d i) = retirements d"
  by (simp_all add: populateMemoryRefs_def clearMemoryRefs_def)

text \<open>After a rewrite the references of a memory are those of its payload, once each.\<close>

lemma set_insert_or_ignore_eq:
  assumes "inj key"
  shows "set (insert_or_ignore key new rows) = insert new (set rows)"
  using assms by (auto simp: insert_or_ignore_def exists_where_iff inj_def)

lemma inj_file_ref_key: "inj file_ref_key" and inj_concept_ref_key: "inj concept_ref_key"
  by (auto simp: inj_def file_ref_key_def concept_ref_key_def)

lemma set_insert_file_refs:
  "set (insert_file_refs i rel paths rows) =
     set rows \<union> {\<lparr> ff_memory = i, ff_path = p, ff_relation = rel \<rparr> | p. p \<in> set (or_default paths []) \<and> p \<noteq> []}"
proof -
  have "set (fold (\<lambda>p. if p = [] then (\<lambda>rs. rs)
        else insert_or_ignore file_ref_key \<lparr> ff_memory = i, ff_path = p, ff_relation = rel \<rparr>) ps rows)
      = set rows \<union> {\<lparr> ff_memory = i, ff_path = p, ff_relation = rel \<rparr> | p. p \<in> set ps \<and> p \<noteq> []}" for ps
    by (induction ps arbitrary: rows) (auto simp: set_insert_or_ignore_eq [OF inj_file_ref_key])
  then show ?thesis by (simp add: insert_file_refs_def)
qed

lemma set_insert_concept_refs:
  "set (insert_concept_refs i cs rows) =
     set rows \<union> {\<lparr> cf_memory = i, cf_concept = normalizeConcept c \<rparr> | c. c \<in> set (or_default cs []) \<and> normalizeConcept c \<noteq> []}"
proof -
  have "set (fold (\<lambda>c. if normalizeConcept c = [] then (\<lambda>rs. rs)
        else insert_or_ignore concept_ref_key \<lparr> cf_memory = i, cf_concept = normalizeConcept c \<rparr>) ps rows)
      = set rows \<union> {\<lparr> cf_memory = i, cf_concept = normalizeConcept c \<rparr> | c. c \<in> set ps \<and> normalizeConcept c \<noteq> []}" for ps
    by (induction ps arbitrary: rows) (auto simp: set_insert_or_ignore_eq [OF inj_concept_ref_key])
  then show ?thesis by (simp add: insert_concept_refs_def)
qed

text \<open>Saving the export keys always succeeds and touches the sessions only.\<close>

lemma snapshot_session_only: "\<exists>ss. snapshot_session sha row d = Inr (d\<lparr> sessions := ss \<rparr>)"
proof -
  have "\<exists>ss. d = d\<lparr> sessions := ss \<rparr>" by (rule exI [of _ "sessions d"]) simp
  then show ?thesis
    by (auto simp: snapshot_session_def exportedSessionKey_def Let_def split: option.splits sum.splits)
qed

lemma snapshot_sessions_only: "\<exists>ss. snapshot_sessions sha rows d = Inr (d\<lparr> sessions := ss \<rparr>)"
proof (induction rows arbitrary: d)
  case Nil
  have "d = d\<lparr> sessions := sessions d \<rparr>" by simp
  then show ?case unfolding snapshot_sessions.simps by blast
next
  case (Cons row rows)
  from snapshot_session_only [of sha row d] obtain ss where
    ss: "snapshot_session sha row d = Inr (d\<lparr> sessions := ss \<rparr>)" by blast
  from Cons.IH [of "d\<lparr> sessions := ss \<rparr>"] show ?case by (simp add: ss)
qed

lemma snapshotSessionExportKeys_only:
  "\<exists>ss. snapshotSessionExportKeysForMemoryIds sha True d ids = Inr (d\<lparr> sessions := ss \<rparr>)"
  using snapshot_sessions_only by (simp add: snapshotSessionExportKeysForMemoryIds_def)

end
