(* ===== verification/Reset_Boundary.thy ===== *)
theory Reset_Boundary
  imports Sync_State
begin

text \<open>
  The reset boundary of a scope: generation, snapshot and retained floor a peer's cursor is checked
  against (\<open>resetBoundaryFromRow\<close>, \<open>getSyncResetState\<close>, \<open>setSyncResetState\<close> of
  \<open>packages/core/src/sync-replication.ts\<close>). Reading creates the boundary when there is none; the default
  scope is seeded from and mirrored to the legacy single-row table.
\<close>

text \<open>\<open>SyncResetBoundary\<close>; \<open>scope_id\<close> is only present when the caller named a scope.\<close>

record reset_boundary =
  rb_scope_id :: "string option"
  rb_generation :: int
  rb_snapshot_id :: string
  rb_baseline_cursor :: "string option"
  rb_retained_floor_cursor :: "string option"

text \<open>\<open>Partial<SyncResetBoundary>\<close>: an outer \<open>None\<close> is a property left out.\<close>

record reset_updates =
  ru_scope_id :: "string option option"
  ru_generation :: "int option"
  ru_snapshot_id :: "string option"
  ru_baseline_cursor :: "string option option"
  ru_retained_floor_cursor :: "string option option"

definition shouldReturnScopeId :: "string option option \<Rightarrow> bool" where
  "shouldReturnScopeId scopeId \<longleftrightarrow> scopeId \<noteq> None"

definition effective_scope :: "string option option \<Rightarrow> string" where
  "effective_scope scopeId = normalizeSyncStateScopeId (or_default scopeId None)"

definition resetBoundaryFromRow :: "reset_row \<Rightarrow> string \<Rightarrow> bool \<Rightarrow> reset_boundary" where
  "resetBoundaryFromRow row scopeId includeScopeId =
     \<lparr> rb_scope_id = (if includeScopeId then Some scopeId else None),
       rb_generation = rs_generation row,
       rb_snapshot_id = rs_snapshot_id row,
       rb_baseline_cursor = normalizeCursor (rs_baseline_cursor row),
       rb_retained_floor_cursor = normalizeCursor (rs_retained_floor_cursor row) \<rparr>"

definition seedDefaultSyncResetStateFromLegacy :: "db \<Rightarrow> db" where
  "seedDefaultSyncResetStateFromLegacy d = (case legacy_reset d of
     None \<Rightarrow> d
   | Some l \<Rightarrow> d\<lparr> reset_states := insert_or_ignore rs_scope
       \<lparr> rs_scope = DEFAULT_SYNC_SCOPE_ID, rs_generation = lr_generation l,
         rs_snapshot_id = lr_snapshot_id l, rs_baseline_cursor = lr_baseline_cursor l,
         rs_retained_floor_cursor = lr_retained_floor_cursor l, rs_updated_at = lr_updated_at l \<rparr>
       (reset_states d) \<rparr>)"

definition mirrorDefaultSyncResetStateToLegacy :: "db \<Rightarrow> reset_boundary \<Rightarrow> string \<Rightarrow> db" where
  "mirrorDefaultSyncResetStateToLegacy d b updatedAt =
     d\<lparr> legacy_reset := Some \<lparr> lr_generation = rb_generation b, lr_snapshot_id = rb_snapshot_id b,
          lr_baseline_cursor = rb_baseline_cursor b,
          lr_retained_floor_cursor = rb_retained_floor_cursor b, lr_updated_at = updatedAt \<rparr> \<rparr>"

definition seed_reset :: "string \<Rightarrow> db \<Rightarrow> db" where
  "seed_reset scope d =
     (if scope = DEFAULT_SYNC_SCOPE_ID then seedDefaultSyncResetStateFromLegacy d else d)"

definition find_reset :: "string \<Rightarrow> db \<Rightarrow> reset_row option" where
  "find_reset scope d = first_where (\<lambda>r. rs_scope r = scope) (reset_states d)"

definition getSyncResetState ::
    "string \<Rightarrow> string \<Rightarrow> db \<Rightarrow> string option option \<Rightarrow> reset_boundary \<times> db" where
  "getSyncResetState now fresh d scopeId =
     (let eff = effective_scope scopeId;
          incl = shouldReturnScopeId scopeId;
          d1 = seed_reset eff d
      in (case find_reset eff d1 of
            Some row \<Rightarrow> (resetBoundaryFromRow row eff incl, d1)
          | None \<Rightarrow>
              let created = \<lparr> rs_scope = eff, rs_generation = 1, rs_snapshot_id = fresh,
                    rs_baseline_cursor = None, rs_retained_floor_cursor = None, rs_updated_at = now \<rparr>;
                  d2 = d1\<lparr> reset_states := reset_states d1 @ [created] \<rparr>;
                  b = resetBoundaryFromRow created eff incl
              in (b, if eff = DEFAULT_SYNC_SCOPE_ID then mirrorDefaultSyncResetStateToLegacy d2 b now
                     else d2)))"

text \<open>The upsert of the scoped row (its conflict clause keeps nothing but the key) and the mirror.\<close>

definition write_boundary :: "string \<Rightarrow> string \<Rightarrow> reset_boundary \<Rightarrow> db \<Rightarrow> db" where
  "write_boundary now eff b d =
     (let row = \<lparr> rs_scope = eff, rs_generation = rb_generation b,
            rs_snapshot_id = rb_snapshot_id b, rs_baseline_cursor = rb_baseline_cursor b,
            rs_retained_floor_cursor = rb_retained_floor_cursor b, rs_updated_at = now \<rparr>;
          d' = d\<lparr> reset_states := upsert_row rs_scope (\<lambda>new old. new) row (reset_states d) \<rparr>
      in if eff = DEFAULT_SYNC_SCOPE_ID then mirrorDefaultSyncResetStateToLegacy d' b now else d')"

definition updated_boundary :: "reset_updates \<Rightarrow> string option \<Rightarrow> reset_boundary \<Rightarrow> reset_boundary" where
  "updated_boundary updates scope current =
     \<lparr> rb_scope_id = scope,
       rb_generation = or_default (ru_generation updates) (rb_generation current),
       rb_snapshot_id = or_default (ru_snapshot_id updates) (rb_snapshot_id current),
       rb_baseline_cursor = (case ru_baseline_cursor updates of
          None \<Rightarrow> rb_baseline_cursor current | Some c \<Rightarrow> normalizeCursor c),
       rb_retained_floor_cursor = (case ru_retained_floor_cursor updates of
          None \<Rightarrow> rb_retained_floor_cursor current | Some c \<Rightarrow> normalizeCursor c) \<rparr>"

definition setSyncResetState ::
    "string \<Rightarrow> string \<Rightarrow> db \<Rightarrow> reset_updates \<Rightarrow> string option option \<Rightarrow> reset_boundary \<times> db" where
  "setSyncResetState now fresh d updates scopeId =
     (let requested = (if scopeId \<noteq> None then scopeId else ru_scope_id updates);
          eff = effective_scope requested;
          incl = (scopeId \<noteq> None \<or> ru_scope_id updates \<noteq> None);
          current = getSyncResetState now fresh d (if incl then Some (Some eff) else None);
          next_b = updated_boundary updates (if incl then Some eff else None) (fst current)
      in (next_b, write_boundary now eff next_b (snd current)))"

section \<open>Laws\<close>

lemma effective_scope_normalized [simp]: "effective_scope (Some (Some (effective_scope k))) = effective_scope k"
proof -
  have "clean_text (Some DEFAULT_SYNC_SCOPE_ID) = Some DEFAULT_SYNC_SCOPE_ID" by code_simp
  then show ?thesis
    by (cases "clean_text (or_default k None)")
      (auto simp: effective_scope_def normalizeSyncStateScopeId_clean)
qed

lemma find_reset_seed:
  "find_reset s (seed_reset s' d) = coalesce (find_reset s d)
     (if s = DEFAULT_SYNC_SCOPE_ID \<and> s' = s
      then map_option (\<lambda>l. \<lparr> rs_scope = DEFAULT_SYNC_SCOPE_ID, rs_generation = lr_generation l,
         rs_snapshot_id = lr_snapshot_id l, rs_baseline_cursor = lr_baseline_cursor l,
         rs_retained_floor_cursor = lr_retained_floor_cursor l, rs_updated_at = lr_updated_at l \<rparr>)
           (legacy_reset d) else None)"
  by (cases "find_reset s d")
    (auto simp: find_reset_def seed_reset_def seedDefaultSyncResetStateFromLegacy_def
      insert_or_ignore_def first_where_append exists_where_iff first_where_None_iff split: option.splits)

lemma legacy_reset_seed [simp]: "legacy_reset (seed_reset s d) = legacy_reset d"
  by (simp add: seed_reset_def seedDefaultSyncResetStateFromLegacy_def split: option.splits)

lemma seed_reset_present: "find_reset s d = Some r \<Longrightarrow> seed_reset s d = d"
  by (auto simp: seed_reset_def seedDefaultSyncResetStateFromLegacy_def insert_or_ignore_def find_reset_def
      exists_where_iff dest!: first_where_SomeD split: option.splits)

text \<open>The boundary a scope has, if it was ever read or written.\<close>

definition stored_boundary :: "db \<Rightarrow> string \<Rightarrow> reset_boundary option" where
  "stored_boundary d s = map_option (\<lambda>r. resetBoundaryFromRow r s True) (find_reset s (seed_reset s d))"

definition without_scope :: "reset_boundary \<Rightarrow> reset_boundary" where
  "without_scope b = b\<lparr> rb_scope_id := None \<rparr>"

lemma getSyncResetState_stored:
  "stored_boundary d (effective_scope k) = Some b \<Longrightarrow>
     fst (getSyncResetState now fresh d k) = (if k = None then without_scope b else b)"
  by (auto simp: getSyncResetState_def stored_boundary_def shouldReturnScopeId_def without_scope_def
      resetBoundaryFromRow_def Let_def)

lemma normalizeCursor_idem [simp]: "normalizeCursor (normalizeCursor c) = normalizeCursor c"
  by (simp add: normalizeCursor_clean)

lemma find_reset_append:
  "find_reset s (d\<lparr> reset_states := reset_states d @ [r] \<rparr>) =
     coalesce (find_reset s d) (if rs_scope r = s then Some r else None)"
  by (simp add: find_reset_def first_where_append)

lemma find_reset_mirror [simp]:
  "find_reset s (mirrorDefaultSyncResetStateToLegacy d b t) = find_reset s d"
  by (simp add: find_reset_def mirrorDefaultSyncResetStateToLegacy_def)

lemma find_reset_get:
  "find_reset s (snd (getSyncResetState now fresh d k)) =
     (if s = effective_scope k
      then Some (case find_reset s (seed_reset s d) of Some r \<Rightarrow> r
        | None \<Rightarrow> \<lparr> rs_scope = s, rs_generation = 1, rs_snapshot_id = fresh,
                    rs_baseline_cursor = None, rs_retained_floor_cursor = None, rs_updated_at = now \<rparr>)
      else find_reset s d)"
  by (auto simp: getSyncResetState_def Let_def find_reset_append find_reset_seed split: option.splits)

lemma legacy_reset_get:
  assumes "effective_scope k \<noteq> DEFAULT_SYNC_SCOPE_ID"
  shows "legacy_reset (snd (getSyncResetState now fresh d k)) = legacy_reset d"
  using assms by (auto simp: getSyncResetState_def Let_def split: option.splits)

text \<open>A second read returns the same boundary and writes nothing.\<close>

lemma getSyncResetState_stable:
  "getSyncResetState now' fresh' (snd (getSyncResetState now fresh d k)) k =
     getSyncResetState now fresh d k"
proof (cases "find_reset (effective_scope k) (seed_reset (effective_scope k) d)")
  case (Some r)
  then have "getSyncResetState now fresh d k =
      (resetBoundaryFromRow r (effective_scope k) (shouldReturnScopeId k), seed_reset (effective_scope k) d)"
    by (simp add: getSyncResetState_def Let_def)
  then show ?thesis
    using Some seed_reset_present [OF Some] by (simp add: getSyncResetState_def Let_def)
next
  case None
  let ?s = "effective_scope k"
  let ?new = "\<lparr> rs_scope = ?s, rs_generation = 1, rs_snapshot_id = fresh,
    rs_baseline_cursor = None, rs_retained_floor_cursor = None, rs_updated_at = now \<rparr>"
  let ?d = "snd (getSyncResetState now fresh d k)"
  have b: "fst (getSyncResetState now fresh d k) = resetBoundaryFromRow ?new ?s (shouldReturnScopeId k)"
    using None by (simp add: getSyncResetState_def Let_def)
  have found: "find_reset ?s ?d = Some ?new"
    using find_reset_get [of ?s now fresh d k] None by simp
  then have "getSyncResetState now' fresh' ?d k = (resetBoundaryFromRow ?new ?s (shouldReturnScopeId k), ?d)"
    using seed_reset_present [OF found] by (simp add: getSyncResetState_def [of now'] Let_def)
  then show ?thesis using b by (metis prod.collapse)
qed

lemma find_reset_write:
  "find_reset s (write_boundary now eff b d) =
     (if s = eff
      then Some \<lparr> rs_scope = eff, rs_generation = rb_generation b,
            rs_snapshot_id = rb_snapshot_id b, rs_baseline_cursor = rb_baseline_cursor b,
            rs_retained_floor_cursor = rb_retained_floor_cursor b, rs_updated_at = now \<rparr>
      else find_reset s d)"
  by (cases "first_where (\<lambda>r. rs_scope r = eff) (reset_states d)")
    (auto simp: write_boundary_def Let_def find_reset_def first_where_upsert
      mirrorDefaultSyncResetStateToLegacy_def)

lemma legacy_reset_write:
  "legacy_reset (write_boundary now eff b d) =
     (if eff = DEFAULT_SYNC_SCOPE_ID
      then Some \<lparr> lr_generation = rb_generation b, lr_snapshot_id = rb_snapshot_id b,
          lr_baseline_cursor = rb_baseline_cursor b,
          lr_retained_floor_cursor = rb_retained_floor_cursor b, lr_updated_at = now \<rparr>
      else legacy_reset d)"
  by (simp add: write_boundary_def Let_def mirrorDefaultSyncResetStateToLegacy_def)

text \<open>The scope a call to \<open>setSyncResetState\<close> writes.\<close>

definition written_scope :: "reset_updates \<Rightarrow> string option option \<Rightarrow> string" where
  "written_scope u k = effective_scope (if k \<noteq> None then k else ru_scope_id u)"

lemma find_reset_set:
  "find_reset s (snd (setSyncResetState now fresh d u k)) =
     (if s = written_scope u k
      then Some (let b = fst (setSyncResetState now fresh d u k) in
        \<lparr> rs_scope = s, rs_generation = rb_generation b,
          rs_snapshot_id = rb_snapshot_id b, rs_baseline_cursor = rb_baseline_cursor b,
          rs_retained_floor_cursor = rb_retained_floor_cursor b, rs_updated_at = now \<rparr>)
      else find_reset s d)"
proof -
  let ?q = "if k \<noteq> None \<or> ru_scope_id u \<noteq> None then Some (Some (written_scope u k)) else None"
  have q: "effective_scope ?q = written_scope u k"
    by (cases k; cases "ru_scope_id u") (simp_all add: written_scope_def)
  have set_eq: "setSyncResetState now fresh d u k =
      (let next_b = updated_boundary u (if k \<noteq> None \<or> ru_scope_id u \<noteq> None
              then Some (written_scope u k) else None) (fst (getSyncResetState now fresh d ?q))
       in (next_b, write_boundary now (written_scope u k) next_b (snd (getSyncResetState now fresh d ?q))))"
    by (simp only: setSyncResetState_def written_scope_def Let_def)
  have other: "s \<noteq> written_scope u k \<Longrightarrow>
      find_reset s (snd (getSyncResetState now fresh d ?q)) = find_reset s d"
    by (simp only: find_reset_get q if_False)
  show ?thesis
    unfolding set_eq Let_def fst_conv snd_conv find_reset_write
    using other by (cases "s = written_scope u k") simp_all
qed

lemma updated_boundary_normalized:
  assumes "normalizeCursor (rb_baseline_cursor current) = rb_baseline_cursor current"
    and "normalizeCursor (rb_retained_floor_cursor current) = rb_retained_floor_cursor current"
  shows "normalizeCursor (rb_baseline_cursor (updated_boundary u sc current))
      = rb_baseline_cursor (updated_boundary u sc current)
    \<and> normalizeCursor (rb_retained_floor_cursor (updated_boundary u sc current))
      = rb_retained_floor_cursor (updated_boundary u sc current)"
  using assms by (simp add: updated_boundary_def split: option.splits)

lemma getSyncResetState_normalized:
  "normalizeCursor (rb_baseline_cursor (fst (getSyncResetState now fresh d k)))
     = rb_baseline_cursor (fst (getSyncResetState now fresh d k))
   \<and> normalizeCursor (rb_retained_floor_cursor (fst (getSyncResetState now fresh d k)))
     = rb_retained_floor_cursor (fst (getSyncResetState now fresh d k))"
  by (simp add: getSyncResetState_def resetBoundaryFromRow_def Let_def split: option.splits)

lemma setSyncResetState_normalized:
  "normalizeCursor (rb_baseline_cursor (fst (setSyncResetState now fresh d u k)))
     = rb_baseline_cursor (fst (setSyncResetState now fresh d u k))
   \<and> normalizeCursor (rb_retained_floor_cursor (fst (setSyncResetState now fresh d u k)))
     = rb_retained_floor_cursor (fst (setSyncResetState now fresh d u k))"
  unfolding setSyncResetState_def Let_def fst_conv
  by (rule updated_boundary_normalized; simp only: getSyncResetState_normalized)

text \<open>What is set is what a later read of the scope returns, and reading it writes nothing.\<close>

lemma getSyncResetState_set:
  assumes "effective_scope q = written_scope u k"
  shows "getSyncResetState now' fresh' (snd (setSyncResetState now fresh d u k)) q =
    ((fst (setSyncResetState now fresh d u k))
       \<lparr> rb_scope_id := if q \<noteq> None then Some (written_scope u k) else None \<rparr>,
     snd (setSyncResetState now fresh d u k))"
proof -
  let ?b = "fst (setSyncResetState now fresh d u k)"
  let ?d = "snd (setSyncResetState now fresh d u k)"
  let ?row = "\<lparr> rs_scope = written_scope u k, rs_generation = rb_generation ?b,
     rs_snapshot_id = rb_snapshot_id ?b, rs_baseline_cursor = rb_baseline_cursor ?b,
     rs_retained_floor_cursor = rb_retained_floor_cursor ?b, rs_updated_at = now \<rparr>"
  have found: "find_reset (written_scope u k) ?d = Some ?row"
    by (simp add: find_reset_set Let_def)
  have "getSyncResetState now' fresh' ?d q =
      (resetBoundaryFromRow ?row (written_scope u k) (q \<noteq> None), ?d)"
    using found seed_reset_present [OF found] assms
    by (simp add: getSyncResetState_def [of now'] Let_def shouldReturnScopeId_def)
  moreover have "resetBoundaryFromRow ?row (written_scope u k) (q \<noteq> None) =
      ?b\<lparr> rb_scope_id := if q \<noteq> None then Some (written_scope u k) else None \<rparr>"
    using setSyncResetState_normalized [of now fresh d u k]
    by (simp add: resetBoundaryFromRow_def)
  ultimately show ?thesis by simp
qed

lemma stored_boundary_of_row:
  "find_reset s d = Some r \<Longrightarrow> stored_boundary d s = Some (resetBoundaryFromRow r s True)"
  by (simp add: stored_boundary_def seed_reset_present)

end
