(* ===== verification/Scope_Membership.thy ===== *)
theory Scope_Membership
  imports Sync_State
begin

text \<open>
  The cache of scope memberships a device keeps from its coordinator, and the decision whether a device
  may sync a scope (\<open>scope-membership-semantics.ts\<close>, \<open>scope-membership-snapshot.ts\<close>,
  \<open>scope-membership-evidence.ts\<close>, \<open>scope-membership-cache.ts\<close>, \<open>recipient-policy-deny-overlay.ts\<close> and the
  record checks of \<open>coordinator-scope-authorization.ts\<close>, all in \<open>packages/core/src\<close>).

  \<open>key_id_of\<close> stands for the canonical key identifier of an Ed25519 public key, \<open>None\<close> where the text is
  not such a key; \<open>parse_date\<close> for \<open>Date.parse\<close>, \<open>None\<close> for \<open>NaN\<close>. A transaction that throws is \<open>Inl\<close> of
  the message, and its caller keeps the database it had.
\<close>

section \<open>Epochs and revocation notices\<close>

datatype epoch_reason = EpochCurrent | StaleEpoch | UnknownEpoch

record epoch_status =
  ep_membership :: "int option"
  ep_required :: "int option"
  ep_stale :: bool
  ep_reason :: epoch_reason

definition scopeMembershipEpochStatus :: "int option \<Rightarrow> int option \<Rightarrow> epoch_status" where
  "scopeMembershipEpochStatus membershipEpoch requiredEpoch =
     (case (membershipEpoch, requiredEpoch) of
        (Some m, Some r) \<Rightarrow>
          \<lparr> ep_membership = Some m, ep_required = Some r, ep_stale = (m < r),
            ep_reason = (if m < r then StaleEpoch else EpochCurrent) \<rparr>
      | _ \<Rightarrow>
          \<lparr> ep_membership = membershipEpoch, ep_required = requiredEpoch, ep_stale = False,
            ep_reason = UnknownEpoch \<rparr>)"

record revocation_notice =
  rn_scope :: string
  rn_device :: string
  rn_epoch :: "int option"
  rn_prevents_future_sync :: bool
  rn_deletes_copied_data :: bool

definition explainScopeMembershipRevocation :: "string \<Rightarrow> string \<Rightarrow> int option \<Rightarrow> revocation_notice" where
  "explainScopeMembershipRevocation scopeId deviceId epoch =
     \<lparr> rn_scope = scopeId, rn_device = deviceId, rn_epoch = epoch,
       rn_prevents_future_sync = True, rn_deletes_copied_data = False \<rparr>"

section \<open>Checking a coordinator's answer\<close>

definition valid_text :: "string \<Rightarrow> bool" where
  "valid_text v \<longleftrightarrow> v \<noteq> [] \<and> CHR 0x00 \<notin> set v"

definition valid_nullable :: "string option \<Rightarrow> bool" where
  "valid_nullable v = (case v of None \<Rightarrow> True | Some s \<Rightarrow> valid_text s)"

definition valid_label :: "string option \<Rightarrow> bool" where
  "valid_label v = (case v of None \<Rightarrow> True | Some s \<Rightarrow> CHR 0x00 \<notin> set s)"

definition valid_count :: "int \<Rightarrow> bool" where
  "valid_count n \<longleftrightarrow> safe_integer n \<and> 0 \<le> n"

text \<open>\<open>requireScopeAuthorizationRecord\<close> over the three field lists.\<close>

definition valid_scope_record :: "scope_row \<Rightarrow> bool" where
  "valid_scope_record s \<longleftrightarrow>
     list_all valid_text [sc_id s, sc_label s, sc_kind s, sc_authority_type s, sc_status s,
       sc_created_at s, sc_updated_at s]
     \<and> list_all valid_nullable [sc_coordinator_id s, sc_group_id s, sc_manifest_issuer s, sc_manifest_hash s]
     \<and> valid_count (sc_epoch s)"

definition valid_membership_record :: "membership_row \<Rightarrow> bool" where
  "valid_membership_record m \<longleftrightarrow>
     list_all valid_text [sm_scope m, sm_device m, sm_role m, sm_status m, sm_updated_at m]
     \<and> list_all valid_nullable [sm_coordinator_id m, sm_group_id m, sm_manifest_issuer m,
          sm_manifest_hash m, sm_signed_manifest m]
     \<and> valid_count (sm_epoch m)"

definition valid_enrollment_record :: "enrollment \<Rightarrow> bool" where
  "valid_enrollment_record e \<longleftrightarrow>
     list_all valid_text [en_group e, en_device e, en_fingerprint e, en_created_at e]
     \<and> list_all valid_label [en_identity e, en_display_name e] \<and> valid_count (en_enabled e)"

definition scopeAuthorizationError :: "scope_row \<Rightarrow> string \<Rightarrow> string option" where
  "scopeAuthorizationError s groupId =
     (if sc_group_id s \<noteq> Some groupId \<or> sc_authority_type s \<noteq> ''coordinator''
      then Some ''scope_source_mismatch''
      else if sc_status s \<noteq> ''active'' then Some ''scope_inactive'' else None)"

definition null_or_same :: "'a option \<Rightarrow> 'a option \<Rightarrow> bool" where
  "null_or_same a b \<longleftrightarrow> a = None \<or> a = b"

definition isCurrentScopeMember :: "scope_row \<Rightarrow> membership_row \<Rightarrow> bool" where
  "isCurrentScopeMember s m \<longleftrightarrow>
     \<not> (sm_scope m \<noteq> sc_id s \<or> sm_status m \<noteq> ''active'' \<or> sm_epoch m < sc_epoch s)
     \<and> null_or_same (sm_group_id m) (sc_group_id s)
     \<and> null_or_same (sm_coordinator_id m) (sc_coordinator_id s)
     \<and> null_or_same (sm_manifest_issuer m) (sc_manifest_issuer s)
     \<and> null_or_same (sm_manifest_hash m) (sc_manifest_hash s)"

definition requireScope :: "scope_row \<Rightarrow> string \<Rightarrow> string + scope_row" where
  "requireScope s groupId =
     (if \<not> valid_scope_record s then Inl ''scope_authorization_unavailable''
      else if scopeAuthorizationError s groupId \<noteq> None then Inl ''Invalid scope source or status.''
      else Inr s)"

fun require_all :: "('a \<Rightarrow> 'e + 'b) \<Rightarrow> 'a list \<Rightarrow> 'e + 'b list" where
  "require_all f [] = Inr []"
| "require_all f (x # xs) = (case f x of
     Inl e \<Rightarrow> Inl e
   | Inr y \<Rightarrow> (case require_all f xs of Inl e \<Rightarrow> Inl e | Inr ys \<Rightarrow> Inr (y # ys)))"

definition normalizeScopeCatalog :: "int \<Rightarrow> scope_row list \<Rightarrow> string \<Rightarrow> string + scope_row list" where
  "normalizeScopeCatalog version items groupId =
     (if version \<noteq> 1 then Inl ''Current scope snapshot version 1 and items required.''
      else (case require_all (\<lambda>s. requireScope s groupId) items of
              Inl e \<Rightarrow> Inl e
            | Inr ss \<Rightarrow>
                if \<not> distinct (map sc_id ss) then Inl ''Duplicate scope in catalog.'' else Inr ss))"

definition requireMember ::
    "(string \<Rightarrow> string option) \<Rightarrow> snapshot_item \<Rightarrow> scope_row \<Rightarrow> string + snapshot_item" where
  "requireMember key_id_of item s =
     (let m = si_membership item; e = si_enrollment item in
      if \<not> valid_membership_record m \<or> \<not> valid_enrollment_record e
      then Inl ''scope_authorization_unavailable''
      else if \<not> isCurrentScopeMember s m \<or> en_enabled e \<noteq> 1
        \<or> sc_group_id s \<noteq> Some (en_group e) \<or> en_device e \<noteq> sm_device m
        \<or> key_id_of (en_public_key e) \<noteq> Some (si_key_id item)
      then Inl ''Current scope member evidence mismatch.''
      else Inr item)"

text \<open>The result of \<open>normalizeScopeSnapshot\<close>.\<close>

record scope_batch =
  bt_scope :: scope_row
  bt_members :: "membership_row list"
  bt_source_coordinator :: "string option"
  bt_evidence :: scope_snapshot

definition normalizeScopeSnapshot ::
    "(string \<Rightarrow> string option) \<Rightarrow> scope_snapshot \<Rightarrow> scope_row \<Rightarrow> string \<Rightarrow> string \<Rightarrow> string + scope_batch" where
  "normalizeScopeSnapshot key_id_of raw catalogScope groupId coordinatorId =
     (if sn_version raw \<noteq> 1 then Inl ''Current scope snapshot version 1 and items required.''
      else (case requireScope (sn_scope raw) groupId of
              Inl e \<Rightarrow> Inl e
            | Inr source \<Rightarrow>
                if sc_id source \<noteq> sc_id catalogScope \<or> sc_epoch source < sc_epoch catalogScope
                   \<or> sc_coordinator_id source \<noteq> sc_coordinator_id catalogScope
                then Inl ''Current scope snapshot source mismatch.''
                else (case require_all (\<lambda>item. requireMember key_id_of item source) (sn_items raw) of
                        Inl e \<Rightarrow> Inl e
                      | Inr members \<Rightarrow>
                          if \<not> distinct (map (\<lambda>i. sm_device (si_membership i)) members)
                          then Inl ''Duplicate device in current scope snapshot.''
                          else Inr \<lparr>
                            bt_scope = source\<lparr> sc_coordinator_id := Some coordinatorId \<rparr>,
                            bt_members = map (\<lambda>i. (si_membership i)\<lparr>
                              sm_coordinator_id := Some coordinatorId, sm_group_id := Some groupId \<rparr>) members,
                            bt_source_coordinator = sc_coordinator_id source,
                            bt_evidence = \<lparr> sn_version = 1, sn_scope = source, sn_items = members \<rparr> \<rparr>)))"

section \<open>Writing the cache\<close>

type_synonym cache_authority = "string \<times> string"

definition merge_scope :: "scope_row \<Rightarrow> scope_row \<Rightarrow> scope_row" where
  "merge_scope new old =
     (if sc_epoch new \<ge> sc_epoch old then new\<lparr> sc_created_at := sc_created_at old \<rparr> else old)"

definition upsertScope :: "db \<Rightarrow> scope_row \<Rightarrow> db" where
  "upsertScope d s = d\<lparr> scopes := upsert_row sc_id merge_scope s (scopes d) \<rparr>"

definition membership_key :: "membership_row \<Rightarrow> string \<times> string" where
  "membership_key m = (sm_scope m, sm_device m)"

definition merge_membership :: "membership_row \<Rightarrow> membership_row \<Rightarrow> membership_row" where
  "merge_membership new old =
     (if sm_epoch new > sm_epoch old \<or> (sm_epoch new = sm_epoch old \<and> sm_status old \<noteq> ''revoked'')
      then new else old)"

definition upsertCachedScopeMemberships :: "db \<Rightarrow> membership_row list \<Rightarrow> nat \<times> db" where
  "upsertCachedScopeMemberships d ms = (length ms,
     d\<lparr> memberships := fold (upsert_row membership_key merge_membership) ms (memberships d) \<rparr>)"

definition reconcile_hit :: "scope_batch \<Rightarrow> cache_authority \<Rightarrow> membership_row \<Rightarrow> bool" where
  "reconcile_hit b authority m \<longleftrightarrow>
     sm_scope m = sc_id (bt_scope b)
     \<and> (let c = or_default (sm_coordinator_id m) (fst authority)
        in c = fst authority \<or> bt_source_coordinator b = Some c)
     \<and> or_default (sm_group_id m) (snd authority) = snd authority
     \<and> sm_status m \<noteq> ''revoked''
     \<and> sm_device m \<notin> sm_device ` set (bt_members b)"

definition reconcileScopeMembershipSnapshot ::
    "string \<Rightarrow> db \<Rightarrow> scope_batch \<Rightarrow> cache_authority \<Rightarrow> db" where
  "reconcileScopeMembershipSnapshot timestamp d b authority =
     d\<lparr> memberships := update_where (reconcile_hit b authority)
          (\<lambda>m. m\<lparr> sm_status := ''revoked'',
                  sm_epoch := (if sm_epoch m > sc_epoch (bt_scope b) then sm_epoch m
                               else sc_epoch (bt_scope b)),
                  sm_coordinator_id := Some (fst authority),
                  sm_group_id := Some (snd authority),
                  sm_updated_at := timestamp \<rparr>) (memberships d) \<rparr>"

definition archive_hit :: "cache_authority \<Rightarrow> scope_row list \<Rightarrow> scope_row \<Rightarrow> bool" where
  "archive_hit authority listed s \<longleftrightarrow>
     sc_coordinator_id s = Some (fst authority) \<and> sc_group_id s = Some (snd authority)
     \<and> sc_status s \<noteq> ''archived'' \<and> sc_id s \<notin> sc_id ` set listed"

text \<open>The two statements (select the missing scopes, then archive exactly those).\<close>

definition reconcileGroupScopeSnapshot ::
    "string \<Rightarrow> db \<Rightarrow> cache_authority \<Rightarrow> scope_row list \<Rightarrow> db" where
  "reconcileGroupScopeSnapshot timestamp d authority listed =
     (let missing = map sc_id (filter (archive_hit authority listed) (scopes d)) in
      if missing = [] then d
      else d\<lparr> scopes := update_where
        (\<lambda>s. sc_coordinator_id s = Some (fst authority) \<and> sc_group_id s = Some (snd authority)
             \<and> sc_id s \<in> set missing)
        (\<lambda>s. s\<lparr> sc_status := ''archived'', sc_updated_at := timestamp \<rparr>) (scopes d) \<rparr>)"

definition find_cache_state :: "db \<Rightarrow> cache_authority \<Rightarrow> cache_state_row option" where
  "find_cache_state d a = first_where (\<lambda>c. (cs_coordinator c, cs_group c) = a) (cache_states d)"

definition refresh_revision_error :: string where
  "refresh_revision_error = ''Scope membership cache revision unavailable.''"

definition readRefreshRevision :: "db \<Rightarrow> cache_authority \<Rightarrow> string + int" where
  "readRefreshRevision d a =
     (let revision = (case find_cache_state d a of None \<Rightarrow> 0 | Some c \<Rightarrow> cs_revision c) in
      if \<not> safe_integer revision \<or> revision < 0 \<or> revision \<ge> MAX_SAFE_INTEGER
      then Inl refresh_revision_error else Inr revision)"

definition merge_cache_state :: "cache_state_row \<Rightarrow> cache_state_row \<Rightarrow> cache_state_row" where
  "merge_cache_state new old = old\<lparr>
     cs_last_refresh_at := cs_last_refresh_at new,
     cs_last_success_at := coalesce (cs_last_success_at new) (cs_last_success_at old),
     cs_last_error := cs_last_error new,
     cs_updated_at := cs_updated_at new,
     cs_revision := cs_revision old + 1 \<rparr>"

definition recordRefreshState ::
    "string \<Rightarrow> db \<Rightarrow> cache_authority \<Rightarrow> bool \<Rightarrow> string option \<Rightarrow> string + db" where
  "recordRefreshState now d a ok err =
     (case readRefreshRevision d a of
        Inl e \<Rightarrow> Inl e
      | Inr _ \<Rightarrow> Inr (d\<lparr> cache_states := upsert_row (\<lambda>c. (cs_coordinator c, cs_group c)) merge_cache_state
          \<lparr> cs_coordinator = fst a, cs_group = snd a, cs_last_refresh_at = now,
            cs_last_success_at = (if ok then Some now else None),
            cs_last_error = (if ok then None else Some (or_default err ''unknown'')),
            cs_updated_at = now, cs_revision = 1 \<rparr> (cache_states d) \<rparr>))"

text \<open>The message a failed refresh reports, and the database after it: a failure that was overtaken, or
  that cannot be recorded, writes nothing.\<close>

definition recordRefreshFailure ::
    "string \<Rightarrow> db \<Rightarrow> cache_authority \<Rightarrow> string \<Rightarrow> int option \<Rightarrow> string \<times> db" where
  "recordRefreshFailure now d a err expected = (case expected of
     None \<Rightarrow> (refresh_revision_error, d)
   | Some r \<Rightarrow>
       (case readRefreshRevision d a of
          Inl _ \<Rightarrow> (''Scope membership cache refresh state unavailable.'', d)
        | Inr r' \<Rightarrow>
            if r' \<noteq> r then (err, d)
            else (case recordRefreshState now d a False (Some err) of
                    Inl _ \<Rightarrow> (''Scope membership cache refresh state unavailable.'', d)
                  | Inr d' \<Rightarrow> (err, d'))))"

definition loadScope :: "db \<Rightarrow> string \<Rightarrow> cache_authority option \<Rightarrow> scope_row option" where
  "loadScope d scopeId authority = first_where (\<lambda>s. sc_id s = scopeId
     \<and> (case authority of None \<Rightarrow> True
        | Some a \<Rightarrow> sc_coordinator_id s = Some (fst a) \<and> sc_group_id s = Some (snd a))) (scopes d)"

definition matchesSnapshotSource :: "string option \<Rightarrow> string option \<Rightarrow> scope_batch \<Rightarrow> bool" where
  "matchesSnapshotSource coordinatorId groupId b \<longleftrightarrow>
     (groupId = None \<or> groupId = sc_group_id (bt_scope b))
     \<and> (coordinatorId = None \<or> coordinatorId = sc_coordinator_id (bt_scope b)
        \<or> coordinatorId = bt_source_coordinator b)"

definition incoming_member :: "scope_batch \<Rightarrow> string \<Rightarrow> membership_row option" where
  "incoming_member b dev = first_where (\<lambda>m. sm_device m = dev) (rev (bt_members b))"

definition superseding_row :: "scope_batch \<Rightarrow> membership_row \<Rightarrow> bool" where
  "superseding_row b row \<longleftrightarrow>
     (case incoming_member b (sm_device row) of None \<Rightarrow> False | Some m \<Rightarrow> sm_epoch row > sm_epoch m)
     \<or> \<not> matchesSnapshotSource (sm_coordinator_id row) (sm_group_id row) b"

definition reviving_row :: "scope_batch \<Rightarrow> membership_row \<Rightarrow> bool" where
  "reviving_row b row = (case incoming_member b (sm_device row) of
     None \<Rightarrow> False
   | Some m \<Rightarrow> sm_status row = ''revoked'' \<and> sm_epoch row = sm_epoch m)"

definition requireUnsupersededSnapshot :: "db \<Rightarrow> scope_batch \<Rightarrow> string + bool" where
  "requireUnsupersededSnapshot d b =
     (let rows = filter (\<lambda>m. sm_scope m = sc_id (bt_scope b)) (memberships d) in
      if (case loadScope d (sc_id (bt_scope b)) None of
            None \<Rightarrow> False
          | Some stored \<Rightarrow> sc_epoch stored > sc_epoch (bt_scope b)
              \<or> \<not> matchesSnapshotSource (sc_coordinator_id stored) (sc_group_id stored) b)
      then Inl ''Current scope snapshot conflicts with cached authority or epoch.''
      else if list_ex (superseding_row b) rows
      then Inl ''Current scope snapshot superseded by cached membership.''
      else Inr (list_ex (reviving_row b) rows))"

definition migrateSnapshotMembershipAuthority :: "db \<Rightarrow> scope_batch \<Rightarrow> db" where
  "migrateSnapshotMembershipAuthority d b =
     (let g = sc_group_id (bt_scope b); c = sc_coordinator_id (bt_scope b) in
      d\<lparr> memberships := update_where
        (\<lambda>m. sm_scope m = sc_id (bt_scope b)
             \<and> sql_eq (coalesce (sm_group_id m) g) g
             \<and> (sql_eq (coalesce (sm_coordinator_id m) c) c
                \<or> sql_eq (coalesce (sm_coordinator_id m) c) (bt_source_coordinator b)))
        (\<lambda>m. m\<lparr> sm_coordinator_id := c, sm_group_id := g \<rparr>) (memberships d) \<rparr>)"

section \<open>Retained evidence\<close>

definition same_scope_authority :: "scope_row \<Rightarrow> scope_row \<Rightarrow> bool" where
  "same_scope_authority a b \<longleftrightarrow> sc_id a = sc_id b \<and> sc_kind a = sc_kind b
     \<and> sc_authority_type a = sc_authority_type b \<and> sc_coordinator_id a = sc_coordinator_id b
     \<and> sc_group_id a = sc_group_id b \<and> sc_manifest_issuer a = sc_manifest_issuer b
     \<and> sc_epoch a = sc_epoch b \<and> sc_manifest_hash a = sc_manifest_hash b \<and> sc_status a = sc_status b"

definition same_member_authority :: "membership_row \<Rightarrow> membership_row \<Rightarrow> bool" where
  "same_member_authority a b \<longleftrightarrow> a\<lparr> sm_updated_at := [] \<rparr> = b\<lparr> sm_updated_at := [] \<rparr>"

definition matchesRows :: "scope_batch \<Rightarrow> scope_row \<Rightarrow> membership_row \<Rightarrow> bool" where
  "matchesRows b s m = (case bt_members b of
     [captured] \<Rightarrow> same_scope_authority (bt_scope b) s \<and> same_member_authority captured m
   | _ \<Rightarrow> False)"

definition parseEvidence ::
    "(string \<Rightarrow> string option) \<Rightarrow> scope_snapshot option \<Rightarrow> cache_authority \<Rightarrow> scope_batch option" where
  "parseEvidence key_id_of raw a = (case raw of
     None \<Rightarrow> None
   | Some snap \<Rightarrow>
       (case normalizeScopeSnapshot key_id_of snap (sn_scope snap) (snd a) (fst a) of
          Inl _ \<Rightarrow> None
        | Inr b \<Rightarrow> if length (sn_items (bt_evidence b)) = 1 then Some b else None))"

definition evidence_key :: "evidence_row \<Rightarrow> cache_authority \<times> string \<times> string" where
  "evidence_key r = ((ev_coordinator r, ev_group r), ev_scope r, ev_device r)"

definition member_evidence :: "cache_authority \<Rightarrow> scope_batch \<Rightarrow> snapshot_item \<Rightarrow> evidence_row" where
  "member_evidence a b item = \<lparr> ev_coordinator = fst a, ev_group = snd a,
     ev_scope = sc_id (bt_scope b), ev_device = sm_device (si_membership item),
     ev_snapshot = Some ((bt_evidence b)\<lparr> sn_items := [item] \<rparr>) \<rparr>"

definition sameProof :: "scope_batch \<Rightarrow> scope_batch \<Rightarrow> bool" where
  "sameProof previous current =
     (case (sn_items (bt_evidence previous), sn_items (bt_evidence current), bt_members current) of
        (oldItem # _, item # _, m # _) \<Rightarrow>
          matchesRows previous (bt_scope current) m
          \<and> bt_source_coordinator previous = bt_source_coordinator current
          \<and> si_key_id oldItem = si_key_id item
          \<and> same_member_authority (si_membership oldItem) (si_membership item)
          \<and> en_group (si_enrollment oldItem) = en_group (si_enrollment item)
          \<and> en_device (si_enrollment oldItem) = en_device (si_enrollment item)
          \<and> en_fingerprint (si_enrollment oldItem) = en_fingerprint (si_enrollment item)
          \<and> en_enabled (si_enrollment oldItem) = en_enabled (si_enrollment item)
      | _ \<Rightarrow> False)"

definition keeps_evidence ::
    "(string \<Rightarrow> string option) \<Rightarrow> scope_batch list \<Rightarrow> cache_authority \<Rightarrow> evidence_row \<Rightarrow> bool" where
  "keeps_evidence key_id_of batches a r =
     (case first_where (\<lambda>b. sc_id (bt_scope b) = ev_scope r) batches of
        None \<Rightarrow> False
      | Some b \<Rightarrow>
          (case first_where (\<lambda>i. sm_device (si_membership i) = ev_device r) (sn_items (bt_evidence b)) of
             None \<Rightarrow> False
           | Some item \<Rightarrow>
               (case (parseEvidence key_id_of (ev_snapshot r) a,
                      normalizeScopeSnapshot key_id_of ((bt_evidence b)\<lparr> sn_items := [item] \<rparr>)
                        (sn_scope (bt_evidence b)) (snd a) (fst a)) of
                  (Some old, Inr current) \<Rightarrow> sameProof old current
                | _ \<Rightarrow> False)))"

definition of_authority :: "cache_authority \<Rightarrow> evidence_row \<Rightarrow> bool" where
  "of_authority a r \<longleftrightarrow> (ev_coordinator r, ev_group r) = a"

definition reconcileScopeAuthorizationEvidence ::
    "(string \<Rightarrow> string option) \<Rightarrow> db \<Rightarrow> scope_batch list \<Rightarrow> cache_authority \<Rightarrow> bool \<Rightarrow> db" where
  "reconcileScopeAuthorizationEvidence key_id_of d batches a removalOnly =
     (if removalOnly
      then d\<lparr> scope_evidence := delete_where
             (\<lambda>r. of_authority a r \<and> \<not> keeps_evidence key_id_of batches a r) (scope_evidence d) \<rparr>
      else d\<lparr> scope_evidence := delete_where (of_authority a) (scope_evidence d)
             @ concat (map (\<lambda>b. map (member_evidence a b) (sn_items (bt_evidence b))) batches) \<rparr>)"

definition getRetainedScopeAuthorizationKey ::
    "(string \<Rightarrow> string option) \<Rightarrow> db \<Rightarrow> scope_row \<Rightarrow> membership_row \<Rightarrow> string option \<Rightarrow> string option" where
  "getRetainedScopeAuthorizationKey key_id_of d s m expectedPublicKey =
     (case (sc_coordinator_id s, sc_group_id s) of
        (Some c, Some g) \<Rightarrow>
          if c = [] \<or> g = [] then None
          else (case first_where (\<lambda>r. evidence_key r = ((c, g), sc_id s, sm_device m)) (scope_evidence d) of
                  None \<Rightarrow> None
                | Some r \<Rightarrow>
                    (case parseEvidence key_id_of (ev_snapshot r) (c, g) of
                       None \<Rightarrow> None
                     | Some proof \<Rightarrow>
                         if \<not> matchesRows proof s m then None
                         else (case sn_items (bt_evidence proof) of
                                 [] \<Rightarrow> None
                               | item # _ \<Rightarrow>
                                   if si_key_id item = [] then None
                                   else (case expectedPublicKey of
                                           None \<Rightarrow> Some (si_key_id item)
                                         | Some key \<Rightarrow>
                                             if key_id_of key \<noteq> Some (si_key_id item) then None
                                             else Some (si_key_id item)))))
      | _ \<Rightarrow> None)"

section \<open>Persisting a refresh\<close>

definition revival_error :: string where
  "revival_error = ''Current scope snapshot cannot revive cached revoked membership at the same epoch.''"

definition superseded_error :: string where
  "superseded_error = ''Current scope snapshot superseded by a newer cache refresh.''"

definition persist_batch ::
    "string \<Rightarrow> cache_authority \<Rightarrow> bool \<Rightarrow> scope_batch \<Rightarrow> db \<Rightarrow> db" where
  "persist_batch timestamp a revival b d =
     (let d1 = (if revival then d
                else snd (upsertCachedScopeMemberships
                       (migrateSnapshotMembershipAuthority (upsertScope d (bt_scope b)) b) (bt_members b)))
      in reconcileScopeMembershipSnapshot timestamp d1 b a)"

definition persistCurrentSnapshots ::
    "(string \<Rightarrow> string option) \<Rightarrow> string \<Rightarrow> db \<Rightarrow> scope_batch list \<Rightarrow> cache_authority \<Rightarrow> int \<Rightarrow>
     string + string option \<times> db" where
  "persistCurrentSnapshots key_id_of timestamp d batches a expected =
     (case readRefreshRevision d a of
        Inl e \<Rightarrow> Inl e
      | Inr revision \<Rightarrow>
          if revision \<noteq> expected then Inr (Some superseded_error, d)
          else (case require_all (requireUnsupersededSnapshot d) batches of
                  Inl e \<Rightarrow> Inl e
                | Inr conflicts \<Rightarrow>
                    let revival = list_ex (\<lambda>c. c) conflicts;
                        err = (if revival then Some revival_error else None);
                        d1 = fold (persist_batch timestamp a revival) batches d;
                        d2 = reconcileGroupScopeSnapshot timestamp d1 a (map bt_scope batches);
                        d3 = reconcileScopeAuthorizationEvidence key_id_of d2 batches a revival
                    in (case recordRefreshState timestamp d3 a (\<not> revival) err of
                          Inl e \<Rightarrow> Inl e
                        | Inr d4 \<Rightarrow> Inr (err, d4))))"

text \<open>One group of \<open>refreshScopeMembershipCache\<close>: \<open>gathered\<close> is what the fetchers returned after the
  revision was read, or the message they failed with.\<close>

fun gatherCurrentSnapshots ::
    "(string \<Rightarrow> string option) \<Rightarrow> cache_authority \<Rightarrow> (string \<Rightarrow> string + scope_snapshot) \<Rightarrow> scope_row list \<Rightarrow>
     string + scope_batch list" where
  "gatherCurrentSnapshots key_id_of a fetch catalog =
     require_all (\<lambda>s. case fetch (sc_id s) of
        Inl e \<Rightarrow> Inl e
      | Inr snap \<Rightarrow> normalizeScopeSnapshot key_id_of snap s (snd a) (fst a)) catalog"

record group_result =
  gr_group :: string
  gr_refreshed :: bool
  gr_scopes :: nat
  gr_memberships :: nat
  gr_error :: "string option"

definition refresh_group ::
    "(string \<Rightarrow> string option) \<Rightarrow> string \<Rightarrow> cache_authority \<Rightarrow> string + scope_batch list \<Rightarrow> db \<Rightarrow>
     group_result \<times> db" where
  "refresh_group key_id_of timestamp a gathered d =
     (let failed = (\<lambda>expected e.
            (let (msg, d') = recordRefreshFailure timestamp d a e expected
             in (\<lparr> gr_group = snd a, gr_refreshed = False, gr_scopes = 0, gr_memberships = 0,
                   gr_error = Some msg \<rparr>, d')))
      in (case readRefreshRevision d a of
            Inl e \<Rightarrow> failed None e
          | Inr expected \<Rightarrow>
              (case gathered of
                 Inl e \<Rightarrow> failed (Some expected) e
               | Inr batches \<Rightarrow>
                   (case persistCurrentSnapshots key_id_of timestamp d batches a expected of
                      Inl e \<Rightarrow> failed (Some expected) e
                    | Inr (err, d') \<Rightarrow>
                        (\<lparr> gr_group = snd a, gr_refreshed = (err = None),
                           gr_scopes = (if err = None then length batches else 0),
                           gr_memberships = (if err = None
                             then sum_list (map (\<lambda>b. length (bt_members b)) batches) else 0),
                           gr_error = err \<rparr>, d')))))"

datatype refresh_status = Refreshed | PartlyRefreshed | StaleRefresh | SkippedRefresh

definition groupIds :: "string list \<Rightarrow> string list" where
  "groupIds input = sort (remdups (filter (\<lambda>s. s \<noteq> []) (map js_trim input)))"

definition refreshScopeMembershipCache ::
    "(string \<Rightarrow> string option) \<Rightarrow> string \<Rightarrow> string \<Rightarrow> (string \<Rightarrow> string + scope_batch list) \<Rightarrow> string list \<Rightarrow> db \<Rightarrow>
     (refresh_status \<times> string option \<times> group_result list) \<times> db" where
  "refreshScopeMembershipCache key_id_of timestamp coordinatorId gather input d =
     (let groups = groupIds input in
      if groups = [] then ((SkippedRefresh, None, []), d)
      else (let (results, d') = fold (\<lambda>g (rs, s).
                   (let (r, s') = refresh_group key_id_of timestamp (coordinatorId, g) (gather g) s
                    in (rs @ [r], s'))) groups ([], d);
                refreshed = length (filter gr_refreshed results);
                status = (if refreshed = length results then Refreshed
                          else if refreshed = 0 then StaleRefresh else PartlyRefreshed)
            in ((status, Some coordinatorId, results), d')))"

section \<open>The decision\<close>

datatype authorization_state =
    Authorized | NotAuthorized | Revoked | StaleEpochState | PolicyDenied | ScopeUnknown | ScopeInactive

datatype freshness_state = Fresh | Stale | UnknownFreshness

definition DEFAULT_SCOPE_MEMBERSHIP_CACHE_MAX_AGE_MS :: int where
  "DEFAULT_SCOPE_MEMBERSHIP_CACHE_MAX_AGE_MS = 60000"

definition loadCacheStates :: "db \<Rightarrow> cache_authority option \<Rightarrow> cache_state_row list" where
  "loadCacheStates d authority = (case authority of
     Some a \<Rightarrow> filter (\<lambda>c. (cs_coordinator c, cs_group c) = a) (cache_states d)
   | None \<Rightarrow> sort_key (\<lambda>c. [cs_coordinator c, cs_group c]) (cache_states d))"

definition state_expired :: "(string \<Rightarrow> int option) \<Rightarrow> int \<Rightarrow> int \<Rightarrow> cache_state_row \<Rightarrow> bool" where
  "state_expired parse_date nowMs maxAgeMs c = (case parse_date (or_default (cs_last_success_at c) []) of
     None \<Rightarrow> True | Some t \<Rightarrow> nowMs - t > maxAgeMs)"

definition freshness :: "(string \<Rightarrow> int option) \<Rightarrow> int \<Rightarrow> int \<Rightarrow> cache_state_row list \<Rightarrow> freshness_state" where
  "freshness parse_date nowMs maxAgeMs states =
     (if states = [] then UnknownFreshness
      else if list_ex (\<lambda>c. clean_text (cs_last_error c) \<noteq> None) states then Stale
      else if list_ex (state_expired parse_date nowMs maxAgeMs) states then Stale else Fresh)"

definition getAnyRecipientPolicyDenyOverlayForScopeDevice ::
    "db \<Rightarrow> string \<Rightarrow> string \<Rightarrow> deny_row option" where
  "getAnyRecipientPolicyDenyOverlayForScopeDevice d scopeId deviceId =
     (case sort_key dn_project (filter (\<lambda>r. dn_scope r = scopeId \<and> dn_device r = deviceId) (deny_overlays d)) of
        [] \<Rightarrow> None | r # _ \<Rightarrow> Some r)"

text \<open>The scope columns of the left join, for a membership row.\<close>

definition joined_scope :: "db \<Rightarrow> membership_row \<Rightarrow> scope_row option" where
  "joined_scope d m = first_where (\<lambda>s. sc_id s = sm_scope m) (scopes d)"

definition scopeFromJoinedRow :: "db \<Rightarrow> membership_row \<Rightarrow> scope_row option" where
  "scopeFromJoinedRow d m = (case joined_scope d m of
     None \<Rightarrow> None
   | Some s \<Rightarrow> if sc_label s = [] \<or> sc_kind s = [] \<or> sc_authority_type s = [] then None else Some s)"

definition joined_authority_ok :: "db \<Rightarrow> cache_authority option \<Rightarrow> membership_row \<Rightarrow> bool" where
  "joined_authority_ok d authority m = (case authority of
     None \<Rightarrow> True
   | Some a \<Rightarrow>
       sql_eq (coalesce (sm_coordinator_id m) (case joined_scope d m of None \<Rightarrow> None | Some s \<Rightarrow> sc_coordinator_id s))
         (Some (fst a))
       \<and> sql_eq (coalesce (sm_group_id m) (case joined_scope d m of None \<Rightarrow> None | Some s \<Rightarrow> sc_group_id s))
         (Some (snd a)))"

definition readCachedScopeRows ::
    "db \<Rightarrow> string \<Rightarrow> string \<Rightarrow> cache_authority option \<Rightarrow> membership_row option \<times> scope_row option" where
  "readCachedScopeRows d deviceId scopeId authority =
     (case first_where (\<lambda>m. sm_device m = deviceId \<and> sm_scope m = scopeId \<and> joined_authority_ok d authority m)
            (memberships d) of
        Some m \<Rightarrow> (Some m, scopeFromJoinedRow d m)
      | None \<Rightarrow> (None, loadScope d scopeId authority))"

definition authorityFromMembership ::
    "membership_row option \<Rightarrow> cache_authority option \<Rightarrow> cache_authority option" where
  "authorityFromMembership m fallback =
     (let c = coalesce (clean_text (case m of None \<Rightarrow> None | Some r \<Rightarrow> sm_coordinator_id r)) (map_option fst fallback);
          g = coalesce (clean_text (case m of None \<Rightarrow> None | Some r \<Rightarrow> sm_group_id r)) (map_option snd fallback)
      in (case (c, g) of
            (Some c', Some g') \<Rightarrow> if c' \<noteq> [] \<and> g' \<noteq> [] then Some (c', g') else None
          | _ \<Rightarrow> None))"

definition authorityFromScope :: "scope_row option \<Rightarrow> cache_authority option" where
  "authorityFromScope s =
     (case (clean_text (case s of None \<Rightarrow> None | Some r \<Rightarrow> sc_coordinator_id r),
            clean_text (case s of None \<Rightarrow> None | Some r \<Rightarrow> sc_group_id r)) of
        (Some c, Some g) \<Rightarrow> Some (c, g) | _ \<Rightarrow> None)"

definition cachedScopeDecisionState ::
    "membership_row option \<Rightarrow> scope_row option \<Rightarrow> epoch_status \<Rightarrow> bool \<Rightarrow> authorization_state" where
  "cachedScopeDecisionState membership scope epoch policyDenied =
     (if policyDenied then PolicyDenied
      else (case membership of
              None \<Rightarrow> NotAuthorized
            | Some m \<Rightarrow>
                if sm_status m = ''revoked'' then Revoked
                else (case scope of
                        Some s \<Rightarrow>
                          if sc_status s \<noteq> [] \<and> sc_status s \<noteq> ''active'' then ScopeInactive
                          else if ep_stale epoch then StaleEpochState
                          else if sm_status m = ''active'' then Authorized else NotAuthorized
                      | None \<Rightarrow> ScopeUnknown)))"

record scope_authorization =
  au_device :: string
  au_scope_id :: string
  au_authorized :: bool
  au_state :: authorization_state
  au_freshness :: freshness_state
  au_epoch :: epoch_status
  au_revocation :: "revocation_notice option"
  au_membership :: "membership_row option"
  au_scope :: "scope_row option"
  au_cache_states :: "cache_state_row list"

definition readCachedScopeAuthorization ::
    "(string \<Rightarrow> int option) \<Rightarrow> int \<Rightarrow> int \<Rightarrow> db \<Rightarrow> string \<Rightarrow> string \<Rightarrow> cache_authority option \<Rightarrow>
     string + scope_authorization" where
  "readCachedScopeAuthorization parse_date nowMs maxAgeMs d deviceInput scopeInput authority =
     (case (clean_text (Some deviceInput), clean_text (Some scopeInput)) of
        (Some deviceId, Some scopeId) \<Rightarrow>
          let (m, s) = readCachedScopeRows d deviceId scopeId authority;
              auth = authorityFromMembership m (coalesce authority (authorityFromScope s));
              states = loadCacheStates d auth;
              epoch = scopeMembershipEpochStatus (map_option sm_epoch m) (map_option sc_epoch s);
              state = cachedScopeDecisionState m s epoch
                (getAnyRecipientPolicyDenyOverlayForScopeDevice d scopeId deviceId \<noteq> None)
          in Inr \<lparr> au_device = deviceId, au_scope_id = scopeId, au_authorized = (state = Authorized),
               au_state = state, au_freshness = freshness parse_date nowMs maxAgeMs states,
               au_epoch = epoch,
               au_revocation = (case m of
                  Some r \<Rightarrow> if state = Revoked
                    then Some (explainScopeMembershipRevocation scopeId deviceId (Some (sm_epoch r))) else None
                | None \<Rightarrow> None),
               au_membership = m, au_scope = s, au_cache_states = states \<rparr>
      | _ \<Rightarrow> Inl ''device_id and scope_id are required.'')"

definition getCachedScopeAuthorization ::
    "(string \<Rightarrow> int option) \<Rightarrow> int \<Rightarrow> int \<Rightarrow> db \<Rightarrow> string \<Rightarrow> string \<Rightarrow> cache_authority option \<Rightarrow>
     string + scope_authorization" where
  "getCachedScopeAuthorization parse_date nowMs maxAgeMs d deviceId scopeId authority =
     (if clean_text (Some deviceId) = None \<or> clean_text (Some scopeId) = None
      then Inl ''device_id and scope_id are required.''
      else readCachedScopeAuthorization parse_date nowMs maxAgeMs d deviceId scopeId authority)"

text \<open>\<open>getEffectiveCachedScopeAuthorization\<close>: a coordinator scope also needs the retained key.\<close>

definition getEffectiveCachedScopeAuthorization ::
    "(string \<Rightarrow> string option) \<Rightarrow> (string \<Rightarrow> int option) \<Rightarrow> int \<Rightarrow> int \<Rightarrow> db \<Rightarrow> string \<Rightarrow> string \<Rightarrow>
     cache_authority option \<Rightarrow> string option \<Rightarrow> string + scope_authorization \<times> string option" where
  "getEffectiveCachedScopeAuthorization key_id_of parse_date nowMs maxAgeMs d deviceId scopeId authority publicKey =
     (case readCachedScopeAuthorization parse_date nowMs maxAgeMs d deviceId scopeId authority of
        Inl e \<Rightarrow> Inl e
      | Inr cached \<Rightarrow>
          (case (au_scope cached, au_membership cached) of
             (Some s, m) \<Rightarrow>
               if \<not> au_authorized cached \<or> sc_authority_type s \<noteq> ''coordinator'' then Inr (cached, None)
               else (case (case m of None \<Rightarrow> None
                        | Some r \<Rightarrow> getRetainedScopeAuthorizationKey key_id_of d s r publicKey) of
                       None \<Rightarrow> Inr (cached\<lparr> au_authorized := False, au_state := NotAuthorized \<rparr>, None)
                     | Some key \<Rightarrow> Inr (cached, Some key))
           | (None, _) \<Rightarrow> Inr (cached, None)))"

definition listCachedScopesForDevice ::
    "(string \<Rightarrow> int option) \<Rightarrow> int \<Rightarrow> int \<Rightarrow> db \<Rightarrow> string \<Rightarrow> cache_authority option \<Rightarrow>
     string + freshness_state \<times> (membership_row \<times> scope_row option) list" where
  "listCachedScopesForDevice parse_date nowMs maxAgeMs d deviceInput authority =
     (case clean_text (Some deviceInput) of
        None \<Rightarrow> Inl ''device_id is required.''
      | Some deviceId \<Rightarrow>
          let rows = sort_key sm_scope (filter (\<lambda>m. sm_device m = deviceId \<and> sm_status m = ''active''
                \<and> (case joined_scope d m of None \<Rightarrow> False
                   | Some s \<Rightarrow> sc_status s = ''active'' \<and> sm_epoch m \<ge> sc_epoch s)
                \<and> joined_authority_ok d authority m) (memberships d))
          in Inr (freshness parse_date nowMs maxAgeMs (loadCacheStates d authority),
               map (\<lambda>m. (m, scopeFromJoinedRow d m))
                 (filter (\<lambda>m. getAnyRecipientPolicyDenyOverlayForScopeDevice d (sm_scope m) deviceId = None) rows)))"

end
