(* ===== verification/Scope_Authorization.thy ===== *)
theory Scope_Authorization
  imports Scope_Membership
begin

text \<open>
  Correctness of the scope membership cache: epochs never go back and a revoked member returns only under
  a newer epoch; a committed refresh leaves the authorization decision exactly as the coordinator
  answered it; an overtaken refresh writes nothing.
\<close>

section \<open>Epoch caches\<close>

text \<open>A cache keyed by \<open>key\<close> that replaces an entry only by one that is not older, and a sealed entry
  only by a strictly newer one.\<close>

locale epoch_cache =
  fixes lookup :: "'s \<Rightarrow> 'k \<Rightarrow> 'v option"
    and store :: "'v \<Rightarrow> 's \<Rightarrow> 's"
    and key :: "'v \<Rightarrow> 'k"
    and epoch :: "'v \<Rightarrow> int"
    and sealed :: "'v \<Rightarrow> bool"
  assumes lookup_other: "key v \<noteq> k \<Longrightarrow> lookup (store v s) k = lookup s k"
    and lookup_new: "lookup s (key v) = None \<Longrightarrow> lookup (store v s) (key v) = Some v"
    and lookup_old: "lookup s (key v) = Some w \<Longrightarrow>
      lookup (store v s) (key v) = Some w \<and> \<not> epoch v > epoch w
      \<or> (\<exists>v'. lookup (store v s) (key v) = Some v' \<and> epoch v' = epoch v
          \<and> (epoch v > epoch w \<or> epoch v = epoch w \<and> \<not> sealed w))"
begin

lemma store_progress:
  assumes "lookup s k = Some w"
  shows "\<exists>w'. lookup (store v s) k = Some w' \<and> epoch w \<le> epoch w'
    \<and> (sealed w \<longrightarrow> w' = w \<or> epoch w < epoch w')"
proof (cases "key v = k")
  case True
  then show ?thesis using lookup_old [of s v w] assms by fastforce
next
  case False
  then show ?thesis using lookup_other assms by simp
qed

lemma run_progress:
  assumes "lookup s k = Some w"
  shows "\<exists>w'. lookup (fold store vs s) k = Some w' \<and> epoch w \<le> epoch w'
    \<and> (sealed w \<longrightarrow> w' = w \<or> epoch w < epoch w')"
  using assms
proof (induction vs arbitrary: s w)
  case Nil
  then show ?case by simp
next
  case (Cons v vs)
  from store_progress [OF Cons.prems, of v] obtain u where
    u: "lookup (store v s) k = Some u" "epoch w \<le> epoch u" "sealed w \<longrightarrow> u = w \<or> epoch w < epoch u"
    by blast
  from Cons.IH [OF u(1)] obtain w' where
    w': "lookup (fold store vs (store v s)) k = Some w'" "epoch u \<le> epoch w'"
      "sealed u \<longrightarrow> w' = u \<or> epoch u < epoch w'"
    by blast
  have "lookup (fold store (v # vs) s) k = Some w'" using w'(1) by simp
  moreover have "epoch w \<le> epoch w'" using u(2) w'(2) by simp
  moreover have "sealed w \<longrightarrow> w' = w \<or> epoch w < epoch w'" using u(2,3) w'(2,3) by auto
  ultimately show ?case by blast
qed

text \<open>The newest write of a run is at least matched by what the cache holds afterwards.\<close>

lemma store_reaches: "\<exists>w'. lookup (store v s) (key v) = Some w' \<and> epoch v \<le> epoch w'"
  using lookup_new [of s v] lookup_old [of s v] by (cases "lookup s (key v)") fastforce+

lemma run_reaches:
  "v \<in> set vs \<Longrightarrow> \<exists>w'. lookup (fold store vs s) (key v) = Some w' \<and> epoch v \<le> epoch w'"
proof (induction vs arbitrary: s)
  case (Cons u vs)
  show ?case
  proof (cases "v \<in> set vs")
    case True
    then show ?thesis using Cons.IH by simp
  next
    case False
    with Cons.prems have u: "u = v" by simp
    obtain w where w: "lookup (store v s) (key v) = Some w" "epoch v \<le> epoch w"
      using store_reaches by blast
    from run_progress [OF w(1), of vs] w(2) u show ?thesis by fastforce
  qed
qed simp

end

definition find_membership :: "db \<Rightarrow> string \<times> string \<Rightarrow> membership_row option" where
  "find_membership d k = first_where (\<lambda>m. membership_key m = k) (memberships d)"

definition find_scope :: "db \<Rightarrow> string \<Rightarrow> scope_row option" where
  "find_scope d s = first_where (\<lambda>r. sc_id r = s) (scopes d)"

definition store_membership :: "membership_row \<Rightarrow> db \<Rightarrow> db" where
  "store_membership m d = snd (upsertCachedScopeMemberships d [m])"

definition is_revoked :: "membership_row \<Rightarrow> bool" where
  "is_revoked m \<longleftrightarrow> sm_status m = ''revoked''"

lemma membership_key_merge: "membership_key old = membership_key new \<Longrightarrow>
    membership_key (merge_membership new old) = membership_key new"
  by (simp add: merge_membership_def)

lemma sc_id_merge: "sc_id old = sc_id new \<Longrightarrow> sc_id (merge_scope new old) = sc_id new"
  by (simp add: merge_scope_def)

lemma find_membership_store:
  "find_membership (store_membership m d) k =
     (if k = membership_key m
      then Some (case find_membership d k of None \<Rightarrow> m | Some old \<Rightarrow> merge_membership m old)
      else find_membership d k)"
  by (simp add: find_membership_def store_membership_def upsertCachedScopeMemberships_def
      first_where_upsert [where key = membership_key, OF membership_key_merge])

lemma find_scope_upsert:
  "find_scope (upsertScope d s) k =
     (if k = sc_id s then Some (case find_scope d k of None \<Rightarrow> s | Some old \<Rightarrow> merge_scope s old)
      else find_scope d k)"
  by (simp add: find_scope_def upsertScope_def
      first_where_upsert [where key = sc_id, OF sc_id_merge])

interpretation membership_cache: epoch_cache find_membership store_membership membership_key sm_epoch is_revoked
  by unfold_locales (auto simp: find_membership_store merge_membership_def is_revoked_def)

interpretation scope_cache: epoch_cache find_scope "\<lambda>s d. upsertScope d s" sc_id sc_epoch "\<lambda>_. False"
  by unfold_locales (auto simp: find_scope_upsert merge_scope_def)

lemma upsertCachedScopeMemberships_fold:
  "snd (upsertCachedScopeMemberships d ms) = fold store_membership ms d"
proof (induction ms arbitrary: d)
  case (Cons m ms)
  have "snd (upsertCachedScopeMemberships d (m # ms))
      = snd (upsertCachedScopeMemberships (store_membership m d) ms)"
    by (simp add: upsertCachedScopeMemberships_def store_membership_def)
  then show ?case using Cons.IH by simp
qed (simp add: upsertCachedScopeMemberships_def)

section \<open>Reading through the writes of a refresh\<close>

lemma find_membership_update:
  assumes "\<And>m. membership_key (f m) = membership_key m"
  shows "find_membership (d\<lparr> memberships := update_where p f (memberships d) \<rparr>) k =
    map_option (\<lambda>m. if p m then f m else m) (find_membership d k)"
  by (simp add: find_membership_def first_where_update assms)

lemma find_membership_migrate:
  "find_membership (migrateSnapshotMembershipAuthority d b) k =
    map_option (\<lambda>m.
      if sm_scope m = sc_id (bt_scope b)
         \<and> sql_eq (coalesce (sm_group_id m) (sc_group_id (bt_scope b))) (sc_group_id (bt_scope b))
         \<and> (sql_eq (coalesce (sm_coordinator_id m) (sc_coordinator_id (bt_scope b))) (sc_coordinator_id (bt_scope b))
            \<or> sql_eq (coalesce (sm_coordinator_id m) (sc_coordinator_id (bt_scope b))) (bt_source_coordinator b))
      then m\<lparr> sm_coordinator_id := sc_coordinator_id (bt_scope b), sm_group_id := sc_group_id (bt_scope b) \<rparr>
      else m) (find_membership d k)"
  unfolding migrateSnapshotMembershipAuthority_def Let_def
  by (rule find_membership_update) (simp add: membership_key_def)

lemma find_membership_reconcile:
  "find_membership (reconcileScopeMembershipSnapshot t d b a) k =
    map_option (\<lambda>m. if reconcile_hit b a m
      then m\<lparr> sm_status := ''revoked'',
              sm_epoch := (if sm_epoch m > sc_epoch (bt_scope b) then sm_epoch m else sc_epoch (bt_scope b)),
              sm_coordinator_id := Some (fst a), sm_group_id := Some (snd a), sm_updated_at := t \<rparr>
      else m) (find_membership d k)"
  unfolding reconcileScopeMembershipSnapshot_def
  by (rule find_membership_update) (simp add: membership_key_def)

lemma find_membership_upserts:
  assumes "distinct (map membership_key ms)"
  shows "find_membership (snd (upsertCachedScopeMemberships d ms)) k =
    (case first_where (\<lambda>m. membership_key m = k) ms of
       None \<Rightarrow> find_membership d k
     | Some new \<Rightarrow> Some (case find_membership d k of None \<Rightarrow> new | Some old \<Rightarrow> merge_membership new old))"
  using first_where_upserts [where key = membership_key and merge = merge_membership,
      OF membership_key_merge assms]
  unfolding find_membership_def upsertCachedScopeMemberships_def by simp

lemma find_membership_frame [frame]:
  "find_membership (upsertScope d s) k = find_membership d k"
  "find_membership (reconcileGroupScopeSnapshot t d a ss) k = find_membership d k"
  "find_membership (reconcileScopeAuthorizationEvidence ki d bs a r) k = find_membership d k"
  by (simp_all add: find_membership_def upsertScope_def reconcileGroupScopeSnapshot_def Let_def
      reconcileScopeAuthorizationEvidence_def)

lemma find_membership_record [frame]:
  "recordRefreshState t d a ok e = Inr d' \<Longrightarrow> find_membership d' k = find_membership d k"
  by (auto simp: recordRefreshState_def find_membership_def split: sum.splits)

lemma find_scope_frame [frame]:
  "find_scope (migrateSnapshotMembershipAuthority d b) k = find_scope d k"
  "find_scope (snd (upsertCachedScopeMemberships d ms)) k = find_scope d k"
  "find_scope (reconcileScopeMembershipSnapshot t d b a) k = find_scope d k"
  "find_scope (reconcileScopeAuthorizationEvidence ki d bs a r) k = find_scope d k"
  by (simp_all add: find_scope_def migrateSnapshotMembershipAuthority_def upsertCachedScopeMemberships_def
      reconcileScopeMembershipSnapshot_def reconcileScopeAuthorizationEvidence_def Let_def)

lemma find_scope_record [frame]:
  "recordRefreshState t d a ok e = Inr d' \<Longrightarrow> find_scope d' k = find_scope d k"
  by (auto simp: recordRefreshState_def find_scope_def split: sum.splits)

lemma deny_overlays_record [frame]:
  "recordRefreshState t d a ok e = Inr d' \<Longrightarrow> deny_overlays d' = deny_overlays d"
  by (auto simp: recordRefreshState_def split: sum.splits)

lemma deny_overlays_frame [frame]:
  "deny_overlays (persist_batch t a r b d) = deny_overlays d"
  "deny_overlays (reconcileGroupScopeSnapshot t d a ss) = deny_overlays d"
  "deny_overlays (reconcileScopeAuthorizationEvidence ki d bs a r) = deny_overlays d"
  by (simp_all add: persist_batch_def Let_def reconcileGroupScopeSnapshot_def upsertScope_def
      reconcileScopeAuthorizationEvidence_def migrateSnapshotMembershipAuthority_def
      upsertCachedScopeMemberships_def reconcileScopeMembershipSnapshot_def)

section \<open>What a refresh does to one member\<close>

text \<open>A batch as \<open>normalizeScopeSnapshot\<close> returns it.\<close>

definition wf_batch :: "cache_authority \<Rightarrow> scope_batch \<Rightarrow> bool" where
  "wf_batch a b \<longleftrightarrow>
     sc_coordinator_id (bt_scope b) = Some (fst a) \<and> sc_group_id (bt_scope b) = Some (snd a)
     \<and> sc_status (bt_scope b) = ''active'' \<and> sc_label (bt_scope b) \<noteq> [] \<and> sc_kind (bt_scope b) \<noteq> []
     \<and> sc_authority_type (bt_scope b) \<noteq> []
     \<and> distinct (map sm_device (bt_members b))
     \<and> (\<forall>m\<in>set (bt_members b). sm_scope m = sc_id (bt_scope b) \<and> sm_status m = ''active''
          \<and> sm_epoch m \<ge> sc_epoch (bt_scope b))"

lemma require_all_members: "require_all f xs = Inr ys \<Longrightarrow> y \<in> set ys \<Longrightarrow> \<exists>x\<in>set xs. f x = Inr y"
  by (induction xs arbitrary: ys) (auto split: sum.splits)

lemma require_all_complete: "require_all f xs = Inr ys \<Longrightarrow> x \<in> set xs \<Longrightarrow> \<exists>y\<in>set ys. f x = Inr y"
  by (induction xs arbitrary: ys) (auto split: sum.splits)

lemma normalizeScopeSnapshot_wf:
  assumes "normalizeScopeSnapshot key_id_of raw cat groupId coordinatorId = Inr b"
  shows "wf_batch (coordinatorId, groupId) b \<and> sc_id (bt_scope b) = sc_id cat"
proof -
  from assms obtain source members where
    source: "requireScope (sn_scope raw) groupId = Inr source" and
    members: "require_all (\<lambda>item. requireMember key_id_of item source) (sn_items raw) = Inr members" and
    dist: "distinct (map (\<lambda>i. sm_device (si_membership i)) members)" and
    same: "sc_id source = sc_id cat" and
    b: "b = \<lparr> bt_scope = source\<lparr> sc_coordinator_id := Some coordinatorId \<rparr>,
         bt_members = map (\<lambda>i. (si_membership i)\<lparr>
           sm_coordinator_id := Some coordinatorId, sm_group_id := Some groupId \<rparr>) members,
         bt_source_coordinator = sc_coordinator_id source,
         bt_evidence = \<lparr> sn_version = 1, sn_scope = source, sn_items = members \<rparr> \<rparr>"
    by (auto simp: normalizeScopeSnapshot_def split: if_splits sum.splits)
  from source have s: "valid_scope_record source" "scopeAuthorizationError source groupId = None"
    by (auto simp: requireScope_def split: if_splits)
  have "isCurrentScopeMember source (si_membership i)" if "i \<in> set members" for i
    using require_all_members [OF members that]
    by (auto simp: requireMember_def Let_def split: if_splits)
  then have mem: "\<forall>i\<in>set members. sm_scope (si_membership i) = sc_id source
      \<and> sm_status (si_membership i) = ''active'' \<and> sc_epoch source \<le> sm_epoch (si_membership i)"
    by (fastforce simp: isCurrentScopeMember_def not_less)
  show ?thesis
    using s mem dist same
    by (auto simp: wf_batch_def b valid_scope_record_def valid_text_def scopeAuthorizationError_def
        comp_def split: if_splits)
qed

lemma wf_batch_keys: "wf_batch a b \<Longrightarrow> distinct (map membership_key (bt_members b))"
  by (auto simp: wf_batch_def membership_key_def distinct_map inj_on_def)

lemma persist_batch_other_scope:
  assumes "wf_batch a b" "s \<noteq> sc_id (bt_scope b)"
  shows "find_membership (persist_batch t a r b d) (s, dev) = find_membership d (s, dev)"
proof -
  have miss: "first_where (\<lambda>m. membership_key m = (s, dev)) (bt_members b) = None"
    using assms by (auto simp: first_where_None_iff wf_batch_def membership_key_def)
  have scope: "find_membership d' (s, dev) = Some m \<Longrightarrow> sm_scope m = s" for d' m
    by (auto simp: find_membership_def membership_key_def dest: first_where_SomeD)
  have mig: "find_membership (migrateSnapshotMembershipAuthority d' b) (s, dev) = find_membership d' (s, dev)" for d'
    using scope assms(2) by (cases "find_membership d' (s, dev)") (auto simp: find_membership_migrate)
  have rec: "find_membership (reconcileScopeMembershipSnapshot t d' b a) (s, dev) = find_membership d' (s, dev)" for d'
    using scope assms(2)
    by (cases "find_membership d' (s, dev)") (auto simp: find_membership_reconcile reconcile_hit_def)
  show ?thesis
    using miss by (simp add: persist_batch_def Let_def rec mig frame
      find_membership_upserts [OF wf_batch_keys [OF assms(1)]])
qed

lemma first_where_distinct:
  "distinct (map key xs) \<Longrightarrow> x \<in> set xs \<Longrightarrow> first_where (\<lambda>y. key y = key x) xs = Some x"
  by (induction xs) (auto simp: image_iff)

lemma persist_batch_listed:
  assumes wf: "wf_batch a b" and m: "m \<in> set (bt_members b)"
    and ok: "\<And>old. find_membership d (membership_key m) = Some old \<Longrightarrow>
      sm_epoch old \<le> sm_epoch m \<and> \<not> (sm_status old = ''revoked'' \<and> sm_epoch old = sm_epoch m)"
  shows "find_membership (persist_batch t a False b d) (membership_key m) = Some m"
proof -
  let ?d1 = "migrateSnapshotMembershipAuthority (upsertScope d (bt_scope b)) b"
  have first: "first_where (\<lambda>x. membership_key x = membership_key m) (bt_members b) = Some m"
    by (rule first_where_distinct [OF wf_batch_keys [OF wf] m])
  have "merge_membership m old = m" if "find_membership ?d1 (membership_key m) = Some old" for old
    using ok that by (auto simp: find_membership_migrate frame merge_membership_def split: if_splits)
  then have up: "find_membership (snd (upsertCachedScopeMemberships ?d1 (bt_members b))) (membership_key m) = Some m"
    using first by (cases "find_membership ?d1 (membership_key m)")
      (simp_all add: find_membership_upserts [OF wf_batch_keys [OF wf]])
  have "\<not> reconcile_hit b a m" using m by (simp add: reconcile_hit_def)
  then show ?thesis using up by (simp add: persist_batch_def Let_def find_membership_reconcile)
qed

lemma persist_batch_unlisted:
  assumes wf: "wf_batch a b" and unlisted: "dev \<notin> sm_device ` set (bt_members b)"
    and src: "\<And>old. find_membership d (sc_id (bt_scope b), dev) = Some old \<Longrightarrow>
      matchesSnapshotSource (sm_coordinator_id old) (sm_group_id old) b"
  shows "case find_membership (persist_batch t a r b d) (sc_id (bt_scope b), dev) of
    None \<Rightarrow> True | Some m \<Rightarrow> sm_status m = ''revoked''"
proof -
  let ?k = "(sc_id (bt_scope b), dev)"
  let ?d1 = "if r then d else snd (upsertCachedScopeMemberships
      (migrateSnapshotMembershipAuthority (upsertScope d (bt_scope b)) b) (bt_members b))"
  have miss: "first_where (\<lambda>m. membership_key m = ?k) (bt_members b) = None"
    using unlisted by (auto simp: first_where_None_iff membership_key_def)
  have hit: "reconcile_hit b a m \<or> sm_status m = ''revoked''" if "find_membership ?d1 ?k = Some m" for m
  proof -
    have key: "sm_scope m = sc_id (bt_scope b)" "sm_device m = dev"
      using that by (auto simp: find_membership_def membership_key_def dest!: first_where_SomeD)
    have "matchesSnapshotSource (sm_coordinator_id m) (sm_group_id m) b"
      using that src miss
      by (auto simp: find_membership_upserts [OF wf_batch_keys [OF wf]] find_membership_migrate frame
          matchesSnapshotSource_def split: if_splits)
    then show ?thesis
      using key unlisted wf
      by (auto simp: reconcile_hit_def matchesSnapshotSource_def wf_batch_def Let_def or_default_def
          split: option.splits)
  qed
  show ?thesis
    using hit by (auto simp: persist_batch_def Let_def find_membership_reconcile split: option.splits)
qed


section \<open>What a refresh does to the whole cache\<close>

lemma persist_batch_local:
  assumes "wf_batch a b" "find_membership d k = find_membership d' k"
  shows "find_membership (persist_batch t a r b d) k = find_membership (persist_batch t a r b d') k"
  using assms(2)
  by (simp add: persist_batch_def Let_def find_membership_reconcile find_membership_migrate frame
      find_membership_upserts [OF wf_batch_keys [OF assms(1)]] cong: option.case_cong)

lemma persist_batches_other_scope:
  assumes "\<forall>b\<in>set bs. wf_batch a b \<and> sc_id (bt_scope b) \<noteq> s"
  shows "find_membership (fold (persist_batch t a r) bs d) (s, dev) = find_membership d (s, dev)"
  using assms
proof (induction bs arbitrary: d)
  case (Cons b bs)
  then have "wf_batch a b" "s \<noteq> sc_id (bt_scope b)" by auto
  then show ?case using Cons persist_batch_other_scope [of a b s t r d dev] by simp
qed simp

lemma persist_batches_member:
  assumes "\<forall>b\<in>set bs. wf_batch a b" "distinct (map (\<lambda>b. sc_id (bt_scope b)) bs)" "b \<in> set bs"
  shows "find_membership (fold (persist_batch t a r) bs d) (sc_id (bt_scope b), dev)
    = find_membership (persist_batch t a r b d) (sc_id (bt_scope b), dev)"
  using assms
proof (induction bs arbitrary: d)
  case (Cons c bs)
  show ?case
  proof (cases "b = c")
    case True
    with Cons.prems have "\<forall>x\<in>set bs. wf_batch a x \<and> sc_id (bt_scope x) \<noteq> sc_id (bt_scope b)"
      by (auto simp: image_iff)
    then show ?thesis using True by (simp add: persist_batches_other_scope)
  next
    case False
    with Cons.prems have b: "b \<in> set bs" and ne: "sc_id (bt_scope b) \<noteq> sc_id (bt_scope c)"
      by (auto simp: image_iff)
    have "find_membership (fold (persist_batch t a r) bs (persist_batch t a r c d)) (sc_id (bt_scope b), dev)
        = find_membership (persist_batch t a r b (persist_batch t a r c d)) (sc_id (bt_scope b), dev)"
      using Cons.prems b by (intro Cons.IH) auto
    also have "\<dots> = find_membership (persist_batch t a r b d) (sc_id (bt_scope b), dev)"
      using Cons.prems(1,3) ne
      by (intro persist_batch_local persist_batch_other_scope) auto
    finally show ?thesis by simp
  qed
qed simp

lemma find_scope_persist:
  "find_scope (persist_batch t a r b d) k =
     (if \<not> r \<and> k = sc_id (bt_scope b)
      then Some (case find_scope d k of None \<Rightarrow> bt_scope b | Some old \<Rightarrow> merge_scope (bt_scope b) old)
      else find_scope d k)"
  by (simp add: persist_batch_def Let_def frame find_scope_upsert)

lemma find_scope_persists:
  assumes "distinct (map (\<lambda>b. sc_id (bt_scope b)) bs)" "b \<in> set bs"
  shows "find_scope (fold (persist_batch t a False) bs d) (sc_id (bt_scope b)) =
    Some (case find_scope d (sc_id (bt_scope b)) of None \<Rightarrow> bt_scope b | Some old \<Rightarrow> merge_scope (bt_scope b) old)"
  using assms
proof (induction bs arbitrary: d)
  case (Cons c bs)
  have other: "find_scope (fold (persist_batch t a False) xs e) k = find_scope e k"
    if "k \<notin> (\<lambda>b. sc_id (bt_scope b)) ` set xs" for xs e k
    using that by (induction xs arbitrary: e) (simp_all add: find_scope_persist)
  show ?case
  proof (cases "b = c")
    case True
    with Cons.prems show ?thesis by (simp add: other find_scope_persist cong: option.case_cong)
  next
    case False
    with Cons.prems have "b \<in> set bs" "sc_id (bt_scope b) \<noteq> sc_id (bt_scope c)"
      by (auto simp: image_iff)
    then show ?thesis using Cons by (simp add: find_scope_persist)
  qed
qed simp

lemma find_scope_group_listed:
  assumes "k \<in> sc_id ` set listed"
  shows "find_scope (reconcileGroupScopeSnapshot t d a listed) k = find_scope d k"
proof -
  have "sc_id s \<in> set (map sc_id (filter (archive_hit a listed) (scopes d))) \<Longrightarrow> sc_id s \<notin> sc_id ` set listed" for s
    by (auto simp: archive_hit_def) (metis imageI)
  then have upd: "sc_id s = k \<Longrightarrow> sc_id s \<notin> set (map sc_id (filter (archive_hit a listed) (scopes d)))" for s
    using assms by blast
  have "first_where (\<lambda>s. sc_id s = k) (update_where (\<lambda>s. sc_coordinator_id s = Some (fst a)
          \<and> sc_group_id s = Some (snd a) \<and> sc_id s \<in> set (map sc_id (filter (archive_hit a listed) (scopes d))))
        (\<lambda>s. s\<lparr> sc_status := ''archived'', sc_updated_at := t \<rparr>) (scopes d))
      = first_where (\<lambda>s. sc_id s = k) (scopes d)"
    using upd by (subst first_where_update) (auto dest!: first_where_SomeD simp: map_option_case split: option.splits)
  then show ?thesis by (simp add: reconcileGroupScopeSnapshot_def find_scope_def Let_def)
qed

lemma find_scope_group_missing:
  assumes "find_scope (reconcileGroupScopeSnapshot t d a listed) k = Some s" "k \<notin> sc_id ` set listed"
    "sc_coordinator_id s = Some (fst a)" "sc_group_id s = Some (snd a)"
  shows "sc_status s = ''archived''"
proof (rule ccontr)
  assume open_scope: "sc_status s \<noteq> ''archived''"
  let ?miss = "map sc_id (filter (archive_hit a listed) (scopes d))"
  have hit: "archive_hit a listed r" if "r \<in> set (scopes d)" "sc_id r = k" "sc_status r \<noteq> ''archived''"
    "sc_coordinator_id r = Some (fst a)" "sc_group_id r = Some (snd a)" for r
    using that assms(2) by (simp add: archive_hit_def)
  show False
  proof (cases "?miss = []")
    case True
    then have "find_scope d k = Some s" using assms(1) by (simp add: reconcileGroupScopeSnapshot_def)
    then have "s \<in> set (scopes d)" "sc_id s = k" by (auto simp: find_scope_def dest: first_where_SomeD)
    with hit [of s] assms(3,4) open_scope True show False by (auto simp: filter_empty_conv)
  next
    case False
    define p where "p = (\<lambda>s :: scope_row. sc_coordinator_id s = Some (fst a)
      \<and> sc_group_id s = Some (snd a) \<and> sc_id s \<in> set ?miss)"
    define f where "f = (\<lambda>s :: scope_row. s\<lparr> sc_status := ''archived'', sc_updated_at := t \<rparr>)"
    have "first_where (\<lambda>s. sc_id s = k) (update_where p f (scopes d)) = Some s"
      using assms(1) False by (simp add: reconcileGroupScopeSnapshot_def find_scope_def Let_def p_def f_def)
    then have s: "s \<in> set (update_where p f (scopes d))" "sc_id s = k"
      by (auto dest: first_where_SomeD)
    from s(1) obtain r where r: "r \<in> set (scopes d)" "s = (if p r then f r else r)"
      unfolding update_where_def set_map by blast
    have "\<not> p r" using r(2) open_scope by (auto simp: f_def)
    with r have "r = s" by simp
    with hit [of s] r(1) s(2) open_scope assms(3,4) have "archive_hit a listed s" by simp
    then have "p s" using r(1) \<open>r = s\<close> assms(3,4) by (simp add: p_def)
    then show False using \<open>\<not> p r\<close> \<open>r = s\<close> by simp
  qed
qed


section \<open>The decision after a refresh\<close>

definition cached_decision :: "db \<Rightarrow> string \<Rightarrow> string \<Rightarrow> authorization_state" where
  "cached_decision d dev s =
     (let (m, sc) = readCachedScopeRows d dev s None
      in cachedScopeDecisionState m sc
           (scopeMembershipEpochStatus (map_option sm_epoch m) (map_option sc_epoch sc))
           (getAnyRecipientPolicyDenyOverlayForScopeDevice d s dev \<noteq> None))"

lemma readCachedScopeAuthorization_state:
  assumes "clean_text (Some dev) = Some dev" "clean_text (Some s) = Some s"
  shows "\<exists>au. readCachedScopeAuthorization pd nowMs age d dev s None = Inr au
    \<and> au_state au = cached_decision d dev s \<and> au_authorized au = (cached_decision d dev s = Authorized)"
  using assms by (simp add: readCachedScopeAuthorization_def cached_decision_def Let_def split: prod.splits)

lemma readCachedScopeRows_find:
  "readCachedScopeRows d dev s None =
     (case find_membership d (s, dev) of
        Some m \<Rightarrow> (Some m, scopeFromJoinedRow d m)
      | None \<Rightarrow> (None, find_scope d s))"
proof -
  have "(\<lambda>m. sm_device m = dev \<and> sm_scope m = s \<and> joined_authority_ok d None m)
      = (\<lambda>m. membership_key m = (s, dev))"
    by (auto simp: membership_key_def joined_authority_ok_def)
  moreover have "loadScope d s None = find_scope d s" by (simp add: loadScope_def find_scope_def)
  ultimately show ?thesis by (simp add: readCachedScopeRows_def find_membership_def cong: option.case_cong)
qed

lemma scopeFromJoinedRow_find:
  "scopeFromJoinedRow d m = (case find_scope d (sm_scope m) of
     None \<Rightarrow> None
   | Some s \<Rightarrow> if sc_label s = [] \<or> sc_kind s = [] \<or> sc_authority_type s = [] then None else Some s)"
  by (simp add: scopeFromJoinedRow_def joined_scope_def find_scope_def)

text \<open>When the cache authorizes: no deny, an active member, an active scope, and no older epoch.\<close>

lemma cached_decision_Authorized:
  "cached_decision d dev s = Authorized \<longleftrightarrow>
     getAnyRecipientPolicyDenyOverlayForScopeDevice d s dev = None
     \<and> (\<exists>m sc. find_membership d (s, dev) = Some m \<and> scopeFromJoinedRow d m = Some sc
          \<and> sm_status m = ''active'' \<and> (sc_status sc = [] \<or> sc_status sc = ''active'')
          \<and> sc_epoch sc \<le> sm_epoch m)"
  by (auto simp: cached_decision_def readCachedScopeRows_find cachedScopeDecisionState_def
      scopeMembershipEpochStatus_def Let_def split: option.splits if_splits)

lemma deny_overlay_depends:
  "deny_overlays d = deny_overlays d' \<Longrightarrow>
     getAnyRecipientPolicyDenyOverlayForScopeDevice d s dev = getAnyRecipientPolicyDenyOverlayForScopeDevice d' s dev"
  by (simp add: getAnyRecipientPolicyDenyOverlayForScopeDevice_def)

lemma require_all_unsuperseded:
  assumes "require_all (requireUnsupersededSnapshot d) bs = Inr conflicts" "b \<in> set bs"
  shows "(case find_scope d (sc_id (bt_scope b)) of None \<Rightarrow> True | Some s \<Rightarrow> sc_epoch s \<le> sc_epoch (bt_scope b))
    \<and> (\<forall>dev old. find_membership d (sc_id (bt_scope b), dev) = Some old \<longrightarrow>
        \<not> superseding_row b old \<and> (\<not> list_ex (\<lambda>c. c) conflicts \<longrightarrow> \<not> reviving_row b old))"
proof -
  from require_all_complete [OF assms] obtain c where c: "c \<in> set conflicts"
    "requireUnsupersededSnapshot d b = Inr c" by blast
  have rows: "old \<in> set (filter (\<lambda>m. sm_scope m = sc_id (bt_scope b)) (memberships d))"
    if "find_membership d (sc_id (bt_scope b), dev) = Some old" for dev old
    using that by (auto simp: find_membership_def membership_key_def dest!: first_where_SomeD)
  have scope: "loadScope d (sc_id (bt_scope b)) None = find_scope d (sc_id (bt_scope b))"
    by (simp add: loadScope_def find_scope_def)
  have ok: "\<not> list_ex (superseding_row b) (filter (\<lambda>m. sm_scope m = sc_id (bt_scope b)) (memberships d))"
    "c = list_ex (reviving_row b) (filter (\<lambda>m. sm_scope m = sc_id (bt_scope b)) (memberships d))"
    "case find_scope d (sc_id (bt_scope b)) of None \<Rightarrow> True | Some s \<Rightarrow> sc_epoch s \<le> sc_epoch (bt_scope b)"
    using c(2) by (auto simp: requireUnsupersededSnapshot_def Let_def scope split: if_splits option.splits)
  have "\<not> superseding_row b old" if "find_membership d (sc_id (bt_scope b), dev) = Some old" for dev old
    using ok(1) rows [OF that] by (simp add: list_ex_iff)
  moreover have "\<not> reviving_row b old"
    if "find_membership d (sc_id (bt_scope b), dev) = Some old" "\<not> list_ex (\<lambda>c. c) conflicts" for dev old
    using ok(2) c(1) rows [OF that(1)] that(2) by (auto simp: list_ex_iff)
  ultimately show ?thesis using ok(3) by blast
qed

lemma incoming_member_listed:
  assumes "wf_batch a b" "m \<in> set (bt_members b)"
  shows "incoming_member b (sm_device m) = Some m"
  unfolding incoming_member_def
  by (rule first_where_distinct [where key = sm_device]) (use assms in \<open>auto simp: wf_batch_def rev_map [symmetric]\<close>)

text \<open>The pieces of a committed refresh.\<close>

lemma persistCurrentSnapshots_parts:
  assumes "persistCurrentSnapshots ki t d bs a r = Inr (err, d')" "err \<noteq> Some superseded_error"
  obtains conflicts d1 where
    "require_all (requireUnsupersededSnapshot d) bs = Inr conflicts"
    "d1 = fold (persist_batch t a (list_ex (\<lambda>c. c) conflicts)) bs d"
    "err = (if list_ex (\<lambda>c. c) conflicts then Some revival_error else None)"
    "recordRefreshState t (reconcileScopeAuthorizationEvidence ki
        (reconcileGroupScopeSnapshot t d1 a (map bt_scope bs)) bs a (list_ex (\<lambda>c. c) conflicts)) a
        (\<not> list_ex (\<lambda>c. c) conflicts) err = Inr d'"
  using assms by (auto simp: persistCurrentSnapshots_def Let_def split: sum.splits if_splits)

lemma refresh_membership:
  assumes p: "persistCurrentSnapshots ki t d bs a r = Inr (err, d')" "err \<noteq> Some superseded_error"
    and wf: "\<forall>b\<in>set bs. wf_batch a b" and dist: "distinct (map (\<lambda>b. sc_id (bt_scope b)) bs)"
    and b: "b \<in> set bs"
  shows "find_membership d' (sc_id (bt_scope b), dev)
    = find_membership (persist_batch t a (err \<noteq> None) b d) (sc_id (bt_scope b), dev)"
proof -
  from p obtain conflicts d1 where q:
    "d1 = fold (persist_batch t a (list_ex (\<lambda>c. c) conflicts)) bs d"
    "err = (if list_ex (\<lambda>c. c) conflicts then Some revival_error else None)"
    "recordRefreshState t (reconcileScopeAuthorizationEvidence ki
        (reconcileGroupScopeSnapshot t d1 a (map bt_scope bs)) bs a (list_ex (\<lambda>c. c) conflicts)) a
        (\<not> list_ex (\<lambda>c. c) conflicts) err = Inr d'"
    by (rule persistCurrentSnapshots_parts)
  have "find_membership d' (sc_id (bt_scope b), dev) = find_membership d1 (sc_id (bt_scope b), dev)"
    by (simp add: find_membership_record [OF q(3)] frame)
  then show ?thesis
    using persist_batches_member [OF wf dist b] q(2) by (auto simp: q(1))
qed

lemma deny_overlays_refresh:
  assumes "persistCurrentSnapshots ki t d bs a r = Inr (err, d')"
  shows "deny_overlays d' = deny_overlays d"
proof -
  have "deny_overlays (fold (persist_batch t a c) bs e) = deny_overlays e" for c e
    by (induction bs arbitrary: e) (simp_all add: frame)
  then show ?thesis
    using assms by (auto simp: persistCurrentSnapshots_def Let_def frame split: sum.splits if_splits
        dest!: deny_overlays_record)
qed

lemma refresh_fails_closed:
  assumes p: "persistCurrentSnapshots ki t d bs a r = Inr (err, d')" "err \<noteq> Some superseded_error"
    and wf: "\<forall>b\<in>set bs. wf_batch a b" and dist: "distinct (map (\<lambda>b. sc_id (bt_scope b)) bs)"
    and b: "b \<in> set bs" and out: "dev \<notin> sm_device ` set (bt_members b)"
  shows "cached_decision d' dev (sc_id (bt_scope b)) \<noteq> Authorized"
proof -
  from p obtain conflicts where u: "require_all (requireUnsupersededSnapshot d) bs = Inr conflicts"
    by (rule persistCurrentSnapshots_parts)
  have "matchesSnapshotSource (sm_coordinator_id old) (sm_group_id old) b"
    if "find_membership d (sc_id (bt_scope b), dev) = Some old" for old
    using require_all_unsuperseded [OF u b] that by (auto simp: superseding_row_def)
  then have "case find_membership (persist_batch t a (err \<noteq> None) b d) (sc_id (bt_scope b), dev) of
      None \<Rightarrow> True | Some m \<Rightarrow> sm_status m = ''revoked''"
    using wf b out by (intro persist_batch_unlisted) auto
  then show ?thesis
    by (auto simp: cached_decision_Authorized refresh_membership [OF p wf dist b] split: option.splits)
qed

lemma refresh_admits:
  assumes p: "persistCurrentSnapshots ki t d bs a r = Inr (None, d')"
    and wf: "\<forall>b\<in>set bs. wf_batch a b" and dist: "distinct (map (\<lambda>b. sc_id (bt_scope b)) bs)"
    and b: "b \<in> set bs" and m: "m \<in> set (bt_members b)"
  shows "cached_decision d' (sm_device m) (sc_id (bt_scope b)) = Authorized \<longleftrightarrow>
    getAnyRecipientPolicyDenyOverlayForScopeDevice d (sc_id (bt_scope b)) (sm_device m) = None"
proof -
  have wfb: "wf_batch a b" using wf b by blast
  from p obtain conflicts d1 where q:
    "require_all (requireUnsupersededSnapshot d) bs = Inr conflicts"
    "d1 = fold (persist_batch t a (list_ex (\<lambda>c. c) conflicts)) bs d"
    "None = (if list_ex (\<lambda>c. c) conflicts then Some revival_error else None)"
    "recordRefreshState t (reconcileScopeAuthorizationEvidence ki
        (reconcileGroupScopeSnapshot t d1 a (map bt_scope bs)) bs a (list_ex (\<lambda>c. c) conflicts)) a
        (\<not> list_ex (\<lambda>c. c) conflicts) None = Inr d'"
    by (rule persistCurrentSnapshots_parts) simp
  then have clean: "\<not> list_ex (\<lambda>c. c) conflicts" by (auto split: if_splits)
  have key: "membership_key m = (sc_id (bt_scope b), sm_device m)"
    using wfb m by (auto simp: wf_batch_def membership_key_def)
  have found: "find_membership d' (sc_id (bt_scope b), sm_device m) = Some m"
  proof -
    have "find_membership (persist_batch t a False b d) (membership_key m) = Some m"
    proof (rule persist_batch_listed [OF wfb m])
      fix old
      assume old: "find_membership d (membership_key m) = Some old"
      then have "sm_device old = sm_device m"
        by (auto simp: find_membership_def membership_key_def dest!: first_where_SomeD)
      then show "sm_epoch old \<le> sm_epoch m \<and> \<not> (sm_status old = ''revoked'' \<and> sm_epoch old = sm_epoch m)"
        using require_all_unsuperseded [OF q(1) b] old clean incoming_member_listed [OF wfb m]
        by (fastforce simp: key superseding_row_def reviving_row_def)
    qed
    then show ?thesis using refresh_membership [OF p _ wf dist b] by (simp add: key)
  qed
  have "find_scope d' (sc_id (bt_scope b)) = find_scope d1 (sc_id (bt_scope b))"
    using b by (simp add: find_scope_record [OF q(4)] frame find_scope_group_listed)
  also have "\<dots> = Some (case find_scope d (sc_id (bt_scope b)) of None \<Rightarrow> bt_scope b
      | Some old \<Rightarrow> merge_scope (bt_scope b) old)"
    using clean by (simp add: q(2) find_scope_persists [OF dist b])
  finally obtain s where s: "find_scope d' (sc_id (bt_scope b)) = Some s"
    "sc_status s = sc_status (bt_scope b)" "sc_epoch s = sc_epoch (bt_scope b)"
    "sc_label s = sc_label (bt_scope b)" "sc_kind s = sc_kind (bt_scope b)"
    "sc_authority_type s = sc_authority_type (bt_scope b)"
    using require_all_unsuperseded [OF q(1) b]
    by (auto simp: merge_scope_def split: option.splits)
  have joined: "scopeFromJoinedRow d' m = Some s"
    using s wfb m by (auto simp: scopeFromJoinedRow_find wf_batch_def)
  show ?thesis
    using found joined s wfb m deny_overlay_depends [OF deny_overlays_refresh [OF p]]
    by (auto simp: cached_decision_Authorized wf_batch_def)
qed

section \<open>Overtaken refreshes\<close>

lemma recordRefreshState_revision:
  assumes "recordRefreshState t d a ok e = Inr d'"
  shows "case find_cache_state d' a of None \<Rightarrow> False
    | Some c \<Rightarrow> cs_revision c = (case find_cache_state d a of None \<Rightarrow> 0 | Some c \<Rightarrow> cs_revision c) + 1"
  using assms
  by (auto simp: recordRefreshState_def find_cache_state_def first_where_upsert merge_cache_state_def
      split: sum.splits option.splits)

lemma cache_states_persist [frame]:
  "cache_states (persist_batch t a r b d) = cache_states d"
  "cache_states (reconcileGroupScopeSnapshot t d a ss) = cache_states d"
  "cache_states (reconcileScopeAuthorizationEvidence ki d bs a r) = cache_states d"
  by (simp_all add: persist_batch_def Let_def reconcileGroupScopeSnapshot_def upsertScope_def
      reconcileScopeAuthorizationEvidence_def migrateSnapshotMembershipAuthority_def
      upsertCachedScopeMemberships_def reconcileScopeMembershipSnapshot_def)

lemma persist_advances:
  assumes "persistCurrentSnapshots ki t d bs a r = Inr (err, d')" "err \<noteq> Some superseded_error"
  shows "readRefreshRevision d a = Inr r
    \<and> (case find_cache_state d' a of None \<Rightarrow> False | Some c \<Rightarrow> cs_revision c = r + 1)"
proof -
  have folded: "cache_states (fold (persist_batch t a c) bs e) = cache_states e" for c e
    by (induction bs arbitrary: e) (simp_all add: frame)
  have r: "readRefreshRevision d a = Inr r"
    using assms by (auto simp: persistCurrentSnapshots_def Let_def split: sum.splits if_splits)
  then have rev: "(case find_cache_state d a of None \<Rightarrow> 0 | Some c \<Rightarrow> cs_revision c) = r"
    by (auto simp: readRefreshRevision_def Let_def split: if_splits)
  from assms obtain conflicts d1 where q: "d1 = fold (persist_batch t a (list_ex (\<lambda>c. c) conflicts)) bs d"
    "recordRefreshState t (reconcileScopeAuthorizationEvidence ki
        (reconcileGroupScopeSnapshot t d1 a (map bt_scope bs)) bs a (list_ex (\<lambda>c. c) conflicts)) a
        (\<not> list_ex (\<lambda>c. c) conflicts) err = Inr d'"
    by (rule persistCurrentSnapshots_parts)
  have "find_cache_state (reconcileScopeAuthorizationEvidence ki
        (reconcileGroupScopeSnapshot t d1 a (map bt_scope bs)) bs a (list_ex (\<lambda>c. c) conflicts)) a
      = find_cache_state d a"
    by (simp add: find_cache_state_def frame q(1) folded)
  with recordRefreshState_revision [OF q(2)] rev r show ?thesis by (cases "find_cache_state d' a") auto
qed

lemma readRefreshRevision_next:
  "(case find_cache_state d a of None \<Rightarrow> False | Some c \<Rightarrow> cs_revision c = r + 1) \<Longrightarrow> readRefreshRevision d a \<noteq> Inr r"
  by (auto simp: readRefreshRevision_def Let_def split: option.splits if_splits)

lemma overtaken_refresh_writes_nothing:
  assumes "readRefreshRevision d a \<noteq> Inr r"
  shows "persistCurrentSnapshots ki t d bs a r \<in> {Inl refresh_revision_error, Inr (Some superseded_error, d)}
    \<and> snd (recordRefreshFailure t d a e (Some r)) = d"
  using assms
  by (auto simp: persistCurrentSnapshots_def recordRefreshFailure_def readRefreshRevision_def Let_def
      split: option.splits if_splits)

section \<open>A coordinator's answer\<close>

text \<open>A scope, a membership of it and the coordinator's snapshot, for the concrete instances.\<close>

definition sample_member :: "string \<Rightarrow> string \<Rightarrow> int \<Rightarrow> membership_row" where
  "sample_member dev status e = \<lparr> sm_scope = ''team'', sm_device = dev, sm_role = ''member'', sm_status = status,
     sm_epoch = e, sm_coordinator_id = None, sm_group_id = None, sm_manifest_issuer = None,
     sm_manifest_hash = None, sm_signed_manifest = None, sm_updated_at = ''t'' \<rparr>"

definition sample_scope :: scope_row where
  "sample_scope = \<lparr> sc_id = ''team'', sc_label = ''Team'', sc_kind = ''team'', sc_authority_type = ''coordinator'',
     sc_coordinator_id = None, sc_group_id = Some ''g'', sc_manifest_issuer = None, sc_epoch = 1,
     sc_manifest_hash = None, sc_status = ''active'', sc_created_at = ''t'', sc_updated_at = ''t'' \<rparr>"

definition sample_snapshot :: scope_snapshot where
  "sample_snapshot = \<lparr> sn_version = 1, sn_scope = sample_scope, sn_items = [
     \<lparr> si_membership = sample_member ''a'' ''active'' 1,
       si_enrollment = \<lparr> en_group = ''g'', en_device = ''a'', en_public_key = ''pk'', en_fingerprint = ''fp'',
         en_identity = None, en_display_name = None, en_enabled = 1, en_created_at = ''t'' \<rparr>,
       si_key_id = ''pk'' \<rparr>] \<rparr>"

end
