(* ===== verification/Source_Identity.thy ===== *)
theory Source_Identity
  imports Sync_State
begin

text \<open>
  Who a memory identity belongs to (\<open>packages/core/src/memory-source-identity.ts\<close> and
  \<open>packages/core/src/memory-local-capture.ts\<close>). A qualified identity names its source device in base64url;
  a binding records, once and for all, the source a memory was verified to have. A device that has no
  signing key yet captures under a local capture identity, which one device may later adopt.

  The transaction a caller must hold is the argument \<open>in_tx\<close>; the time and a fresh identifier are
  arguments; the SHA-256 fingerprint of a public key is the parameter \<open>fingerprint\<close>. A table that does not
  exist yet is an empty table: every reader treats the two alike. Exceptions are \<open>Inl\<close> of their message.
\<close>

section \<open>base64url\<close>

fun utf8_bytes :: "string \<Rightarrow> nat list" where
  "utf8_bytes [] = []"
| "utf8_bytes (c # s) = (let n = (of_char c :: nat) in
     if n < 128 then n # utf8_bytes s else (192 + n div 64) # (128 + n mod 64) # utf8_bytes s)"

text \<open>The text a byte list decodes to, where it stays below code unit 256. Bytes outside this form
  decode to text that does not encode back to them.\<close>

fun utf8_decode :: "nat list \<Rightarrow> string option" where
  "utf8_decode [] = Some []"
| "utf8_decode (b # bs) =
     (if b < 128 then map_option ((#) (char_of b)) (utf8_decode bs)
      else if b = 194 \<or> b = 195
      then (case bs of
              [] \<Rightarrow> None
            | b' # rest \<Rightarrow>
                if 128 \<le> b' \<and> b' < 192
                then map_option ((#) (char_of ((b - 192) * 64 + (b' - 128)))) (utf8_decode rest)
                else None)
      else None)"

definition b64_char :: "nat \<Rightarrow> char" where
  "b64_char n = (if n < 26 then char_of (65 + n) else if n < 52 then char_of (71 + n)
     else if n < 62 then char_of (n - 4) else if n = 62 then CHR ''-'' else CHR ''_'')"

definition b64_value :: "char \<Rightarrow> nat option" where
  "b64_value c = (let n = (of_char c :: nat) in
     if 65 \<le> n \<and> n \<le> 90 then Some (n - 65)
     else if 97 \<le> n \<and> n \<le> 122 then Some (n - 71)
     else if 48 \<le> n \<and> n \<le> 57 then Some (n + 4)
     else if n = 45 then Some 62 else if n = 95 then Some 63 else None)"

fun sextets :: "nat list \<Rightarrow> nat list" where
  "sextets (a # b # c # r) =
     [a div 4, (a mod 4) * 16 + b div 16, (b mod 16) * 4 + c div 64, c mod 64] @ sextets r"
| "sextets [a, b] = [a div 4, (a mod 4) * 16 + b div 16, (b mod 16) * 4]"
| "sextets [a] = [a div 4, (a mod 4) * 16]"
| "sextets [] = []"

fun unsextets :: "nat list \<Rightarrow> nat list" where
  "unsextets (x # y # z # w # r) =
     [x * 4 + y div 16, (y mod 16) * 16 + z div 4, (z mod 4) * 64 + w] @ unsextets r"
| "unsextets [x, y, z] = [x * 4 + y div 16, (y mod 16) * 16 + z div 4]"
| "unsextets [x, y] = [x * 4 + y div 16]"
| "unsextets [x] = []"
| "unsextets [] = []"

definition base64url :: "string \<Rightarrow> string" where
  "base64url s = map b64_char (sextets (utf8_bytes s))"

definition base64url_decode :: "string \<Rightarrow> string option" where
  "base64url_decode t =
     (if list_all (\<lambda>c. b64_value c \<noteq> None) t
      then utf8_decode (unsextets (List.map_filter b64_value t)) else None)"

lemma utf8_bytes_range: "b \<in> set (utf8_bytes s) \<Longrightarrow> b < 256"
proof (induction s rule: utf8_bytes.induct)
  case (2 c s)
  have "(of_char c :: nat) div 64 < 4"
    using nat_of_char_less_256 [of c] by (simp add: less_mult_imp_div_less)
  with 2 show ?case by (auto simp: Let_def split: if_splits)
qed simp

lemma utf8_decode_bytes: "utf8_decode (utf8_bytes s) = Some s"
proof (induction s)
  case (Cons c s)
  define n where "n = (of_char c :: nat)"
  have n: "n < 256" and c: "char_of n = c"
    using nat_of_char_less_256 [of c] by (simp_all add: n_def)
  show ?case
  proof (cases "n < 128")
    case True
    then show ?thesis using Cons.IH c by (simp add: n_def [symmetric] Let_def)
  next
    case False
    with n have hi: "192 + n div 64 = 194 \<or> 192 + n div 64 = 195" and lo: "128 + n mod 64 < 192"
      by auto
    have "(192 + n div 64 - 192) * 64 + (128 + n mod 64 - 128) = n" by simp
    with False hi lo Cons.IH c show ?thesis by (simp add: n_def [symmetric] Let_def)
  qed
qed simp

lemma sextets_range: "(\<And>b. b \<in> set bs \<Longrightarrow> b < 256) \<Longrightarrow> x \<in> set (sextets bs) \<Longrightarrow> x < 64"
proof (induction bs rule: sextets.induct)
  case (1 a b c r)
  then have bounds: "a < 256" "b < 256" "c < 256" by auto
  from 1 consider "x \<in> {a div 4, (a mod 4) * 16 + b div 16, (b mod 16) * 4 + c div 64, c mod 64}"
    | "x \<in> set (sextets r)" by auto
  then show ?case
  proof cases
    case 1
    have "b div 16 < 16" "c div 64 < 4" "a mod 4 < 4" "b mod 16 < 16" "a div 4 < 64"
      using bounds by auto
    with 1 show ?thesis by auto
  next
    case 2
    then show ?thesis using "1.IH" "1.prems"(1) by simp
  qed
next
  case (2 a b)
  then have bounds: "a < 256" "b < 256" by auto
  have "b div 16 < 16" "a mod 4 < 4" "b mod 16 < 16" "a div 4 < 64" using bounds by auto
  with 2(2) show ?case by auto
next
  case (3 a)
  then have "a < 256" by simp
  then have "a div 4 < 64" "a mod 4 < 4" by auto
  with 3(2) show ?case by auto
qed simp

lemma unsextets_sextets: "(\<And>b. b \<in> set bs \<Longrightarrow> b < 256) \<Longrightarrow> unsextets (sextets bs) = bs"
proof (induction bs rule: sextets.induct)
  case (1 a b c r)
  then have b: "b < 256" and c: "c < 256" by auto
  have "b div 16 < 16" "c div 64 < 4" using b c by auto
  then have "a div 4 * 4 + (a mod 4 * 16 + b div 16) div 16 = a"
    "(a mod 4 * 16 + b div 16) mod 16 * 16 + (b mod 16 * 4 + c div 64) div 4 = b"
    "(b mod 16 * 4 + c div 64) mod 4 * 64 + c mod 64 = c"
    by auto
  with 1 show ?case by simp
next
  case (2 a b)
  then have "b < 256" by auto
  then have "b div 16 < 16" by auto
  then show ?case by auto
next
  case (3 a)
  show ?case by auto
qed simp

lemma b64_value_char: "n < 64 \<Longrightarrow> b64_value (b64_char n) = Some n"
  by (auto simp: b64_value_def b64_char_def Let_def)

lemma map_filter_b64: "(\<And>x. x \<in> set xs \<Longrightarrow> x < 64) \<Longrightarrow> List.map_filter b64_value (map b64_char xs) = xs"
  by (induction xs) (simp_all add: b64_value_char List.map_filter_simps)

lemma base64url_decode_encode [simp]: "base64url_decode (base64url s) = Some s"
proof -
  have range: "x < 64" if "x \<in> set (sextets (utf8_bytes s))" for x
    using sextets_range [OF utf8_bytes_range that] .
  then have "list_all (\<lambda>c. b64_value c \<noteq> None) (base64url s)"
    by (auto simp: base64url_def list_all_iff b64_value_char)
  moreover have "unsextets (List.map_filter b64_value (base64url s)) = utf8_bytes s"
    unfolding base64url_def
    by (subst map_filter_b64 [OF range], assumption) (rule unsextets_sextets [OF utf8_bytes_range])
  ultimately show ?thesis by (simp add: base64url_decode_def utf8_decode_bytes)
qed

lemma base64url_alphabet: "c \<in> set (base64url s) \<Longrightarrow> b64_value c \<noteq> None"
  using sextets_range [OF utf8_bytes_range] by (auto simp: base64url_def b64_value_char)

lemma base64url_nonempty: "s \<noteq> [] \<Longrightarrow> base64url s \<noteq> []"
proof -
  assume "s \<noteq> []"
  then obtain b bs where "utf8_bytes s = b # bs"
    by (cases "utf8_bytes s"; cases s) (auto simp: Let_def split: if_splits)
  then show ?thesis
    by (cases bs; cases "tl bs") (auto simp: base64url_def)
qed


section \<open>Qualified identities\<close>

text \<open>The characters the code refuses in an identifier: controls, format characters (below 256 the soft
  hyphen) and surrogates.\<close>

definition control_char :: "char \<Rightarrow> bool" where
  "control_char c = (let n = (of_char c :: nat) in n < 32 \<or> (127 \<le> n \<and> n < 160) \<or> n = 173)"

definition validDeviceId :: "string \<Rightarrow> bool" where
  "validDeviceId v \<longleftrightarrow> length v > 0 \<and> length v \<le> 256 \<and> js_trim v = v \<and> \<not> list_ex control_char v"

definition SOURCE_PREFIX :: string where "SOURCE_PREFIX = ''memory-source-v1:''"
definition CAPTURE_PREFIX :: string where "CAPTURE_PREFIX = ''memory-local-capture-v1:''"

fun split_on :: "char \<Rightarrow> string \<Rightarrow> string list" where
  "split_on sep [] = [[]]"
| "split_on sep (c # s) =
     (if c = sep then [] # split_on sep s
      else (case split_on sep s of [] \<Rightarrow> [[c]] | w # ws \<Rightarrow> (c # w) # ws))"

definition lower_hex :: "char \<Rightarrow> bool" where
  "lower_hex c = (let n = (of_char c :: nat) in (48 \<le> n \<and> n \<le> 57) \<or> (97 \<le> n \<and> n \<le> 102))"

text \<open>The regular expression \<open>UUID\<close> (version 4, lower case).\<close>

definition is_uuid_v4 :: "string \<Rightarrow> bool" where
  "is_uuid_v4 s \<longleftrightarrow> (case split_on CHR ''-'' s of
     [a, b, c, d, e] \<Rightarrow>
       map length [a, b, c, d, e] = [8, 4, 4, 4, 12] \<and> list_all (list_all lower_hex) [a, b, c, d, e]
       \<and> hd c = CHR ''4'' \<and> hd d \<in> set ''89ab''
   | _ \<Rightarrow> False)"

definition memorySourceNamespace :: "string \<Rightarrow> string option" where
  "memorySourceNamespace entityId =
     (if length entityId > 1500 \<or> \<not> starts_with SOURCE_PREFIX entityId then None
      else (case split_on CHR '':'' (drop (length SOURCE_PREFIX) entityId) of
              [encoded, nonce] \<Rightarrow>
                if encoded = [] \<or> nonce = [] \<or> \<not> is_uuid_v4 nonce then None
                else (case base64url_decode encoded of
                        None \<Rightarrow> None
                      | Some source \<Rightarrow>
                          if \<not> validDeviceId source \<or> base64url source \<noteq> encoded then None
                          else Some source)
            | _ \<Rightarrow> None))"

text \<open>The identity \<open>allocateLocalMemorySource\<close> makes.\<close>

definition qualified_identity :: "string \<Rightarrow> string \<Rightarrow> string" where
  "qualified_identity source nonce = SOURCE_PREFIX @ base64url source @ CHR '':'' # nonce"

lemma split_on_single: "sep \<notin> set s \<Longrightarrow> split_on sep s = [s]"
  by (induction s) auto

lemma split_on_append: "sep \<notin> set s \<Longrightarrow> split_on sep (s @ sep # t) = s # split_on sep t"
  by (induction s) auto

lemma split_on_nonempty: "split_on sep s \<noteq> []"
  by (induction s) (auto split: list.splits)

lemma split_on_join: "split_on sep s = [a, b] \<Longrightarrow> s = a @ sep # b"
proof (induction s arbitrary: a b)
  case (Cons c s)
  show ?case
  proof (cases "c = sep")
    case True
    with Cons.prems have "a = []" "split_on sep s = [b]" by auto
    moreover have "split_on sep s = [b] \<Longrightarrow> s = b" for b
    proof (induction s arbitrary: b)
      case (Cons x s)
      then show ?case by (auto split: if_splits list.splits simp: split_on_nonempty)
    qed simp
    ultimately show ?thesis using True by simp
  next
    case False
    with Cons show ?thesis by (auto split: list.splits simp: split_on_nonempty)
  qed
qed simp

lemma colon_not_base64url: "CHR '':'' \<notin> set (base64url s)"
  using base64url_alphabet by (fastforce simp: b64_value_def)

lemma split_on_chars: "c \<in> set s \<Longrightarrow> c = sep \<or> (\<exists>w\<in>set (split_on sep s). c \<in> set w)"
  by (induction s) (auto split: list.splits simp: split_on_nonempty)

lemma is_uuid_chars: "is_uuid_v4 s \<Longrightarrow> c \<in> set s \<Longrightarrow> lower_hex c \<or> c = CHR ''-''"
  using split_on_chars [of c s "CHR ''-''"]
  by (fastforce simp: is_uuid_v4_def list_all_iff split: list.splits)

lemma colon_not_uuid: "is_uuid_v4 s \<Longrightarrow> CHR '':'' \<notin> set s"
  using is_uuid_chars by (fastforce simp: lower_hex_def)

lemma memorySourceNamespace_qualified:
  assumes "validDeviceId source" "is_uuid_v4 nonce"
    and "length (qualified_identity source nonce) \<le> 1500"
  shows "memorySourceNamespace (qualified_identity source nonce) = Some source"
proof -
  have enc: "base64url source \<noteq> []"
    using assms(1) by (intro base64url_nonempty) (auto simp: validDeviceId_def)
  have nonce: "nonce \<noteq> []" using assms(2) by (auto simp: is_uuid_v4_def)
  have "split_on CHR '':'' (base64url source @ CHR '':'' # nonce) = [base64url source, nonce]"
    using split_on_append [OF colon_not_base64url] split_on_single [OF colon_not_uuid [OF assms(2)]]
    by simp
  then show ?thesis
    using assms enc nonce by (simp add: memorySourceNamespace_def qualified_identity_def)
qed

lemma memorySourceNamespace_only:
  assumes "memorySourceNamespace entity = Some source"
  shows "validDeviceId source \<and> (\<exists>nonce. is_uuid_v4 nonce \<and> entity = qualified_identity source nonce)"
proof -
  from assms have pre: "starts_with SOURCE_PREFIX entity"
    by (auto simp: memorySourceNamespace_def split: if_splits)
  then obtain rest where rest: "entity = SOURCE_PREFIX @ rest" by (auto simp: starts_with_iff)
  from assms rest obtain encoded nonce where
    split: "split_on CHR '':'' rest = [encoded, nonce]" and "is_uuid_v4 nonce"
    and "validDeviceId source" "base64url source = encoded"
    by (auto simp: memorySourceNamespace_def split: if_splits list.splits option.splits)
  moreover from split have "rest = encoded @ CHR '':'' # nonce" by (rule split_on_join)
  ultimately show ?thesis using rest by (auto simp: qualified_identity_def)
qed

end
