(* ===== verification/Memory_Provenance.thy ===== *)
theory Memory_Provenance
  imports Source_Identity
begin

text \<open>
  Bindings of memory identities to their source device, the local capture identity, the proof that a
  row is still as it was created here, and the retirement fence that keeps a memory out of a scope it
  left (\<open>memory-source-identity.ts\<close>, \<open>memory-local-capture.ts\<close>, \<open>memory-creation-provenance.ts\<close>,
  \<open>memory-scope-retirement.ts\<close> and \<open>memory-retirement-snapshot-guard.ts\<close> of \<open>packages/core/src\<close>).

  The tables of this theory carry triggers that abort every update, delete and second insert, so the
  only change to them is a row appended under a new key.
\<close>

section \<open>Bindings\<close>

record verified_source =
  vs_entity :: string
  vs_source :: string
  vs_evidence :: evidence

definition getVerifiedMemorySource :: "db \<Rightarrow> string \<Rightarrow> verified_source option" where
  "getVerifiedMemorySource d entityId =
     map_option (\<lambda>r. \<lparr> vs_entity = entityId, vs_source = bd_source r, vs_evidence = bd_evidence r \<rparr>)
       (first_where (\<lambda>r. bd_entity r = entityId) (source_bindings d))"

definition persistBinding ::
    "bool \<Rightarrow> string \<Rightarrow> db \<Rightarrow> verified_source \<Rightarrow> string + verified_source \<times> db" where
  "persistBinding in_tx now d b =
     (if \<not> in_tx then Inl ''memory_source_transaction_required''
      else (case getVerifiedMemorySource d (vs_entity b) of
              Some existing \<Rightarrow>
                if vs_source existing \<noteq> vs_source b then Inl ''memory_source_binding_conflict''
                else Inr (existing, d)
            | None \<Rightarrow>
                Inr (b, d\<lparr> source_bindings := source_bindings d @
                  [\<lparr> bd_entity = vs_entity b, bd_source = vs_source b, bd_evidence = vs_evidence b,
                     bd_created_at = now \<rparr>] \<rparr>)))"

definition allocateLocalMemorySource ::
    "bool \<Rightarrow> string \<Rightarrow> string \<Rightarrow> db \<Rightarrow> string + verified_source \<times> db" where
  "allocateLocalMemorySource in_tx now nonce d = (case sync_devices d of
     [dev] \<Rightarrow>
       if dv_id dev = [] \<or> \<not> validDeviceId (dv_id dev) then Inl ''memory_source_local_device_required''
       else persistBinding in_tx now d \<lparr> vs_entity = qualified_identity (dv_id dev) nonce,
              vs_source = dv_id dev, vs_evidence = LocalCreation \<rparr>
   | _ \<Rightarrow> Inl ''memory_source_local_device_required'')"

definition verifyAuthenticatedMemorySource ::
    "bool \<Rightarrow> string \<Rightarrow> db \<Rightarrow> string \<Rightarrow> string \<Rightarrow> string + verified_source \<times> db" where
  "verifyAuthenticatedMemorySource in_tx now d entityId verifiedPeer =
     (case memorySourceNamespace entityId of
        None \<Rightarrow> Inl ''memory_source_verification_required''
      | Some ns \<Rightarrow>
          if ns \<noteq> verifiedPeer then Inl ''memory_source_sender_mismatch''
          else persistBinding in_tx now d
                 \<lparr> vs_entity = entityId, vs_source = ns, vs_evidence = AuthenticatedNamespace \<rparr>)"

definition assertVerifiedMemorySource :: "db \<Rightarrow> string \<Rightarrow> string \<Rightarrow> string + unit" where
  "assertVerifiedMemorySource d entityId source = (case getVerifiedMemorySource d entityId of
     None \<Rightarrow> Inl ''memory_source_verification_required''
   | Some b \<Rightarrow> if vs_source b \<noteq> source then Inl ''memory_source_sender_mismatch'' else Inr ())"

section \<open>Local capture\<close>

definition words_of :: "string \<Rightarrow> string list" where
  "words_of s = filter (\<lambda>w. w \<noteq> []) (foldr (\<lambda>c ws. if js_space c then [] # ws
     else (case ws of [] \<Rightarrow> [[c]] | w # ws' \<Rightarrow> (c # w) # ws')) s [[]])"

definition publicKeyBytes :: "string \<Rightarrow> string option" where
  "publicKeyBytes value = (case words_of (js_trim value) of
     type # bytes # _ \<Rightarrow> if type = ''ssh-ed25519'' then Some (type @ '' '' @ bytes) else None
   | _ \<Rightarrow> None)"

definition deviceTuple :: "db \<Rightarrow> device_row option" where
  "deviceTuple d = (case take 2 (sync_devices d) of [dev] \<Rightarrow> Some dev | _ \<Rightarrow> None)"

definition matchesLocalCaptureRuntime ::
    "(string \<Rightarrow> string) \<Rightarrow> device_row \<Rightarrow> string \<Rightarrow> string option \<Rightarrow> bool" where
  "matchesLocalCaptureRuntime fingerprint dev deviceId publicKey \<longleftrightarrow>
     (let stored = publicKeyBytes (dv_public_key dev)
      in dv_id dev = deviceId \<and> stored \<noteq> None \<and> publicKey \<noteq> None
         \<and> publicKeyBytes (the publicKey) = stored
         \<and> fingerprint (dv_public_key dev) = dv_fingerprint dev)"

definition getOrCreateLocalCaptureId ::
    "bool \<Rightarrow> string \<Rightarrow> string \<Rightarrow> db \<Rightarrow> string + string \<times> db" where
  "getOrCreateLocalCaptureId in_tx now fresh d =
     (if \<not> in_tx then Inl ''memory_source_transaction_required''
      else (case local_capture d of
              Some birth \<Rightarrow> Inr (cp_capture_id birth, d)
            | None \<Rightarrow>
                let captureId = ''local-capture-v1:'' @ fresh
                in Inr (captureId, d\<lparr> local_capture :=
                     Some \<lparr> cp_capture_id = captureId, cp_created_at = now \<rparr> \<rparr>)))"

definition hasPendingLocalCapture :: "db \<Rightarrow> bool" where
  "hasPendingLocalCapture d = (case local_capture d of
     None \<Rightarrow> False
   | Some birth \<Rightarrow> \<not> exists_where (\<lambda>a. ad_capture_id a = cp_capture_id birth) (capture_adoptions d))"

definition allocateLocalCaptureMemorySource ::
    "(string \<Rightarrow> string) \<Rightarrow> bool \<Rightarrow> string \<Rightarrow> string \<Rightarrow> string \<Rightarrow> db \<Rightarrow> string \<Rightarrow> string option \<Rightarrow>
     string + verified_source option \<times> db" where
  "allocateLocalCaptureMemorySource fingerprint in_tx now captureFresh nonce d runtimeDeviceId publicKey =
     (if \<not> in_tx then Inl ''memory_source_transaction_required''
      else (case take 2 (sync_devices d) of
              dev # others \<Rightarrow>
                if others \<noteq> [] \<or> dv_id dev \<noteq> runtimeDeviceId \<or> \<not> validDeviceId runtimeDeviceId
                then Inr (None, d)
                else if \<not> matchesLocalCaptureRuntime fingerprint dev runtimeDeviceId publicKey
                then Inr (None, d)
                else (case allocateLocalMemorySource in_tx now nonce d of
                        Inl e \<Rightarrow> Inl e
                      | Inr (b, d') \<Rightarrow> Inr (Some b, d'))
            | [] \<Rightarrow>
                if runtimeDeviceId \<noteq> ''local'' then Inr (None, d)
                else (case getOrCreateLocalCaptureId in_tx now captureFresh d of
                        Inl e \<Rightarrow> Inl e
                      | Inr (source, d1) \<Rightarrow>
                          (case persistBinding in_tx now d1
                               \<lparr> vs_entity = CAPTURE_PREFIX @ base64url source @ CHR '':'' # nonce,
                                 vs_source = source, vs_evidence = LocalCreation \<rparr> of
                             Inl e \<Rightarrow> Inl e
                           | Inr (b, d') \<Rightarrow> Inr (Some b, d')))))"

definition assertLocalCaptureAdoptionActors :: "db \<Rightarrow> string \<Rightarrow> string option \<Rightarrow> string + unit" where
  "assertLocalCaptureAdoptionActors d deviceId actorId =
     (if exists_where (\<lambda>a. ac_id a \<in> {''local:local'', ''local:'' @ deviceId,
                             or_default actorId (''local:'' @ deviceId)}
            \<and> (ac_is_local a \<noteq> 1 \<or> ac_status a \<noteq> ''active'' \<or> ac_merged_into a \<noteq> None)) (actors d)
      then Inl ''device_adoption_actor_conflict'' else Inr ())"

definition adoptLocalCapture ::
    "(string \<Rightarrow> string) \<Rightarrow> bool \<Rightarrow> string \<Rightarrow> db \<Rightarrow> string \<Rightarrow> string option \<Rightarrow> string option \<Rightarrow>
     string option \<Rightarrow> string + db" where
  "adoptLocalCapture fingerprint in_tx now d deviceId runtimeDeviceId actorId publicKey =
     (if \<not> in_tx then Inl ''memory_source_transaction_required''
      else (case local_capture d of
              None \<Rightarrow> Inr d
            | Some birth \<Rightarrow>
                if or_default runtimeDeviceId [] \<noteq> [] \<and> runtimeDeviceId \<noteq> Some ''local''
                   \<and> runtimeDeviceId \<noteq> Some deviceId
                then Inr d
                else (case deviceTuple d of
                        None \<Rightarrow> Inr d
                      | Some dev \<Rightarrow>
                          if \<not> matchesLocalCaptureRuntime fingerprint dev deviceId publicKey then Inr d
                          else (case first_where (\<lambda>a. ad_capture_id a = cp_capture_id birth)
                                       (capture_adoptions d) of
                                  Some a \<Rightarrow>
                                    if ad_device_id a \<noteq> dv_id dev \<or> ad_public_key a \<noteq> dv_public_key dev
                                       \<or> ad_fingerprint a \<noteq> dv_fingerprint dev
                                    then Inl ''memory_local_capture_adoption_conflict''
                                    else Inr d
                                | None \<Rightarrow>
                                    (case assertLocalCaptureAdoptionActors d deviceId actorId of
                                       Inl e \<Rightarrow> Inl e
                                     | Inr _ \<Rightarrow>
                                         Inr (d\<lparr> capture_adoptions := capture_adoptions d @
                                           [\<lparr> ad_capture_id = cp_capture_id birth,
                                              ad_device_id = dv_id dev,
                                              ad_public_key = dv_public_key dev,
                                              ad_fingerprint = dv_fingerprint dev,
                                              ad_created_at = now \<rparr>] \<rparr>))))))"

definition localCreationSourceIds ::
    "(string \<Rightarrow> string) \<Rightarrow> db \<Rightarrow> string \<Rightarrow> string option \<Rightarrow> string list" where
  "localCreationSourceIds fingerprint d deviceId publicKey =
     (if \<not> exists_where (\<lambda>b. bd_evidence b = LocalCreation) (source_bindings d) then []
      else (case deviceTuple d of
              None \<Rightarrow>
                (case local_capture d of
                   Some birth \<Rightarrow>
                     if sync_devices d = [] \<and> capture_adoptions d = [] \<and> deviceId = ''local''
                     then [cp_capture_id birth] else []
                 | None \<Rightarrow> [])
            | Some dev \<Rightarrow>
                if dv_id dev \<noteq> deviceId then []
                else if \<not> matchesLocalCaptureRuntime fingerprint dev deviceId publicKey then []
                else (case local_capture d of
                        None \<Rightarrow> [deviceId]
                      | Some birth \<Rightarrow>
                          (case first_where (\<lambda>a. ad_capture_id a = cp_capture_id birth)
                                  (capture_adoptions d) of
                             Some a \<Rightarrow>
                               if ad_device_id a = dv_id dev \<and> ad_public_key a = dv_public_key dev
                                  \<and> ad_fingerprint a = dv_fingerprint dev
                               then [deviceId, cp_capture_id birth] else [deviceId]
                           | None \<Rightarrow> [deviceId]))))"

definition hasLocalCreationBinding :: "db \<Rightarrow> string \<Rightarrow> string list \<Rightarrow> bool" where
  "hasLocalCreationBinding d entityId sourceIds \<longleftrightarrow>
     sourceIds \<noteq> [] \<and> (case getVerifiedMemorySource d entityId of
       None \<Rightarrow> False
     | Some b \<Rightarrow> vs_evidence b = LocalCreation \<and> vs_source b \<in> set sourceIds)"

section \<open>Creation snapshots\<close>

text \<open>\<open>CREATION_CONTENT_SQL\<close>; \<open>json_remove\<close> drops the two keys of a metadata object.\<close>

definition json_remove :: "string list \<Rightarrow> json \<Rightarrow> json" where
  "json_remove ks v = (case v of JObj ps \<Rightarrow> JObj (filter (\<lambda>p. fst p \<notin> set ks) ps) | _ \<Rightarrow> v)"

definition creation_content_of :: "memory_row \<Rightarrow> creation_content" where
  "creation_content_of m = \<lparr>
     cc_kind = m_kind m, cc_title = m_title m, cc_subtitle = m_subtitle m, cc_body_text = m_body_text m,
     cc_confidence = m_confidence m, cc_tags_text = m_tags_text m, cc_visibility = m_visibility m,
     cc_workspace_kind = m_workspace_kind m, cc_origin_source = m_origin_source m,
     cc_trust_state = m_trust_state m, cc_narrative = m_narrative m, cc_facts = m_facts m,
     cc_concepts = m_concepts m, cc_files_read = m_files_read m, cc_files_modified = m_files_modified m,
     cc_user_prompt_id = m_user_prompt_id m, cc_prompt_number = m_prompt_number m,
     cc_project = m_project m, cc_active = m_active m, cc_deleted_at = m_deleted_at m,
     cc_metadata = json_remove [''clock_device_id'', ''import_key'']
       (case m_metadata m of Some (JsonDoc v) \<Rightarrow> v | _ \<Rightarrow> JObj []) \<rparr>"

definition source_device :: "db \<Rightarrow> string \<Rightarrow> device_row option" where
  "source_device d entityId = (case getVerifiedMemorySource d entityId of
     None \<Rightarrow> None
   | Some b \<Rightarrow> first_where (\<lambda>dev. dv_id dev = vs_source b) (sync_devices d))"

definition recordLocalCreationSnapshot :: "bool \<Rightarrow> string \<Rightarrow> db \<Rightarrow> int \<Rightarrow> string + db" where
  "recordLocalCreationSnapshot in_tx now d memoryId =
     (if \<not> in_tx then Inl ''memory_source_transaction_required''
      else (case first_where (\<lambda>m. m_id m = memoryId) (memories d) of
              None \<Rightarrow> Inr d
            | Some m \<Rightarrow>
                (case m_import_key m of
                   None \<Rightarrow> Inr d
                 | Some key \<Rightarrow>
                     if key = [] \<or> map_option vs_evidence (getVerifiedMemorySource d key) \<noteq> Some LocalCreation
                     then Inr d
                     else if exists_where (\<lambda>c. cn_entity c = key) (creation_snapshots d)
                     then Inl ''memory_creation_provenance_immutable''
                     else Inr (d\<lparr> creation_snapshots := creation_snapshots d @
                       [\<lparr> cn_entity = key, cn_scope = m_scope_id m, cn_content = creation_content_of m,
                          cn_public_key = map_option dv_public_key (source_device d key),
                          cn_fingerprint = map_option dv_fingerprint (source_device d key),
                          cn_created_at = now \<rparr>] \<rparr>))))"

definition hasRecordedLocalCreation :: "db \<Rightarrow> string \<Rightarrow> bool" where
  "hasRecordedLocalCreation d entityId \<longleftrightarrow>
     map_option vs_evidence (getVerifiedMemorySource d entityId) = Some LocalCreation"

definition note_foreign_revision :: "string \<Rightarrow> db \<Rightarrow> string \<Rightarrow> write_path \<Rightarrow> db" where
  "note_foreign_revision now d entityId path =
     (if \<not> hasRecordedLocalCreation d entityId then d
      else if exists_where (\<lambda>f. fr_entity f = entityId) (foreign_revisions d) then d
      else d\<lparr> foreign_revisions := foreign_revisions d @
             [\<lparr> fr_entity = entityId, fr_path = path, fr_created_at = now \<rparr>] \<rparr>)"

definition recordForeignMemoryRevision ::
    "bool \<Rightarrow> string \<Rightarrow> db \<Rightarrow> string \<Rightarrow> write_path \<Rightarrow> string + db" where
  "recordForeignMemoryRevision in_tx now d entityId path =
     (if \<not> in_tx then Inl ''memory_source_transaction_required''
      else Inr (note_foreign_revision now d entityId path))"

text \<open>\<open>matchingLocalCreationClause\<close>, the SQL condition on a row of \<open>memory_items\<close>.\<close>

definition matches_creation :: "db \<Rightarrow> memory_row \<Rightarrow> bool" where
  "matches_creation d m \<longleftrightarrow> exists_where (\<lambda>c.
     Some (cn_entity c) = m_import_key m \<and> cn_scope c = m_scope_id m
     \<and> cn_content c = creation_content_of m
     \<and> (cn_public_key c = None
        \<or> (case source_device d (cn_entity c) of
             None \<Rightarrow> False
           | Some dev \<Rightarrow> Some (dv_public_key dev) = cn_public_key c
               \<and> Some (dv_fingerprint dev) = cn_fingerprint c))
     \<and> \<not> exists_where (\<lambda>f. fr_entity f = cn_entity c) (foreign_revisions d)) (creation_snapshots d)"

definition hasMatchingLocalCreation :: "db \<Rightarrow> string \<Rightarrow> string list \<Rightarrow> int option \<Rightarrow> bool" where
  "hasMatchingLocalCreation d entityId sourceIds memoryId \<longleftrightarrow>
     sourceIds \<noteq> []
     \<and> hasLocalCreationBinding d entityId sourceIds
     \<and> exists_where (\<lambda>m. m_import_key m = Some entityId \<and> matches_creation d m
           \<and> (case memoryId of None \<Rightarrow> True | Some i \<Rightarrow> m_id m = i)) (memories d)"

section \<open>Retirement\<close>

record retirement_input =
  ri_entity :: string
  ri_source :: string
  ri_scope :: string

definition valid_retirement_text :: "string \<Rightarrow> bool" where
  "valid_retirement_text v \<longleftrightarrow> v \<noteq> [] \<and> length v \<le> 1500 \<and> v = js_trim v \<and> \<not> list_ex control_char v"

definition validateRetirement :: "retirement_input \<Rightarrow> bool" where
  "validateRetirement i \<longleftrightarrow> list_all valid_retirement_text [ri_entity i, ri_source i, ri_scope i]"

definition isMemoryScopeRetired :: "db \<Rightarrow> string \<Rightarrow> string option \<Rightarrow> bool" where
  "isMemoryScopeRetired d entityId scopeId = (case scopeId of
     None \<Rightarrow> False
   | Some s \<Rightarrow> s \<noteq> [] \<and> exists_where (\<lambda>r. rt_entity r = entityId \<and> rt_scope r = s) (retirements d))"

definition hasMemoryScopeRetirement :: "db \<Rightarrow> string \<Rightarrow> bool" where
  "hasMemoryScopeRetirement d entityId \<longleftrightarrow> exists_where (\<lambda>r. rt_entity r = entityId) (retirements d)"

definition assertMemoryScopeNotRetired :: "db \<Rightarrow> string \<Rightarrow> string \<Rightarrow> string + unit" where
  "assertMemoryScopeNotRetired d entityId scopeId =
     (if isMemoryScopeRetired d entityId (Some scopeId) then Inl ''memory_scope_retired'' else Inr ())"

definition recordMemoryScopeRetirement ::
    "bool \<Rightarrow> string \<Rightarrow> string \<Rightarrow> db \<Rightarrow> retirement_input \<Rightarrow> string \<Rightarrow> string + db" where
  "recordMemoryScopeRetirement in_tx wall now d i authenticated =
     (if \<not> validateRetirement i then Inl ''memory_retirement_invalid''
      else if authenticated \<noteq> ri_source i then Inl ''memory_retirement_sender_mismatch''
      else if \<not> in_tx then Inl ''memory_retirement_transaction_required''
      else (case verifyAuthenticatedMemorySource in_tx wall d (ri_entity i) authenticated of
              Inl e \<Rightarrow> Inl e
            | Inr (_, d1) \<Rightarrow>
                (case assertVerifiedMemorySource d1 (ri_entity i) (ri_source i) of
                   Inl e \<Rightarrow> Inl e
                 | Inr _ \<Rightarrow>
                     if isMemoryScopeRetired d1 (ri_entity i) (Some (ri_scope i)) then Inr d1
                     else Inr (d1\<lparr> retirements := retirements d1 @
                       [\<lparr> rt_entity = ri_entity i, rt_source = ri_source i, rt_scope = ri_scope i,
                          rt_at = now \<rparr>] \<rparr>))))"

text \<open>\<open>retirementAllowsSnapshot\<close>: a snapshot item of a memory that ever left a scope must name its own
  scope, and not a retired one.\<close>

definition retirementAllowsSnapshot :: "db \<Rightarrow> string \<Rightarrow> json_obj \<Rightarrow> string option \<Rightarrow> bool" where
  "retirementAllowsSnapshot d entityId payload envelopeScope =
     (let canonicalId = js_trim entityId in
      if \<not> hasMemoryScopeRetirement d canonicalId then True
      else if entityId \<noteq> canonicalId then False
      else (let scope = (case field ''scope_id'' payload of Some (JStr s) \<Rightarrow> js_trim s | _ \<Rightarrow> []) in
        if scope = [] \<or> Some scope \<noteq> envelopeScope \<or> isMemoryScopeRetired d entityId (Some scope) then False
        else (case field ''metadata_json'' payload of
                Some (JObj ps) \<Rightarrow>
                  (case field ''scope_id'' ps of
                     None \<Rightarrow> True
                   | Some JNull \<Rightarrow> True
                   | Some (JStr s) \<Rightarrow> js_trim s = scope
                   | Some _ \<Rightarrow> False)
              | _ \<Rightarrow> True)))"


section \<open>The ledgers only grow\<close>

text \<open>A database extends another when every append-only table is a prefix of its successor and the
  one-row capture table, once filled, stays.\<close>

definition is_prefix :: "'a list \<Rightarrow> 'a list \<Rightarrow> bool" where
  "is_prefix xs ys \<longleftrightarrow> take (length xs) ys = xs"

definition ledgers_extend :: "db \<Rightarrow> db \<Rightarrow> bool" where
  "ledgers_extend d d' \<longleftrightarrow>
     is_prefix (source_bindings d) (source_bindings d')
     \<and> is_prefix (creation_snapshots d) (creation_snapshots d')
     \<and> is_prefix (foreign_revisions d) (foreign_revisions d')
     \<and> is_prefix (retirements d) (retirements d')
     \<and> is_prefix (capture_adoptions d) (capture_adoptions d')
     \<and> (local_capture d = None \<or> local_capture d' = local_capture d)"

lemma is_prefix_iff: "is_prefix xs ys \<longleftrightarrow> (\<exists>zs. ys = xs @ zs)"
  unfolding is_prefix_def by (metis append_eq_conv_conj append_take_drop_id)

lemma is_prefix_refl [simp]: "is_prefix xs xs" and is_prefix_append [simp]: "is_prefix xs (xs @ zs)"
  by (simp_all add: is_prefix_def)

lemma is_prefix_trans: "is_prefix xs ys \<Longrightarrow> is_prefix ys zs \<Longrightarrow> is_prefix xs zs"
  by (auto simp: is_prefix_iff)

lemma is_prefix_first:
  "is_prefix xs ys \<Longrightarrow> first_where p xs = Some x \<Longrightarrow> first_where p ys = Some x"
  by (auto simp: is_prefix_iff first_where_append)

lemma is_prefix_exists: "is_prefix xs ys \<Longrightarrow> exists_where p xs \<Longrightarrow> exists_where p ys"
  by (auto simp: is_prefix_iff exists_where_iff)

lemma ledgers_extend_refl [simp]: "ledgers_extend d d"
  by (simp add: ledgers_extend_def)

lemma ledgers_extend_trans: "ledgers_extend d d' \<Longrightarrow> ledgers_extend d' d'' \<Longrightarrow> ledgers_extend d d''"
  unfolding ledgers_extend_def by (metis is_prefix_trans)

lemma persistBinding_extends:
  "persistBinding in_tx now d b = Inr (b', d') \<Longrightarrow> ledgers_extend d d'"
  by (auto simp: persistBinding_def ledgers_extend_def split: if_splits option.splits)

lemma allocateLocalMemorySource_extends:
  "allocateLocalMemorySource in_tx now nonce d = Inr (b', d') \<Longrightarrow> ledgers_extend d d'"
  by (auto simp: allocateLocalMemorySource_def split: list.splits if_splits dest: persistBinding_extends)

lemma getOrCreateLocalCaptureId_extends:
  "getOrCreateLocalCaptureId in_tx now fresh d = Inr (i, d') \<Longrightarrow> ledgers_extend d d'"
  by (auto simp: getOrCreateLocalCaptureId_def ledgers_extend_def Let_def split: if_splits option.splits)

lemma allocateLocalCaptureMemorySource_extends:
  "allocateLocalCaptureMemorySource fp in_tx now cf nonce d rt pk = Inr (b', d') \<Longrightarrow> ledgers_extend d d'"
  by (auto simp: allocateLocalCaptureMemorySource_def
      split: if_splits list.splits sum.splits prod.splits
      dest!: persistBinding_extends allocateLocalMemorySource_extends getOrCreateLocalCaptureId_extends
      intro: ledgers_extend_trans)

lemma adoptLocalCapture_extends:
  "adoptLocalCapture fp in_tx now d dev rt act pk = Inr d' \<Longrightarrow> ledgers_extend d d'"
  by (auto simp: adoptLocalCapture_def ledgers_extend_def split: if_splits option.splits sum.splits)

lemma verifyAuthenticatedMemorySource_extends:
  "verifyAuthenticatedMemorySource in_tx now d e p = Inr (b, d') \<Longrightarrow> ledgers_extend d d'"
  by (auto simp: verifyAuthenticatedMemorySource_def split: option.splits if_splits
      dest: persistBinding_extends)

lemma recordLocalCreationSnapshot_extends:
  "recordLocalCreationSnapshot in_tx now d i = Inr d' \<Longrightarrow> ledgers_extend d d'"
  by (auto simp: recordLocalCreationSnapshot_def ledgers_extend_def split: if_splits option.splits)

lemma note_foreign_revision_extends: "ledgers_extend d (note_foreign_revision now d e p)"
  by (simp add: note_foreign_revision_def ledgers_extend_def)

lemma recordMemoryScopeRetirement_extends:
  assumes "recordMemoryScopeRetirement in_tx wall now d i a = Inr d'"
  shows "ledgers_extend d d'"
proof -
  from assms obtain b d1 where v: "verifyAuthenticatedMemorySource in_tx wall d (ri_entity i) a = Inr (b, d1)"
    and d': "ledgers_extend d1 d'"
    by (auto simp: recordMemoryScopeRetirement_def ledgers_extend_def
        split: if_splits sum.splits prod.splits)
  show ?thesis
    using verifyAuthenticatedMemorySource_extends [OF v] d' by (rule ledgers_extend_trans)
qed

text \<open>What a growing ledger promises to its readers.\<close>

locale ledger =
  fixes extends :: "'s \<Rightarrow> 's \<Rightarrow> bool"
    and lookup :: "'s \<Rightarrow> 'k \<Rightarrow> 'v option"
  assumes extends_refl: "extends s s"
    and extends_trans: "extends s t \<Longrightarrow> extends t u \<Longrightarrow> extends s u"
    and lookup_mono: "extends s t \<Longrightarrow> lookup s k = Some v \<Longrightarrow> lookup t k = Some v"
begin

lemma run_extends: "(\<And>f s. f \<in> set fs \<Longrightarrow> extends s (f s)) \<Longrightarrow> extends s (fold (\<lambda>f. f) fs s)"
  by (induction fs arbitrary: s) (auto intro: extends_refl extends_trans)

lemma run_keeps:
  assumes "\<And>f s. f \<in> set fs \<Longrightarrow> extends s (f s)" "lookup s k = Some v"
  shows "lookup (fold (\<lambda>f. f) fs s) k = Some v"
proof -
  have "extends s (fold (\<lambda>f. f) fs s)" by (rule run_extends) (rule assms(1))
  then show ?thesis using assms(2) by (rule lookup_mono)
qed

end

interpretation binding_ledger: ledger ledgers_extend getVerifiedMemorySource
  by (rule ledger.intro, simp, erule (1) ledgers_extend_trans)
    (auto simp: getVerifiedMemorySource_def ledgers_extend_def dest: is_prefix_first)

definition retired_at :: "db \<Rightarrow> string \<times> string \<Rightarrow> string option" where
  "retired_at d k = map_option rt_at
     (first_where (\<lambda>r. rt_entity r = fst k \<and> rt_scope r = snd k) (retirements d))"

interpretation retirement_ledger: ledger ledgers_extend retired_at
  by (rule ledger.intro, simp, erule (1) ledgers_extend_trans)
    (auto simp: retired_at_def ledgers_extend_def dest: is_prefix_first)

definition foreign_at :: "db \<Rightarrow> string \<Rightarrow> write_path option" where
  "foreign_at d e = map_option fr_path (first_where (\<lambda>f. fr_entity f = e) (foreign_revisions d))"

interpretation foreign_ledger: ledger ledgers_extend foreign_at
  by (rule ledger.intro, simp, erule (1) ledgers_extend_trans)
    (auto simp: foreign_at_def ledgers_extend_def dest: is_prefix_first)

lemma isMemoryScopeRetired_at:
  "isMemoryScopeRetired d e s \<longleftrightarrow> (case s of None \<Rightarrow> False | Some s' \<Rightarrow> s' \<noteq> [] \<and> retired_at d (e, s') \<noteq> None)"
  by (auto simp: isMemoryScopeRetired_def retired_at_def exists_where_iff first_where_None_iff
      split: option.splits)

lemma isMemoryScopeRetired_mono:
  "ledgers_extend d d' \<Longrightarrow> isMemoryScopeRetired d e s \<Longrightarrow> isMemoryScopeRetired d' e s"
  by (auto simp: isMemoryScopeRetired_at dest: retirement_ledger.lookup_mono split: option.splits)

lemma hasRecordedLocalCreation_mono:
  "ledgers_extend d d' \<Longrightarrow> hasRecordedLocalCreation d e \<Longrightarrow> hasRecordedLocalCreation d' e"
  by (auto simp: hasRecordedLocalCreation_def dest: binding_ledger.lookup_mono)

lemma foreign_not_matching:
  "foreign_at d e \<noteq> None \<Longrightarrow> \<not> hasMatchingLocalCreation d e srcs i"
  by (auto simp: hasMatchingLocalCreation_def matches_creation_def foreign_at_def exists_where_iff
      first_where_None_iff)

lemma note_foreign_revision_recorded:
  "hasRecordedLocalCreation d e \<Longrightarrow> foreign_at (note_foreign_revision now d e p) e \<noteq> None"
proof -
  assume rec: "hasRecordedLocalCreation d e"
  show ?thesis
  proof (cases "first_where (\<lambda>f. fr_entity f = e) (foreign_revisions d)")
    case None
    then have "\<not> exists_where (\<lambda>f. fr_entity f = e) (foreign_revisions d)"
      by (simp add: exists_where_iff first_where_None_iff)
    with rec None show ?thesis
      by (simp add: note_foreign_revision_def foreign_at_def first_where_append)
  next
    case (Some f)
    then have "exists_where (\<lambda>f. fr_entity f = e) (foreign_revisions d)"
      using first_where_SomeD [OF Some] by (auto simp: exists_where_iff)
    with Some show ?thesis by (simp add: note_foreign_revision_def foreign_at_def)
  qed
qed

end
