(* ===== verification/Replicated_Payloads.thy ===== *)
theory Replicated_Payloads
  imports Sync_State
begin

text \<open>
  The payloads of replication ops as the engine reads them: scope reassignments, access cleanups and
  memory rows (\<open>packages/core/src/sync-replication.ts\<close>, lines 130-340), the tags derived for a row that
  carries none (\<open>tags.ts\<close>), and the redaction of a received row (\<open>redactMemoryFields\<close> of
  \<open>secret-scanner.ts\<close>). The scanner itself is the parameter \<open>scan\<close> on text and \<open>redact_value\<close> on
  metadata.
\<close>

section \<open>Scope reassignment and access cleanup\<close>

datatype reassign_side = OldSide | NewSide

record reassign_payload =
  ra_operation_id :: string
  ra_memory_id :: string
  ra_old_scope :: string
  ra_new_scope :: string
  ra_revision :: int
  ra_side :: reassign_side

definition requiredPayloadText :: "json option \<Rightarrow> string option" where
  "requiredPayloadText v = cleanText v"

definition json_safe_integer :: "json option \<Rightarrow> int option" where
  "json_safe_integer v = (case v of
     Some (JNum q) \<Rightarrow> if of_int \<lfloor>q\<rfloor> = q \<and> safe_integer \<lfloor>q\<rfloor> then Some \<lfloor>q\<rfloor> else None
   | _ \<Rightarrow> None)"

definition json_side :: "json option \<Rightarrow> reassign_side option" where
  "json_side v = (if v = Some (JStr ''old'') then Some OldSide
     else if v = Some (JStr ''new'') then Some NewSide else None)"

text \<open>\<open>None\<close> is the exception \<open>reassign_payload_invalid\<close>.\<close>

definition parseReassignScopePayload :: "replication_op \<Rightarrow> reassign_payload option" where
  "parseReassignScopePayload r =
     (if op_type r \<noteq> REASSIGN_SCOPE_OP_TYPE then None
      else (let p = parsePayload (op_payload r) in
        (case (requiredPayloadText (field_of ''operation_id'' p), requiredPayloadText (field_of ''memory_id'' p),
               requiredPayloadText (field_of ''old_scope_id'' p), requiredPayloadText (field_of ''new_scope_id'' p),
               json_side (field_of ''side'' p), json_safe_integer (field_of ''revision'' p)) of
           (Some operationId, Some memoryId, Some oldScopeId, Some newScopeId, Some side, Some revision) \<Rightarrow>
             if memoryId \<noteq> op_entity_id r \<or> oldScopeId = newScopeId \<or> revision \<le> 0
                \<or> revision \<noteq> op_clock_rev r
                \<or> clean_text (op_scope_id r) \<noteq> Some (if side = OldSide then oldScopeId else newScopeId)
                \<or> (side = NewSide \<and> cleanText (field_of ''scope_id'' p) \<noteq> Some newScopeId)
             then None
             else Some \<lparr> ra_operation_id = operationId, ra_memory_id = memoryId, ra_old_scope = oldScopeId,
                    ra_new_scope = newScopeId, ra_revision = revision, ra_side = side \<rparr>
         | _ \<Rightarrow> None)))"

record cleanup_payload =
  cl_scope :: "string option"
  cl_reason :: "string option"
  cl_target_peer :: "string option"

definition parseAccessCleanupPayload :: "replication_op \<Rightarrow> cleanup_payload" where
  "parseAccessCleanupPayload r =
     (let p = parsePayload (op_payload r) in
      \<lparr> cl_scope = cleanText (nullish_or (field_of ''cleanup_scope_id'' p) (field_of ''scope_id'' p)),
        cl_reason = cleanText (field_of ''reason'' p),
        cl_target_peer = cleanText (field_of ''target_peer_device_id'' p) \<rparr>)"

definition accessCleanupTargetsPeer :: "replication_op \<Rightarrow> string option \<Rightarrow> bool" where
  "accessCleanupTargetsPeer r peerDeviceId =
     (let c = parseAccessCleanupPayload r in
      if cl_scope c = None then False
      else cl_target_peer c = None \<or> cl_target_peer c = clean_text peerDeviceId)"

section \<open>Memory payloads\<close>

record memory_payload =
  mp_session_id :: "rat option"
  mp_kind :: "string option"
  mp_title :: "string option"
  mp_subtitle :: "string option"
  mp_body_text :: "string option"
  mp_confidence :: "rat option"
  mp_tags_text :: "string option"
  mp_active :: "rat option"
  mp_created_at :: "string option"
  mp_updated_at :: "string option"
  mp_metadata :: json_obj
  mp_actor_id :: "string option"
  mp_actor_display_name :: "string option"
  mp_visibility :: "string option"
  mp_workspace_id :: "string option"
  mp_workspace_kind :: "string option"
  mp_origin_device_id :: "string option"
  mp_origin_source :: "string option"
  mp_trust_state :: "string option"
  mp_narrative :: "string option"
  mp_facts :: json
  mp_concepts :: json
  mp_files_read :: json
  mp_files_modified :: json
  mp_user_prompt_id :: "rat option"
  mp_prompt_number :: "rat option"
  mp_deleted_at :: "string option"
  mp_scope_id :: "string option"
  mp_has_deleted_at :: bool
  mp_rev :: rat
  mp_import_key :: "string option"
  mp_project :: "string option"

text \<open>The messages pushed to \<open>ApplyResult.errors\<close>: an op whose payload is no object, an op whose
  application threw, and an op refused with its batch.\<close>

datatype apply_error = BadPayload string string | OpFailed string string | OpRejected string string

definition or_null :: "json option \<Rightarrow> json" where
  "or_null v = or_default v JNull"

definition memory_payload_of :: "json_obj \<Rightarrow> memory_payload" where
  "memory_payload_of raw =
     (let txt = (\<lambda>k. asStringOrNull (field k raw)); num = (\<lambda>k. asNumberOrNull (field k raw)) in
      \<lparr> mp_session_id = num ''session_id'', mp_kind = txt ''kind'', mp_title = txt ''title'',
        mp_subtitle = txt ''subtitle'', mp_body_text = txt ''body_text'', mp_confidence = num ''confidence'',
        mp_tags_text = txt ''tags_text'', mp_active = num ''active'', mp_created_at = txt ''created_at'',
        mp_updated_at = txt ''updated_at'', mp_metadata = metadataRecord (Some raw),
        mp_actor_id = txt ''actor_id'', mp_actor_display_name = txt ''actor_display_name'',
        mp_visibility = txt ''visibility'', mp_workspace_id = txt ''workspace_id'',
        mp_workspace_kind = txt ''workspace_kind'', mp_origin_device_id = txt ''origin_device_id'',
        mp_origin_source = txt ''origin_source'', mp_trust_state = txt ''trust_state'',
        mp_narrative = txt ''narrative'', mp_facts = or_null (field ''facts'' raw),
        mp_concepts = or_null (field ''concepts'' raw), mp_files_read = or_null (field ''files_read'' raw),
        mp_files_modified = or_null (field ''files_modified'' raw),
        mp_user_prompt_id = num ''user_prompt_id'', mp_prompt_number = num ''prompt_number'',
        mp_deleted_at = txt ''deleted_at'', mp_scope_id = txt ''scope_id'',
        mp_has_deleted_at = (field ''deleted_at'' raw \<noteq> None),
        mp_rev = or_default (num ''rev'') 0, mp_import_key = txt ''import_key'',
        mp_project = txt ''project'' \<rparr>)"

text \<open>\<open>parseMemoryPayload\<close>: the payload, and the error it appends if there is one.\<close>

definition parseMemoryPayload :: "replication_op \<Rightarrow> memory_payload option \<times> apply_error list" where
  "parseMemoryPayload r =
     (if text_is_empty (op_payload r) then (None, [])
      else (case fromJsonStrict (op_payload r) of
              Inl e \<Rightarrow> (None, [BadPayload (op_id r) e])
            | Inr raw \<Rightarrow> (Some (memory_payload_of raw), [])))"

definition resolveReplicatedTextUpdate :: "string option \<Rightarrow> string option \<Rightarrow> string" where
  "resolveReplicatedTextUpdate nextValue currentValue =
     (case nextValue of None \<Rightarrow> or_default currentValue [] | Some v \<Rightarrow> v)"

section \<open>Tags\<close>

definition STOPWORDS :: "string list" where
  "STOPWORDS = [''the'', ''and'', ''for'', ''with'', ''this'', ''that'', ''from'', ''are'', ''was'', ''were'',
     ''has'', ''have'', ''had'', ''not'', ''but'', ''can'', ''will'', ''all'', ''been'', ''each'', ''which'',
     ''their'', ''said'', ''its'', ''into'', ''than'', ''other'', ''some'', ''could'', ''them'', ''about'',
     ''then'', ''made'', ''after'', ''many'', ''also'', ''did'', ''just'', ''should'', ''over'', ''such'',
     ''there'', ''would'', ''more'', ''now'', ''very'', ''when'', ''what'', ''your'', ''how'', ''out'', ''our'',
     ''his'', ''her'', ''she'', ''him'', ''most'']"

definition tag_char :: "char \<Rightarrow> bool" where
  "tag_char c = (let n = (of_char c :: nat) in
     (97 \<le> n \<and> n \<le> 122) \<or> (48 \<le> n \<and> n \<le> 57) \<or> n = 95)"

text \<open>Every maximal run of other characters becomes one hyphen; then one hyphen is stripped at each end.\<close>

fun hyphenate :: "bool \<Rightarrow> string \<Rightarrow> string" where
  "hyphenate in_run [] = []"
| "hyphenate in_run (c # s) =
     (if tag_char c then c # hyphenate False s
      else if in_run then hyphenate True s else CHR ''-'' # hyphenate True s)"

definition strip_front_hyphen :: "string \<Rightarrow> string" where
  "strip_front_hyphen s = (case s of c # t \<Rightarrow> if c = CHR ''-'' then t else s | [] \<Rightarrow> [])"

definition strip_back_hyphen :: "string \<Rightarrow> string" where
  "strip_back_hyphen s = rev (strip_front_hyphen (rev s))"

definition normalizeTag :: "string list \<Rightarrow> string \<Rightarrow> string" where
  "normalizeTag stopwords v =
     (let lowered = js_lower (js_trim v) in
      if lowered = [] then []
      else (let slug = strip_back_hyphen (strip_front_hyphen (hyphenate False lowered)) in
        if slug = [] then []
        else if slug \<in> set stopwords then []
        else if length slug > 40 then strip_back_hyphen (take 40 slug) else slug))"

text \<open>\<open>raw.split(/[\\\\/]+/)\<close> without the parts that are empty or dots.\<close>

fun path_parts_loop :: "string \<Rightarrow> string \<Rightarrow> string list" where
  "path_parts_loop current [] = [rev current]"
| "path_parts_loop current (c # s) =
     (if c = CHR ''/'' \<or> c = CHR 0x5C then rev current # path_parts_loop [] s
      else path_parts_loop (c # current) s)"

definition path_parts :: "string \<Rightarrow> string list" where
  "path_parts raw = filter (\<lambda>p. p \<noteq> [] \<and> p \<noteq> ''.'' \<and> p \<noteq> ''..'') (path_parts_loop [] raw)"

definition fileTags :: "string list \<Rightarrow> string \<Rightarrow> string list" where
  "fileTags stopwords pathValue =
     (let raw = js_trim pathValue in
      if raw = [] then []
      else (let parts = path_parts raw in
        if parts = [] then []
        else (let tags = (\<lambda>p. let t = normalizeTag stopwords p in if t = [] then [] else [t]) in
          tags (last parts)
          @ (if length parts \<ge> 2 then tags (parts ! (length parts - 2)) else [])
          @ (if length parts \<ge> 3 then tags (hd parts) else []))))"

fun word_runs :: "string \<Rightarrow> string \<Rightarrow> string list" where
  "word_runs current [] = (if current = [] then [] else [rev current])"
| "word_runs current (c # s) =
     (if tag_char c then word_runs (c # current) s
      else (if current = [] then [] else [rev current]) @ word_runs [] s)"

fun dedupe_cap :: "nat \<Rightarrow> string list \<Rightarrow> string list \<Rightarrow> string list" where
  "dedupe_cap cap out [] = out"
| "dedupe_cap cap out (t # ts) =
     (if t \<in> set out then dedupe_cap cap out ts
      else if length out + 1 \<ge> cap then out @ [t] else dedupe_cap cap (out @ [t]) ts)"

definition nonempty_tags :: "string list \<Rightarrow> string list \<Rightarrow> string list" where
  "nonempty_tags stopwords vs = filter (\<lambda>t. t \<noteq> []) (map (normalizeTag stopwords) vs)"

definition deriveTags :: "string \<Rightarrow> string option \<Rightarrow> string list \<Rightarrow> string list \<Rightarrow> string list \<Rightarrow> string list" where
  "deriveTags kind title concepts filesRead filesModified =
     (let tags = nonempty_tags STOPWORDS [kind] @ nonempty_tags STOPWORDS concepts
            @ concat (map (fileTags STOPWORDS) (filesRead @ filesModified));
          all_tags = (if tags = [] \<and> or_default title [] \<noteq> []
             then nonempty_tags STOPWORDS (word_runs [] (js_lower (or_default title []))) else tags)
      in dedupe_cap 20 [] all_tags)"

definition json_String_list :: "json \<Rightarrow> string list" where
  "json_String_list v = (case v of JArr vs \<Rightarrow> map js_String vs | _ \<Rightarrow> [])"

definition resolveReplicatedTags :: "memory_payload \<Rightarrow> string" where
  "resolveReplicatedTags p =
     (let incoming = js_trim (or_default (mp_tags_text p) []) in
      if incoming \<noteq> [] then incoming
      else join_text '' '' (deriveTags (or_default (mp_kind p) []) (mp_title p)
             (json_String_list (mp_concepts p)) (json_String_list (mp_files_read p))
             (json_String_list (mp_files_modified p))))"

section \<open>Redaction\<close>

definition redact_text :: "(string \<Rightarrow> string) \<Rightarrow> string option \<Rightarrow> string option" where
  "redact_text scan v = (case v of None \<Rightarrow> None | Some s \<Rightarrow> if s = [] then v else Some (scan s))"

fun space_words :: "string \<Rightarrow> string \<Rightarrow> string list" where
  "space_words current [] = (if current = [] then [] else [rev current])"
| "space_words current (c # s) =
     (if js_space c then (if current = [] then [] else [rev current]) @ space_words [] s
      else space_words (c # current) s)"

definition redact_tags :: "(string \<Rightarrow> string) \<Rightarrow> string option \<Rightarrow> string option" where
  "redact_tags scan v = (case v of None \<Rightarrow> None
     | Some s \<Rightarrow> if s = [] then v else Some (join_text '' '' (map scan (space_words [] s))))"

definition redact_list :: "(string \<Rightarrow> string) \<Rightarrow> json \<Rightarrow> json" where
  "redact_list scan v = (case v of
     JArr vs \<Rightarrow> JArr (map (\<lambda>x. case x of JStr s \<Rightarrow> JStr (scan s) | _ \<Rightarrow> x) vs)
   | _ \<Rightarrow> v)"

definition redactMemoryFields ::
    "(string \<Rightarrow> string) \<Rightarrow> (json_obj \<Rightarrow> json_obj) \<Rightarrow> memory_payload \<Rightarrow> memory_payload" where
  "redactMemoryFields scan redact_value p = p\<lparr>
     mp_title := redact_text scan (mp_title p),
     mp_subtitle := redact_text scan (mp_subtitle p),
     mp_body_text := redact_text scan (mp_body_text p),
     mp_narrative := redact_text scan (mp_narrative p),
     mp_actor_display_name := redact_text scan (mp_actor_display_name p),
     mp_origin_source := redact_text scan (mp_origin_source p),
     mp_tags_text := redact_tags scan (mp_tags_text p),
     mp_facts := redact_list scan (mp_facts p),
     mp_concepts := redact_list scan (mp_concepts p),
     mp_files_read := redact_list scan (mp_files_read p),
     mp_files_modified := redact_list scan (mp_files_modified p),
     mp_metadata := redact_value (mp_metadata p) \<rparr>"

section \<open>Lemmas\<close>

lemma parseReassignScopePayload_SomeD:
  assumes "parseReassignScopePayload r = Some ra"
  shows "op_type r = REASSIGN_SCOPE_OP_TYPE \<and> ra_memory_id ra = op_entity_id r
    \<and> ra_old_scope ra \<noteq> ra_new_scope ra \<and> ra_revision ra = op_clock_rev r \<and> 0 < ra_revision ra
    \<and> clean_text (op_scope_id r) = Some (if ra_side ra = OldSide then ra_old_scope ra else ra_new_scope ra)"
  using assms
  by (auto simp: parseReassignScopePayload_def Let_def split: if_splits option.splits)

lemma tag_char_hyphen [simp]: "\<not> tag_char CHR ''-''"
  by code_simp

lemma hyphenate_chars: "c \<in> set (hyphenate b s) \<Longrightarrow> tag_char c \<or> c = CHR ''-''"
  by (induction b s rule: hyphenate.induct) (auto split: if_splits)

lemma set_strip_back: "set (strip_back_hyphen s) \<subseteq> set s"
  by (auto simp: strip_back_hyphen_def strip_front_hyphen_def split: list.splits if_splits)
    (metis list.set_intros(2) set_rev)+

lemma set_strip_front: "set (strip_front_hyphen s) \<subseteq> set s"
  by (auto simp: strip_front_hyphen_def split: list.splits if_splits)

lemma length_strip_back: "length (strip_back_hyphen s) \<le> length s"
  by (cases "rev s") (auto simp: strip_back_hyphen_def strip_front_hyphen_def dest: arg_cong [where f = length])

lemma normalizeTag_chars: "c \<in> set (normalizeTag ws v) \<Longrightarrow> tag_char c \<or> c = CHR ''-''"
proof -
  let ?h = "hyphenate False (js_lower (js_trim v))"
  assume c: "c \<in> set (normalizeTag ws v)"
  have slug: "set (strip_back_hyphen (strip_front_hyphen ?h)) \<subseteq> set ?h"
    using set_strip_back set_strip_front by blast
  have "set (normalizeTag ws v) \<subseteq> set (strip_back_hyphen (strip_front_hyphen ?h))"
    using set_strip_back [of "take 40 (strip_back_hyphen (strip_front_hyphen ?h))"]
    by (auto simp: normalizeTag_def Let_def dest!: subsetD in_set_takeD)
  with slug c show ?thesis using hyphenate_chars by blast
qed

lemma normalizeTag_length: "length (normalizeTag ws v) \<le> 40"
proof -
  have "length (strip_back_hyphen (take 40 s)) \<le> 40" for s
    using length_strip_back [of "take 40 s"] by simp
  then show ?thesis by (auto simp: normalizeTag_def Let_def)
qed

lemma dedupe_cap_distinct: "distinct out \<Longrightarrow> distinct (dedupe_cap cap out ts)"
  by (induction cap out ts rule: dedupe_cap.induct) auto

lemma dedupe_cap_length: "length out < cap \<Longrightarrow> length (dedupe_cap cap out ts) \<le> cap"
  by (induction cap out ts rule: dedupe_cap.induct) auto

lemma dedupe_cap_set: "set (dedupe_cap cap out ts) \<subseteq> set out \<union> set ts"
  by (induction cap out ts rule: dedupe_cap.induct) auto

end
