(* ===== verification/Outbound_Filter.thy ===== *)
theory Outbound_Filter
  imports Scope_Authorization Memory_Provenance Replicated_Payloads
begin

text \<open>
  What a device sends to a peer (\<open>packages/core/src/sync-replication.ts\<close>, lines 1911-2530): the project,
  visibility and scope rules, the personal grants, the retirement fence, and the loop
  \<open>filterReplicationOpsForSyncWithStatus\<close> that splits a window of ops into allowed ops, a cursor and the
  first refusal. The process environment and the config file are the record \<open>sync_config\<close>.

  The decision for one op is \<open>outbound_decision\<close>, \<open>None\<close> for an op that goes out: every \<open>continue\<close> of the
  loop that records a refusal is a branch of it.
\<close>

section \<open>Project filters\<close>

record sync_config =
  env_projects_include :: "string option"
  env_projects_exclude :: "string option"
  config_projects_include :: "json option"
  config_projects_exclude :: "json option"

definition nullish_text :: "json option \<Rightarrow> string" where
  "nullish_text v = (case v of None \<Rightarrow> [] | Some JNull \<Rightarrow> [] | Some x \<Rightarrow> js_String x)"

definition cleanList :: "json \<Rightarrow> string list" where
  "cleanList v = (case v of
     JArr vs \<Rightarrow> filter (\<lambda>s. s \<noteq> []) (map (\<lambda>x. js_trim (nullish_text (Some x))) vs)
   | _ \<Rightarrow> [])"

definition parseStringList :: "json option \<Rightarrow> string list" where
  "parseStringList v = (case v of
     Some (JArr vs) \<Rightarrow> cleanList (JArr vs)
   | Some (JStr s) \<Rightarrow> filter (\<lambda>p. p \<noteq> []) (map js_trim (split_on CHR '','' s))
   | _ \<Rightarrow> [])"

definition parseJsonList :: "json_text option \<Rightarrow> string list" where
  "parseJsonList t = (if text_is_empty t then []
     else (case t of None \<Rightarrow> [] | Some txt \<Rightarrow> (case json_parse txt of None \<Rightarrow> [] | Some v \<Rightarrow> cleanList v)))"

record project_filters =
  pf_include :: "string list"
  pf_exclude :: "string list"

definition global_filters :: "sync_config \<Rightarrow> project_filters" where
  "global_filters cfg = \<lparr>
     pf_include = parseStringList (case env_projects_include cfg of
        Some s \<Rightarrow> Some (JStr s) | None \<Rightarrow> config_projects_include cfg),
     pf_exclude = parseStringList (case env_projects_exclude cfg of
        Some s \<Rightarrow> Some (JStr s) | None \<Rightarrow> config_projects_exclude cfg) \<rparr>"

definition effectiveSyncProjectFilters :: "sync_config \<Rightarrow> db \<Rightarrow> string option \<Rightarrow> project_filters" where
  "effectiveSyncProjectFilters cfg d peerDeviceId = (case peerDeviceId of
     None \<Rightarrow> global_filters cfg
   | Some peer \<Rightarrow>
       if peer = [] then global_filters cfg
       else (case first_where (\<lambda>p. p_device p = peer) (peers d) of
               None \<Rightarrow> global_filters cfg
             | Some row \<Rightarrow>
                 if p_projects_include row = None \<and> p_projects_exclude row = None then global_filters cfg
                 else \<lparr> pf_include = parseJsonList (p_projects_include row),
                        pf_exclude = parseJsonList (p_projects_exclude row) \<rparr>))"

text \<open>\<open>projectBasename\<close> of \<open>project.ts\<close>.\<close>

definition projectBasename :: "string \<Rightarrow> string" where
  "projectBasename v =
     (let normalized = map (\<lambda>c. if c = CHR 0x5C then CHR ''/'' else c) v;
          stripped = rev (dropWhile (\<lambda>c. c = CHR ''/'') (rev normalized))
      in if stripped = [] then [] else last (split_on CHR ''/'' stripped))"

definition syncProjectAllowedByFilters :: "string option \<Rightarrow> project_filters \<Rightarrow> bool" where
  "syncProjectAllowedByFilters projectValue f =
     (let v = js_trim (or_default projectValue []); base = projectBasename v in
      if list_ex (\<lambda>blocked. blocked = v \<or> blocked = base) (pf_exclude f) then False
      else if pf_include f = [] then True
      else list_ex (\<lambda>allowed. allowed = v \<or> allowed = base) (pf_include f))"

definition syncProjectAllowed :: "sync_config \<Rightarrow> db \<Rightarrow> string option \<Rightarrow> string option \<Rightarrow> bool" where
  "syncProjectAllowed cfg d project peerDeviceId =
     syncProjectAllowedByFilters project (effectiveSyncProjectFilters cfg d peerDeviceId)"

section \<open>Visibility and personal scopes\<close>

definition lowered_field :: "string \<Rightarrow> json_obj \<Rightarrow> string" where
  "lowered_field k obj = js_lower (js_trim (nullish_text (field k obj)))"

definition or_text :: "string \<Rightarrow> string \<Rightarrow> string" where
  "or_text a b = (if a = [] then b else a)"

definition syncVisibilityAllowed :: "json_obj option \<Rightarrow> bool" where
  "syncVisibilityAllowed payload = (case payload of
     None \<Rightarrow> False
   | Some p \<Rightarrow>
       let metadata = metadataRecord payload;
           visibility = or_text (lowered_field ''visibility'' p) (lowered_field ''visibility'' metadata)
       in if visibility = []
          then (let workspaceKind = or_text (lowered_field ''workspace_kind'' p) (lowered_field ''workspace_kind'' metadata);
                    workspaceId = or_text (lowered_field ''workspace_id'' p) (lowered_field ''workspace_id'' metadata)
                in if workspaceKind = ''shared'' \<or> starts_with ''shared:'' workspaceId
                   then (let effective = ''shared'' in effective = ''shared'')
                   else True)
          else visibility = ''shared'')"

definition cached_authorization :: "db \<Rightarrow> string \<Rightarrow> string \<Rightarrow> string + scope_authorization" where
  "cached_authorization d deviceId scopeId =
     getCachedScopeAuthorization (\<lambda>_. None) 0 DEFAULT_SCOPE_MEMBERSHIP_CACHE_MAX_AGE_MS d deviceId scopeId None"

definition personal_prefix :: string where "personal_prefix = ''personal:''"

text \<open>\<open>PersonalScopeGrantStatus\<close>; the state \<open>None\<close> is \<open>missing_peer_or_actor\<close>.\<close>

record personal_grant =
  pg_scope :: "string option"
  pg_authorized :: bool
  pg_state :: "authorization_state option"

definition personalScopeGrantStatusForPeer ::
    "db \<Rightarrow> string option \<Rightarrow> string option \<Rightarrow> string + personal_grant" where
  "personalScopeGrantStatusForPeer d peerDeviceId actorId =
     (case (clean_text peerDeviceId, clean_text actorId) of
        (Some peer, Some actor) \<Rightarrow>
          (case cached_authorization d peer (personal_prefix @ actor) of
             Inl e \<Rightarrow> Inl e
           | Inr au \<Rightarrow> Inr \<lparr> pg_scope = Some (personal_prefix @ actor), pg_authorized = au_authorized au,
               pg_state = Some (au_state au) \<rparr>)
      | _ \<Rightarrow> Inr \<lparr> pg_scope = None, pg_authorized = False, pg_state = None \<rparr>)"

record personal_requirement =
  pr_required :: bool
  pr_scope :: "string option"

definition merged_text :: "json_obj option \<Rightarrow> string \<Rightarrow> string option" where
  "merged_text p k = cleanText (nullish_or (field_of k p) (field k (metadataRecord p)))"

definition personal_only :: "string option \<Rightarrow> string list" where
  "personal_only v = (case v of None \<Rightarrow> [] | Some s \<Rightarrow> if starts_with personal_prefix s then [s] else [])"

definition personalScopeAuthorizationRequirement ::
    "string option \<Rightarrow> json_obj option \<Rightarrow> personal_requirement" where
  "personalScopeAuthorizationRequirement opScope payload =
     (let visibility = map_option js_lower (merged_text payload ''visibility'');
          workspaceId = merged_text payload ''workspace_id'';
          workspaceKind = map_option js_lower (merged_text payload ''workspace_kind'');
          actorId = merged_text payload ''actor_id'';
          personalWorkspace = personal_only workspaceId;
          signal = (visibility = Some ''private'' \<or> visibility = Some ''personal''
                    \<or> workspaceKind = Some ''personal'' \<or> personalWorkspace \<noteq> []);
          actorScope = (case actorId of Some a \<Rightarrow> if signal then [personal_prefix @ a] else [] | None \<Rightarrow> []);
          candidates = personal_only (clean_text opScope) @ personal_only (cleanText (field_of ''scope_id'' payload))
                       @ personalWorkspace @ actorScope
      in (case candidates of
            [] \<Rightarrow> \<lparr> pr_required = signal, pr_scope = None \<rparr>
          | scopeId # rest \<Rightarrow>
              if list_ex (\<lambda>c. c \<noteq> scopeId) rest then \<lparr> pr_required = True, pr_scope = None \<rparr>
              else \<lparr> pr_required = True, pr_scope = Some scopeId \<rparr>))"

definition replicationOpRequiresPersonalScopeAuthorization :: "string option \<Rightarrow> json_obj option \<Rightarrow> bool" where
  "replicationOpRequiresPersonalScopeAuthorization opScope payload =
     pr_required (personalScopeAuthorizationRequirement opScope payload)"

definition peerCanSyncPrivateOpByPersonalScopeGrant ::
    "db \<Rightarrow> string option \<Rightarrow> json_obj option \<Rightarrow> string option \<Rightarrow> bool" where
  "peerCanSyncPrivateOpByPersonalScopeGrant d opScope payload peerDeviceId =
     (case pr_scope (personalScopeAuthorizationRequirement opScope payload) of
        None \<Rightarrow> False
      | Some scopeId \<Rightarrow>
          (case personalScopeGrantStatusForPeer d peerDeviceId (Some (drop (length personal_prefix) scopeId)) of
             Inl _ \<Rightarrow> False | Inr grant \<Rightarrow> pg_authorized grant))"

text \<open>The test that appears before every release of a memory row: private content needs the grant.\<close>

definition privately_blocked :: "db \<Rightarrow> string option \<Rightarrow> json_obj option \<Rightarrow> string option \<Rightarrow> bool" where
  "privately_blocked d opScope payload peerDeviceId \<longleftrightarrow>
     (replicationOpRequiresPersonalScopeAuthorization opScope payload \<or> \<not> syncVisibilityAllowed payload)
     \<and> \<not> peerCanSyncPrivateOpByPersonalScopeGrant d opScope payload peerDeviceId"

section \<open>The retirement fence\<close>

definition contradicts :: "string \<Rightarrow> json option \<Rightarrow> bool" where
  "contradicts scopeId v \<longleftrightarrow> \<not> nullish v \<and> cleanText v \<noteq> Some scopeId"

definition retirementPayloadContradictsScope :: "replication_op \<Rightarrow> string \<Rightarrow> json_obj option \<Rightarrow> bool" where
  "retirementPayloadContradictsScope r scopeId payload =
     (let named = [field_of ''scope_id'' payload, field ''scope_id'' (metadataRecord payload)] in
      if op_type r = ACCESS_CLEANUP_OP_TYPE
      then (case cleanText (nullish_or (field_of ''cleanup_scope_id'' payload) (field_of ''scope_id'' payload)) of
              None \<Rightarrow> True
            | Some cleanupScope \<Rightarrow>
                if scopeId \<noteq> DEFAULT_SYNC_SCOPE_ID \<and> scopeId \<noteq> cleanupScope then True
                else list_ex (contradicts cleanupScope) named)
      else list_ex (contradicts scopeId) named)"

definition retirementBlocksMemoryOp :: "db \<Rightarrow> replication_op \<Rightarrow> bool" where
  "retirementBlocksMemoryOp d r =
     (if op_entity_type r \<noteq> ''memory_item'' \<or> \<not> hasMemoryScopeRetirement d (op_entity_id r) then False
      else (case clean_text (op_scope_id r) of
              None \<Rightarrow> True
            | Some scopeId \<Rightarrow>
                if isMemoryScopeRetired d (op_entity_id r) (Some scopeId) then True
                else (let payload = parsePayload (op_payload r) in
                  if op_payload r \<noteq> None \<and> payload = None then True
                  else if retirementPayloadContradictsScope r scopeId payload then True
                  else if op_type r = ACCESS_CLEANUP_OP_TYPE
                  then isMemoryScopeRetired d (op_entity_id r) (cl_scope (parseAccessCleanupPayload r))
                  else if op_type r \<noteq> REASSIGN_SCOPE_OP_TYPE then False
                  else (case parseReassignScopePayload r of
                          None \<Rightarrow> True
                        | Some ra \<Rightarrow> isMemoryScopeRetired d (op_entity_id r) (Some (ra_new_scope ra))))))"

section \<open>Scope rules\<close>

definition payloadScopeId :: "json_obj option \<Rightarrow> string option" where
  "payloadScopeId payload = merged_text payload ''scope_id''"

definition payloadContradictsOutboundScope :: "string option \<Rightarrow> json_obj option \<Rightarrow> bool" where
  "payloadContradictsOutboundScope opScope payload =
     (let opScopeId = clean_text opScope; explicit = payloadScopeId payload in
      if explicit \<noteq> None \<and> explicit \<noteq> opScopeId then True
      else if opScopeId = None then explicit \<noteq> None
      else (let req = personalScopeAuthorizationRequirement opScope payload in
        pr_required req \<and> pr_scope req \<noteq> None \<and> pr_scope req \<noteq> opScopeId))"

record existing_context =
  ex_payload :: json_obj
  ex_project :: "string option"
  ex_scope :: "string option"

definition existingMemoryFilterContext :: "db \<Rightarrow> string \<Rightarrow> existing_context option" where
  "existingMemoryFilterContext d importKey = (case clean_text (Some importKey) of
     None \<Rightarrow> None
   | Some key \<Rightarrow>
       map_option (\<lambda>m. \<lparr>
         ex_payload = [(''actor_id'', json_of_text (m_actor_id m)),
           (''metadata_json'', JObj (fromJson (m_metadata m))),
           (''visibility'', json_of_text (m_visibility m)),
           (''workspace_id'', json_of_text (m_workspace_id m)),
           (''workspace_kind'', json_of_text (m_workspace_kind m))],
         ex_project = clean_text (case first_where (\<lambda>s. s_id s = m_session_id m) (sessions d) of
            None \<Rightarrow> None | Some s \<Rightarrow> s_project s),
         ex_scope = clean_text (m_scope_id m) \<rparr>)
         (first_where (\<lambda>m. m_import_key m = Some key) (memories d)))"

definition coordinator_authorized :: "db \<Rightarrow> string \<Rightarrow> string \<Rightarrow> bool" where
  "coordinator_authorized d deviceId scopeId = (case cached_authorization d deviceId scopeId of
     Inl _ \<Rightarrow> False
   | Inr au \<Rightarrow> au_authorized au \<and> map_option sc_authority_type (au_scope au) \<noteq> Some ''local'')"

definition outboundScopeAllowed ::
    "db \<Rightarrow> replication_op \<Rightarrow> json_obj option \<Rightarrow> string option \<Rightarrow> string option \<Rightarrow> bool" where
  "outboundScopeAllowed d r payload peerDeviceId localDeviceId =
     (if payloadContradictsOutboundScope (op_scope_id r) payload then False
      else (case clean_text (op_scope_id r) of
              None \<Rightarrow> True
            | Some scopeId \<Rightarrow>
                if scopeId = DEFAULT_SYNC_SCOPE_ID then False
                else (case clean_text peerDeviceId of
                        None \<Rightarrow> False
                      | Some peerId \<Rightarrow>
                          if \<not> coordinator_authorized d peerId scopeId then False
                          else (case clean_text localDeviceId of
                                  None \<Rightarrow> True
                                | Some localId \<Rightarrow> coordinator_authorized d localId scopeId))))"

definition legacyDefaultReassignAllowed :: "sync_config \<Rightarrow> db \<Rightarrow> replication_op \<Rightarrow> string option \<Rightarrow> bool" where
  "legacyDefaultReassignAllowed cfg d r peerDeviceId =
     (case existingMemoryFilterContext d (op_entity_id r) of
        None \<Rightarrow> False
      | Some existing \<Rightarrow>
          if privately_blocked d (op_scope_id r) (Some (ex_payload existing)) peerDeviceId then False
          else syncProjectAllowed cfg d (ex_project existing) peerDeviceId)"

section \<open>The loop\<close>

datatype skip_reason = ScopeFilter | VisibilityFilter | ProjectFilter

text \<open>A refusal with the optional detail fields; an outer \<open>None\<close> is a property left out.\<close>

record skip_detail =
  sk_reason :: skip_reason
  sk_project :: "string option option"
  sk_scope :: "string option option"
  sk_visibility :: "string option option"

record skipped_report =
  sr_detail :: skip_detail
  sr_op_id :: string
  sr_created_at :: string
  sr_entity_type :: string
  sr_entity_id :: string
  sr_count :: nat

definition scope_skip :: "string option \<Rightarrow> skip_detail" where
  "scope_skip s = \<lparr> sk_reason = ScopeFilter, sk_project = None, sk_scope = Some s, sk_visibility = None \<rparr>"

definition visibility_skip :: "string option option \<Rightarrow> skip_detail" where
  "visibility_skip v = \<lparr> sk_reason = VisibilityFilter, sk_project = None, sk_scope = None, sk_visibility = v \<rparr>"

definition project_skip :: "string option \<Rightarrow> skip_detail" where
  "project_skip p = \<lparr> sk_reason = ProjectFilter, sk_project = Some p, sk_scope = None, sk_visibility = None \<rparr>"

definition existingDeleteRejection ::
    "sync_config \<Rightarrow> db \<Rightarrow> replication_op \<Rightarrow> string option \<Rightarrow> bool \<Rightarrow> skip_detail option" where
  "existingDeleteRejection cfg d r peerDeviceId applyScopeFilter =
     (case existingMemoryFilterContext d (op_entity_id r) of
        None \<Rightarrow> None
      | Some existing \<Rightarrow>
          if applyScopeFilter \<and> ex_scope existing \<noteq> None \<and> ex_scope existing \<noteq> clean_text (op_scope_id r)
          then Some (scope_skip (clean_text (op_scope_id r)))
          else if privately_blocked d (op_scope_id r) (Some (ex_payload existing)) peerDeviceId
          then Some (visibility_skip (Some (as_text (field ''visibility'' (ex_payload existing)))))
          else if \<not> syncProjectAllowed cfg d (ex_project existing) peerDeviceId
          then Some (project_skip (ex_project existing))
          else None)"

record filter_options =
  fo_local_device :: "string option"
  fo_apply_scope :: bool
  fo_supports_reassign :: bool

text \<open>The rules for an op that is neither a cleanup nor the old side of a reassignment.\<close>

definition regular_decision ::
    "sync_config \<Rightarrow> db \<Rightarrow> string option \<Rightarrow> filter_options \<Rightarrow> replication_op \<Rightarrow> skip_detail option" where
  "regular_decision cfg d peer opts r =
     (let payload = parsePayload (op_payload r); regularScope = clean_text (op_scope_id r) in
      if regularScope = None \<or> regularScope = Some DEFAULT_SYNC_SCOPE_ID then Some (scope_skip regularScope)
      else if fo_apply_scope opts \<and> \<not> outboundScopeAllowed d r payload peer (fo_local_device opts)
      then Some (scope_skip regularScope)
      else if op_type r = ''delete'' \<and> payload = None
      then (case existingDeleteRejection cfg d r peer (fo_apply_scope opts) of
              Some rejection \<Rightarrow> Some rejection
            | None \<Rightarrow>
                if replicationOpRequiresPersonalScopeAuthorization (op_scope_id r) payload
                   \<and> \<not> peerCanSyncPrivateOpByPersonalScopeGrant d (op_scope_id r) payload peer
                then Some (visibility_skip None) else None)
      else if privately_blocked d (op_scope_id r) payload peer
      then Some (visibility_skip (Some (as_text (field_of ''visibility'' payload))))
      else (let project = cleanText (field_of ''project'' payload) in
        if \<not> syncProjectAllowed cfg d project peer then Some (project_skip project) else None))"

definition outbound_decision ::
    "sync_config \<Rightarrow> db \<Rightarrow> string option \<Rightarrow> filter_options \<Rightarrow> replication_op \<Rightarrow> skip_detail option" where
  "outbound_decision cfg d peer opts r =
     (let payload = parsePayload (op_payload r); scope = clean_text (op_scope_id r) in
      if retirementBlocksMemoryOp d r then Some (scope_skip scope)
      else if op_entity_type r \<noteq> ''memory_item'' then None
      else if op_type r = REASSIGN_SCOPE_OP_TYPE \<and> \<not> fo_supports_reassign opts then Some (scope_skip scope)
      else if op_type r = ACCESS_CLEANUP_OP_TYPE
      then (if \<not> accessCleanupTargetsPeer r peer
            then Some (scope_skip (cleanText (nullish_or (field_of ''cleanup_scope_id'' payload)
                   (map_option JStr (op_scope_id r)))))
            else None)
      else if op_type r = REASSIGN_SCOPE_OP_TYPE
      then (case parseReassignScopePayload r of
              None \<Rightarrow> Some (scope_skip scope)
            | Some ra \<Rightarrow>
                if fo_apply_scope opts
                   \<and> \<not> (if ra_side ra = OldSide \<and> ra_old_scope ra = DEFAULT_SYNC_SCOPE_ID
                        then legacyDefaultReassignAllowed cfg d r peer
                        else outboundScopeAllowed d r payload peer (fo_local_device opts))
                then Some (scope_skip scope)
                else if ra_side ra = OldSide then None
                else regular_decision cfg d peer opts r)
      else regular_decision cfg d peer opts r)"

definition computeCursor :: "string \<Rightarrow> string \<Rightarrow> string" where
  "computeCursor createdAt opId = createdAt @ CHR ''|'' # opId"

definition addSkipped :: "nat \<times> skipped_report option \<Rightarrow> replication_op \<Rightarrow> skip_detail \<Rightarrow> nat \<times> skipped_report option" where
  "addSkipped st r detail = (fst st + 1, case snd st of
     Some f \<Rightarrow> Some f
   | None \<Rightarrow> Some \<lparr> sr_detail = detail, sr_op_id = op_id r, sr_created_at = op_created_at r,
       sr_entity_type = op_entity_type r, sr_entity_id = op_entity_id r, sr_count = 0 \<rparr>)"

fun filter_loop ::
    "(replication_op \<Rightarrow> skip_detail option) \<Rightarrow> replication_op list \<Rightarrow>
     replication_op list \<times> string option \<times> nat \<times> skipped_report option \<Rightarrow>
     replication_op list \<times> string option \<times> nat \<times> skipped_report option" where
  "filter_loop decide [] st = st"
| "filter_loop decide (r # rs) (allowed, cursor, skipped) =
     (let cursor' = Some (computeCursor (op_created_at r) (op_id r)) in
      (case decide r of
         Some detail \<Rightarrow> filter_loop decide rs (allowed, cursor', addSkipped skipped r detail)
       | None \<Rightarrow> filter_loop decide rs (allowed @ [r], cursor', skipped)))"

definition filterReplicationOpsForSyncWithStatus ::
    "sync_config \<Rightarrow> db \<Rightarrow> replication_op list \<Rightarrow> string option \<Rightarrow> filter_options \<Rightarrow>
     replication_op list \<times> string option \<times> skipped_report option" where
  "filterReplicationOpsForSyncWithStatus cfg d rs peer opts =
     (let (allowed, cursor, count, first) = filter_loop (outbound_decision cfg d peer opts) rs ([], None, 0, None)
      in (allowed, cursor, map_option (\<lambda>f. f\<lparr> sr_count := count \<rparr>) first))"

definition filterReplicationOpsForSync ::
    "sync_config \<Rightarrow> db \<Rightarrow> replication_op list \<Rightarrow> string option \<Rightarrow> filter_options \<Rightarrow>
     replication_op list \<times> string option" where
  "filterReplicationOpsForSync cfg d rs peer opts =
     (let (allowed, cursor, _) = filterReplicationOpsForSyncWithStatus cfg d rs peer opts in (allowed, cursor))"


section \<open>The loop keeps order, advances past refusals and reports the first one\<close>

definition first_refusal ::
    "(replication_op \<Rightarrow> skip_detail option) \<Rightarrow> replication_op list \<Rightarrow> skipped_report option" where
  "first_refusal decide rs = (case first_where (\<lambda>r. decide r \<noteq> None) rs of
     None \<Rightarrow> None
   | Some r \<Rightarrow> Some \<lparr> sr_detail = the (decide r), sr_op_id = op_id r, sr_created_at = op_created_at r,
       sr_entity_type = op_entity_type r, sr_entity_id = op_entity_id r, sr_count = 0 \<rparr>)"

lemma filter_loop_result:
  "filter_loop decide rs (allowed, cursor, count, first) =
     (allowed @ filter (\<lambda>r. decide r = None) rs,
      (if rs = [] then cursor else Some (computeCursor (op_created_at (last rs)) (op_id (last rs)))),
      count + length (filter (\<lambda>r. decide r \<noteq> None) rs),
      coalesce first (first_refusal decide rs))"
proof (induction rs arbitrary: allowed cursor count first)
  case Nil
  show ?case by (simp add: first_refusal_def)
next
  case (Cons r rs)
  show ?case
  proof (cases "decide r")
    case None
    then show ?thesis using Cons.IH by (simp add: Let_def first_refusal_def)
  next
    case (Some detail)
    then show ?thesis
      using Cons.IH by (cases first) (simp_all add: Let_def first_refusal_def addSkipped_def)
  qed
qed

lemma filterReplicationOps_result:
  "filterReplicationOpsForSyncWithStatus cfg d rs peer opts =
     (let decide = outbound_decision cfg d peer opts in
      (filter (\<lambda>r. decide r = None) rs,
       (if rs = [] then None else Some (computeCursor (op_created_at (last rs)) (op_id (last rs)))),
       map_option (\<lambda>f. f\<lparr> sr_count := length (filter (\<lambda>r. decide r \<noteq> None) rs) \<rparr>) (first_refusal decide rs)))"
  by (simp add: filterReplicationOpsForSyncWithStatus_def filter_loop_result Let_def)

section \<open>What an outgoing op satisfies\<close>

definition scope_gate :: "db \<Rightarrow> string \<Rightarrow> string \<Rightarrow> bool" where
  "scope_gate d dev s \<longleftrightarrow> cached_decision d dev s = Authorized
     \<and> map_option sc_authority_type (snd (readCachedScopeRows d dev s None)) \<noteq> Some ''local''"

lemma coordinator_authorized_gate:
  assumes "clean_text (Some dev) = Some dev" "clean_text (Some s) = Some s"
  shows "coordinator_authorized d dev s = scope_gate d dev s"
  using assms
  by (simp add: coordinator_authorized_def cached_authorization_def getCachedScopeAuthorization_def
      readCachedScopeAuthorization_def scope_gate_def cached_decision_def Let_def split: prod.splits)

lemma outboundScopeAllowed_gate:
  assumes "outboundScopeAllowed d r payload peer local" "clean_text (op_scope_id r) = Some s"
  shows "s \<noteq> DEFAULT_SYNC_SCOPE_ID
    \<and> (\<exists>p. clean_text peer = Some p \<and> scope_gate d p s)
    \<and> (\<forall>l. clean_text local = Some l \<longrightarrow> scope_gate d l s)
    \<and> payloadScopeId payload \<in> {None, Some s}"
proof -
  have s: "clean_text (Some s) = Some s" using assms(2) by (rule clean_text_SomeD)
  show ?thesis
    using assms s coordinator_authorized_gate [OF clean_text_SomeD s]
    by (auto simp: outboundScopeAllowed_def payloadContradictsOutboundScope_def Let_def
        split: if_splits option.splits)
qed

lemma retirementBlocks_scope:
  "op_entity_type r = ''memory_item'' \<Longrightarrow> isMemoryScopeRetired d (op_entity_id r) (clean_text (op_scope_id r))
    \<Longrightarrow> retirementBlocksMemoryOp d r"
  by (auto simp: retirementBlocksMemoryOp_def isMemoryScopeRetired_def hasMemoryScopeRetirement_def
      exists_where_iff split: option.splits)

lemma regular_decision_None:
  assumes "regular_decision cfg d peer opts r = None"
  shows "\<exists>s. clean_text (op_scope_id r) = Some s \<and> s \<noteq> DEFAULT_SYNC_SCOPE_ID
    \<and> (fo_apply_scope opts \<longrightarrow> outboundScopeAllowed d r (parsePayload (op_payload r)) peer (fo_local_device opts))
    \<and> (op_type r = ''delete'' \<and> parsePayload (op_payload r) = None
       \<or> \<not> privately_blocked d (op_scope_id r) (parsePayload (op_payload r)) peer
         \<and> syncProjectAllowed cfg d (cleanText (field_of ''project'' (parsePayload (op_payload r)))) peer)"
  using assms by (auto simp: regular_decision_def Let_def split: if_splits)

lemma outbound_decision_None:
  assumes "outbound_decision cfg d peer opts r = None" "op_entity_type r = ''memory_item''"
    and "op_type r \<noteq> ACCESS_CLEANUP_OP_TYPE" "op_type r \<noteq> REASSIGN_SCOPE_OP_TYPE"
  shows "\<not> retirementBlocksMemoryOp d r \<and> regular_decision cfg d peer opts r = None"
  using assms by (auto simp: outbound_decision_def Let_def split: if_splits)

end
