(* ===== verification/Op_Log.thy ===== *)
theory Op_Log
  imports Reset_Boundary Op_Batches Outbound_Filter "HOL-Library.Product_Lexorder"
begin

text \<open>
  The replication log (\<open>packages/core/src/sync-replication.ts\<close>): reading it a page at a time
  (\<open>loadReplicationOpsSince\<close>, \<open>loadReplicationOpsForPeer\<close>), the check for unsynced changes, and pruning by age
  and size (\<open>pruneReplicationOps\<close>, \<open>bulkPruneReplicationOpsByAgeCutoff\<close>, \<open>pruneReplicationOpsUntilCaughtUp\<close>,
  \<open>planReplicationOpsAgePrune\<close>).

  The age cutoff is the text of the time the code computes; the elapsed-time test of a prune is an oracle
  that is asked once per test, in order. The deletions of a pass are committed one by one, so the loops
  shrink the log and end.
\<close>

section \<open>Cursors and pages\<close>

fun split_cursor :: "string \<Rightarrow> (string \<times> string) option" where
  "split_cursor [] = None"
| "split_cursor (c # s) = (if c = CHR ''|'' then Some ([], s)
     else (case split_cursor s of None \<Rightarrow> None | Some (a, b) \<Rightarrow> Some (c # a, b)))"

definition parseCursor :: "string \<Rightarrow> (string \<times> string) option" where
  "parseCursor cursor = split_cursor cursor"

definition op_position :: "replication_op \<Rightarrow> string \<times> string" where
  "op_position r = (op_created_at r, op_id r)"

definition op_cursor :: "replication_op \<Rightarrow> string" where
  "op_cursor r = computeCursor (op_created_at r) (op_id r)"

definition in_op_scope :: "string \<Rightarrow> replication_op \<Rightarrow> bool" where
  "in_op_scope scope r \<longleftrightarrow>
     (if scope = DEFAULT_SYNC_SCOPE_ID then op_scope_id r = None \<or> op_scope_id r = Some scope
      else op_scope_id r = Some scope)"

definition after_cursor :: "string option \<Rightarrow> replication_op \<Rightarrow> bool" where
  "after_cursor cursor r \<longleftrightarrow> (case cursor of
     None \<Rightarrow> True
   | Some c \<Rightarrow> c = [] \<or> (case parseCursor c of
        None \<Rightarrow> True
      | Some (createdAt, opId) \<Rightarrow>
          op_created_at r > createdAt \<or> op_created_at r = createdAt \<and> op_id r > opId))"

definition authored_by :: "string option \<Rightarrow> replication_op \<Rightarrow> bool" where
  "authored_by deviceId r \<longleftrightarrow> (case deviceId of
     None \<Rightarrow> True
   | Some dev \<Rightarrow> dev = [] \<or> op_device_id r = dev \<and> op_clock_device_id r = dev \<or> op_device_id r = ''local'')"

definition sql_limit :: "int \<Rightarrow> 'a list \<Rightarrow> 'a list" where
  "sql_limit n rows = (if n < 0 then rows else take (nat n) rows)"

definition loadReplicationOpsSince ::
    "db \<Rightarrow> string option \<Rightarrow> int \<Rightarrow> string option \<Rightarrow> string option option
     \<Rightarrow> replication_op list \<times> string option" where
  "loadReplicationOpsSince d cursor limit deviceId scopeId =
     (let eff = effective_scope scopeId;
          rows = sql_limit limit (sort_key op_position (filter (\<lambda>r. after_cursor cursor r
            \<and> authored_by deviceId r \<and> (scopeId \<noteq> None \<longrightarrow> in_op_scope eff r)) (ops d)))
      in (rows, if rows = [] then None else Some (op_cursor (last rows))))"

datatype reset_reason = GenerationMismatch | BoundaryMismatch | StaleCursor

record peer_request =
  pq_since :: "string option"
  pq_limit :: int
  pq_device :: "string option"
  pq_generation :: "int option"
  pq_snapshot :: "string option"
  pq_baseline :: "string option"
  pq_scope :: "string option option"

datatype peer_ops =
    ResetRequired reset_reason reset_boundary
  | PeerOps reset_boundary "replication_op list" "string option"

definition resetRequired :: "reset_boundary \<Rightarrow> reset_reason \<Rightarrow> peer_ops" where
  "resetRequired boundary reason = ResetRequired reason boundary"

definition servable :: "db \<Rightarrow> replication_op \<Rightarrow> bool" where
  "servable d r \<longleftrightarrow>
     (if op_entity_type r \<noteq> ''memory_item'' then True
      else if retirementBlocksMemoryOp d r then False
      else if op_type r = ACCESS_CLEANUP_OP_TYPE \<or> op_type r = REASSIGN_SCOPE_OP_TYPE then True
      else (case clean_text (op_scope_id r) of None \<Rightarrow> False | Some s \<Rightarrow> s \<noteq> DEFAULT_SYNC_SCOPE_ID))"

definition stale_since :: "string option \<Rightarrow> reset_boundary \<Rightarrow> bool" where
  "stale_since since b \<longleftrightarrow> (case (since, rb_retained_floor_cursor b) of
     (Some c, Some flr) \<Rightarrow> c < flr | _ \<Rightarrow> False)"

definition loadReplicationOpsForPeer ::
    "string \<Rightarrow> string \<Rightarrow> db \<Rightarrow> peer_request \<Rightarrow> peer_ops \<times> db" where
  "loadReplicationOpsForPeer now fresh d q =
     (let eff = effective_scope (pq_scope q);
          (boundary, d1) = getSyncResetState now fresh d (pq_scope q);
          since = normalizeCursor (pq_since q);
          snapshot = normalizeCursor (pq_snapshot q);
          baseline = normalizeCursor (pq_baseline q)
      in if pq_generation q \<noteq> None \<and> pq_generation q \<noteq> Some (rb_generation boundary)
         then (resetRequired boundary GenerationMismatch, d1)
         else if pq_generation q = None \<or> snapshot = None \<or> baseline \<noteq> rb_baseline_cursor boundary
         then (resetRequired boundary BoundaryMismatch, d1)
         else if snapshot \<noteq> Some (rb_snapshot_id boundary) \<or> baseline \<noteq> rb_baseline_cursor boundary
         then (resetRequired boundary BoundaryMismatch, d1)
         else if stale_since since boundary then (resetRequired boundary StaleCursor, d1)
         else (let (rows, nxt) = loadReplicationOpsSince d1 since (pq_limit q) (pq_device q) (Some (Some eff))
               in (PeerOps boundary (filter (servable d1) rows) nxt, d1)))"

section \<open>Unsynced changes\<close>

definition ascii_lower :: "char \<Rightarrow> char" where
  "ascii_lower c = (let n = (of_char c :: nat) in if 65 \<le> n \<and> n \<le> 90 then char_of (n + 32) else c)"

text \<open>\<open>LIKE 'p%'\<close> folds ASCII case.\<close>

definition like_prefix :: "string \<Rightarrow> string \<Rightarrow> bool" where
  "like_prefix p s \<longleftrightarrow> starts_with p (map ascii_lower s)"

definition pending_op_type :: "memory_row \<Rightarrow> string" where
  "pending_op_type m = (if m_deleted_at m \<noteq> None \<or> m_active m = Some 0 then ''delete'' else ''upsert'')"

definition has_matching_op :: "db \<Rightarrow> memory_row \<Rightarrow> bool" where
  "has_matching_op d m \<longleftrightarrow> exists_where (\<lambda>r. op_entity_type r = ''memory_item''
     \<and> Some (op_entity_id r) = m_import_key m \<and> op_type r = pending_op_type m
     \<and> op_clock_rev r = or_default (m_rev m) 0) (ops d)"

definition dirty_row :: "db \<Rightarrow> memory_row \<Rightarrow> bool" where
  "dirty_row d m \<longleftrightarrow> m_import_key m \<noteq> None
     \<and> \<not> like_prefix ''private'' (or_default (m_visibility m) [])
     \<and> \<not> like_prefix ''personal'' (or_default (m_visibility m) [])
     \<and> \<not> has_matching_op d m"

definition hasUnsyncedSharedMemoryChanges :: "db \<Rightarrow> int \<Rightarrow> bool \<times> nat" where
  "hasUnsyncedSharedMemoryChanges d limit =
     (let n = length (sql_limit limit (filter (dirty_row d) (memories d))) in (n > 0, n))"

section \<open>Pruning\<close>

definition op_row_bytes :: "replication_op \<Rightarrow> int" where
  "op_row_bytes r = int (length (op_id r) + length (op_entity_type r) + length (op_entity_id r)
     + length (op_type r) + length (or_default (map_option payload_text (op_payload r)) [])
     + length (op_clock_updated_at r) + length (op_clock_device_id r) + length (op_device_id r)
     + length (op_created_at r) + length (or_default (op_scope_id r) []) + 96)"

definition estimateReplicationOpsScopeBytes :: "db \<Rightarrow> string \<Rightarrow> int" where
  "estimateReplicationOpsScopeBytes d scope = sum_list (map op_row_bytes (filter (in_op_scope scope) (ops d)))"

definition at_or_before :: "string \<Rightarrow> string \<Rightarrow> replication_op \<Rightarrow> bool" where
  "at_or_before createdAt opId r \<longleftrightarrow>
     op_created_at r < createdAt \<or> op_created_at r = createdAt \<and> op_id r \<le> opId"

definition floor_update :: "string \<Rightarrow> reset_updates" where
  "floor_update c = \<lparr> ru_scope_id = None, ru_generation = None, ru_snapshot_id = None,
     ru_baseline_cursor = None, ru_retained_floor_cursor = Some (Some c) \<rparr>"

definition deleteThroughCursor ::
    "string \<Rightarrow> string \<Rightarrow> string \<Rightarrow> db \<Rightarrow> string \<Rightarrow> string \<Rightarrow> nat \<times> db" where
  "deleteThroughCursor now fresh scope d createdAt opId =
     (let gone = (\<lambda>r. in_op_scope scope r \<and> at_or_before createdAt opId r);
          changes = length (filter gone (ops d));
          d1 = d\<lparr> ops := delete_where gone (ops d) \<rparr>
      in (changes,
          if changes > 0
          then snd (setSyncResetState now fresh d1 (floor_update (computeCursor createdAt opId)) (Some (Some scope)))
          else d1))"

text \<open>The oldest ops of the scope, at most a batch.\<close>

definition oldest_ops :: "string \<Rightarrow> (replication_op \<Rightarrow> bool) \<Rightarrow> nat \<Rightarrow> db \<Rightarrow> replication_op list" where
  "oldest_ops scope p n d = take n (sort_key op_position (filter (\<lambda>r. p r \<and> in_op_scope scope r) (ops d)))"

definition prune_batch :: "int \<Rightarrow> nat \<Rightarrow> nat" where
  "prune_batch maxDeleteOps deleted = nat (max 1 (min (max 1 (maxDeleteOps - int deleted)) 10000))"

record prune_state =
  ps_db :: db
  ps_deleted :: nat
  ps_last :: "string option"
  ps_ticks :: nat
  ps_stopped :: bool

record prune_limits =
  pl_now :: string
  pl_fresh :: string
  pl_scope :: string
  pl_cutoff :: string
  pl_max_size :: int
  pl_max_delete :: int
  pl_late :: "nat \<Rightarrow> bool"

definition budgetExceeded :: "prune_limits \<Rightarrow> prune_state \<Rightarrow> bool" where
  "budgetExceeded l s \<longleftrightarrow> int (ps_deleted s) \<ge> pl_max_delete l \<or> pl_late l (ps_ticks s)"

definition tick :: "prune_state \<Rightarrow> prune_state" where
  "tick s = s\<lparr> ps_ticks := Suc (ps_ticks s) \<rparr>"

definition prune_through :: "prune_limits \<Rightarrow> prune_state \<Rightarrow> replication_op \<Rightarrow> prune_state" where
  "prune_through l s b =
     (let (n, d') = deleteThroughCursor (pl_now l) (pl_fresh l) (pl_scope l) (ps_db s) (op_created_at b) (op_id b)
      in s\<lparr> ps_db := d', ps_deleted := ps_deleted s + n, ps_last := Some (op_cursor b) \<rparr>)"

lemma resetting_keeps_ops [simp]:
  "ops (snd (setSyncResetState now fresh d u k)) = ops d"
  "memories (snd (setSyncResetState now fresh d u k)) = memories d"
  by (simp_all add: setSyncResetState_def write_boundary_def getSyncResetState_def seed_reset_def
      seedDefaultSyncResetStateFromLegacy_def mirrorDefaultSyncResetStateToLegacy_def Let_def split: option.splits)

lemma deleteThroughCursor_ops:
  "ops (snd (deleteThroughCursor now fresh scope d c i)) =
     delete_where (\<lambda>r. in_op_scope scope r \<and> at_or_before c i r) (ops d)"
  by (simp add: deleteThroughCursor_def Let_def)

lemma prune_through_ops:
  "ops (ps_db (prune_through l s b)) =
     delete_where (\<lambda>r. in_op_scope (pl_scope l) r \<and> at_or_before (op_created_at b) (op_id b) r) (ops (ps_db s))"
  by (simp add: prune_through_def Let_def deleteThroughCursor_ops split_beta)

lemma length_delete_where: "x \<in> set xs \<Longrightarrow> p x \<Longrightarrow> length (delete_where p xs) < length xs"
  by (auto simp: delete_where_def intro: length_filter_less)

lemma oldest_ops_subset: "set (oldest_ops scope p n d) \<subseteq> {r \<in> set (ops d). p r \<and> in_op_scope scope r}"
  by (auto simp: oldest_ops_def dest: in_set_takeD)

lemma prune_through_shrinks:
  assumes "oldest_ops (pl_scope l) p n (ps_db s) \<noteq> []"
  shows "length (ops (ps_db (prune_through l s (last (oldest_ops (pl_scope l) p n (ps_db s))))))
    < length (ops (ps_db s))"
proof -
  let ?b = "last (oldest_ops (pl_scope l) p n (ps_db s))"
  have "?b \<in> set (oldest_ops (pl_scope l) p n (ps_db s))" using assms by simp
  then have "?b \<in> set (ops (ps_db s))" "in_op_scope (pl_scope l) ?b" using oldest_ops_subset by blast+
  then show ?thesis
    unfolding prune_through_ops by (intro length_delete_where) (auto simp: at_or_before_def)
qed

lemma tick_simps [simp]:
  "ps_db (tick s) = ps_db s" "ps_deleted (tick s) = ps_deleted s" "ps_last (tick s) = ps_last s"
  "ps_stopped (tick s) = ps_stopped s"
  by (simp_all add: tick_def)

text \<open>The loop by age: it stops on the budget before a pass, when no old op is left, on the budget after
  the pass, or after a short batch.\<close>

function prune_by_age :: "prune_limits \<Rightarrow> prune_state \<Rightarrow> prune_state" where
  "prune_by_age l s =
     (if budgetExceeded l s then (tick s)\<lparr> ps_stopped := True \<rparr>
      else (let batch = prune_batch (pl_max_delete l) (ps_deleted s);
                candidates = oldest_ops (pl_scope l) (\<lambda>r. op_created_at r < pl_cutoff l) batch (ps_db (tick s))
            in if candidates = [] then tick s
               else (let s' = prune_through l (tick s) (last candidates)
                     in if budgetExceeded l s' then (tick s')\<lparr> ps_stopped := True \<rparr>
                        else if length candidates < batch then tick s'
                        else prune_by_age l (tick s'))))"
  by pat_completeness auto

termination
  by (relation "measure (\<lambda>(l, s). length (ops (ps_db s)))")
    (auto simp: Let_def dest: prune_through_shrinks [where s = "tick s" for s, simplified])

text \<open>The loop by size.\<close>

function prune_by_size :: "prune_limits \<Rightarrow> int \<Rightarrow> prune_state \<Rightarrow> int \<times> prune_state" where
  "prune_by_size l bytes s =
     (if bytes \<le> pl_max_size l then (bytes, s)
      else if budgetExceeded l s then (bytes, (tick s)\<lparr> ps_stopped := True \<rparr>)
      else (let batch = prune_batch (pl_max_delete l) (ps_deleted s);
                oldest = oldest_ops (pl_scope l) (\<lambda>r. True) batch (ps_db (tick s))
            in if oldest = [] then (bytes, tick s)
               else (let s' = prune_through l (tick s) (last oldest)
                     in prune_by_size l (estimateReplicationOpsScopeBytes (ps_db s') (pl_scope l)) s')))"
  by pat_completeness auto

termination
  by (relation "measure (\<lambda>(l, bytes, s). length (ops (ps_db s)))")
    (auto simp: Let_def dest: prune_through_shrinks [where s = "tick s" for s, simplified])

declare prune_by_age.simps [simp del] prune_by_size.simps [simp del]

record prune_result =
  pr_deleted :: nat
  pr_retained_floor :: "string option"
  pr_bytes_before :: int
  pr_bytes_after :: int
  pr_stopped :: bool

definition start_prune :: "db \<Rightarrow> prune_state" where
  "start_prune d = \<lparr> ps_db = d, ps_deleted = 0, ps_last = None, ps_ticks = 0, ps_stopped = False \<rparr>"

text \<open>The options the caller left out or set out of range are put into range first.\<close>

definition clamp_limits :: "prune_limits \<Rightarrow> string option \<Rightarrow> prune_limits" where
  "clamp_limits l scopeId = l\<lparr> pl_scope := normalizeSyncStateScopeId scopeId,
     pl_max_size := max 1 (pl_max_size l), pl_max_delete := max 1 (pl_max_delete l) \<rparr>"

definition prune_with :: "prune_limits \<Rightarrow> db \<Rightarrow> prune_result \<times> db" where
  "prune_with l d =
     (let before = estimateReplicationOpsScopeBytes d (pl_scope l);
          s1 = prune_by_age l (start_prune d);
          (after, s2) = prune_by_size l before s1;
          (current, d') = getSyncResetState (pl_now l) (pl_fresh l) (ps_db s2) (Some (Some (pl_scope l)))
      in (\<lparr> pr_deleted = ps_deleted s2,
            pr_retained_floor = (if ps_deleted s2 > 0 then ps_last s2 else rb_retained_floor_cursor current),
            pr_bytes_before = before, pr_bytes_after = after, pr_stopped = ps_stopped s2 \<rparr>, d'))"

definition pruneReplicationOps :: "prune_limits \<Rightarrow> string option \<Rightarrow> db \<Rightarrow> prune_result \<times> db" where
  "pruneReplicationOps l scopeId d = prune_with (clamp_limits l scopeId) d"

text \<open>Repeated passes, at most \<open>maxPasses\<close>; the abort signal is asked once per pass, and each pass has its
  own limits (its cutoff and its clock).\<close>

record prune_loop_result =
  lr_total_deleted :: nat
  lr_passes :: nat
  lr_last_floor :: "string option"
  lr_after_bytes :: int
  lr_stopped :: bool

fun prune_passes ::
    "nat \<Rightarrow> (nat \<Rightarrow> bool) \<Rightarrow> (nat \<Rightarrow> prune_limits) \<Rightarrow> string option \<Rightarrow> prune_loop_result \<Rightarrow> db
     \<Rightarrow> prune_loop_result \<times> db" where
  "prune_passes 0 aborted limits scopeId acc d = (acc\<lparr> lr_stopped := True \<rparr>, d)"
| "prune_passes (Suc n) aborted limits scopeId acc d =
     (if aborted (lr_passes acc) then (acc\<lparr> lr_stopped := True \<rparr>, d)
      else (let (res, d') = pruneReplicationOps (limits (lr_passes acc)) scopeId d;
                acc' = \<lparr> lr_total_deleted = lr_total_deleted acc + pr_deleted res, lr_passes = Suc (lr_passes acc),
                  lr_last_floor = pr_retained_floor res, lr_after_bytes = pr_bytes_after res,
                  lr_stopped = pr_stopped res \<rparr>
            in if pr_deleted res = 0 \<or> \<not> pr_stopped res then (acc', d')
               else prune_passes n aborted limits scopeId acc' d'))"

definition pruneReplicationOpsUntilCaughtUp ::
    "int \<Rightarrow> (nat \<Rightarrow> bool) \<Rightarrow> (nat \<Rightarrow> prune_limits) \<Rightarrow> string option \<Rightarrow> int \<Rightarrow> db
     \<Rightarrow> prune_loop_result \<times> db" where
  "pruneReplicationOpsUntilCaughtUp maxPasses aborted limits scopeId storageBytes d =
     prune_passes (nat (max 1 maxPasses)) aborted limits scopeId
       \<lparr> lr_total_deleted = 0, lr_passes = 0, lr_last_floor = None, lr_after_bytes = storageBytes, lr_stopped = False \<rparr> d"

definition bulkPruneReplicationOpsByAgeCutoff ::
    "string \<Rightarrow> string \<Rightarrow> string \<Rightarrow> int \<Rightarrow> string option \<Rightarrow> db \<Rightarrow> prune_result \<times> db" where
  "bulkPruneReplicationOpsByAgeCutoff now fresh cutoff maxDeleteOps scopeIdInput d =
     (let scope = normalizeSyncStateScopeId scopeIdInput;
          before = estimateReplicationOpsScopeBytes d scope;
          eligible = oldest_ops scope (\<lambda>r. op_created_at r < cutoff) (nat (max 1 maxDeleteOps)) d
      in if eligible = []
         then (let (current, d') = getSyncResetState now fresh d (Some (Some scope))
               in (\<lparr> pr_deleted = 0, pr_retained_floor = rb_retained_floor_cursor current,
                     pr_bytes_before = before, pr_bytes_after = before, pr_stopped = False \<rparr>, d'))
         else (let b = last eligible;
                   (n, d') = deleteThroughCursor now fresh scope d (op_created_at b) (op_id b)
               in (\<lparr> pr_deleted = n, pr_retained_floor = Some (op_cursor b), pr_bytes_before = before,
                     pr_bytes_after = estimateReplicationOpsScopeBytes d' scope, pr_stopped = False \<rparr>, d')))"

record prune_plan =
  pp_candidates :: nat
  pp_candidate_bytes :: int
  pp_cutoff_cursor :: "string option"
  pp_batches :: int

definition planReplicationOpsAgePrune :: "int \<Rightarrow> db \<Rightarrow> string \<Rightarrow> int \<Rightarrow> prune_plan" where
  "planReplicationOpsAgePrune storageBytes d cutoff batchOps =
     (let old = filter (\<lambda>r. op_created_at r < cutoff) (ops d);
          total = length (ops d);
          bytes = (if total > 0 then \<lfloor>of_int (storageBytes * int (length old)) / of_nat total + (1 / 2 :: rat)\<rfloor> else 0)
      in \<lparr> pp_candidates = length old, pp_candidate_bytes = max 0 bytes,
           pp_cutoff_cursor = (if old = [] then None else Some (op_cursor (last (sort_key op_position old)))),
           pp_batches = (if old = [] then 0 else \<lceil>of_nat (length old) / (of_int (max 1 batchOps) :: rat)\<rceil>) \<rparr>)"

section \<open>Positions and cursors\<close>

lemma parse_computeCursor: "CHR ''|'' \<notin> set c \<Longrightarrow> parseCursor (computeCursor c i) = Some (c, i)"
  unfolding parseCursor_def by (induction c) (auto simp: computeCursor_def)

lemma computeCursor_nonempty [simp]: "computeCursor c i \<noteq> []"
  by (simp add: computeCursor_def)

lemma after_cursor_position:
  assumes "CHR ''|'' \<notin> set c"
  shows "after_cursor (Some (computeCursor c i)) r \<longleftrightarrow> (c, i) < op_position r"
  using parse_computeCursor [OF assms] by (auto simp: after_cursor_def op_position_def)

lemma at_or_before_position: "at_or_before c i r \<longleftrightarrow> op_position r \<le> (c, i)"
  by (auto simp: at_or_before_def op_position_def)

text \<open>For timestamps of one length the order of the cursor texts is the order of the positions.\<close>

lemma append_less_same_length:
  "length a = length b \<Longrightarrow> (a @ x < b @ y) = (a < b \<or> a = b \<and> x < (y :: string))"
  by (induction a b rule: list_induct2) auto

lemma cursor_text_order:
  "length c = length c' \<Longrightarrow> computeCursor c i < computeCursor c' i' \<longleftrightarrow> (c, i) < (c', i')"
  by (auto simp: computeCursor_def append_less_same_length)

section \<open>Reading page by page\<close>

definition log_of :: "db \<Rightarrow> string option \<Rightarrow> string option option \<Rightarrow> replication_op list" where
  "log_of d deviceId scopeId = sort_key op_position
     (filter (\<lambda>r. authored_by deviceId r \<and> (scopeId \<noteq> None \<longrightarrow> in_op_scope (effective_scope scopeId) r)) (ops d))"

lemma loadReplicationOpsSince_page:
  "loadReplicationOpsSince d cursor limit deviceId scopeId =
     (let rows = sql_limit limit (filter (after_cursor cursor) (log_of d deviceId scopeId))
      in (rows, if rows = [] then None else Some (op_cursor (last rows))))"
  by (simp add: loadReplicationOpsSince_def log_of_def filter_sort conj_commute conj_left_commute)

text \<open>The reader that follows \<open>nextCursor\<close> until a page is empty, at most \<open>n\<close> pages.\<close>

fun read_pages ::
    "nat \<Rightarrow> db \<Rightarrow> string option \<Rightarrow> int \<Rightarrow> string option \<Rightarrow> string option option \<Rightarrow> replication_op list" where
  "read_pages 0 d cursor limit deviceId scopeId = []"
| "read_pages (Suc n) d cursor limit deviceId scopeId =
     (case loadReplicationOpsSince d cursor limit deviceId scopeId of
        (rows, None) \<Rightarrow> rows
      | (rows, Some c) \<Rightarrow> rows @ read_pages n d (Some c) limit deviceId scopeId)"

lemma strictly_after_take:
  fixes L :: "'a list" and pos :: "'a \<Rightarrow> 'b::linorder"
  assumes "sorted (map pos L)" "distinct (map pos L)" "0 < k" "L \<noteq> []"
  shows "filter (\<lambda>x. pos (last (take k L)) < pos x) L = drop k L"
  using assms
proof (induction L arbitrary: k)
  case (Cons a L)
  show ?case
  proof (cases "k = 1 \<or> L = []")
    case True
    then have last: "last (take k (a # L)) = a" using Cons.prems(3) by (cases k) auto
    have "filter (\<lambda>x. pos a < pos x) L = L"
      using Cons.prems(1,2) by (intro filter_True ballI) (auto simp: less_le)
    then show ?thesis using True last Cons.prems(3) by (cases k) auto
  next
    case False
    then obtain j where k: "k = Suc j" "0 < j" using Cons.prems(3) by (cases k) auto
    have ne: "take j L \<noteq> []" using False k by auto
    then have "last (take j L) \<in> set L" by (meson in_set_takeD last_in_set)
    then have "\<not> pos (last (take j L)) < pos a" using Cons.prems(1) by auto
    then show ?thesis using Cons k ne False by simp
  qed
qed simp

lemma log_positions:
  assumes "distinct (map op_id (ops d))"
  shows "sorted (map op_position (log_of d dev scope)) \<and> distinct (map op_position (log_of d dev scope))"
proof -
  have inj: "inj_on op_position (set (ops d))"
    using assms by (auto simp: distinct_map inj_on_def op_position_def)
  have "distinct (ops d)" using assms by (simp add: distinct_map)
  then have "distinct (log_of d dev scope)" by (simp add: log_of_def)
  moreover have "inj_on op_position (set (log_of d dev scope))"
    by (rule inj_on_subset [OF inj]) (auto simp: log_of_def)
  ultimately show ?thesis by (simp add: distinct_map log_of_def)
qed

lemma read_pages_suffix:
  assumes "distinct (map op_id (ops d))" "\<And>r. r \<in> set (ops d) \<Longrightarrow> CHR ''|'' \<notin> set (op_created_at r)" "0 < limit"
    "filter (after_cursor cursor) (log_of d dev scope) = drop m (log_of d dev scope)"
    "length (log_of d dev scope) - m \<le> n"
  shows "read_pages n d cursor limit dev scope = drop m (log_of d dev scope)"
  using assms(4,5)
proof (induction n arbitrary: cursor m)
  case (Suc n)
  let ?L = "log_of d dev scope"
  let ?rows = "take (nat limit) (drop m ?L)"
  have page: "loadReplicationOpsSince d cursor limit dev scope =
      (?rows, if ?rows = [] then None else Some (op_cursor (last ?rows)))"
    using assms(3) Suc.prems(1) by (simp add: loadReplicationOpsSince_page sql_limit_def Let_def)
  show ?case
  proof (cases "drop m ?L = []")
    case True
    then show ?thesis using page by simp
  next
    case False
    then have rows: "?rows \<noteq> []" using assms(3) by simp
    let ?b = "last ?rows"
    have "?b \<in> set ?L" using rows by (meson in_set_dropD in_set_takeD last_in_set)
    then have "CHR ''|'' \<notin> set (op_created_at ?b)" by (intro assms(2)) (simp add: log_of_def)
    then have cur: "after_cursor (Some (op_cursor ?b)) = (\<lambda>r. op_position ?b < op_position r)"
      by (simp add: fun_eq_iff op_cursor_def after_cursor_position op_position_def [of ?b])
    let ?k = "m + nat limit"
    have last: "?b = last (take ?k ?L)"
      using rows by (simp add: take_add)
    have "filter (after_cursor (Some (op_cursor ?b))) ?L = drop ?k ?L"
      unfolding cur unfolding last using log_positions [OF assms(1), of dev scope] False assms(3)
      by (intro strictly_after_take) auto
    moreover have "length ?L - ?k \<le> n" using Suc.prems(2) assms(3) by simp
    ultimately have "read_pages n d (Some (op_cursor ?b)) limit dev scope = drop ?k ?L"
      by (rule Suc.IH)
    moreover have "?rows @ drop ?k ?L = drop m ?L"
      using append_take_drop_id [of "nat limit" "drop m ?L"] by (simp add: add.commute)
    ultimately show ?thesis using page rows by (simp only: read_pages.simps if_False prod.case option.case)
  qed
qed simp

section \<open>What a prune removes\<close>

text \<open>Everything of a scope up to a position.\<close>

definition cut_log :: "string \<Rightarrow> string \<times> string \<Rightarrow> replication_op list \<Rightarrow> replication_op list" where
  "cut_log scope p rows = delete_where (\<lambda>r. in_op_scope scope r \<and> op_position r \<le> p) rows"

lemma cut_log_cut: "p \<le> q \<Longrightarrow> cut_log scope q (cut_log scope p rows) = cut_log scope q rows"
  by (auto simp: cut_log_def delete_where_def intro!: filter_cong)

lemma length_cut: "length (filter (\<lambda>r. in_op_scope scope r \<and> op_position r \<le> p) rows) = length rows - length (cut_log scope p rows)"
  using sum_length_filter_compl [of "\<lambda>r. in_op_scope scope r \<and> op_position r \<le> p" rows]
  unfolding cut_log_def delete_where_def by linarith

definition floor_of :: "db \<Rightarrow> string \<Rightarrow> string option" where
  "floor_of d scope = (case find_reset scope d of None \<Rightarrow> None | Some r \<Rightarrow> rs_retained_floor_cursor r)"

definition pruned :: "string \<Rightarrow> db \<Rightarrow> prune_state \<Rightarrow> bool" where
  "pruned scope d s \<longleftrightarrow>
     (ps_db s = d \<and> ps_deleted s = 0 \<and> ps_last s = None)
     \<or> (\<exists>b \<in> set (ops d). in_op_scope scope b \<and> ps_last s = Some (op_cursor b)
          \<and> ops (ps_db s) = cut_log scope (op_position b) (ops d)
          \<and> ps_deleted s = length (ops d) - length (ops (ps_db s)) \<and> ps_deleted s > 0
          \<and> memories (ps_db s) = memories d
          \<and> find_reset scope (ps_db s) \<noteq> None
          \<and> floor_of (ps_db s) scope = normalizeCursor (Some (op_cursor b)))"

lemma floor_of_set:
  assumes "effective_scope (Some (Some scope)) = scope"
  shows "floor_of (snd (setSyncResetState now fresh d (floor_update c) (Some (Some scope)))) scope = normalizeCursor (Some c)
    \<and> find_reset scope (snd (setSyncResetState now fresh d (floor_update c) (Some (Some scope)))) \<noteq> None"
proof -
  have w: "written_scope (floor_update c) (Some (Some scope)) = scope" using assms by (simp add: written_scope_def)
  have "rb_retained_floor_cursor (fst (setSyncResetState now fresh d (floor_update c) (Some (Some scope)))) = normalizeCursor (Some c)"
    by (simp add: setSyncResetState_def Let_def updated_boundary_def floor_update_def)
  then show ?thesis using w by (simp add: floor_of_def find_reset_set Let_def)
qed

lemma last_oldest:
  assumes "oldest_ops scope p n d \<noteq> []"
  shows "last (oldest_ops scope p n d) \<in> set (ops d) \<and> in_op_scope scope (last (oldest_ops scope p n d))
    \<and> p (last (oldest_ops scope p n d))"
  using assms oldest_ops_subset [of scope p n d] last_in_set by blast

lemma pruned_step:
  assumes "pruned (pl_scope l) d s" "b \<in> set (ops (ps_db s))" "in_op_scope (pl_scope l) b"
    "effective_scope (Some (Some (pl_scope l))) = pl_scope l"
  shows "pruned (pl_scope l) d (prune_through l s b)"
proof -
  let ?s' = "prune_through l s b"
  let ?gone = "\<lambda>r. in_op_scope (pl_scope l) r \<and> at_or_before (op_created_at b) (op_id b) r"
  have bpos: "(op_created_at b, op_id b) = op_position b" by (simp add: op_position_def)
  have gone: "?gone = (\<lambda>r. in_op_scope (pl_scope l) r \<and> op_position r \<le> op_position b)"
    by (simp add: fun_eq_iff at_or_before_position bpos)
  have some: "filter ?gone (ops (ps_db s)) \<noteq> []"
    using assms(2,3) unfolding gone by (auto simp: filter_empty_conv)
  have ops': "ops (ps_db ?s') = cut_log (pl_scope l) (op_position b) (ops (ps_db s))"
    by (simp add: prune_through_ops cut_log_def at_or_before_position bpos)
  have del: "ps_deleted ?s' = ps_deleted s + length (filter ?gone (ops (ps_db s)))"
    by (simp add: prune_through_def deleteThroughCursor_def Let_def)
  have last: "ps_last ?s' = Some (op_cursor b)" by (simp add: prune_through_def Let_def split_beta)
  have flr: "floor_of (ps_db ?s') (pl_scope l) = normalizeCursor (Some (op_cursor b))
      \<and> find_reset (pl_scope l) (ps_db ?s') \<noteq> None"
    using some floor_of_set [OF assms(4)] by (simp add: prune_through_def deleteThroughCursor_def Let_def op_cursor_def)
  have mem: "memories (ps_db ?s') = memories (ps_db s)"
    by (simp add: prune_through_def deleteThroughCursor_def Let_def)
  have bd: "b \<in> set (ops d)" and cut: "ops (ps_db ?s') = cut_log (pl_scope l) (op_position b) (ops d)"
    and lens: "ps_deleted s + length (ops (ps_db s)) = length (ops d)" and memd: "memories (ps_db s) = memories d"
  proof -
    have le: "length (cut_log sc p rows) \<le> length rows" for sc p rows by (simp add: cut_log_def delete_where_def)
    show "ps_deleted s + length (ops (ps_db s)) = length (ops d)"
      using assms(1) le unfolding pruned_def by (elim disjE bexE conjE) simp_all
    show "memories (ps_db s) = memories d" using assms(1) unfolding pruned_def by auto
    from assms(1,2) show "b \<in> set (ops d)" unfolding pruned_def by (auto simp: cut_log_def set_delete_where)
    from assms(1) show "ops (ps_db ?s') = cut_log (pl_scope l) (op_position b) (ops d)"
    proof (unfold pruned_def, elim disjE bexE conjE)
      fix a assume a: "ops (ps_db s) = cut_log (pl_scope l) (op_position a) (ops d)"
      then have "\<not> op_position b \<le> op_position a"
        using assms(2,3) by (auto simp: cut_log_def set_delete_where)
      then show ?thesis using a ops' cut_log_cut [of "op_position a" "op_position b"] by simp
    qed (use ops' in simp)
  qed
  have "ps_deleted ?s' = length (ops d) - length (ops (ps_db ?s'))"
    using del lens ops' length_cut [of "pl_scope l" "op_position b" "ops (ps_db s)"]
    unfolding gone by (simp add: cut_log_def delete_where_def)
  moreover have "ps_deleted ?s' > 0" using del some by simp
  ultimately show ?thesis using bd assms(3) last cut flr mem memd unfolding pruned_def by auto
qed

lemma pruned_flags [simp]: "pruned sc d (tick s) = pruned sc d s" "pruned sc d (s\<lparr> ps_stopped := f \<rparr>) = pruned sc d s"
  by (simp_all add: pruned_def tick_def)

lemma pruned_oldest:
  assumes "pruned (pl_scope l) d s" "effective_scope (Some (Some (pl_scope l))) = pl_scope l"
    "oldest_ops (pl_scope l) p n (ps_db s) \<noteq> []"
  shows "pruned (pl_scope l) d (prune_through l s (last (oldest_ops (pl_scope l) p n (ps_db s))))"
  using pruned_step [OF assms(1) _ _ assms(2)] last_oldest [OF assms(3)] by blast

text \<open>No op of the scope is older than the cutoff.\<close>

definition no_old_ops :: "prune_limits \<Rightarrow> db \<Rightarrow> bool" where
  "no_old_ops l d \<longleftrightarrow> (\<forall>r \<in> set (ops d). in_op_scope (pl_scope l) r \<longrightarrow> \<not> op_created_at r < pl_cutoff l)"

lemma sorted_le_last: "sorted (map f xs) \<Longrightarrow> x \<in> set xs \<Longrightarrow> f x \<le> f (last xs)"
  by (induction xs) auto

lemma sort_key_empty [simp]: "sort_key f xs = [] \<longleftrightarrow> xs = []"
  by (metis set_empty set_sort)

lemma oldest_all_aged:
  assumes "length (oldest_ops (pl_scope l) (\<lambda>r. op_created_at r < pl_cutoff l) n d) < n"
    "oldest_ops (pl_scope l) (\<lambda>r. op_created_at r < pl_cutoff l) n d \<noteq> []"
    "b = last (oldest_ops (pl_scope l) (\<lambda>r. op_created_at r < pl_cutoff l) n d)"
    "ops d' = cut_log (pl_scope l) (op_position b) (ops d)"
  shows "no_old_ops l d'"
proof -
  let ?all = "sort_key op_position (filter (\<lambda>r. op_created_at r < pl_cutoff l \<and> in_op_scope (pl_scope l) r) (ops d))"
  have "oldest_ops (pl_scope l) (\<lambda>r. op_created_at r < pl_cutoff l) n d = ?all"
    using assms(1) by (simp add: oldest_ops_def)
  then have b: "b = last ?all" "?all \<noteq> []" using assms(2,3) by simp_all
  have "op_position r \<le> op_position b" if "r \<in> set ?all" for r
    using sorted_le_last [OF _ that, of op_position] b by simp
  then show ?thesis using assms(4) by (auto simp: no_old_ops_def cut_log_def set_delete_where)
qed

lemma no_old_ops_cut: "no_old_ops l d \<Longrightarrow> ops d' = cut_log sc p (ops d) \<Longrightarrow> no_old_ops l d'"
  by (auto simp: no_old_ops_def cut_log_def set_delete_where)

lemma prune_through_cut:
  "ops (ps_db (prune_through l s b)) = cut_log (pl_scope l) (op_position b) (ops (ps_db s))"
  by (simp add: prune_through_ops cut_log_def at_or_before_position op_position_def [of b])

lemma prune_through_stopped [simp]: "ps_stopped (prune_through l s b) = ps_stopped s"
  by (simp add: prune_through_def Let_def split_beta)

lemma prune_by_age_result:
  assumes "effective_scope (Some (Some (pl_scope l))) = pl_scope l"
  shows "pruned (pl_scope l) d s \<Longrightarrow> pruned (pl_scope l) d (prune_by_age l s)
    \<and> (ps_stopped (prune_by_age l s) \<or> no_old_ops l (ps_db (prune_by_age l s)))"
  using assms
proof (induction l s rule: prune_by_age.induct)
  case (1 l s)
  let ?n = "prune_batch (pl_max_delete l) (ps_deleted s)"
  let ?c = "oldest_ops (pl_scope l) (\<lambda>r. op_created_at r < pl_cutoff l) ?n (ps_db (tick s))"
  let ?s = "prune_through l (tick s) (last ?c)"
  note unf = prune_by_age.simps [of l s]
  consider (budget) "budgetExceeded l s"
    | (none) "\<not> budgetExceeded l s" "?c = []"
    | (after) "\<not> budgetExceeded l s" "?c \<noteq> []" "budgetExceeded l ?s"
    | (short) "\<not> budgetExceeded l s" "?c \<noteq> []" "\<not> budgetExceeded l ?s" "length ?c < ?n"
    | (again) "\<not> budgetExceeded l s" "?c \<noteq> []" "\<not> budgetExceeded l ?s" "\<not> length ?c < ?n"
    by blast
  then show ?case
  proof cases
    case budget
    then show ?thesis using unf 1(2) by simp
  next
    case none
    have "0 < ?n" by (simp add: prune_batch_def)
    then have "no_old_ops l (ps_db s)" using none(2)
      by (auto simp: oldest_ops_def no_old_ops_def filter_empty_conv)
    then show ?thesis using unf 1(2) none by simp
  next
    case after
    then show ?thesis using unf pruned_oldest [of l d "tick s"] 1(2,3) by simp
  next
    case short
    have "no_old_ops l (ps_db ?s)"
      by (rule oldest_all_aged [OF short(4,2) refl]) (simp add: prune_through_cut)
    then show ?thesis using short unf pruned_oldest [of l d "tick s"] 1(2,3) by simp
  next
    case again
    have "pruned (pl_scope l) d (tick ?s)" using again pruned_oldest [of l d "tick s"] 1(2,3) by simp
    then show ?thesis using again unf 1(1) [OF again(1) refl refl again(2) refl again(3) _ _ 1(3)] by simp
  qed
qed

lemma estimate_cut:
  "ops d' = cut_log sc p (ops d) \<Longrightarrow> estimateReplicationOpsScopeBytes d' s \<le> estimateReplicationOpsScopeBytes d s"
proof -
  have "0 \<le> op_row_bytes r" for r by (simp add: op_row_bytes_def)
  then have "sum_list (map op_row_bytes (filter (in_op_scope s) (cut_log sc p rows)))
      \<le> sum_list (map op_row_bytes (filter (in_op_scope s) rows))" for rows
    by (induction rows) (auto simp: cut_log_def delete_where_def add_increasing)
  then show "ops d' = cut_log sc p (ops d) \<Longrightarrow> ?thesis" by (simp add: estimateReplicationOpsScopeBytes_def)
qed

lemma estimate_empty:
  "oldest_ops sc (\<lambda>r. True) n d = [] \<Longrightarrow> 0 < n \<Longrightarrow> estimateReplicationOpsScopeBytes d sc = 0"
  by (simp add: oldest_ops_def estimateReplicationOpsScopeBytes_def)

lemma prune_by_size_result:
  assumes "effective_scope (Some (Some (pl_scope l))) = pl_scope l" "0 \<le> pl_max_size l"
  shows "pruned (pl_scope l) d s \<Longrightarrow> estimateReplicationOpsScopeBytes (ps_db s) (pl_scope l) \<le> bytes
    \<Longrightarrow> (ps_stopped s \<or> no_old_ops l (ps_db s))
    \<Longrightarrow> pruned (pl_scope l) d (snd (prune_by_size l bytes s))
      \<and> (ps_stopped (snd (prune_by_size l bytes s))
         \<or> no_old_ops l (ps_db (snd (prune_by_size l bytes s)))
           \<and> estimateReplicationOpsScopeBytes (ps_db (snd (prune_by_size l bytes s))) (pl_scope l) \<le> pl_max_size l)"
  using assms
proof (induction l bytes s rule: prune_by_size.induct)
  case (1 l bytes s)
  let ?n = "prune_batch (pl_max_delete l) (ps_deleted s)"
  let ?c = "oldest_ops (pl_scope l) (\<lambda>r. True) ?n (ps_db (tick s))"
  let ?s = "prune_through l (tick s) (last ?c)"
  note unf = prune_by_size.simps [of l bytes s]
  consider (small) "bytes \<le> pl_max_size l" | (budget) "\<not> bytes \<le> pl_max_size l" "budgetExceeded l s"
    | (none) "\<not> bytes \<le> pl_max_size l" "\<not> budgetExceeded l s" "?c = []"
    | (again) "\<not> bytes \<le> pl_max_size l" "\<not> budgetExceeded l s" "?c \<noteq> []" by blast
  then show ?case
  proof cases
    case small
    then show ?thesis using unf 1(2-4) by auto
  next
    case budget
    then show ?thesis using unf 1(2) by simp
  next
    case none
    have "0 < ?n" by (simp add: prune_batch_def)
    then have "estimateReplicationOpsScopeBytes (ps_db s) (pl_scope l) = 0" using estimate_empty none(3) by simp
    then show ?thesis using unf 1(2,4,6) none by simp
  next
    case again
    have p: "pruned (pl_scope l) d ?s" using again pruned_oldest [of l d "tick s"] 1(2,5) by simp
    have o: "ps_stopped ?s \<or> no_old_ops l (ps_db ?s)" using 1(4) no_old_ops_cut [of l "ps_db s" "ps_db ?s" "pl_scope l" "op_position (last ?c)"]
      by (auto simp: prune_through_cut)
    have eq: "prune_by_size l bytes s = prune_by_size l (estimateReplicationOpsScopeBytes (ps_db ?s) (pl_scope l)) ?s"
      using again unf by (simp add: Let_def)
    show ?thesis unfolding eq by (rule 1(1) [OF again(1,2) refl refl again(3) refl p order_refl o 1(5,6)])
  qed
qed

lemma clamp_scope [simp]:
  "effective_scope (Some (Some (pl_scope (clamp_limits l sc)))) = pl_scope (clamp_limits l sc)"
  "pl_scope (clamp_limits l sc) = normalizeSyncStateScopeId sc"
  "pl_max_size (clamp_limits l sc) = max 1 (pl_max_size l)"
  "no_old_ops (clamp_limits l sc) d = (\<forall>r \<in> set (ops d). in_op_scope (normalizeSyncStateScopeId sc) r \<longrightarrow> \<not> op_created_at r < pl_cutoff l)"
  using effective_scope_normalized [of "Some sc"]
  by (simp_all add: clamp_limits_def no_old_ops_def effective_scope_def)

lemma reading_keeps_tables [simp]:
  "ops (snd (getSyncResetState now fresh d k)) = ops d"
  "memories (snd (getSyncResetState now fresh d k)) = memories d"
  by (simp_all add: getSyncResetState_def seed_reset_def seedDefaultSyncResetStateFromLegacy_def
      mirrorDefaultSyncResetStateToLegacy_def Let_def split: option.splits)

lemma estimate_ops: "ops d' = ops d \<Longrightarrow> estimateReplicationOpsScopeBytes d' s = estimateReplicationOpsScopeBytes d s"
  by (simp add: estimateReplicationOpsScopeBytes_def)

lemma getSyncResetState_found:
  "find_reset sc d = Some row \<Longrightarrow> effective_scope k = sc \<Longrightarrow>
     getSyncResetState now fresh d k = (resetBoundaryFromRow row sc (shouldReturnScopeId k), d)"
  by (simp add: getSyncResetState_def seed_reset_present Let_def)

lemma pruned_ops_cases:
  assumes "pruned sc d s"
  obtains "ops (ps_db s) = ops d" "ps_deleted s = 0" "ps_last s = None"
  | b where "b \<in> set (ops d)" "in_op_scope sc b" "ps_last s = Some (op_cursor b)" "0 < ps_deleted s"
      "ops (ps_db s) = cut_log sc (op_position b) (ops d)"
      "ps_deleted s = length (ops d) - length (ops (ps_db s))"
      "find_reset sc (ps_db s) \<noteq> None" "floor_of (ps_db s) sc = normalizeCursor (Some (op_cursor b))"
  using assms unfolding pruned_def by auto

lemma pruneReplicationOps_result:
  fixes l sc d
  defines "scope \<equiv> normalizeSyncStateScopeId sc"
  assumes "pruneReplicationOps l sc d = (res, d')"
  shows "pr_deleted res = length (ops d) - length (ops d') \<and> memories d' = memories d
    \<and> (pr_deleted res = 0 \<and> ops d' = ops d
       \<or> (\<exists>b \<in> set (ops d). in_op_scope scope b \<and> pr_retained_floor res = Some (op_cursor b)
            \<and> ops d' = cut_log scope (op_position b) (ops d) \<and> 0 < pr_deleted res
            \<and> find_reset scope d' \<noteq> None \<and> floor_of d' scope = normalizeCursor (Some (op_cursor b))))
    \<and> (pr_stopped res
       \<or> (\<forall>r \<in> set (ops d'). in_op_scope scope r \<longrightarrow> \<not> op_created_at r < pl_cutoff l)
         \<and> estimateReplicationOpsScopeBytes d' scope \<le> max 1 (pl_max_size l))"
proof -
  let ?l = "clamp_limits l sc"
  let ?s1 = "prune_by_age ?l (start_prune d)"
  let ?s2 = "snd (prune_by_size ?l (estimateReplicationOpsScopeBytes d scope) ?s1)"
  have sc: "pl_scope ?l = scope" by (simp add: scope_def)
  have eff: "effective_scope (Some (Some scope)) = scope" using clamp_scope(1) [of l sc] sc by simp
  have start: "pruned scope d (start_prune d)" by (simp add: pruned_def start_prune_def)
  have s1: "pruned scope d ?s1" "ps_stopped ?s1 \<or> no_old_ops ?l (ps_db ?s1)"
    using prune_by_age_result [of ?l d "start_prune d"] start sc eff by simp_all
  have "estimateReplicationOpsScopeBytes (ps_db ?s1) scope \<le> estimateReplicationOpsScopeBytes d scope"
    using s1(1)
  proof (cases rule: pruned_ops_cases)
    case 1
    show ?thesis unfolding estimate_ops [OF 1(1)] by (rule order_refl)
  next
    case (2 b)
    then show ?thesis by (intro estimate_cut) simp
  qed
  then have s2: "pruned scope d ?s2" "ps_stopped ?s2 \<or> no_old_ops ?l (ps_db ?s2)
      \<and> estimateReplicationOpsScopeBytes (ps_db ?s2) scope \<le> max 1 (pl_max_size l)"
    using prune_by_size_result [of ?l d ?s1] s1 sc eff by simp_all
  have res: "pr_deleted res = ps_deleted ?s2" "pr_stopped res = ps_stopped ?s2"
      "pr_deleted res > 0 \<Longrightarrow> pr_retained_floor res = ps_last ?s2"
      "d' = snd (getSyncResetState (pl_now ?l) (pl_fresh ?l) (ps_db ?s2) (Some (Some scope)))"
    using assms(2) sc by (auto simp: pruneReplicationOps_def prune_with_def Let_def split_beta)
  have ops': "ops d' = ops (ps_db ?s2)" "memories d' = memories (ps_db ?s2)" using res(4) by simp_all
  have mem: "memories (ps_db ?s2) = memories d" using s2(1) by (auto simp: pruned_def)
  have lim: "pr_stopped res \<or> (\<forall>r \<in> set (ops d'). in_op_scope scope r \<longrightarrow> \<not> op_created_at r < pl_cutoff l)
         \<and> estimateReplicationOpsScopeBytes d' scope \<le> max 1 (pl_max_size l)"
    using s2(2) res(2) ops'(1) estimate_ops [OF ops'(1), of scope] by (simp add: scope_def)
  from s2(1) show ?thesis
  proof (cases rule: pruned_ops_cases)
    case 1
    then show ?thesis using res(1) ops' mem lim by simp
  next
    case (2 b)
    have same: "floor_of d' scope = floor_of (ps_db ?s2) scope \<and> find_reset scope d' \<noteq> None"
      using 2(7) getSyncResetState_found [OF _ eff] res(4) by auto
    have "\<exists>b \<in> set (ops d). in_op_scope scope b \<and> pr_retained_floor res = Some (op_cursor b)
            \<and> ops d' = cut_log scope (op_position b) (ops d) \<and> 0 < pr_deleted res
            \<and> find_reset scope d' \<noteq> None \<and> floor_of d' scope = normalizeCursor (Some (op_cursor b))"
      using 2 res(1,3) ops'(1) same by (intro bexI [of _ b] conjI) simp_all
    then show ?thesis using 2(6) res(1) ops' mem lim by simp
  qed
qed

section \<open>Reading after a prune\<close>

text \<open>Logs whose timestamps all have one length and hold no bar, and whose cursors have no blanks around
  them: what the application writes.\<close>

definition uniform_log :: "nat \<Rightarrow> db \<Rightarrow> bool" where
  "uniform_log n d \<longleftrightarrow> (\<forall>r \<in> set (ops d). length (op_created_at r) = n \<and> CHR ''|'' \<notin> set (op_created_at r)
     \<and> normalizeCursor (Some (op_cursor r)) = Some (op_cursor r))"

lemma after_cut:
  assumes "CHR ''|'' \<notin> set c" "op_position b \<le> (c, i)"
  shows "filter (after_cursor (Some (computeCursor c i)))
      (sort_key op_position (filter (\<lambda>r. q r \<and> in_op_scope sc r) (cut_log sc (op_position b) rows)))
    = filter (after_cursor (Some (computeCursor c i)))
      (sort_key op_position (filter (\<lambda>r. q r \<and> in_op_scope sc r) rows))"
proof -
  have "filter (\<lambda>r. after_cursor (Some (computeCursor c i)) r \<and> q r \<and> in_op_scope sc r) (cut_log sc (op_position b) rows)
      = filter (\<lambda>r. after_cursor (Some (computeCursor c i)) r \<and> q r \<and> in_op_scope sc r) rows"
    using assms by (auto simp: cut_log_def delete_where_def after_cursor_position intro!: filter_cong)
  then show ?thesis by (simp add: filter_sort conj_commute conj_left_commute)
qed

lemma loadSince_cut:
  assumes "CHR ''|'' \<notin> set c" "op_position b \<le> (c, i)" "ops d' = cut_log sc (op_position b) (ops d)"
    "effective_scope (Some (Some sc)) = sc"
  shows "loadReplicationOpsSince d' (Some (computeCursor c i)) limit dev (Some (Some sc))
    = loadReplicationOpsSince d (Some (computeCursor c i)) limit dev (Some (Some sc))"
  using after_cut [OF assms(1,2), of "authored_by dev" sc "ops d"] assms(3,4)
  by (simp add: loadReplicationOpsSince_page log_of_def)

lemma loadReplicationOpsForPeer_served:
  assumes "loadReplicationOpsForPeer now fresh d q = (PeerOps b rows nxt, d')"
  shows "\<not> stale_since (normalizeCursor (pq_since q)) b
    \<and> b = fst (getSyncResetState now fresh d (pq_scope q)) \<and> d' = snd (getSyncResetState now fresh d (pq_scope q))
    \<and> (\<exists>all. loadReplicationOpsSince d' (normalizeCursor (pq_since q)) (pq_limit q) (pq_device q)
           (Some (Some (effective_scope (pq_scope q)))) = (all, nxt) \<and> rows = filter (servable d') all)"
  using assms by (auto simp: loadReplicationOpsForPeer_def resetRequired_def Let_def split: prod.splits if_splits)

section \<open>Properties\<close>

text \<open>C9: paging is complete. Following \<open>nextCursor\<close> with any positive page size reads every op of the
  log that the filters admit exactly once, ordered by creation time and id; as many pages as there are
  ops always suffice.\<close>

theorem pages_cover_the_log:
  assumes "distinct (map op_id (ops d))" "\<forall>r \<in> set (ops d). CHR ''|'' \<notin> set (op_created_at r)" "0 < limit"
    "length (ops d) \<le> n"
  shows "read_pages n d None limit dev scope = log_of d dev scope"
proof -
  have "length (log_of d dev scope) \<le> n" using assms(4) by (simp add: log_of_def le_trans [OF length_filter_le])
  then show ?thesis
    using read_pages_suffix [of d limit None dev scope 0 n] assms(1-3) by (simp add: after_cursor_def)
qed

definition sample_log :: db where
  "sample_log = empty_db\<lparr> ops := [sample_op ''o2'' ''k1'' ''upsert'' 2 ''b'', sample_op ''o1'' ''k1'' ''upsert'' 1 ''a'',
     (sample_op ''o0'' ''k2'' ''upsert'' 1 ''a'')\<lparr> op_created_at := ''2020'' \<rparr>] \<rparr>"

theorem pages_cover_the_log_witness: "read_pages 3 sample_log None 1 None None = log_of sample_log None None"
  by (rule pages_cover_the_log) (simp_all add: sample_log_def sample_op_def empty_db_def)

text \<open>C11: a prune cuts a prefix. It removes exactly the ops of its scope up to the position it reports and
  stores as the retained floor (nothing when it deletes nothing), leaves the other scopes and the memories
  alone, and unless it ran out of budget no op of the scope is older than the cutoff and their size is
  within the limit.\<close>

theorem prune_cuts_prefix:
  assumes "pruneReplicationOps l sc d = (res, d')"
  shows "pr_deleted res = length (ops d) - length (ops d') \<and> memories d' = memories d
    \<and> (pr_deleted res = 0 \<and> ops d' = ops d
       \<or> (\<exists>b \<in> set (ops d). pr_retained_floor res = Some (op_cursor b)
            \<and> ops d' = filter (\<lambda>r. \<not> (in_op_scope (normalizeSyncStateScopeId sc) r \<and> op_position r \<le> op_position b)) (ops d)
            \<and> floor_of d' (normalizeSyncStateScopeId sc) = normalizeCursor (Some (op_cursor b))))
    \<and> (pr_stopped res
       \<or> (\<forall>r \<in> set (ops d'). in_op_scope (normalizeSyncStateScopeId sc) r \<longrightarrow> \<not> op_created_at r < pl_cutoff l)
         \<and> estimateReplicationOpsScopeBytes d' (normalizeSyncStateScopeId sc) \<le> max 1 (pl_max_size l))"
  using pruneReplicationOps_result [OF assms] by (auto simp: cut_log_def delete_where_def)

definition sample_limits :: prune_limits where
  "sample_limits = \<lparr> pl_now = ''2026'', pl_fresh = ''snap'', pl_scope = [], pl_cutoff = ''2025'',
     pl_max_size = 300, pl_max_delete = 100, pl_late = (\<lambda>n. False) \<rparr>"

theorem prune_cuts_prefix_witness:
  "pr_deleted (fst (pruneReplicationOps sample_limits (Some ''team'') sample_log))
     = length (ops sample_log) - length (ops (snd (pruneReplicationOps sample_limits (Some ''team'') sample_log)))"
  using prune_cuts_prefix [of sample_limits "Some ''team''" sample_log] by (metis prod.collapse)

text \<open>The size pass overshoots. It starts from the size measured before the age pass, so it deletes
  recent ops although what the age pass left is already within the limit.\<close>

theorem prune_overshoots:
  "let recent = sample_log\<lparr> ops := filter (\<lambda>r. \<not> op_created_at r < pl_cutoff sample_limits) (ops sample_log) \<rparr>
   in estimateReplicationOpsScopeBytes recent ''team'' \<le> pl_max_size sample_limits
      \<and> ops recent \<noteq> [] \<and> ops (snd (pruneReplicationOps sample_limits (Some ''team'') sample_log)) = []"
  by code_simp


definition sample_request :: peer_request where
  "sample_request = \<lparr> pq_since = Some ''2021|x'', pq_limit = 10, pq_device = Some ''a'', pq_generation = Some 1,
     pq_snapshot = Some ''snap'', pq_baseline = None, pq_scope = Some (Some ''team'') \<rparr>"

definition age_limits :: prune_limits where
  "age_limits = sample_limits\<lparr> pl_max_size := 1000 \<rparr>"


end
