(* ===== verification/Inbound_Validation.thy ===== *)
theory Inbound_Validation
  imports Outbound_Filter
begin

text \<open>
  Which ops a device accepts from a peer (\<open>packages/core/src/sync-replication.ts\<close>, lines 2870-3160): the
  checks of one op, the two batch checks, and \<open>rejectInboundScopeFailures\<close>, which refuses a whole batch
  when one op of it fails and logs the refusals.

  The identifiers passed to the authorization cache are never blank here, so its decision is
  \<open>cached_decision\<close> and its scope the one \<open>readCachedScopeRows\<close> finds (\<open>readCachedScopeAuthorization_state\<close>).
\<close>

datatype rejection_reason = MissingScope | SenderNotMember | ReceiverNotMember | StaleEpochReason | ScopeMismatch

fun reason_text :: "rejection_reason \<Rightarrow> string" where
  "reason_text MissingScope = ''missing_scope''"
| "reason_text SenderNotMember = ''sender_not_member''"
| "reason_text ReceiverNotMember = ''receiver_not_member''"
| "reason_text StaleEpochReason = ''stale_epoch''"
| "reason_text ScopeMismatch = ''scope_mismatch''"

record inbound_rejection =
  ir_op_id :: string
  ir_entity_type :: string
  ir_entity_id :: string
  ir_scope :: "string option"
  ir_peer :: "string option"
  ir_reason :: rejection_reason

record inbound_options =
  io_peer :: "string option"
  io_enabled :: bool

definition inboundScopeRejection ::
    "replication_op \<Rightarrow> rejection_reason \<Rightarrow> string option \<Rightarrow> string option \<Rightarrow> inbound_rejection" where
  "inboundScopeRejection r reason peer scopeId =
     \<lparr> ir_op_id = op_id r, ir_entity_type = op_entity_type r, ir_entity_id = op_entity_id r,
       ir_scope = scopeId, ir_peer = peer, ir_reason = reason \<rparr>"

definition payloadContradictsInboundScope :: "string \<Rightarrow> json_obj option \<Rightarrow> bool" where
  "payloadContradictsInboundScope opScopeId payload =
     (let scope = merged_text payload ''scope_id'';
          workspaceId = merged_text payload ''workspace_id'';
          workspaceKind = map_option js_lower (merged_text payload ''workspace_kind'');
          actorId = merged_text payload ''actor_id''
      in if scope \<noteq> None \<and> scope \<noteq> Some opScopeId then True
         else if personal_only workspaceId \<noteq> [] \<and> workspaceId \<noteq> Some opScopeId then True
         else (case actorId of
                 Some actor \<Rightarrow> workspaceKind = Some ''personal'' \<and> personal_prefix @ actor \<noteq> opScopeId
               | None \<Rightarrow> False))"

definition auth_scope :: "db \<Rightarrow> string \<Rightarrow> string \<Rightarrow> scope_row option" where
  "auth_scope d dev s = snd (readCachedScopeRows d dev s None)"

definition authorizationFailureReason ::
    "authorization_state \<Rightarrow> scope_row option \<Rightarrow> rejection_reason \<Rightarrow> rejection_reason option" where
  "authorizationFailureReason state scope notMemberReason =
     (if map_option sc_authority_type scope = Some ''local'' then Some MissingScope
      else if state = Authorized then None
      else if scope = None \<or> state \<in> {Revoked, StaleEpochState, ScopeUnknown, ScopeInactive}
      then Some StaleEpochReason
      else Some notMemberReason)"

text \<open>The sender claims of an op: its device and its clock both belong to the sender.\<close>

definition sent_by :: "string option \<Rightarrow> replication_op \<Rightarrow> bool" where
  "sent_by sender r \<longleftrightarrow> sender \<noteq> None \<and> clean_text (Some (op_device_id r)) = sender
     \<and> clean_text (Some (op_clock_device_id r)) = sender"

definition validateLocalDefaultOldSideReassignment ::
    "db \<Rightarrow> replication_op \<Rightarrow> string option \<Rightarrow> rejection_reason + reassign_payload" where
  "validateLocalDefaultOldSideReassignment d r sender =
     (case parseReassignScopePayload r of
        None \<Rightarrow> Inl ScopeMismatch
      | Some ra \<Rightarrow>
          if ra_side ra \<noteq> OldSide \<or> ra_old_scope ra \<noteq> DEFAULT_SYNC_SCOPE_ID then Inl ScopeMismatch
          else if \<not> sent_by sender r then Inl SenderNotMember
          else (case first_where (\<lambda>m. m_import_key m = Some (op_entity_id r)) (memories d) of
                  Some m \<Rightarrow> if clean_text (m_origin_device_id m) \<noteq> sender then Inl SenderNotMember else Inr ra
                | None \<Rightarrow> Inr ra))"

definition sender_check :: "db \<Rightarrow> bool \<Rightarrow> string \<Rightarrow> string \<Rightarrow> rejection_reason option" where
  "sender_check d retraction sender s =
     (let state = cached_decision d sender s; scope = auth_scope d sender s in
      if retraction \<and> (state = Authorized \<or> (state = NotAuthorized \<and> scope = None)) then None
      else authorizationFailureReason state scope SenderNotMember)"

definition receiver_check :: "db \<Rightarrow> string option \<Rightarrow> string \<Rightarrow> rejection_reason option" where
  "receiver_check d receiver s = (case receiver of
     None \<Rightarrow> Some ReceiverNotMember
   | Some dev \<Rightarrow> authorizationFailureReason (cached_decision d dev s) (auth_scope d dev s) ReceiverNotMember)"

definition validateInboundScopeOp ::
    "db \<Rightarrow> replication_op \<Rightarrow> string \<Rightarrow> inbound_options \<Rightarrow> inbound_rejection option" where
  "validateInboundScopeOp d r localDeviceId opts =
     (let peer = coalesce (clean_text (io_peer opts)) (clean_text (Some (op_device_id r)));
          sender = coalesce peer (clean_text (Some (op_clock_device_id r)));
          reject = inboundScopeRejection r
      in if op_type r = ACCESS_CLEANUP_OP_TYPE
         then (if \<not> sent_by sender r then Some (reject SenderNotMember peer None) else None)
         else (case clean_text (op_scope_id r) of
                 None \<Rightarrow> Some (reject MissingScope peer None)
               | Some opScope \<Rightarrow>
                   if payloadContradictsInboundScope opScope (parsePayload (op_payload r))
                   then Some (reject ScopeMismatch peer (Some opScope))
                   else if \<not> sent_by sender r then Some (reject SenderNotMember peer (Some opScope))
                   else (case (if opScope = DEFAULT_SYNC_SCOPE_ID
                               then map_sum (\<lambda>e. e) ra_new_scope (validateLocalDefaultOldSideReassignment d r sender)
                               else Inr opScope) of
                           Inl reason \<Rightarrow> Some (reject reason peer (Some opScope))
                         | Inr authScope \<Rightarrow>
                             let retraction = (opScope = DEFAULT_SYNC_SCOPE_ID) in
                             (case sender_check d retraction (the sender) authScope of
                                Some reason \<Rightarrow> Some (reject reason peer (Some opScope))
                              | None \<Rightarrow>
                                  if retraction then None
                                  else (case receiver_check d (clean_text (Some localDeviceId)) authScope of
                                          Some reason \<Rightarrow> Some (reject reason peer (Some opScope))
                                        | None \<Rightarrow> None)))))"

definition validateInboundScopeBatch ::
    "db \<Rightarrow> replication_op list \<Rightarrow> string \<Rightarrow> inbound_options \<Rightarrow> inbound_rejection list" where
  "validateInboundScopeBatch d rs localDeviceId opts = List.map_filter (\<lambda>r.
     if clean_text (io_peer opts) = None \<and> op_device_id r = localDeviceId then None
     else validateInboundScopeOp d r localDeviceId opts) rs"

definition validateInboundLocalOnlyOp ::
    "db \<Rightarrow> inbound_options \<Rightarrow> replication_op \<Rightarrow> inbound_rejection option" where
  "validateInboundLocalOnlyOp d opts r =
     (let peer = clean_text (io_peer opts) in
      if op_entity_type r \<noteq> ''memory_item'' \<or> op_type r = ACCESS_CLEANUP_OP_TYPE then None
      else (case clean_text (op_scope_id r) of
              None \<Rightarrow> Some (inboundScopeRejection r MissingScope peer None)
            | Some scopeId \<Rightarrow>
                if scopeId \<noteq> DEFAULT_SYNC_SCOPE_ID
                then (let scope = first_where (\<lambda>s. sc_id s = scopeId) (scopes d) in
                  if map_option sc_authority_type scope = Some ''local'' \<or> (scope = None \<and> \<not> io_enabled opts)
                  then Some (inboundScopeRejection r MissingScope peer (Some scopeId)) else None)
                else if op_type r = REASSIGN_SCOPE_OP_TYPE
                then (case validateLocalDefaultOldSideReassignment d r
                             (coalesce peer (clean_text (Some (op_clock_device_id r)))) of
                        Inr _ \<Rightarrow> None
                      | Inl SenderNotMember \<Rightarrow> Some (inboundScopeRejection r SenderNotMember peer (Some scopeId))
                      | Inl _ \<Rightarrow> Some (inboundScopeRejection r ScopeMismatch peer (Some scopeId)))
                else Some (inboundScopeRejection r ScopeMismatch peer (Some scopeId))))"

definition validateInboundLocalOnlyBatch ::
    "db \<Rightarrow> replication_op list \<Rightarrow> inbound_options \<Rightarrow> inbound_rejection list" where
  "validateInboundLocalOnlyBatch d rs opts = List.map_filter (validateInboundLocalOnlyOp d opts) rs"

section \<open>The result of an application\<close>

record apply_result =
  ap_applied :: nat
  ap_skipped :: nat
  ap_rejected :: nat
  ap_conflicts :: nat
  ap_errors :: "apply_error list"
  ap_rejections :: "inbound_rejection list"
  ap_upsert_vectors :: "int list"
  ap_delete_vectors :: "int list"

definition emptyApplyResult :: apply_result where
  "emptyApplyResult = \<lparr> ap_applied = 0, ap_skipped = 0, ap_rejected = 0, ap_conflicts = 0,
     ap_errors = [], ap_rejections = [], ap_upsert_vectors = [], ap_delete_vectors = [] \<rparr>"

definition log_rejection :: "string \<Rightarrow> inbound_rejection \<Rightarrow> db \<Rightarrow> db" where
  "log_rejection now rej d = d\<lparr> rejections := rejections d @
     [\<lparr> rj_id = Max (insert 0 (set (map rj_id (rejections d)))) + 1, rj_peer = ir_peer rej,
        rj_op_id = ir_op_id rej, rj_entity_type = ir_entity_type rej, rj_entity_id = ir_entity_id rej,
        rj_scope = ir_scope rej, rj_reason = reason_text (ir_reason rej), rj_created_at = now \<rparr>] \<rparr>"

definition recordInboundScopeRejections :: "string \<Rightarrow> db \<Rightarrow> inbound_rejection list \<Rightarrow> db" where
  "recordInboundScopeRejections now d rejs = fold (log_rejection now) rejs d"

text \<open>\<open>None\<close> lets the batch through; otherwise the result that refuses it, and the database with the
  refusals logged.\<close>

definition rejectInboundScopeFailures ::
    "string \<Rightarrow> db \<Rightarrow> replication_op list \<Rightarrow> string \<Rightarrow> inbound_options \<Rightarrow> (apply_result \<times> db) option" where
  "rejectInboundScopeFailures now d rs localDeviceId opts =
     (let localOnly = validateInboundLocalOnlyBatch d rs opts;
          rejs = (if localOnly \<noteq> [] then localOnly
                  else if \<not> io_enabled opts then []
                  else validateInboundScopeBatch d rs localDeviceId opts)
      in if rejs = [] then None
         else Some (emptyApplyResult\<lparr> ap_rejected := length rejs, ap_rejections := rejs,
                      ap_errors := map (\<lambda>x. OpRejected (ir_op_id x) (reason_text (ir_reason x))) rejs \<rparr>,
                    recordInboundScopeRejections now d rejs))"

definition rejectUnretiredScopeFailures ::
    "string \<Rightarrow> db \<Rightarrow> replication_op list \<Rightarrow> string \<Rightarrow> inbound_options \<Rightarrow> (apply_result \<times> db) option" where
  "rejectUnretiredScopeFailures now d rs localDeviceId opts =
     (let eligible = filter (\<lambda>r. \<not> retirementBlocksMemoryOp d r) rs in
      map_option (\<lambda>(res, d'). (res\<lparr> ap_skipped := ap_skipped res + (length rs - length eligible) \<rparr>, d'))
        (rejectInboundScopeFailures now d eligible localDeviceId opts))"

section \<open>What an accepted op satisfies\<close>

lemma authorizationFailureReason_None:
  "authorizationFailureReason state scope why = None \<longleftrightarrow>
     state = Authorized \<and> map_option sc_authority_type scope \<noteq> Some ''local''"
  by (simp add: authorizationFailureReason_def)

lemma receiver_check_None:
  "receiver_check d dev s = None \<longleftrightarrow> (\<exists>x. dev = Some x \<and> scope_gate d x s)"
  by (auto simp: receiver_check_def authorizationFailureReason_None scope_gate_def auth_scope_def
      split: option.splits)

lemma sender_check_None:
  "sender_check d False sender s = None \<longleftrightarrow> scope_gate d sender s"
  by (simp add: sender_check_def authorizationFailureReason_None scope_gate_def auth_scope_def Let_def)

lemma map_filter_Nil: "List.map_filter f xs = [] \<longleftrightarrow> (\<forall>x\<in>set xs. f x = None)"
  by (induction xs) (auto simp: List.map_filter_simps split: option.splits)

text \<open>An accepted op outside the default scope is between two admitted members and says so itself.\<close>

lemma validateInboundScopeOp_None:
  assumes "validateInboundScopeOp d r me opts = None" "op_type r \<noteq> ACCESS_CLEANUP_OP_TYPE"
    and "clean_text (op_scope_id r) \<noteq> Some DEFAULT_SYNC_SCOPE_ID"
  shows "\<exists>s sender. clean_text (op_scope_id r) = Some s \<and> sent_by (Some sender) r
    \<and> (clean_text (io_peer opts) \<noteq> None \<longrightarrow> clean_text (io_peer opts) = Some sender)
    \<and> scope_gate d sender s \<and> (\<exists>x. clean_text (Some me) = Some x \<and> scope_gate d x s)
    \<and> \<not> payloadContradictsInboundScope s (parsePayload (op_payload r))"
proof -
  from assms obtain s where s: "clean_text (op_scope_id r) = Some s"
    by (auto simp: validateInboundScopeOp_def Let_def split: option.splits)
  let ?sender = "coalesce (coalesce (clean_text (io_peer opts)) (clean_text (Some (op_device_id r))))
    (clean_text (Some (op_clock_device_id r)))"
  from assms s have *: "\<not> payloadContradictsInboundScope s (parsePayload (op_payload r))"
    "sent_by ?sender r" "sender_check d False (the ?sender) s = None"
    "receiver_check d (clean_text (Some me)) s = None"
    by (auto simp: validateInboundScopeOp_def Let_def split: if_splits option.splits)
  from *(2) obtain sender where sender: "?sender = Some sender" by (auto simp: sent_by_def)
  with * s have "sent_by (Some sender) r" "scope_gate d sender s"
    "\<exists>x. clean_text (Some me) = Some x \<and> scope_gate d x s"
    by (simp_all add: sender_check_None receiver_check_None)
  moreover have "clean_text (io_peer opts) \<noteq> None \<longrightarrow> clean_text (io_peer opts) = Some sender"
    using sender by auto
  ultimately show ?thesis using * s by blast
qed

lemma rejectInbound_None:
  "rejectInboundScopeFailures now d rs me opts = None \<longleftrightarrow>
     (\<forall>r\<in>set rs. validateInboundLocalOnlyOp d opts r = None
        \<and> (io_enabled opts \<longrightarrow> (clean_text (io_peer opts) = None \<and> op_device_id r = me)
             \<or> validateInboundScopeOp d r me opts = None))"
  by (auto simp: rejectInboundScopeFailures_def Let_def validateInboundLocalOnlyBatch_def
      validateInboundScopeBatch_def map_filter_Nil split: if_splits)

text \<open>A refused batch changes nothing but the log.\<close>

lemma log_rejections_only:
  "\<exists>rows. length rows = length rejs
     \<and> recordInboundScopeRejections now d rejs = d\<lparr> rejections := rejections d @ rows \<rparr>"
proof (induction rejs arbitrary: d)
  case Nil
  show ?case by (simp add: recordInboundScopeRejections_def)
next
  case (Cons x rejs)
  obtain row where row: "log_rejection now x d = d\<lparr> rejections := rejections d @ [row] \<rparr>"
    by (simp add: log_rejection_def)
  from Cons.IH [of "log_rejection now x d"] obtain rows where
    "length rows = length rejs"
    "recordInboundScopeRejections now (log_rejection now x d) rejs
       = d\<lparr> rejections := rejections d @ row # rows \<rparr>"
    by (auto simp: row)
  then show ?case
    by (intro exI [of _ "row # rows"]) (simp add: recordInboundScopeRejections_def)
qed

end
