(* ===== verification/Lamport_Clock.thy ===== *)
theory Lamport_Clock
  imports Sync_State
begin

text \<open>
  The last-writer-wins clock of a memory (\<open>clockTuple\<close>, \<open>isNewerClock\<close> and
  \<open>clockDeviceIdFromMetadataJson\<close> of \<open>packages/core/src/sync-replication.ts\<close>): revision, then update
  time, then device. The clocks form a linear order whose strict part is \<open>isNewerClock\<close>, so the
  order of the library (\<open>max\<close>, \<open>Max\<close>, sorting) applies to them.
\<close>

datatype clock = Clock (clock_rev: int) (clock_updated_at: string) (clock_device: string)

definition clockTuple :: "int \<Rightarrow> string \<Rightarrow> string \<Rightarrow> clock" where
  "clockTuple revision updatedAt deviceId = Clock revision updatedAt deviceId"

definition isNewerClock :: "clock \<Rightarrow> clock \<Rightarrow> bool" where
  "isNewerClock candidate existing =
     (if clock_rev candidate \<noteq> clock_rev existing then clock_rev candidate > clock_rev existing
      else if clock_updated_at candidate \<noteq> clock_updated_at existing
      then clock_updated_at candidate > clock_updated_at existing
      else clock_device candidate > clock_device existing)"

definition clockDeviceIdFromMetadataJson :: "json_text option \<Rightarrow> string" where
  "clockDeviceIdFromMetadataJson raw =
     or_default (as_text (field ''clock_device_id'' (fromJson raw))) []"

text \<open>The clock of an op, and the clock \<open>applyReplicationOps\<close> reads off a stored row.\<close>

definition op_clock :: "replication_op \<Rightarrow> clock" where
  "op_clock r = clockTuple (op_clock_rev r) (op_clock_updated_at r) (op_clock_device_id r)"

definition row_clock :: "memory_row \<Rightarrow> clock" where
  "row_clock m = clockTuple (or_default (m_rev m) 0) (m_updated_at m)
     (clockDeviceIdFromMetadataJson (m_metadata m))"

instantiation clock :: linorder
begin

definition less_clock :: "clock \<Rightarrow> clock \<Rightarrow> bool" where
  "less_clock a b = isNewerClock b a"

definition less_eq_clock :: "clock \<Rightarrow> clock \<Rightarrow> bool" where
  "less_eq_clock a b = (a = b \<or> isNewerClock b a)"

instance
proof
  fix a b c :: clock
  show "(a < b) = (a \<le> b \<and> \<not> b \<le> a)"
    by (cases a; cases b) (auto simp: less_clock_def less_eq_clock_def isNewerClock_def)
  show "a \<le> a" by (simp add: less_eq_clock_def)
  show "a \<le> b \<Longrightarrow> b \<le> c \<Longrightarrow> a \<le> c"
    by (cases a; cases b; cases c)
      (auto simp: less_eq_clock_def isNewerClock_def split: if_splits)
  show "a \<le> b \<Longrightarrow> b \<le> a \<Longrightarrow> a = b"
    by (cases a; cases b) (auto simp: less_eq_clock_def isNewerClock_def split: if_splits)
  show "a \<le> b \<or> b \<le> a"
    by (cases a; cases b) (auto simp: less_eq_clock_def isNewerClock_def)
qed

end

lemma isNewerClock_less: "isNewerClock a b \<longleftrightarrow> b < a"
  by (simp add: less_clock_def)

section \<open>Last writer wins\<close>

text \<open>What a replica keeps of a stored clock and an incoming one: the incoming one only when it is
  strictly newer.\<close>

definition lww_keep :: "clock \<Rightarrow> clock \<Rightarrow> clock" where
  "lww_keep stored incoming = (if isNewerClock incoming stored then incoming else stored)"

lemma lww_keep_max: "lww_keep stored incoming = max stored incoming"
  by (auto simp: lww_keep_def isNewerClock_less max_def)

text \<open>A replica that folds a register over a stream of writes. Any two replicas that have seen the same
  set of writes hold the same value when the merge is a semilattice; the locale states the laws.\<close>

locale lww_register =
  fixes merge :: "'v \<Rightarrow> 'v \<Rightarrow> 'v"
  assumes merge_assoc: "merge (merge a b) c = merge a (merge b c)"
    and merge_commute: "merge a b = merge b a"
    and merge_idem: "merge a a = a"
begin

lemma merge_left_commute: "merge b (merge a c) = merge a (merge b c)"
  by (metis merge_assoc merge_commute)

definition replay :: "'v list \<Rightarrow> 'v \<Rightarrow> 'v" where
  "replay ws v = fold (\<lambda>w acc. merge acc w) ws v"

lemma replay_Cons: "replay (w # ws) v = replay ws (merge v w)"
  by (simp add: replay_def)

lemma replay_merge: "replay ws (merge v w) = merge (replay ws v) w"
proof (induction ws arbitrary: v)
  case Nil
  show ?case by (simp add: replay_def)
next
  case (Cons x ws)
  have "merge (merge v w) x = merge (merge v x) w"
    by (metis merge_assoc merge_commute)
  then show ?case by (simp add: replay_Cons Cons.IH)
qed

lemma replay_absorbs: "w \<in> set ws \<Longrightarrow> merge (replay ws v) w = replay ws v"
proof (induction ws arbitrary: v)
  case Nil
  then show ?case by simp
next
  case (Cons x ws)
  show ?case
  proof (cases "w = x")
    case True
    then show ?thesis by (simp add: replay_Cons replay_merge merge_assoc merge_idem)
  next
    case False
    with Cons show ?thesis by (simp add: replay_Cons)
  qed
qed

lemma replay_subset: "set ws \<subseteq> set us \<Longrightarrow> replay ws (replay us v) = replay us v"
  by (induction ws arbitrary: v) (simp_all add: replay_def replay_absorbs [unfolded replay_def])

lemma replay_append: "replay (ws @ us) v = replay us (replay ws v)"
  by (simp add: replay_def)

lemma replay_swap: "replay ws (replay us v) = replay us (replay ws v)"
proof (induction ws arbitrary: v)
  case Nil
  show ?case by (simp add: replay_def)
next
  case (Cons w ws)
  have "replay ws (merge (replay us v) w) = replay ws (replay us (merge v w))"
    by (simp only: replay_merge)
  also have "\<dots> = replay us (replay ws (merge v w))" by (rule Cons.IH)
  finally show ?case by (simp only: replay_Cons)
qed

text \<open>Delivery order and duplicates do not matter.\<close>

lemma replay_set: "set ws = set us \<Longrightarrow> replay ws v = replay us v"
proof -
  assume eq: "set ws = set us"
  have "replay ws v = replay us (replay ws v)"
    using eq by (simp add: replay_subset)
  also have "\<dots> = replay ws (replay us v)" by (rule replay_swap)
  also have "\<dots> = replay us v" using eq by (simp add: replay_subset)
  finally show ?thesis .
qed

end

interpretation lww: lww_register lww_keep
  by unfold_locales (simp_all add: lww_keep_max ac_simps)

end
