(* ===== verification/Apply_Ops.thy ===== *)
theory Apply_Ops
  imports Inbound_Validation Memory_Refs Lamport_Clock
begin

text \<open>
  Applying a batch of received ops (\<open>applyReplicationOps\<close> and its helpers in
  \<open>packages/core/src/sync-replication.ts\<close>). Each op runs under a savepoint: \<open>apply_op\<close> returns what it
  did and the database it leaves, or \<open>Inl\<close> of the exception, after which the loop keeps the database it
  had before the op. The scanner, the clock and the digest are fields of the context.

  The partial unique index on \<open>memory_items\<close> (session, kind, visibility, workspace and dedup key of the
  active rows) is checked after every update of the table; a violation is an exception.
\<close>

record apply_context =
  ax_local :: string
  ax_now :: string
  ax_scan :: "string \<Rightarrow> string"
  ax_redact :: "json_obj \<Rightarrow> json_obj"
  ax_sha256 :: "string \<Rightarrow> string"

datatype op_outcome = OutApplied | OutSkipped | OutConflict

datatype vector_work = VectorUpsert int | VectorDelete int

record op_effect =
  oe_outcome :: op_outcome
  oe_errors :: "apply_error list"
  oe_vector :: "vector_work option"
  oe_db :: db

definition effect :: "op_outcome \<Rightarrow> db \<Rightarrow> op_effect" where
  "effect outcome d = \<lparr> oe_outcome = outcome, oe_errors = [], oe_vector = None, oe_db = d \<rparr>"

definition queue_vector :: "vector_work \<Rightarrow> op_effect \<Rightarrow> op_effect" where
  "queue_vector w e =
     (let i = (case w of VectorUpsert i \<Rightarrow> i | VectorDelete i \<Rightarrow> i) in
      if i \<le> 0 then e else e\<lparr> oe_vector := Some w \<rparr>)"

section \<open>Rows\<close>

definition insertReplicationOpRow :: "db \<Rightarrow> replication_op \<Rightarrow> db" where
  "insertReplicationOpRow d r = d\<lparr> ops := insert_or_ignore op_id r (ops d) \<rparr>"

definition dedup_index_key :: "memory_row \<Rightarrow> (int \<times> string \<times> string \<times> string \<times> string) option" where
  "dedup_index_key m =
     (if m_active m \<noteq> Some 1 then None
      else (case (m_visibility m, m_workspace_id m, m_dedup_key m) of
              (Some v, Some w, Some k) \<Rightarrow> Some (m_session_id m, m_kind m, v, w, k)
            | _ \<Rightarrow> None))"

definition dedup_index_ok :: "memory_row list \<Rightarrow> bool" where
  "dedup_index_ok rows \<longleftrightarrow> distinct (List.map_filter dedup_index_key rows)"

definition update_memories :: "(memory_row \<Rightarrow> bool) \<Rightarrow> (memory_row \<Rightarrow> memory_row) \<Rightarrow> db \<Rightarrow> string + db" where
  "update_memories p f d =
     (let rows = update_where p f (memories d) in
      if dedup_index_ok rows then Inr (d\<lparr> memories := rows \<rparr>)
      else Inl ''UNIQUE constraint failed: memory_items'')"

definition find_memory :: "db \<Rightarrow> string \<Rightarrow> memory_row option" where
  "find_memory d importKey = first_where (\<lambda>m. m_import_key m = Some importKey) (memories d)"

definition next_memory_id :: "db \<Rightarrow> int" where
  "next_memory_id d = Max (insert 0 (set (map m_id (memories d)))) + 1"

definition next_session_id :: "db \<Rightarrow> int" where
  "next_session_id d = Max (insert 0 (set (map s_id (sessions d)))) + 1"

definition ensureSessionForReplication ::
    "string \<Rightarrow> db \<Rightarrow> int option \<Rightarrow> string \<Rightarrow> string option \<Rightarrow> int \<times> db" where
  "ensureSessionForReplication wall d sessionId createdAt project =
     (case sessionId of
        Some i \<Rightarrow>
          if exists_where (\<lambda>s. s_id s = i) (sessions d) then (i, d)
          else (next_session_id d, d\<lparr> sessions := sessions d @ [\<lparr> s_id = next_session_id d,
             s_started_at = (if createdAt \<noteq> [] then createdAt else wall), s_ended_at = None, s_cwd = None,
             s_project = project, s_git_remote = None, s_git_branch = None, s_user = Some ''sync'',
             s_tool_version = Some ''sync_replication'',
             s_metadata = Some (toJson (JObj [(''source'', JStr ''sync'')])), s_import_key = None \<rparr>] \<rparr>)
      | None \<Rightarrow>
          (next_session_id d, d\<lparr> sessions := sessions d @ [\<lparr> s_id = next_session_id d,
             s_started_at = (if createdAt \<noteq> [] then createdAt else wall), s_ended_at = None, s_cwd = None,
             s_project = project, s_git_remote = None, s_git_branch = None, s_user = Some ''sync'',
             s_tool_version = Some ''sync_replication'',
             s_metadata = Some (toJson (JObj [(''source'', JStr ''sync'')])), s_import_key = None \<rparr>] \<rparr>))"

text \<open>\<open>foreignRevisionMetadata\<close>: the row's metadata with the clock device of the op, after the foreign
  revision is noted.\<close>

definition foreignRevisionMetadata ::
    "apply_context \<Rightarrow> db \<Rightarrow> replication_op \<Rightarrow> json_obj \<Rightarrow> json_obj \<times> db" where
  "foreignRevisionMetadata ctx d r metadata =
     (set_field ''clock_device_id'' (JStr (op_clock_device_id r)) metadata,
      note_foreign_revision (ax_now ctx) d (op_entity_id r) ReplicationPath)"

section \<open>The old side of a reassignment\<close>

definition side_text :: "reassign_side \<Rightarrow> string" where
  "side_text s = (case s of OldSide \<Rightarrow> ''old'' | NewSide \<Rightarrow> ''new'')"

definition reassign_json :: "reassign_payload \<Rightarrow> json" where
  "reassign_json ra = JObj [
     (''operation_id'', JStr (ra_operation_id ra)), (''memory_id'', JStr (ra_memory_id ra)),
     (''old_scope_id'', JStr (ra_old_scope ra)), (''new_scope_id'', JStr (ra_new_scope ra)),
     (''revision'', JNum (of_int (ra_revision ra))), (''side'', JStr (side_text (ra_side ra)))]"

definition row_scope :: "memory_row \<Rightarrow> string" where
  "row_scope m = or_default (clean_text (m_scope_id m)) DEFAULT_SYNC_SCOPE_ID"

definition default_retraction_ok :: "string \<Rightarrow> replication_op \<Rightarrow> memory_row \<Rightarrow> bool" where
  "default_retraction_ok localDeviceId r m \<longleftrightarrow>
     (let sender = clean_text (Some (op_clock_device_id r)); origin = clean_text (m_origin_device_id m) in
      sender \<noteq> None \<and> clean_text (Some (op_device_id r)) = sender
      \<and> origin \<noteq> None \<and> origin = sender \<and> origin \<noteq> Some localDeviceId)"

definition apply_old_side ::
    "apply_context \<Rightarrow> db \<Rightarrow> replication_op \<Rightarrow> reassign_payload \<Rightarrow> string + op_effect" where
  "apply_old_side ctx d r ra = (case find_memory d (op_entity_id r) of
     None \<Rightarrow> Inr (effect OutSkipped (insertReplicationOpRow d r))
   | Some current \<Rightarrow>
       if row_scope current \<noteq> ra_old_scope ra then Inr (effect OutSkipped (insertReplicationOpRow d r))
       else if ra_old_scope ra = DEFAULT_SYNC_SCOPE_ID \<and> \<not> default_retraction_ok (ax_local ctx) r current
       then Inl ''reassign_origin_mismatch''
       else if \<not> isNewerClock (op_clock r) (row_clock current)
       then Inr (effect OutConflict (insertReplicationOpRow d r))
       else (let (meta, d1) = foreignRevisionMetadata ctx d r (fromJson (m_metadata current));
                 meta' = set_field ''last_scope_reassignment'' (reassign_json ra) meta
             in (case update_memories (\<lambda>m. m_id m = m_id current)
                    (\<lambda>m. m\<lparr> m_active := Some 0, m_deleted_at := Some (op_clock_updated_at r),
                            m_rev := Some (op_clock_rev r), m_updated_at := op_clock_updated_at r,
                            m_metadata := Some (toJson (JObj meta')) \<rparr>) d1 of
                   Inl e \<Rightarrow> Inl e
                 | Inr d2 \<Rightarrow> Inr (queue_vector (VectorDelete (m_id current))
                                   (effect OutApplied (insertReplicationOpRow d2 r))))))"

section \<open>Access cleanup\<close>

definition clearRefsBeforeMemoryDeletion :: "apply_context \<Rightarrow> db \<Rightarrow> int \<Rightarrow> string + db" where
  "clearRefsBeforeMemoryDeletion ctx d memoryId =
     (case snapshotSessionExportKeysForMemoryIds (ax_sha256 ctx) True d [memoryId] of
        Inl e \<Rightarrow> Inl e | Inr d' \<Rightarrow> Inr (clearMemoryRefs d' memoryId))"

text \<open>Whether the cleanup happened, the row it deleted, and the database.\<close>

definition applyAccessCleanupForLocalDevice ::
    "apply_context \<Rightarrow> db \<Rightarrow> replication_op \<Rightarrow> string + bool \<times> int option \<times> db" where
  "applyAccessCleanupForLocalDevice ctx d r =
     (let cleanup = parseAccessCleanupPayload r in
      if cl_scope cleanup = None then Inr (False, None, d)
      else (case find_memory d (op_entity_id r) of
              None \<Rightarrow> Inr (True, None, d)
            | Some existing \<Rightarrow>
                if hasRecordedLocalCreation d (op_entity_id r) then Inr (False, None, d)
                else (let source = coalesce (clean_text (Some (op_clock_device_id r))) (clean_text (Some (op_device_id r)));
                          origin = clean_text (m_origin_device_id existing) in
                  if source = None \<or> origin = None \<or> origin \<noteq> source then Inr (False, None, d)
                  else if origin = Some (ax_local ctx) \<or> origin = Some ''local'' then Inr (False, None, d)
                  else if clean_text (m_scope_id existing) \<noteq> cl_scope cleanup then Inr (False, None, d)
                  else (case clearRefsBeforeMemoryDeletion ctx d (m_id existing) of
                          Inl e \<Rightarrow> Inl e
                        | Inr d1 \<Rightarrow> Inr (True, Some (m_id existing),
                            d1\<lparr> memories := delete_where (\<lambda>m. m_id m = m_id existing) (memories d1) \<rparr>)))))"

definition apply_access_cleanup :: "apply_context \<Rightarrow> db \<Rightarrow> replication_op \<Rightarrow> string + op_effect" where
  "apply_access_cleanup ctx d r = (case applyAccessCleanupForLocalDevice ctx d r of
     Inl e \<Rightarrow> Inl e
   | Inr (cleaned, deleted, d1) \<Rightarrow>
       let e = effect (if cleaned then OutApplied else OutSkipped) (insertReplicationOpRow d1 r)
       in Inr (case deleted of None \<Rightarrow> e | Some i \<Rightarrow> queue_vector (VectorDelete i) e))"

section \<open>Upserts\<close>

definition refs_of :: "json \<Rightarrow> string list option" where
  "refs_of v = asStringArrayOrNull v"

definition clean_project :: "memory_payload \<Rightarrow> string option" where
  "clean_project p = clean_text (mp_project p)"

definition next_deleted_at :: "memory_payload \<Rightarrow> memory_row \<Rightarrow> string option" where
  "next_deleted_at p m = (if mp_has_deleted_at p then mp_deleted_at p else m_deleted_at m)"

definition next_active :: "memory_payload \<Rightarrow> memory_row \<Rightarrow> rat" where
  "next_active p m = or_default (mp_active p) (or_default (m_active m) 1)"

definition written_active :: "memory_payload \<Rightarrow> memory_row \<Rightarrow> rat" where
  "written_active p m = (if next_deleted_at p m \<noteq> None then 0 else next_active p m)"

definition nonempty_sql :: "string option \<Rightarrow> string option" where
  "nonempty_sql v = (case v of None \<Rightarrow> None | Some s \<Rightarrow> if sql_trim s = [] then None else Some (sql_trim s))"

text \<open>The columns the update statement sets. The statement hits every row with the import key; the
  decisions about \<open>active\<close> and \<open>deleted_at\<close> are those of the first such row.\<close>

definition merged_row ::
    "replication_op \<Rightarrow> memory_payload \<Rightarrow> json_obj \<Rightarrow> memory_row \<Rightarrow> memory_row \<Rightarrow> memory_row" where
  "merged_row r p meta first m = m\<lparr>
     m_kind := or_default (mp_kind p) (m_kind m),
     m_title := or_default (mp_title p) (m_title m),
     m_subtitle := mp_subtitle p,
     m_body_text := or_default (mp_body_text p) (m_body_text m),
     m_confidence := coalesce (mp_confidence p) (m_confidence m),
     m_tags_text := coalesce (nonempty_sql (mp_tags_text p)) (m_tags_text m),
     m_active := Some (written_active p first),
     m_updated_at := op_clock_updated_at r,
     m_metadata := Some (toJson (JObj meta)),
     m_rev := Some (op_clock_rev r),
     m_deleted_at := next_deleted_at p first,
     m_actor_id := coalesce (mp_actor_id p) (m_actor_id m),
     m_actor_display_name := coalesce (mp_actor_display_name p) (m_actor_display_name m),
     m_visibility := coalesce (mp_visibility p) (m_visibility m),
     m_workspace_id := coalesce (mp_workspace_id p) (m_workspace_id m),
     m_workspace_kind := coalesce (mp_workspace_kind p) (m_workspace_kind m),
     m_origin_device_id := coalesce (mp_origin_device_id p) (m_origin_device_id m),
     m_origin_source := coalesce (mp_origin_source p) (m_origin_source m),
     m_trust_state := coalesce (mp_trust_state p) (m_trust_state m),
     m_narrative := mp_narrative p,
     m_facts := toJsonNullable (mp_facts p),
     m_concepts := toJsonNullable (mp_concepts p),
     m_files_read := toJsonNullable (mp_files_read p),
     m_files_modified := toJsonNullable (mp_files_modified p),
     m_user_prompt_id := mp_user_prompt_id p,
     m_prompt_number := mp_prompt_number p,
     m_scope_id := coalesce (clean_text (op_scope_id r)) (m_scope_id m),
     m_project := coalesce (clean_project p) (m_project m) \<rparr>"

definition update_vector :: "memory_payload \<Rightarrow> memory_row \<Rightarrow> vector_work option" where
  "update_vector p m =
     (let nextTitle = resolveReplicatedTextUpdate (mp_title p) (Some (m_title m));
          nextBody = resolveReplicatedTextUpdate (mp_body_text p) (Some (m_body_text m));
          contentChanged = (nextTitle \<noteq> m_title m \<or> nextBody \<noteq> m_body_text m);
          wasInactive = (or_default (m_active m) 1 = 0 \<or> m_deleted_at m \<noteq> None);
          becomesActive = (next_active p m \<noteq> 0 \<and> next_deleted_at p m = None);
          shouldDelete = (next_deleted_at p m \<noteq> None \<or> written_active p m = 0)
      in if shouldDelete then Some (VectorDelete (m_id m))
         else if contentChanged \<or> (wasInactive \<and> becomesActive) then Some (VectorUpsert (m_id m))
         else None)"

definition with_vector :: "vector_work option \<Rightarrow> op_effect \<Rightarrow> op_effect" where
  "with_vector w e = (case w of None \<Rightarrow> e | Some x \<Rightarrow> queue_vector x e)"

definition malformed :: "db \<Rightarrow> replication_op \<Rightarrow> apply_error list \<Rightarrow> op_effect" where
  "malformed d r errs = (effect OutSkipped (insertReplicationOpRow d r))\<lparr> oe_errors := errs \<rparr>"

definition apply_upsert_update ::
    "apply_context \<Rightarrow> db \<Rightarrow> replication_op \<Rightarrow> reassign_payload option \<Rightarrow> memory_row \<Rightarrow> string + op_effect" where
  "apply_upsert_update ctx d r reassignment m =
     (let sameReassignmentClock = (case reassignment of
            None \<Rightarrow> False
          | Some ra \<Rightarrow> ra_side ra = NewSide \<and> op_clock r = row_clock m \<and> row_scope m = ra_old_scope ra)
      in if (case reassignment of None \<Rightarrow> False
             | Some ra \<Rightarrow> row_scope m \<noteq> ra_old_scope ra \<and> row_scope m \<noteq> ra_new_scope ra)
         then Inl ''reassign_existing_scope_mismatch''
         else if \<not> isNewerClock (op_clock r) (row_clock m) \<and> \<not> sameReassignmentClock
         then Inr (effect OutConflict (insertReplicationOpRow d r))
         else (case parseMemoryPayload r of
                 (None, errs) \<Rightarrow> Inr (malformed d r errs)
               | (Some raw, errs) \<Rightarrow>
                   let p = redactMemoryFields (ax_scan ctx) (ax_redact ctx) raw;
                       (meta, d1) = foreignRevisionMetadata ctx d r (mp_metadata p)
                   in (case update_memories (\<lambda>x. m_import_key x = Some (op_entity_id r))
                              (merged_row r p meta m) d1 of
                         Inl e \<Rightarrow> Inl e
                       | Inr d2 \<Rightarrow>
                           let d3 = populateMemoryRefs (clearMemoryRefs d2 (m_id m)) (m_id m)
                                 (refs_of (mp_files_read p)) (refs_of (mp_files_modified p)) (refs_of (mp_concepts p))
                           in Inr (with_vector (update_vector p m)
                                     (effect OutApplied (insertReplicationOpRow d3 r))))))"

definition new_row ::
    "replication_op \<Rightarrow> memory_payload \<Rightarrow> json_obj \<Rightarrow> int \<Rightarrow> int \<Rightarrow> memory_row" where
  "new_row r p meta rowid sessionId = \<lparr>
     m_id = rowid, m_session_id = sessionId,
     m_kind = or_default (mp_kind p) ''discovery'',
     m_title = or_default (mp_title p) [],
     m_subtitle = mp_subtitle p,
     m_body_text = or_default (mp_body_text p) [],
     m_confidence = Some (or_default (mp_confidence p) (1 / 2)),
     m_tags_text = Some (resolveReplicatedTags p),
     m_active = Some (or_default (mp_active p) 1),
     m_created_at = or_default (mp_created_at p) (op_clock_updated_at r),
     m_updated_at = op_clock_updated_at r,
     m_metadata = Some (toJson (JObj meta)),
     m_actor_id = mp_actor_id p, m_actor_display_name = mp_actor_display_name p,
     m_visibility = mp_visibility p, m_workspace_id = mp_workspace_id p,
     m_workspace_kind = mp_workspace_kind p, m_origin_device_id = mp_origin_device_id p,
     m_origin_source = mp_origin_source p, m_trust_state = mp_trust_state p,
     m_facts = toJsonNullable (mp_facts p), m_narrative = mp_narrative p,
     m_concepts = toJsonNullable (mp_concepts p), m_files_read = toJsonNullable (mp_files_read p),
     m_files_modified = toJsonNullable (mp_files_modified p),
     m_user_prompt_id = mp_user_prompt_id p, m_prompt_number = mp_prompt_number p,
     m_deleted_at = mp_deleted_at p, m_rev = Some (op_clock_rev r), m_dedup_key = None,
     m_import_key = Some (op_entity_id r), m_scope_id = clean_text (op_scope_id r),
     m_project = clean_project p \<rparr>"

definition insert_vector :: "memory_payload \<Rightarrow> int \<Rightarrow> vector_work" where
  "insert_vector p i = (if mp_deleted_at p \<noteq> None \<or> or_default (mp_active p) 1 = 0
     then VectorDelete i else VectorUpsert i)"

definition apply_upsert_insert :: "apply_context \<Rightarrow> db \<Rightarrow> replication_op \<Rightarrow> op_effect" where
  "apply_upsert_insert ctx d r = (case parseMemoryPayload r of
     (None, errs) \<Rightarrow> malformed d r errs
   | (Some raw, errs) \<Rightarrow>
       let p = redactMemoryFields (ax_scan ctx) (ax_redact ctx) raw;
           (sessionId, d1) = ensureSessionForReplication (ax_now ctx) d None (op_clock_updated_at r) (clean_project p);
           (meta, d2) = foreignRevisionMetadata ctx d1 r (mp_metadata p);
           rowid = next_memory_id d2;
           d3 = d2\<lparr> memories := memories d2 @ [new_row r p meta rowid sessionId] \<rparr>;
           d4 = populateMemoryRefs d3 rowid (refs_of (mp_files_read p)) (refs_of (mp_files_modified p))
                  (refs_of (mp_concepts p))
       in queue_vector (insert_vector p rowid) (effect OutApplied (insertReplicationOpRow d4 r)))"

section \<open>Deletes\<close>

definition tombstoned_row :: "apply_context \<Rightarrow> replication_op \<Rightarrow> json_obj \<Rightarrow> memory_row \<Rightarrow> memory_row" where
  "tombstoned_row ctx r meta m = m\<lparr>
     m_active := Some 0,
     m_deleted_at := coalesce (m_deleted_at m) (Some (ax_now ctx)),
     m_rev := Some (op_clock_rev r),
     m_updated_at := op_clock_updated_at r,
     m_metadata := Some (toJson (JObj meta)),
     m_scope_id := coalesce (clean_text (op_scope_id r)) (m_scope_id m) \<rparr>"

definition apply_delete :: "apply_context \<Rightarrow> db \<Rightarrow> replication_op \<Rightarrow> string + op_effect" where
  "apply_delete ctx d r = (case find_memory d (op_entity_id r) of
     None \<Rightarrow> Inr (effect OutSkipped (insertReplicationOpRow d r))
   | Some m \<Rightarrow>
       if \<not> isNewerClock (op_clock r) (row_clock m)
       then Inr (effect OutConflict (insertReplicationOpRow d r))
       else (let (meta, d1) = foreignRevisionMetadata ctx d r (fromJson (m_metadata m)) in
         (case update_memories (\<lambda>x. m_id x = m_id m) (tombstoned_row ctx r meta) d1 of
            Inl e \<Rightarrow> Inl e
          | Inr d2 \<Rightarrow> Inr (queue_vector (VectorDelete (m_id m))
                            (effect OutApplied (insertReplicationOpRow d2 r))))))"

section \<open>One op, and the batch\<close>

definition skipOwnOrRetiredMemoryOp :: "db \<Rightarrow> replication_op \<Rightarrow> string \<Rightarrow> bool" where
  "skipOwnOrRetiredMemoryOp d r localDeviceId \<longleftrightarrow>
     op_device_id r = localDeviceId \<or> retirementBlocksMemoryOp d r"

definition skipOwnRetiredOrAppliedOp :: "db \<Rightarrow> replication_op \<Rightarrow> string \<Rightarrow> bool" where
  "skipOwnRetiredOrAppliedOp d r localDeviceId \<longleftrightarrow>
     skipOwnOrRetiredMemoryOp d r localDeviceId \<or> exists_where (\<lambda>x. op_id x = op_id r) (ops d)"

definition apply_upsert ::
    "apply_context \<Rightarrow> db \<Rightarrow> replication_op \<Rightarrow> reassign_payload option \<Rightarrow> string + op_effect" where
  "apply_upsert ctx d r reassignment = (case find_memory d (op_entity_id r) of
     Some m \<Rightarrow> apply_upsert_update ctx d r reassignment m
   | None \<Rightarrow> Inr (apply_upsert_insert ctx d r))"

definition apply_op :: "apply_context \<Rightarrow> db \<Rightarrow> replication_op \<Rightarrow> string + op_effect" where
  "apply_op ctx d r =
     (if skipOwnRetiredOrAppliedOp d r (ax_local ctx) then Inr (effect OutSkipped d)
      else if op_type r = REASSIGN_SCOPE_OP_TYPE
      then (case parseReassignScopePayload r of
              None \<Rightarrow> Inl ''reassign_payload_invalid''
            | Some ra \<Rightarrow>
                if ra_side ra = OldSide then apply_old_side ctx d r ra else apply_upsert ctx d r (Some ra))
      else if op_type r = ACCESS_CLEANUP_OP_TYPE then apply_access_cleanup ctx d r
      else if op_type r = ''upsert'' then apply_upsert ctx d r None
      else if op_type r = ''delete'' then apply_delete ctx d r
      else Inr (effect OutSkipped (insertReplicationOpRow d r)))"

text \<open>A JavaScript \<open>Set\<close>: insertion order, no duplicates.\<close>

definition set_add :: "int \<Rightarrow> int list \<Rightarrow> int list" where
  "set_add i xs = (if i \<in> set xs then xs else xs @ [i])"

definition set_remove :: "int \<Rightarrow> int list \<Rightarrow> int list" where
  "set_remove i xs = filter (\<lambda>x. x \<noteq> i) xs"

definition finish_vectors :: "vector_work option \<Rightarrow> apply_result \<Rightarrow> apply_result" where
  "finish_vectors w res = (case w of
     None \<Rightarrow> res
   | Some (VectorUpsert i) \<Rightarrow> res\<lparr> ap_delete_vectors := set_remove i (ap_delete_vectors res),
                                  ap_upsert_vectors := set_add i (ap_upsert_vectors res) \<rparr>
   | Some (VectorDelete i) \<Rightarrow> res\<lparr> ap_upsert_vectors := set_remove i (ap_upsert_vectors res),
                                  ap_delete_vectors := set_add i (ap_delete_vectors res) \<rparr>)"

definition count_outcome :: "op_outcome \<Rightarrow> apply_result \<Rightarrow> apply_result" where
  "count_outcome out res = (case out of
     OutApplied \<Rightarrow> res\<lparr> ap_applied := ap_applied res + 1 \<rparr>
   | OutSkipped \<Rightarrow> res\<lparr> ap_skipped := ap_skipped res + 1 \<rparr>
   | OutConflict \<Rightarrow> res\<lparr> ap_conflicts := ap_conflicts res + 1 \<rparr>)"

text \<open>The savepoint of one op: \<open>rollbackReplicationOp\<close> on an exception, \<open>finishReplicationOp\<close> always.\<close>

definition apply_step :: "apply_context \<Rightarrow> replication_op \<Rightarrow> apply_result \<times> db \<Rightarrow> apply_result \<times> db" where
  "apply_step ctx r st = (case apply_op ctx (snd st) r of
     Inl e \<Rightarrow> ((fst st)\<lparr> ap_errors := ap_errors (fst st) @ [OpFailed (op_id r) e] \<rparr>, snd st)
   | Inr eff \<Rightarrow>
       (finish_vectors (oe_vector eff)
          (count_outcome (oe_outcome eff) ((fst st)\<lparr> ap_errors := ap_errors (fst st) @ oe_errors eff \<rparr>)),
        oe_db eff))"

definition applyReplicationOps ::
    "apply_context \<Rightarrow> inbound_options option \<Rightarrow> db \<Rightarrow> replication_op list \<Rightarrow> apply_result \<times> db" where
  "applyReplicationOps ctx validation d rs =
     (case (case validation of
              None \<Rightarrow> None
            | Some opts \<Rightarrow> rejectUnretiredScopeFailures (ax_now ctx) d rs (ax_local ctx) opts) of
        Some rejected \<Rightarrow> rejected
      | None \<Rightarrow> fold (apply_step ctx) rs (emptyApplyResult, d))"

end
