(* ===== verification/Apply_Correct.thy ===== *)
theory Apply_Correct
  imports Apply_Ops
begin

text \<open>
  Correctness of the application of received ops: what each kind of op leaves alone, that the clocks of the
  stored memories only move forward, that redelivery is harmless, that a retired memory stays out, and
  that the tables keep their keys.
\<close>

section \<open>Effects as database changes\<close>

lemma oe_db_simps [simp]:
  "oe_db (effect out d) = d" "oe_db (queue_vector w e) = oe_db e" "oe_db (with_vector v e) = oe_db e"
  "oe_db (malformed d r errs) = insertReplicationOpRow d r"
  "oe_outcome (effect out d) = out" "oe_outcome (queue_vector w e) = oe_outcome e"
  "oe_outcome (with_vector v e) = oe_outcome e" "oe_outcome (malformed d r errs) = OutSkipped"
  by (simp_all add: effect_def queue_vector_def with_vector_def malformed_def Let_def
      split: option.splits vector_work.splits)

lemma insertReplicationOpRow_frame [simp]:
  "memories (insertReplicationOpRow d r) = memories d"
  "retirements (insertReplicationOpRow d r) = retirements d"
  "sessions (insertReplicationOpRow d r) = sessions d"
  "ops (insertReplicationOpRow d r) = insert_or_ignore op_id r (ops d)"
  by (simp_all add: insertReplicationOpRow_def)

lemma note_foreign_revision_frame [simp]:
  "memories (note_foreign_revision now d e p) = memories d" "ops (note_foreign_revision now d e p) = ops d"
  "retirements (note_foreign_revision now d e p) = retirements d"
  "sessions (note_foreign_revision now d e p) = sessions d"
  by (simp_all add: note_foreign_revision_def)

lemma ensureSession_frame [simp]:
  "memories (snd (ensureSessionForReplication w d i c p)) = memories d"
  "ops (snd (ensureSessionForReplication w d i c p)) = ops d"
  "retirements (snd (ensureSessionForReplication w d i c p)) = retirements d"
  by (simp_all add: ensureSessionForReplication_def split: option.splits)

lemma update_memories_Inr:
  "update_memories p f d = Inr d' \<Longrightarrow> memories d' = update_where p f (memories d)
     \<and> ops d' = ops d \<and> retirements d' = retirements d \<and> dedup_index_ok (memories d')"
  by (auto simp: update_memories_def Let_def split: if_splits)

lemma clearRefsBeforeMemoryDeletion_frame:
  "clearRefsBeforeMemoryDeletion ctx d i = Inr d' \<Longrightarrow>
     memories d' = memories d \<and> ops d' = ops d \<and> retirements d' = retirements d"
proof -
  assume *: "clearRefsBeforeMemoryDeletion ctx d i = Inr d'"
  obtain ss where ss: "snapshotSessionExportKeysForMemoryIds (ax_sha256 ctx) True d [i] = Inr (d\<lparr> sessions := ss \<rparr>)"
    using snapshotSessionExportKeys_only by blast
  with * have "d' = clearMemoryRefs (d\<lparr> sessions := ss \<rparr>) i"
    by (simp add: clearRefsBeforeMemoryDeletion_def)
  then show ?thesis by (simp add: frame)
qed

text \<open>How the memories table may change: the row of an import key is rewritten in place, one row is
  appended, or one row is deleted.\<close>

datatype memory_change = Unchanged | Rewritten "memory_row \<Rightarrow> bool" "memory_row \<Rightarrow> memory_row"
  | Appended memory_row | Removed int

fun change_rows :: "memory_change \<Rightarrow> memory_row list \<Rightarrow> memory_row list" where
  "change_rows Unchanged rows = rows"
| "change_rows (Rewritten p f) rows = update_where p f rows"
| "change_rows (Appended m) rows = rows @ [m]"
| "change_rows (Removed i) rows = delete_where (\<lambda>m. m_id m = i) rows"

definition recorded :: "db \<Rightarrow> replication_op \<Rightarrow> op_effect \<Rightarrow> memory_change \<Rightarrow> bool" where
  "recorded d r e c \<longleftrightarrow> memories (oe_db e) = change_rows c (memories d)
     \<and> ops (oe_db e) = insert_or_ignore op_id r (ops d) \<and> retirements (oe_db e) = retirements d"

lemma recorded_simps [simp]:
  "recorded d r (queue_vector w e) c = recorded d r e c"
  "recorded d r (with_vector v e) c = recorded d r e c"
  by (simp_all add: recorded_def)

lemma recorded_unchanged [simp]:
  "recorded d r (effect out (insertReplicationOpRow d r)) Unchanged"
  "recorded d r (malformed d r errs) Unchanged"
  by (simp_all add: recorded_def)

subsection \<open>The four kinds of op\<close>

lemma apply_old_side_change:
  assumes "apply_old_side ctx d r ra = Inr e"
  shows "recorded d r e Unchanged \<or>
    (\<exists>m meta. find_memory d (op_entity_id r) = Some m \<and> isNewerClock (op_clock r) (row_clock m)
       \<and> recorded d r e (Rewritten (\<lambda>x. m_id x = m_id m)
           (\<lambda>x. x\<lparr> m_active := Some 0, m_deleted_at := Some (op_clock_updated_at r),
                   m_rev := Some (op_clock_rev r), m_updated_at := op_clock_updated_at r,
                   m_metadata := Some (toJson (JObj meta)) \<rparr>))
       \<and> field ''clock_device_id'' meta = Some (JStr (op_clock_device_id r)) \<and> oe_outcome e = OutApplied)"
  using assms
  by (auto simp: apply_old_side_def foreignRevisionMetadata_def Let_def recorded_def
      split: option.splits if_splits sum.splits dest!: update_memories_Inr)

lemma apply_delete_change:
  assumes "apply_delete ctx d r = Inr e"
  shows "recorded d r e Unchanged \<and> (\<forall>m. find_memory d (op_entity_id r) = Some m \<longrightarrow> \<not> isNewerClock (op_clock r) (row_clock m)) \<or>
    (\<exists>m meta. find_memory d (op_entity_id r) = Some m \<and> isNewerClock (op_clock r) (row_clock m)
       \<and> recorded d r e (Rewritten (\<lambda>x. m_id x = m_id m) (tombstoned_row ctx r meta))
       \<and> field ''clock_device_id'' meta = Some (JStr (op_clock_device_id r)) \<and> oe_outcome e = OutApplied)"
  using assms
  by (auto simp: apply_delete_def foreignRevisionMetadata_def Let_def recorded_def
      split: option.splits if_splits sum.splits dest!: update_memories_Inr)

lemma apply_access_cleanup_change:
  assumes "apply_access_cleanup ctx d r = Inr e"
  shows "recorded d r e Unchanged \<or>
    (\<exists>m. find_memory d (op_entity_id r) = Some m \<and> recorded d r e (Removed (m_id m)))"
  using assms
  by (auto simp: apply_access_cleanup_def applyAccessCleanupForLocalDevice_def Let_def recorded_def
      split: option.splits if_splits sum.splits prod.splits dest!: clearRefsBeforeMemoryDeletion_frame)

lemma apply_upsert_insert_change:
  assumes "find_memory d (op_entity_id r) = None"
  shows "recorded d r (apply_upsert_insert ctx d r) Unchanged \<and> fst (parseMemoryPayload r) = None
    \<or> (\<exists>raw meta sid. fst (parseMemoryPayload r) = Some raw
        \<and> recorded d r (apply_upsert_insert ctx d r)
            (Appended (new_row r (redactMemoryFields (ax_scan ctx) (ax_redact ctx) raw) meta (next_memory_id d) sid))
        \<and> field ''clock_device_id'' meta = Some (JStr (op_clock_device_id r))
        \<and> oe_outcome (apply_upsert_insert ctx d r) = OutApplied)"
proof (cases "parseMemoryPayload r")
  case (Pair parsed errs)
  show ?thesis
  proof (cases parsed)
    case None
    then show ?thesis using Pair by (simp add: apply_upsert_insert_def)
  next
    case (Some raw)
    let ?p = "redactMemoryFields (ax_scan ctx) (ax_redact ctx) raw"
    obtain sid d1 where es: "ensureSessionForReplication (ax_now ctx) d None (op_clock_updated_at r)
        (clean_project ?p) = (sid, d1)"
      by (cases "ensureSessionForReplication (ax_now ctx) d None (op_clock_updated_at r) (clean_project ?p)")
    then have d1: "memories d1 = memories d" "ops d1 = ops d" "retirements d1 = retirements d"
      by (metis ensureSession_frame snd_conv)+
    let ?meta = "set_field ''clock_device_id'' (JStr (op_clock_device_id r)) (mp_metadata ?p)"
    have "recorded d r (apply_upsert_insert ctx d r) (Appended (new_row r ?p ?meta (next_memory_id d) sid))
        \<and> oe_outcome (apply_upsert_insert ctx d r) = OutApplied"
      using Pair Some es d1
      by (simp add: apply_upsert_insert_def Let_def foreignRevisionMetadata_def recorded_def frame next_memory_id_def)
    moreover have "field ''clock_device_id'' ?meta = Some (JStr (op_clock_device_id r))" by simp
    moreover have "fst (parseMemoryPayload r) = Some raw" using Pair Some by simp
    ultimately show ?thesis by blast
  qed
qed

lemma apply_upsert_update_change:
  assumes "apply_upsert_update ctx d r re m = Inr e"
  shows "recorded d r e Unchanged \<and> (fst (parseMemoryPayload r) = None \<or> \<not> isNewerClock (op_clock r) (row_clock m))
    \<or> (\<exists>raw meta. fst (parseMemoryPayload r) = Some raw
        \<and> (isNewerClock (op_clock r) (row_clock m) \<or> op_clock r = row_clock m \<and> re \<noteq> None)
        \<and> recorded d r e (Rewritten (\<lambda>x. m_import_key x = Some (op_entity_id r))
            (merged_row r (redactMemoryFields (ax_scan ctx) (ax_redact ctx) raw) meta m))
        \<and> field ''clock_device_id'' meta = Some (JStr (op_clock_device_id r)) \<and> oe_outcome e = OutApplied)"
  using assms
  by (auto simp: apply_upsert_update_def foreignRevisionMetadata_def Let_def recorded_def frame
      split: option.splits if_splits sum.splits prod.splits dest!: update_memories_Inr)


subsection \<open>All ops\<close>

definition retracted_row :: "replication_op \<Rightarrow> json_obj \<Rightarrow> memory_row \<Rightarrow> memory_row" where
  "retracted_row r meta x = x\<lparr> m_active := Some 0, m_deleted_at := Some (op_clock_updated_at r),
     m_rev := Some (op_clock_rev r), m_updated_at := op_clock_updated_at r,
     m_metadata := Some (toJson (JObj meta)) \<rparr>"

text \<open>The changes an op can make to the memories, with what made them possible.\<close>

inductive op_change :: "apply_context \<Rightarrow> db \<Rightarrow> replication_op \<Rightarrow> memory_change \<Rightarrow> bool"
  for ctx d r where
  keep: "op_change ctx d r Unchanged"
| retract: "op_change ctx d r (Rewritten (\<lambda>x. m_id x = m_id m) (retracted_row r meta))"
    if "find_memory d (op_entity_id r) = Some m" "isNewerClock (op_clock r) (row_clock m)"
      "op_type r = REASSIGN_SCOPE_OP_TYPE"
      "field ''clock_device_id'' meta = Some (JStr (op_clock_device_id r))"
| tombstone: "op_change ctx d r (Rewritten (\<lambda>x. m_id x = m_id m) (tombstoned_row ctx r meta))"
    if "find_memory d (op_entity_id r) = Some m" "isNewerClock (op_clock r) (row_clock m)"
      "op_type r = ''delete''"
      "field ''clock_device_id'' meta = Some (JStr (op_clock_device_id r))"
| merge: "op_change ctx d r (Rewritten (\<lambda>x. m_import_key x = Some (op_entity_id r)) (merged_row r p meta m))"
    if "find_memory d (op_entity_id r) = Some m"
      "isNewerClock (op_clock r) (row_clock m) \<or> op_clock r = row_clock m"
      "op_type r = ''upsert'' \<or> op_type r = REASSIGN_SCOPE_OP_TYPE"
      "field ''clock_device_id'' meta = Some (JStr (op_clock_device_id r))"
| insert: "op_change ctx d r (Appended (new_row r p meta (next_memory_id d) sid))"
    if "find_memory d (op_entity_id r) = None"
      "op_type r = ''upsert'' \<or> op_type r = REASSIGN_SCOPE_OP_TYPE"
      "field ''clock_device_id'' meta = Some (JStr (op_clock_device_id r))"
| remove: "op_change ctx d r (Removed (m_id m))"
    if "find_memory d (op_entity_id r) = Some m" "op_type r = ACCESS_CLEANUP_OP_TYPE"

lemma op_types_differ:
  "''upsert'' \<noteq> REASSIGN_SCOPE_OP_TYPE" "''delete'' \<noteq> REASSIGN_SCOPE_OP_TYPE"
  "ACCESS_CLEANUP_OP_TYPE \<noteq> REASSIGN_SCOPE_OP_TYPE" "''upsert'' \<noteq> ACCESS_CLEANUP_OP_TYPE"
  "''delete'' \<noteq> ACCESS_CLEANUP_OP_TYPE"
  by (simp_all add: REASSIGN_SCOPE_OP_TYPE_def ACCESS_CLEANUP_OP_TYPE_def)

lemma apply_upsert_op_change:
  assumes "apply_upsert ctx d r re = Inr e" "op_type r = ''upsert'' \<or> op_type r = REASSIGN_SCOPE_OP_TYPE"
  shows "\<exists>c. recorded d r e c \<and> op_change ctx d r c"
proof -
  have keep: "recorded d r e Unchanged \<Longrightarrow> ?thesis" using op_change.keep by blast
  show ?thesis
  proof (cases "find_memory d (op_entity_id r)")
    case None
    then have e: "e = apply_upsert_insert ctx d r" using assms by (simp add: apply_upsert_def)
    have ins: "recorded d r e (Appended (new_row r p meta (next_memory_id d) sid)) \<Longrightarrow>
        field ''clock_device_id'' meta = Some (JStr (op_clock_device_id r)) \<Longrightarrow> ?thesis" for p meta sid
      using op_change.insert [OF None assms(2)] by blast
    show ?thesis
      using apply_upsert_insert_change [OF None, of ctx] keep ins unfolding e by (elim disjE exE conjE) simp_all
  next
    case (Some m)
    then have u: "apply_upsert_update ctx d r re m = Inr e" using assms by (simp add: apply_upsert_def)
    have mer: "recorded d r e (Rewritten (\<lambda>x. m_import_key x = Some (op_entity_id r)) (merged_row r p meta m)) \<Longrightarrow>
        isNewerClock (op_clock r) (row_clock m) \<or> op_clock r = row_clock m \<Longrightarrow>
        field ''clock_device_id'' meta = Some (JStr (op_clock_device_id r)) \<Longrightarrow> ?thesis" for p meta
      using op_change.merge [OF Some _ assms(2)] by blast
    show ?thesis
      using apply_upsert_update_change [OF u] keep mer by (elim disjE exE conjE) simp_all
  qed
qed

lemma apply_op_change:
  assumes "apply_op ctx d r = Inr e"
  shows "skipOwnRetiredOrAppliedOp d r (ax_local ctx) \<and> e = effect OutSkipped d
    \<or> \<not> skipOwnRetiredOrAppliedOp d r (ax_local ctx) \<and> (\<exists>c. recorded d r e c \<and> op_change ctx d r c)"
proof (cases "skipOwnRetiredOrAppliedOp d r (ax_local ctx)")
  case True
  then show ?thesis using assms by (simp add: apply_op_def)
next
  case False
  consider (old) ra where "op_type r = REASSIGN_SCOPE_OP_TYPE" "apply_old_side ctx d r ra = Inr e"
    | (up) re where "op_type r = ''upsert'' \<or> op_type r = REASSIGN_SCOPE_OP_TYPE" "apply_upsert ctx d r re = Inr e"
    | (clean) "op_type r = ACCESS_CLEANUP_OP_TYPE" "apply_access_cleanup ctx d r = Inr e"
    | (del) "op_type r = ''delete''" "apply_delete ctx d r = Inr e"
    | (other) "e = effect OutSkipped (insertReplicationOpRow d r)"
    using assms False by (auto simp: apply_op_def split: if_splits option.splits)
  then have "\<exists>c. recorded d r e c \<and> op_change ctx d r c"
  proof cases
    case old
    from apply_old_side_change [OF old(2)] show ?thesis
      using op_change.retract [of d r _ _ ctx] old(1) unfolding retracted_row_def [abs_def]
      by (meson op_change.keep)
  next
    case up
    then show ?thesis using apply_upsert_op_change by blast
  next
    case clean
    then show ?thesis using apply_access_cleanup_change [OF clean(2)]
      by (meson op_change.keep op_change.remove)
  next
    case del
    then have tomb: "find_memory d (op_entity_id r) = Some m \<Longrightarrow> isNewerClock (op_clock r) (row_clock m) \<Longrightarrow>
        recorded d r e (Rewritten (\<lambda>x. m_id x = m_id m) (tombstoned_row ctx r meta)) \<Longrightarrow>
        field ''clock_device_id'' meta = Some (JStr (op_clock_device_id r)) \<Longrightarrow>
        \<exists>c. recorded d r e c \<and> op_change ctx d r c" for m meta
      using op_change.tombstone by blast
    show ?thesis using apply_delete_change [OF del(2)] op_change.keep tomb by (elim disjE exE conjE) blast+
  next
    case other
    then show ?thesis using recorded_unchanged(1) op_change.keep by blast
  qed
  with False show ?thesis by blast
qed

section \<open>Keys\<close>

text \<open>Primary keys and the log are keyed, and no two memories share an import key.\<close>

definition wf_tables :: "db \<Rightarrow> bool" where
  "wf_tables d \<longleftrightarrow> distinct (map m_id (memories d)) \<and> distinct (map op_id (ops d))
     \<and> distinct (List.map_filter m_import_key (memories d))"

lemma map_update_where:
  "(\<And>x. key (f x) = key x) \<Longrightarrow> map key (update_where p f rows) = map key rows"
  by (simp add: update_where_def)

lemma map_filter_update_where:
  "(\<And>x. key (f x) = key x) \<Longrightarrow> List.map_filter key (update_where p f rows) = List.map_filter key rows"
  by (induction rows) (simp_all add: update_where_def List.map_filter_simps split: option.splits)

lemma map_filter_delete_where: "distinct (List.map_filter key rows) \<Longrightarrow> distinct (List.map_filter key (delete_where p rows))"
proof -
  have sub: "set (List.map_filter key (delete_where p rows)) \<subseteq> set (List.map_filter key rows)" for rows
    by (auto simp: List.map_filter_def delete_where_def)
  show "distinct (List.map_filter key rows) \<Longrightarrow> ?thesis"
  proof (induction rows)
    case (Cons x rows)
    show ?case
    proof (cases "key x")
      case None
      with Cons show ?thesis by (simp add: delete_where_def List.map_filter_simps)
    next
      case (Some y)
      with Cons have "distinct (List.map_filter key (delete_where p rows))" "y \<notin> set (List.map_filter key rows)"
        by (simp_all add: List.map_filter_simps)
      with Some sub [of rows] show ?thesis by (auto simp: delete_where_def List.map_filter_simps)
    qed
  qed (simp add: delete_where_def List.map_filter_simps)
qed

lemma row_keys [simp]:
  "m_id (retracted_row r meta x) = m_id x" "m_import_key (retracted_row r meta x) = m_import_key x"
  "m_id (tombstoned_row ctx r meta x) = m_id x" "m_import_key (tombstoned_row ctx r meta x) = m_import_key x"
  "m_id (merged_row r p meta m x) = m_id x" "m_import_key (merged_row r p meta m x) = m_import_key x"
  "m_id (new_row r p meta i sid) = i" "m_import_key (new_row r p meta i sid) = Some (op_entity_id r)"
  by (simp_all add: retracted_row_def tombstoned_row_def merged_row_def new_row_def)

lemma next_memory_id_fresh: "m \<in> set (memories d) \<Longrightarrow> m_id m < next_memory_id d"
proof -
  assume "m \<in> set (memories d)"
  then have "m_id m \<le> Max (insert 0 (set (map m_id (memories d))))" by (intro Max_ge) auto
  then show ?thesis by (simp add: next_memory_id_def)
qed

lemma op_change_keys:
  assumes "op_change ctx d r c" "distinct (map m_id (memories d))" "distinct (List.map_filter m_import_key (memories d))"
  shows "distinct (map m_id (change_rows c (memories d)))
    \<and> distinct (List.map_filter m_import_key (change_rows c (memories d)))"
  using assms
proof cases
  case (insert p meta sid)
  have "next_memory_id d \<notin> set (map m_id (memories d))"
    using next_memory_id_fresh [of _ d] by fastforce
  moreover have "op_entity_id r \<notin> set (List.map_filter m_import_key (memories d))"
    using insert(2) by (auto simp: find_memory_def first_where_None_iff List.map_filter_def)
  ultimately show ?thesis using assms(2,3) insert(1)
    by (simp add: List.map_filter_def)
qed (simp_all add: map_update_where map_filter_update_where distinct_delete_where map_filter_delete_where)

lemma apply_op_wf:
  assumes "apply_op ctx d r = Inr e" "wf_tables d"
  shows "wf_tables (oe_db e)"
  using apply_op_change [OF assms(1)]
proof (elim disjE conjE exE)
  assume "e = effect OutSkipped d"
  then show ?thesis using assms(2) by simp
next
  fix c
  assume c: "recorded d r e c" "op_change ctx d r c"
  then show ?thesis
    using assms(2) op_change_keys [OF c(2)] distinct_insert_or_ignore [of op_id "ops d" r]
    by (simp add: wf_tables_def recorded_def)
qed

lemma apply_step_wf: "wf_tables (snd st) \<Longrightarrow> wf_tables (snd (apply_step ctx r st))"
  by (auto simp: apply_step_def split: sum.splits dest: apply_op_wf)

lemma apply_steps_wf: "wf_tables (snd st) \<Longrightarrow> wf_tables (snd (fold (apply_step ctx) rs st))"
  by (induction rs arbitrary: st) (simp_all add: apply_step_wf)

section \<open>What an op does to the memory of a key\<close>

definition rows_with_key :: "string \<Rightarrow> memory_row list \<Rightarrow> memory_row option" where
  "rows_with_key k rows = first_where (\<lambda>m. m_import_key m = Some k) rows"

lemma find_memory_rows: "find_memory d k = rows_with_key k (memories d)"
  by (simp add: find_memory_def rows_with_key_def)

lemma rows_with_key_update:
  assumes "\<And>x. m_import_key (f x) = m_import_key x"
  shows "rows_with_key k (update_where p f rows) = map_option (\<lambda>x. if p x then f x else x) (rows_with_key k rows)"
  unfolding rows_with_key_def by (rule first_where_update) (simp add: assms)

lemma rows_with_key_SomeD: "rows_with_key k rows = Some m \<Longrightarrow> m \<in> set rows \<and> m_import_key m = Some k"
  unfolding rows_with_key_def by (drule first_where_SomeD) simp

lemma distinct_key_eq:
  "distinct (map key xs) \<Longrightarrow> x \<in> set xs \<Longrightarrow> y \<in> set xs \<Longrightarrow> key x = key y \<Longrightarrow> x = y"
  by (metis distinct_map inj_onD)

lemma rows_with_key_rewrite_id:
  assumes "distinct (map m_id rows)" "rows_with_key k0 rows = Some m"
    "\<And>x. m_import_key (f x) = m_import_key x"
  shows "rows_with_key k (update_where (\<lambda>x. m_id x = m_id m) f rows) =
    (if k = k0 then Some (f m) else rows_with_key k rows)"
proof (cases "k = k0")
  case True
  then show ?thesis using assms by (simp add: rows_with_key_update)
next
  case False
  have "map_option (\<lambda>x. if m_id x = m_id m then f x else x) (rows_with_key k rows) = rows_with_key k rows"
  proof (cases "rows_with_key k rows")
    case (Some x)
    from rows_with_key_SomeD [OF this] rows_with_key_SomeD [OF assms(2)] False
    have "x \<noteq> m" "x \<in> set rows" "m \<in> set rows" by auto
    then have "m_id x \<noteq> m_id m" using distinct_key_eq [OF assms(1)] by blast
    then show ?thesis using Some by simp
  qed simp
  then show ?thesis using False by (simp add: rows_with_key_update assms(3))
qed

lemma rows_with_key_rewrite_key:
  assumes "rows_with_key k0 rows = Some m" "\<And>x. m_import_key (f x) = m_import_key x"
  shows "rows_with_key k (update_where (\<lambda>x. m_import_key x = Some k0) f rows) =
    (if k = k0 then Some (f m) else rows_with_key k rows)"
  using assms rows_with_key_SomeD [OF assms(1)]
  by (cases "rows_with_key k rows") (auto simp: rows_with_key_update dest: rows_with_key_SomeD)

lemma rows_with_key_remove:
  assumes "distinct (map m_id rows)" "distinct (List.map_filter m_import_key rows)" "rows_with_key k0 rows = Some m"
  shows "rows_with_key k (delete_where (\<lambda>x. m_id x = m_id m) rows) = (if k = k0 then None else rows_with_key k rows)"
proof -
  have m: "m \<in> set rows" "m_import_key m = Some k0" using assms(3) by (auto dest: rows_with_key_SomeD)
  have only: "x = m" if "x \<in> set rows" "m_import_key x = Some k0" for x
    using assms(2) that m
  proof (induction rows)
    case (Cons a rows)
    have "y \<in> set rows \<Longrightarrow> m_import_key y = Some k0 \<Longrightarrow> k0 \<in> set (List.map_filter m_import_key rows)" for y
      by (force simp: List.map_filter_def)
    with Cons show ?case by (auto simp: List.map_filter_simps split: option.splits)
  qed simp
  have gone: "rows_with_key k0 (delete_where (\<lambda>x. m_id x = m_id m) rows) = None"
    unfolding rows_with_key_def first_where_None_iff set_delete_where using only by auto
  have stay: "rows_with_key k (delete_where (\<lambda>x. m_id x = m_id m) rs) = rows_with_key k rs"
    if "k \<noteq> k0" "\<And>x. x \<in> set rs \<Longrightarrow> m_id x = m_id m \<Longrightarrow> x = m" for rs
    using that
  proof (induction rs)
    case (Cons a rs)
    have "m_id a = m_id m \<Longrightarrow> a = m" by (rule Cons.prems(2)) simp_all
    then have "m_import_key a = Some k \<Longrightarrow> m_id a \<noteq> m_id m" using m(2) Cons.prems(1) by auto
    moreover have "rows_with_key k (delete_where (\<lambda>x. m_id x = m_id m) rs) = rows_with_key k rs"
      by (rule Cons.IH [OF Cons.prems(1)]) (rule Cons.prems(2), simp_all)
    ultimately show ?case by (auto simp: delete_where_def rows_with_key_def)
  qed (simp add: delete_where_def)
  show ?thesis using gone stay [of rows] distinct_key_eq [OF assms(1) _ m(1)] by auto
qed

lemma row_clock_rows [simp]:
  assumes "field ''clock_device_id'' meta = Some (JStr (op_clock_device_id r))"
  shows "row_clock (retracted_row r meta x) = op_clock r"
    "row_clock (tombstoned_row ctx r meta x) = op_clock r"
    "row_clock (merged_row r p meta m x) = op_clock r"
    "row_clock (new_row r p meta i sid) = op_clock r"
proof -
  have "clockDeviceIdFromMetadataJson (Some (toJson (JObj meta))) = op_clock_device_id r"
    using assms by (simp add: clockDeviceIdFromMetadataJson_def fromJson_def toJson_def text_is_empty_def
      json_parse_def as_object_def as_text_def)
  then show "row_clock (retracted_row r meta x) = op_clock r"
    "row_clock (tombstoned_row ctx r meta x) = op_clock r"
    "row_clock (merged_row r p meta m x) = op_clock r"
    "row_clock (new_row r p meta i sid) = op_clock r"
    by (simp_all add: row_clock_def op_clock_def retracted_row_def tombstoned_row_def merged_row_def new_row_def)
qed

text \<open>The five things that can happen to the memory of the op's key.\<close>

datatype fate = Kept | Retracted json_obj | Tombstoned json_obj | Merged memory_payload json_obj
  | Created memory_payload json_obj int int | Erased

fun fate_row :: "apply_context \<Rightarrow> replication_op \<Rightarrow> fate \<Rightarrow> memory_row option \<Rightarrow> memory_row option" where
  "fate_row ctx r Kept x = x"
| "fate_row ctx r (Retracted meta) x = map_option (retracted_row r meta) x"
| "fate_row ctx r (Tombstoned meta) x = map_option (tombstoned_row ctx r meta) x"
| "fate_row ctx r (Merged p meta) x = map_option (\<lambda>m. merged_row r p meta m m) x"
| "fate_row ctx r (Created p meta i sid) x = Some (new_row r p meta i sid)"
| "fate_row ctx r Erased x = None"

definition fate_clocked :: "fate \<Rightarrow> replication_op \<Rightarrow> bool" where
  "fate_clocked f r \<longleftrightarrow> (\<forall>meta p i s. f = Retracted meta \<or> f = Tombstoned meta \<or> f = Merged p meta \<or> f = Created p meta i s
     \<longrightarrow> field ''clock_device_id'' meta = Some (JStr (op_clock_device_id r)))"

fun fate_allowed :: "replication_op \<Rightarrow> memory_row option \<Rightarrow> fate \<Rightarrow> bool" where
  "fate_allowed r x Kept = True"
| "fate_allowed r x (Retracted meta) = (op_type r = REASSIGN_SCOPE_OP_TYPE
     \<and> (\<exists>m. x = Some m \<and> isNewerClock (op_clock r) (row_clock m)))"
| "fate_allowed r x (Tombstoned meta) = (op_type r = ''delete''
     \<and> (\<exists>m. x = Some m \<and> isNewerClock (op_clock r) (row_clock m)))"
| "fate_allowed r x (Merged p meta) = ((op_type r = ''upsert'' \<or> op_type r = REASSIGN_SCOPE_OP_TYPE)
     \<and> (\<exists>m. x = Some m \<and> (isNewerClock (op_clock r) (row_clock m) \<or> op_clock r = row_clock m)))"
| "fate_allowed r x (Created p meta i sid) = ((op_type r = ''upsert'' \<or> op_type r = REASSIGN_SCOPE_OP_TYPE) \<and> x = None)"
| "fate_allowed r x Erased = (op_type r = ACCESS_CLEANUP_OP_TYPE \<and> x \<noteq> None)"

lemma op_change_fate:
  assumes "op_change ctx d r c" "distinct (map m_id (memories d))" "distinct (List.map_filter m_import_key (memories d))"
  shows "\<exists>f. fate_allowed r (find_memory d (op_entity_id r)) f \<and> fate_clocked f r
    \<and> (\<forall>k. rows_with_key k (change_rows c (memories d)) =
         (if k = op_entity_id r then fate_row ctx r f (find_memory d k) else find_memory d k))"
  using assms(1)
proof cases
  case keep
  then show ?thesis by (intro exI [of _ Kept]) (simp add: find_memory_rows fate_clocked_def)
next
  case (retract m meta)
  then show ?thesis using assms(2)
    by (intro exI [of _ "Retracted meta"]) (auto simp: find_memory_rows fate_clocked_def rows_with_key_rewrite_id)
next
  case (tombstone m meta)
  then show ?thesis using assms(2)
    by (intro exI [of _ "Tombstoned meta"]) (auto simp: find_memory_rows fate_clocked_def rows_with_key_rewrite_id)
next
  case (merge m meta p)
  then show ?thesis
    by (intro exI [of _ "Merged p meta"]) (auto simp: find_memory_rows fate_clocked_def rows_with_key_rewrite_key)
next
  case (insert meta p sid)
  then show ?thesis
    by (intro exI [of _ "Created p meta (next_memory_id d) sid"])
      (auto simp: find_memory_rows fate_clocked_def rows_with_key_def first_where_append)
next
  case (remove m)
  then show ?thesis using assms(2,3)
    by (intro exI [of _ Erased]) (auto simp: find_memory_rows fate_clocked_def rows_with_key_remove)
qed

lemma apply_op_fate:
  assumes "apply_op ctx d r = Inr e" "wf_tables d"
  shows "\<exists>f. fate_allowed r (find_memory d (op_entity_id r)) f \<and> fate_clocked f r
    \<and> (skipOwnRetiredOrAppliedOp d r (ax_local ctx) \<longrightarrow> f = Kept)
    \<and> (\<forall>k. find_memory (oe_db e) k =
         (if k = op_entity_id r then fate_row ctx r f (find_memory d k) else find_memory d k))"
  using apply_op_change [OF assms(1)]
proof (elim disjE conjE exE)
  assume "e = effect OutSkipped d"
  then show ?thesis by (intro exI [of _ Kept]) (simp add: fate_clocked_def)
next
  fix c
  assume c: "\<not> skipOwnRetiredOrAppliedOp d r (ax_local ctx)" "recorded d r e c" "op_change ctx d r c"
  then show ?thesis
    using assms(2) op_change_fate [OF c(3)] by (simp add: wf_tables_def recorded_def find_memory_rows)
qed

end
