(* ===== verification/Apply_Convergence.thy ===== *)
theory Apply_Convergence
  imports Apply_Correct
begin

text \<open>
  Batches of ops. What the counters of the result account for, that a second delivery of a batch does
  nothing, that clocks only move forward, that two replicas that applied the same upserts in any order
  hold the same clocks, and that a memory stays out of the scopes it left.
\<close>

section \<open>The newest clock of a key\<close>

definition memory_clock :: "db \<Rightarrow> string \<Rightarrow> clock option" where
  "memory_clock d k = map_option row_clock (find_memory d k)"

text \<open>The clock a replica holds for a key, \<open>None\<close> before it has the memory, and what a write with a clock
  leaves there.\<close>

fun keep_newest :: "clock option \<Rightarrow> clock option \<Rightarrow> clock option" where
  "keep_newest None b = b"
| "keep_newest (Some a) None = Some a"
| "keep_newest (Some a) (Some b) = Some (lww_keep a b)"

lemma keep_newest_None [simp]: "keep_newest a None = a"
  by (cases a) simp_all

interpretation newest: lww_register keep_newest
proof
  fix a b c
  show "keep_newest (keep_newest a b) c = keep_newest a (keep_newest b c)"
    by (cases a; cases b; cases c) (simp_all add: lww.merge_assoc)
  show "keep_newest a b = keep_newest b a" by (cases a; cases b) (simp_all add: lww.merge_commute)
  show "keep_newest a a = a" by (cases a) (simp_all add: lww.merge_idem)
qed

lemma keep_newest_absorbed: "keep_newest a c = a \<Longrightarrow> keep_newest (keep_newest a b) c = keep_newest a b"
  by (metis newest.merge_assoc newest.merge_commute)

lemma fate_clock:
  assumes "fate_allowed r x f" "fate_clocked f r" "op_type r \<noteq> ACCESS_CLEANUP_OP_TYPE"
  shows "map_option row_clock (fate_row ctx r f x) =
    (if f = Kept then map_option row_clock x else keep_newest (map_option row_clock x) (Some (op_clock r)))"
  using assms by (cases f) (auto simp: fate_clocked_def lww_keep_def)

lemma apply_op_clock:
  assumes "apply_op ctx d r = Inr e" "wf_tables d" "op_type r \<noteq> ACCESS_CLEANUP_OP_TYPE \<or> op_entity_id r \<noteq> k"
  shows "memory_clock (oe_db e) k = memory_clock d k
    \<or> op_entity_id r = k \<and> memory_clock (oe_db e) k = keep_newest (memory_clock d k) (Some (op_clock r))"
proof -
  obtain f where f: "fate_allowed r (find_memory d (op_entity_id r)) f" "fate_clocked f r"
    "find_memory (oe_db e) k = (if k = op_entity_id r then fate_row ctx r f (find_memory d k) else find_memory d k)"
    using apply_op_fate [OF assms(1,2)] by blast
  show ?thesis
  proof (cases "k = op_entity_id r")
    case True
    with f assms(3) fate_clock [OF f(1,2), of ctx] show ?thesis by (auto simp: memory_clock_def)
  next
    case False
    with f(3) show ?thesis by (simp add: memory_clock_def)
  qed
qed

definition readable :: "replication_op \<Rightarrow> bool" where
  "readable r \<longleftrightarrow> fst (parseMemoryPayload r) \<noteq> None"

lemma apply_fresh_upsert_clock:
  assumes "apply_op ctx d r = Inr e" "wf_tables d" "op_type r = ''upsert''" "readable r"
    "\<not> skipOwnRetiredOrAppliedOp d r (ax_local ctx)"
  shows "memory_clock (oe_db e) (op_entity_id r) = keep_newest (memory_clock d (op_entity_id r)) (Some (op_clock r))"
proof -
  let ?k = "op_entity_id r"
  have up: "apply_upsert ctx d r None = Inr e"
    using assms(1,3,5) op_types_differ by (simp add: apply_op_def)
  obtain p where p: "fst (parseMemoryPayload r) = Some p" using assms(4) by (auto simp: readable_def)
  have wf: "distinct (map m_id (memories d))" using assms(2) by (simp add: wf_tables_def)
  show ?thesis
  proof (cases "find_memory d ?k")
    case None
    with up have e: "e = apply_upsert_insert ctx d r" by (simp add: apply_upsert_def)
    obtain q meta i sid where c: "recorded d r e (Appended (new_row r q meta i sid))"
      "field ''clock_device_id'' meta = Some (JStr (op_clock_device_id r))"
      using apply_upsert_insert_change [OF None, of ctx] p unfolding e by auto
    have "find_memory (oe_db e) ?k = Some (new_row r q meta i sid)"
      using c(1) None by (simp add: recorded_def find_memory_def first_where_append)
    then show ?thesis using c(2) None by (simp add: memory_clock_def)
  next
    case (Some m)
    with up have u: "apply_upsert_update ctx d r None m = Inr e" by (simp add: apply_upsert_def)
    from apply_upsert_update_change [OF u] show ?thesis
    proof (elim disjE conjE exE, goal_cases)
      case 2
      then show ?case using Some by (simp add: memory_clock_def recorded_def find_memory_def lww_keep_def)
    next
      case (3 raw meta)
      then show ?case using Some
        by (simp add: memory_clock_def recorded_def find_memory_rows rows_with_key_rewrite_key lww_keep_def)
    qed (use p in simp_all)
  qed
qed

section \<open>Batches\<close>

definition apply_steps ::
    "apply_context \<Rightarrow> replication_op list \<Rightarrow> apply_result \<times> db \<Rightarrow> apply_result \<times> db" where
  "apply_steps ctx rs st = fold (apply_step ctx) rs st"

lemma apply_steps_simps [simp]:
  "apply_steps ctx [] st = st"
  "apply_steps ctx (r # rs) st = apply_steps ctx rs (apply_step ctx r st)"
  by (simp_all add: apply_steps_def)

lemma applyReplicationOps_unvalidated: "applyReplicationOps ctx None d rs = apply_steps ctx rs (emptyApplyResult, d)"
  by (simp add: applyReplicationOps_def apply_steps_def)

lemma steps_wf: "wf_tables (snd st) \<Longrightarrow> wf_tables (snd (apply_steps ctx rs st))"
  by (simp add: apply_steps_def apply_steps_wf)

text \<open>A property every step keeps is kept by the batch.\<close>

lemma steps_induct:
  assumes "P st" "\<And>r st. r \<in> set rs \<Longrightarrow> wf_tables (snd st) \<Longrightarrow> P st \<Longrightarrow> P (apply_step ctx r st)" "wf_tables (snd st)"
  shows "P (apply_steps ctx rs st)"
  using assms
proof (induction rs arbitrary: st)
  case (Cons r rs)
  have "wf_tables (snd (apply_step ctx r st))" "P (apply_step ctx r st)"
    using Cons.prems by (auto intro: apply_step_wf)
  then show ?case using Cons.prems(2) by (simp add: Cons.IH)
qed simp

lemma apply_step_cases:
  obtains (fail) msg where "apply_op ctx (snd st) r = Inl msg" "snd (apply_step ctx r st) = snd st"
  | (finished) e where "apply_op ctx (snd st) r = Inr e" "snd (apply_step ctx r st) = oe_db e"
  by (cases "apply_op ctx (snd st) r") (auto simp: apply_step_def)

lemma apply_op_log:
  assumes "apply_op ctx d r = Inr e"
  shows "retirements (oe_db e) = retirements d
    \<and> ops (oe_db e) = (if skipOwnRetiredOrAppliedOp d r (ax_local ctx) then ops d else insert_or_ignore op_id r (ops d))"
  using apply_op_change [OF assms] by (auto simp: recorded_def)

lemma step_log:
  "retirements (snd (apply_step ctx r st)) = retirements (snd st)
   \<and> op_id ` set (ops (snd st)) \<subseteq> op_id ` set (ops (snd (apply_step ctx r st)))
   \<and> op_id ` set (ops (snd (apply_step ctx r st))) \<subseteq> insert (op_id r) (op_id ` set (ops (snd st)))"
proof (cases rule: apply_step_cases [of ctx st r])
  case fail
  then show ?thesis by auto
next
  case (finished e)
  then show ?thesis using apply_op_log [OF finished(1)] by (auto simp: insert_or_ignore_def)
qed

lemma retirementBlocks_frame: "retirements d' = retirements d \<Longrightarrow> retirementBlocksMemoryOp d' r = retirementBlocksMemoryOp d r"
  by (simp add: retirementBlocksMemoryOp_def hasMemoryScopeRetirement_def isMemoryScopeRetired_def
      cong: option.case_cong if_cong)

subsection \<open>Redelivery\<close>

definition delivered :: "apply_context \<Rightarrow> replication_op \<Rightarrow> db \<Rightarrow> bool" where
  "delivered ctx r d \<longleftrightarrow> skipOwnRetiredOrAppliedOp d r (ax_local ctx)"

lemma delivered_mono: "delivered ctx r (snd st) \<Longrightarrow> delivered ctx r (snd (apply_steps ctx rs st))"
proof (induction rs arbitrary: st)
  case (Cons x rs)
  have "delivered ctx r (snd (apply_step ctx x st))"
    using Cons.prems step_log [of ctx x st] retirementBlocks_frame [of "snd (apply_step ctx x st)" "snd st" r]
    by (auto simp: delivered_def skipOwnRetiredOrAppliedOp_def skipOwnOrRetiredMemoryOp_def exists_where_iff)
  then show ?case using Cons.IH by simp
qed simp

definition op_failures :: "apply_result \<Rightarrow> apply_error list" where
  "op_failures res = filter (\<lambda>e. case e of OpFailed _ _ \<Rightarrow> True | _ \<Rightarrow> False) (ap_errors res)"

lemma finish_counts [simp]:
  "ap_errors (finish_vectors w res) = ap_errors res" "ap_errors (count_outcome out res) = ap_errors res"
  "ap_applied (finish_vectors w res) = ap_applied res" "ap_skipped (finish_vectors w res) = ap_skipped res"
  "ap_conflicts (finish_vectors w res) = ap_conflicts res"
  by (simp_all add: finish_vectors_def count_outcome_def split: option.splits vector_work.splits op_outcome.splits)

lemma op_failures_mono: "length (op_failures (fst st)) \<le> length (op_failures (fst (apply_steps ctx rs st)))"
proof (induction rs arbitrary: st)
  case (Cons r rs)
  have "length (op_failures (fst st)) \<le> length (op_failures (fst (apply_step ctx r st)))"
    by (simp add: apply_step_def op_failures_def split: sum.splits)
  then show ?case using Cons.IH [of "apply_step ctx r st"] by simp
qed simp

lemma step_no_failure:
  assumes "op_failures (fst (apply_steps ctx (r # rs) st)) = []"
  obtains e where "apply_op ctx (snd st) r = Inr e"
proof (cases "apply_op ctx (snd st) r")
  case (Inl msg)
  then have "length (op_failures (fst (apply_step ctx r st))) > 0" by (simp add: apply_step_def op_failures_def)
  with op_failures_mono [of "apply_step ctx r st" ctx rs] assms show ?thesis by simp
qed

lemma steps_deliver:
  assumes "op_failures (fst (apply_steps ctx rs st)) = []" "r \<in> set rs"
  shows "delivered ctx r (snd (apply_steps ctx rs st))"
  using assms
proof (induction rs arbitrary: st)
  case (Cons x rs)
  show ?case
  proof (cases "r = x")
    case True
    obtain e where e: "apply_op ctx (snd st) x = Inr e" using step_no_failure [OF Cons.prems(1)] .
    have "delivered ctx x (snd (apply_step ctx x st))"
      using apply_op_log [OF e] e retirementBlocks_frame [of "oe_db e" "snd st" x]
        insert_or_ignore_key_present [of op_id x "ops (snd st)"]
      by (auto simp: delivered_def skipOwnRetiredOrAppliedOp_def skipOwnOrRetiredMemoryOp_def apply_step_def)
    then show ?thesis using True delivered_mono by simp
  next
    case False
    with Cons show ?thesis by simp
  qed
qed simp

lemma steps_delivered:
  assumes "\<And>r. r \<in> set rs \<Longrightarrow> delivered ctx r (snd st)"
  shows "apply_steps ctx rs st = ((fst st)\<lparr> ap_skipped := ap_skipped (fst st) + length rs \<rparr>, snd st)"
  using assms
proof (induction rs arbitrary: st)
  case (Cons r rs)
  have "skipOwnRetiredOrAppliedOp (snd st) r (ax_local ctx)" using Cons.prems by (simp add: delivered_def)
  then have "apply_step ctx r st = ((fst st)\<lparr> ap_skipped := ap_skipped (fst st) + 1 \<rparr>, snd st)"
    by (simp add: apply_step_def apply_op_def effect_def finish_vectors_def count_outcome_def)
  then show ?case using Cons by simp
qed simp

subsection \<open>Upserts in any order\<close>

definition clocks_for :: "string \<Rightarrow> replication_op list \<Rightarrow> clock option list" where
  "clocks_for k rs = map (\<lambda>r. Some (op_clock r)) (filter (\<lambda>r. op_entity_id r = k) rs)"

definition live_upsert :: "apply_context \<Rightarrow> db \<Rightarrow> replication_op \<Rightarrow> bool" where
  "live_upsert ctx d r \<longleftrightarrow> op_type r = ''upsert'' \<and> readable r \<and> \<not> skipOwnOrRetiredMemoryOp d r (ax_local ctx)"

definition absorbed :: "db \<Rightarrow> replication_op \<Rightarrow> bool" where
  "absorbed d r \<longleftrightarrow> (op_id r \<in> op_id ` set (ops d) \<longrightarrow>
     keep_newest (memory_clock d (op_entity_id r)) (Some (op_clock r)) = memory_clock d (op_entity_id r))"

lemma live_upsert_step: "live_upsert ctx (snd (apply_step ctx r st)) x = live_upsert ctx (snd st) x"
  using step_log [of ctx r st] retirementBlocks_frame [of "snd (apply_step ctx r st)" "snd st" x]
  by (auto simp: live_upsert_def skipOwnOrRetiredMemoryOp_def)

lemma upsert_step_clock:
  assumes "wf_tables (snd st)" "live_upsert ctx (snd st) r" "absorbed (snd st) r"
    "apply_op ctx (snd st) r = Inr e"
  shows "memory_clock (snd (apply_step ctx r st)) k =
    (if k = op_entity_id r then keep_newest (memory_clock (snd st) k) (Some (op_clock r)) else memory_clock (snd st) k)"
proof (cases "op_id r \<in> op_id ` set (ops (snd st))")
  case True
  then have "skipOwnRetiredOrAppliedOp (snd st) r (ax_local ctx)"
    by (auto simp: skipOwnRetiredOrAppliedOp_def exists_where_iff)
  then have "snd (apply_step ctx r st) = snd st"
    by (simp add: apply_step_def apply_op_def)
  then show ?thesis using True assms(3) by (simp add: absorbed_def)
next
  case False
  then have fresh: "\<not> skipOwnRetiredOrAppliedOp (snd st) r (ax_local ctx)"
    using assms(2) by (fastforce simp: skipOwnRetiredOrAppliedOp_def exists_where_iff live_upsert_def image_iff)
  have up: "op_type r = ''upsert''" "readable r" using assms(2) by (simp_all add: live_upsert_def)
  have step: "snd (apply_step ctx r st) = oe_db e" using assms(4) by (simp add: apply_step_def)
  have "op_type r \<noteq> ACCESS_CLEANUP_OP_TYPE" using up op_types_differ by simp
  then show ?thesis
    using apply_fresh_upsert_clock [OF assms(4,1) up fresh] apply_op_clock [OF assms(4,1), of k] step by auto
qed

lemma upsert_step_absorbed:
  assumes "wf_tables (snd st)" "live_upsert ctx (snd st) r" "absorbed (snd st) r"
    "apply_op ctx (snd st) r = Inr e" "absorbed (snd st) x" "op_id x = op_id r \<longrightarrow> x = r"
  shows "absorbed (snd (apply_step ctx r st)) x"
proof -
  note clock = upsert_step_clock [OF assms(1-4), of "op_entity_id x"]
  show ?thesis
  proof (cases "x = r")
    case True
    then show ?thesis using clock by (simp add: absorbed_def newest.merge_assoc newest.merge_idem)
  next
    case False
    then have "op_id x \<in> op_id ` set (ops (snd (apply_step ctx r st))) \<Longrightarrow> op_id x \<in> op_id ` set (ops (snd st))"
      using assms(6) step_log [of ctx r st] by blast
    with assms(5) have "absorbed (snd (apply_step ctx r st)) x \<or> keep_newest (memory_clock (snd st) (op_entity_id x))
        (Some (op_clock x)) = memory_clock (snd st) (op_entity_id x)"
      by (auto simp: absorbed_def)
    then show ?thesis
    proof
      assume "keep_newest (memory_clock (snd st) (op_entity_id x)) (Some (op_clock x)) = memory_clock (snd st) (op_entity_id x)"
      from keep_newest_absorbed [OF this, of "Some (op_clock r)"] this show ?thesis
        unfolding absorbed_def clock by (cases "op_entity_id x = op_entity_id r") simp_all
    qed
  qed
qed

lemma steps_clock:
  assumes "wf_tables (snd st)" "op_failures (fst (apply_steps ctx rs st)) = []"
    "\<And>r. r \<in> set rs \<Longrightarrow> live_upsert ctx (snd st) r" "\<And>r. r \<in> set rs \<Longrightarrow> absorbed (snd st) r"
    "inj_on op_id (set rs)"
  shows "memory_clock (snd (apply_steps ctx rs st)) k = newest.replay (clocks_for k rs) (memory_clock (snd st) k)"
  using assms
proof (induction rs arbitrary: st)
  case Nil
  show ?case by (simp add: clocks_for_def newest.replay_def)
next
  case (Cons r rs)
  obtain e where e: "apply_op ctx (snd st) r = Inr e" using step_no_failure [OF Cons.prems(2)] .
  have r: "live_upsert ctx (snd st) r" "absorbed (snd st) r" using Cons.prems(3,4) by simp_all
  have "memory_clock (snd (apply_steps ctx rs (apply_step ctx r st))) k
      = newest.replay (clocks_for k rs) (memory_clock (snd (apply_step ctx r st)) k)"
  proof (rule Cons.IH)
    show "wf_tables (snd (apply_step ctx r st))" using Cons.prems(1) by (rule apply_step_wf)
    show "op_failures (fst (apply_steps ctx rs (apply_step ctx r st))) = []" using Cons.prems(2) by simp
    show "inj_on op_id (set rs)" using Cons.prems(5) by (simp add: inj_on_def)
    fix x assume x: "x \<in> set rs"
    show "live_upsert ctx (snd (apply_step ctx r st)) x" using x Cons.prems(3) by (simp add: live_upsert_step)
    have "op_id x = op_id r \<longrightarrow> x = r" using x Cons.prems(5) by (auto simp: inj_on_def)
    then show "absorbed (snd (apply_step ctx r st)) x"
      using upsert_step_absorbed [OF Cons.prems(1) r e] x Cons.prems(4) by simp
  qed
  then show ?case
    using upsert_step_clock [OF Cons.prems(1) r e, of k] by (auto simp: clocks_for_def newest.replay_Cons)
qed

subsection \<open>Counters and queues\<close>

definition accounted :: "apply_result \<Rightarrow> nat" where
  "accounted res = ap_applied res + ap_skipped res + ap_conflicts res + length (op_failures res)"

definition queues_ok :: "apply_result \<Rightarrow> bool" where
  "queues_ok res \<longleftrightarrow> distinct (ap_upsert_vectors res) \<and> distinct (ap_delete_vectors res)
     \<and> set (ap_upsert_vectors res) \<inter> set (ap_delete_vectors res) = {}
     \<and> (\<forall>i \<in> set (ap_upsert_vectors res) \<union> set (ap_delete_vectors res). i > 0)"

definition clean_effect :: "op_effect \<Rightarrow> bool" where
  "clean_effect e \<longleftrightarrow> filter (\<lambda>e. case e of OpFailed _ _ \<Rightarrow> True | _ \<Rightarrow> False) (oe_errors e) = []
     \<and> (\<forall>w. oe_vector e = Some w \<longrightarrow> (case w of VectorUpsert i \<Rightarrow> i > 0 | VectorDelete i \<Rightarrow> i > 0))"

lemma clean_effect_simps [simp]:
  "clean_effect (effect out d)"
  "clean_effect e \<Longrightarrow> clean_effect (queue_vector w e)"
  "clean_effect e \<Longrightarrow> clean_effect (with_vector v e)"
  by (auto simp: clean_effect_def effect_def queue_vector_def with_vector_def Let_def
      split: option.splits vector_work.splits)

lemma clean_effect_malformed [simp]: "parseMemoryPayload r = (p, errs) \<Longrightarrow> clean_effect (malformed d r errs)"
  by (auto simp: clean_effect_def malformed_def effect_def parseMemoryPayload_def split: if_splits sum.splits)

lemma apply_op_clean: "apply_op ctx d r = Inr e \<Longrightarrow> clean_effect e"
  by (auto simp: apply_op_def apply_old_side_def apply_upsert_def apply_upsert_update_def apply_upsert_insert_def
      apply_access_cleanup_def apply_delete_def Let_def
      split: if_splits option.splits sum.splits prod.splits)

lemma finish_queues:
  assumes "queues_ok res" "clean_effect e"
  shows "queues_ok (finish_vectors (oe_vector e) (count_outcome out (res\<lparr> ap_errors := errs \<rparr>)))"
  using assms
  by (cases "oe_vector e"; cases out)
    (auto simp: queues_ok_def clean_effect_def finish_vectors_def count_outcome_def set_add_def set_remove_def
      split: vector_work.splits)

lemma step_accounts:
  "accounted (fst (apply_step ctx r st)) = Suc (accounted (fst st))
   \<and> (queues_ok (fst st) \<longrightarrow> queues_ok (fst (apply_step ctx r st)))"
proof (cases "apply_op ctx (snd st) r")
  case (Inl msg)
  then show ?thesis by (simp add: apply_step_def accounted_def op_failures_def queues_ok_def)
next
  case (Inr e)
  note clean = apply_op_clean [OF Inr]
  have "accounted (fst (apply_step ctx r st)) = Suc (accounted (fst st))"
    using Inr clean by (cases "oe_outcome e")
      (simp_all add: apply_step_def accounted_def op_failures_def clean_effect_def count_outcome_def)
  then show ?thesis using Inr finish_queues [OF _ clean, of "fst st"] by (simp add: apply_step_def)
qed

lemma steps_account:
  "accounted (fst (apply_steps ctx rs st)) = accounted (fst st) + length rs
   \<and> (queues_ok (fst st) \<longrightarrow> queues_ok (fst (apply_steps ctx rs st)))"
  by (induction rs arbitrary: st) (simp_all add: step_accounts)

subsection \<open>Retired scopes\<close>

lemma unblocked_scope:
  assumes "\<not> retirementBlocksMemoryOp d r" "op_entity_type r = ''memory_item''"
    "isMemoryScopeRetired d (op_entity_id r) (Some s)"
  shows "\<exists>s'. clean_text (op_scope_id r) = Some s' \<and> s' \<noteq> s"
  using assms
  by (auto simp: retirementBlocksMemoryOp_def isMemoryScopeRetired_def hasMemoryScopeRetirement_def exists_where_iff
      split: if_splits option.splits)

definition in_scope :: "db \<Rightarrow> string \<Rightarrow> string \<Rightarrow> bool" where
  "in_scope d k s \<longleftrightarrow> (case find_memory d k of None \<Rightarrow> False | Some m \<Rightarrow> m_scope_id m = Some s)"

lemma apply_op_retired:
  assumes "apply_op ctx d r = Inr e" "wf_tables d" "op_entity_type r = ''memory_item''"
    "isMemoryScopeRetired d k (Some s)" "in_scope (oe_db e) k s"
  shows "in_scope d k s"
proof (cases "op_entity_id r = k")
  case False
  obtain f where "\<forall>k. find_memory (oe_db e) k =
      (if k = op_entity_id r then fate_row ctx r f (find_memory d k) else find_memory d k)"
    using apply_op_fate [OF assms(1,2)] by blast
  then show ?thesis using False assms(5) by (simp add: in_scope_def)
next
  case True
  obtain f where f: "skipOwnRetiredOrAppliedOp d r (ax_local ctx) \<longrightarrow> f = Kept"
    "find_memory (oe_db e) k = fate_row ctx r f (find_memory d k)"
    using apply_op_fate [OF assms(1,2)] True by (metis (full_types))
  show ?thesis
  proof (cases "retirementBlocksMemoryOp d r")
    case True
    then show ?thesis using f assms(5)
      by (simp add: skipOwnRetiredOrAppliedOp_def skipOwnOrRetiredMemoryOp_def in_scope_def)
  next
    case nb: False
    obtain s' where "clean_text (op_scope_id r) = Some s'" "s' \<noteq> s"
      using unblocked_scope [OF nb assms(3)] assms(4) True by blast
    then show ?thesis using f(2) assms(5)
      by (cases f) (auto simp: in_scope_def retracted_row_def tombstoned_row_def merged_row_def new_row_def
          split: option.splits)
  qed
qed

lemma steps_retired:
  assumes "wf_tables (snd st)" "\<And>r. r \<in> set rs \<Longrightarrow> op_entity_type r = ''memory_item''"
    "isMemoryScopeRetired (snd st) k (Some s)" "\<not> in_scope (snd st) k s"
  shows "\<not> in_scope (snd (apply_steps ctx rs st)) k s"
proof -
  have "isMemoryScopeRetired (snd (apply_steps ctx rs st)) k (Some s) \<and> \<not> in_scope (snd (apply_steps ctx rs st)) k s"
  proof (rule steps_induct [where P = "\<lambda>st. isMemoryScopeRetired (snd st) k (Some s) \<and> \<not> in_scope (snd st) k s"])
    fix r and st :: "apply_result \<times> db" assume *: "r \<in> set rs" "wf_tables (snd st)" "isMemoryScopeRetired (snd st) k (Some s) \<and> \<not> in_scope (snd st) k s"
    show "isMemoryScopeRetired (snd (apply_step ctx r st)) k (Some s) \<and> \<not> in_scope (snd (apply_step ctx r st)) k s"
    proof (cases rule: apply_step_cases [of ctx st r])
      case (finished e)
      then show ?thesis
        using * apply_op_retired [OF finished(1) *(2) assms(2)] step_log [of ctx r st]
        by (auto simp: isMemoryScopeRetired_def)
    qed (use * in simp)
  qed (use assms in simp_all)
  then show ?thesis by simp
qed

lemma steps_clock_mono:
  assumes "wf_tables (snd st)" "memory_clock (snd st) k = Some c"
    "\<And>r. r \<in> set rs \<Longrightarrow> op_type r = ACCESS_CLEANUP_OP_TYPE \<Longrightarrow> op_entity_id r \<noteq> k"
  shows "\<exists>c'. memory_clock (snd (apply_steps ctx rs st)) k = Some c' \<and> c \<le> c'
    \<and> (c' = c \<or> c' \<in> op_clock ` {r \<in> set rs. op_entity_id r = k})"
proof (rule steps_induct [where P = "\<lambda>st. \<exists>c'. memory_clock (snd st) k = Some c' \<and> c \<le> c'
    \<and> (c' = c \<or> c' \<in> op_clock ` {r \<in> set rs. op_entity_id r = k})"])
  fix r and st :: "apply_result \<times> db" assume *: "r \<in> set rs" "wf_tables (snd st)" "\<exists>c'. memory_clock (snd st) k = Some c' \<and> c \<le> c'
    \<and> (c' = c \<or> c' \<in> op_clock ` {r \<in> set rs. op_entity_id r = k})"
  show "\<exists>c'. memory_clock (snd (apply_step ctx r st)) k = Some c' \<and> c \<le> c'
    \<and> (c' = c \<or> c' \<in> op_clock ` {r \<in> set rs. op_entity_id r = k})"
  proof (cases rule: apply_step_cases [of ctx st r])
    case (finished e)
    have "op_type r \<noteq> ACCESS_CLEANUP_OP_TYPE \<or> op_entity_id r \<noteq> k" using *(1) assms(3) by blast
    from apply_op_clock [OF finished(1) *(2) this] finished(2) * show ?thesis
      by (auto simp: lww_keep_def isNewerClock_less)
  qed (use * in simp)
qed (use assms in simp_all)

section \<open>Properties\<close>

definition sample_context :: apply_context where
  "sample_context = \<lparr> ax_local = ''here'', ax_now = ''2027'', ax_scan = (\<lambda>t. t), ax_redact = (\<lambda>p. p),
     ax_sha256 = (\<lambda>t. t) \<rparr>"

definition sample_batch :: "replication_op list" where
  "sample_batch = [sample_op ''o1'' ''k1'' ''upsert'' 1 ''a'', sample_op ''o2'' ''k1'' ''upsert'' 2 ''b'']"

definition sample_db :: db where
  "sample_db = snd (applyReplicationOps sample_context None empty_db sample_batch)"

text \<open>C1: redelivery is harmless. When a batch was applied without an exception, applying any of its ops
  again, in any order and number, changes nothing: every op is counted as skipped.\<close>

theorem redelivery_changes_nothing:
  assumes "op_failures (fst (applyReplicationOps ctx None d rs)) = []" "set rs2 \<subseteq> set rs"
  shows "applyReplicationOps ctx None (snd (applyReplicationOps ctx None d rs)) rs2
    = (emptyApplyResult\<lparr> ap_skipped := length rs2 \<rparr>, snd (applyReplicationOps ctx None d rs))"
proof -
  have "delivered ctx r (snd (applyReplicationOps ctx None d rs))" if "r \<in> set rs" for r
    using assms(1) steps_deliver [of ctx rs "(emptyApplyResult, d)" r] that
    by (simp add: applyReplicationOps_unvalidated)
  then show ?thesis
    using assms(2) steps_delivered [of rs2 ctx "(emptyApplyResult, snd (applyReplicationOps ctx None d rs))"]
    by (auto simp: applyReplicationOps_unvalidated emptyApplyResult_def)
qed

theorem redelivery_changes_nothing_witness:
  "applyReplicationOps sample_context None sample_db (rev sample_batch)
   = (emptyApplyResult\<lparr> ap_skipped := length (rev sample_batch) \<rparr>, sample_db)"
proof -
  have "op_failures (fst (applyReplicationOps sample_context None empty_db sample_batch)) = []" by code_simp
  then show ?thesis unfolding sample_db_def by (rule redelivery_changes_nothing) simp
qed



text \<open>C12: last writer wins. A batch never takes the clock of a memory back: unless an access cleanup of
  that memory is in the batch, the memory is still there afterwards, its clock is at least the one it
  had, and it is that one or the clock of an op of the batch on the same memory.\<close>

theorem clocks_move_forward:
  assumes "wf_tables d" "memory_clock d k = Some c"
    "\<forall>r\<in>set rs. op_type r = ACCESS_CLEANUP_OP_TYPE \<longrightarrow> op_entity_id r \<noteq> k"
  shows "\<exists>c'. memory_clock (snd (applyReplicationOps ctx None d rs)) k = Some c' \<and> \<not> isNewerClock c c'
    \<and> (c' = c \<or> (\<exists>r\<in>set rs. op_entity_id r = k \<and> c' = op_clock r))"
  using steps_clock_mono [of "(emptyApplyResult, d)" k c rs ctx] assms
  by (auto simp: applyReplicationOps_unvalidated isNewerClock_less not_less)

theorem clocks_move_forward_witness:
  "\<exists>c'. memory_clock (snd (applyReplicationOps sample_context None sample_db
        [sample_op ''o3'' ''k1'' ''delete'' 3 ''a''])) ''k1'' = Some c'
     \<and> \<not> isNewerClock (Clock 2 ''2026'' ''b'') c'
     \<and> (c' = Clock 2 ''2026'' ''b'' \<or> (\<exists>r\<in>set [sample_op ''o3'' ''k1'' ''delete'' 3 ''a''].
          op_entity_id r = ''k1'' \<and> c' = op_clock r))"
proof (rule clocks_move_forward)
  show "wf_tables sample_db" by code_simp
  show "memory_clock sample_db ''k1'' = Some (Clock 2 ''2026'' ''b'')" by code_simp
qed (simp add: sample_op_def ACCESS_CLEANUP_OP_TYPE_def)

text \<open>C13: a memory stays out of a scope it left. While the scope of a memory is retired, no batch of memory
  ops can put the memory back into that scope.\<close>

theorem retired_scope_not_reentered:
  assumes "wf_tables d" "\<forall>r\<in>set rs. op_entity_type r = ''memory_item''"
    "isMemoryScopeRetired d k (Some s)" "\<not> in_scope d k s"
  shows "\<not> in_scope (snd (applyReplicationOps ctx None d rs)) k s"
  using steps_retired [of "(emptyApplyResult, d)" rs k s ctx] assms
  by (auto simp: applyReplicationOps_unvalidated)

definition retired_db :: db where
  "retired_db = empty_db\<lparr> retirements := [\<lparr> rt_entity = ''k1'', rt_source = ''b'', rt_scope = ''team'', rt_at = ''2026'' \<rparr>] \<rparr>"

theorem retired_scope_not_reentered_witness:
  "\<not> in_scope (snd (applyReplicationOps sample_context None retired_db sample_batch)) ''k1'' ''team''"
  by (rule retired_scope_not_reentered)
    (simp_all add: wf_tables_def retired_db_def empty_db_def List.map_filter_simps sample_batch_def sample_op_def
      isMemoryScopeRetired_def exists_where_def in_scope_def find_memory_def)

text \<open>The fence looks only at ops whose entity type is ''memory_item'', while the application of an
  op never looks at the entity type: an op of any other entity type puts the memory into the retired scope.\<close>

theorem retirement_fence_bypassed:
  "isMemoryScopeRetired retired_db ''k1'' (Some ''team'')
   \<and> in_scope (snd (applyReplicationOps sample_context None retired_db
        [(sample_op ''o1'' ''k1'' ''upsert'' 1 ''a'')\<lparr> op_entity_type := ''memory'' \<rparr>])) ''k1'' ''team''"
  by code_simp

text \<open>Accounting. Every op of a batch is counted once, as applied, skipped, in conflict or failed, and
  the two vector queues are free of duplicates, disjoint and hold valid row ids.\<close>

theorem batch_accounts:
  "accounted (fst (applyReplicationOps ctx None d rs)) = length rs \<and> queues_ok (fst (applyReplicationOps ctx None d rs))"
  using steps_account [of ctx rs "(emptyApplyResult, d)"]
  by (simp add: applyReplicationOps_unvalidated accounted_def emptyApplyResult_def op_failures_def queues_ok_def)

text \<open>C40: the tables keep their keys. A batch, validated or not, keeps the primary keys of the memories and
  of the log distinct and never gives two memories the same import key.\<close>

theorem batch_keeps_keys:
  assumes "wf_tables d"
  shows "wf_tables (snd (applyReplicationOps ctx v d rs))"
proof -
  have logged: "wf_tables (recordInboundScopeRejections now d rejs)" for now rejs
    using log_rejections_only [of rejs now d] assms by (auto simp: wf_tables_def)
  have rejected: "wf_tables (snd x)"
    if "rejectUnretiredScopeFailures (ax_now ctx) d rs (ax_local ctx) opts = Some x" for x opts
    using that logged
    by (auto simp: rejectUnretiredScopeFailures_def rejectInboundScopeFailures_def Let_def split: if_splits)
  show ?thesis
    using assms steps_wf [of "(emptyApplyResult, d)" ctx rs] rejected
    by (auto simp: applyReplicationOps_def apply_steps_def split: option.splits)
qed

theorem batch_keeps_keys_witness: "wf_tables (snd (applyReplicationOps sample_context None empty_db sample_batch))"
  by (rule batch_keeps_keys) (simp add: wf_tables_def empty_db_def List.map_filter_simps)

end
