(* ===== verification/Sync_Cursors.thy ===== *)
theory Sync_Cursors
  imports Sync_State
begin

text \<open>
  Per-peer replication cursors and the per-scope reset boundary
  (\<open>packages/core/src/sync-replication.ts\<close>, lines 340-560 and 612-790; \<open>cursorAdvances\<close> of
  \<open>packages/core/src/sync-pass.ts\<close>). Both keep a scoped table and a legacy unscoped one: the default
  scope is seeded from the legacy row before it is read, and mirrored to it after it is written.

  A function that writes takes the current time and, where it makes an identifier, a fresh one, and
  returns the database it leaves. An argument that TypeScript may leave out is an option of its type,
  \<open>None\<close> for \<open>undefined\<close>.
\<close>

section \<open>Reading and writing a cursor\<close>

definition seed_cursor :: "legacy_cursor_row \<Rightarrow> cursor_row" where
  "seed_cursor l = \<lparr> cr_peer = lc_peer l, cr_scope = DEFAULT_SYNC_SCOPE_ID,
     cr_last_applied = lc_last_applied l, cr_last_acked = lc_last_acked l,
     cr_updated_at = lc_updated_at l \<rparr>"

definition cursor_key :: "cursor_row \<Rightarrow> string \<times> string" where
  "cursor_key c = (cr_peer c, cr_scope c)"

definition seedDefaultReplicationCursorFromLegacy :: "db \<Rightarrow> db" where
  "seedDefaultReplicationCursorFromLegacy d =
     d\<lparr> cursors := fold (\<lambda>l rows. insert_or_ignore cursor_key (seed_cursor l) rows)
                     (legacy_cursors d) (cursors d) \<rparr>"

definition merge_legacy_cursor :: "legacy_cursor_row \<Rightarrow> legacy_cursor_row \<Rightarrow> legacy_cursor_row" where
  "merge_legacy_cursor new old = old\<lparr>
     lc_last_applied := coalesce (lc_last_applied new) (lc_last_applied old),
     lc_last_acked := coalesce (lc_last_acked new) (lc_last_acked old),
     lc_updated_at := lc_updated_at new \<rparr>"

definition mirrorDefaultReplicationCursorToLegacy ::
    "db \<Rightarrow> string \<Rightarrow> string option \<Rightarrow> string option \<Rightarrow> string \<Rightarrow> db" where
  "mirrorDefaultReplicationCursorToLegacy d peer lastApplied lastAcked updatedAt =
     d\<lparr> legacy_cursors := upsert_row lc_peer merge_legacy_cursor
          \<lparr> lc_peer = peer, lc_last_applied = lastApplied, lc_last_acked = lastAcked,
            lc_updated_at = updatedAt \<rparr> (legacy_cursors d) \<rparr>"

definition seed_for_scope :: "string \<Rightarrow> db \<Rightarrow> db" where
  "seed_for_scope scope d =
     (if scope = DEFAULT_SYNC_SCOPE_ID then seedDefaultReplicationCursorFromLegacy d else d)"

definition find_cursor :: "string \<Rightarrow> string \<Rightarrow> db \<Rightarrow> cursor_row option" where
  "find_cursor peer scope d = first_where (\<lambda>c. cursor_key c = (peer, scope)) (cursors d)"

definition getReplicationCursor ::
    "db \<Rightarrow> string \<Rightarrow> string option \<Rightarrow> (string option \<times> string option) \<times> db" where
  "getReplicationCursor d peer scopeId =
     (let effective = normalizeSyncStateScopeId scopeId;
          d' = seed_for_scope effective d
      in (case find_cursor peer effective d' of
            None \<Rightarrow> ((None, None), d')
          | Some c \<Rightarrow> ((cr_last_applied c, cr_last_acked c), d')))"

definition merge_cursor :: "cursor_row \<Rightarrow> cursor_row \<Rightarrow> cursor_row" where
  "merge_cursor new old = old\<lparr>
     cr_last_applied := coalesce (cr_last_applied new) (cr_last_applied old),
     cr_last_acked := coalesce (cr_last_acked new) (cr_last_acked old),
     cr_updated_at := cr_updated_at new \<rparr>"

definition setReplicationCursor ::
    "string \<Rightarrow> db \<Rightarrow> string \<Rightarrow> string option \<Rightarrow> string option \<Rightarrow> string option \<Rightarrow> db" where
  "setReplicationCursor now d peer lastApplied lastAcked scopeId =
     (let effective = normalizeSyncStateScopeId scopeId;
          d1 = seed_for_scope effective d;
          d2 = d1\<lparr> cursors := upsert_row cursor_key merge_cursor
                 \<lparr> cr_peer = peer, cr_scope = effective, cr_last_applied = lastApplied,
                   cr_last_acked = lastAcked, cr_updated_at = now \<rparr> (cursors d1) \<rparr>
      in if effective = DEFAULT_SYNC_SCOPE_ID
         then mirrorDefaultReplicationCursorToLegacy d2 peer lastApplied lastAcked now
         else d2)"

definition clearReplicationCursorLastApplied ::
    "string \<Rightarrow> db \<Rightarrow> string \<Rightarrow> string option \<Rightarrow> db" where
  "clearReplicationCursorLastApplied now d peer scopeId =
     (let effective = normalizeSyncStateScopeId scopeId
      in d\<lparr> cursors := update_where (\<lambda>c. cursor_key c = (peer, effective))
           (\<lambda>c. c\<lparr> cr_last_applied := None, cr_last_acked := None, cr_updated_at := now \<rparr>) (cursors d) \<rparr>)"

text \<open>\<open>cursorAdvances\<close>: a candidate must look like \<open>timestamp|op_id\<close> and sort after the current one.\<close>

definition cursorAdvances :: "string option \<Rightarrow> string option \<Rightarrow> bool" where
  "cursorAdvances current candidate = (case candidate of
     None \<Rightarrow> False
   | Some c \<Rightarrow>
       if c = [] then False
       else if CHR ''|'' \<notin> set c then False
       else (case current of
           None \<Rightarrow> True
         | Some cur \<Rightarrow> if cur = [] then True else c > cur))"

subsection \<open>Laws\<close>

lemma first_where_insert_or_ignore:
  "first_where (\<lambda>r. key r = k) (insert_or_ignore key new rows) =
     coalesce (first_where (\<lambda>r. key r = k) rows) (if key new = k then Some new else None)"
  by (cases "first_where (\<lambda>r. key r = k) rows")
    (auto simp: insert_or_ignore_def first_where_append exists_where_iff first_where_None_iff)

lemma find_seed_fold:
  "first_where (\<lambda>c. cursor_key c = (p, s)) (fold (\<lambda>l rows. insert_or_ignore cursor_key (seed_cursor l) rows) ls rows) =
     coalesce (first_where (\<lambda>c. cursor_key c = (p, s)) rows)
       (if s = DEFAULT_SYNC_SCOPE_ID
        then map_option seed_cursor (first_where (\<lambda>l. lc_peer l = p) ls) else None)"
proof (induction ls arbitrary: rows)
  case Nil
  show ?case by simp
next
  case (Cons l ls)
  have key: "cursor_key (seed_cursor l) = (lc_peer l, DEFAULT_SYNC_SCOPE_ID)"
    by (simp add: cursor_key_def seed_cursor_def)
  show ?case
    by (auto simp: Cons.IH first_where_insert_or_ignore key coalesce_assoc [symmetric])
qed

text \<open>The cursor a read sees: the scoped row, or for the default scope the legacy row.\<close>

definition visible_cursor :: "db \<Rightarrow> string \<Rightarrow> string \<Rightarrow> (string option \<times> string option) option" where
  "visible_cursor d p s = coalesce
     (map_option (\<lambda>c. (cr_last_applied c, cr_last_acked c)) (find_cursor p s d))
     (if s = DEFAULT_SYNC_SCOPE_ID
      then map_option (\<lambda>l. (lc_last_applied l, lc_last_acked l))
             (first_where (\<lambda>l. lc_peer l = p) (legacy_cursors d)) else None)"

lemma find_cursor_seed:
  "find_cursor p s (seed_for_scope s' d) = coalesce (find_cursor p s d)
     (if s = DEFAULT_SYNC_SCOPE_ID \<and> s' = s
      then map_option seed_cursor (first_where (\<lambda>l. lc_peer l = p) (legacy_cursors d)) else None)"
  by (simp add: find_cursor_def seed_for_scope_def seedDefaultReplicationCursorFromLegacy_def find_seed_fold)

lemma legacy_cursors_seed [simp]: "legacy_cursors (seed_for_scope s d) = legacy_cursors d"
  by (simp add: seed_for_scope_def seedDefaultReplicationCursorFromLegacy_def)

lemma getReplicationCursor_visible:
  "fst (getReplicationCursor d p k) =
     or_default (visible_cursor d p (normalizeSyncStateScopeId k)) (None, None)"
  by (auto simp: getReplicationCursor_def visible_cursor_def find_cursor_seed seed_cursor_def Let_def
      split: option.splits)

lemma visible_cursor_seed [simp]: "visible_cursor (seed_for_scope s' d) p s = visible_cursor d p s"
  by (cases "find_cursor p s d"; cases "first_where (\<lambda>l. lc_peer l = p) (legacy_cursors d)")
    (simp_all add: visible_cursor_def find_cursor_seed seed_cursor_def)

lemma cursor_key_merge [simp]: "cursor_key (merge_cursor new old) = cursor_key old"
  by (simp add: cursor_key_def merge_cursor_def)

lemma find_cursor_set:
  "find_cursor p s (setReplicationCursor now d peer a b k) =
     (let eff = normalizeSyncStateScopeId k;
          new = \<lparr> cr_peer = peer, cr_scope = eff, cr_last_applied = a, cr_last_acked = b, cr_updated_at = now \<rparr>
      in if (p, s) = (peer, eff)
         then Some (case find_cursor p s (seed_for_scope eff d) of None \<Rightarrow> new | Some c \<Rightarrow> merge_cursor new c)
         else find_cursor p s (seed_for_scope eff d))"
proof -
  let ?eff = "normalizeSyncStateScopeId k"
  let ?new = "\<lparr> cr_peer = peer, cr_scope = ?eff, cr_last_applied = a, cr_last_acked = b, cr_updated_at = now \<rparr>"
  have key: "cursor_key ?new = (peer, ?eff)" by (simp add: cursor_key_def)
  have "cursors (setReplicationCursor now d peer a b k) =
      upsert_row cursor_key merge_cursor ?new (cursors (seed_for_scope ?eff d))"
    by (simp add: setReplicationCursor_def Let_def mirrorDefaultReplicationCursorToLegacy_def)
  then show ?thesis
    using first_where_upsert [where key = cursor_key and merge = merge_cursor and new = ?new and k = "(p, s)"]
    by (simp only: find_cursor_def key Let_def cursor_key_merge)
qed

lemma legacy_cursor_set:
  "first_where (\<lambda>l. lc_peer l = p) (legacy_cursors (setReplicationCursor now d peer a b k)) =
     (let new = \<lparr> lc_peer = peer, lc_last_applied = a, lc_last_acked = b, lc_updated_at = now \<rparr>
      in if p = peer \<and> normalizeSyncStateScopeId k = DEFAULT_SYNC_SCOPE_ID
         then Some (case first_where (\<lambda>l. lc_peer l = p) (legacy_cursors d) of
             None \<Rightarrow> new | Some l \<Rightarrow> merge_legacy_cursor new l)
         else first_where (\<lambda>l. lc_peer l = p) (legacy_cursors d))"
  by (simp add: setReplicationCursor_def Let_def first_where_upsert merge_legacy_cursor_def
      mirrorDefaultReplicationCursorToLegacy_def)

lemma visible_cursor_set_same:
  assumes "normalizeSyncStateScopeId k = s"
  shows "visible_cursor (setReplicationCursor now d p a b k) p s =
    (let old = or_default (visible_cursor d p s) (None, None)
     in Some (coalesce a (fst old), coalesce b (snd old)))"
  using assms
  by (cases "find_cursor p s d"; cases "first_where (\<lambda>l. lc_peer l = p) (legacy_cursors d)")
    (simp_all add: visible_cursor_def find_cursor_set find_cursor_seed seed_cursor_def merge_cursor_def Let_def)

lemma visible_cursor_set_other:
  assumes "(p', s') \<noteq> (p, normalizeSyncStateScopeId k)"
  shows "visible_cursor (setReplicationCursor now d p a b k) p' s' = visible_cursor d p' s'"
  using assms
  by (cases "find_cursor p' s' d"; cases "first_where (\<lambda>l. lc_peer l = p') (legacy_cursors d)")
    (auto simp: visible_cursor_def find_cursor_set legacy_cursor_set find_cursor_seed seed_cursor_def Let_def)

subsection \<open>The interface the sync pass uses\<close>

text \<open>A store of cursors per key, with a write that keeps the half it is not given.\<close>

locale cursor_store =
  fixes canon :: "'k \<Rightarrow> 'c"
    and get :: "'s \<Rightarrow> 'k \<Rightarrow> string option \<times> string option"
    and put :: "'s \<Rightarrow> 'k \<Rightarrow> string option \<Rightarrow> string option \<Rightarrow> 's"
  assumes get_canon: "canon k' = canon k \<Longrightarrow> get s k' = get s k"
    and get_put_same:
      "get (put s k a b) k = (coalesce a (fst (get s k)), coalesce b (snd (get s k)))"
    and get_put_other: "canon k' \<noteq> canon k \<Longrightarrow> get (put s k a b) k' = get s k'"
begin

lemma get_put:
  "get (put s k a b) k' =
     (if canon k' = canon k then (coalesce a (fst (get s k)), coalesce b (snd (get s k)))
      else get s k')"
  using get_canon [of k' k "put s k a b"] by (simp add: get_put_same get_put_other)

lemma halves_independent:
  "get (put (put s k (Some a) None) k None (Some b)) k' =
   get (put (put s k None (Some b)) k (Some a) None) k'"
  by (simp add: get_put)

text \<open>The acknowledgement step of the sync pass: a candidate is stored only when it advances.\<close>

definition acknowledge :: "'k \<Rightarrow> string option \<Rightarrow> 's \<Rightarrow> 's" where
  "acknowledge k candidate s =
     (if cursorAdvances (snd (get s k)) candidate then put s k None candidate else s)"

lemma acknowledge_mono:
  assumes "snd (get s k) = Some old" "old \<noteq> []"
  shows "\<exists>new. snd (get (acknowledge k candidate s) k) = Some new \<and> old \<le> new"
  using assms
  by (auto simp: acknowledge_def get_put cursorAdvances_def split: option.splits if_splits)

lemma acknowledge_keeps_applied: "fst (get (acknowledge k candidate s) k') = fst (get s k')"
  by (auto simp: acknowledge_def get_put dest: get_canon [where s = s])

lemma acknowledge_run_mono:
  assumes "snd (get s k) = Some old" "old \<noteq> []"
  shows "\<exists>new. snd (get (fold (acknowledge k) cs s) k) = Some new \<and> old \<le> new"
  using assms
proof (induction cs arbitrary: s old)
  case Nil
  then show ?case by simp
next
  case (Cons c cs)
  from acknowledge_mono [OF Cons.prems] obtain mid where
    mid: "snd (get (acknowledge k c s) k) = Some mid" "old \<le> mid" by blast
  with Cons.prems have "mid \<noteq> []" by (cases mid) auto
  from Cons.IH [OF mid(1) this] mid(2) show ?case by (auto intro: order_trans)
qed

end

definition read_cursor :: "db \<Rightarrow> string \<times> string option \<Rightarrow> string option \<times> string option" where
  "read_cursor d k = fst (getReplicationCursor d (fst k) (snd k))"

definition write_cursor ::
    "string \<Rightarrow> db \<Rightarrow> string \<times> string option \<Rightarrow> string option \<Rightarrow> string option \<Rightarrow> db" where
  "write_cursor now d k a b = setReplicationCursor now d (fst k) a b (snd k)"

interpretation sync_cursor: cursor_store
  "\<lambda>k. (fst k, normalizeSyncStateScopeId (snd k))" read_cursor "write_cursor now" for now
proof unfold_locales
  fix k k' :: "string \<times> string option" and s :: db and a b
  show "(fst k', normalizeSyncStateScopeId (snd k')) = (fst k, normalizeSyncStateScopeId (snd k))
      \<Longrightarrow> read_cursor s k' = read_cursor s k"
    by (simp add: read_cursor_def getReplicationCursor_visible)
  show "read_cursor (write_cursor now s k a b) k =
      (coalesce a (fst (read_cursor s k)), coalesce b (snd (read_cursor s k)))"
    by (simp add: read_cursor_def write_cursor_def getReplicationCursor_visible
        visible_cursor_set_same Let_def)
  show "(fst k', normalizeSyncStateScopeId (snd k')) \<noteq> (fst k, normalizeSyncStateScopeId (snd k))
      \<Longrightarrow> read_cursor (write_cursor now s k a b) k' = read_cursor s k'"
    by (simp add: read_cursor_def write_cursor_def getReplicationCursor_visible visible_cursor_set_other)
qed

text \<open>The step with which \<open>pushDefaultScope\<close> acknowledges what it offered to a peer: it is the store's
  acknowledgement of the locale, on the two cursor tables.\<close>

definition acknowledgeCursor :: "string \<Rightarrow> string \<times> string option \<Rightarrow> string option \<Rightarrow> db \<Rightarrow> db" where
  "acknowledgeCursor now k ackCursor d =
     (if cursorAdvances (snd (read_cursor d k)) ackCursor then write_cursor now d k None ackCursor else d)"

lemma acknowledgeCursor_store: "acknowledgeCursor now k = sync_cursor.acknowledge now k"
  by (intro ext) (simp add: acknowledgeCursor_def sync_cursor.acknowledge_def)

end
