(* ===== verification/Transport_Properties.thy ===== *)
theory Transport_Properties
  imports Op_Batches Sync_Cursors Reset_Boundary Lamport_Clock Replicated_Payloads
begin

text \<open>
  Properties of what carries the ops: the batches a push is cut into, the cursors that remember how far a
  peer is, the reset boundary a cursor is checked against, the order of the clocks, and the tags rebuilt
  from a payload.
\<close>

section \<open>Batches\<close>

text \<open>C39: batching. When \<open>chunkOpsBySize\<close> succeeds, its batches are the ops in their order, none is empty,
  each counts within the limit, and each is as large as it can be: the first op of the next batch would
  not have fitted.\<close>

theorem batches_cover_and_fit:
  assumes "chunkOpsBySize rs maxBytes = Inr bs"
  shows "concat bs = rs \<and> (\<forall>b\<in>set bs. b \<noteq> [] \<and> counted_bytes b \<le> maxBytes) \<and> maximal_batches maxBytes bs"
  using chunk_loop_result [of maxBytes "[]" "[]" WRAPPER_OVERHEAD rs bs] assms
  by (simp add: chunkOpsBySize_def maximal_batches_def)

theorem batches_cover_and_fit_witness:
  "concat [[sample_op ''o1'' ''k'' ''upsert'' 1 ''a''], [sample_op ''o2'' ''k'' ''upsert'' 2 ''a'']]
   = [sample_op ''o1'' ''k'' ''upsert'' 1 ''a'', sample_op ''o2'' ''k'' ''upsert'' 2 ''a'']"
proof -
  have "chunkOpsBySize [sample_op ''o1'' ''k'' ''upsert'' 1 ''a'', sample_op ''o2'' ''k'' ''upsert'' 2 ''a''] 400
      = Inr [[sample_op ''o1'' ''k'' ''upsert'' 1 ''a''], [sample_op ''o2'' ''k'' ''upsert'' 2 ''a'']]"
    by code_simp
  from batches_cover_and_fit [OF this] show ?thesis by simp
qed

text \<open>Batching fails exactly when some single op does not fit with its wrapper.\<close>

theorem batching_fails_iff:
  "(\<exists>e. chunkOpsBySize rs maxBytes = Inl e) \<longleftrightarrow> (\<exists>r\<in>set rs. WRAPPER_OVERHEAD + op_bytes r > maxBytes)"
  unfolding chunkOpsBySize_def by (rule chunk_loop_error) (simp add: counted_bytes_def)

text \<open>The wrapper is counted one byte short. The text around the ops is ten bytes long, not nine: the
  body of every batch is one byte longer than what the code counted, and an op that just fits makes a
  body over the limit.\<close>

theorem batch_body_over_limit:
  "body_bytes batch = counted_bytes batch + 1
   \<and> (\<exists>bs. chunkOpsBySize [r] (WRAPPER_OVERHEAD + op_bytes r) = Inr bs
        \<and> (\<exists>b\<in>set bs. body_bytes b > WRAPPER_OVERHEAD + op_bytes r))"
proof -
  have "chunkOpsBySize [r] (WRAPPER_OVERHEAD + op_bytes r) = Inr [[r]]" by (simp add: chunkOpsBySize_def)
  moreover have "body_bytes [r] = counted_bytes [r] + 1" by (rule body_bytes_counted)
  ultimately show ?thesis by (simp add: body_bytes_counted counted_bytes_def)
qed

section \<open>Cursors\<close>

text \<open>A cursor reads back what was written. A write keeps the half it is not given and touches no
  other peer and no other scope, with the default scope also kept in the legacy table.\<close>

theorem cursor_reads_back:
  "fst (getReplicationCursor (setReplicationCursor now d peer applied acked scope) peer' scope') =
     (if peer' = peer \<and> normalizeSyncStateScopeId scope' = normalizeSyncStateScopeId scope
      then (coalesce applied (fst (fst (getReplicationCursor d peer scope))),
            coalesce acked (snd (fst (getReplicationCursor d peer scope))))
      else fst (getReplicationCursor d peer' scope'))"
  using sync_cursor.get_put [of now d "(peer, scope)" applied acked "(peer', scope')"]
  by (simp add: read_cursor_def write_cursor_def)

text \<open>Acknowledgements never go back. However many candidates the sync pass offers for a peer and a
  scope, the stored acknowledgement only grows in the order of cursor texts.\<close>

theorem acknowledgement_never_goes_back:
  assumes "snd (read_cursor d k) = Some old" "old \<noteq> []"
  shows "\<exists>new. snd (read_cursor (fold (acknowledgeCursor now k) cs d) k) = Some new \<and> old \<le> new"
  unfolding acknowledgeCursor_store using assms by (rule sync_cursor.acknowledge_run_mono)

theorem acknowledgement_never_goes_back_witness:
  "\<exists>new. snd (read_cursor (fold (acknowledgeCursor ''t'' (''p'', None)) [Some ''2026|a'', Some ''2020|b'']
      (write_cursor ''t'' empty_db (''p'', None) None (Some ''2021|c''))) (''p'', None)) = Some new \<and> ''2021|c'' \<le> new"
proof (rule acknowledgement_never_goes_back)
  show "snd (read_cursor (write_cursor ''t'' empty_db (''p'', None) None (Some ''2021|c'')) (''p'', None)) = Some ''2021|c''"
    by code_simp
qed simp

section \<open>The reset boundary\<close>

text \<open>The boundary reads back what was set. A later read of the same scope, however the scope is
  spelled, returns the boundary that was written and writes nothing.\<close>

theorem boundary_reads_back:
  assumes "effective_scope q = written_scope u k"
  shows "getSyncResetState now' fresh' (snd (setSyncResetState now fresh d u k)) q =
    ((fst (setSyncResetState now fresh d u k)) \<lparr> rb_scope_id := if q \<noteq> None then Some (written_scope u k) else None \<rparr>,
     snd (setSyncResetState now fresh d u k))"
  using assms by (rule getSyncResetState_set)

theorem boundary_reads_back_witness:
  "getSyncResetState ''t2'' ''s2'' (snd (setSyncResetState ''t'' ''s'' empty_db
      \<lparr> ru_scope_id = None, ru_generation = Some 7, ru_snapshot_id = None, ru_baseline_cursor = None, ru_retained_floor_cursor = None \<rparr>
      (Some (Some '' team '')))) (Some (Some ''team'')) =
    ((fst (setSyncResetState ''t'' ''s'' empty_db
      \<lparr> ru_scope_id = None, ru_generation = Some 7, ru_snapshot_id = None, ru_baseline_cursor = None, ru_retained_floor_cursor = None \<rparr>
      (Some (Some '' team '')))) \<lparr> rb_scope_id := if Some (Some ''team'') \<noteq> None then Some (written_scope
      \<lparr> ru_scope_id = None, ru_generation = Some 7, ru_snapshot_id = None, ru_baseline_cursor = None, ru_retained_floor_cursor = None \<rparr>
      (Some (Some '' team ''))) else None \<rparr>,
     snd (setSyncResetState ''t'' ''s'' empty_db
      \<lparr> ru_scope_id = None, ru_generation = Some 7, ru_snapshot_id = None, ru_baseline_cursor = None, ru_retained_floor_cursor = None \<rparr>
      (Some (Some '' team ''))))"
  by (rule boundary_reads_back) code_simp

text \<open>Reading a boundary is stable: the first read of a scope may create its boundary; every later read
  returns the same boundary and leaves the database alone.\<close>

theorem boundary_read_stable:
  "getSyncResetState now' fresh' (snd (getSyncResetState now fresh d k)) k = getSyncResetState now fresh d k"
  by (rule getSyncResetState_stable)

section \<open>Clocks\<close>

text \<open>The clocks are totally ordered: of two different clocks exactly one is newer, and newer is
  transitive; so comparing with \<open>isNewerClock\<close> never depends on who compares.\<close>

theorem clock_order_total:
  "(isNewerClock a b \<or> isNewerClock b a) = (a \<noteq> b) \<and> \<not> (isNewerClock a b \<and> isNewerClock b a)
   \<and> \<not> (isNewerClock a b \<and> isNewerClock b c \<and> \<not> isNewerClock a c)"
  unfolding isNewerClock_less by (auto simp: neq_iff)

section \<open>Tags\<close>

text \<open>A tag is a slug. What \<open>normalizeTag\<close> returns is empty or made of lower-case letters, digits,
  underscores and hyphens, no longer than 40 characters.\<close>

theorem tag_is_slug:
  "list_all (\<lambda>c. tag_char c \<or> c = CHR ''-'') (normalizeTag stopwords v) \<and> length (normalizeTag stopwords v) \<le> 40"
  using normalizeTag_chars normalizeTag_length [of stopwords v]
  by (auto simp: list_all_iff)

end
