(* ===== verification/Access_Properties.thy ===== *)
theory Access_Properties
  imports Apply_Convergence Scope_Authorization Source_Identity Memory_Provenance
begin

text \<open>
  Properties of who may see and change what: the identities of memories and the provenance ledgers, the
  cached scope memberships and the decision made from them, what leaves a device, and what it accepts.
\<close>

section \<open>Identities and provenance\<close>

text \<open>The namespace of a memory identity round-trips. The identity made for a valid device and nonce is
  read back as that device, and nothing else is ever read: an identity with a namespace has exactly this
  form.\<close>

theorem namespace_roundtrip:
  assumes "validDeviceId source" "is_uuid_v4 nonce" "length (qualified_identity source nonce) \<le> 1500"
  shows "memorySourceNamespace (qualified_identity source nonce) = Some source"
  using assms by (rule memorySourceNamespace_qualified)

theorem namespace_roundtrip_witness:
  "memorySourceNamespace (qualified_identity ''dev-a'' ''0a1b2c3d-0000-4000-8000-000000000000'') = Some ''dev-a''"
  by (rule namespace_roundtrip; code_simp)

text \<open>Nobody can claim another device's namespace by spelling it differently: whatever identity is read
  as belonging to a device is the canonical identity of that device and some nonce.\<close>

theorem namespace_canonical:
  assumes "memorySourceNamespace entity = Some source"
  shows "validDeviceId source \<and> (\<exists>nonce. is_uuid_v4 nonce \<and> entity = qualified_identity source nonce)"
  using assms by (rule memorySourceNamespace_only)

theorem namespace_canonical_witness:
  "validDeviceId ''dev-a'' \<and> (\<exists>nonce. is_uuid_v4 nonce
     \<and> ''memory-source-v1:ZGV2LWE:0a1b2c3d-0000-4000-8000-000000000000'' = qualified_identity ''dev-a'' nonce)"
  by (rule namespace_canonical) code_simp

text \<open>Only the device a memory is named after can take it out of a scope, and when the call succeeds the
  scope is retired for that memory.\<close>

theorem retirement_needs_owner:
  assumes "recordMemoryScopeRetirement in_tx wall now d i authenticated = Inr d'"
  shows "memorySourceNamespace (ri_entity i) = Some authenticated \<and> ri_source i = authenticated
    \<and> isMemoryScopeRetired d' (ri_entity i) (Some (ri_scope i))"
  using assms
  by (auto simp: recordMemoryScopeRetirement_def verifyAuthenticatedMemorySource_def isMemoryScopeRetired_def
      exists_where_iff validateRetirement_def valid_retirement_text_def
      split: if_splits sum.splits prod.splits option.splits)

definition sample_retirement :: retirement_input where
  "sample_retirement = \<lparr> ri_entity = qualified_identity ''dev-a'' ''0a1b2c3d-0000-4000-8000-000000000000'',
     ri_source = ''dev-a'', ri_scope = ''team'' \<rparr>"

theorem retirement_needs_owner_witness:
  "\<exists>d'. recordMemoryScopeRetirement True ''t'' ''t'' empty_db sample_retirement ''dev-a'' = Inr d'
     \<and> isMemoryScopeRetired d' (ri_entity sample_retirement) (Some (ri_scope sample_retirement))"
proof -
  have ok: "isl (recordMemoryScopeRetirement True ''t'' ''t'' empty_db sample_retirement ''dev-a'') = False" by code_simp
  then obtain d' where d': "recordMemoryScopeRetirement True ''t'' ''t'' empty_db sample_retirement ''dev-a'' = Inr d'"
    by (cases "recordMemoryScopeRetirement True ''t'' ''t'' empty_db sample_retirement ''dev-a''") auto
  from retirement_needs_owner [OF d'] d' show ?thesis by blast
qed

text \<open>The steps of the provenance modules.\<close>

inductive provenance_step :: "db \<Rightarrow> db \<Rightarrow> bool" where
  bind: "persistBinding in_tx now d b = Inr (b', d') \<Longrightarrow> provenance_step d d'"
| allocate: "allocateLocalMemorySource in_tx now nonce d = Inr (b', d') \<Longrightarrow> provenance_step d d'"
| capture: "allocateLocalCaptureMemorySource fp in_tx now cf nonce d rt pk = Inr (ob, d') \<Longrightarrow> provenance_step d d'"
| adopt: "adoptLocalCapture fp in_tx now d dev ort act pk = Inr d' \<Longrightarrow> provenance_step d d'"
| verify: "verifyAuthenticatedMemorySource in_tx now d e p = Inr (b', d') \<Longrightarrow> provenance_step d d'"
| created: "recordLocalCreationSnapshot in_tx now d i = Inr d' \<Longrightarrow> provenance_step d d'"
| foreign: "recordForeignMemoryRevision in_tx now d e path = Inr d' \<Longrightarrow> provenance_step d d'"
| retire: "recordMemoryScopeRetirement in_tx wall now d ri a = Inr d' \<Longrightarrow> provenance_step d d'"

lemma provenance_step_extends: "provenance_step d d' \<Longrightarrow> ledgers_extend d d'"
proof (induction rule: provenance_step.induct)
  case (foreign in_tx now d e path d')
  then show ?case using note_foreign_revision_extends
    by (auto simp: recordForeignMemoryRevision_def split: if_splits)
qed (auto intro: persistBinding_extends allocateLocalMemorySource_extends allocateLocalCaptureMemorySource_extends
    adoptLocalCapture_extends verifyAuthenticatedMemorySource_extends recordLocalCreationSnapshot_extends
    recordMemoryScopeRetirement_extends)

lemma provenance_run_extends: "provenance_step\<^sup>*\<^sup>* d d' \<Longrightarrow> ledgers_extend d d'"
  by (induction rule: rtranclp_induct) (auto intro: ledgers_extend_trans provenance_step_extends)

text \<open>C35: provenance is permanent. Along any run of the provenance operations a binding, a retirement and a
  noted foreign revision stay what they were: a memory never changes its source, never comes back into a
  retired scope's good standing, and never counts as a local creation again.\<close>

theorem provenance_permanent:
  assumes "provenance_step\<^sup>*\<^sup>* d d'"
  shows "(getVerifiedMemorySource d e = Some b \<longrightarrow> getVerifiedMemorySource d' e = Some b)
    \<and> (isMemoryScopeRetired d e s \<longrightarrow> isMemoryScopeRetired d' e s)
    \<and> (foreign_at d e \<noteq> None \<longrightarrow> \<not> hasMatchingLocalCreation d' e srcs i)"
proof -
  note ext = provenance_run_extends [OF assms]
  show ?thesis
    using binding_ledger.lookup_mono [OF ext] isMemoryScopeRetired_mono [OF ext]
      foreign_ledger.lookup_mono [OF ext] foreign_not_matching [of d' e srcs i] by fastforce
qed

definition bound_db :: db where
  "bound_db = retired_db\<lparr> source_bindings := [\<lparr> bd_entity = ''k1'', bd_source = ''here'', bd_evidence = LocalCreation,
     bd_created_at = ''t'' \<rparr>] \<rparr>"

theorem provenance_permanent_witness: "isMemoryScopeRetired bound_db ''k1'' (Some ''team'')"
proof -
  have "persistBinding True ''t'' retired_db \<lparr> vs_entity = ''k1'', vs_source = ''here'', vs_evidence = LocalCreation \<rparr>
      = Inr (\<lparr> vs_entity = ''k1'', vs_source = ''here'', vs_evidence = LocalCreation \<rparr>, bound_db)" by code_simp
  then have "provenance_step retired_db bound_db" by (rule provenance_step.bind)
  then have run: "provenance_step\<^sup>*\<^sup>* retired_db bound_db" by (rule r_into_rtranclp)
  have "isMemoryScopeRetired retired_db ''k1'' (Some ''team'')" by code_simp
  with provenance_permanent [OF run, of "''k1''" _ "Some ''team''"] show ?thesis by blast
qed

section \<open>The membership cache\<close>

text \<open>C34: a revoked member returns only under a newer epoch. Whatever memberships are stored, a cached one
  is never replaced by an older one, and once revoked it is either unchanged or its epoch is strictly
  newer.\<close>

theorem revoked_needs_newer_epoch:
  assumes "find_membership d k = Some m"
  shows "\<exists>m'. find_membership (snd (upsertCachedScopeMemberships d ms)) k = Some m' \<and> sm_epoch m \<le> sm_epoch m'
    \<and> (sm_status m = ''revoked'' \<longrightarrow> m' = m \<or> sm_epoch m < sm_epoch m')"
  using membership_cache.run_progress [OF assms, of ms]
  by (simp add: upsertCachedScopeMemberships_fold is_revoked_def)

theorem revoked_needs_newer_epoch_witness:
  "\<exists>m'. find_membership (snd (upsertCachedScopeMemberships (empty_db\<lparr> memberships := [sample_member ''a'' ''revoked'' 3] \<rparr>)
       [sample_member ''a'' ''active'' 3])) (''team'', ''a'') = Some m' \<and> sm_epoch (sample_member ''a'' ''revoked'' 3) \<le> sm_epoch m'
     \<and> (sm_status (sample_member ''a'' ''revoked'' 3) = ''revoked'' \<longrightarrow>
          m' = sample_member ''a'' ''revoked'' 3 \<or> sm_epoch (sample_member ''a'' ''revoked'' 3) < sm_epoch m')"
  by (rule revoked_needs_newer_epoch) code_simp

text \<open>The decision. A device is authorized for a scope exactly when no deny overlay covers it, it is an
  active member, the scope is known and active, and its membership is not of an older epoch.\<close>

theorem authorized_iff:
  "cached_decision d dev s = Authorized \<longleftrightarrow>
     getAnyRecipientPolicyDenyOverlayForScopeDevice d s dev = None
     \<and> (\<exists>m sc. find_membership d (s, dev) = Some m \<and> scopeFromJoinedRow d m = Some sc
          \<and> sm_status m = ''active'' \<and> (sc_status sc = [] \<or> sc_status sc = ''active'') \<and> sc_epoch sc \<le> sm_epoch m)"
  by (rule cached_decision_Authorized)

lemma require_all_map:
  "require_all f xs = Inr ys \<Longrightarrow> (\<And>x y. f x = Inr y \<Longrightarrow> g y = h x) \<Longrightarrow> map g ys = map h xs"
  by (induction xs arbitrary: ys) (auto split: sum.splits)

lemma gathered_batches:
  assumes "gatherCurrentSnapshots ki a fetch catalog = Inr bs" "distinct (map sc_id catalog)"
  shows "(\<forall>b\<in>set bs. wf_batch a b) \<and> distinct (map (\<lambda>b. sc_id (bt_scope b)) bs)"
proof -
  have one: "wf_batch a b \<and> sc_id (bt_scope b) = sc_id s"
    if "(case fetch (sc_id s) of Inl e \<Rightarrow> Inl e | Inr snap \<Rightarrow> normalizeScopeSnapshot ki snap s (snd a) (fst a)) = Inr b" for s b
    using that normalizeScopeSnapshot_wf [of ki _ s "snd a" "fst a" b] by (auto split: sum.splits)
  have "map (\<lambda>b. sc_id (bt_scope b)) bs = map sc_id catalog"
    by (rule require_all_map [OF assms(1) [unfolded gatherCurrentSnapshots.simps]]) (use one in blast)
  moreover have "wf_batch a b" if "b \<in> set bs" for b
    using require_all_members [OF assms(1) [unfolded gatherCurrentSnapshots.simps] that] one by blast
  ultimately show ?thesis using assms(2) by simp
qed

lemma refreshed_group:
  assumes "refresh_group ki t a (Inr bs) d = (res, d')" "gr_refreshed res"
  obtains r where "persistCurrentSnapshots ki t d bs a r = Inr (None, d')"
  using assms by (auto simp: refresh_group_def Let_def split: sum.splits prod.splits)

text \<open>C33: a refresh makes the cache say what the coordinator said. After a refreshed group, for every scope
  of the answer, a device the answer does not list is not authorized, and a listed one is authorized
  unless a deny overlay covers it.\<close>

theorem refresh_decides:
  assumes "gatherCurrentSnapshots ki a fetch catalog = Inr bs" "distinct (map sc_id catalog)"
    "refresh_group ki t a (Inr bs) d = (res, d')" "gr_refreshed res" "b \<in> set bs"
  shows "cached_decision d' dev (sc_id (bt_scope b)) = Authorized \<longleftrightarrow>
    dev \<in> sm_device ` set (bt_members b)
    \<and> getAnyRecipientPolicyDenyOverlayForScopeDevice d (sc_id (bt_scope b)) dev = None"
proof -
  obtain r where p: "persistCurrentSnapshots ki t d bs a r = Inr (None, d')"
    using refreshed_group [OF assms(3,4)] .
  note wf = gathered_batches [OF assms(1,2), THEN conjunct1]
  note dist = gathered_batches [OF assms(1,2), THEN conjunct2]
  show ?thesis
  proof (cases "dev \<in> sm_device ` set (bt_members b)")
    case True
    then obtain m where m: "m \<in> set (bt_members b)" "dev = sm_device m" by blast
    show ?thesis using refresh_admits [OF p wf dist assms(5) m(1)] True m(2) by simp
  next
    case False
    from refresh_fails_closed [OF p _ wf dist assms(5) False] False show ?thesis by (simp add: superseded_error_def)
  qed
qed

theorem refresh_decides_witness:
  "cached_decision (snd (refresh_group Some ''t'' (''c'', ''g'')
      (gatherCurrentSnapshots Some (''c'', ''g'') (\<lambda>s. Inr sample_snapshot) [sample_scope]) empty_db)) ''a'' ''team'' = Authorized"
proof -
  let ?bs = "gatherCurrentSnapshots Some (''c'', ''g'') (\<lambda>s. Inr sample_snapshot) [sample_scope]"
  let ?b = "\<lparr> bt_scope = sample_scope\<lparr> sc_coordinator_id := Some ''c'' \<rparr>,
     bt_members = [(sample_member ''a'' ''active'' 1)\<lparr> sm_coordinator_id := Some ''c'', sm_group_id := Some ''g'' \<rparr>],
     bt_source_coordinator = None, bt_evidence = sample_snapshot \<rparr>"
  have gathered: "?bs = Inr [?b]" by code_simp
  have ok: "gr_refreshed (fst (refresh_group Some ''t'' (''c'', ''g'') (Inr [?b]) empty_db))" by code_simp
  have "cached_decision (snd (refresh_group Some ''t'' (''c'', ''g'') (Inr [?b]) empty_db)) ''a'' (sc_id (bt_scope ?b)) = Authorized
      \<longleftrightarrow> ''a'' \<in> sm_device ` set (bt_members ?b)
        \<and> getAnyRecipientPolicyDenyOverlayForScopeDevice empty_db (sc_id (bt_scope ?b)) ''a'' = None"
    by (rule refresh_decides [OF gathered _ prod.collapse [symmetric] ok]) simp_all
  moreover have "getAnyRecipientPolicyDenyOverlayForScopeDevice empty_db ''team'' ''a'' = None" by code_simp
  ultimately show ?thesis unfolding gathered by (simp add: sample_member_def sample_scope_def)
qed

text \<open>An overtaken refresh writes nothing. When another refresh of the group was committed since the
  revision was read, neither the answer nor its failure is stored.\<close>

theorem overtaken_refresh_is_discarded:
  assumes "persistCurrentSnapshots ki t d bs a r = Inr (err, d1)" "err \<noteq> Some superseded_error"
  shows "snd (recordRefreshFailure t' d1 a e (Some r)) = d1
    \<and> persistCurrentSnapshots ki' t' d1 bs' a r \<in> {Inl refresh_revision_error, Inr (Some superseded_error, d1)}"
proof -
  have "readRefreshRevision d1 a \<noteq> Inr r"
    using persist_advances [OF assms] by (intro readRefreshRevision_next) simp
  from overtaken_refresh_writes_nothing [OF this] show ?thesis by blast
qed

theorem overtaken_refresh_is_discarded_witness:
  "persistCurrentSnapshots Some ''t2'' (snd (projr (persistCurrentSnapshots Some ''t'' empty_db [] (''c'', ''g'') 0))) [] (''c'', ''g'') 0
   \<in> {Inl refresh_revision_error,
       Inr (Some superseded_error, snd (projr (persistCurrentSnapshots Some ''t'' empty_db [] (''c'', ''g'') 0)))}"
proof -
  have "persistCurrentSnapshots Some ''t'' empty_db [] (''c'', ''g'') 0
      = Inr (None, snd (projr (persistCurrentSnapshots Some ''t'' empty_db [] (''c'', ''g'') 0)))" by code_simp
  from overtaken_refresh_is_discarded [OF this] show ?thesis by simp
qed

section \<open>What leaves the device\<close>

text \<open>The outbound filter decides op by op. It keeps the allowed ops in their order, reports a cursor past
  the last op it looked at, allowed or not, and reports the first refusal with the number of all
  refusals.\<close>

theorem outbound_filter_exact:
  "filterReplicationOpsForSyncWithStatus cfg d rs peer opts =
     (filter (\<lambda>r. outbound_decision cfg d peer opts r = None) rs,
      (if rs = [] then None else Some (computeCursor (op_created_at (last rs)) (op_id (last rs)))),
      map_option (\<lambda>f. f\<lparr> sr_count := length (filter (\<lambda>r. outbound_decision cfg d peer opts r \<noteq> None) rs) \<rparr>)
        (first_refusal (outbound_decision cfg d peer opts) rs))"
  using filterReplicationOps_result [of cfg d rs peer opts] by (simp add: Let_def)

text \<open>C6: nothing leaks. A memory upsert or delete that passes the outbound filter with scopes applied names a
  scope other than the local default, the peer and this device are both admitted to it by the cache, the
  scope is not local, the payload does not name another scope, and the memory was not retired from it; unless
  it is a delete without payload, it is not private without a grant and its project passes the filters.\<close>

theorem nothing_leaks:
  assumes "r \<in> set (fst (filterReplicationOpsForSyncWithStatus cfg d rs peer opts))" "op_entity_type r = ''memory_item''"
    "op_type r \<noteq> ACCESS_CLEANUP_OP_TYPE" "op_type r \<noteq> REASSIGN_SCOPE_OP_TYPE" "fo_apply_scope opts"
  shows "\<exists>s p. clean_text (op_scope_id r) = Some s \<and> s \<noteq> DEFAULT_SYNC_SCOPE_ID \<and> clean_text peer = Some p
    \<and> scope_gate d p s \<and> (\<forall>l. clean_text (fo_local_device opts) = Some l \<longrightarrow> scope_gate d l s)
    \<and> payloadScopeId (parsePayload (op_payload r)) \<in> {None, Some s}
    \<and> \<not> isMemoryScopeRetired d (op_entity_id r) (Some s)
    \<and> (op_type r = ''delete'' \<and> parsePayload (op_payload r) = None
       \<or> \<not> privately_blocked d (op_scope_id r) (parsePayload (op_payload r)) peer
         \<and> syncProjectAllowed cfg d (cleanText (field_of ''project'' (parsePayload (op_payload r)))) peer)"
proof -
  have none: "outbound_decision cfg d peer opts r = None"
    using assms(1) filterReplicationOps_result [of cfg d rs peer opts] by (simp add: Let_def)
  from outbound_decision_None [OF this assms(2-4)] have
    nb: "\<not> retirementBlocksMemoryOp d r" and reg: "regular_decision cfg d peer opts r = None" by simp_all
  from regular_decision_None [OF reg] assms(5) obtain s where s: "clean_text (op_scope_id r) = Some s"
    "outboundScopeAllowed d r (parsePayload (op_payload r)) peer (fo_local_device opts)"
    "op_type r = ''delete'' \<and> parsePayload (op_payload r) = None
       \<or> \<not> privately_blocked d (op_scope_id r) (parsePayload (op_payload r)) peer
         \<and> syncProjectAllowed cfg d (cleanText (field_of ''project'' (parsePayload (op_payload r)))) peer" by blast
  have "\<not> isMemoryScopeRetired d (op_entity_id r) (Some s)"
    using retirementBlocks_scope [OF assms(2), of d] nb s(1) by auto
  then show ?thesis using outboundScopeAllowed_gate [OF s(2,1)] s(1,3) by blast
qed

definition team_db :: db where
  "team_db = empty_db\<lparr> scopes := [sample_scope], memberships := [sample_member ''a'' ''active'' 1, sample_member ''b'' ''active'' 1] \<rparr>"

definition open_config :: sync_config where
  "open_config = \<lparr> env_projects_include = None, env_projects_exclude = None,
     config_projects_include = None, config_projects_exclude = None \<rparr>"

definition team_options :: filter_options where
  "team_options = \<lparr> fo_local_device = Some ''a'', fo_apply_scope = True, fo_supports_reassign = True \<rparr>"

definition team_delete :: replication_op where
  "team_delete = (sample_op ''o1'' ''k1'' ''delete'' 1 ''a'')\<lparr> op_payload := None \<rparr>"

theorem nothing_leaks_witness:
  "\<exists>s p. clean_text (op_scope_id team_delete) = Some s \<and> s \<noteq> DEFAULT_SYNC_SCOPE_ID \<and> clean_text (Some ''b'') = Some p
    \<and> scope_gate team_db p s"
proof -
  have "team_delete \<in> set (fst (filterReplicationOpsForSyncWithStatus open_config team_db [team_delete] (Some ''b'') team_options))"
    by code_simp
  from nothing_leaks [OF this] show ?thesis
    by (simp add: team_delete_def sample_op_def team_options_def ACCESS_CLEANUP_OP_TYPE_def REASSIGN_SCOPE_OP_TYPE_def) blast
qed

section \<open>What the device accepts\<close>

lemma steps_keep_rejected: "ap_rejected (fst (apply_steps ctx rs st)) = ap_rejected (fst st)"
proof (induction rs arbitrary: st)
  case (Cons r rs)
  have "ap_rejected (fst (apply_step ctx r st)) = ap_rejected (fst st)"
    by (simp add: apply_step_def finish_vectors_def count_outcome_def
        split: sum.splits option.splits vector_work.splits op_outcome.splits)
  then show ?case using Cons.IH by simp
qed simp

text \<open>C5: admitted ops only. When a validated batch is not refused, each of its ops outside the default scope
  (cleanups and ops of retired memories, which are not applied, apart) was made and clocked by the
  authenticated sender, the sender and this device are both admitted to its scope, and its payload does
  not contradict the scope.\<close>

theorem accepted_ops_are_admitted:
  assumes "io_enabled opts" "ap_rejected (fst (applyReplicationOps ctx (Some opts) d rs)) = 0"
    "clean_text (io_peer opts) = Some p" "r \<in> set rs" "\<not> retirementBlocksMemoryOp d r"
    "op_type r \<noteq> ACCESS_CLEANUP_OP_TYPE" "clean_text (op_scope_id r) \<noteq> Some DEFAULT_SYNC_SCOPE_ID"
  shows "\<exists>s. clean_text (op_scope_id r) = Some s \<and> sent_by (Some p) r \<and> scope_gate d p s
    \<and> (\<exists>me. clean_text (Some (ax_local ctx)) = Some me \<and> scope_gate d me s)
    \<and> \<not> payloadContradictsInboundScope s (parsePayload (op_payload r))"
proof -
  let ?ok = "filter (\<lambda>r. \<not> retirementBlocksMemoryOp d r) rs"
  have "rejectInboundScopeFailures (ax_now ctx) d ?ok (ax_local ctx) opts = None"
    using assms(2) by (auto simp: applyReplicationOps_def rejectUnretiredScopeFailures_def Let_def
        rejectInboundScopeFailures_def split: if_splits)
  then have "validateInboundScopeOp d r (ax_local ctx) opts = None"
    using assms(1,3,4,5) by (auto simp: rejectInbound_None)
  from validateInboundScopeOp_None [OF this assms(6,7)] assms(3) show ?thesis by auto
qed

definition team_inbound :: inbound_options where
  "team_inbound = \<lparr> io_peer = Some ''b'', io_enabled = True \<rparr>"

definition here_context :: apply_context where
  "here_context = sample_context\<lparr> ax_local := ''a'' \<rparr>"

theorem accepted_ops_are_admitted_witness:
  "\<exists>s. clean_text (op_scope_id (sample_op ''o1'' ''k1'' ''upsert'' 1 ''b'')) = Some s
    \<and> sent_by (Some ''b'') (sample_op ''o1'' ''k1'' ''upsert'' 1 ''b'') \<and> scope_gate team_db ''b'' s
    \<and> (\<exists>me. clean_text (Some (ax_local here_context)) = Some me \<and> scope_gate team_db me s)
    \<and> \<not> payloadContradictsInboundScope s (parsePayload (op_payload (sample_op ''o1'' ''k1'' ''upsert'' 1 ''b'')))"
proof (rule accepted_ops_are_admitted [where opts = team_inbound and rs = "[sample_op ''o1'' ''k1'' ''upsert'' 1 ''b'']"])
  show "ap_rejected (fst (applyReplicationOps here_context (Some team_inbound) team_db
      [sample_op ''o1'' ''k1'' ''upsert'' 1 ''b''])) = 0" by code_simp
  show "\<not> retirementBlocksMemoryOp team_db (sample_op ''o1'' ''k1'' ''upsert'' 1 ''b'')" by code_simp
  show "clean_text (io_peer team_inbound) = Some ''b''" by code_simp
  show "clean_text (op_scope_id (sample_op ''o1'' ''k1'' ''upsert'' 1 ''b'')) \<noteq> Some DEFAULT_SYNC_SCOPE_ID" by code_simp
  show "op_type (sample_op ''o1'' ''k1'' ''upsert'' 1 ''b'') \<noteq> ACCESS_CLEANUP_OP_TYPE" by code_simp
qed (simp_all add: team_inbound_def)

text \<open>C38: a refused batch changes nothing. When a validated batch is refused, nothing is applied and the
  database differs only in the log of refusals, which grows by one entry per refusal.\<close>

theorem refused_batch_only_logs:
  assumes "ap_rejected (fst (applyReplicationOps ctx v d rs)) > 0"
  shows "ap_applied (fst (applyReplicationOps ctx v d rs)) = 0
    \<and> (\<exists>rows. length rows = ap_rejected (fst (applyReplicationOps ctx v d rs))
         \<and> snd (applyReplicationOps ctx v d rs) = d\<lparr> rejections := rejections d @ rows \<rparr>)"
proof (cases "case v of None \<Rightarrow> None
    | Some opts \<Rightarrow> rejectUnretiredScopeFailures (ax_now ctx) d rs (ax_local ctx) opts")
  case None
  then have "ap_rejected (fst (applyReplicationOps ctx v d rs)) = 0"
    using steps_keep_rejected [of ctx rs "(emptyApplyResult, d)"]
    by (simp add: applyReplicationOps_def apply_steps_def emptyApplyResult_def)
  with assms show ?thesis by simp
next
  case (Some res)
  then obtain opts where opts: "v = Some opts" by (cases v) auto
  have eq: "applyReplicationOps ctx v d rs = res" using Some by (simp add: applyReplicationOps_def)
  obtain rejs where "ap_applied (fst res) = 0" "ap_rejected (fst res) = length rejs"
    "snd res = recordInboundScopeRejections (ax_now ctx) d rejs"
    using Some unfolding opts
    by (auto simp: rejectUnretiredScopeFailures_def rejectInboundScopeFailures_def Let_def emptyApplyResult_def
        split: if_splits)
  then show ?thesis unfolding eq using log_rejections_only [of rejs "ax_now ctx" d] by metis
qed

theorem refused_batch_only_logs_witness:
  "ap_applied (fst (applyReplicationOps here_context (Some team_inbound) empty_db [sample_op ''o1'' ''k1'' ''upsert'' 1 ''b''])) = 0"
proof -
  have "ap_rejected (fst (applyReplicationOps here_context (Some team_inbound) empty_db [sample_op ''o1'' ''k1'' ''upsert'' 1 ''b''])) > 0"
    by code_simp
  from refused_batch_only_logs [OF this] show ?thesis by simp
qed

end
