(* ===== verification/Wildcard_Match.thy ===== *)
theory Wildcard_Match
  imports Codemem_Prelude
begin

text \<open>
  The wildcard matcher of project patterns (\<open>packages/core/src/wildcard-match.ts\<close>): one row of cells per
  prefix of the pattern, a cell per prefix of the text, where \<open>*\<close> stands for a run of characters and \<open>?\<close>
  for one, line ends excepted. The characters are code units (or code points, as the caller splits the
  text), so a text is a list of numbers.

  The reference is the language of the pattern: a text matches when it splits into one part per token.
\<close>

section \<open>The matcher\<close>

type_synonym code_unit = int

definition STAR :: code_unit where "STAR = 42"
definition QUESTION :: code_unit where "QUESTION = 63"

definition code_units :: "string \<Rightarrow> code_unit list" where
  "code_units s = map of_char s"

definition matchesDot :: "code_unit \<Rightarrow> bool" where
  "matchesDot c \<longleftrightarrow> c \<notin> {10, 13, 8232, 8233}"

definition matchesSingle :: "code_unit \<Rightarrow> code_unit \<Rightarrow> bool" where
  "matchesSingle token c \<longleftrightarrow> (if token = QUESTION then matchesDot c else token = c)"

text \<open>One round of the loop over \<open>index\<close>, on the row it fills.\<close>

definition fill_cell :: "bool list \<Rightarrow> code_unit \<Rightarrow> code_unit list \<Rightarrow> nat \<Rightarrow> bool list \<Rightarrow> bool list" where
  "fill_cell previous token characters index row =
     (let c = characters ! (index - 1) in
      if token = STAR then row[index := previous ! index \<or> (row ! (index - 1) \<and> matchesDot c)]
      else if matchesSingle token c then row[index := previous ! (index - 1)]
      else row)"

definition advanceWildcardRow :: "bool list \<Rightarrow> code_unit \<Rightarrow> code_unit list \<Rightarrow> bool list" where
  "advanceWildcardRow previous token characters =
     fold (fill_cell previous token characters) [1..<length characters + 1]
       ((replicate (length characters + 1) False)[0 := token = STAR \<and> previous ! 0])"

definition matchesWildcard :: "code_unit list \<Rightarrow> code_unit list \<Rightarrow> bool" where
  "matchesWildcard characters tokens =
     fold (\<lambda>token previous. advanceWildcardRow previous token characters) tokens
       ((replicate (length characters + 1) False)[0 := True]) ! length characters"

section \<open>The language of a pattern\<close>

definition token_parts :: "code_unit \<Rightarrow> code_unit list set" where
  "token_parts token = (if token = STAR then {part. list_all matchesDot part}
     else {part. \<exists>c. part = [c] \<and> matchesSingle token c})"

definition wildcard_language :: "code_unit list \<Rightarrow> code_unit list set" where
  "wildcard_language tokens = {concat parts |parts. list_all2 (\<lambda>part token. part \<in> token_parts token) parts tokens}"

lemma language_Nil [simp]: "str \<in> wildcard_language [] \<longleftrightarrow> str = []"
  by (auto simp: wildcard_language_def)

lemma language_snoc: "str \<in> wildcard_language (tokens @ [token]) \<longleftrightarrow>
    (\<exists>front part. str = front @ part \<and> front \<in> wildcard_language tokens \<and> part \<in> token_parts token)"
proof
  assume "str \<in> wildcard_language (tokens @ [token])"
  then obtain parts where "str = concat parts"
      "list_all2 (\<lambda>part token. part \<in> token_parts token) parts (tokens @ [token])"
    by (auto simp: wildcard_language_def)
  then obtain front part where "str = concat (front @ [part])" "part \<in> token_parts token"
      "list_all2 (\<lambda>part token. part \<in> token_parts token) front tokens"
    by (auto simp: list_all2_append2 list_all2_Cons2)
  then show "\<exists>front part. str = front @ part \<and> front \<in> wildcard_language tokens \<and> part \<in> token_parts token"
    by (auto simp: wildcard_language_def)
next
  assume "\<exists>front part. str = front @ part \<and> front \<in> wildcard_language tokens \<and> part \<in> token_parts token"
  then obtain parts part where "str = concat (parts @ [part])" "part \<in> token_parts token"
      "list_all2 (\<lambda>part token. part \<in> token_parts token) parts tokens"
    by (auto simp: wildcard_language_def)
  then show "str \<in> wildcard_language (tokens @ [token])"
    unfolding wildcard_language_def mem_Collect_eq
    by (intro exI [of _ "parts @ [part]"]) (simp add: list_all2_appendI)
qed

lemma language_snoc_single:
  assumes "token \<noteq> STAR"
  shows "[] \<notin> wildcard_language (tokens @ [token])"
    and "str @ [c] \<in> wildcard_language (tokens @ [token]) \<longleftrightarrow>
      matchesSingle token c \<and> str \<in> wildcard_language tokens"
  using assms by (auto simp: language_snoc token_parts_def)

lemma language_snoc_star:
  "[] \<in> wildcard_language (tokens @ [STAR]) \<longleftrightarrow> [] \<in> wildcard_language tokens"
  "str @ [c] \<in> wildcard_language (tokens @ [STAR]) \<longleftrightarrow>
     str @ [c] \<in> wildcard_language tokens \<or> str \<in> wildcard_language (tokens @ [STAR]) \<and> matchesDot c"
proof -
  show "[] \<in> wildcard_language (tokens @ [STAR]) \<longleftrightarrow> [] \<in> wildcard_language tokens"
    by (auto simp: language_snoc token_parts_def)
  show "str @ [c] \<in> wildcard_language (tokens @ [STAR]) \<longleftrightarrow>
     str @ [c] \<in> wildcard_language tokens \<or> str \<in> wildcard_language (tokens @ [STAR]) \<and> matchesDot c"
    (is "?l \<longleftrightarrow> ?r")
  proof
    assume ?l
    then obtain front part where split: "str @ [c] = front @ part" "front \<in> wildcard_language tokens"
        "list_all matchesDot part"
      by (auto simp: language_snoc token_parts_def)
    then show ?r
      by (cases part rule: rev_cases) (auto simp: language_snoc token_parts_def)
  next
    assume ?r
    then consider "str @ [c] \<in> wildcard_language tokens"
      | front part where "str = front @ part" "front \<in> wildcard_language tokens" "list_all matchesDot part" "matchesDot c"
      by (auto simp: language_snoc token_parts_def)
    then show ?l
    proof cases
      case 1
      then show ?thesis by (force simp: language_snoc token_parts_def)
    next
      case 2
      then have "str @ [c] = front @ (part @ [c])" "list_all matchesDot (part @ [c])" by simp_all
      with 2(2) show ?thesis unfolding language_snoc token_parts_def by force
    qed
  qed
qed

section \<open>The rows hold the language\<close>

definition row_of :: "code_unit list \<Rightarrow> code_unit list \<Rightarrow> bool list" where
  "row_of characters tokens = map (\<lambda>i. take i characters \<in> wildcard_language tokens) [0..<length characters + 1]"

lemma row_of_simps [simp]:
  "length (row_of characters tokens) = length characters + 1"
  "i \<le> length characters \<Longrightarrow> row_of characters tokens ! i \<longleftrightarrow> take i characters \<in> wildcard_language tokens"
  by (simp_all add: row_of_def del: upt_Suc)

lemma language_step:
  assumes "i < length characters"
  shows "take (Suc i) characters \<in> wildcard_language (tokens @ [token]) \<longleftrightarrow>
    (if token = STAR
     then take (Suc i) characters \<in> wildcard_language tokens
        \<or> take i characters \<in> wildcard_language (tokens @ [token]) \<and> matchesDot (characters ! i)
     else matchesSingle token (characters ! i) \<and> take i characters \<in> wildcard_language tokens)"
  using assms by (simp add: take_Suc_conv_app_nth language_snoc_star language_snoc_single)

text \<open>Filling the row cell by cell: after the round of \<open>k\<close> the cells up to \<open>k\<close> are final, the others still 0.\<close>

definition partial_row :: "code_unit list \<Rightarrow> code_unit list \<Rightarrow> nat \<Rightarrow> bool list" where
  "partial_row characters tokens k =
     map (\<lambda>i. i \<le> k \<and> take i characters \<in> wildcard_language tokens) [0..<length characters + 1]"

lemma partial_row_nth:
  "i \<le> length characters \<Longrightarrow>
     partial_row characters tokens k ! i \<longleftrightarrow> i \<le> k \<and> take i characters \<in> wildcard_language tokens"
  "length (partial_row characters tokens k) = length characters + 1"
  by (simp_all add: partial_row_def del: upt_Suc)

lemma length_fill_cell [simp]: "length (fill_cell previous token characters index row) = length row"
  by (simp add: fill_cell_def Let_def)

lemma fill_one_cell:
  assumes "k < length characters"
  shows "fill_cell (row_of characters tokens) token characters (Suc k) (partial_row characters (tokens @ [token]) k)
    = partial_row characters (tokens @ [token]) (Suc k)" (is "?row = _")
proof (rule nth_equalityI)
  show "length ?row = length (partial_row characters (tokens @ [token]) (Suc k))"
    by (simp add: partial_row_nth)
  fix i assume "i < length ?row"
  then have i: "i \<le> length characters" by (simp add: partial_row_nth)
  show "?row ! i = partial_row characters (tokens @ [token]) (Suc k) ! i"
  proof (cases "i = Suc k")
    case True
    with assms language_step [OF assms, of tokens token] show ?thesis
      by (simp add: fill_cell_def Let_def partial_row_nth nth_list_update)
  next
    case False
    with i show ?thesis by (simp add: fill_cell_def Let_def partial_row_nth nth_list_update le_Suc_eq)
  qed
qed

lemma fill_cells:
  assumes "k \<le> length characters"
  shows "fold (fill_cell (row_of characters tokens) token characters) [1..<k + 1]
    (partial_row characters (tokens @ [token]) 0) = partial_row characters (tokens @ [token]) k"
  using assms
proof (induction k)
  case (Suc k)
  have "[1..<Suc k + 1] = [1..<k + 1] @ [Suc k]" by simp
  with Suc show ?case by (simp add: fill_one_cell del: upt_Suc)
qed simp

lemma cleared_row:
  "(replicate (length characters + 1) False)[0 := token = STAR \<and> row_of characters tokens ! 0]
   = partial_row characters (tokens @ [token]) 0"
proof -
  have "(token = STAR \<and> [] \<in> wildcard_language tokens) = ([] \<in> wildcard_language (tokens @ [token]))"
    by (cases "token = STAR") (simp_all add: language_snoc_star language_snoc_single)
  then show ?thesis
    by (intro nth_equalityI) (auto simp: nth_list_update partial_row_nth simp del: replicate_Suc)
qed

lemma advance_row: "advanceWildcardRow (row_of characters tokens) token characters = row_of characters (tokens @ [token])"
  unfolding advanceWildcardRow_def cleared_row fill_cells [OF order_refl]
  by (simp add: row_of_def partial_row_def cong: map_cong)

lemma rows_of_tokens:
  "fold (\<lambda>token previous. advanceWildcardRow previous token characters) tokens (row_of characters sofar)
   = row_of characters (sofar @ tokens)"
  by (induction tokens arbitrary: sofar) (simp_all add: advance_row)

lemma first_row: "(replicate (length characters + 1) False)[0 := True] = row_of characters []"
  by (intro nth_equalityI) (auto simp: nth_list_update nth_Cons' simp del: replicate_Suc)

lemma matchesWildcard_language: "matchesWildcard characters tokens \<longleftrightarrow> characters \<in> wildcard_language tokens"
  unfolding matchesWildcard_def first_row rows_of_tokens by simp

text \<open>The wildcard matcher is exact. The row-by-row computation accepts a text exactly when the text can
  be cut into one part per token of the pattern: any run without line ends for a star, one character that
  is no line end for a question mark, the character itself for any other token.\<close>

theorem wildcard_match_exact:
  "matchesWildcard characters tokens \<longleftrightarrow>
     (\<exists>parts. characters = concat parts \<and> list_all2 (\<lambda>part token. part \<in> token_parts token) parts tokens)"
  unfolding matchesWildcard_language wildcard_language_def by blast

end
