(* ===== verification/Workspace_Identity.thy ===== *)
theory Workspace_Identity
  imports Op_Batches
begin

text \<open>
  The identity under which a project is known (\<open>packages/core/src/project-identity.ts\<close> and
  \<open>workspace-identity.ts\<close>): the repository, the git remote with or without its branch, the working
  directory, the workspace id, or a digest when nothing usable is known. \<open>node:path\<close>'s \<open>resolve\<close> and the
  SHA-256 digest (in hexadecimal) are parameters.
\<close>

section \<open>Rejecting error texts\<close>

definition followed_by :: "string \<Rightarrow> (char \<Rightarrow> bool) \<Rightarrow> string \<Rightarrow> bool" where
  "followed_by p ok s \<longleftrightarrow> starts_with p s \<and> (case drop (length p) s of [] \<Rightarrow> False | c # rest \<Rightarrow> ok c)"

text \<open>\<open>COMMAND_FAILURE_PREFIX\<close>, on lower-cased text.\<close>

definition command_failure_prefix :: "string \<Rightarrow> bool" where
  "command_failure_prefix s \<longleftrightarrow>
     followed_by ''command failed'' (\<lambda>c. js_space c \<or> c = CHR '':'') s
     \<or> followed_by ''error:'' js_space s \<or> followed_by ''fatal:'' js_space s \<or> followed_by ''git:'' js_space s"

definition word_char :: "char \<Rightarrow> bool" where
  "word_char c \<longleftrightarrow> (CHR ''a'' \<le> c \<and> c \<le> CHR ''z'') \<or> (CHR ''A'' \<le> c \<and> c \<le> CHR ''Z'')
     \<or> (CHR ''0'' \<le> c \<and> c \<le> CHR ''9'') \<or> c = CHR ''_''"

text \<open>A phrase that ends at a word boundary.\<close>

definition phrase_at :: "string \<Rightarrow> string \<Rightarrow> bool" where
  "phrase_at p s \<longleftrightarrow> starts_with p s \<and> (case drop (length p) s of [] \<Rightarrow> True | c # rest \<Rightarrow> \<not> word_char c)"

fun has_phrase :: "string \<Rightarrow> string \<Rightarrow> bool" where
  "has_phrase p [] = phrase_at p []"
| "has_phrase p (c # s) = (phrase_at p (c # s) \<or> has_phrase p s)"

definition line_end :: "char \<Rightarrow> bool" where
  "line_end c \<longleftrightarrow> c = CHR 0x0A \<or> c = CHR 0x0D"

text \<open>\<open>WRAPPED_GIT_FAILURE\<close>: the phrase stands in the rest of the first line.\<close>

definition wrapped_git_failure :: "string \<Rightarrow> bool" where
  "wrapped_git_failure s \<longleftrightarrow>
     list_ex (\<lambda>p. starts_with p s \<and>
        (let line = takeWhile (\<lambda>c. \<not> line_end c) (drop (length p) s) in
         list_ex (\<lambda>q. has_phrase q line)
           [''not a git repository'', ''unknown revision or path'', ''no such remote'']))
       [''giterror:'', ''git error:'', ''git command failed:'']"

definition isMalformedProjectIdentity :: "string option \<Rightarrow> bool" where
  "isMalformedProjectIdentity value = (case value of
     None \<Rightarrow> False
   | Some s \<Rightarrow>
       (let cleaned = js_trim s in
        if cleaned = [] then False
        else if list_ex line_end cleaned then True
        else command_failure_prefix (js_lower cleaned) \<or> wrapped_git_failure (js_lower cleaned)))"

definition cleanProjectIdentity :: "string option \<Rightarrow> string option" where
  "cleanProjectIdentity value = (case value of
     None \<Rightarrow> None
   | Some s \<Rightarrow> if js_trim s = [] \<or> isMalformedProjectIdentity (Some (js_trim s)) then None else Some (js_trim s))"

section \<open>The canonical identity\<close>

datatype identity_source =
  FromGitRemote | FromGitRemoteBranch | FromGitRepository | FromCwd | FromWorkspaceId | Unmapped

record workspace_input =
  wi_git_remote :: "string option"
  wi_git_branch :: "string option"
  wi_repository :: "string option"
  wi_cwd :: "string option"
  wi_workspace_id :: "string option"
  wi_project :: "string option"
  wi_branch_scoped :: bool
  wi_cwd_fallback :: bool

record workspace_identity =
  ws_value :: string
  ws_source :: identity_source
  ws_project :: "string option"

definition normalizeSlash :: "string \<Rightarrow> string" where
  "normalizeSlash v =
     (let normalized = rev (dropWhile (\<lambda>c. c = CHR ''/'')
        (rev (map (\<lambda>c. if c = CHR 0x5C then CHR ''/'' else c) (js_trim v))))
      in if normalized = [] then js_trim v else normalized)"

definition normalizeCwd :: "(string \<Rightarrow> string) \<Rightarrow> string \<Rightarrow> string" where
  "normalizeCwd resolve_path cwd = normalizeSlash (resolve_path cwd)"

definition unmappedIdentity :: "(string \<Rightarrow> string) \<Rightarrow> workspace_input \<Rightarrow> string" where
  "unmappedIdentity sha256 w =
     (let validSeed = coalesce (cleanProjectIdentity (wi_cwd w))
            (coalesce (cleanProjectIdentity (wi_project w)) (cleanProjectIdentity (wi_workspace_id w)));
          identityTuple = map (map_option js_trim)
            [wi_git_remote w, wi_git_branch w, wi_cwd w, wi_project w, wi_workspace_id w];
          seed = (case validSeed of
             Some s \<Rightarrow> s
           | None \<Rightarrow> if list_ex isMalformedProjectIdentity identityTuple
                     then json_stringify (JArr (map json_of_text identityTuple)) else ''unknown'')
      in ''unmapped:'' @ sha256 seed)"

definition canonicalWorkspaceIdentity ::
    "(string \<Rightarrow> string) \<Rightarrow> (string \<Rightarrow> string) \<Rightarrow> workspace_input \<Rightarrow> workspace_identity" where
  "canonicalWorkspaceIdentity resolve_path sha256 w =
     (let found = (\<lambda>v src. \<lparr> ws_value = v, ws_source = src, ws_project = cleanProjectIdentity (wi_project w) \<rparr>);
          repository = cleanProjectIdentity (wi_repository w)
      in if repository \<noteq> None \<and> \<not> wi_branch_scoped w
         then found (normalizeSlash (the repository)) FromGitRepository
         else (case cleanProjectIdentity (wi_git_remote w) of
           Some remote \<Rightarrow>
             (case cleanProjectIdentity (wi_git_branch w) of
                Some branch \<Rightarrow>
                  if wi_branch_scoped w then found (normalizeSlash remote @ '':'' @ branch) FromGitRemoteBranch
                  else found (normalizeSlash remote) FromGitRemote
              | None \<Rightarrow> found (normalizeSlash remote) FromGitRemote)
         | None \<Rightarrow>
             (case repository of
                Some r \<Rightarrow> found (normalizeSlash r) FromGitRepository
              | None \<Rightarrow>
                  (case cleanProjectIdentity (wi_cwd w) of
                     Some cwd \<Rightarrow> found (normalizeCwd resolve_path cwd) FromCwd
                   | None \<Rightarrow>
                       (case cleanProjectIdentity (wi_workspace_id w) of
                          Some i \<Rightarrow> found (normalizeSlash i) FromWorkspaceId
                        | None \<Rightarrow> found (unmappedIdentity sha256 w) Unmapped)))))"

section \<open>Facts\<close>

lemma cleanProjectIdentity_idem: "cleanProjectIdentity (cleanProjectIdentity v) = cleanProjectIdentity v"
  by (simp add: cleanProjectIdentity_def split: option.splits)

text \<open>An accepted identity is trimmed text on one line that is no error message.\<close>

lemma cleanProjectIdentity_SomeD:
  assumes "cleanProjectIdentity v = Some s"
  shows "s \<noteq> []" "js_trim s = s" "\<forall>c \<in> set s. \<not> line_end c" "\<not> isMalformedProjectIdentity (Some s)"
  using assms
  by (auto simp: cleanProjectIdentity_def isMalformedProjectIdentity_def list_ex_iff Let_def
      split: option.splits if_splits)

text \<open>A normalised identity has no backslash; it ends in a slash only when it is made of slashes.\<close>

lemma normalizeSlash_no_backslash:
  assumes "s \<noteq> []" "\<not> list_all (\<lambda>c. c = CHR ''/'' \<or> c = CHR 0x5C) (js_trim s)"
  shows "CHR 0x5C \<notin> set (normalizeSlash s)" "\<exists>t c. normalizeSlash s = t @ [c] \<and> c \<noteq> CHR ''/''"
proof -
  let ?m = "map (\<lambda>c. if c = CHR 0x5C then CHR ''/'' else c) (js_trim s)"
  let ?n = "rev (dropWhile (\<lambda>c. c = CHR ''/'') (rev ?m))"
  from assms(2) obtain c where "c \<in> set ?m" "c \<noteq> CHR ''/''"
    by (auto simp: list_all_iff split: if_splits)
  then have ne: "?n \<noteq> []" by (auto simp: dropWhile_eq_Nil_conv)
  then have n: "normalizeSlash s = ?n" by (simp only: normalizeSlash_def Let_def if_False)
  have "set ?n \<subseteq> set ?m" by (auto dest: set_dropWhileD)
  then show "CHR 0x5C \<notin> set (normalizeSlash s)" unfolding n by auto
  from ne obtain d t where dt: "dropWhile (\<lambda>c. c = CHR ''/'') (rev ?m) = d # t"
    by (cases "dropWhile (\<lambda>c. c = CHR ''/'') (rev ?m)") auto
  then have "?n = rev t @ [d]" by simp
  moreover from hd_dropWhile_False [OF dt] have "d \<noteq> CHR ''/''" .
  ultimately show "\<exists>t c. normalizeSlash s = t @ [c] \<and> c \<noteq> CHR ''/''" unfolding n by blast
qed

end
