(* ===== verification/Scope_Resolution.thy ===== *)
theory Scope_Resolution
  imports Scope_Authorization Wildcard_Match Workspace_Identity "HOL-Library.Product_Lexorder"
begin

text \<open>
  Which scope a project belongs to and which scopes a device may read
  (\<open>packages/core/src/scope-resolution.ts\<close>). \<open>Date.parse\<close> (in milliseconds, \<open>None\<close> for no date) and
  \<open>localeCompare\<close> are parameters; of the second the lemmas need that it compares consistently.
\<close>

section \<open>Sorting with a comparator\<close>

text \<open>\<open>toSorted\<close>: the stable sort by a comparator that returns a negative number, zero or a positive one.\<close>

fun insert_by :: "('a \<Rightarrow> 'a \<Rightarrow> int) \<Rightarrow> 'a \<Rightarrow> 'a list \<Rightarrow> 'a list" where
  "insert_by cmp x [] = [x]"
| "insert_by cmp x (y # ys) = (if cmp x y \<le> 0 then x # y # ys else y # insert_by cmp x ys)"

definition toSorted :: "('a \<Rightarrow> 'a \<Rightarrow> int) \<Rightarrow> 'a list \<Rightarrow> 'a list" where
  "toSorted cmp xs = foldr (insert_by cmp) xs []"

definition consistent :: "('a \<Rightarrow> 'a \<Rightarrow> int) \<Rightarrow> bool" where
  "consistent cmp \<longleftrightarrow> (\<forall>a b. sgn (cmp b a) = - sgn (cmp a b))
     \<and> (\<forall>a b c. cmp a b \<le> 0 \<longrightarrow> cmp b c \<le> 0 \<longrightarrow> cmp a c \<le> 0)"

lemma consistentI:
  assumes "\<And>a b. sgn (cmp b a) = - sgn (cmp a b)"
    "\<And>a b c. cmp a b \<le> 0 \<Longrightarrow> cmp b c \<le> 0 \<Longrightarrow> cmp a c \<le> 0"
  shows "consistent cmp"
  unfolding consistent_def using assms by blast

lemma consistent_sgn: "consistent cmp \<Longrightarrow> sgn (cmp b a) = - sgn (cmp a b)"
  unfolding consistent_def by blast

lemma consistent_flip: "consistent cmp \<Longrightarrow> \<not> cmp a b \<le> 0 \<Longrightarrow> cmp b a \<le> 0"
  using consistent_sgn [of cmp b a] by (auto simp: sgn_if split: if_splits)

lemma consistent_trans: "consistent cmp \<Longrightarrow> cmp a b \<le> 0 \<Longrightarrow> cmp b c \<le> 0 \<Longrightarrow> cmp a c \<le> 0"
  unfolding consistent_def by blast

text \<open>Comparing by a key, then by another comparator: the \<open>||\<close> of the source.\<close>

definition then_by :: "('a \<Rightarrow> 'a \<Rightarrow> int) \<Rightarrow> ('a \<Rightarrow> 'a \<Rightarrow> int) \<Rightarrow> 'a \<Rightarrow> 'a \<Rightarrow> int" where
  "then_by f g a b = (if f a b \<noteq> 0 then f a b else g a b)"

lemma consistent_key: "consistent (\<lambda>a b. (key b :: int) - key a)"
  by (rule consistentI) (auto simp: sgn_if)

lemma consistent_swap: "consistent cmp \<Longrightarrow> cmp b a = 0 \<longleftrightarrow> cmp a b = 0"
  using consistent_sgn [of cmp b a] by (auto simp: sgn_if split: if_splits)

lemma consistent_zero: "consistent cmp \<Longrightarrow> cmp a b \<le> 0 \<Longrightarrow> cmp b a \<le> 0 \<Longrightarrow> cmp a b = 0"
  using consistent_sgn [of cmp b a] by (auto simp: sgn_if split: if_splits)

lemma consistent_then_by:
  assumes f: "consistent f" and g: "consistent g"
  shows "consistent (then_by f g)"
proof (rule consistentI)
  fix a b show "sgn (then_by f g b a) = - sgn (then_by f g a b)"
    using consistent_sgn [OF f, of b a] consistent_sgn [OF g, of b a] consistent_swap [OF f, of b a]
    by (simp add: then_by_def)
next
  fix a b c assume le: "then_by f g a b \<le> 0" "then_by f g b c \<le> 0"
  then have fs: "f a b \<le> 0" "f b c \<le> 0" by (auto simp: then_by_def split: if_splits)
  then have fac: "f a c \<le> 0" by (rule consistent_trans [OF f])
  show "then_by f g a c \<le> 0"
  proof (cases "f a c = 0")
    case False
    with fac show ?thesis by (simp add: then_by_def)
  next
    case True
    then have "f c a \<le> 0" using consistent_swap [OF f, of c a] by simp
    from consistent_trans [OF f fs(2) this] consistent_trans [OF f this fs(1)]
    have bk: "f b a \<le> 0" "f c b \<le> 0" .
    from consistent_zero [OF f fs(1) bk(1)] consistent_zero [OF f fs(2) bk(2)] le have "g a b \<le> 0" "g b c \<le> 0"
      by (simp_all add: then_by_def)
    with consistent_trans [OF g this] True show ?thesis by (simp add: then_by_def)
  qed
qed

lemma set_insert_by [simp]: "set (insert_by cmp x ys) = insert x (set ys)"
  by (induction ys) auto

lemma set_toSorted [simp]: "set (toSorted cmp xs) = set xs"
  by (induction xs) (simp_all add: toSorted_def)

lemma toSorted_Nil [simp]: "toSorted cmp [] = []"
  by (simp add: toSorted_def)

lemma toSorted_Nil_iff [simp]: "toSorted cmp xs = [] \<longleftrightarrow> xs = []"
  by (metis set_toSorted set_empty2)

lemma sorted_insert_by:
  assumes "consistent cmp" "sorted_wrt (\<lambda>a b. cmp a b \<le> 0) ys"
  shows "sorted_wrt (\<lambda>a b. cmp a b \<le> 0) (insert_by cmp x ys)"
  using assms(2)
  by (induction ys) (auto dest: consistent_flip [OF assms(1)] intro: consistent_trans [OF assms(1)])

lemma sorted_toSorted: "consistent cmp \<Longrightarrow> sorted_wrt (\<lambda>a b. cmp a b \<le> 0) (toSorted cmp xs)"
  by (induction xs) (simp_all add: toSorted_def sorted_insert_by)

section \<open>Sets in insertion order\<close>

text \<open>A JavaScript \<open>Set\<close> keeps the first occurrence of each element, in the order of insertion.\<close>

definition set_of_list :: "'a list \<Rightarrow> 'a list" where
  "set_of_list xs = rev (remdups (rev xs))"

section \<open>Mappings and candidates\<close>

record candidate =
  cd_mapping :: mapping_row
  cd_specificity :: int
  cd_pattern :: "string option"

definition normalizeMappingIdentity :: "string option \<Rightarrow> string option" where
  "normalizeMappingIdentity v = map_option normalizeSlash (clean_text v)"

definition isBasenameOnlyPattern :: "string \<Rightarrow> bool" where
  "isBasenameOnlyPattern p \<longleftrightarrow> \<not> list_ex (\<lambda>c. c = CHR 0x5C \<or> c = CHR ''/'' \<or> c = CHR '':'') p"

definition wildcard_char :: "char \<Rightarrow> bool" where
  "wildcard_char c \<longleftrightarrow> c = CHR ''*'' \<or> c = CHR ''?''"

definition patternSpecificity :: "string \<Rightarrow> int" where
  "patternSpecificity p = int (length (filter (\<lambda>c. \<not> wildcard_char c) p))"

definition matchesPattern :: "string \<Rightarrow> string \<Rightarrow> bool" where
  "matchesPattern identity p =
     (let normalized = normalizeSlash p in
      if normalized = [] \<or> isBasenameOnlyPattern normalized then False
      else if \<not> list_ex wildcard_char normalized then identity = normalized
      else matchesWildcard (code_units identity) (code_units normalized))"

definition candidatePriority :: "candidate \<Rightarrow> int" where
  "candidatePriority c = or_default (pm_priority (cd_mapping c)) 0"

definition candidateUpdatedAt :: "(string \<Rightarrow> int option) \<Rightarrow> candidate \<Rightarrow> int" where
  "candidateUpdatedAt parse_date c = (case clean_text (pm_updated_at (cd_mapping c)) of
     None \<Rightarrow> 0 | Some t \<Rightarrow> or_default (parse_date t) 0)"

definition compareCandidates ::
    "(string \<Rightarrow> int option) \<Rightarrow> (string \<Rightarrow> string \<Rightarrow> int) \<Rightarrow> candidate \<Rightarrow> candidate \<Rightarrow> int" where
  "compareCandidates parse_date localeCompare =
     then_by (\<lambda>a b. candidatePriority b - candidatePriority a)
       (then_by (\<lambda>a b. cd_specificity b - cd_specificity a)
         (then_by (\<lambda>a b. candidateUpdatedAt parse_date b - candidateUpdatedAt parse_date a)
           (then_by (\<lambda>a b. or_default (pm_id (cd_mapping b)) 0 - or_default (pm_id (cd_mapping a)) 0)
             (\<lambda>a b. localeCompare (pm_scope_id (cd_mapping a)) (pm_scope_id (cd_mapping b))))))"

definition bestCandidate ::
    "(string \<Rightarrow> int option) \<Rightarrow> (string \<Rightarrow> string \<Rightarrow> int) \<Rightarrow> candidate list \<Rightarrow> candidate option" where
  "bestCandidate parse_date localeCompare cs =
     (case toSorted (compareCandidates parse_date localeCompare) cs of [] \<Rightarrow> None | c # rest \<Rightarrow> Some c)"

text \<open>\<open>exactMappingIdentities\<close>, and \<open>patternMappingIdentities\<close>, which repeats it.\<close>

definition exactMappingIdentities :: "(string \<Rightarrow> string) \<Rightarrow> workspace_input \<Rightarrow> workspace_identity \<Rightarrow> string list" where
  "exactMappingIdentities resolve_path w i =
     (if \<not> wi_cwd_fallback w \<or> ws_source i \<notin> {FromGitRepository, FromGitRemote, FromGitRemoteBranch}
      then [ws_value i]
      else (case cleanProjectIdentity (wi_cwd w) of
              None \<Rightarrow> [ws_value i]
            | Some cwd \<Rightarrow> [ws_value i, normalizeCwd resolve_path cwd]))"

definition patternMappingIdentities :: "(string \<Rightarrow> string) \<Rightarrow> workspace_input \<Rightarrow> workspace_identity \<Rightarrow> string list" where
  "patternMappingIdentities = exactMappingIdentities"

definition exact_candidates :: "mapping_row list \<Rightarrow> string \<Rightarrow> candidate list" where
  "exact_candidates mappings identity =
     map (\<lambda>m. \<lparr> cd_mapping = m, cd_specificity = int (length identity), cd_pattern = None \<rparr>)
       (filter (\<lambda>m. normalizeMappingIdentity (pm_workspace_identity m) = Some identity) mappings)"

fun bestExactMapping ::
    "(string \<Rightarrow> int option) \<Rightarrow> (string \<Rightarrow> string \<Rightarrow> int) \<Rightarrow> mapping_row list \<Rightarrow> string list \<Rightarrow> candidate option" where
  "bestExactMapping parse_date localeCompare mappings [] = None"
| "bestExactMapping parse_date localeCompare mappings (identity # rest) =
     (case bestCandidate parse_date localeCompare (exact_candidates mappings identity) of
        Some c \<Rightarrow> Some c
      | None \<Rightarrow> bestExactMapping parse_date localeCompare mappings rest)"

text \<open>The pattern of a mapping that has no workspace identity of its own.\<close>

definition free_pattern :: "mapping_row \<Rightarrow> string option" where
  "free_pattern m = (if clean_text (pm_workspace_identity m) \<noteq> None then None
     else clean_text (Some (pm_project_pattern m)))"

definition pattern_candidate :: "string \<Rightarrow> mapping_row \<Rightarrow> candidate option" where
  "pattern_candidate identity m = (case free_pattern m of
     None \<Rightarrow> None
   | Some p \<Rightarrow> if matchesPattern identity p
       then Some \<lparr> cd_mapping = m, cd_specificity = patternSpecificity p, cd_pattern = Some (normalizeSlash p) \<rparr>
       else None)"

definition bestPatternMapping ::
    "(string \<Rightarrow> int option) \<Rightarrow> (string \<Rightarrow> string \<Rightarrow> int) \<Rightarrow> mapping_row list \<Rightarrow> string list \<Rightarrow> candidate option" where
  "bestPatternMapping parse_date localeCompare mappings identities =
     bestCandidate parse_date localeCompare
       (concat (map (\<lambda>identity. List.map_filter (pattern_candidate identity) mappings) identities))"

definition scopeIdsMatchingProjectPatterns :: "mapping_row list \<Rightarrow> string list \<Rightarrow> string list" where
  "scopeIdsMatchingProjectPatterns mappings workspaceIdentities =
     (let identities = map normalizeSlash workspaceIdentities in
      set_of_list (map pm_scope_id (filter (\<lambda>m. case free_pattern m of
         None \<Rightarrow> False | Some p \<Rightarrow> list_ex (\<lambda>i. matchesPattern i p) identities) mappings)))"

section \<open>Resolving a project\<close>

datatype resolution_reason = ExplicitOverride | ExactMapping | PatternMapping | LocalDefault

record scope_resolution =
  res_scope :: string
  res_why :: resolution_reason
  res_workspace :: workspace_identity
  res_mapping :: "mapping_row option"
  res_matched :: "string option"

record resolve_input =
  px_workspace :: workspace_input
  px_explicit :: "string option"
  px_mappings :: "mapping_row list"
  px_default :: string

definition resolveProjectScope ::
    "(string \<Rightarrow> string) \<Rightarrow> (string \<Rightarrow> string) \<Rightarrow> (string \<Rightarrow> int option) \<Rightarrow> (string \<Rightarrow> string \<Rightarrow> int)
     \<Rightarrow> resolve_input \<Rightarrow> scope_resolution" where
  "resolveProjectScope resolve_path sha256 parse_date localeCompare x =
     (let i = canonicalWorkspaceIdentity resolve_path sha256 (px_workspace x);
          answer = (\<lambda>s why m p. \<lparr> res_scope = s, res_why = why, res_workspace = i, res_mapping = m, res_matched = p \<rparr>)
      in (case clean_text (px_explicit x) of
            Some s \<Rightarrow> answer s ExplicitOverride None None
          | None \<Rightarrow>
              if ws_source i = Unmapped then answer (px_default x) LocalDefault None None
              else (case bestExactMapping parse_date localeCompare (px_mappings x)
                        (exactMappingIdentities resolve_path (px_workspace x) i) of
                      Some c \<Rightarrow> answer (pm_scope_id (cd_mapping c)) ExactMapping (Some (cd_mapping c)) None
                    | None \<Rightarrow>
                        (case bestPatternMapping parse_date localeCompare (px_mappings x)
                             (patternMappingIdentities resolve_path (px_workspace x) i) of
                           Some c \<Rightarrow> answer (pm_scope_id (cd_mapping c)) PatternMapping (Some (cd_mapping c)) (cd_pattern c)
                         | None \<Rightarrow> answer (px_default x) LocalDefault None None))))"

section \<open>Readable scopes\<close>

record visibility_options =
  vo_public_key :: "string option"
  vo_loaded_key :: "string option"

definition resolveVisibilityPublicKey :: "scope_row list \<Rightarrow> visibility_options \<Rightarrow> string option" where
  "resolveVisibilityPublicKey members options =
     (if vo_public_key options \<noteq> None then vo_public_key options
      else if \<not> list_ex (\<lambda>s. sc_authority_type s = ''coordinator'') members then None
      else vo_loaded_key options)"

text \<open>The scopes of the device's current memberships, and whether one of them is added.\<close>

definition member_scopes :: "db \<Rightarrow> string \<Rightarrow> scope_row list" where
  "member_scopes d dev = concat (map (\<lambda>m. filter (\<lambda>s. sc_id s = sm_scope m \<and> sc_status s = ''active''
       \<and> sm_epoch m \<ge> sc_epoch s) (scopes d))
     (filter (\<lambda>m. sm_device m = dev \<and> sm_status m = ''active'') (memberships d)))"

definition member_visible ::
    "(string \<Rightarrow> string option) \<Rightarrow> (string \<Rightarrow> int option) \<Rightarrow> int \<Rightarrow> int \<Rightarrow> db \<Rightarrow> string \<Rightarrow> string option \<Rightarrow> scope_row
     \<Rightarrow> string + scope_row \<times> bool" where
  "member_visible key_id_of parse_date nowMs maxAgeMs d dev publicKey s =
     (if sc_authority_type s \<in> {''local'', ''manual'', ''invite''} then Inr (s, True)
      else if sc_authority_type s \<noteq> ''coordinator'' then Inr (s, False)
      else if clean_text publicKey = None then Inr (s, False)
      else (case getEffectiveCachedScopeAuthorization key_id_of parse_date nowMs maxAgeMs d dev (sc_id s) None publicKey of
              Inl e \<Rightarrow> Inl e
            | Inr (auth, key) \<Rightarrow> Inr (s, au_authorized auth)))"

definition LOCAL_DEFAULT_SCOPE_ID :: string where "LOCAL_DEFAULT_SCOPE_ID = ''local-default''"

definition resolveVisibleScopeIds ::
    "(string \<Rightarrow> string option) \<Rightarrow> (string \<Rightarrow> int option) \<Rightarrow> int \<Rightarrow> int \<Rightarrow> db \<Rightarrow> string \<Rightarrow> visibility_options
     \<Rightarrow> string + string list" where
  "resolveVisibleScopeIds key_id_of parse_date nowMs maxAgeMs d dev options =
     (let members = member_scopes d dev; publicKey = resolveVisibilityPublicKey members options
      in (case require_all (member_visible key_id_of parse_date nowMs maxAgeMs d dev publicKey) members of
            Inl e \<Rightarrow> Inl e
          | Inr decided \<Rightarrow> Inr (set_of_list ([[], LOCAL_DEFAULT_SCOPE_ID, LEGACY_SHARED_REVIEW_SCOPE_ID]
              @ map sc_id (filter (\<lambda>s. sc_status s = ''active'' \<and> sc_authority_type s = ''local'') (scopes d))
              @ map (\<lambda>(s, ok). sc_id s) (filter snd decided)))))"

section \<open>The winner\<close>

text \<open>What the comparator ranks by before it falls back on the scope ids.\<close>

definition mapping_rank :: "(string \<Rightarrow> int option) \<Rightarrow> int \<Rightarrow> mapping_row \<Rightarrow> int \<times> int \<times> int \<times> int" where
  "mapping_rank parse_date specificity m =
     (let c = \<lparr> cd_mapping = m, cd_specificity = specificity, cd_pattern = None \<rparr>
      in (candidatePriority c, specificity, candidateUpdatedAt parse_date c, or_default (pm_id m) 0))"

definition exact_match :: "mapping_row \<Rightarrow> string \<Rightarrow> bool" where
  "exact_match m i \<longleftrightarrow> normalizeMappingIdentity (pm_workspace_identity m) = Some i"

definition pattern_match :: "mapping_row \<Rightarrow> string \<Rightarrow> string \<Rightarrow> bool" where
  "pattern_match m p i \<longleftrightarrow> free_pattern m = Some p \<and> matchesPattern i p"

lemma consistent_compareCandidates:
  assumes "consistent localeCompare"
  shows "consistent (compareCandidates parse_date localeCompare)"
  unfolding compareCandidates_def
proof (intro consistent_then_by consistent_key)
  show "consistent (\<lambda>a b. localeCompare (pm_scope_id (cd_mapping a)) (pm_scope_id (cd_mapping b)))"
    by (rule consistentI) (rule consistent_sgn [OF assms], erule consistent_trans [OF assms])
qed

lemma compareCandidates_rank:
  assumes "compareCandidates parse_date localeCompare a b \<le> 0"
  shows "mapping_rank parse_date (cd_specificity b) (cd_mapping b)
    \<le> mapping_rank parse_date (cd_specificity a) (cd_mapping a)"
  using assms
  by (auto simp: compareCandidates_def then_by_def mapping_rank_def candidatePriority_def candidateUpdatedAt_def
      less_eq_prod_def Let_def split: if_splits)

lemma bestCandidate_Nil [simp]: "bestCandidate parse_date localeCompare [] = None"
  by (simp add: bestCandidate_def)

lemma bestCandidate_None [simp]: "bestCandidate parse_date localeCompare cs = None \<longleftrightarrow> cs = []"
  by (auto simp: bestCandidate_def split: list.splits)

lemma bestCandidate_Some:
  assumes "consistent localeCompare" "bestCandidate parse_date localeCompare cs = Some c"
  shows "c \<in> set cs" "c' \<in> set cs \<Longrightarrow> mapping_rank parse_date (cd_specificity c') (cd_mapping c')
    \<le> mapping_rank parse_date (cd_specificity c) (cd_mapping c)"
proof -
  let ?cmp = "compareCandidates parse_date localeCompare"
  from assms(2) obtain rest where sorted: "toSorted ?cmp cs = c # rest"
    by (auto simp: bestCandidate_def split: list.splits)
  then show "c \<in> set cs" by (metis list.set_intros(1) set_toSorted)
  show "mapping_rank parse_date (cd_specificity c') (cd_mapping c')
      \<le> mapping_rank parse_date (cd_specificity c) (cd_mapping c)" if "c' \<in> set cs"
  proof -
    from that sorted have "c' = c \<or> c' \<in> set rest" by (metis set_ConsD set_toSorted)
    moreover have "?cmp c r \<le> 0" if "r \<in> set rest" for r
      using sorted_toSorted [OF consistent_compareCandidates [OF assms(1)], of parse_date cs] sorted that by simp
    ultimately show ?thesis using compareCandidates_rank by fastforce
  qed
qed

lemma exact_candidates_Nil: "exact_candidates mappings i = [] \<longleftrightarrow> (\<forall>m \<in> set mappings. \<not> exact_match m i)"
  by (auto simp: exact_candidates_def filter_empty_conv exact_match_def)

lemma bestExactMapping_None:
  "bestExactMapping parse_date localeCompare mappings ids = None \<longleftrightarrow>
     (\<forall>i \<in> set ids. \<forall>m \<in> set mappings. \<not> exact_match m i)"
proof (induction ids)
  case (Cons i ids)
  show ?case
  proof (cases "exact_candidates mappings i = []")
    case True
    with Cons show ?thesis by (simp add: exact_candidates_Nil [symmetric])
  next
    case False
    then obtain c where "bestCandidate parse_date localeCompare (exact_candidates mappings i) = Some c"
      using bestCandidate_None [of parse_date localeCompare] by fastforce
    with False show ?thesis by (auto simp: exact_candidates_Nil)
  qed
qed simp

lemma bestExactMapping_Some:
  assumes "consistent localeCompare" "bestExactMapping parse_date localeCompare mappings ids = Some c"
  shows "\<exists>before i after. ids = before @ i # after \<and> (\<forall>j \<in> set before. \<forall>m \<in> set mappings. \<not> exact_match m j)
    \<and> cd_mapping c \<in> set mappings \<and> exact_match (cd_mapping c) i
    \<and> (\<forall>m \<in> set mappings. exact_match m i \<longrightarrow>
         mapping_rank parse_date (int (length i)) m \<le> mapping_rank parse_date (int (length i)) (cd_mapping c))"
  using assms(2)
proof (induction ids)
  case (Cons i ids)
  show ?case
  proof (cases "bestCandidate parse_date localeCompare (exact_candidates mappings i)")
    case None
    then have "\<forall>m \<in> set mappings. \<not> exact_match m i"
      by (auto simp: exact_candidates_def filter_empty_conv exact_match_def)
    moreover from Cons None obtain before j after where "ids = before @ j # after"
        "\<forall>j \<in> set before. \<forall>m \<in> set mappings. \<not> exact_match m j"
        "cd_mapping c \<in> set mappings" "exact_match (cd_mapping c) j"
        "\<forall>m \<in> set mappings. exact_match m j \<longrightarrow>
           mapping_rank parse_date (int (length j)) m \<le> mapping_rank parse_date (int (length j)) (cd_mapping c)"
      by auto
    ultimately show ?thesis by (intro exI [of _ "i # before"] exI [of _ j] exI [of _ after]) auto
  next
    case (Some c')
    with Cons.prems have best: "bestCandidate parse_date localeCompare (exact_candidates mappings i) = Some c" by simp
    note winner = bestCandidate_Some [OF assms(1) best]
    from winner(1) have c: "cd_mapping c \<in> set mappings" "exact_match (cd_mapping c) i" "cd_specificity c = int (length i)"
      by (auto simp: exact_candidates_def exact_match_def)
    have "mapping_rank parse_date (int (length i)) m \<le> mapping_rank parse_date (int (length i)) (cd_mapping c)"
      if "m \<in> set mappings" "exact_match m i" for m
      using winner(2) [of "\<lparr> cd_mapping = m, cd_specificity = int (length i), cd_pattern = None \<rparr>"] that c(3)
      by (auto simp: exact_candidates_def exact_match_def)
    with c show ?thesis by (intro exI [of _ "[]"] exI [of _ i] exI [of _ ids]) auto
  qed
qed simp

lemma set_map_filter: "c \<in> set (List.map_filter f xs) \<longleftrightarrow> (\<exists>x \<in> set xs. f x = Some c)"
  by (induction xs) (auto simp: map_filter_simps split: option.splits)

lemma pattern_candidate_Some:
  "pattern_candidate i m = Some c \<longleftrightarrow> (\<exists>p. pattern_match m p i
     \<and> c = \<lparr> cd_mapping = m, cd_specificity = patternSpecificity p, cd_pattern = Some (normalizeSlash p) \<rparr>)"
  by (auto simp: pattern_candidate_def pattern_match_def split: option.splits)

lemma pattern_candidates:
  "c \<in> set (concat (map (\<lambda>i. List.map_filter (pattern_candidate i) mappings) ids)) \<longleftrightarrow>
     (\<exists>i \<in> set ids. \<exists>m \<in> set mappings. \<exists>p. pattern_match m p i
        \<and> c = \<lparr> cd_mapping = m, cd_specificity = patternSpecificity p, cd_pattern = Some (normalizeSlash p) \<rparr>)"
  by (simp add: set_map_filter pattern_candidate_Some)

lemma empty_iff: "xs = [] \<longleftrightarrow> (\<forall>x. x \<notin> set xs)"
  by (cases xs) auto

lemma bestPatternMapping_None:
  "bestPatternMapping parse_date localeCompare mappings ids = None \<longleftrightarrow>
     (\<forall>i \<in> set ids. \<forall>m \<in> set mappings. \<forall>p. \<not> pattern_match m p i)"
  unfolding bestPatternMapping_def bestCandidate_None empty_iff pattern_candidates by blast

lemma bestPatternMapping_Some:
  assumes "consistent localeCompare" "bestPatternMapping parse_date localeCompare mappings ids = Some c"
  shows "\<exists>i \<in> set ids. \<exists>p. cd_mapping c \<in> set mappings \<and> pattern_match (cd_mapping c) p i
    \<and> cd_pattern c = Some (normalizeSlash p)
    \<and> (\<forall>j \<in> set ids. \<forall>m \<in> set mappings. \<forall>q. pattern_match m q j \<longrightarrow>
         mapping_rank parse_date (patternSpecificity q) m \<le> mapping_rank parse_date (patternSpecificity p) (cd_mapping c))"
proof -
  note winner = bestCandidate_Some [OF assms(1) assms(2) [unfolded bestPatternMapping_def], unfolded pattern_candidates]
  from winner(1) obtain i m p where c: "i \<in> set ids" "m \<in> set mappings" "pattern_match m p i"
      "c = \<lparr> cd_mapping = m, cd_specificity = patternSpecificity p, cd_pattern = Some (normalizeSlash p) \<rparr>" by blast
  have "mapping_rank parse_date (patternSpecificity q) m' \<le> mapping_rank parse_date (patternSpecificity p) m"
    if "j \<in> set ids" "m' \<in> set mappings" "pattern_match m' q j" for j m' q
    using winner(2) [of "\<lparr> cd_mapping = m', cd_specificity = patternSpecificity q, cd_pattern = Some (normalizeSlash q) \<rparr>"]
      that c(4) by auto
  with c(1-3) show ?thesis unfolding c(4) by (intro bexI [of _ i] exI [of _ p]) simp_all
qed

text \<open>Without wildcards the shortcut of \<open>matchesPattern\<close> agrees with the matcher: a pattern is always its language.\<close>

lemma literal_language:
  assumes "STAR \<notin> set tokens" "QUESTION \<notin> set tokens"
  shows "str \<in> wildcard_language tokens \<longleftrightarrow> str = tokens"
  using assms
proof (induction tokens arbitrary: str rule: rev_induct)
  case (snoc token tokens)
  then have single: "token \<noteq> STAR" "\<And>c. matchesSingle token c \<longleftrightarrow> c = token" by (auto simp: matchesSingle_def)
  with snoc show ?case
    by (cases str rule: rev_cases) (auto simp: language_snoc_single [OF single(1)])
qed simp

lemma inj_of_char: "inj (of_char :: char \<Rightarrow> int)"
  by (simp add: inj_on_def)

lemma code_units_eq_iff: "code_units a = code_units b \<longleftrightarrow> a = b"
  unfolding code_units_def by (rule inj_map_eq_map [OF inj_of_char])

lemma wildcard_codes: "STAR = of_char CHR ''*''" "QUESTION = of_char CHR ''?''"
  by (simp_all add: STAR_def QUESTION_def)

lemma wildcard_char_code:
  "STAR \<in> set (code_units s) \<longleftrightarrow> CHR ''*'' \<in> set s" "QUESTION \<in> set (code_units s) \<longleftrightarrow> CHR ''?'' \<in> set s"
  unfolding code_units_def set_map wildcard_codes by (simp_all only: inj_image_mem_iff [OF inj_of_char])

lemma matchesPattern_language:
  "matchesPattern identity p \<longleftrightarrow> normalizeSlash p \<noteq> [] \<and> \<not> isBasenameOnlyPattern (normalizeSlash p)
     \<and> code_units identity \<in> wildcard_language (code_units (normalizeSlash p))"
proof (cases "list_ex wildcard_char (normalizeSlash p)")
  case True
  then show ?thesis by (simp add: matchesPattern_def Let_def matchesWildcard_language)
next
  case False
  then have "STAR \<notin> set (code_units (normalizeSlash p))" "QUESTION \<notin> set (code_units (normalizeSlash p))"
    by (auto simp: list_ex_iff wildcard_char_def wildcard_char_code)
  from literal_language [OF this] False show ?thesis
    by (simp add: matchesPattern_def Let_def code_units_eq_iff)
qed

text \<open>C36: a project gets the best mapping. Without an explicit scope, an exact mapping of the first identity
  that has one decides; only when no mapping names an identity does a pattern decide, and only when no
  pattern matches either does the default. The winner is a mapping of the table and no other mapping of
  its class has a higher rank (priority, then specificity, then date, then id).\<close>

theorem resolution_is_best:
  assumes "consistent localeCompare" "clean_text (px_explicit x) = None"
    "resolveProjectScope resolve_path digest parse_date localeCompare x = res"
    "ids = exactMappingIdentities resolve_path (px_workspace x) (res_workspace res)"
  shows "case res_why res of
      ExplicitOverride \<Rightarrow> False
    | ExactMapping \<Rightarrow> (\<exists>m before i after. res_mapping res = Some m \<and> res_scope res = pm_scope_id m \<and> m \<in> set (px_mappings x)
        \<and> ids = before @ i # after \<and> exact_match m i \<and> (\<forall>j \<in> set before. \<forall>m' \<in> set (px_mappings x). \<not> exact_match m' j)
        \<and> (\<forall>m' \<in> set (px_mappings x). exact_match m' i \<longrightarrow>
             mapping_rank parse_date (int (length i)) m' \<le> mapping_rank parse_date (int (length i)) m))
    | PatternMapping \<Rightarrow> (\<forall>i \<in> set ids. \<forall>m' \<in> set (px_mappings x). \<not> exact_match m' i)
        \<and> (\<exists>m p. \<exists>i \<in> set ids. res_mapping res = Some m \<and> res_scope res = pm_scope_id m \<and> m \<in> set (px_mappings x)
             \<and> pattern_match m p i
             \<and> (\<forall>j \<in> set ids. \<forall>m' \<in> set (px_mappings x). \<forall>q. pattern_match m' q j \<longrightarrow>
                  mapping_rank parse_date (patternSpecificity q) m' \<le> mapping_rank parse_date (patternSpecificity p) m))
    | LocalDefault \<Rightarrow> res_scope res = px_default x \<and> (ws_source (res_workspace res) = Unmapped
        \<or> (\<forall>i \<in> set ids. \<forall>m' \<in> set (px_mappings x). \<not> exact_match m' i \<and> (\<forall>q. \<not> pattern_match m' q i)))"
proof -
  let ?i = "canonicalWorkspaceIdentity resolve_path digest (px_workspace x)"
  have ws: "res_workspace res = ?i"
    using assms(2,3) by (auto simp: resolveProjectScope_def Let_def split: option.splits if_splits)
  show ?thesis
  proof (cases "ws_source ?i = Unmapped")
    case True
    with assms(2,3) ws show ?thesis by (auto simp: resolveProjectScope_def Let_def)
  next
    case mapped: False
    show ?thesis
    proof (cases "bestExactMapping parse_date localeCompare (px_mappings x) ids")
      case (Some c)
      with assms(2,3,4) ws mapped have "res_why res = ExactMapping" "res_mapping res = Some (cd_mapping c)"
          "res_scope res = pm_scope_id (cd_mapping c)"
        by (auto simp: resolveProjectScope_def Let_def)
      with bestExactMapping_Some [OF assms(1) Some] show ?thesis by auto
    next
      case no_exact: None
      show ?thesis
      proof (cases "bestPatternMapping parse_date localeCompare (px_mappings x) ids")
        case (Some c)
        with assms(2,3,4) ws mapped no_exact have "res_why res = PatternMapping" "res_mapping res = Some (cd_mapping c)"
            "res_scope res = pm_scope_id (cd_mapping c)"
          by (auto simp: resolveProjectScope_def patternMappingIdentities_def Let_def)
        with bestPatternMapping_Some [OF assms(1) Some] no_exact [unfolded bestExactMapping_None] show ?thesis
          by auto
      next
        case None
        with assms(2,3,4) ws mapped no_exact have "res_why res = LocalDefault" "res_scope res = px_default x"
          by (auto simp: resolveProjectScope_def patternMappingIdentities_def Let_def)
        with None [unfolded bestPatternMapping_None] no_exact [unfolded bestExactMapping_None] show ?thesis by simp
      qed
    qed
  qed
qed

text \<open>A project in a working directory with two patterns, and texts compared by code unit.\<close>

definition text_compare :: "string \<Rightarrow> string \<Rightarrow> int" where
  "text_compare a b = (if a < b then -1 else if a = b then 0 else 1)"

lemma consistent_text_compare: "consistent text_compare"
  by (rule consistentI) (auto simp: text_compare_def split: if_splits)

definition sample_mapping :: "int \<Rightarrow> string \<Rightarrow> string \<Rightarrow> mapping_row" where
  "sample_mapping priority p s = \<lparr> pm_id = Some 1, pm_workspace_identity = None, pm_project_pattern = p, pm_scope_id = s,
     pm_priority = Some priority, pm_source = None, pm_updated_at = None \<rparr>"

definition sample_project :: resolve_input where
  "sample_project = \<lparr> px_workspace = \<lparr> wi_git_remote = None, wi_git_branch = None, wi_repository = None,
       wi_cwd = Some ''/w/app'', wi_workspace_id = None, wi_project = None, wi_branch_scoped = False, wi_cwd_fallback = True \<rparr>,
     px_explicit = None, px_mappings = [sample_mapping 0 ''/w/*'' ''all'', sample_mapping 5 ''/w/a?p'' ''app''],
     px_default = ''local-default'' \<rparr>"

theorem resolution_is_best_witness:
  "let res = resolveProjectScope (\<lambda>p. p) (\<lambda>t. t) (\<lambda>t. None) text_compare sample_project;
       ids = exactMappingIdentities (\<lambda>p. p) (px_workspace sample_project) (res_workspace res)
   in res_why res = PatternMapping \<and> res_scope res = ''app''
      \<and> (\<forall>i \<in> set ids. \<forall>m' \<in> set (px_mappings sample_project). \<not> exact_match m' i)"
proof -
  let ?res = "resolveProjectScope (\<lambda>p. p) (\<lambda>t. t) (\<lambda>t. None) text_compare sample_project"
  have why: "res_why ?res = PatternMapping \<and> res_scope ?res = ''app''" by code_simp
  have "clean_text (px_explicit sample_project) = None" by code_simp
  from resolution_is_best [OF consistent_text_compare this refl refl,
      where resolve_path = "\<lambda>p. p" and digest = "\<lambda>t. t" and parse_date = "\<lambda>t. None"]
  show ?thesis
    using why unfolding Let_def conjunct1 [OF why] resolution_reason.case by blast
qed

section \<open>What is readable\<close>

lemma set_of_list_set [simp]: "set (set_of_list xs) = set xs"
  by (simp add: set_of_list_def)

lemma effective_authorization:
  assumes "getEffectiveCachedScopeAuthorization key_id_of parse_date nowMs maxAgeMs d dev s None publicKey = Inr (auth, key)"
    "au_authorized auth" "find_scope d s = Some sc" "sc_authority_type sc = ''coordinator''"
    "clean_text (Some dev) = Some dev" "clean_text (Some s) = Some s"
  shows "cached_decision d dev s = Authorized
    \<and> (\<exists>m. find_membership d (s, dev) = Some m \<and> getRetainedScopeAuthorizationKey key_id_of d sc m publicKey \<noteq> None)"
proof -
  obtain au where au: "readCachedScopeAuthorization parse_date nowMs maxAgeMs d dev s None = Inr au"
      "au_authorized au = (cached_decision d dev s = Authorized)"
    using readCachedScopeAuthorization_state [OF assms(5,6)] by blast
  have rows: "(au_membership au, au_scope au) = readCachedScopeRows d dev s None"
    using au(1) assms(5,6) by (auto simp: readCachedScopeAuthorization_def Let_def split: prod.splits)
  have ok: "cached_decision d dev s = Authorized"
    using assms(1,2) au by (auto simp: getEffectiveCachedScopeAuthorization_def split: option.splits if_splits)
  then obtain m sc' where m: "find_membership d (s, dev) = Some m" "scopeFromJoinedRow d m = Some sc'"
    unfolding cached_decision_Authorized by blast
  then have "membership_key m = (s, dev)" by (auto simp: find_membership_def dest: first_where_SomeD)
  then have "sc' = sc" using m(2) assms(3) by (auto simp: scopeFromJoinedRow_find membership_key_def split: if_splits)
  with rows m have "au_membership au = Some m" "au_scope au = Some sc" by (simp_all add: readCachedScopeRows_find)
  then have "getRetainedScopeAuthorizationKey key_id_of d sc m publicKey = None \<Longrightarrow> False"
    using assms(1,2,4) au ok by (auto simp: getEffectiveCachedScopeAuthorization_def)
  with ok m(1) show ?thesis by blast
qed

text \<open>C37: a coordinator scope is readable only with proof. When the read filter lists a scope under a
  coordinator, the cache authorizes the device for it and the retained evidence of its membership belongs
  to the signing key of the runtime.\<close>

theorem readable_scope_is_proved:
  assumes "resolveVisibleScopeIds key_id_of parse_date nowMs maxAgeMs d dev options = Inr ids" "s \<in> set ids"
    "distinct (map sc_id (scopes d))" "sc \<in> set (scopes d)" "sc_id sc = s" "sc_authority_type sc = ''coordinator''"
    "s \<notin> {[], LOCAL_DEFAULT_SCOPE_ID, LEGACY_SHARED_REVIEW_SCOPE_ID}"
    "clean_text (Some dev) = Some dev" "clean_text (Some s) = Some s"
  shows "cached_decision d dev s = Authorized
    \<and> (\<exists>m key. find_membership d (s, dev) = Some m \<and> key \<in> {vo_public_key options, vo_loaded_key options}
         \<and> clean_text key \<noteq> None \<and> getRetainedScopeAuthorizationKey key_id_of d sc m key \<noteq> None)"
proof -
  let ?key = "resolveVisibilityPublicKey (member_scopes d dev) options"
  from assms(1) obtain decided where decided:
      "require_all (member_visible key_id_of parse_date nowMs maxAgeMs d dev ?key) (member_scopes d dev) = Inr decided"
      "ids = set_of_list ([[], LOCAL_DEFAULT_SCOPE_ID, LEGACY_SHARED_REVIEW_SCOPE_ID]
         @ map sc_id (filter (\<lambda>s. sc_status s = ''active'' \<and> sc_authority_type s = ''local'') (scopes d))
         @ map (\<lambda>(s, ok). sc_id s) (filter snd decided))"
    by (auto simp: resolveVisibleScopeIds_def Let_def split: sum.splits)
  have unique: "r = sc" if "r \<in> set (scopes d)" "sc_id r = s" for r
    using that assms(3,4,5) by (auto simp: distinct_map inj_on_def)
  from decided(2) assms(2,6,7) unique obtain r where "(r, True) \<in> set decided" "sc_id r = s" by auto
  moreover from require_all_members [OF decided(1) this(1)] obtain r' where
    r': "r' \<in> set (member_scopes d dev)" "member_visible key_id_of parse_date nowMs maxAgeMs d dev ?key r' = Inr (r, True)" by blast
  moreover from r'(2) have "r = r'" by (auto simp: member_visible_def split: if_splits sum.splits prod.splits)
  ultimately have "r' = sc" using unique by (auto simp: member_scopes_def)
  with r'(2) assms(5,6) obtain auth key where key: "clean_text ?key \<noteq> None"
      "getEffectiveCachedScopeAuthorization key_id_of parse_date nowMs maxAgeMs d dev s None ?key = Inr (auth, key)" "au_authorized auth"
    by (auto simp: member_visible_def split: if_splits sum.splits prod.splits)
  have "find_scope d s \<noteq> None" using assms(4,5) by (auto simp: find_scope_def first_where_None_iff)
  then obtain r where r: "find_scope d s = Some r" by blast
  then have "r = sc" using unique by (auto simp: find_scope_def dest: first_where_SomeD)
  with r have "find_scope d s = Some sc" by simp
  from effective_authorization [OF key(2,3) this assms(6,8,9)] key(1)
  have "cached_decision d dev s = Authorized" and "\<exists>m. find_membership d (s, dev) = Some m
      \<and> getRetainedScopeAuthorizationKey key_id_of d sc m ?key \<noteq> None" by auto
  moreover have "?key \<in> {vo_public_key options, vo_loaded_key options}" using key(1)
    by (auto simp: resolveVisibilityPublicKey_def split: if_splits)
  ultimately show ?thesis using key(1) by blast
qed

definition proved_db :: db where
  "proved_db = snd (refresh_group Some ''t'' (''c'', ''g'')
     (gatherCurrentSnapshots Some (''c'', ''g'') (\<lambda>s. Inr sample_snapshot) [sample_scope]) empty_db)"

theorem readable_scope_is_proved_witness:
  "let options = \<lparr> vo_public_key = Some ''pk'', vo_loaded_key = None \<rparr>
   in ''team'' \<in> set (projr (resolveVisibleScopeIds Some (\<lambda>t. None) 0 0 proved_db ''a'' options))
      \<and> cached_decision proved_db ''a'' ''team'' = Authorized"
proof -
  let ?options = "\<lparr> vo_public_key = Some ''pk'', vo_loaded_key = None \<rparr>"
  let ?ids = "[[], LOCAL_DEFAULT_SCOPE_ID, LEGACY_SHARED_REVIEW_SCOPE_ID, ''team'']"
  let ?sc = "sample_scope\<lparr> sc_coordinator_id := Some ''c'' \<rparr>"
  have ids: "resolveVisibleScopeIds Some (\<lambda>t. None) 0 0 proved_db ''a'' ?options = Inr ?ids" by code_simp
  have scopes: "distinct (map sc_id (scopes proved_db))" "list_ex (\<lambda>s. s = ?sc) (scopes proved_db)" by code_simp+
  have "cached_decision proved_db ''a'' ''team'' = Authorized"
  proof (rule readable_scope_is_proved [OF ids _ scopes(1), THEN conjunct1])
    show "''team'' \<in> set ?ids" by simp
    show "?sc \<in> set (scopes proved_db)" using scopes(2) by (auto simp: list_ex_iff)
    show "sc_id ?sc = ''team''" "sc_authority_type ?sc = ''coordinator''" by code_simp+
    show "''team'' \<notin> {[], LOCAL_DEFAULT_SCOPE_ID, LEGACY_SHARED_REVIEW_SCOPE_ID}" by code_simp
    show "clean_text (Some ''a'') = Some ''a''" "clean_text (Some ''team'') = Some ''team''" by code_simp+
  qed
  then show ?thesis by (simp add: ids)
qed

end
