(* ===== verification/Scope_Stamping.thy ===== *)
theory Scope_Stamping
  imports Scope_Resolution
begin

text \<open>
  Which scope a session or a memory without one is stamped with (\<open>packages/core/src/scope-stamping.ts\<close>). What
  the repository discovery finds on disk for a session (the effective mappings, the repository's
  identity and whether the working directory may stand in for it) is a parameter: it walks the file
  system and runs git.
\<close>

record repository_context =
  rp_cwd_fallback :: bool
  rp_mappings :: "mapping_row list"
  rp_identity :: "string option"

record resolve_env =
  re_path :: "string \<Rightarrow> string"
  re_sha256 :: "string \<Rightarrow> string"
  re_parse_date :: "string \<Rightarrow> int option"
  re_compare :: "string \<Rightarrow> string \<Rightarrow> int"
  re_discover :: "db \<Rightarrow> session_row option \<Rightarrow> mapping_row list \<Rightarrow> repository_context"

definition loadProjectScopeMappings :: "db \<Rightarrow> mapping_row list" where
  "loadProjectScopeMappings d =
     sort_key (\<lambda>m. (- or_default (pm_priority m) 0, or_default (pm_id m) 0))
       (filter (\<lambda>m. sql_trim (pm_scope_id m) \<noteq> []) (scope_mappings d))"

definition loadSessionScopeRow :: "db \<Rightarrow> int \<Rightarrow> session_row option" where
  "loadSessionScopeRow d sessionId = first_where (\<lambda>s. s_id s = sessionId) (sessions d)"

text \<open>\<open>resolveProjectScope\<close> for a session row in a discovered context.\<close>

definition resolve_in_context ::
    "resolve_env \<Rightarrow> session_row option \<Rightarrow> string option \<Rightarrow> string \<Rightarrow> repository_context \<Rightarrow> scope_resolution" where
  "resolve_in_context env s workspaceId localDefault context =
     resolveProjectScope (re_path env) (re_sha256 env) (re_parse_date env) (re_compare env)
       \<lparr> px_workspace = \<lparr> wi_git_remote = Option.bind s s_git_remote, wi_git_branch = Option.bind s s_git_branch,
           wi_repository = rp_identity context, wi_cwd = Option.bind s s_cwd, wi_workspace_id = workspaceId,
           wi_project = Option.bind s s_project, wi_branch_scoped = False, wi_cwd_fallback = rp_cwd_fallback context \<rparr>,
         px_explicit = None, px_mappings = rp_mappings context, px_default = localDefault \<rparr>"

definition resolveSessionScopeId ::
    "resolve_env \<Rightarrow> db \<Rightarrow> int \<Rightarrow> string option \<Rightarrow> string option \<Rightarrow> string option \<Rightarrow> string" where
  "resolveSessionScopeId env d sessionId workspaceId explicitScopeId localDefaultScopeId =
     (case clean_text explicitScopeId of
        Some s \<Rightarrow> s
      | None \<Rightarrow>
          let session = loadSessionScopeRow d sessionId;
              context = re_discover env d session (loadProjectScopeMappings d)
          in res_scope (resolve_in_context env session workspaceId
               (or_default localDefaultScopeId LOCAL_DEFAULT_SCOPE_ID) context))"

text \<open>A memory row and its session, if it has one (a \<open>LEFT JOIN\<close>).\<close>

definition loadMemoryScopeRow :: "db \<Rightarrow> int \<Rightarrow> (memory_row \<times> session_row option) option" where
  "loadMemoryScopeRow d memoryId =
     map_option (\<lambda>m. (m, first_where (\<lambda>s. s_id s = m_session_id m) (sessions d)))
       (first_where (\<lambda>m. m_id m = memoryId) (memories d))"

definition resolveMemoryScopeId :: "resolve_env \<Rightarrow> db \<Rightarrow> int \<Rightarrow> mapping_row list option \<Rightarrow> string option" where
  "resolveMemoryScopeId env d memoryId mappings = (case loadMemoryScopeRow d memoryId of
     None \<Rightarrow> None
   | Some (m, session) \<Rightarrow>
       (case clean_text (m_scope_id m) of
          Some s \<Rightarrow> Some s
        | None \<Rightarrow>
            let context = re_discover env d session (or_default mappings (loadProjectScopeMappings d))
            in Some (res_scope (resolve_in_context env session (m_workspace_id m) LOCAL_DEFAULT_SCOPE_ID context))))"

definition ensureMemoryScopeId :: "resolve_env \<Rightarrow> db \<Rightarrow> int \<Rightarrow> string option \<times> db" where
  "ensureMemoryScopeId env d memoryId = (case resolveMemoryScopeId env d memoryId None of
     None \<Rightarrow> (None, d)
   | Some s \<Rightarrow>
       if s = [] then (None, d)
       else if clean_text (Option.bind (first_where (\<lambda>m. m_id m = memoryId) (memories d)) m_scope_id) \<noteq> None
       then (Some s, d)
       else (Some s, d\<lparr> memories := update_where
              (\<lambda>m. m_id m = memoryId \<and> (m_scope_id m = None \<or> map_option sql_trim (m_scope_id m) = Some []))
              (\<lambda>m. m\<lparr> m_scope_id := Some s \<rparr>) (memories d) \<rparr>))"

section \<open>Facts\<close>

lemma ensureMemoryScopeId_frame:
  assumes "ensureMemoryScopeId env d i = (s, d')"
  shows "ops d' = ops d" "sessions d' = sessions d" "retirements d' = retirements d" "sync_devices d' = sync_devices d"
    "map m_id (memories d') = map m_id (memories d)" "map m_import_key (memories d') = map m_import_key (memories d)"
  using assms
  by (auto simp: ensureMemoryScopeId_def update_where_def split: option.splits if_splits)

text \<open>A memory that has a scope keeps it, and a stamp is never replaced: stamping twice is stamping once.\<close>

lemma ensureMemoryScopeId_kept:
  assumes "first_where (\<lambda>m. m_id m = i) (memories d) = Some m" "clean_text (m_scope_id m) = Some s"
  shows "ensureMemoryScopeId env d i = (Some s, d)"
  using assms clean_text_Some_nonempty [OF assms(2)]
  by (simp add: ensureMemoryScopeId_def resolveMemoryScopeId_def loadMemoryScopeRow_def)

lemma ensureMemoryScopeId_other:
  assumes "ensureMemoryScopeId env d i = (s, d')" "j \<noteq> i"
  shows "first_where (\<lambda>m. m_id m = j) (memories d') = first_where (\<lambda>m. m_id m = j) (memories d)"
proof -
  have "first_where (\<lambda>m. m_id m = j) (update_where (\<lambda>m. m_id m = i \<and> p m) (\<lambda>m. m\<lparr> m_scope_id := x \<rparr>) rows)
      = first_where (\<lambda>m. m_id m = j) rows" for p x rows
    using assms(2) by (induction rows) (auto simp: update_where_def)
  with assms(1) show ?thesis by (auto simp: ensureMemoryScopeId_def split: option.splits if_splits)
qed

end
