(* ===== verification/Op_Recording.thy ===== *)
theory Op_Recording
  imports Apply_Convergence Op_Log Scope_Stamping
begin

text \<open>
  Writing ops to the log (\<open>packages/core/src/sync-replication.ts\<close>): the payload of a memory row
  (\<open>buildPayloadFromMemoryRow\<close>), \<open>recordReplicationOp\<close>, the two ops of a move between scopes
  (\<open>recordScopeReassignment\<close>), \<open>recordAccessCleanupOp\<close>, the rewrite of legacy keys and the backfill of rows
  that no op announces. The time, a fresh id and the digest come in as arguments.

  A revision is a JavaScript number; the model counts exactly, so it is the code's for revisions below
  \<open>2 ^ 53\<close>. An insert that meets its op id already in the table is the exception of the primary key.
\<close>

section \<open>Payloads of rows\<close>

definition rat_field :: "int \<Rightarrow> json" where
  "rat_field i = JNum (of_int i)"

definition metadata_only_object :: "json \<Rightarrow> json" where
  "metadata_only_object v = (case v of JObj _ \<Rightarrow> v | _ \<Rightarrow> JObj [])"

definition buildPayloadFromMemoryRow :: "memory_row \<Rightarrow> json_obj" where
  "buildPayloadFromMemoryRow m = [
     (''session_id'', rat_field (m_session_id m)), (''kind'', JStr (m_kind m)), (''title'', JStr (m_title m)),
     (''subtitle'', json_of_text (m_subtitle m)), (''body_text'', JStr (m_body_text m)),
     (''confidence'', json_of_num (m_confidence m)), (''tags_text'', json_of_text (m_tags_text m)),
     (''active'', json_of_num (m_active m)), (''created_at'', JStr (m_created_at m)),
     (''updated_at'', JStr (m_updated_at m)),
     (''metadata_json'', metadata_only_object (parseSqliteJson (m_metadata m))),
     (''actor_id'', json_of_text (m_actor_id m)), (''actor_display_name'', json_of_text (m_actor_display_name m)),
     (''visibility'', json_of_text (m_visibility m)), (''workspace_id'', json_of_text (m_workspace_id m)),
     (''workspace_kind'', json_of_text (m_workspace_kind m)),
     (''origin_device_id'', json_of_text (m_origin_device_id m)),
     (''origin_source'', json_of_text (m_origin_source m)), (''trust_state'', json_of_text (m_trust_state m)),
     (''narrative'', json_of_text (m_narrative m)), (''facts'', parseSqliteJson (m_facts m)),
     (''concepts'', parseSqliteJson (m_concepts m)), (''files_read'', parseSqliteJson (m_files_read m)),
     (''files_modified'', parseSqliteJson (m_files_modified m)),
     (''user_prompt_id'', json_of_num (m_user_prompt_id m)), (''prompt_number'', json_of_num (m_prompt_number m)),
     (''deleted_at'', json_of_text (m_deleted_at m)), (''scope_id'', json_of_text (m_scope_id m)),
     (''has_deleted_at'', JBool (m_deleted_at m \<noteq> None)), (''rev'', rat_field (or_default (m_rev m) 0)),
     (''import_key'', json_of_text (m_import_key m)), (''project'', json_of_text (m_project m))]"

text \<open>The payload \<open>recordReplicationOp\<close> builds itself: no \<open>rev\<close>, no \<open>import_key\<close>, the session's project, and the
  metadata as it parses.\<close>

definition recorded_payload :: "string option \<Rightarrow> string option \<Rightarrow> memory_row \<Rightarrow> json_obj" where
  "recorded_payload sessionProject scopeId m = [
     (''project'', json_of_text sessionProject), (''session_id'', rat_field (m_session_id m)),
     (''kind'', JStr (m_kind m)), (''title'', JStr (m_title m)), (''subtitle'', json_of_text (m_subtitle m)),
     (''body_text'', JStr (m_body_text m)), (''confidence'', json_of_num (m_confidence m)),
     (''tags_text'', json_of_text (m_tags_text m)), (''active'', json_of_num (m_active m)),
     (''created_at'', JStr (m_created_at m)), (''updated_at'', JStr (m_updated_at m)),
     (''metadata_json'', parseSqliteJson (m_metadata m)), (''actor_id'', json_of_text (m_actor_id m)),
     (''actor_display_name'', json_of_text (m_actor_display_name m)),
     (''visibility'', json_of_text (m_visibility m)), (''workspace_id'', json_of_text (m_workspace_id m)),
     (''workspace_kind'', json_of_text (m_workspace_kind m)),
     (''origin_device_id'', json_of_text (m_origin_device_id m)),
     (''origin_source'', json_of_text (m_origin_source m)), (''trust_state'', json_of_text (m_trust_state m)),
     (''facts'', parseSqliteJson (m_facts m)), (''narrative'', json_of_text (m_narrative m)),
     (''concepts'', parseSqliteJson (m_concepts m)), (''files_read'', parseSqliteJson (m_files_read m)),
     (''files_modified'', parseSqliteJson (m_files_modified m)),
     (''user_prompt_id'', json_of_num (m_user_prompt_id m)), (''prompt_number'', json_of_num (m_prompt_number m)),
     (''deleted_at'', json_of_text (m_deleted_at m)), (''scope_id'', json_of_text scopeId)]"

section \<open>Recording one op\<close>

record record_options =
  ropt_memory_id :: int
  ropt_op_type :: string
  ropt_device_id :: string
  ropt_payload :: "json_obj option"
  ropt_scope_id :: "string option option"
  ropt_clock_rev :: "int option"
  ropt_clock_updated_at :: "string option"
  ropt_clock_device_id :: "string option"
  ropt_created_at :: "string option"
  ropt_op_id :: "string option"

definition insert_op :: "replication_op \<Rightarrow> db \<Rightarrow> string + db" where
  "insert_op r d = (if exists_where (\<lambda>x. op_id x = op_id r) (ops d)
     then Inl ''UNIQUE constraint failed: replication_ops.op_id'' else Inr (d\<lparr> ops := ops d @ [r] \<rparr>))"

definition memory_by_id :: "db \<Rightarrow> int \<Rightarrow> memory_row option" where
  "memory_by_id d i = first_where (\<lambda>m. m_id m = i) (memories d)"

definition session_project :: "db \<Rightarrow> int \<Rightarrow> string option" where
  "session_project d i =
     (if i = 0 then None else Option.bind (first_where (\<lambda>s. s_id s = i) (sessions d)) s_project)"

definition recorded_clock_device :: "record_options \<Rightarrow> json_obj \<Rightarrow> string" where
  "recorded_clock_device opts metadata =
     (case clean_text (ropt_clock_device_id opts) of
        Some dev \<Rightarrow> dev
      | None \<Rightarrow>
          (case as_text (field ''clock_device_id'' metadata) of
             None \<Rightarrow> ropt_device_id opts
           | Some dev \<Rightarrow> if js_trim dev \<noteq> [] then dev else ropt_device_id opts))"

definition recorded_json :: "record_options \<Rightarrow> string option \<Rightarrow> db \<Rightarrow> memory_row option \<Rightarrow> json_text option" where
  "recorded_json opts scopeId d row =
     (case ropt_payload opts of
        Some p \<Rightarrow> Some (toJson (JObj (if row \<noteq> None \<and> ropt_op_type opts = ''upsert''
            then spread p [(''scope_id'', json_of_text scopeId)] else p)))
      | None \<Rightarrow>
          (case row of
             Some m \<Rightarrow> if ropt_op_type opts = ''upsert''
               then Some (toJson (JObj (recorded_payload (session_project d (m_session_id m)) scopeId m))) else None
           | None \<Rightarrow> None))"

text \<open>The result and the database; a scope stamped on the row stays there when the insert throws.\<close>

definition recordReplicationOp ::
    "resolve_env \<Rightarrow> string \<Rightarrow> string \<Rightarrow> db \<Rightarrow> record_options \<Rightarrow> (string + string) \<times> db" where
  "recordReplicationOp env wall uuid d opts =
     (let opId = or_default (ropt_op_id opts) uuid;
          now = or_default (ropt_created_at opts) wall;
          row = memory_by_id d (ropt_memory_id opts);
          (scopeId, d1) = (case ropt_scope_id opts of
              Some s \<Rightarrow> (s, d)
            | None \<Rightarrow> if row \<noteq> None then ensureMemoryScopeId env d (ropt_memory_id opts) else (None, d));
          op = \<lparr> op_id = opId, op_entity_type = ''memory_item'',
            op_entity_id = or_default (Option.bind row m_import_key) (int_text (ropt_memory_id opts)),
            op_type = ropt_op_type opts, op_payload = recorded_json opts scopeId d1 row,
            op_clock_rev = or_default (ropt_clock_rev opts) (or_default (Option.bind row m_rev) 0),
            op_clock_updated_at = or_default (ropt_clock_updated_at opts) (or_default (map_option m_updated_at row) now),
            op_clock_device_id = recorded_clock_device opts (fromJson (Option.bind row m_metadata)),
            op_device_id = ropt_device_id opts, op_created_at = now, op_scope_id = scopeId \<rparr>
      in (case insert_op op d1 of Inl e \<Rightarrow> (Inl e, d1) | Inr d2 \<Rightarrow> (Inr opId, d2)))"

section \<open>Moving a memory between scopes\<close>

definition deterministicReassignOpId ::
    "(string \<Rightarrow> string) \<Rightarrow> string \<Rightarrow> string \<Rightarrow> string \<Rightarrow> string \<Rightarrow> reassign_side \<Rightarrow> string" where
  "deterministicReassignOpId digest operationId memoryId oldScopeId newScopeId side =
     ''reassign_'' @ digest (json_stringify
       (JArr [JStr operationId, JStr memoryId, JStr oldScopeId, JStr newScopeId, JStr (side_text side)]))"

definition reassignmentEntityId :: "memory_row \<Rightarrow> string" where
  "reassignmentEntityId m = or_default (m_import_key m) (int_text (m_id m))"

definition writeUnretiredReassignment :: "db \<Rightarrow> string \<Rightarrow> string \<Rightarrow> string + db \<Rightarrow> string + db" where
  "writeUnretiredReassignment d entityId scopeId written =
     (case assertMemoryScopeNotRetired d entityId scopeId of Inl e \<Rightarrow> Inl e | Inr _ \<Rightarrow> written)"

record reassign_options =
  rq_operation :: string
  rq_memory :: int
  rq_old :: string
  rq_new :: string
  rq_device :: string

record reassign_result =
  mv_revision :: int
  mv_old_op :: string
  mv_new_op :: string

text \<open>The trimmed operation, old scope, new scope and device of a valid request.\<close>

definition reassign_input :: "reassign_options \<Rightarrow> (string \<times> string \<times> string \<times> string) option" where
  "reassign_input q =
     (case (clean_text (Some (rq_operation q)), clean_text (Some (rq_old q)), clean_text (Some (rq_new q)),
            clean_text (Some (rq_device q))) of
        (Some operationId, Some oldScopeId, Some newScopeId, Some deviceId) \<Rightarrow>
          if oldScopeId = newScopeId \<or> \<not> safe_integer (rq_memory q) \<or> rq_memory q \<le> 0 then None
          else Some (operationId, oldScopeId, newScopeId, deviceId)
      | _ \<Rightarrow> None)"

definition reassign_metadata :: "string \<Rightarrow> string \<Rightarrow> string \<Rightarrow> string \<Rightarrow> int \<Rightarrow> memory_row \<Rightarrow> json_obj" where
  "reassign_metadata operationId oldScopeId newScopeId deviceId revision existing =
     set_field ''last_scope_reassignment'' (JObj [(''operation_id'', JStr operationId),
         (''old_scope_id'', JStr oldScopeId), (''new_scope_id'', JStr newScopeId),
         (''revision'', rat_field revision)])
       (spread (fromJson (m_metadata existing))
         [(''clock_device_id'', JStr deviceId), (''scope_id'', JStr newScopeId)])"

definition reassigned_row :: "string \<Rightarrow> string \<Rightarrow> int \<Rightarrow> json_obj \<Rightarrow> memory_row \<Rightarrow> memory_row" where
  "reassigned_row newScopeId createdAt revision metadata m =
     m\<lparr> m_scope_id := Some newScopeId, m_rev := Some revision, m_updated_at := createdAt,
        m_metadata := Some (toJson (JObj metadata)) \<rparr>"

definition reassign_common :: "string \<Rightarrow> string \<Rightarrow> string \<Rightarrow> string \<Rightarrow> int \<Rightarrow> json_obj" where
  "reassign_common operationId memoryId oldScopeId newScopeId revision =
     [(''operation_id'', JStr operationId), (''memory_id'', JStr memoryId), (''old_scope_id'', JStr oldScopeId),
      (''new_scope_id'', JStr newScopeId), (''revision'', rat_field revision)]"

definition reassign_op ::
    "string \<Rightarrow> string \<Rightarrow> json_obj \<Rightarrow> int \<Rightarrow> string \<Rightarrow> string \<Rightarrow> string \<Rightarrow> replication_op" where
  "reassign_op opId memoryId payload revision createdAt deviceId scopeId =
     \<lparr> op_id = opId, op_entity_type = ''memory_item'', op_entity_id = memoryId, op_type = REASSIGN_SCOPE_OP_TYPE,
       op_payload = Some (toJson (JObj payload)), op_clock_rev = revision, op_clock_updated_at = createdAt,
       op_clock_device_id = deviceId, op_device_id = deviceId, op_created_at = createdAt,
       op_scope_id = Some scopeId \<rparr>"

definition new_side_payload :: "db \<Rightarrow> json_obj \<Rightarrow> string \<Rightarrow> memory_row \<Rightarrow> json_obj" where
  "new_side_payload d common newScopeId m =
     spread (buildPayloadFromMemoryRow m)
       ([(''project'', json_of_text (coalesce (clean_text (m_project m)) (clean_text (session_project d (m_session_id m)))))]
        @ common @ [(''side'', JStr ''new''), (''scope_id'', JStr newScopeId)])"

definition recordScopeReassignment ::
    "(string \<Rightarrow> string) \<Rightarrow> string \<Rightarrow> db \<Rightarrow> reassign_options \<Rightarrow> string + reassign_result \<times> db" where
  "recordScopeReassignment digest createdAt d q = (case reassign_input q of
     None \<Rightarrow> Inl ''reassign_input_invalid''
   | Some (operationId, oldScopeId, newScopeId, deviceId) \<Rightarrow>
     (case memory_by_id d (rq_memory q) of
        None \<Rightarrow> Inl ''reassign_memory_not_found''
      | Some existing \<Rightarrow>
        let memoryId = reassignmentEntityId existing;
            oldOpId = deterministicReassignOpId digest operationId memoryId oldScopeId newScopeId OldSide;
            newOpId = deterministicReassignOpId digest operationId memoryId oldScopeId newScopeId NewSide;
            existingOps = filter (\<lambda>r. op_id r \<in> {oldOpId, newOpId}) (ops d)
        in if existingOps \<noteq> []
           then (if length existingOps \<noteq> 2
                    \<or> list_ex (\<lambda>r. op_clock_rev r \<noteq> op_clock_rev (hd existingOps)) existingOps
                 then Inl ''reassign_replay_conflict''
                 else Inr (\<lparr> mv_revision = op_clock_rev (hd existingOps), mv_old_op = oldOpId, mv_new_op = newOpId \<rparr>, d))
           else if or_default (clean_text (m_scope_id existing)) DEFAULT_SYNC_SCOPE_ID \<noteq> oldScopeId
           then Inl ''reassign_old_scope_mismatch''
           else
             let revision = or_default (m_rev existing) 0 + 1;
                 common = reassign_common operationId memoryId oldScopeId newScopeId revision;
                 metadata = reassign_metadata operationId oldScopeId newScopeId deviceId revision existing;
                 written = (case update_memories (\<lambda>m. m_id m = rq_memory q)
                     (reassigned_row newScopeId createdAt revision metadata) d of
                     Inl e \<Rightarrow> Inl e
                   | Inr d1 \<Rightarrow>
                     (case memory_by_id d1 (rq_memory q) of
                        None \<Rightarrow> Inl ''reassign_memory_not_found''
                      | Some updated \<Rightarrow>
                        (case insert_op (reassign_op oldOpId memoryId (spread common [(''side'', JStr ''old'')])
                                revision createdAt deviceId oldScopeId) d1 of
                           Inl e \<Rightarrow> Inl e
                         | Inr d2 \<Rightarrow> insert_op (reassign_op newOpId memoryId
                                (new_side_payload d1 common newScopeId updated) revision createdAt deviceId newScopeId) d2)))
             in (case writeUnretiredReassignment d memoryId newScopeId written of
                   Inl e \<Rightarrow> Inl e
                 | Inr d' \<Rightarrow> Inr (\<lparr> mv_revision = revision, mv_old_op = oldOpId, mv_new_op = newOpId \<rparr>, d'))))"

section \<open>Access cleanups\<close>

record cleanup_options =
  co_import_key :: string
  co_device_id :: string
  co_scope_id :: string
  co_clock_rev :: int
  co_clock_updated_at :: string
  co_clock_device_id :: "string option"
  co_created_at :: "string option"
  co_target_peer :: "string option"
  co_reason :: "string option"
  co_op_id :: "string option"

definition recordAccessCleanupOp ::
    "string \<Rightarrow> string \<Rightarrow> db \<Rightarrow> cleanup_options \<Rightarrow> string + string \<times> db" where
  "recordAccessCleanupOp wall uuid d q =
     (let opId = or_default (co_op_id q) uuid;
          payload = [(''cleanup_scope_id'', JStr (co_scope_id q)),
             (''reason'', JStr (or_default (clean_text (co_reason q)) ''scope_access_cleanup''))]
           @ (case clean_text (co_target_peer q) of
                None \<Rightarrow> [] | Some p \<Rightarrow> [(''target_peer_device_id'', JStr p)]);
          op = \<lparr> op_id = opId, op_entity_type = ''memory_item'', op_entity_id = co_import_key q,
            op_type = ACCESS_CLEANUP_OP_TYPE, op_payload = Some (toJson (JObj payload)),
            op_clock_rev = co_clock_rev q, op_clock_updated_at = co_clock_updated_at q,
            op_clock_device_id = or_default (co_clock_device_id q) (co_device_id q),
            op_device_id = co_device_id q, op_created_at = or_default (co_created_at q) wall,
            op_scope_id = Some DEFAULT_SYNC_SCOPE_ID \<rparr>
      in map_sum id (\<lambda>d'. (opId, d')) (insert_op op d))"

section \<open>Legacy keys\<close>

definition legacy_key :: "string \<Rightarrow> string \<Rightarrow> string" where
  "legacy_key device suffix = ''legacy:'' @ device @ '':memory_item:'' @ suffix"

definition legacy_prefix :: string where "legacy_prefix = ''legacy:memory_item:''"

definition line_end_free :: "string \<Rightarrow> bool" where
  "line_end_free s \<longleftrightarrow> list_all (\<lambda>c. c \<noteq> CHR 0x0A \<and> c \<noteq> CHR 0x0D) s"

text \<open>\<open>LEGACY_IMPORT_KEY_OLD_RE\<close>: the captured suffix.\<close>

definition legacy_suffix :: "string \<Rightarrow> string option" where
  "legacy_suffix s =
     (let suffix = drop (length legacy_prefix) s in
      if starts_with legacy_prefix s \<and> suffix \<noteq> [] \<and> line_end_free suffix then Some suffix else None)"

definition trimmed_field :: "string \<Rightarrow> json_obj \<Rightarrow> string" where
  "trimmed_field k obj = js_trim (or_default (as_text (field k obj)) [])"

definition local_device :: "db \<Rightarrow> string" where
  "local_device d = (case sync_devices d of [] \<Rightarrow> [] | r # _ \<Rightarrow> js_trim (dv_id r))"

definition assignMemoryImportKey :: "(string \<Rightarrow> string) \<Rightarrow> db \<Rightarrow> int \<Rightarrow> string \<Rightarrow> string + db" where
  "assignMemoryImportKey digest d memoryId importKey =
     (case snapshotSessionExportKeysForMemoryIds digest True d [memoryId] of
        Inl e \<Rightarrow> Inl e
      | Inr d1 \<Rightarrow> Inr (d1\<lparr> memories := update_where (\<lambda>m. m_id m = memoryId)
          (\<lambda>m. m\<lparr> m_import_key := Some importKey \<rparr>) (memories d1) \<rparr>))"

text \<open>In \<open>LIKE 'legacy:memory_item:%'\<close> the underscore stands for any character.\<close>

definition like_legacy :: "string \<Rightarrow> bool" where
  "like_legacy k \<longleftrightarrow> list_all2 (\<lambda>p c. p = CHR ''_'' \<or> p = ascii_lower c) legacy_prefix (take (length legacy_prefix) k)"

definition needs_key :: "memory_row \<Rightarrow> bool" where
  "needs_key m \<longleftrightarrow> (case m_import_key m of
     None \<Rightarrow> True | Some k \<Rightarrow> sql_trim k = [] \<or> like_legacy k)"

definition canonical_key :: "string \<Rightarrow> memory_row \<Rightarrow> string option" where
  "canonical_key localDeviceId m =
     (let current = js_trim (or_default (m_import_key m) []);
          clockDeviceId = trimmed_field ''clock_device_id'' (fromJson (m_metadata m))
      in if current = [] then Some (legacy_key localDeviceId (int_text (m_id m)))
         else (case legacy_suffix current of
             None \<Rightarrow> None
           | Some suffix \<Rightarrow> Some (legacy_key
               (if clockDeviceId \<noteq> [] \<and> clockDeviceId \<noteq> ''local'' then clockDeviceId else localDeviceId) suffix)))"

fun migrate_rows :: "(string \<Rightarrow> string) \<Rightarrow> string \<Rightarrow> memory_row list \<Rightarrow> int \<Rightarrow> db \<Rightarrow> (string + int) \<times> db" where
  "migrate_rows digest localDeviceId [] n d = (Inr n, d)"
| "migrate_rows digest localDeviceId (m # ms) n d =
     (case canonical_key localDeviceId m of
        None \<Rightarrow> migrate_rows digest localDeviceId ms n d
      | Some key \<Rightarrow>
          if Some key = map_option js_trim (m_import_key m) then migrate_rows digest localDeviceId ms n d
          else if (case find_memory d key of None \<Rightarrow> False | Some other \<Rightarrow> m_id other \<noteq> m_id m)
          then migrate_rows digest localDeviceId ms n d
          else (case assignMemoryImportKey digest d (m_id m) key of
                  Inl e \<Rightarrow> (Inl e, d)
                | Inr d' \<Rightarrow> migrate_rows digest localDeviceId ms (n + 1) d'))"

definition migrateLegacyImportKeys :: "(string \<Rightarrow> string) \<Rightarrow> db \<Rightarrow> int \<Rightarrow> (string + int) \<times> db" where
  "migrateLegacyImportKeys digest d limit =
     (if local_device d = [] then (Inr 0, d)
      else migrate_rows digest (local_device d) (sql_limit limit (sort_key m_id (filter needs_key (memories d)))) 0 d)"

section \<open>Backfill\<close>

definition announced :: "db \<Rightarrow> string \<Rightarrow> memory_row \<Rightarrow> bool" where
  "announced d opType m \<longleftrightarrow> exists_where (\<lambda>r. op_entity_type r = ''memory_item''
     \<and> Some (op_entity_id r) = m_import_key m \<and> op_type r = opType
     \<and> op_clock_rev r = or_default (m_rev m) 0) (ops d)"

definition backfill_deletes :: "db \<Rightarrow> memory_row list" where
  "backfill_deletes d = sort_key m_updated_at (filter (\<lambda>m.
     (m_deleted_at m \<noteq> None \<or> m_active m = Some 0) \<and> \<not> announced d ''delete'' m) (memories d))"

definition backfill_upserts :: "db \<Rightarrow> memory_row list" where
  "backfill_upserts d = sort_key m_updated_at (filter (\<lambda>m.
     m_deleted_at m = None \<and> m_active m = Some 1 \<and> \<not> announced d ''upsert'' m) (memories d))"

definition backfill_op_type :: "memory_row \<Rightarrow> string" where
  "backfill_op_type m =
     (if js_trim (or_default (m_deleted_at m) []) \<noteq> [] \<or> or_default (m_active m) 1 = 0 then ''delete'' else ''upsert'')"

definition backfill_op_id :: "string \<Rightarrow> int \<Rightarrow> string \<Rightarrow> string" where
  "backfill_op_id importKey revision opType =
     ''backfill:memory_item:'' @ importKey @ '':'' @ int_text revision @ '':'' @ opType"

definition backfill_origin :: "string \<Rightarrow> memory_row \<Rightarrow> string" where
  "backfill_origin localDeviceId m =
     (let dev = trimmed_field ''clock_device_id'' (fromJson (m_metadata m)) in
      if dev \<noteq> [] \<and> dev \<noteq> ''local'' then dev else localDeviceId)"

definition backfill_op :: "string \<Rightarrow> string \<Rightarrow> string \<Rightarrow> string option \<Rightarrow> memory_row \<Rightarrow> replication_op" where
  "backfill_op now device importKey scopeId m =
     \<lparr> op_id = backfill_op_id importKey (or_default (m_rev m) 0) (backfill_op_type m),
       op_entity_type = ''memory_item'', op_entity_id = importKey, op_type = backfill_op_type m,
       op_payload = Some (toJson (JObj (buildPayloadFromMemoryRow (m\<lparr> m_scope_id := scopeId \<rparr>)))),
       op_clock_rev = or_default (m_rev m) 0, op_clock_updated_at = m_updated_at m,
       op_clock_device_id = device, op_device_id = device, op_created_at = now, op_scope_id = scopeId \<rparr>"

definition backfill_row ::
    "resolve_env \<Rightarrow> string \<Rightarrow> string \<Rightarrow> memory_row \<Rightarrow> db \<Rightarrow> (string + bool) \<times> db" where
  "backfill_row env now localDeviceId m d =
     (let origin = backfill_origin localDeviceId m;
          present = js_trim (or_default (m_import_key m) [])
      in if m_id m = 0 then (Inr False, d)
         else if present = [] \<and> origin = [] then (Inr False, d)
         else
           let importKey = (if present = [] then legacy_key origin (int_text (m_id m)) else present)
           in (case (if present = [] then assignMemoryImportKey (re_sha256 env) d (m_id m) importKey else Inr d) of
                 Inl e \<Rightarrow> (Inl e, d)
               | Inr d1 \<Rightarrow>
                   if exists_where (\<lambda>r. op_id r = backfill_op_id importKey (or_default (m_rev m) 0) (backfill_op_type m))
                        (ops d1)
                   then (Inr False, d1)
                   else if origin = [] then (Inr False, d1)
                   else let (scopeId, d2) = ensureMemoryScopeId env d1 (m_id m)
                        in (Inr True, insertReplicationOpRow d2 (backfill_op now origin importKey scopeId m))))"

fun backfill_rows ::
    "resolve_env \<Rightarrow> string \<Rightarrow> string \<Rightarrow> memory_row list \<Rightarrow> int \<Rightarrow> db \<Rightarrow> (string + int) \<times> db" where
  "backfill_rows env now localDeviceId [] n d = (Inr n, d)"
| "backfill_rows env now localDeviceId (m # ms) n d = (case backfill_row env now localDeviceId m d of
     (Inl e, d') \<Rightarrow> (Inl e, d')
   | (Inr b, d') \<Rightarrow> backfill_rows env now localDeviceId ms (if b then n + 1 else n) d')"

definition backfillReplicationOps :: "resolve_env \<Rightarrow> string \<Rightarrow> db \<Rightarrow> int \<Rightarrow> (string + int) \<times> db" where
  "backfillReplicationOps env now d limit =
     (if limit \<le> 0 then (Inr 0, d)
      else (case migrateLegacyImportKeys (re_sha256 env) d 2000 of
              (Inl e, d1) \<Rightarrow> (Inl e, d1)
            | (Inr _, d1) \<Rightarrow>
                let deletes = sql_limit limit (backfill_deletes d1);
                    remaining = max 0 (limit - int (length deletes));
                    rows = (if remaining > 0 then deletes @ sql_limit remaining (backfill_upserts d1) else deletes)
                in backfill_rows env now (local_device d1) rows 0 d1))"

end
