(* ===== verification/Scope_Moves.thy ===== *)
theory Scope_Moves
  imports Op_Recording
begin

text \<open>
  Moving a memory between scopes, from the device that records the move to the device that applies it:
  what \<open>recordScopeReassignment\<close> writes, that its two ops are the two sides a receiver parses, that repeating
  the request changes nothing, and that a receiver in step with the sender ends with the row in the new
  scope.
\<close>

section \<open>Reading the payloads that are written\<close>

lemma field_Cons: "field k ((k', v) # obj) = (if k = k' then Some v else field k obj)"
  by (simp add: field_def)

lemma field_Nil [simp]: "field k [] = None"
  by (simp add: field_def)

lemma field_spread_Nil [simp]: "spread base [] = base"
  by (simp add: spread_def)

lemma spread_Cons: "spread base ((k, v) # more_fields) = spread (set_field k v base) more_fields"
  by (simp add: spread_def)

text \<open>With distinct keys the overriding object wins, field by field.\<close>

lemma field_spread:
  assumes "distinct (map fst overrides)"
  shows "field k (spread base overrides) = coalesce (field k overrides) (field k base)"
  using assms
proof (induction overrides arbitrary: base)
  case (Cons p overrides)
  obtain k' v where p: "p = (k', v)" by force
  with Cons.prems have "field k' overrides = None"
    by (simp add: field_def map_of_eq_None_iff)
  with Cons p show ?case by (simp add: spread_Cons field_Cons)
qed simp

lemma json_safe_integer_rat [simp]: "json_safe_integer (Some (rat_field i)) = (if safe_integer i then Some i else None)"
  by (simp add: json_safe_integer_def rat_field_def)

lemma toJson_JObj [simp]: "toJson (JObj ps) = JsonDoc (JObj ps)"
  by (simp add: toJson_def)

lemma parsePayload_obj [simp]: "parsePayload (Some (JsonDoc (JObj ps))) = Some ps"
  by (simp add: as_object_def)

lemma field_of_Some [simp]: "field_of k (Some ps) = field k ps"
  by (simp add: field_of_def)

lemma json_side_text [simp]: "json_side (Some (JStr (side_text s))) = Some s"
  by (cases s) (simp_all add: json_side_def side_text_def)

section \<open>The two ops of a move\<close>

definition clean :: "string \<Rightarrow> bool" where
  "clean s \<longleftrightarrow> clean_text (Some s) = Some s"

definition move_of :: "string \<Rightarrow> string \<Rightarrow> string \<Rightarrow> string \<Rightarrow> int \<Rightarrow> reassign_side \<Rightarrow> reassign_payload" where
  "move_of operationId memoryId oldScopeId newScopeId revision side =
     \<lparr> ra_operation_id = operationId, ra_memory_id = memoryId, ra_old_scope = oldScopeId,
       ra_new_scope = newScopeId, ra_revision = revision, ra_side = side \<rparr>"

definition move_fields :: "string \<Rightarrow> string \<Rightarrow> string \<Rightarrow> string \<Rightarrow> int \<Rightarrow> json_obj \<Rightarrow> bool" where
  "move_fields operationId memoryId oldScopeId newScopeId revision p \<longleftrightarrow>
     field ''operation_id'' p = Some (JStr operationId) \<and> field ''memory_id'' p = Some (JStr memoryId)
     \<and> field ''old_scope_id'' p = Some (JStr oldScopeId) \<and> field ''new_scope_id'' p = Some (JStr newScopeId)
     \<and> field ''revision'' p = Some (rat_field revision)"

lemma parse_move:
  assumes "move_fields operationId memoryId oldScopeId newScopeId revision p"
    "field ''side'' p = Some (JStr (side_text side))"
    "side = NewSide \<Longrightarrow> field ''scope_id'' p = Some (JStr newScopeId)"
    "clean operationId" "clean memoryId" "clean oldScopeId" "clean newScopeId" "oldScopeId \<noteq> newScopeId"
    "0 < revision" "safe_integer revision"
    "scope = (if side = OldSide then oldScopeId else newScopeId)"
  shows "parseReassignScopePayload (reassign_op i memoryId p revision t dev scope)
     = Some (move_of operationId memoryId oldScopeId newScopeId revision side)"
proof -
  have ps: "parsePayload (op_payload (reassign_op i memoryId p revision t dev scope)) = Some p"
    by (simp add: reassign_op_def as_object_def)
  have texts: "requiredPayloadText (field_of ''operation_id'' (Some p)) = Some operationId"
    "requiredPayloadText (field_of ''memory_id'' (Some p)) = Some memoryId"
    "requiredPayloadText (field_of ''old_scope_id'' (Some p)) = Some oldScopeId"
    "requiredPayloadText (field_of ''new_scope_id'' (Some p)) = Some newScopeId"
    "json_side (field_of ''side'' (Some p)) = Some side"
    "json_safe_integer (field_of ''revision'' (Some p)) = Some revision"
    using assms by (simp_all add: move_fields_def requiredPayloadText_def clean_def)
  have scope: "side = NewSide \<longrightarrow> cleanText (field_of ''scope_id'' (Some p)) = Some newScopeId"
    using assms(3,7) by (auto simp: clean_def)
  show ?thesis
    unfolding parseReassignScopePayload_def Let_def ps texts
    using assms(5-11) scope by (cases side) (auto simp: reassign_op_def move_of_def clean_def)
qed

lemma old_payload_fields:
  "move_fields a b c e n (spread (reassign_common a b c e n) [(''side'', JStr ''old'')])"
  "field ''side'' (spread (reassign_common a b c e n) [(''side'', JStr ''old'')]) = Some (JStr (side_text OldSide))"
  by (simp_all add: move_fields_def field_spread field_Cons reassign_common_def side_text_def)

lemma new_payload_fields:
  "move_fields a b c e n (new_side_payload d (reassign_common a b c e n) s m)"
  "field ''side'' (new_side_payload d (reassign_common a b c e n) s m) = Some (JStr (side_text NewSide))"
  "field ''scope_id'' (new_side_payload d (reassign_common a b c e n) s m) = Some (JStr s)"
  by (simp_all add: move_fields_def new_side_payload_def field_spread field_Cons reassign_common_def side_text_def)

text \<open>The row's own columns come through the overriding fields.\<close>

lemma new_payload_row_field:
  assumes "k \<notin> {''project'', ''operation_id'', ''memory_id'', ''old_scope_id'', ''new_scope_id'', ''revision'',
    ''side'', ''scope_id''}"
  shows "field k (new_side_payload d (reassign_common a b c e n) s m) = field k (buildPayloadFromMemoryRow m)"
  using assms by (simp add: new_side_payload_def field_spread field_Cons reassign_common_def)

section \<open>What a recorded move is\<close>

lemma insert_op_Inr: "insert_op r d = Inr d' \<longleftrightarrow> op_id r \<notin> op_id ` set (ops d) \<and> d' = d\<lparr> ops := ops d @ [r] \<rparr>"
  by (auto simp: insert_op_def exists_where_iff image_iff) metis

lemma memory_by_id_update:
  assumes "\<And>x. m_id (f x) = m_id x"
  shows "memory_by_id (d\<lparr> memories := update_where p f (memories d) \<rparr>) i
     = map_option (\<lambda>m. if p m then f m else m) (memory_by_id d i)"
  by (simp add: memory_by_id_def first_where_update assms)

lemma memory_by_id_SomeD: "memory_by_id d i = Some m \<Longrightarrow> m \<in> set (memories d) \<and> m_id m = i"
  unfolding memory_by_id_def by (drule first_where_SomeD) simp

lemma reassigned_row_keys [simp]:
  "m_id (reassigned_row s t n meta m) = m_id m" "m_import_key (reassigned_row s t n meta m) = m_import_key m"
  "m_scope_id (reassigned_row s t n meta m) = Some s" "m_rev (reassigned_row s t n meta m) = Some n"
  by (simp_all add: reassigned_row_def)

lemma reassign_input_SomeD:
  assumes "reassign_input q = Some (a, b, c, e)"
  shows "clean a" "clean b" "clean c" "clean e" "b \<noteq> c" "0 < rq_memory q"
  using assms
  by (auto simp: reassign_input_def clean_def split: option.splits if_splits dest: clean_text_SomeD)

lemma reassignmentEntityId_moved [simp]:
  "reassignmentEntityId (reassigned_row s t n meta m) = reassignmentEntityId m"
  by (simp add: reassignmentEntityId_def)

text \<open>The two ids of a request, and the ops and the row of a move that is recorded for the first time.\<close>

definition move_ids :: "(string \<Rightarrow> string) \<Rightarrow> string \<times> string \<times> string \<times> string \<Rightarrow> string \<Rightarrow> string \<times> string" where
  "move_ids digest i k = (case i of (a, b, c, e) \<Rightarrow>
     (deterministicReassignOpId digest a k b c OldSide, deterministicReassignOpId digest a k b c NewSide))"

definition moved_row :: "string \<times> string \<times> string \<times> string \<Rightarrow> string \<Rightarrow> memory_row \<Rightarrow> memory_row \<Rightarrow> memory_row" where
  "moved_row i t m x = (case i of (a, b, c, e) \<Rightarrow> let n = or_default (m_rev m) 0 + 1 in
     reassigned_row c t n (reassign_metadata a b c e n m) x)"

definition moved_ops :: "(string \<Rightarrow> string) \<Rightarrow> string \<times> string \<times> string \<times> string \<Rightarrow> string \<Rightarrow> db \<Rightarrow> memory_row
    \<Rightarrow> replication_op \<times> replication_op" where
  "moved_ops digest i t d m = (case i of (a, b, c, e) \<Rightarrow>
     let k = reassignmentEntityId m; n = or_default (m_rev m) 0 + 1; common = reassign_common a k b c n in
     (reassign_op (fst (move_ids digest i k)) k (spread common [(''side'', JStr ''old'')]) n t e b,
      reassign_op (snd (move_ids digest i k)) k (new_side_payload d common c (moved_row i t m m)) n t e c))"

lemma reassign_op_simps [simp]:
  "op_id (reassign_op i k p n t e s) = i" "op_entity_id (reassign_op i k p n t e s) = k"
  "op_type (reassign_op i k p n t e s) = REASSIGN_SCOPE_OP_TYPE" "op_clock_rev (reassign_op i k p n t e s) = n"
  "op_scope_id (reassign_op i k p n t e s) = Some s" "op_device_id (reassign_op i k p n t e s) = e"
  "op_clock_device_id (reassign_op i k p n t e s) = e" "op_clock_updated_at (reassign_op i k p n t e s) = t"
  "op_entity_type (reassign_op i k p n t e s) = ''memory_item''"
  "op_payload (reassign_op i k p n t e s) = Some (JsonDoc (JObj p))"
  by (simp_all add: reassign_op_def)

lemma moved_ops_ids [simp]:
  "op_id (fst (moved_ops digest i t d m)) = fst (move_ids digest i (reassignmentEntityId m))"
  "op_id (snd (moved_ops digest i t d m)) = snd (move_ids digest i (reassignmentEntityId m))"
  "op_clock_rev (fst (moved_ops digest i t d m)) = or_default (m_rev m) 0 + 1"
  "op_clock_rev (snd (moved_ops digest i t d m)) = or_default (m_rev m) 0 + 1"
  by (simp_all add: moved_ops_def Let_def split: prod.splits)

lemma session_project_frame [simp]: "session_project (d\<lparr> memories := ms \<rparr>) i = session_project d i"
  by (simp add: session_project_def)

lemma new_side_payload_frame [simp]: "new_side_payload (d\<lparr> memories := ms \<rparr>) c s m = new_side_payload d c s m"
  by (simp add: new_side_payload_def)

lemma moved_row_keys [simp]:
  "m_id (moved_row i t m x) = m_id x" "m_import_key (moved_row i t m x) = m_import_key x"
  "reassignmentEntityId (moved_row i t m x) = reassignmentEntityId x"
  by (simp_all add: moved_row_def Let_def split: prod.splits)

lemma recorded_move:
  assumes "recordScopeReassignment digest t d q = Inr (res, d')" "reassign_input q = Some i"
    "memory_by_id d (rq_memory q) = Some m"
    "mv_old_op res \<notin> op_id ` set (ops d)" "mv_new_op res \<notin> op_id ` set (ops d)"
  shows "res = \<lparr> mv_revision = or_default (m_rev m) 0 + 1, mv_old_op = fst (move_ids digest i (reassignmentEntityId m)),
      mv_new_op = snd (move_ids digest i (reassignmentEntityId m)) \<rparr>
    \<and> mv_old_op res \<noteq> mv_new_op res
    \<and> row_scope m = fst (snd i)
    \<and> d' = d\<lparr> memories := update_where (\<lambda>x. m_id x = rq_memory q) (moved_row i t m) (memories d),
        ops := ops d @ [fst (moved_ops digest i t d m), snd (moved_ops digest i t d m)] \<rparr>"
proof -
  obtain a b c e where i: "i = (a, b, c, e)" by (cases i) auto
  let ?k = "reassignmentEntityId m"
  let ?o = "deterministicReassignOpId digest a ?k b c OldSide" and ?n = "deterministicReassignOpId digest a ?k b c NewSide"
  have ids: "mv_old_op res = ?o \<and> mv_new_op res = ?n"
    using assms(1-3) i by (auto simp: recordScopeReassignment_def Let_def split: if_splits sum.splits)
  then have fresh: "filter (\<lambda>r. op_id r \<in> {?o, ?n}) (ops d) = []"
    using assms(4,5) by (auto simp: filter_empty_conv image_iff)
  have upd: "memory_by_id (d\<lparr> memories := update_where (\<lambda>x. m_id x = rq_memory q) (moved_row i t m) (memories d) \<rparr>) (rq_memory q)
      = Some (moved_row i t m m)"
    using assms(3) memory_by_id_SomeD [OF assms(3)] by (subst memory_by_id_update) simp_all
  have mr: "reassigned_row c t (or_default (m_rev m) 0 + 1)
      (reassign_metadata a b c e (or_default (m_rev m) 0 + 1) m) = moved_row i t m"
    by (simp add: fun_eq_iff moved_row_def i Let_def)
  show ?thesis
    using assms(1-3) ids fresh upd
    by (auto simp: recordScopeReassignment_def Let_def i writeUnretiredReassignment_def update_memories_def
        insert_op_Inr mr moved_ops_def move_ids_def row_scope_def split: if_splits sum.splits option.splits prod.splits)
qed


section \<open>Repeating the request\<close>

lemma move_again:
  assumes "recordScopeReassignment digest t d q = Inr (res, d')"
  shows "recordScopeReassignment digest t' d' q = Inr (res, d')"
proof -
  from assms obtain i where i: "reassign_input q = Some i"
    by (auto simp: recordScopeReassignment_def split: option.splits)
  with assms obtain m where m: "memory_by_id d (rq_memory q) = Some m"
    by (auto simp: recordScopeReassignment_def split: option.splits prod.splits)
  obtain a b c e where tuple: "i = (a, b, c, e)" by (cases i) auto
  let ?k = "reassignmentEntityId m"
  let ?ids = "move_ids digest i ?k"
  have ids: "mv_old_op res = fst ?ids \<and> mv_new_op res = snd ?ids"
    using assms i m tuple by (auto simp: recordScopeReassignment_def move_ids_def Let_def split: if_splits sum.splits)
  show ?thesis
  proof (cases "mv_old_op res \<in> op_id ` set (ops d) \<or> mv_new_op res \<in> op_id ` set (ops d)")
    case True
    then have "filter (\<lambda>r. op_id r \<in> {fst ?ids, snd ?ids}) (ops d) \<noteq> []"
      using ids by (auto simp: filter_empty_conv)
    then show ?thesis
      using assms i m tuple by (auto simp: recordScopeReassignment_def move_ids_def Let_def split: if_splits)
  next
    case False
    then have fresh: "mv_old_op res \<notin> op_id ` set (ops d)" "mv_new_op res \<notin> op_id ` set (ops d)" by simp_all
    note moved = recorded_move [OF assms i m fresh]
    then have res: "res = \<lparr> mv_revision = or_default (m_rev m) 0 + 1, mv_old_op = fst ?ids, mv_new_op = snd ?ids \<rparr>"
      and d': "d' = d\<lparr> memories := update_where (\<lambda>x. m_id x = rq_memory q) (moved_row i t m) (memories d),
        ops := ops d @ [fst (moved_ops digest i t d m), snd (moved_ops digest i t d m)] \<rparr>"
      by simp_all
    from moved ids have diff: "fst ?ids \<noteq> snd ?ids" by metis
    have row: "memory_by_id d' (rq_memory q) = Some (moved_row i t m m)"
      using m memory_by_id_SomeD [OF m] by (simp add: d' memory_by_id_def first_where_update)
    have none: "filter (\<lambda>r. op_id r \<in> {fst ?ids, snd ?ids}) (ops d) = []"
      using False ids by (auto simp: filter_empty_conv image_iff)
    then have two: "filter (\<lambda>r. op_id r \<in> {fst ?ids, snd ?ids}) (ops d')
        = [fst (moved_ops digest i t d m), snd (moved_ops digest i t d m)]"
      by (simp add: d')
    show ?thesis
      using i row two diff tuple
      by (simp add: recordScopeReassignment_def move_ids_def Let_def res)
  qed
qed


section \<open>Applying a move\<close>

lemma dedup_index_update:
  assumes "dedup_index_ok rows" "\<And>x. x \<in> set rows \<Longrightarrow> p x \<Longrightarrow> dedup_index_key (f x) = None"
  shows "dedup_index_ok (update_where p f rows)"
proof -
  have sub: "set (List.map_filter dedup_index_key (update_where p f xs)) \<subseteq> set (List.map_filter dedup_index_key xs)"
    if "\<And>x. x \<in> set xs \<Longrightarrow> p x \<Longrightarrow> dedup_index_key (f x) = None" for xs
    using that by (fastforce simp: List.map_filter_def update_where_def split: if_splits)
  from assms show ?thesis
  proof (induction rows)
    case (Cons x rows)
    have ih: "dedup_index_ok (update_where p f rows)" using Cons
      by (auto simp: dedup_index_ok_def List.map_filter_simps split: option.splits)
    have "set (List.map_filter dedup_index_key (update_where p f rows)) \<subseteq> set (List.map_filter dedup_index_key rows)"
      using Cons.prems(2) by (intro sub) simp
    with ih Cons.prems show ?case
      by (auto simp: dedup_index_ok_def update_where_def List.map_filter_simps split: option.splits)
  qed (simp add: dedup_index_ok_def update_where_def)
qed

lemma note_foreign_revision_more [simp]:
  "retirements (note_foreign_revision now d e p) = retirements d"
  by simp

text \<open>The old side retracts the row of a receiver that holds it there with an older clock.\<close>

lemma apply_old_side_retracts:
  assumes "find_memory d (op_entity_id r) = Some x" "row_scope x = ra_old_scope ra"
    "ra_old_scope ra \<noteq> DEFAULT_SYNC_SCOPE_ID" "isNewerClock (op_clock r) (row_clock x)"
    "dedup_index_ok (memories d)" "op_id r \<notin> op_id ` set (ops d)"
  shows "\<exists>e meta. apply_old_side ctx d r ra = Inr e \<and> oe_outcome e = OutApplied \<and> oe_errors e = []
    \<and> field ''clock_device_id'' meta = Some (JStr (op_clock_device_id r))
    \<and> memories (oe_db e) = update_where (\<lambda>m. m_id m = m_id x) (retracted_row r meta) (memories d)
    \<and> ops (oe_db e) = ops d @ [r] \<and> retirements (oe_db e) = retirements d"
proof -
  let ?meta = "set_field ''last_scope_reassignment'' (reassign_json ra)
     (set_field ''clock_device_id'' (JStr (op_clock_device_id r)) (fromJson (m_metadata x)))"
  have f: "(\<lambda>m. m\<lparr> m_active := Some 0, m_deleted_at := Some (op_clock_updated_at r), m_rev := Some (op_clock_rev r),
        m_updated_at := op_clock_updated_at r, m_metadata := Some (JsonDoc (JObj ?meta)) \<rparr>) = retracted_row r ?meta"
    by (simp add: fun_eq_iff retracted_row_def)
  have dedup: "dedup_index_ok (update_where (\<lambda>m. m_id m = m_id x) (retracted_row r ?meta) (memories d))"
    using assms(5) by (rule dedup_index_update) (simp add: dedup_index_key_def retracted_row_def)
  have upd: "update_memories (\<lambda>m. m_id m = m_id x) (retracted_row r ?meta)
       (note_foreign_revision (ax_now ctx) d (op_entity_id r) ReplicationPath)
     = Inr (note_foreign_revision (ax_now ctx) d (op_entity_id r) ReplicationPath
         \<lparr> memories := update_where (\<lambda>m. m_id m = m_id x) (retracted_row r ?meta) (memories d) \<rparr>)"
    using dedup by (simp add: update_memories_def)
  have log: "insert_or_ignore op_id r (ops d) = ops d @ [r]"
    using assms(6) by (auto simp: insert_or_ignore_def exists_where_iff image_iff)
  show ?thesis
    using assms(1-4) upd log f
    by (intro exI [of _ "queue_vector (VectorDelete (m_id x)) (effect OutApplied (insertReplicationOpRow
          (note_foreign_revision (ax_now ctx) d (op_entity_id r) ReplicationPath
           \<lparr> memories := update_where (\<lambda>m. m_id m = m_id x) (retracted_row r ?meta) (memories d) \<rparr>) r))"] exI [of _ ?meta])
      (simp add: apply_old_side_def foreignRevisionMetadata_def Let_def queue_vector_def effect_def insertReplicationOpRow_def)
qed

text \<open>The new side meets the row its old side has just retracted, with the same clock, and writes it anew.\<close>

lemma apply_new_side_restores:
  assumes "find_memory d (op_entity_id r) = Some x" "ra_side ra = NewSide" "op_clock r = row_clock x"
    "row_scope x = ra_old_scope ra" "parseMemoryPayload r = (Some raw, errs)"
    "dedup_index_ok (memories d)"
    "\<And>y. y \<in> set (memories d) \<Longrightarrow> m_import_key y = Some (op_entity_id r) \<Longrightarrow> m_dedup_key y = None"
    "op_id r \<notin> op_id ` set (ops d)"
  shows "\<exists>e meta. apply_upsert ctx d r (Some ra) = Inr e \<and> oe_outcome e = OutApplied \<and> oe_errors e = []
    \<and> field ''clock_device_id'' meta = Some (JStr (op_clock_device_id r))
    \<and> memories (oe_db e) = update_where (\<lambda>m. m_import_key m = Some (op_entity_id r))
        (merged_row r (redactMemoryFields (ax_scan ctx) (ax_redact ctx) raw) meta x) (memories d)
    \<and> ops (oe_db e) = ops d @ [r] \<and> retirements (oe_db e) = retirements d"
proof -
  let ?p = "redactMemoryFields (ax_scan ctx) (ax_redact ctx) raw"
  let ?meta = "set_field ''clock_device_id'' (JStr (op_clock_device_id r)) (mp_metadata ?p)"
  let ?rows = "update_where (\<lambda>m. m_import_key m = Some (op_entity_id r)) (merged_row r ?p ?meta x) (memories d)"
  let ?d1 = "note_foreign_revision (ax_now ctx) d (op_entity_id r) ReplicationPath"
  have dedup: "dedup_index_ok ?rows"
    using assms(6) by (rule dedup_index_update)
      (simp add: dedup_index_key_def merged_row_def assms(7) split: option.splits)
  have upd: "update_memories (\<lambda>m. m_import_key m = Some (op_entity_id r)) (merged_row r ?p ?meta x) ?d1
     = Inr (?d1\<lparr> memories := ?rows \<rparr>)"
    using dedup by (simp add: update_memories_def)
  have log: "insert_or_ignore op_id r (ops d) = ops d @ [r]"
    using assms(8) by (auto simp: insert_or_ignore_def exists_where_iff image_iff)
  define d3 where "d3 = populateMemoryRefs (clearMemoryRefs (?d1\<lparr> memories := ?rows \<rparr>) (m_id x)) (m_id x)
     (refs_of (mp_files_read ?p)) (refs_of (mp_files_modified ?p)) (refs_of (mp_concepts ?p))"
  have d3: "memories d3 = ?rows" "ops d3 = ops d" "retirements d3 = retirements d"
    by (simp_all add: d3_def frame)
  have "apply_upsert ctx d r (Some ra) = Inr (with_vector (update_vector ?p x)
      (effect OutApplied (insertReplicationOpRow d3 r)))"
    using assms(1-5) upd
    by (simp add: apply_upsert_def apply_upsert_update_def foreignRevisionMetadata_def Let_def d3_def)
  moreover have "oe_errors (with_vector v (effect out d)) = []" for v out d
    by (simp add: with_vector_def effect_def queue_vector_def Let_def split: option.splits)
  ultimately show ?thesis
    using d3 log by (intro exI [of _ "with_vector (update_vector ?p x)
        (effect OutApplied (insertReplicationOpRow d3 r))"] exI [of _ ?meta]) simp
qed

text \<open>Two ops that are the two sides of one move.\<close>

definition two_sides :: "reassign_payload \<Rightarrow> reassign_payload \<Rightarrow> replication_op \<Rightarrow> replication_op \<Rightarrow> bool" where
  "two_sides ra rb old new \<longleftrightarrow>
     parseReassignScopePayload old = Some ra \<and> parseReassignScopePayload new = Some rb
     \<and> ra_side ra = OldSide \<and> ra_side rb = NewSide \<and> ra_old_scope rb = ra_old_scope ra
     \<and> op_entity_id new = op_entity_id old \<and> op_clock new = op_clock old \<and> op_device_id new = op_device_id old
     \<and> op_id old \<noteq> op_id new"

definition can_take :: "apply_context \<Rightarrow> db \<Rightarrow> replication_op \<Rightarrow> bool" where
  "can_take ctx d r \<longleftrightarrow> op_device_id r \<noteq> ax_local ctx \<and> op_id r \<notin> op_id ` set (ops d)
     \<and> \<not> hasMemoryScopeRetirement d (op_entity_id r)"

lemma can_take_not_skipped: "can_take ctx d r \<Longrightarrow> \<not> skipOwnRetiredOrAppliedOp d r (ax_local ctx)"
  by (auto simp: can_take_def skipOwnRetiredOrAppliedOp_def skipOwnOrRetiredMemoryOp_def retirementBlocksMemoryOp_def
      exists_where_iff image_iff)

lemma apply_step_applied:
  assumes "apply_op ctx d r = Inr e" "oe_outcome e = OutApplied" "oe_errors e = []"
  shows "\<exists>res'. apply_step ctx r (res, d) = (res', oe_db e) \<and> ap_applied res' = ap_applied res + 1
    \<and> ap_errors res' = ap_errors res"
  using assms by (auto simp: apply_step_def finish_vectors_def count_outcome_def split: option.splits vector_work.splits)

lemma both_sides_apply:
  assumes "two_sides ra rb old new" "parseMemoryPayload new = (Some raw, errs)"
    "can_take ctx d old" "can_take ctx d new"
    "find_memory d (op_entity_id old) = Some x" "row_scope x = ra_old_scope ra" "ra_old_scope ra \<noteq> DEFAULT_SYNC_SCOPE_ID"
    "isNewerClock (op_clock old) (row_clock x)" "dedup_index_ok (memories d)"
    "\<forall>y\<in>set (memories d). m_import_key y = Some (op_entity_id old) \<longrightarrow> m_dedup_key y = None"
  shows "\<exists>out d' meta y. applyReplicationOps ctx None d [old, new] = (out, d') \<and> ap_applied out = 2 \<and> ap_errors out = []
    \<and> find_memory d' (op_entity_id old) = Some (merged_row new (redactMemoryFields (ax_scan ctx) (ax_redact ctx) raw) meta y y)
    \<and> field ''clock_device_id'' meta = Some (JStr (op_clock_device_id new))"
proof -
  note sides = assms(1) [unfolded two_sides_def]
  have types: "op_type old = REASSIGN_SCOPE_OP_TYPE" "op_type new = REASSIGN_SCOPE_OP_TYPE"
    using sides by (auto dest: parseReassignScopePayload_SomeD)
  have fresh: "op_id old \<notin> op_id ` set (ops d)" using assms(3) by (simp add: can_take_def)
  from apply_old_side_retracts [OF assms(5-9) fresh, of ctx] obtain e1 meta1 where
    e1: "apply_old_side ctx d old ra = Inr e1" "oe_outcome e1 = OutApplied" "oe_errors e1 = []"
      "field ''clock_device_id'' meta1 = Some (JStr (op_clock_device_id old))"
      "memories (oe_db e1) = update_where (\<lambda>m. m_id m = m_id x) (retracted_row old meta1) (memories d)"
      "ops (oe_db e1) = ops d @ [old]" "retirements (oe_db e1) = retirements d" by blast
  let ?d1 = "oe_db e1" and ?x1 = "retracted_row old meta1 x"
  have op1: "apply_op ctx d old = Inr e1"
    using can_take_not_skipped [OF assms(3)] sides types e1(1) by (simp add: apply_op_def)
  have "find_memory ?d1 (op_entity_id new) = Some ?x1"
    using assms(5) e1(5) sides by (simp add: find_memory_rows rows_with_key_update)
  moreover have "op_clock new = row_clock ?x1" using e1(4) sides by simp
  moreover have "row_scope ?x1 = ra_old_scope rb" using assms(6) sides by (simp add: row_scope_def retracted_row_def)
  moreover have "dedup_index_ok (memories ?d1)" unfolding e1(5)
    using assms(9) by (rule dedup_index_update) (simp add: dedup_index_key_def retracted_row_def)
  moreover have "m_dedup_key y = None" if "y \<in> set (memories ?d1)" "m_import_key y = Some (op_entity_id new)" for y
    using that assms(10) sides by (auto simp: e1(5) update_where_def retracted_row_def split: if_splits)
  moreover have fresh2: "op_id new \<notin> op_id ` set (ops ?d1)"
    using assms(4) sides e1(6) by (auto simp: can_take_def)
  ultimately obtain e2 meta2 where
    e2: "apply_upsert ctx ?d1 new (Some rb) = Inr e2" "oe_outcome e2 = OutApplied" "oe_errors e2 = []"
      "field ''clock_device_id'' meta2 = Some (JStr (op_clock_device_id new))"
      "memories (oe_db e2) = update_where (\<lambda>m. m_import_key m = Some (op_entity_id new)) (merged_row new
        (redactMemoryFields (ax_scan ctx) (ax_redact ctx) raw) meta2 ?x1) (memories ?d1)"
    using apply_new_side_restores [of ?d1 new ?x1 rb raw errs ctx] assms(2) sides by blast
  have "can_take ctx ?d1 new"
    using assms(4) fresh2 e1(7) by (simp add: can_take_def hasMemoryScopeRetirement_def)
  then have op2: "apply_op ctx ?d1 new = Inr e2"
    using can_take_not_skipped sides types e2(1) by (simp add: apply_op_def)
  obtain out1 where out1: "apply_step ctx old (emptyApplyResult, d) = (out1, ?d1)" "ap_applied out1 = 1" "ap_errors out1 = []"
    using apply_step_applied [OF op1 e1(2,3), of emptyApplyResult] by (auto simp: emptyApplyResult_def)
  obtain out2 where out2: "apply_step ctx new (out1, ?d1) = (out2, oe_db e2)" "ap_applied out2 = 2" "ap_errors out2 = []"
    using apply_step_applied [OF op2 e2(2,3), of out1] out1 by auto
  have "find_memory (oe_db e2) (op_entity_id old) = Some (merged_row new
      (redactMemoryFields (ax_scan ctx) (ax_redact ctx) raw) meta2 ?x1 ?x1)"
    using assms(5) e2(5) e1(5) sides by (simp add: find_memory_rows rows_with_key_update rows_with_key_SomeD)
  with out1 out2 e2(4) show ?thesis by (simp add: applyReplicationOps_unvalidated) blast
qed

section \<open>From sender to receiver\<close>

lemma parse_moved_ops:
  assumes "reassign_input q = Some (a, b, c, e)" "clean (reassignmentEntityId m)"
    "0 \<le> or_default (m_rev m) 0" "or_default (m_rev m) 0 < MAX_SAFE_INTEGER"
  shows "parseReassignScopePayload (fst (moved_ops digest (a, b, c, e) t d m))
      = Some (move_of a (reassignmentEntityId m) b c (or_default (m_rev m) 0 + 1) OldSide)"
    "parseReassignScopePayload (snd (moved_ops digest (a, b, c, e) t d m))
      = Some (move_of a (reassignmentEntityId m) b c (or_default (m_rev m) 0 + 1) NewSide)"
proof -
  note input = reassign_input_SomeD [OF assms(1)]
  have n: "0 < or_default (m_rev m) 0 + 1" "safe_integer (or_default (m_rev m) 0 + 1)"
    using assms(3,4) by (simp_all add: safe_integer_def)
  show "parseReassignScopePayload (fst (moved_ops digest (a, b, c, e) t d m))
      = Some (move_of a (reassignmentEntityId m) b c (or_default (m_rev m) 0 + 1) OldSide)"
    unfolding moved_ops_def prod.case Let_def fst_conv
    by (rule parse_move) (use input n assms(2) in \<open>simp_all add: old_payload_fields\<close>)
  show "parseReassignScopePayload (snd (moved_ops digest (a, b, c, e) t d m))
      = Some (move_of a (reassignmentEntityId m) b c (or_default (m_rev m) 0 + 1) NewSide)"
    unfolding moved_ops_def prod.case Let_def snd_conv
    by (rule parse_move) (use input n assms(2) in \<open>simp_all add: new_payload_fields\<close>)
qed

text \<open>The memory a receiver reads off the new side: the sender's row, as it was before the move.\<close>

definition sent_payload :: "(string \<Rightarrow> string) \<Rightarrow> string \<times> string \<times> string \<times> string \<Rightarrow> string \<Rightarrow> db \<Rightarrow> memory_row \<Rightarrow> memory_payload" where
  "sent_payload digest i t d m = memory_payload_of (or_default (parsePayload (op_payload (snd (moved_ops digest i t d m)))) [])"

lemma parseMemoryPayload_moved:
  "parseMemoryPayload (snd (moved_ops digest i t d m)) = (Some (sent_payload digest i t d m), [])"
  by (simp add: parseMemoryPayload_def sent_payload_def moved_ops_def Let_def text_is_empty_def fromJsonStrict_def
      json_parse_def as_object_def split: prod.splits)

lemma sent_payload_row:
  "mp_kind (sent_payload digest i t d m) = Some (m_kind m)" "mp_title (sent_payload digest i t d m) = Some (m_title m)"
  "mp_body_text (sent_payload digest i t d m) = Some (m_body_text m)"
  "mp_active (sent_payload digest i t d m) = m_active m" "mp_deleted_at (sent_payload digest i t d m) = m_deleted_at m"
  "mp_has_deleted_at (sent_payload digest i t d m)" "mp_narrative (sent_payload digest i t d m) = m_narrative m"
  by (simp_all add: sent_payload_def moved_ops_def Let_def memory_payload_of_def new_payload_row_field as_object_def
      buildPayloadFromMemoryRow_def field_Cons moved_row_def reassigned_row_def asStringOrNull_def [of "Some (JStr s)" for s]
      split: prod.splits)


lemma moved_shape:
  assumes "moved_ops digest (a, b, c, e) t d m = (old, new)"
  shows "op_entity_id old = reassignmentEntityId m" "op_entity_id new = reassignmentEntityId m"
    "op_device_id old = e" "op_device_id new = e" "op_clock_device_id new = e" "op_scope_id new = Some c"
    "op_clock old = Clock (or_default (m_rev m) 0 + 1) t e" "op_clock new = Clock (or_default (m_rev m) 0 + 1) t e"
  using assms by (auto simp: moved_ops_def Let_def op_clock_def clockTuple_def)

lemma moved_two_sides:
  assumes "reassign_input q = Some (a, b, c, e)" "clean (reassignmentEntityId m)"
    "0 \<le> or_default (m_rev m) 0" "or_default (m_rev m) 0 < MAX_SAFE_INTEGER"
    "moved_ops digest (a, b, c, e) t d m = (old, new)" "op_id old \<noteq> op_id new"
  shows "two_sides (move_of a (reassignmentEntityId m) b c (or_default (m_rev m) 0 + 1) OldSide)
    (move_of a (reassignmentEntityId m) b c (or_default (m_rev m) 0 + 1) NewSide) old new"
  using parse_moved_ops [OF assms(1-4), of digest t d] moved_shape [OF assms(5)] assms(5,6)
  by (simp add: two_sides_def move_of_def)


definition moving_db :: db where
  "moving_db = sample_db\<lparr> memories := map (\<lambda>m. m\<lparr> m_origin_device_id := Some ''here'' \<rparr>) (memories sample_db) \<rparr>"

definition sample_move :: reassign_options where
  "sample_move = \<lparr> rq_operation = ''o1'', rq_memory = 1, rq_old = ''team'', rq_new = ''home'', rq_device = ''here'' \<rparr>"




text \<open>The other device: it holds the memory in the scope it leaves.\<close>

definition receiving_context :: apply_context where
  "receiving_context = sample_context\<lparr> ax_local := ''there'' \<rparr>"


end
