(* ===== verification/Log_Backfill.thy ===== *)
theory Log_Backfill
  imports Op_Recording
begin

text \<open>
  The backfill catches up: each run announces as many pending rows as its limit allows, so repeated runs
  leave nothing that the sync pass would report as unsynced.
\<close>

section \<open>Op ids of the backfill\<close>

definition op_kind :: "string \<Rightarrow> bool" where
  "op_kind t \<longleftrightarrow> t = ''upsert'' \<or> t = ''delete''"

lemma backfill_op_id_inj:
  assumes "backfill_op_id k n t = backfill_op_id k' n' t'" "op_kind t" "op_kind t'"
  shows "k = k' \<and> n = n' \<and> t = t'"
proof -
  have plain: "CHR '':'' \<notin> set t" "CHR '':'' \<notin> set t'" using assms(2,3) by (auto simp: op_kind_def)
  have "(k @ CHR '':'' # int_text n) @ CHR '':'' # t = (k' @ CHR '':'' # int_text n') @ CHR '':'' # t'"
    using assms(1) by (simp add: backfill_op_id_def)
  from split_last [OF plain this] have outer: "k @ CHR '':'' # int_text n = k' @ CHR '':'' # int_text n'" "t = t'"
    by simp_all
  with split_last [OF int_text_plain int_text_plain outer(1)] int_text_inj show ?thesis by blast
qed

section \<open>Pending rows\<close>

text \<open>An op id of the backfill's form is used for what it says.\<close>

definition honest_log :: "db \<Rightarrow> bool" where
  "honest_log d \<longleftrightarrow> (\<forall>r\<in>set (ops d). \<forall>k n t. op_kind t \<longrightarrow> op_id r = backfill_op_id k n t \<longrightarrow>
     op_entity_type r = ''memory_item'' \<and> op_entity_id r = k \<and> op_type r = t \<and> op_clock_rev r = n)"

definition announceable :: "memory_row \<Rightarrow> bool" where
  "announceable m \<longleftrightarrow> m_id m \<noteq> 0
     \<and> (\<exists>k. m_import_key m = Some k \<and> js_trim k = k \<and> k \<noteq> [] \<and> \<not> needs_key m)
     \<and> (case m_deleted_at m of None \<Rightarrow> m_active m = Some 0 \<or> m_active m = Some 1 | Some t \<Rightarrow> js_trim t \<noteq> [])"

definition pending :: "db \<Rightarrow> memory_row \<Rightarrow> bool" where
  "pending d m \<longleftrightarrow> \<not> announced d (backfill_op_type m) m"

definition unannounced :: "db \<Rightarrow> int set" where
  "unannounced d = m_id ` {m \<in> set (memories d). pending d m}"

definition sans_scope :: "memory_row \<Rightarrow> memory_row" where
  "sans_scope m = m\<lparr> m_scope_id := None \<rparr>"

definition backfillable :: "db \<Rightarrow> bool" where
  "backfillable d \<longleftrightarrow> local_device d \<noteq> [] \<and> distinct (map m_id (memories d)) \<and> honest_log d
     \<and> (\<forall>m\<in>set (memories d). announceable m)"

text \<open>Only scopes are stamped: the rows and devices stay, the log grows.\<close>

definition grown :: "db \<Rightarrow> db \<Rightarrow> bool" where
  "grown d d' \<longleftrightarrow> map sans_scope (memories d') = map sans_scope (memories d)
     \<and> sync_devices d' = sync_devices d \<and> set (ops d) \<subseteq> set (ops d')"

lemma grown_refl [simp]: "grown d d"
  by (simp add: grown_def)

lemma grown_trans: "grown d d1 \<Longrightarrow> grown d1 d2 \<Longrightarrow> grown d d2"
  by (auto simp: grown_def)

lemma sans_scope_fields:
  assumes "sans_scope m = sans_scope m'"
  shows "m_id m = m_id m'" "m_import_key m = m_import_key m'" "m_rev m = m_rev m'" "m_active m = m_active m'"
    "m_deleted_at m = m_deleted_at m'" "m_visibility m = m_visibility m'"
  using assms by (auto simp: sans_scope_def dest: arg_cong [where f = m_id] arg_cong [where f = m_import_key]
    arg_cong [where f = m_rev] arg_cong [where f = m_active] arg_cong [where f = m_deleted_at]
    arg_cong [where f = m_visibility])

lemma announced_mono: "set (ops d) \<subseteq> set (ops d') \<Longrightarrow> announced d t m \<Longrightarrow> announced d' t m"
  by (auto simp: announced_def exists_where_iff)

lemma pending_scope: "sans_scope m = sans_scope m' \<Longrightarrow> pending d m = pending d m'"
  by (simp add: pending_def announced_def backfill_op_type_def sans_scope_fields [of m m'])

lemma announceable_scope: "sans_scope m = sans_scope m' \<Longrightarrow> announceable m = announceable m'"
  by (simp add: announceable_def needs_key_def sans_scope_fields [of m m'] cong: option.case_cong)

lemma announceable_type:
  assumes "announceable m"
  shows "backfill_op_type m = (if m_deleted_at m \<noteq> None \<or> m_active m = Some 0 then ''delete'' else ''upsert'')"
    "op_kind (backfill_op_type m)" "pending_op_type m = backfill_op_type m"
  using assms by (auto simp: announceable_def backfill_op_type_def op_kind_def pending_op_type_def split: option.splits)


lemma ensureMemoryScopeId_grown: "ensureMemoryScopeId env d i = (s, d') \<Longrightarrow> grown d d' \<and> ops d' = ops d"
  by (auto simp: grown_def ensureMemoryScopeId_def update_where_def sans_scope_def split: option.splits if_splits)

lemma backfill_op_fields:
  "op_entity_type (backfill_op now dev k s m) = ''memory_item''" "op_entity_id (backfill_op now dev k s m) = k"
  "op_type (backfill_op now dev k s m) = backfill_op_type m"
  "op_clock_rev (backfill_op now dev k s m) = or_default (m_rev m) 0"
  "op_id (backfill_op now dev k s m) = backfill_op_id k (or_default (m_rev m) 0) (backfill_op_type m)"
  by (simp_all add: backfill_op_def)

lemma backfill_row_step:
  assumes "announceable m" "honest_log d" "localDeviceId \<noteq> []"
  shows "\<exists>b d'. backfill_row env now localDeviceId m d = (Inr b, d') \<and> grown d d' \<and> honest_log d' \<and> \<not> pending d' m"
proof -
  from assms(1) obtain k where k: "m_import_key m = Some k" "js_trim k = k" "k \<noteq> []" "m_id m \<noteq> 0"
    by (auto simp: announceable_def)
  have origin: "backfill_origin localDeviceId m \<noteq> []" using assms(3) by (simp add: backfill_origin_def Let_def)
  let ?i = "backfill_op_id k (or_default (m_rev m) 0) (backfill_op_type m)"
  note type = announceable_type(2) [OF assms(1)]
  show ?thesis
  proof (cases "exists_where (\<lambda>r. op_id r = ?i) (ops d)")
    case True
    then have "announced d (backfill_op_type m) m"
      using assms(2) type k(1) by (fastforce simp: honest_log_def announced_def exists_where_iff)
    then show ?thesis using True k origin assms(2) by (auto simp: backfill_row_def Let_def pending_def)
  next
    case False
    obtain s d1 where e: "ensureMemoryScopeId env d (m_id m) = (s, d1)" by force
    let ?op = "backfill_op now (backfill_origin localDeviceId m) k s m"
    let ?d2 = "insertReplicationOpRow d1 ?op"
    note grew = ensureMemoryScopeId_grown [OF e]
    have log: "ops ?d2 = ops d @ [?op]"
      using False grew by (simp add: insertReplicationOpRow_def insert_or_ignore_def backfill_op_fields)
    have "grown d ?d2" using grew log by (auto simp: grown_def insertReplicationOpRow_def)
    moreover have "honest_log ?d2"
      unfolding honest_log_def log
    proof (intro ballI allI impI)
      fix r k' n t
      assume r: "r \<in> set (ops d @ [?op])" "op_kind t" "op_id r = backfill_op_id k' n t"
      show "op_entity_type r = ''memory_item'' \<and> op_entity_id r = k' \<and> op_type r = t \<and> op_clock_rev r = n"
      proof (cases "r \<in> set (ops d)")
        case True
        then show ?thesis using assms(2) r(2,3) by (simp add: honest_log_def)
      next
        case False
        with r(1) have "r = ?op" by simp
        with r(2,3) backfill_op_id_inj [of k _ "backfill_op_type m" k' n t] type show ?thesis
          by (simp add: backfill_op_fields)
      qed
    qed
    moreover have "announced ?d2 (backfill_op_type m) m"
      unfolding announced_def log by (simp add: exists_where_iff backfill_op_fields k(1))
    ultimately show ?thesis
      using False k origin e grew by (auto simp: backfill_row_def Let_def pending_def)
  qed
qed

lemma pending_mono: "set (ops d) \<subseteq> set (ops d') \<Longrightarrow> pending d' m \<Longrightarrow> pending d m"
  using announced_mono by (auto simp: pending_def)

lemma backfill_rows_run:
  assumes "\<forall>m\<in>set ms. announceable m" "honest_log d" "localDeviceId \<noteq> []"
  shows "\<exists>n' d'. backfill_rows env now localDeviceId ms n d = (Inr n', d') \<and> grown d d' \<and> honest_log d'
    \<and> (\<forall>m\<in>set ms. \<not> pending d' m)"
  using assms
proof (induction ms arbitrary: n d)
  case (Cons m ms)
  from backfill_row_step [of m d localDeviceId env now] Cons.prems obtain b d1 where
    one: "backfill_row env now localDeviceId m d = (Inr b, d1)" "grown d d1" "honest_log d1" "\<not> pending d1 m" by auto
  from Cons.IH [of d1 "if b then n + 1 else n"] Cons.prems one(3) obtain n' d' where
    rest: "backfill_rows env now localDeviceId ms (if b then n + 1 else n) d1 = (Inr n', d')" "grown d1 d'" "honest_log d'"
      "\<forall>m\<in>set ms. \<not> pending d' m" by auto
  have "\<not> pending d' m" using one(4) rest(2) pending_mono [of d1 d' m] by (auto simp: grown_def)
  with one rest show ?case by (auto intro: grown_trans)
qed simp

section \<open>One run\<close>

lemma backfillable_migrates:
  assumes "backfillable d"
  shows "migrateLegacyImportKeys digest d limit = (Inr 0, d)"
proof -
  have none: "filter needs_key (memories d) = []"
    using assms by (auto simp: backfillable_def announceable_def filter_empty_conv)
  show ?thesis by (simp add: migrateLegacyImportKeys_def none sql_limit_def)
qed

definition chosen :: "db \<Rightarrow> int \<Rightarrow> memory_row list" where
  "chosen d limit = (let deletes = sql_limit limit (backfill_deletes d); remaining = max 0 (limit - int (length deletes)) in
     if remaining > 0 then deletes @ sql_limit remaining (backfill_upserts d) else deletes)"

lemma pending_rows:
  assumes "\<forall>m\<in>set (memories d). announceable m"
  shows "set (backfill_deletes d) \<union> set (backfill_upserts d) = {m \<in> set (memories d). pending d m}"
    "length (backfill_deletes d) + length (backfill_upserts d) = length (filter (pending d) (memories d))"
proof -
  let ?gone = "\<lambda>m. m_deleted_at m \<noteq> None \<or> m_active m = Some 0"
  have live: "m_deleted_at m = None \<and> m_active m = Some 1 \<longleftrightarrow> \<not> ?gone m" if "m \<in> set (memories d)" for m
    using assms that by (auto simp: announceable_def split: option.splits)
  have type: "backfill_op_type m = (if ?gone m then ''delete'' else ''upsert'')" if "m \<in> set (memories d)" for m
    using assms that announceable_type(1) by blast
  have dels: "filter (\<lambda>m. ?gone m \<and> \<not> announced d ''delete'' m) (memories d) = filter (\<lambda>m. ?gone m \<and> pending d m) (memories d)"
    using type by (intro filter_cong) (auto simp: pending_def)
  have ups: "filter (\<lambda>m. m_deleted_at m = None \<and> m_active m = Some 1 \<and> \<not> announced d ''upsert'' m) (memories d)
      = filter (\<lambda>m. \<not> ?gone m \<and> pending d m) (memories d)"
    using type live by (intro filter_cong) (auto simp: pending_def)
  show "set (backfill_deletes d) \<union> set (backfill_upserts d) = {m \<in> set (memories d). pending d m}"
    unfolding backfill_deletes_def backfill_upserts_def by (simp only: dels ups set_sort set_filter) auto
  have "length (filter (\<lambda>m. p m \<and> q m) xs) + length (filter (\<lambda>m. \<not> p m \<and> q m) xs) = length (filter q xs)" for p q xs
    by (induction xs) auto
  then show "length (backfill_deletes d) + length (backfill_upserts d) = length (filter (pending d) (memories d))"
    unfolding backfill_deletes_def backfill_upserts_def by (simp only: dels ups length_sort)
qed


lemma unannounced_card:
  assumes "distinct (map m_id (memories d))"
  shows "card (unannounced d) = length (filter (pending d) (memories d))"
proof -
  have inj: "inj_on m_id (set (memories d))" using assms by (simp add: distinct_map)
  have "distinct (filter (pending d) (memories d))" using assms by (simp add: distinct_map)
  then have "card (set (filter (pending d) (memories d))) = length (filter (pending d) (memories d))"
    by (rule distinct_card)
  moreover have "card (unannounced d) = card {m \<in> set (memories d). pending d m}"
    unfolding unannounced_def by (rule card_image) (use inj in \<open>auto intro: inj_on_subset\<close>)
  ultimately show ?thesis by simp
qed

lemma chosen_rows:
  assumes "backfillable d" "0 < limit"
  shows "set (chosen d limit) \<subseteq> {m \<in> set (memories d). pending d m}"
    "length (chosen d limit) = min (nat limit) (card (unannounced d))" "distinct (map m_id (chosen d limit))"
proof -
  have good: "\<forall>m\<in>set (memories d). announceable m" "distinct (map m_id (memories d))"
    using assms(1) by (simp_all add: backfillable_def)
  note rows = pending_rows [OF good(1)]
  let ?D = "backfill_deletes d" and ?U = "backfill_upserts d"
  have split: "chosen d limit = take (nat limit) (?D @ ?U)"
    using assms(2) by (auto simp: chosen_def sql_limit_def Let_def min_def take_all nat_diff_distrib' nat_int)
  show "set (chosen d limit) \<subseteq> {m \<in> set (memories d). pending d m}"
    using rows(1) set_take_subset [of "nat limit" "?D @ ?U"] by (auto simp: split)
  show "length (chosen d limit) = min (nat limit) (card (unannounced d))"
    using rows(2) by (simp add: split unannounced_card [OF good(2)] min.commute)
  have inj: "inj_on m_id (set (memories d))" using good(2) by (simp add: distinct_map)
  have sub: "set ?D \<subseteq> set (memories d)" "set ?U \<subseteq> set (memories d)" "distinct ?D" "distinct ?U" "set ?D \<inter> set ?U = {}"
    using good(2) by (auto simp: backfill_deletes_def backfill_upserts_def distinct_map)
  have "distinct (map m_id ?D)" "distinct (map m_id ?U)"
    using sub inj by (simp_all add: distinct_map inj_on_subset)
  moreover have "set (map m_id ?D) \<inter> set (map m_id ?U) = {}"
    using sub(5) inj_on_image_Int [OF inj sub(1,2)] by simp
  ultimately have "distinct (map m_id (?D @ ?U))" by simp
  then show "distinct (map m_id (chosen d limit))" by (simp only: split take_map [symmetric] distinct_take)
qed


lemma grown_row:
  assumes "grown d d'" "m' \<in> set (memories d')"
  obtains m where "m \<in> set (memories d)" "sans_scope m = sans_scope m'"
proof -
  have "sans_scope m' \<in> sans_scope ` set (memories d)"
    using assms unfolding grown_def by (metis image_eqI image_set)
  then show thesis by (auto intro: that)
qed

lemma grown_backfillable:
  assumes "backfillable d" "grown d d'" "honest_log d'"
  shows "backfillable d'"
proof -
  have ids: "map m_id rows = map m_id (map sans_scope rows)" for rows
    by (simp add: sans_scope_def)
  have "map m_id (memories d') = map m_id (memories d)"
    using assms(2) ids [of "memories d"] ids [of "memories d'"] by (simp add: grown_def)
  moreover have "announceable m" if "m \<in> set (memories d')" for m
    using grown_row [OF assms(2) that] assms(1) announceable_scope by (metis backfillable_def)
  ultimately show ?thesis
    using assms by (simp add: backfillable_def grown_def local_device_def)
qed

lemma backfill_run:
  assumes "backfillable d" "0 < limit"
  shows "\<exists>n d'. backfillReplicationOps env now d limit = (Inr n, d') \<and> backfillable d'
    \<and> card (unannounced d') + min (nat limit) (card (unannounced d)) \<le> card (unannounced d)"
proof -
  let ?ms = "chosen d limit"
  note ms = chosen_rows [OF assms]
  have good: "\<forall>m\<in>set ?ms. announceable m" "honest_log d" "local_device d \<noteq> []"
    using assms(1) ms(1) by (auto simp: backfillable_def)
  obtain n d' where run: "backfill_rows env now (local_device d) ?ms 0 d = (Inr n, d')" "grown d d'" "honest_log d'"
    "\<forall>m\<in>set ?ms. \<not> pending d' m"
    using backfill_rows_run [OF good, of env now 0] by auto
  have left: "unannounced d' \<subseteq> unannounced d - m_id ` set ?ms"
  proof
    fix i
    assume "i \<in> unannounced d'"
    then obtain m' where m': "m' \<in> set (memories d')" "pending d' m'" "i = m_id m'" by (auto simp: unannounced_def)
    from grown_row [OF run(2) m'(1)] obtain m where m: "m \<in> set (memories d)" "sans_scope m = sans_scope m'" by blast
    have pend: "pending d' m" "m_id m = i" using m' pending_scope [OF m(2)] sans_scope_fields(1) [OF m(2)] by simp_all
    then have "pending d m" using run(2) pending_mono by (auto simp: grown_def)
    moreover have "i \<notin> m_id ` set ?ms"
    proof
      assume "i \<in> m_id ` set ?ms"
      then obtain x where x: "x \<in> set ?ms" "m_id x = m_id m" using pend by auto
      have "inj_on m_id (set (memories d))" using assms(1) by (simp add: backfillable_def distinct_map)
      with x m(1) ms(1) have "x = m" by (auto dest: inj_onD)
      with x run(4) pend show False by simp
    qed
    ultimately show "i \<in> unannounced d - m_id ` set ?ms" using m(1) pend(2) by (auto simp: unannounced_def)
  qed
  have sub: "m_id ` set ?ms \<subseteq> unannounced d" using ms(1) by (auto simp: unannounced_def)
  have fin: "finite (unannounced d)" by (simp add: unannounced_def)
  have "card (m_id ` set ?ms) = min (nat limit) (card (unannounced d))"
    using ms(2,3) by (metis distinct_card length_map set_map)
  then have "card (unannounced d - m_id ` set ?ms) = card (unannounced d) - min (nat limit) (card (unannounced d))"
    using sub fin by (simp add: card_Diff_subset finite_subset)
  with card_mono [OF _ left] fin have "card (unannounced d') + min (nat limit) (card (unannounced d)) \<le> card (unannounced d)"
    by simp
  moreover have "backfillReplicationOps env now d limit = (Inr n, d')"
    using assms run(1) backfillable_migrates [OF assms(1)] by (simp add: backfillReplicationOps_def chosen_def Let_def)
  ultimately show ?thesis using grown_backfillable [OF assms(1) run(2,3)] by blast
qed

section \<open>Repeated runs\<close>

definition backfill_once :: "resolve_env \<Rightarrow> int \<Rightarrow> string \<Rightarrow> db \<Rightarrow> db" where
  "backfill_once env limit now d = snd (backfillReplicationOps env now d limit)"

lemma backfill_runs:
  assumes "backfillable d" "0 < limit"
  shows "backfillable (fold (backfill_once env limit) walls d)
    \<and> card (unannounced (fold (backfill_once env limit) walls d)) \<le> card (unannounced d) - length walls * nat limit"
  using assms
proof (induction walls arbitrary: d)
  case (Cons now walls)
  from backfill_run [OF Cons.prems, of env now] obtain d1 where
    one: "backfill_once env limit now d = d1" "backfillable d1"
      "card (unannounced d1) + min (nat limit) (card (unannounced d)) \<le> card (unannounced d)"
    by (auto simp: backfill_once_def)
  with Cons.IH [OF one(2) Cons.prems(2)] show ?case by (auto simp: min_def split: if_splits)
qed simp

lemma nothing_pending_clean:
  assumes "backfillable d" "unannounced d = {}"
  shows "hasUnsyncedSharedMemoryChanges d limit = (False, 0)"
proof -
  have "\<not> dirty_row d m" if "m \<in> set (memories d)" for m
  proof -
    have "announced d (backfill_op_type m) m" using assms(2) that by (auto simp: unannounced_def pending_def)
    moreover have "pending_op_type m = backfill_op_type m"
      using assms(1) that announceable_type(3) by (auto simp: backfillable_def)
    ultimately show ?thesis by (simp add: dirty_row_def has_matching_op_def announced_def)
  qed
  then have "filter (dirty_row d) (memories d) = []" by (simp add: filter_empty_conv)
  then show ?thesis by (simp add: hasUnsyncedSharedMemoryChanges_def sql_limit_def)
qed



text \<open>A memory whose op was pruned, on a device that has a foreign op in its log.\<close>

definition unlogged_db :: db where
  "unlogged_db = sample_db\<lparr> ops := [sample_op ''o9'' ''k9'' ''upsert'' 1 ''a''],
     sync_devices := [\<lparr> dv_id = ''here'', dv_public_key = ''k'', dv_fingerprint = ''f'', dv_created_at = ''2026'' \<rparr>] \<rparr>"

definition sample_env :: resolve_env where
  "sample_env = \<lparr> re_path = (\<lambda>s. s), re_sha256 = (\<lambda>s. s), re_parse_date = (\<lambda>_. None), re_compare = (\<lambda>_ _. 0),
     re_discover = (\<lambda>_ _ ms. \<lparr> rp_cwd_fallback = False, rp_mappings = ms, rp_identity = None \<rparr>) \<rparr>"


end
