(* ===== verification/Snapshot_Pages.thy ===== *)
theory Snapshot_Pages
  imports Op_Recording
begin

text \<open>
  Snapshots of a scope, a page at a time (\<open>loadMemorySnapshotPageForPeer\<close> of
  \<open>packages/core/src/sync-replication.ts\<close>): the rows of the scope in the order of their keys, those a peer
  may see turned into items until the page is full, and the token of the last row read.

  The scan reads batches and goes on until a batch is short or the page is full; it is a
  \<open>partial_function\<close>, whose value \<open>None\<close> is a scan that never returns.
\<close>

section \<open>Tokens\<close>

record snapshot_token =
  st_key :: string
  st_id :: rat

text \<open>\<open>lastIndexOf('|')\<close> cuts the text at its last bar.\<close>

definition cut_last_bar :: "string \<Rightarrow> (string \<times> string) option" where
  "cut_last_bar s = (let after = takeWhile (\<lambda>c. c \<noteq> CHR ''|'') (rev s) in
     if length after = length s then None
     else Some (take (length s - length after - 1) s, rev after))"

definition parseSnapshotPageToken :: "string option \<Rightarrow> snapshot_token option" where
  "parseSnapshotPageToken token = (case normalizeCursor token of
     None \<Rightarrow> None
   | Some raw \<Rightarrow> (case cut_last_bar raw of
        None \<Rightarrow> None
      | Some (importKey, idText) \<Rightarrow>
          if importKey = [] then None
          else (case js_Number idText of None \<Rightarrow> None | Some i \<Rightarrow> Some \<lparr> st_key = importKey, st_id = i \<rparr>)))"

definition makeSnapshotPageToken :: "string \<Rightarrow> int \<Rightarrow> string" where
  "makeSnapshotPageToken importKey i = importKey @ CHR ''|'' # int_text i"

section \<open>Items\<close>

record snapshot_page_item =
  sp_entity :: string
  sp_op_type :: string
  sp_payload :: json_text
  sp_clock_rev :: int
  sp_clock_updated_at :: string
  sp_clock_device :: string

record snapshot_request =
  sq_source :: "string option"
  sq_limit :: "int option"
  sq_token :: "string option"
  sq_peer :: "string option"
  sq_scope :: "string option option"
  sq_generation :: "int option"
  sq_snapshot :: "string option"
  sq_baseline :: "string option"

definition snapshotClockDeviceId :: "json_obj \<Rightarrow> memory_row \<Rightarrow> string" where
  "snapshotClockDeviceId payload m =
     (case cleanText (field ''clock_device_id'' (metadataRecord (Some payload))) of
        Some dev \<Rightarrow> dev | None \<Rightarrow> or_default (m_origin_device_id m) ''local'')"

definition unretiredSnapshotPayload :: "db \<Rightarrow> memory_row \<Rightarrow> string option \<Rightarrow> json_obj option" where
  "unretiredSnapshotPayload d m sourceDeviceId =
     (let key = or_default (m_import_key m) []; payload = buildPayloadFromMemoryRow m in
      if or_default sourceDeviceId [] \<noteq> [] \<and> memorySourceNamespace key \<noteq> sourceDeviceId then None
      else if \<not> retirementAllowsSnapshot d key payload (clean_text (m_scope_id m)) then None
      else Some payload)"

text \<open>The item of a row, or nothing when the row is not for this peer.\<close>

definition snapshot_item_of ::
    "sync_config \<Rightarrow> db \<Rightarrow> string option \<Rightarrow> string option \<Rightarrow> memory_row \<times> string option \<Rightarrow> snapshot_page_item option" where
  "snapshot_item_of cfg d sourceDeviceId peer row = (case row of (m, sessionProject) \<Rightarrow>
     (case unretiredSnapshotPayload d m sourceDeviceId of
        None \<Rightarrow> None
      | Some payload \<Rightarrow>
          if privately_blocked d (m_scope_id m) (Some payload) peer then None
          else if \<not> syncProjectAllowed cfg d sessionProject peer then None
          else Some \<lparr> sp_entity = js_trim (or_default (m_import_key m) []),
            sp_op_type = (if or_default (m_deleted_at m) [] \<noteq> [] \<or> m_active m = Some 0 then ''delete'' else ''upsert''),
            sp_payload = toJson (JObj (set_field ''project'' (json_of_text sessionProject) payload)),
            sp_clock_rev = or_default (m_rev m) 0, sp_clock_updated_at = m_updated_at m,
            sp_clock_device = snapshotClockDeviceId payload m \<rparr>))"

section \<open>The scan\<close>

text \<open>The rows of the scope that have a key and a session, in the order of the query.\<close>

definition snapshot_rows :: "db \<Rightarrow> string \<Rightarrow> (memory_row \<times> string option) list" where
  "snapshot_rows d scope =
     sort_key (\<lambda>(m, _). (or_default (m_import_key m) [], m_id m))
       (List.map_filter (\<lambda>m.
          if m_import_key m \<noteq> None \<and> scope \<noteq> DEFAULT_SYNC_SCOPE_ID \<and> m_scope_id m = Some scope
          then map_option (\<lambda>s. (m, s_project s)) (first_where (\<lambda>s. s_id s = m_session_id m) (sessions d))
          else None) (memories d))"

definition after_token :: "snapshot_token option \<Rightarrow> memory_row \<times> string option \<Rightarrow> bool" where
  "after_token token row = (case token of
     None \<Rightarrow> True
   | Some t \<Rightarrow> let key = or_default (m_import_key (fst row)) [] in
       key > st_key t \<or> key = st_key t \<and> of_int (m_id (fst row)) > st_id t)"

record scan_config =
  sf_rows :: "(memory_row \<times> string option) list"
  sf_item :: "memory_row \<times> string option \<Rightarrow> snapshot_page_item option"
  sf_limit :: nat
  sf_batch :: nat

definition rows_after_token :: "scan_config \<Rightarrow> snapshot_token option \<Rightarrow> nat \<Rightarrow> (memory_row \<times> string option) list" where
  "rows_after_token sf token n = take n (filter (after_token token) (sf_rows sf))"

record scan_state =
  sx_items :: "snapshot_page_item list"
  sx_next :: "snapshot_token option"
  sx_last :: "string option"
  sx_more :: bool

definition row_key :: "memory_row \<times> string option \<Rightarrow> string" where
  "row_key row = js_trim (or_default (m_import_key (fst row)) [])"

definition row_token :: "memory_row \<times> string option \<Rightarrow> snapshot_token" where
  "row_token row = \<lparr> st_key = row_key row, st_id = of_int (m_id (fst row)) \<rparr>"

definition scanned :: "memory_row \<times> string option \<Rightarrow> scan_state \<Rightarrow> scan_state" where
  "scanned row st = st\<lparr> sx_next := Some (row_token row),
     sx_last := Some (makeSnapshotPageToken (row_key row) (m_id (fst row))) \<rparr>"

text \<open>One batch; a full page ends it early and looks whether a row is left.\<close>

fun scan_rows :: "scan_config \<Rightarrow> (memory_row \<times> string option) list \<Rightarrow> scan_state \<Rightarrow> scan_state" where
  "scan_rows sf [] st = st"
| "scan_rows sf (row # rows) st =
     (if row_key row = [] then scan_rows sf rows st
      else (case sf_item sf row of
              None \<Rightarrow> scan_rows sf rows (scanned row st)
            | Some item \<Rightarrow>
                let st' = (scanned row st)\<lparr> sx_items := sx_items st @ [item] \<rparr>
                in if length (sx_items st') \<ge> sf_limit sf
                   then st'\<lparr> sx_more := rows \<noteq> [] \<or> rows_after_token sf (sx_next st') 1 \<noteq> [] \<rparr>
                   else scan_rows sf rows st'))"

text \<open>One round of the loop: \<open>Inl\<close> leaves it.\<close>

definition scan_round :: "scan_config \<Rightarrow> scan_state \<Rightarrow> scan_state + scan_state" where
  "scan_round sf st =
     (if length (sx_items st) \<ge> sf_limit sf then Inl st
      else (let rows = rows_after_token sf (sx_next st) (sf_batch sf) in
        if rows = [] then Inl st
        else (let st' = scan_rows sf rows st in
          if length (sx_items st') \<ge> sf_limit sf \<or> length rows < sf_batch sf then Inl st' else Inr st')))"

partial_function (option) scan_loop :: "scan_config \<Rightarrow> scan_state \<Rightarrow> scan_state option" where
  "scan_loop sf st = (case scan_round sf st of Inl st' \<Rightarrow> Some st' | Inr st' \<Rightarrow> scan_loop sf st')"

record snapshot_page =
  sg_boundary :: reset_boundary
  sg_items :: "snapshot_page_item list"
  sg_next :: "string option"
  sg_more :: bool

definition empty_page :: "reset_boundary \<Rightarrow> snapshot_page" where
  "empty_page b = \<lparr> sg_boundary = b, sg_items = [], sg_next = None, sg_more = False \<rparr>"

definition page_limit :: "snapshot_request \<Rightarrow> int" where
  "page_limit q = max 1 (min (or_default (sq_limit q) 200) 5000)"

definition scan_batch_size :: "int \<Rightarrow> int" where
  "scan_batch_size limit = max limit (min (limit * 3) 10000)"

definition page_scan :: "sync_config \<Rightarrow> db \<Rightarrow> snapshot_request \<Rightarrow> scan_config" where
  "page_scan cfg d q = \<lparr> sf_rows = snapshot_rows d (effective_scope (sq_scope q)),
     sf_item = snapshot_item_of cfg d (sq_source q) (sq_peer q),
     sf_limit = nat (page_limit q), sf_batch = nat (scan_batch_size (page_limit q)) \<rparr>"

definition page_of :: "reset_boundary \<Rightarrow> scan_state \<Rightarrow> snapshot_page" where
  "page_of b st = \<lparr> sg_boundary = b, sg_items = sx_items st,
     sg_next = (if sx_more st then sx_last st else None), sg_more = (sx_more st \<and> sx_last st \<noteq> None) \<rparr>"

text \<open>\<open>None\<close> is a call that never returns; \<open>Inl\<close> the exception. Reading the boundary may create it.\<close>

definition loadMemorySnapshotPageForPeer ::
    "sync_config \<Rightarrow> string \<Rightarrow> string \<Rightarrow> db \<Rightarrow> snapshot_request \<Rightarrow> ((string + snapshot_page) \<times> db) option" where
  "loadMemorySnapshotPageForPeer cfg now fresh d q =
     (let scope = effective_scope (sq_scope q);
          (boundary, d1) = getSyncResetState now fresh d (sq_scope q);
          peer = clean_text (sq_peer q)
      in if sq_scope q \<noteq> None \<and> map_option sc_authority_type (first_where (\<lambda>s. sc_id s = scope) (scopes d1)) = Some ''local''
         then Some (Inr (empty_page boundary), d1)
         else if sq_generation q \<noteq> Some (rb_generation boundary) then Some (Inl ''generation_mismatch'', d1)
         else if normalizeCursor (sq_snapshot q) \<noteq> Some (rb_snapshot_id boundary) then Some (Inl ''boundary_mismatch'', d1)
         else if normalizeCursor (sq_baseline q) \<noteq> rb_baseline_cursor boundary then Some (Inl ''boundary_mismatch'', d1)
         else if sq_scope q \<noteq> None \<and> (case peer of None \<Rightarrow> False
             | Some p \<Rightarrow> getAnyRecipientPolicyDenyOverlayForScopeDevice d1 scope p \<noteq> None)
         then Some (Inr (empty_page boundary), d1)
         else (case scan_loop (page_scan cfg d1 q) \<lparr> sx_items = [], sx_next = parseSnapshotPageToken (sq_token q),
                 sx_last = None, sx_more = False \<rparr> of
                 None \<Rightarrow> None
               | Some st \<Rightarrow> Some (Inr (page_of boundary st), d1)))"


section \<open>What a page is\<close>

text \<open>Walk the rows until \<open>k\<close> of them gave an item: the items, and the rows left.\<close>

fun page_spec :: "('r \<Rightarrow> 'i option) \<Rightarrow> nat \<Rightarrow> 'r list \<Rightarrow> 'i list \<times> 'r list" where
  "page_spec f 0 rows = ([], rows)"
| "page_spec f (Suc k) [] = ([], [])"
| "page_spec f (Suc k) (r # rows) = (case f r of
     None \<Rightarrow> page_spec f (Suc k) rows
   | Some i \<Rightarrow> (i # fst (page_spec f k rows), snd (page_spec f k rows)))"

lemma page_spec_Nil [simp]: "page_spec f k [] = ([], [])"
  by (cases k) simp_all

lemma page_spec_items: "List.map_filter f rows = fst (page_spec f k rows) @ List.map_filter f (snd (page_spec f k rows))"
  by (induction f k rows rule: page_spec.induct) (simp_all add: List.map_filter_simps split: option.splits)

lemma page_spec_length: "length (fst (page_spec f k rows)) \<le> k"
  by (induction f k rows rule: page_spec.induct) (simp_all split: option.splits)

lemma page_spec_short: "length (fst (page_spec f k rows)) < k \<Longrightarrow> snd (page_spec f k rows) = []"
  by (induction f k rows rule: page_spec.induct) (simp_all split: option.splits)

lemma page_spec_append:
  "page_spec f k (xs @ ys) = (if length (fst (page_spec f k xs)) < k
     then (fst (page_spec f k xs) @ fst (page_spec f (k - length (fst (page_spec f k xs))) ys),
           snd (page_spec f (k - length (fst (page_spec f k xs))) ys))
     else (fst (page_spec f k xs), snd (page_spec f k xs) @ ys))"
  by (induction f k xs rule: page_spec.induct) (auto split: option.splits)

text \<open>The row a page of full length ends with.\<close>

lemma page_spec_last:
  assumes "length (fst (page_spec f k rows)) = k" "0 < k"
  shows "\<exists>before row. rows = before @ row # snd (page_spec f k rows)"
  using assms
proof (induction f k rows rule: page_spec.induct)
  case (3 f k r rows)
  show ?case
  proof (cases "f r")
    case None
    with 3 obtain before row where "rows = before @ row # snd (page_spec f (Suc k) rows)" by auto
    then have "r # rows = (r # before) @ row # snd (page_spec f (Suc k) (r # rows))" using None by simp
    then show ?thesis by blast
  next
    case (Some i)
    show ?thesis
    proof (cases "k = 0")
      case True
      with Some show ?thesis by (intro exI [of _ "[]"] exI [of _ r]) simp
    next
      case False
      with 3 Some obtain before row where "rows = before @ row # snd (page_spec f k rows)" by auto
      then have "r # rows = (r # before) @ row # snd (page_spec f (Suc k) (r # rows))" using Some by simp
      then show ?thesis by blast
    qed
  qed
qed simp_all

section \<open>The scan walks the rows\<close>

definition row_position :: "memory_row \<times> string option \<Rightarrow> string \<times> int" where
  "row_position row = (row_key row, m_id (fst row))"

definition plain_row :: "memory_row \<times> string option \<Rightarrow> bool" where
  "plain_row row \<longleftrightarrow> (\<exists>k. m_import_key (fst row) = Some k \<and> js_trim k = k \<and> k \<noteq> [])"

definition scannable :: "scan_config \<Rightarrow> bool" where
  "scannable sf \<longleftrightarrow> 0 < sf_limit sf \<and> 0 < sf_batch sf \<and> list_all plain_row (sf_rows sf)
     \<and> sorted_wrt (<) (map row_position (sf_rows sf))"

lemma after_row:
  assumes "plain_row b"
  shows "after_token (Some (row_token a)) b \<longleftrightarrow> row_position a < row_position b"
  using assms by (auto simp: after_token_def row_token_def row_position_def row_key_def plain_row_def less_prod_def')

lemma rows_after_row:
  assumes "scannable sf" "sf_rows sf = before @ row # after"
  shows "filter (after_token (Some (row_token row))) (sf_rows sf) = after"
proof -
  have plain: "plain_row r" if "r \<in> set (sf_rows sf)" for r
    using assms(1) that by (simp add: scannable_def list_all_iff)
  have "sorted_wrt (<) (map row_position (before @ row # after))" using assms by (simp add: scannable_def)
  then have order: "\<forall>r\<in>set before. row_position r < row_position row" "\<forall>r\<in>set after. row_position row < row_position r"
    by (auto simp: sorted_wrt_append)
  have "filter (\<lambda>r. row_position row < row_position r) (sf_rows sf) = after"
    using order by (auto simp: assms(2) filter_empty_conv filter_id_conv)
  moreover have "filter (after_token (Some (row_token row))) (sf_rows sf)
      = filter (\<lambda>r. row_position row < row_position r) (sf_rows sf)"
    using plain after_row by (intro filter_cong) auto
  ultimately show ?thesis by simp
qed

lemma scanned_simps [simp]:
  "sx_items (scanned row st) = sx_items st" "sx_more (scanned row st) = sx_more st"
  "sx_next (scanned row st) = Some (row_token row)"
  "sx_last (scanned row st) = Some (makeSnapshotPageToken (row_key row) (m_id (fst row)))"
  by (simp_all add: scanned_def)

text \<open>The scan stopped at the row before \<open>left\<close>, and its token names that row.\<close>

definition stopped_at :: "(memory_row \<times> string option) list \<Rightarrow> (memory_row \<times> string option) list \<Rightarrow> scan_state \<Rightarrow> bool" where
  "stopped_at rows left st \<longleftrightarrow> (\<exists>p row. rows = p @ row # left
     \<and> sx_last st = Some (makeSnapshotPageToken (row_key row) (m_id (fst row))))"

lemma stopped_at_Cons: "stopped_at rows left st \<Longrightarrow> stopped_at (r # rows) left st"
  unfolding stopped_at_def by (metis append_Cons)

lemma stopped_at_append: "stopped_at rows left st \<Longrightarrow> stopped_at (before @ rows @ rest) (left @ rest) st"
  unfolding stopped_at_def by (metis append.assoc append_Cons)

text \<open>What a batch leaves behind, compared with the walk.\<close>

lemma scan_rows_spec:
  assumes "scannable sf" "sf_rows sf = before @ rows @ rest" "length (sx_items st) < sf_limit sf"
  shows "sx_items (scan_rows sf rows st) = sx_items st @ fst (page_spec (sf_item sf) (sf_limit sf - length (sx_items st)) rows)
    \<and> (if length (fst (page_spec (sf_item sf) (sf_limit sf - length (sx_items st)) rows)) < sf_limit sf - length (sx_items st)
       then sx_more (scan_rows sf rows st) = sx_more st
         \<and> (rows \<noteq> [] \<longrightarrow> sx_next (scan_rows sf rows st) = Some (row_token (last rows)))
       else (stopped_at rows (snd (page_spec (sf_item sf) (sf_limit sf - length (sx_items st)) rows)) (scan_rows sf rows st)
         \<and> sx_more (scan_rows sf rows st) = (snd (page_spec (sf_item sf) (sf_limit sf - length (sx_items st)) rows) @ rest \<noteq> [])))"
  using assms
proof (induction rows arbitrary: before st)
  case Nil
  then show ?case by simp
next
  case (Cons row rows)
  have key: "row_key row \<noteq> []"
    using Cons.prems(1,2) by (auto simp: scannable_def list_all_iff plain_row_def row_key_def)
  have rows: "sf_rows sf = (before @ [row]) @ rows @ rest" using Cons.prems(2) by simp
  obtain k where k: "sf_limit sf - length (sx_items st) = Suc k"
    using Cons.prems(3) by (metis Suc_diff_Suc)
  show ?case
  proof (cases "sf_item sf row")
    case None
    have *: "length (sx_items (scanned row st)) < sf_limit sf" using Cons.prems(3) by simp
    from Cons.IH [OF Cons.prems(1) rows *] key None k show ?thesis
      by (auto split: if_splits intro: stopped_at_Cons)
  next
    case (Some item)
    let ?st = "(scanned row st)\<lparr> sx_items := sx_items st @ [item] \<rparr>"
    show ?thesis
    proof (cases "k = 0")
      case True
      have "filter (after_token (Some (row_token row))) (sf_rows sf) = rows @ rest"
        by (rule rows_after_row [OF Cons.prems(1), of before]) (use Cons.prems(2) in simp)
      with True key Some k show ?thesis
        by (auto simp: Let_def rows_after_token_def take_Suc stopped_at_def)
    next
      case False
      then have room: "length (sx_items ?st) < sf_limit sf" "sf_limit sf - length (sx_items ?st) = k" using k by auto
      have step: "scan_rows sf (row # rows) st = scan_rows sf rows ?st"
        using key Some room by (simp add: Let_def)
      from Cons.IH [OF Cons.prems(1) rows room(1)] room(2) Some k step show ?thesis
        by (auto split: if_splits intro: stopped_at_Cons)
    qed
  qed
qed


lemma scan_loop_spec:
  assumes "scannable sf" "sf_rows sf = before @ R" "filter (after_token (sx_next st)) (sf_rows sf) = R"
    "length (sx_items st) < sf_limit sf" "\<not> sx_more st" "k = sf_limit sf - length (sx_items st)"
  shows "\<exists>st'. scan_loop sf st = Some st' \<and> sx_items st' = sx_items st @ fst (page_spec (sf_item sf) k R)
    \<and> sx_more st' = (snd (page_spec (sf_item sf) k R) \<noteq> [])
    \<and> (sx_more st' \<longrightarrow> stopped_at R (snd (page_spec (sf_item sf) k R)) st')"
  using assms
proof (induction "length R" arbitrary: before R st k rule: less_induct)
  case less
  let ?b = "sf_batch sf"
  let ?rows = "take ?b R" and ?rest = "drop ?b R"
  let ?st = "scan_rows sf ?rows st" and ?walk = "page_spec (sf_item sf) k ?rows"
  have b: "0 < ?b" using less.prems(1) by (simp add: scannable_def)
  have rows: "rows_after_token sf (sx_next st) ?b = ?rows" using less.prems(3) by (simp add: rows_after_token_def)
  have cut: "sf_rows sf = before @ ?rows @ ?rest" using less.prems(2) by simp
  note batch = scan_rows_spec [OF less.prems(1) cut less.prems(4), folded less.prems(6)]
  have whole: "page_spec (sf_item sf) k R = page_spec (sf_item sf) k (?rows @ ?rest)" by simp
  show ?case
  proof (cases "?rows = []")
    case True
    then have "R = []" using b by simp
    moreover have "scan_loop sf st = Some st"
      using less.prems(4) rows True by (subst scan_loop.simps) (simp add: scan_round_def)
    ultimately show ?thesis using less.prems(5) by simp
  next
    case False
    show ?thesis
    proof (cases "length (fst ?walk) < k")
      case full: False
      then have n: "length (fst ?walk) = k" using page_spec_length [of "sf_item sf" k ?rows] by simp
      have "scan_loop sf st = Some ?st"
        using less.prems(4,6) rows False batch n
        by (subst scan_loop.simps) (simp add: scan_round_def Let_def)
      moreover have "stopped_at R (snd ?walk @ ?rest) ?st"
        using batch full stopped_at_append [of ?rows "snd ?walk" ?st "[]" ?rest] by simp
      ultimately show ?thesis using batch full unfolding whole page_spec_append [of "sf_item sf" k ?rows ?rest] by simp
    next
      case room: True
      show ?thesis
      proof (cases "length ?rows < ?b")
        case True
        then have short: "length R < ?b" by (simp add: min_less_iff_disj)
        then have "?rest = []" "?rows = R" by simp_all
        moreover have "scan_loop sf st = Some ?st"
          using less.prems(4,6) rows False batch room short
          by (subst scan_loop.simps) (simp add: scan_round_def Let_def)
        ultimately show ?thesis using batch room less.prems(5) page_spec_short [OF room] by simp
      next
        case more: False
        have "length (sx_items ?st) = length (sx_items st) + length (fst ?walk)" using batch by simp
        then have notfull: "length (sx_items ?st) < sf_limit sf" using room less.prems(6) by linarith
        from more have "\<not> length R < ?b" by (simp add: min_less_iff_disj)
        then have one: "scan_loop sf st = scan_loop sf ?st"
          using less.prems(4) rows False notfull
          by (subst scan_loop.simps) (simp add: scan_round_def Let_def)
        obtain p x where px: "?rows = p @ [x]" using False by (metis append_butlast_last_id)
        then have "sx_next ?st = Some (row_token x)" using batch room by simp
        then have after: "filter (after_token (sx_next ?st)) (sf_rows sf) = ?rest"
          using rows_after_row [OF less.prems(1), of "before @ p" x ?rest] cut px by simp
        have shorter: "length ?rest < length R" using False b by (cases R) auto
        let ?k = "k - length (fst ?walk)"
        have inner: "length (sx_items ?st) < sf_limit sf" "\<not> sx_more ?st" "?k = sf_limit sf - length (sx_items ?st)"
          "sf_rows sf = (before @ ?rows) @ ?rest"
          using notfull batch room less.prems(4-6) cut by simp_all
        from less.hyps [OF shorter less.prems(1) inner(4) after inner(1-3)] obtain st' where
          st': "scan_loop sf ?st = Some st'" "sx_items st' = sx_items ?st @ fst (page_spec (sf_item sf) ?k ?rest)"
            "sx_more st' = (snd (page_spec (sf_item sf) ?k ?rest) \<noteq> [])"
            "sx_more st' \<longrightarrow> stopped_at ?rest (snd (page_spec (sf_item sf) ?k ?rest)) st'" by blast
        have "sx_more st' \<longrightarrow> stopped_at R (snd (page_spec (sf_item sf) ?k ?rest)) st'"
          using st'(4) stopped_at_append [of ?rest _ st' ?rows "[]"] by simp
        with one st' batch room show ?thesis unfolding whole page_spec_append [of "sf_item sf" k ?rows ?rest] by simp
      qed
    qed
  qed
qed

text \<open>A batch of rows with blank keys leaves the scan where it was, and the loop never ends.\<close>

lemma scan_rows_blank: "\<forall>row\<in>set rows. row_key row = [] \<Longrightarrow> scan_rows sf rows st = st"
  by (induction rows) simp_all

lemma blank_batch_hangs:
  assumes "length (sx_items st) < sf_limit sf" "length (rows_after_token sf (sx_next st) (sf_batch sf)) = sf_batch sf"
    "0 < sf_batch sf" "\<forall>row\<in>set (rows_after_token sf (sx_next st) (sf_batch sf)). row_key row = []"
  shows "scan_loop sf st = None"
proof -
  have round: "scan_round sf st = Inr st"
    using assms scan_rows_blank [OF assms(4)] by (auto simp: scan_round_def Let_def)
  have "\<not> (sf = sf \<and> st = st)" if "scan_loop sf st = Some y" for y
  proof (rule scan_loop.raw_induct [of "\<lambda>a b y. \<not> (a = sf \<and> b = st)", OF _ that])
    fix loop a b z
    assume "\<And>a b y. loop a b = Some y \<Longrightarrow> \<not> (a = sf \<and> b = st)"
      "(case scan_round a b of Inl st' \<Rightarrow> Some st' | Inr st' \<Rightarrow> loop a st') = Some z"
    then show "\<not> (a = sf \<and> b = st)" using round by (auto split: sum.splits)
  qed
  then show ?thesis by (cases "scan_loop sf st") auto
qed


section \<open>Tokens read back\<close>

lemma cut_last_bar_made:
  assumes "CHR ''|'' \<notin> set t"
  shows "cut_last_bar (s @ CHR ''|'' # t) = Some (s, t)"
proof -
  have "takeWhile (\<lambda>c. c \<noteq> CHR ''|'') (rev t @ CHR ''|'' # rev s) = rev t"
    using assms by (subst takeWhile_append2) auto
  then show ?thesis by (simp add: cut_last_bar_def Let_def)
qed

lemma int_text_last: "int_text i \<noteq> [] \<and> \<not> js_space (last (int_text i))"
proof -
  have "is_digit (last (nat_digits n))" for n
    using nat_digits_digits nat_digits_plain(3) by (metis last_in_set)
  then show ?thesis using nat_digits_plain(3) by (simp add: int_text_def digit_not_space)
qed

lemma int_text_no_bar: "CHR ''|'' \<notin> set (int_text i)"
proof -
  have "\<not> is_digit CHR ''|''" by code_simp
  then show ?thesis using nat_digits_digits by (auto simp: int_text_def)
qed

lemma parse_made_token:
  assumes "js_trim k = k" "k \<noteq> []" "0 \<le> i" "i \<le> MAX_SAFE_INTEGER"
  shows "parseSnapshotPageToken (Some (makeSnapshotPageToken k i)) = Some \<lparr> st_key = k, st_id = of_int i \<rparr>"
proof -
  let ?t = "makeSnapshotPageToken k i"
  have "\<not> js_space (hd k)" using assms(1,2) trimmed_hd [of js_space k] by (simp add: js_trim_def)
  then have "trim_by js_space ?t = ?t"
    using assms(2) int_text_last [of i] by (intro trim_by_ends) (simp_all add: makeSnapshotPageToken_def)
  then have "normalizeCursor (Some ?t) = Some ?t"
    by (simp add: normalizeCursor_def js_trim_def Let_def) (simp add: makeSnapshotPageToken_def)
  then show ?thesis
    using assms js_Number_int_text [of i]
    by (simp add: parseSnapshotPageToken_def makeSnapshotPageToken_def cut_last_bar_made int_text_no_bar)
qed

section \<open>Reading a whole snapshot\<close>

text \<open>A reader that asks for page after page with the token it was given, at most \<open>n\<close> pages.\<close>

fun read_snapshot :: "nat \<Rightarrow> sync_config \<Rightarrow> string \<Rightarrow> string \<Rightarrow> db \<Rightarrow> snapshot_request \<Rightarrow> snapshot_page_item list option" where
  "read_snapshot 0 cfg now fresh d q = None"
| "read_snapshot (Suc n) cfg now fresh d q =
     (case loadMemorySnapshotPageForPeer cfg now fresh d q of
        Some (Inr page, d1) \<Rightarrow>
          if sg_more page
          then map_option (\<lambda>items. sg_items page @ items) (read_snapshot n cfg now fresh d1 (q\<lparr> sq_token := sg_next page \<rparr>))
          else Some (sg_items page)
      | _ \<Rightarrow> None)"

definition page_open :: "string \<Rightarrow> string \<Rightarrow> db \<Rightarrow> snapshot_request \<Rightarrow> bool" where
  "page_open now fresh d q \<longleftrightarrow>
     (let (b, d1) = getSyncResetState now fresh d (sq_scope q) in
        d1 = d \<and> sq_generation q = Some (rb_generation b) \<and> normalizeCursor (sq_snapshot q) = Some (rb_snapshot_id b)
        \<and> normalizeCursor (sq_baseline q) = rb_baseline_cursor b)
     \<and> (sq_scope q \<noteq> None \<longrightarrow>
          map_option sc_authority_type (first_where (\<lambda>s. sc_id s = effective_scope (sq_scope q)) (scopes d)) \<noteq> Some ''local''
          \<and> (\<forall>p. clean_text (sq_peer q) = Some p \<longrightarrow>
               getAnyRecipientPolicyDenyOverlayForScopeDevice d (effective_scope (sq_scope q)) p = None))"

definition snapshot_ready :: "db \<Rightarrow> string \<Rightarrow> bool" where
  "snapshot_ready d scope \<longleftrightarrow> distinct (map m_id (memories d))
     \<and> (\<forall>m\<in>set (memories d). m_scope_id m = Some scope \<longrightarrow> 0 \<le> m_id m \<and> m_id m \<le> MAX_SAFE_INTEGER
          \<and> (case m_import_key m of None \<Rightarrow> True | Some k \<Rightarrow> js_trim k = k \<and> k \<noteq> []))"

lemma set_map_filter_rows:
  "row \<in> set (snapshot_rows d scope) \<Longrightarrow> fst row \<in> set (memories d) \<and> m_scope_id (fst row) = Some scope \<and> m_import_key (fst row) \<noteq> None"
  by (auto simp: snapshot_rows_def List.map_filter_def split: if_splits)

lemma snapshot_rows_scannable:
  assumes "snapshot_ready d (effective_scope (sq_scope q))"
  shows "scannable (page_scan cfg d q)"
proof -
  let ?s = "effective_scope (sq_scope q)"
  let ?rows = "snapshot_rows d ?s"
  have plain: "plain_row row" if "row \<in> set ?rows" for row
    using set_map_filter_rows [OF that] assms by (auto simp: snapshot_ready_def plain_row_def split: option.splits)
  have pos: "(\<lambda>(m, _). (or_default (m_import_key m) [], m_id m)) row = row_position row" if "plain_row row" for row
    using that by (auto simp: plain_row_def row_position_def row_key_def split: prod.splits)
  have keys: "map (\<lambda>(m, _). (or_default (m_import_key m) [], m_id m)) ?rows = map row_position ?rows"
    using plain pos by (intro map_cong) auto
  have sorted: "sorted (map row_position ?rows)"
    unfolding keys [symmetric] unfolding snapshot_rows_def by simp
  have ids: "distinct (map (m_id \<circ> fst) (List.map_filter (\<lambda>m. if p m then map_option (\<lambda>s. (m, s_project s)) (g m) else None) ms))"
    if "distinct (map m_id ms)" for p ms and g :: "memory_row \<Rightarrow> session_row option"
    using that by (induction ms) (auto simp: List.map_filter_simps List.map_filter_def split: option.splits)
  have "distinct (map (m_id \<circ> fst) ?rows)"
    using ids [of "memories d"] assms by (simp add: snapshot_rows_def snapshot_ready_def distinct_map)
  then have "distinct (map row_position ?rows)"
    by (auto simp: distinct_map inj_on_def row_position_def)
  with sorted have "sorted_wrt (<) (map row_position ?rows)" by (simp add: strict_sorted_iff)
  moreover have "0 < nat (page_limit q)" "0 < nat (scan_batch_size (page_limit q))"
    by (simp_all add: page_limit_def scan_batch_size_def)
  ultimately show ?thesis using plain by (simp add: scannable_def page_scan_def list_all_iff)
qed

lemma load_page:
  assumes "page_open now fresh d q"
  shows "loadMemorySnapshotPageForPeer cfg now fresh d q
    = map_option (\<lambda>st. (Inr (page_of (fst (getSyncResetState now fresh d (sq_scope q))) st), d))
        (scan_loop (page_scan cfg d q)
          \<lparr> sx_items = [], sx_next = parseSnapshotPageToken (sq_token q), sx_last = None, sx_more = False \<rparr>)"
proof -
  let ?s = "effective_scope (sq_scope q)"
  obtain b where b: "getSyncResetState now fresh d (sq_scope q) = (b, d)" "sq_generation q = Some (rb_generation b)"
    "normalizeCursor (sq_snapshot q) = Some (rb_snapshot_id b)" "normalizeCursor (sq_baseline q) = rb_baseline_cursor b"
    using assms(1) by (auto simp: page_open_def split: prod.splits)
  have "\<not> (sq_scope q \<noteq> None \<and> map_option sc_authority_type (first_where (\<lambda>s. sc_id s = ?s) (scopes d)) = Some ''local'')"
    "\<not> (sq_scope q \<noteq> None \<and> (case clean_text (sq_peer q) of None \<Rightarrow> False
        | Some p \<Rightarrow> getAnyRecipientPolicyDenyOverlayForScopeDevice d ?s p \<noteq> None))"
    using assms(1) by (auto simp: page_open_def split: option.splits)
  note opened = this
  show ?thesis
    unfolding loadMemorySnapshotPageForPeer_def Let_def b(1) prod.case if_not_P [OF opened(1)] if_not_P [OF opened(2)]
    using b(2-4) by (simp split: option.splits)
qed

lemma read_snapshot_from:
  assumes "page_open now fresh d q" "snapshot_ready d (effective_scope (sq_scope q))"
    "snapshot_rows d (effective_scope (sq_scope q)) = before @ R"
    "filter (after_token (parseSnapshotPageToken (sq_token q))) (snapshot_rows d (effective_scope (sq_scope q))) = R"
    "length R < n"
  shows "read_snapshot n cfg now fresh d q = Some (List.map_filter (snapshot_item_of cfg d (sq_source q) (sq_peer q)) R)"
  using assms
proof (induction n arbitrary: q before R)
  case (Suc n)
  let ?sf = "page_scan cfg d q" and ?f = "snapshot_item_of cfg d (sq_source q) (sq_peer q)"
  let ?st = "\<lparr> sx_items = [], sx_next = parseSnapshotPageToken (sq_token q), sx_last = None, sx_more = False \<rparr>"
  note ok = snapshot_rows_scannable [OF Suc.prems(2), of cfg]
  have lim: "length (sx_items ?st) < sf_limit ?sf" using ok by (simp add: scannable_def)
  have fields: "sf_rows ?sf = snapshot_rows d (effective_scope (sq_scope q))" "sf_item ?sf = ?f" by (simp_all add: page_scan_def)
  obtain st where st: "scan_loop ?sf ?st = Some st" "sx_items st = fst (page_spec ?f (sf_limit ?sf) R)"
    "sx_more st = (snd (page_spec ?f (sf_limit ?sf) R) \<noteq> [])"
    "sx_more st \<longrightarrow> stopped_at R (snd (page_spec ?f (sf_limit ?sf) R)) st"
    using scan_loop_spec [OF ok, of before R ?st "sf_limit ?sf"] Suc.prems(3,4) lim by (auto simp: fields)
  note page = load_page [OF Suc.prems(1), of cfg, unfolded st(1)]
  let ?left = "snd (page_spec ?f (sf_limit ?sf) R)"
  have items: "List.map_filter ?f R = sx_items st @ List.map_filter ?f ?left"
    using page_spec_items [of ?f R "sf_limit ?sf"] st(2) by simp
  show ?case
  proof (cases "sx_more st")
    case False
    then show ?thesis using page items st(3) by (simp add: page_of_def List.map_filter_simps)
  next
    case True
    with st(4) obtain p row where row: "R = p @ row # ?left" "sx_last st = Some (makeSnapshotPageToken (row_key row) (m_id (fst row)))"
      by (auto simp: stopped_at_def)
    have "row \<in> set R" by (subst row(1)) simp
    then have "row \<in> set (snapshot_rows d (effective_scope (sq_scope q)))" using Suc.prems(3) by simp
    from set_map_filter_rows [OF this] Suc.prems(2) have
      "js_trim (row_key row) = row_key row" "row_key row \<noteq> []" "0 \<le> m_id (fst row)" "m_id (fst row) \<le> MAX_SAFE_INTEGER"
      by (auto simp: snapshot_ready_def row_key_def split: option.splits)
    from parse_made_token [OF this] have token: "parseSnapshotPageToken (sx_last st) = Some (row_token row)"
      by (simp add: row(2) row_token_def)
    let ?q = "q\<lparr> sq_token := sx_last st \<rparr>"
    have cut: "snapshot_rows d (effective_scope (sq_scope q)) = (before @ p) @ row # ?left" using Suc.prems(3) row(1) by simp
    have "read_snapshot n cfg now fresh d ?q = Some (List.map_filter ?f ?left)"
    proof -
      have "page_open now fresh d ?q" using Suc.prems(1) by (simp add: page_open_def)
      moreover have "filter (after_token (parseSnapshotPageToken (sx_last st))) (snapshot_rows d (effective_scope (sq_scope q))) = ?left"
        unfolding token using rows_after_row [OF ok, unfolded fields, OF cut] .
      moreover have "length ?left < length R" by (subst (2) row(1)) simp
      ultimately show ?thesis
        using Suc.IH [of ?q "before @ p @ [row]" ?left] Suc.prems(2,5) cut by simp
    qed
    then show ?thesis using page items True row(2) by (simp add: page_of_def)
  qed
qed simp


text \<open>The rows of a snapshot are the keyed rows of the scope that have a session.\<close>

lemma map_filter_set: "set (List.map_filter f xs) = {y. \<exists>x\<in>set xs. f x = Some y}"
  by (force simp: List.map_filter_def)

lemma snapshot_rows_set:
  "fst ` set (snapshot_rows d scope) = {m \<in> set (memories d). m_import_key m \<noteq> None \<and> scope \<noteq> DEFAULT_SYNC_SCOPE_ID
     \<and> m_scope_id m = Some scope \<and> exists_where (\<lambda>s. s_id s = m_session_id m) (sessions d)}"
proof -
  have found: "exists_where p xs \<longleftrightarrow> (\<exists>s. first_where p xs = Some s)" for p and xs :: "session_row list"
    using first_where_None_iff [of p xs] by (auto simp: exists_where_iff)
  have rows: "set (snapshot_rows d scope) = {(m, b). m \<in> set (memories d) \<and> m_import_key m \<noteq> None
      \<and> scope \<noteq> DEFAULT_SYNC_SCOPE_ID \<and> m_scope_id m = Some scope
      \<and> (\<exists>s. first_where (\<lambda>s. s_id s = m_session_id m) (sessions d) = Some s \<and> b = s_project s)}"
    unfolding snapshot_rows_def set_sort map_filter_set by (auto split: if_splits)
  show ?thesis unfolding rows found by (auto simp: image_iff)
qed

text \<open>C31: a snapshot is complete. On a device whose keys are trimmed and not blank, a peer that asks for page
  after page with the token it was given gets, within as many pages as the scope has rows, the item of
  every row it may see, each once and in the order of the keys, whatever the page size; every page
  returns.\<close>

theorem snapshot_is_complete:
  assumes "page_open now fresh d q" "snapshot_ready d (effective_scope (sq_scope q))" "sq_token q = None"
    "length (snapshot_rows d (effective_scope (sq_scope q))) < n"
  shows "read_snapshot n cfg now fresh d q
      = Some (List.map_filter (snapshot_item_of cfg d (sq_source q) (sq_peer q)) (snapshot_rows d (effective_scope (sq_scope q))))
    \<and> sorted_wrt (<) (map row_position (snapshot_rows d (effective_scope (sq_scope q))))
    \<and> fst ` set (snapshot_rows d (effective_scope (sq_scope q))) = {m \<in> set (memories d). m_import_key m \<noteq> None
        \<and> effective_scope (sq_scope q) \<noteq> DEFAULT_SYNC_SCOPE_ID \<and> m_scope_id m = Some (effective_scope (sq_scope q))
        \<and> exists_where (\<lambda>s. s_id s = m_session_id m) (sessions d)}"
proof -
  have "parseSnapshotPageToken None = None" by code_simp
  then have "filter (after_token (parseSnapshotPageToken (sq_token q))) (snapshot_rows d (effective_scope (sq_scope q)))
      = snapshot_rows d (effective_scope (sq_scope q))"
    using assms(3) by (simp add: after_token_def)
  from read_snapshot_from [OF assms(1,2) _ this assms(4), of "[]" cfg]
    snapshot_rows_scannable [OF assms(2), of cfg] snapshot_rows_set
  show ?thesis by (simp add: scannable_def page_scan_def)
qed

definition snapshot_db :: db where
  "snapshot_db = sample_db\<lparr> reset_states := [\<lparr> rs_scope = ''team'', rs_generation = 1, rs_snapshot_id = ''s1'',
     rs_baseline_cursor = None, rs_retained_floor_cursor = None, rs_updated_at = ''2026'' \<rparr>] \<rparr>"

definition sample_snapshot_request :: snapshot_request where
  "sample_snapshot_request = \<lparr> sq_source = None, sq_limit = Some 1, sq_token = None, sq_peer = Some ''p1'',
     sq_scope = Some (Some ''team''), sq_generation = Some 1, sq_snapshot = Some ''s1'', sq_baseline = None \<rparr>"

definition no_filters :: sync_config where
  "no_filters = \<lparr> env_projects_include = None, env_projects_exclude = None, config_projects_include = None,
     config_projects_exclude = None \<rparr>"

theorem snapshot_is_complete_witness:
  "map_option (map sp_entity) (read_snapshot 2 no_filters ''2028'' ''s2'' snapshot_db sample_snapshot_request) = Some [''k1'']"
proof -
  let ?q = sample_snapshot_request
  have scope: "sq_scope ?q = Some (Some ''team'')" "effective_scope (Some (Some ''team'')) = ''team''"
    "clean_text (sq_peer ?q) = Some ''p1''" by code_simp+
  have "page_open ''2028'' ''s2'' snapshot_db ?q"
  proof -
    have "getSyncResetState ''2028'' ''s2'' snapshot_db (Some (Some ''team'')) = (\<lparr> rb_scope_id = Some ''team'',
        rb_generation = 1, rb_snapshot_id = ''s1'', rb_baseline_cursor = None, rb_retained_floor_cursor = None \<rparr>, snapshot_db)"
      "sq_generation ?q = Some 1" "normalizeCursor (sq_snapshot ?q) = Some ''s1''" "normalizeCursor (sq_baseline ?q) = None"
      "getAnyRecipientPolicyDenyOverlayForScopeDevice snapshot_db ''team'' ''p1'' = None"
      "first_where (\<lambda>s. sc_id s = ''team'') (scopes snapshot_db) = None"
      by code_simp+
    with scope show ?thesis by (simp add: page_open_def)
  qed
  moreover have "snapshot_ready snapshot_db ''team''" by code_simp
  moreover have "sq_token ?q = None" "length (snapshot_rows snapshot_db ''team'') < 2" by code_simp+
  ultimately have "read_snapshot 2 no_filters ''2028'' ''s2'' snapshot_db ?q
      = Some (List.map_filter (snapshot_item_of no_filters snapshot_db (sq_source ?q) (sq_peer ?q)) (snapshot_rows snapshot_db ''team''))"
    using snapshot_is_complete [of "''2028''" "''s2''" snapshot_db ?q 2 no_filters] scope by simp
  moreover have "map sp_entity (List.map_filter (snapshot_item_of no_filters snapshot_db (sq_source ?q) (sq_peer ?q))
      (snapshot_rows snapshot_db ''team'')) = [''k1'']" by code_simp
  ultimately show ?thesis by simp
qed

text \<open>The condition on the keys is needed: a scope whose first rows have blank keys, as many as one batch reads,
  is a call that never returns.\<close>

theorem blank_keys_hang:
  assumes "page_open now fresh d q" "sq_token q = None"
    "length rows = nat (scan_batch_size (page_limit q))" "\<forall>row\<in>set rows. row_key row = []"
    "snapshot_rows d (effective_scope (sq_scope q)) = rows @ rest"
  shows "loadMemorySnapshotPageForPeer cfg now fresh d q = None"
proof -
  let ?st = "\<lparr> sx_items = [], sx_next = None, sx_last = None, sx_more = False \<rparr>"
  have "parseSnapshotPageToken None = None" by code_simp
  have batch: "rows_after_token (page_scan cfg d q) None (sf_batch (page_scan cfg d q)) = rows"
    using assms(3,5) by (simp add: rows_after_token_def page_scan_def after_token_def)
  have pos: "0 < sf_batch (page_scan cfg d q)" "length (sx_items ?st) < sf_limit (page_scan cfg d q)"
    by (simp_all add: page_scan_def page_limit_def scan_batch_size_def)
  have full: "length rows = sf_batch (page_scan cfg d q)" using assms(3) by (simp add: page_scan_def)
  have "scan_loop (page_scan cfg d q) ?st = None"
    by (rule blank_batch_hangs [OF pos(2) _ pos(1)]) (use full assms(4) batch in simp_all)
  with \<open>parseSnapshotPageToken None = None\<close> show ?thesis
    unfolding load_page [OF assms(1), of cfg] assms(2) by simp
qed

end
