(* ===== verification/Received_Rows.thy ===== *)
theory Received_Rows
  imports Apply_Convergence Op_Log Sync_Cursors
begin

text \<open>
  Cleaning up after a lost membership (\<open>reconcileStalePeerReceivedRows\<close> and its dry run
  \<open>diagnoseStalePeerReceivedRows\<close> in \<open>packages/core/src/sync-replication.ts\<close>): a row received from a peer
  is deleted when this device is no longer admitted to its scope, kept when it is or when it was made here,
  and reported when neither is certain. The lookup of a scope's authorization is remembered for the run.

  The lemmas replace the run by a verdict on each row in the database the run started from: deleting
  rows and remembering lookups never changes a later verdict.
\<close>

section \<open>The run\<close>

datatype stale_reason =
  AuthorizationUnknown | MissingImportKey | MissingOriginDevice | UnverifiedLocalCreation

record stale_diagnostic =
  sd_memory :: int
  sd_import_key :: "string option"
  sd_origin :: "string option"
  sd_scope :: "string option"
  sd_reason :: stale_reason

record reconcile_result =
  rr_checked :: nat
  rr_deleted :: nat
  rr_deleted_ids :: "int list"
  rr_retained :: nat
  rr_ambiguous :: "stale_diagnostic list"

record reconcile_options =
  ro_local :: string
  ro_peer :: "string option"
  ro_max_rows :: "int option"
  ro_public_key :: "string option"

definition stalePeerCandidateIsDeletable :: "authorization_state \<Rightarrow> bool" where
  "stalePeerCandidateIsDeletable state \<longleftrightarrow> state = Revoked \<or> state = ScopeInactive \<or> state = StaleEpochState"

definition stalePeerCandidateDiagnostic :: "memory_row \<Rightarrow> stale_reason \<Rightarrow> stale_diagnostic" where
  "stalePeerCandidateDiagnostic m reason =
     \<lparr> sd_memory = m_id m, sd_import_key = clean_text (m_import_key m), sd_origin = clean_text (m_origin_device_id m),
       sd_scope = clean_text (m_scope_id m), sd_reason = reason \<rparr>"

definition stalePeerReceivedRows :: "db \<Rightarrow> string option \<Rightarrow> int \<Rightarrow> memory_row list" where
  "stalePeerReceivedRows d peer maxRows = sql_limit maxRows (sort_key m_id (filter (\<lambda>m. m_active m = Some 1
     \<and> (peer = None \<or> sql_eq (m_origin_device_id m) peer)) (memories d)))"

definition legacyLocalRetentionScope :: "db \<Rightarrow> string option \<Rightarrow> bool" where
  "legacyLocalRetentionScope d scopeId = (case clean_text scopeId of
     None \<Rightarrow> True
   | Some s \<Rightarrow> s = DEFAULT_SYNC_SCOPE_ID \<or> s = LEGACY_SHARED_REVIEW_SCOPE_ID
       \<or> exists_where (\<lambda>r. sc_id r = s \<and> sc_authority_type r \<in> {''local'', ''manual'', ''invite''}) (scopes d))"

definition ambiguous :: "memory_row \<Rightarrow> stale_reason \<Rightarrow> reconcile_result \<Rightarrow> reconcile_result" where
  "ambiguous m reason res = res\<lparr> rr_ambiguous := rr_ambiguous res @ [stalePeerCandidateDiagnostic m reason] \<rparr>"

definition retained :: "reconcile_result \<Rightarrow> reconcile_result" where
  "retained res = res\<lparr> rr_retained := Suc (rr_retained res) \<rparr>"

definition deleted :: "memory_row \<Rightarrow> reconcile_result \<Rightarrow> reconcile_result" where
  "deleted m res = res\<lparr> rr_deleted := Suc (rr_deleted res), rr_deleted_ids := rr_deleted_ids res @ [m_id m] \<rparr>"

text \<open>Whether the row is settled because it may have been made here, and the result with it.\<close>

definition retainOrDiagnoseLocalRow ::
    "db \<Rightarrow> memory_row \<Rightarrow> string \<Rightarrow> string list \<Rightarrow> reconcile_result \<Rightarrow> bool \<times> reconcile_result" where
  "retainOrDiagnoseLocalRow d m localDeviceId creationSources res =
     (let importKey = clean_text (m_import_key m); origin = clean_text (m_origin_device_id m);
          recorded = (case importKey of None \<Rightarrow> False | Some k \<Rightarrow> hasRecordedLocalCreation d k)
      in if (case importKey of None \<Rightarrow> False | Some k \<Rightarrow> hasMatchingLocalCreation d k creationSources None)
         then (True, retained res)
         else if \<not> recorded \<and> origin = Some localDeviceId \<and> legacyLocalRetentionScope d (m_scope_id m)
         then (True, retained res)
         else if \<not> recorded \<and> origin \<noteq> Some localDeviceId \<and> origin \<noteq> Some ''local'' then (False, res)
         else (True, ambiguous m UnverifiedLocalCreation res))"

definition deleteCandidate ::
    "apply_context \<Rightarrow> bool \<Rightarrow> memory_row \<Rightarrow> (string \<times> string) option \<Rightarrow> reconcile_result \<Rightarrow> db \<Rightarrow> string + reconcile_result \<times> db" where
  "deleteCandidate ctx deleteRows m cursor res d =
     (if \<not> deleteRows then Inr (deleted m res, d)
      else (case clearRefsBeforeMemoryDeletion ctx d (m_id m) of
              Inl e \<Rightarrow> Inl e
            | Inr d1 \<Rightarrow>
                let d2 = d1\<lparr> memories := delete_where (\<lambda>x. m_id x = m_id m) (memories d1) \<rparr>
                in Inr (deleted m res, (case cursor of
                     None \<Rightarrow> d2
                   | Some (origin, scope) \<Rightarrow>
                       if scope \<noteq> DEFAULT_SYNC_SCOPE_ID
                       then clearReplicationCursorLastApplied (ax_now ctx) d2 origin (Some scope) else d2))))"

type_synonym auth_memo = "(string \<times> scope_authorization) list"

definition remembered :: "db \<Rightarrow> string \<Rightarrow> string \<Rightarrow> auth_memo \<Rightarrow> string + scope_authorization \<times> auth_memo" where
  "remembered d localDeviceId scopeId memo = (case map_of memo scopeId of
     Some au \<Rightarrow> Inr (au, memo)
   | None \<Rightarrow> (case cached_authorization d localDeviceId scopeId of
        Inl e \<Rightarrow> Inl e
      | Inr au \<Rightarrow> Inr (au, (scopeId, au) # memo)))"

definition reconcile_row ::
    "apply_context \<Rightarrow> bool \<Rightarrow> string \<Rightarrow> string list \<Rightarrow> memory_row \<Rightarrow> reconcile_result \<times> db \<times> auth_memo
     \<Rightarrow> string + reconcile_result \<times> db \<times> auth_memo" where
  "reconcile_row ctx deleteRows localDeviceId creationSources m st =
     (let (res, d, memo) = st;
          remove = (\<lambda>memo' cursor. map_sum id (\<lambda>(res', d'). (res', d', memo')) (deleteCandidate ctx deleteRows m cursor res d))
      in case retainOrDiagnoseLocalRow d m localDeviceId creationSources res of
           (True, res') \<Rightarrow> Inr (res', d, memo)
         | (False, res') \<Rightarrow>
             (case clean_text (m_origin_device_id m) of
                None \<Rightarrow> Inr (ambiguous m MissingOriginDevice res, d, memo)
              | Some origin \<Rightarrow>
                  (case clean_text (m_scope_id m) of
                     None \<Rightarrow> remove memo None
                   | Some scopeId \<Rightarrow>
                       if scopeId = DEFAULT_SYNC_SCOPE_ID then remove memo None
                       else if clean_text (m_import_key m) = None
                       then Inr (ambiguous m MissingImportKey res, d, memo)
                       else (case remembered d localDeviceId scopeId memo of
                               Inl e \<Rightarrow> Inl e
                             | Inr (auth, memo') \<Rightarrow>
                                 if au_authorized auth then Inr (retained res, d, memo')
                                 else if au_scope auth = None
                                 then Inr (ambiguous m AuthorizationUnknown res, d, memo')
                                 else if au_membership auth = None then remove memo' (Some (origin, scopeId))
                                 else if \<not> stalePeerCandidateIsDeletable (au_state auth)
                                 then Inr (ambiguous m AuthorizationUnknown res, d, memo')
                                 else remove memo' (Some (origin, scopeId))))))"

fun reconcile_rows ::
    "apply_context \<Rightarrow> bool \<Rightarrow> string \<Rightarrow> string list \<Rightarrow> memory_row list \<Rightarrow> reconcile_result \<times> db \<times> auth_memo
     \<Rightarrow> string + reconcile_result \<times> db \<times> auth_memo" where
  "reconcile_rows ctx deleteRows localDeviceId creationSources [] st = Inr st"
| "reconcile_rows ctx deleteRows localDeviceId creationSources (m # rows) st =
     (case reconcile_row ctx deleteRows localDeviceId creationSources m st of
        Inl e \<Rightarrow> Inl e
      | Inr st' \<Rightarrow> reconcile_rows ctx deleteRows localDeviceId creationSources rows st')"

definition no_rows_yet :: "memory_row list \<Rightarrow> reconcile_result" where
  "no_rows_yet rows = \<lparr> rr_checked = length rows, rr_deleted = 0, rr_deleted_ids = [], rr_retained = 0, rr_ambiguous = [] \<rparr>"

definition max_rows :: "reconcile_options \<Rightarrow> int" where
  "max_rows opts = (case ro_max_rows opts of None \<Rightarrow> -1 | Some n \<Rightarrow> max 0 n)"

definition reconcileStalePeerReceivedRowsInternal ::
    "(string \<Rightarrow> string) \<Rightarrow> apply_context \<Rightarrow> db \<Rightarrow> reconcile_options \<Rightarrow> bool \<Rightarrow> string + reconcile_result \<times> db" where
  "reconcileStalePeerReceivedRowsInternal fingerprint ctx d opts deleteRows =
     (case clean_text (Some (ro_local opts)) of
        None \<Rightarrow> Inl ''localDeviceId must be a non-empty string''
      | Some localDeviceId \<Rightarrow>
          let rows = stalePeerReceivedRows d (clean_text (ro_peer opts)) (max_rows opts);
              creationSources = localCreationSourceIds fingerprint d localDeviceId (ro_public_key opts)
          in map_sum id (\<lambda>(res, d', memo). (res, d'))
               (reconcile_rows ctx deleteRows localDeviceId creationSources rows (no_rows_yet rows, d, [])))"

definition reconcileStalePeerReceivedRows ::
    "(string \<Rightarrow> string) \<Rightarrow> apply_context \<Rightarrow> db \<Rightarrow> reconcile_options \<Rightarrow> string + reconcile_result \<times> db" where
  "reconcileStalePeerReceivedRows fingerprint ctx d opts = reconcileStalePeerReceivedRowsInternal fingerprint ctx d opts True"

definition diagnoseStalePeerReceivedRows ::
    "(string \<Rightarrow> string) \<Rightarrow> apply_context \<Rightarrow> db \<Rightarrow> reconcile_options \<Rightarrow> string + reconcile_result" where
  "diagnoseStalePeerReceivedRows fingerprint ctx d opts =
     map_sum id fst (reconcileStalePeerReceivedRowsInternal fingerprint ctx d opts False)"

section \<open>The verdict on a row\<close>

datatype verdict = Keep | Report stale_reason | Remove "(string \<times> string) option"

definition made_here :: "db \<Rightarrow> string \<Rightarrow> string list \<Rightarrow> memory_row \<Rightarrow> bool" where
  "made_here d localDeviceId creationSources m \<longleftrightarrow> fst (retainOrDiagnoseLocalRow d m localDeviceId creationSources (no_rows_yet []))"

definition scope_verdict :: "scope_authorization \<Rightarrow> string \<Rightarrow> string \<Rightarrow> verdict" where
  "scope_verdict auth origin scopeId =
     (if au_authorized auth then Keep
      else if au_scope auth = None then Report AuthorizationUnknown
      else if au_membership auth = None \<or> stalePeerCandidateIsDeletable (au_state auth) then Remove (Some (origin, scopeId))
      else Report AuthorizationUnknown)"

definition verdict :: "db \<Rightarrow> string \<Rightarrow> string list \<Rightarrow> memory_row \<Rightarrow> verdict" where
  "verdict d localDeviceId creationSources m =
     (let here = retainOrDiagnoseLocalRow d m localDeviceId creationSources (no_rows_yet []) in
      if fst here then (if rr_ambiguous (snd here) = [] then Keep else Report UnverifiedLocalCreation)
      else (case clean_text (m_origin_device_id m) of
              None \<Rightarrow> Report MissingOriginDevice
            | Some origin \<Rightarrow>
                (case clean_text (m_scope_id m) of
                   None \<Rightarrow> Remove None
                 | Some s \<Rightarrow>
                     if s = DEFAULT_SYNC_SCOPE_ID then Remove None
                     else if clean_text (m_import_key m) = None then Report MissingImportKey
                     else scope_verdict (projr (cached_authorization d localDeviceId s)) origin s)))"

definition tally :: "verdict \<Rightarrow> memory_row \<Rightarrow> reconcile_result \<Rightarrow> reconcile_result" where
  "tally v m res = (case v of Keep \<Rightarrow> retained res | Report reason \<Rightarrow> ambiguous m reason res | Remove cursor \<Rightarrow> deleted m res)"

definition doomed :: "db \<Rightarrow> string \<Rightarrow> string list \<Rightarrow> memory_row \<Rightarrow> bool" where
  "doomed d localDeviceId creationSources m \<longleftrightarrow> (\<exists>cursor. verdict d localDeviceId creationSources m = Remove cursor)"

text \<open>What the run changes: rows, sessions' keys, references and cursors, nothing a verdict looks at but the rows.\<close>

definition with_rows_of :: "db \<Rightarrow> db \<Rightarrow> db" where
  "with_rows_of d d0 = d\<lparr> memories := memories d0, sessions := sessions d0, file_refs := file_refs d0,
     concept_refs := concept_refs d0, cursors := cursors d0 \<rparr>"

definition same_ground :: "db \<Rightarrow> db \<Rightarrow> bool" where
  "same_ground d0 d \<longleftrightarrow> with_rows_of d d0 = d0"

lemma same_groundE:
  assumes "same_ground d0 d"
  obtains ms ss fs cs cu where "d = d0\<lparr> memories := ms, sessions := ss, file_refs := fs, concept_refs := cs, cursors := cu \<rparr>"
proof -
  have "d = (with_rows_of d d0)\<lparr> memories := memories d, sessions := sessions d, file_refs := file_refs d,
      concept_refs := concept_refs d, cursors := cursors d \<rparr>" by (simp add: with_rows_of_def)
  with assms that show ?thesis unfolding same_ground_def by metis
qed

lemma same_ground_fields:
  assumes "same_ground d0 d"
  shows "source_bindings d = source_bindings d0" "scopes d = scopes d0" "sync_devices d = sync_devices d0"
    "memberships d = memberships d0" "deny_overlays d = deny_overlays d0" "cache_states d = cache_states d0"
    "creation_snapshots d = creation_snapshots d0" "foreign_revisions d = foreign_revisions d0"
    "retirements d = retirements d0" "ops d = ops d0"
  using assms by (auto elim!: same_groundE)

lemma same_ground_refl [simp]: "same_ground d d"
  by (simp add: same_ground_def with_rows_of_def)

lemma same_ground_trans: "same_ground d0 d \<Longrightarrow> same_ground d d' \<Longrightarrow> same_ground d0 d'"
  by (elim same_groundE) (simp add: same_ground_def with_rows_of_def)

lemma same_ground_updates:
  "same_ground d (d\<lparr> memories := ms \<rparr>)" "same_ground d (d\<lparr> sessions := ss \<rparr>)"
  "same_ground d (clearMemoryRefs d i)" "same_ground d (clearReplicationCursorLastApplied now d peer scope)"
  by (simp_all add: same_ground_def with_rows_of_def clearMemoryRefs_def clearReplicationCursorLastApplied_def Let_def)

lemma recorded_ground: "same_ground d0 d \<Longrightarrow> hasRecordedLocalCreation d k = hasRecordedLocalCreation d0 k"
  by (simp add: hasRecordedLocalCreation_def getVerifiedMemorySource_def same_ground_fields cong: option.case_cong)

lemma retention_ground: "same_ground d0 d \<Longrightarrow> legacyLocalRetentionScope d s = legacyLocalRetentionScope d0 s"
  by (simp add: legacyLocalRetentionScope_def same_ground_fields cong: option.case_cong)

lemma cached_rows_ground: "same_ground d0 d \<Longrightarrow> readCachedScopeRows d dev s None = readCachedScopeRows d0 dev s None"
  by (erule same_groundE) (simp add: readCachedScopeRows_def joined_authority_ok_def joined_scope_def scopeFromJoinedRow_def
      loadScope_def cong: option.case_cong)

lemma authorization_ground: "same_ground d0 d \<Longrightarrow> cached_authorization d dev s = cached_authorization d0 dev s"
proof (elim same_groundE)
  fix ms ss fs cs cu assume d: "d = d0\<lparr> memories := ms, sessions := ss, file_refs := fs, concept_refs := cs, cursors := cu \<rparr>"
  then have ground: "same_ground d0 d" by (simp add: same_ground_def with_rows_of_def)
  have "loadCacheStates d = loadCacheStates d0"
    unfolding d by (intro ext) (simp add: loadCacheStates_def cong: option.case_cong)
  moreover have "getAnyRecipientPolicyDenyOverlayForScopeDevice d = getAnyRecipientPolicyDenyOverlayForScopeDevice d0"
    unfolding d by (intro ext) (simp add: getAnyRecipientPolicyDenyOverlayForScopeDevice_def)
  ultimately show ?thesis
    by (simp add: cached_authorization_def getCachedScopeAuthorization_def readCachedScopeAuthorization_def
        cached_rows_ground [OF ground] cong: option.case_cong)
qed

lemma matches_ground: "same_ground d0 d \<Longrightarrow> matches_creation d m = matches_creation d0 m"
proof (elim same_groundE)
  fix ms ss fs cs cu assume d: "d = d0\<lparr> memories := ms, sessions := ss, file_refs := fs, concept_refs := cs, cursors := cu \<rparr>"
  have "source_device d = source_device d0"
    unfolding d by (intro ext) (simp add: source_device_def getVerifiedMemorySource_def cong: option.case_cong)
  then show ?thesis unfolding matches_creation_def by (simp add: d cong: option.case_cong)
qed

text \<open>Deleting rows that were not recorded as made here hides no local creation.\<close>

lemma matching_recorded:
  assumes "hasMatchingLocalCreation d k sources None"
  shows "hasRecordedLocalCreation d k"
  using assms
  by (auto simp: hasMatchingLocalCreation_def hasLocalCreationBinding_def hasRecordedLocalCreation_def split: option.splits)

definition unrecorded :: "db \<Rightarrow> memory_row \<Rightarrow> bool" where
  "unrecorded d m \<longleftrightarrow> (case clean_text (m_import_key m) of None \<Rightarrow> True | Some k \<Rightarrow> \<not> hasRecordedLocalCreation d k)"

definition run_ok :: "db \<Rightarrow> db \<Rightarrow> bool" where
  "run_ok d0 d \<longleftrightarrow> same_ground d0 d \<and> set (memories d) \<subseteq> set (memories d0)
     \<and> (\<forall>m \<in> set (memories d0). m \<notin> set (memories d) \<longrightarrow> unrecorded d0 m)"

lemma matching_run:
  assumes "run_ok d0 d" "clean_text (Some k) = Some k"
  shows "hasMatchingLocalCreation d k sources None = hasMatchingLocalCreation d0 k sources None"
proof -
  from assms(1) have ground: "same_ground d0 d" and sub: "set (memories d) \<subseteq> set (memories d0)"
    and gone: "\<And>m. m \<in> set (memories d0) \<Longrightarrow> m \<notin> set (memories d) \<Longrightarrow> unrecorded d0 m"
    by (auto simp: run_ok_def)
  have binding: "hasLocalCreationBinding d k sources = hasLocalCreationBinding d0 k sources"
    by (simp add: hasLocalCreationBinding_def getVerifiedMemorySource_def same_ground_fields [OF ground] cong: option.case_cong)
  show ?thesis
  proof (cases "hasRecordedLocalCreation d0 k")
    case True
    have "m \<in> set (memories d)" if "m \<in> set (memories d0)" "m_import_key m = Some k" for m
      using gone [OF that(1)] that(2) True assms(2) by (auto simp: unrecorded_def)
    with sub have "(\<exists>m \<in> set (memories d). m_import_key m = Some k \<and> matches_creation d0 m)
        = (\<exists>m \<in> set (memories d0). m_import_key m = Some k \<and> matches_creation d0 m)" by blast
    then show ?thesis
      by (simp add: hasMatchingLocalCreation_def binding exists_where_iff matches_ground [OF ground])
  next
    case False
    with recorded_ground [OF ground, of k] show ?thesis using matching_recorded by blast
  qed
qed

lemma here_run:
  assumes "run_ok d0 d"
  shows "retainOrDiagnoseLocalRow d m localDeviceId sources res = retainOrDiagnoseLocalRow d0 m localDeviceId sources res"
proof -
  from assms have ground: "same_ground d0 d" by (simp add: run_ok_def)
  have key: "hasMatchingLocalCreation d k sources None = hasMatchingLocalCreation d0 k sources None"
    if "clean_text (m_import_key m) = Some k" for k
    using matching_run [OF assms clean_text_SomeD [OF that]] .
  show ?thesis
    by (cases "clean_text (m_import_key m)")
       (simp_all add: retainOrDiagnoseLocalRow_def Let_def key recorded_ground [OF ground] retention_ground [OF ground])
qed

section \<open>The run follows the verdicts\<close>

lemma here_tally:
  "retainOrDiagnoseLocalRow d m localDeviceId sources res =
     (case retainOrDiagnoseLocalRow d m localDeviceId sources (no_rows_yet []) of
        (False, r) \<Rightarrow> (False, res)
      | (True, r) \<Rightarrow> (True, if rr_ambiguous r = [] then retained res else ambiguous m UnverifiedLocalCreation res))"
  by (simp add: retainOrDiagnoseLocalRow_def Let_def retained_def ambiguous_def no_rows_yet_def)

lemma not_here_unrecorded: "fst (retainOrDiagnoseLocalRow d m localDeviceId sources res) = False \<Longrightarrow> unrecorded d m"
  by (auto simp: retainOrDiagnoseLocalRow_def unrecorded_def Let_def split: if_splits option.splits)

lemma doomed_unrecorded: "doomed d localDeviceId sources m \<Longrightarrow> unrecorded d m"
  by (auto simp: doomed_def verdict_def Let_def split: if_splits intro: not_here_unrecorded)

lemma deleteCandidate_removes:
  obtains d' where "deleteCandidate ctx True m cursor res d = Inr (deleted m res, d')" "same_ground d d'"
    "memories d' = delete_where (\<lambda>x. m_id x = m_id m) (memories d)"
proof -
  obtain ss where ss: "snapshotSessionExportKeysForMemoryIds (ax_sha256 ctx) True d [m_id m] = Inr (d\<lparr> sessions := ss \<rparr>)"
    using snapshotSessionExportKeys_only by blast
  let ?d2 = "(clearMemoryRefs (d\<lparr> sessions := ss \<rparr>) (m_id m))
    \<lparr> memories := delete_where (\<lambda>x. m_id x = m_id m) (memories (clearMemoryRefs (d\<lparr> sessions := ss \<rparr>) (m_id m))) \<rparr>"
  have ground: "same_ground d ?d2"
    by (rule same_ground_trans [OF same_ground_trans [OF same_ground_updates(2) same_ground_updates(3)] same_ground_updates(1)])
  have mem: "memories ?d2 = delete_where (\<lambda>x. m_id x = m_id m) (memories d)" by (simp add: frame)
  show thesis
  proof (cases "\<exists>origin scope. cursor = Some (origin, scope) \<and> scope \<noteq> DEFAULT_SYNC_SCOPE_ID")
    case True
    then obtain origin scope where c: "cursor = Some (origin, scope)" "scope \<noteq> DEFAULT_SYNC_SCOPE_ID" by blast
    show thesis
      by (rule that [of "clearReplicationCursorLastApplied (ax_now ctx) ?d2 origin (Some scope)"])
         (use c ss mem same_ground_trans [OF ground same_ground_updates(4)] in
           \<open>simp_all add: deleteCandidate_def clearRefsBeforeMemoryDeletion_def Let_def clearReplicationCursorLastApplied_def\<close>)
  next
    case False
    then show thesis
      by (intro that [OF _ ground mem])
         (auto simp: deleteCandidate_def clearRefsBeforeMemoryDeletion_def ss Let_def split: option.splits)
  qed
qed

lemma authorization_answers:
  assumes "clean_text (Some dev) = Some dev" "clean_text (Some s) = Some s"
  shows "cached_authorization d dev s = Inr (projr (cached_authorization d dev s))"
proof -
  obtain au where "readCachedScopeAuthorization (\<lambda>_. None) 0 DEFAULT_SCOPE_MEMBERSHIP_CACHE_MAX_AGE_MS d dev s None = Inr au"
    using readCachedScopeAuthorization_state [OF assms] by blast
  then show ?thesis using assms by (simp add: cached_authorization_def getCachedScopeAuthorization_def)
qed

definition memo_ok :: "db \<Rightarrow> string \<Rightarrow> auth_memo \<Rightarrow> bool" where
  "memo_ok d0 dev memo \<longleftrightarrow> (\<forall>s au. map_of memo s = Some au \<longrightarrow> cached_authorization d0 dev s = Inr au)"

lemma remembered_ok:
  assumes "memo_ok d0 dev memo" "same_ground d0 d" "clean_text (Some dev) = Some dev" "clean_text (Some s) = Some s"
  obtains memo' where "remembered d dev s memo = Inr (projr (cached_authorization d0 dev s), memo')" "memo_ok d0 dev memo'"
proof (cases "map_of memo s")
  case (Some au)
  with assms(1) that [of memo] show ?thesis by (auto simp: remembered_def memo_ok_def)
next
  case None
  obtain au where au: "cached_authorization d0 dev s = Inr au"
    using authorization_answers [OF assms(3,4)] by blast
  then have "cached_authorization d dev s = Inr au" by (simp add: authorization_ground [OF assms(2)])
  with None assms(1) au show ?thesis
    by (intro that [of "(s, au) # memo"]) (auto simp: remembered_def memo_ok_def)
qed

definition remaining :: "db \<Rightarrow> string \<Rightarrow> string list \<Rightarrow> memory_row list \<Rightarrow> memory_row list \<Rightarrow> memory_row list" where
  "remaining d0 localDeviceId sources rows ms =
     filter (\<lambda>x. x \<notin> set (filter (doomed d0 localDeviceId sources) rows)) ms"

lemma run_ok_step:
  assumes "run_ok d0 d" "doomed d0 localDeviceId sources m" "m \<in> set (memories d0)" "distinct (map m_id (memories d0))"
    "same_ground d d'" "memories d' = delete_where (\<lambda>x. m_id x = m_id m) (memories d)"
  shows "run_ok d0 d'" "memories d' = filter (\<lambda>x. x \<noteq> m) (memories d)"
proof -
  from assms(1) have ground: "same_ground d0 d" and sub: "set (memories d) \<subseteq> set (memories d0)"
    and gone: "\<And>m. m \<in> set (memories d0) \<Longrightarrow> m \<notin> set (memories d) \<Longrightarrow> unrecorded d0 m"
    by (auto simp: run_ok_def)
  have one: "m_id x = m_id m \<longleftrightarrow> x = m" if "x \<in> set (memories d)" for x
    using that sub assms(3,4) by (auto simp: distinct_map inj_on_def)
  show mem: "memories d' = filter (\<lambda>x. x \<noteq> m) (memories d)"
    using one by (simp add: assms(6) delete_where_def cong: filter_cong)
  show "run_ok d0 d'"
    using mem sub gone doomed_unrecorded [OF assms(2)] same_ground_trans [OF ground assms(5)] by (auto simp: run_ok_def)
qed

lemma reconcile_row_verdict:
  assumes "run_ok d0 d" "memo_ok d0 localDeviceId memo" "clean_text (Some localDeviceId) = Some localDeviceId"
    "m \<in> set (memories d0)" "distinct (map m_id (memories d0))"
  obtains d' memo' where
    "reconcile_row ctx deleteRows localDeviceId sources m (res, d, memo)
       = Inr (tally (verdict d0 localDeviceId sources m) m res, d', memo')"
    "run_ok d0 d'" "memo_ok d0 localDeviceId memo'"
    "memories d' = (if deleteRows then remaining d0 localDeviceId sources [m] (memories d) else memories d)"
    "\<not> deleteRows \<Longrightarrow> d' = d"
proof -
  have ground: "same_ground d0 d" using assms(1) by (simp add: run_ok_def)
  let ?v = "verdict d0 localDeviceId sources m"
  note step_to = that
  have keep: thesis if "\<And>c. ?v \<noteq> Remove c" "memo_ok d0 localDeviceId memo'"
    "reconcile_row ctx deleteRows localDeviceId sources m (res, d, memo) = Inr (tally ?v m res, d, memo')" for memo'
    using that assms(1) by (intro step_to) (simp_all add: remaining_def doomed_def)
  have remove: thesis if "?v = Remove c" "memo_ok d0 localDeviceId memo'"
    "reconcile_row ctx deleteRows localDeviceId sources m (res, d, memo)
       = map_sum id (\<lambda>(res', d'). (res', d', memo')) (deleteCandidate ctx deleteRows m cursor res d)" for c cursor memo'
  proof -
    have d: "doomed d0 localDeviceId sources m" using that(1) by (auto simp: doomed_def)
    show thesis
    proof (cases deleteRows)
      case True
      obtain d' where del: "deleteCandidate ctx True m cursor res d = Inr (deleted m res, d')" "same_ground d d'"
          "memories d' = delete_where (\<lambda>x. m_id x = m_id m) (memories d)" by (rule deleteCandidate_removes)
      note step = run_ok_step [OF assms(1) d assms(4,5) del(2,3)]
      show thesis
        by (rule step_to [OF _ step(1) that(2)]) (use True del(1) step(2) d that in \<open>simp_all add: tally_def remaining_def\<close>)
    next
      case False
      with that assms(1) show thesis
        by (intro step_to) (simp_all add: deleteCandidate_def tally_def)
    qed
  qed
  obtain here r where here: "retainOrDiagnoseLocalRow d0 m localDeviceId sources (no_rows_yet []) = (here, r)" by fastforce
  have run: "retainOrDiagnoseLocalRow d m localDeviceId sources res = (if here
      then (True, if rr_ambiguous r = [] then retained res else ambiguous m UnverifiedLocalCreation res) else (False, res))"
    using here_run [OF assms(1)] here_tally [of d0 m localDeviceId sources res] here by simp
  note step = reconcile_row_def Let_def run verdict_def here tally_def
  show thesis
  proof (cases "here \<or> clean_text (m_origin_device_id m) = None")
    case True
    then show thesis
      by (intro keep [of memo]) (auto simp: step assms(2))
  next
    case False
    then obtain origin where origin: "\<not> here" "clean_text (m_origin_device_id m) = Some origin" by auto
    show thesis
    proof (cases "clean_text (m_scope_id m) \<in> {None, Some DEFAULT_SYNC_SCOPE_ID}")
      case True
      with origin show thesis
        by (intro remove [of None memo None]) (auto simp: step assms(2))
    next
      case False
      then obtain s where s: "clean_text (m_scope_id m) = Some s" "s \<noteq> DEFAULT_SYNC_SCOPE_ID" by auto
      show thesis
      proof (cases "clean_text (m_import_key m)")
        case None
        with origin s show thesis
          by (intro keep [of memo]) (auto simp: step assms(2))
      next
        case (Some k)
        obtain memo' where memo': "remembered d localDeviceId s memo = Inr (projr (cached_authorization d0 localDeviceId s), memo')"
            "memo_ok d0 localDeviceId memo'"
          using remembered_ok [OF assms(2) ground assms(3) clean_text_SomeD [OF s(1)]] .
        let ?au = "projr (cached_authorization d0 localDeviceId s)"
        show thesis
        proof (cases "\<not> au_authorized ?au \<and> au_scope ?au \<noteq> None
            \<and> (au_membership ?au = None \<or> stalePeerCandidateIsDeletable (au_state ?au))")
          case True
          with origin s Some memo' show thesis
            by (intro remove [of "Some (origin, s)" memo' "Some (origin, s)"]) (auto simp: step scope_verdict_def)
        next
          case False
          with origin s Some memo' show thesis
            by (intro keep [of memo']) (auto simp: step scope_verdict_def)
        qed
      qed
    qed
  qed
qed

lemma remaining_Cons:
  "remaining d0 localDeviceId sources rows (remaining d0 localDeviceId sources [m] ms)
   = remaining d0 localDeviceId sources (m # rows) ms"
  by (auto simp: remaining_def intro!: filter_cong)

lemma reconcile_rows_verdicts:
  assumes "run_ok d0 d" "memo_ok d0 localDeviceId memo" "clean_text (Some localDeviceId) = Some localDeviceId"
    "set rows \<subseteq> set (memories d0)" "distinct (map m_id (memories d0))"
  shows "\<exists>d' memo'. reconcile_rows ctx deleteRows localDeviceId sources rows (res, d, memo)
      = Inr (fold (\<lambda>m. tally (verdict d0 localDeviceId sources m) m) rows res, d', memo')
    \<and> same_ground d0 d' \<and> memories d' = (if deleteRows then remaining d0 localDeviceId sources rows (memories d) else memories d)
    \<and> (\<not> deleteRows \<longrightarrow> d' = d)"
  using assms(1,2,4)
proof (induction rows arbitrary: res d memo)
  case Nil
  then show ?case by (simp add: run_ok_def remaining_def)
next
  case (Cons m rows)
  from Cons.prems(3) have here: "m \<in> set (memories d0)" by simp
  obtain d1 memo1 where one: "reconcile_row ctx deleteRows localDeviceId sources m (res, d, memo)
       = Inr (tally (verdict d0 localDeviceId sources m) m res, d1, memo1)"
    "run_ok d0 d1" "memo_ok d0 localDeviceId memo1"
    "memories d1 = (if deleteRows then remaining d0 localDeviceId sources [m] (memories d) else memories d)"
    "\<not> deleteRows \<Longrightarrow> d1 = d"
    using reconcile_row_verdict [OF Cons.prems(1,2) assms(3) here assms(5),
        where ctx = ctx and deleteRows = deleteRows and sources = sources and res = res] by blast
  from Cons.IH [OF one(2,3), of "tally (verdict d0 localDeviceId sources m) m res"] Cons.prems(3)
  obtain d' memo' where ih: "reconcile_rows ctx deleteRows localDeviceId sources rows
        (tally (verdict d0 localDeviceId sources m) m res, d1, memo1)
      = Inr (fold (\<lambda>m. tally (verdict d0 localDeviceId sources m) m) rows (tally (verdict d0 localDeviceId sources m) m res), d', memo')"
    "same_ground d0 d'" "memories d' = (if deleteRows then remaining d0 localDeviceId sources rows (memories d1) else memories d1)"
    "\<not> deleteRows \<longrightarrow> d' = d1" by auto
  show ?case
  proof (intro exI conjI)
    show "reconcile_rows ctx deleteRows localDeviceId sources (m # rows) (res, d, memo)
        = Inr (fold (\<lambda>m. tally (verdict d0 localDeviceId sources m) m) (m # rows) res, d', memo')"
      by (simp add: one(1) ih(1))
    show "memories d' = (if deleteRows then remaining d0 localDeviceId sources (m # rows) (memories d) else memories d)"
      unfolding ih(3) one(4) by (simp add: remaining_Cons)
    show "\<not> deleteRows \<longrightarrow> d' = d" using ih(4) one(5) by blast
  qed (rule ih(2))
qed

section \<open>The cleanup\<close>

definition cleanup_rows :: "db \<Rightarrow> reconcile_options \<Rightarrow> memory_row list" where
  "cleanup_rows d opts = stalePeerReceivedRows d (clean_text (ro_peer opts)) (max_rows opts)"

lemma set_sql_limit: "set (sql_limit n rows) \<subseteq> set rows"
  by (auto simp: sql_limit_def dest: in_set_takeD)

lemma cleanup_rows_sub: "m \<in> set (cleanup_rows d opts) \<Longrightarrow> m \<in> set (memories d) \<and> m_active m = Some 1"
  using set_sql_limit by (fastforce simp: cleanup_rows_def stalePeerReceivedRows_def)

lemma internal_verdicts:
  assumes "clean_text (Some (ro_local opts)) = Some localDeviceId" "distinct (map m_id (memories d))"
    "sources = localCreationSourceIds fingerprint d localDeviceId (ro_public_key opts)"
  shows "\<exists>d'. reconcileStalePeerReceivedRowsInternal fingerprint ctx d opts deleteRows
      = Inr (fold (\<lambda>m. tally (verdict d localDeviceId sources m) m) (cleanup_rows d opts) (no_rows_yet (cleanup_rows d opts)), d')
    \<and> same_ground d d'
    \<and> memories d' = (if deleteRows then remaining d localDeviceId sources (cleanup_rows d opts) (memories d) else memories d)
    \<and> (\<not> deleteRows \<longrightarrow> d' = d)"
proof -
  have "run_ok d d" by (simp add: run_ok_def)
  moreover have "memo_ok d localDeviceId []" by (simp add: memo_ok_def)
  moreover have "set (cleanup_rows d opts) \<subseteq> set (memories d)" using cleanup_rows_sub by blast
  ultimately obtain d' memo' where "reconcile_rows ctx deleteRows localDeviceId sources (cleanup_rows d opts)
        (no_rows_yet (cleanup_rows d opts), d, [])
      = Inr (fold (\<lambda>m. tally (verdict d localDeviceId sources m) m) (cleanup_rows d opts) (no_rows_yet (cleanup_rows d opts)), d', memo')"
    "same_ground d d'"
    "memories d' = (if deleteRows then remaining d localDeviceId sources (cleanup_rows d opts) (memories d) else memories d)"
    "\<not> deleteRows \<longrightarrow> d' = d"
    using reconcile_rows_verdicts [OF _ _ clean_text_SomeD [OF assms(1)] _ assms(2),
        where rows = "cleanup_rows d opts" and res = "no_rows_yet (cleanup_rows d opts)" and memo = "[]" and ctx = ctx
          and deleteRows = deleteRows and sources = sources and d = d] by blast
  then show ?thesis
    by (intro exI [of _ d'])
       (simp add: reconcileStalePeerReceivedRowsInternal_def Let_def cleanup_rows_def [symmetric] assms(1,3))
qed

lemma fold_tally_deleted:
  "rr_deleted_ids (fold (\<lambda>m. tally (v m) m) rows res) = rr_deleted_ids res @ map m_id (filter (\<lambda>m. \<exists>c. v m = Remove c) rows)"
  by (induction rows arbitrary: res) (auto simp: tally_def retained_def ambiguous_def deleted_def split: verdict.splits)

lemma doomed_reason:
  assumes "doomed d localDeviceId sources m" "clean_text (Some localDeviceId) = Some localDeviceId"
  shows "unrecorded d m \<and> clean_text (m_origin_device_id m) \<notin> {None, Some localDeviceId, Some ''local''}
    \<and> (\<forall>s. clean_text (m_scope_id m) = Some s \<and> s \<noteq> DEFAULT_SYNC_SCOPE_ID \<longrightarrow> cached_decision d localDeviceId s \<noteq> Authorized)"
proof -
  from assms(1) have here: "\<not> fst (retainOrDiagnoseLocalRow d m localDeviceId sources (no_rows_yet []))"
    by (auto simp: doomed_def verdict_def Let_def split: if_splits)
  then have local: "clean_text (m_origin_device_id m) \<noteq> Some localDeviceId" "clean_text (m_origin_device_id m) \<noteq> Some ''local''"
    by (auto simp: retainOrDiagnoseLocalRow_def Let_def split: if_splits)
  have origin: "clean_text (m_origin_device_id m) \<noteq> None"
    using assms(1) here by (cases "clean_text (m_origin_device_id m)") (auto simp: doomed_def verdict_def Let_def)
  have "cached_decision d localDeviceId s \<noteq> Authorized"
    if s: "clean_text (m_scope_id m) = Some s" "s \<noteq> DEFAULT_SYNC_SCOPE_ID" for s
  proof -
    have "\<not> au_authorized (projr (cached_authorization d localDeviceId s))"
      using assms(1) here s by (auto simp: doomed_def verdict_def Let_def scope_verdict_def split: if_splits option.splits)
    moreover obtain au where au: "readCachedScopeAuthorization (\<lambda>_. None) 0 DEFAULT_SCOPE_MEMBERSHIP_CACHE_MAX_AGE_MS
          d localDeviceId s None = Inr au" "au_authorized au = (cached_decision d localDeviceId s = Authorized)"
      using readCachedScopeAuthorization_state [OF assms(2) clean_text_SomeD [OF s(1)]] by blast
    moreover have "cached_authorization d localDeviceId s = Inr au"
      using au(1) assms(2) clean_text_SomeD [OF s(1)] by (simp add: cached_authorization_def getCachedScopeAuthorization_def)
    ultimately show ?thesis by simp
  qed
  with local origin not_here_unrecorded [of d m localDeviceId sources] here show ?thesis by auto
qed


text \<open>A memory of a scope this device has left.\<close>

definition left_db :: db where
  "left_db = sample_db\<lparr> scopes := [sample_scope],
     memories := map (\<lambda>m. m\<lparr> m_origin_device_id := Some ''a'' \<rparr>) (memories sample_db) \<rparr>"

definition sample_cleanup :: reconcile_options where
  "sample_cleanup = \<lparr> ro_local = ''here'', ro_peer = None, ro_max_rows = None, ro_public_key = None \<rparr>"


end
