(* ===== verification/Sync_Auth.thy ===== *)
theory Sync_Auth
  imports Memory_Provenance
begin

text \<open>
  Signed requests between devices (\<open>packages/core/src/sync-auth.ts\<close>): the canonical text that is signed, the
  older signature \<open>v2\<close> and the recipient-bound \<open>v3\<close>, their verification, and the table of used nonces. Bytes
  are numbers below 256. SHA-256, Ed25519, Node's lenient base64 decoder and the private key are parameters.
  Request methods are ASCII.
\<close>

section \<open>Canonical requests\<close>

definition newline :: string where "newline = [CHR 0x0A]"

definition js_upper :: "string \<Rightarrow> string" where
  "js_upper = map (\<lambda>c. let n = (of_char c :: nat) in if 97 \<le> n \<and> n \<le> 122 then char_of (n - 32) else c)"

definition isValidRecipientId :: "string \<Rightarrow> bool" where
  "isValidRecipientId r \<longleftrightarrow> js_trim r \<noteq> [] \<and> r = js_trim r \<and> CHR 0x0A \<notin> set r \<and> CHR 0x0D \<notin> set r"

definition buildCanonicalRequest :: "(string \<Rightarrow> string) \<Rightarrow> string \<Rightarrow> string \<Rightarrow> string \<Rightarrow> string \<Rightarrow> string \<Rightarrow> string" where
  "buildCanonicalRequest digest method path timestamp nonce body =
     join_text newline [js_upper method, path, timestamp, nonce, digest body]"

definition buildDirectPeerCanonicalRequest ::
    "(string \<Rightarrow> string) \<Rightarrow> string \<Rightarrow> string \<Rightarrow> string \<Rightarrow> string \<Rightarrow> string \<Rightarrow> string \<Rightarrow> string + string" where
  "buildDirectPeerCanonicalRequest digest method path timestamp nonce body recipientId =
     (if \<not> isValidRecipientId recipientId then Inl ''recipientId must be a non-empty single-line value''
      else Inr (buildCanonicalRequest digest method path timestamp nonce body @ newline @ recipientId))"

section \<open>base64\<close>

definition std_char :: "nat \<Rightarrow> char" where
  "std_char n = (if n = 62 then CHR ''+'' else if n = 63 then CHR 0x2F else b64_char n)"

definition std_value :: "char \<Rightarrow> nat option" where
  "std_value c = (if c = CHR ''+'' then Some 62 else if c = CHR 0x2F then Some 63
     else if c = CHR ''-'' \<or> c = CHR ''_'' then None else b64_value c)"

definition base64 :: "nat list \<Rightarrow> string" where
  "base64 bytes = map std_char (sextets bytes)
     @ (if length bytes mod 3 = 1 then ''=='' else if length bytes mod 3 = 2 then ''='' else [])"

text \<open>Only text that is the encoding of some bytes decodes.\<close>

definition decodeStrictBase64 :: "string \<Rightarrow> nat list option" where
  "decodeStrictBase64 encoded =
     (if encoded = [] then None
      else (let bytes = unsextets (List.map_filter std_value (takeWhile (\<lambda>c. c \<noteq> CHR ''='') encoded)) in
        if base64 bytes = encoded then Some bytes else None))"

section \<open>Keys\<close>

record auth_env =
  au_digest :: "string \<Rightarrow> string"
  au_decode64 :: "string \<Rightarrow> nat list"
  au_verify :: "nat list \<Rightarrow> string \<Rightarrow> nat list \<Rightarrow> bool"
  au_sign :: "string \<Rightarrow> string \<Rightarrow> nat list"

definition readUInt32BE :: "nat \<Rightarrow> nat list \<Rightarrow> nat" where
  "readUInt32BE offset bytes = foldl (\<lambda>acc b. acc * 256 + b) 0 (take 4 (drop offset bytes))"

definition sshEd25519ToPublicKey :: "(string \<Rightarrow> nat list) \<Rightarrow> string \<Rightarrow> string + nat list" where
  "sshEd25519ToPublicKey decode64 sshPub = (case words_of (js_trim sshPub) of
     keyType # keyData # _ \<Rightarrow>
       if keyType \<noteq> ''ssh-ed25519'' then Inl ''not an ssh-ed25519 key''
       else (let wire = decode64 keyData; typeLen = readUInt32BE 0 wire; typeEnd = 4 + typeLen;
                 keyLen = readUInt32BE typeEnd wire; keyStart = typeEnd + 4 in
         if length wire < 4 \<or> length wire < typeEnd + 4 \<or> length wire < keyStart + keyLen then Inl ''truncated wire format''
         else if keyLen \<noteq> 32 then Inl ''unexpected Ed25519 key length''
         else Inr (take keyLen (drop keyStart wire)))
   | _ \<Rightarrow> Inl ''not an ssh-ed25519 key'')"

section \<open>Signing\<close>

definition signCanonicalRequest :: "auth_env \<Rightarrow> string option \<Rightarrow> string \<Rightarrow> string + string" where
  "signCanonicalRequest env keyData canonical = (case keyData of
     None \<Rightarrow> Inl ''private key missing''
   | Some k \<Rightarrow> if k = [] then Inl ''private key missing'' else Inr (base64 (au_sign env k canonical)))"

definition SIGNATURE_VERSION :: string where "SIGNATURE_VERSION = ''v2''"
definition DIRECT_PEER_SIGNATURE_VERSION :: string where "DIRECT_PEER_SIGNATURE_VERSION = ''v3''"
definition DEFAULT_TIME_WINDOW_S :: int where "DEFAULT_TIME_WINDOW_S = 300"

record auth_headers =
  ah_device :: string
  ah_grant :: "string option"
  ah_timestamp :: string
  ah_nonce :: string
  ah_signature :: string

record direct_headers = auth_headers +
  ah_recipient :: string
  ah_direct_signature :: string

text \<open>\<open>buildAuthHeaders\<close> with the request's path, its resolved time and nonce.\<close>

definition signRequest :: "auth_env \<Rightarrow> string option \<Rightarrow> string \<Rightarrow> string \<Rightarrow> string \<Rightarrow> string \<Rightarrow> string \<Rightarrow> string + string" where
  "signRequest env keyData method path body timestamp nonce =
     map_sum id (\<lambda>s. SIGNATURE_VERSION @ '':'' @ s)
       (signCanonicalRequest env keyData (buildCanonicalRequest (au_digest env) method path timestamp nonce body))"

definition signDirectPeerRequest ::
    "auth_env \<Rightarrow> string option \<Rightarrow> string \<Rightarrow> string \<Rightarrow> string \<Rightarrow> string \<Rightarrow> string \<Rightarrow> string \<Rightarrow> string + string" where
  "signDirectPeerRequest env keyData method path body timestamp nonce recipientId =
     (case buildDirectPeerCanonicalRequest (au_digest env) method path timestamp nonce body recipientId of
        Inl e \<Rightarrow> Inl e
      | Inr canonical \<Rightarrow> map_sum id (\<lambda>s. DIRECT_PEER_SIGNATURE_VERSION @ '':'' @ s) (signCanonicalRequest env keyData canonical))"

definition buildAuthHeaders ::
    "auth_env \<Rightarrow> string option \<Rightarrow> string \<Rightarrow> string option \<Rightarrow> string \<Rightarrow> string \<Rightarrow> string \<Rightarrow> string \<Rightarrow> string \<Rightarrow> string + auth_headers" where
  "buildAuthHeaders env keyData deviceId bootstrapGrantId method path body timestamp nonce =
     map_sum id (\<lambda>s. \<lparr> ah_device = deviceId,
         ah_grant = (if or_default bootstrapGrantId [] = [] then None else bootstrapGrantId),
         ah_timestamp = timestamp, ah_nonce = nonce, ah_signature = s \<rparr>)
       (signRequest env keyData method path body timestamp nonce)"

definition buildDirectPeerAuthHeaders ::
    "auth_env \<Rightarrow> string option \<Rightarrow> string \<Rightarrow> string option \<Rightarrow> string \<Rightarrow> string \<Rightarrow> string \<Rightarrow> string \<Rightarrow> string \<Rightarrow> string
     \<Rightarrow> string + direct_headers" where
  "buildDirectPeerAuthHeaders env keyData deviceId bootstrapGrantId method path body timestamp nonce recipientId =
     (case buildAuthHeaders env keyData deviceId bootstrapGrantId method path body timestamp nonce of
        Inl e \<Rightarrow> Inl e
      | Inr h \<Rightarrow> map_sum id (\<lambda>s. auth_headers.extend h (direct_headers.fields recipientId s))
          (signDirectPeerRequest env keyData method path body (ah_timestamp h) (ah_nonce h) recipientId))"

section \<open>Verifying\<close>

definition isFreshTimestamp :: "int \<Rightarrow> string \<Rightarrow> int \<Rightarrow> bool" where
  "isFreshTimestamp nowSeconds timestamp window \<longleftrightarrow> timestamp \<noteq> [] \<and> list_all is_digit timestamp
     \<and> \<bar>nowSeconds - int (digits_value 10 timestamp)\<bar> \<le> window"

record verify_request =
  vq_method :: string
  vq_path :: string
  vq_body :: string
  vq_timestamp :: string
  vq_nonce :: string
  vq_public_key :: string
  vq_window :: "int option"

definition window_of :: "verify_request \<Rightarrow> int" where
  "window_of q = or_default (vq_window q) DEFAULT_TIME_WINDOW_S"

definition verified_by :: "auth_env \<Rightarrow> string \<Rightarrow> string \<Rightarrow> nat list \<Rightarrow> bool" where
  "verified_by env publicKey canonical signature = (case sshEd25519ToPublicKey (au_decode64 env) publicKey of
     Inl _ \<Rightarrow> False | Inr key \<Rightarrow> au_verify env key canonical signature)"

text \<open>The version before the first colon, and the text after it.\<close>

fun cut_colon :: "string \<Rightarrow> (string \<times> string) option" where
  "cut_colon [] = None"
| "cut_colon (c # s) = (if c = CHR '':'' then Some ([], s)
     else map_option (\<lambda>(a, b). (c # a, b)) (cut_colon s))"

definition verifySignature :: "auth_env \<Rightarrow> int \<Rightarrow> verify_request \<Rightarrow> string \<Rightarrow> bool" where
  "verifySignature env nowSeconds q signature =
     (if \<not> isFreshTimestamp nowSeconds (vq_timestamp q) (window_of q) then False
      else (case cut_colon signature of
              None \<Rightarrow> False
            | Some (version, encoded) \<Rightarrow>
                if version = [] \<or> version \<notin> {''v1'', ''v2''} then False
                else (case decodeStrictBase64 encoded of
                        None \<Rightarrow> False
                      | Some bytes \<Rightarrow> verified_by env (vq_public_key q)
                          (buildCanonicalRequest (au_digest env) (vq_method q) (vq_path q) (vq_timestamp q) (vq_nonce q)
                             (vq_body q)) bytes)))"

datatype direct_reason = IncompleteMaterial | MalformedRecipient | InvalidTimestamp | UnsupportedVersion
  | InvalidSignature | RecipientMismatch

datatype direct_verification = AbsentMaterial | InvalidMaterial direct_reason | ValidMaterial string

definition present :: "string option \<Rightarrow> string option" where
  "present v = (if v = Some [] then None else v)"

definition verifyDirectPeerSignature ::
    "auth_env \<Rightarrow> int \<Rightarrow> verify_request \<Rightarrow> string option \<Rightarrow> string option \<Rightarrow> string \<Rightarrow> direct_verification" where
  "verifyDirectPeerSignature env nowSeconds q recipient signature expectedRecipientId =
     (case (present recipient, present signature) of
        (None, None) \<Rightarrow> AbsentMaterial
      | (Some recipientId, Some sig) \<Rightarrow>
          if \<not> isValidRecipientId recipientId then InvalidMaterial MalformedRecipient
          else if \<not> isFreshTimestamp nowSeconds (vq_timestamp q) (window_of q) then InvalidMaterial InvalidTimestamp
          else (let prefix = DIRECT_PEER_SIGNATURE_VERSION @ '':'' in
            if \<not> starts_with prefix sig then InvalidMaterial UnsupportedVersion
            else (case decodeStrictBase64 (drop (length prefix) sig) of
                    None \<Rightarrow> InvalidMaterial InvalidSignature
                  | Some bytes \<Rightarrow>
                      (case buildDirectPeerCanonicalRequest (au_digest env) (vq_method q) (vq_path q) (vq_timestamp q)
                              (vq_nonce q) (vq_body q) recipientId of
                         Inl _ \<Rightarrow> InvalidMaterial InvalidSignature
                       | Inr canonical \<Rightarrow>
                           if \<not> verified_by env (vq_public_key q) canonical bytes then InvalidMaterial InvalidSignature
                           else if recipientId \<noteq> expectedRecipientId then InvalidMaterial RecipientMismatch
                           else ValidMaterial DIRECT_PEER_SIGNATURE_VERSION)))
      | _ \<Rightarrow> InvalidMaterial IncompleteMaterial)"

section \<open>Nonces\<close>

definition recordNonce :: "db \<Rightarrow> string \<Rightarrow> string \<Rightarrow> string \<Rightarrow> bool \<times> db" where
  "recordNonce d deviceId nonce createdAt =
     (if exists_where (\<lambda>r. no_nonce r = nonce) (nonces d) then (False, d)
      else (True, d\<lparr> nonces := nonces d @ [\<lparr> no_nonce = nonce, no_device = deviceId, no_created_at = createdAt \<rparr>] \<rparr>))"

definition cleanupNonces :: "db \<Rightarrow> string \<Rightarrow> db" where
  "cleanupNonces d cutoff = d\<lparr> nonces := delete_where (\<lambda>r. no_created_at r < cutoff) (nonces d) \<rparr>"


section \<open>Canonical texts are unambiguous\<close>

definition one_line :: "string \<Rightarrow> bool" where
  "one_line s \<longleftrightarrow> CHR 0x0A \<notin> set s"

lemma join_lines_inj:
  assumes "join_text newline xs = join_text newline ys" "list_all one_line xs" "list_all one_line ys" "xs \<noteq> []" "ys \<noteq> []"
  shows "xs = ys"
  using assms
proof (induction newline xs arbitrary: ys rule: join_text.induct)
  case (2 x)
  then obtain y zs where ys: "ys = y # zs" by (cases ys) auto
  have "CHR 0x0A \<notin> set x" using 2 by (simp add: one_line_def)
  with 2 ys show ?case by (cases zs) (auto simp: newline_def)
next
  case (3 x x' xs)
  then obtain y zs where ys: "ys = y # zs" by (cases ys) auto
  show ?case
  proof (cases zs)
    case Nil
    then have "y = x @ newline @ join_text newline (x' # xs)" using 3 ys by simp
    then have "CHR 0x0A \<in> set y" by (simp add: newline_def)
    then show ?thesis using 3 ys by (simp add: one_line_def)
  next
    case (Cons y' ws)
    have "x @ CHR 0x0A # join_text newline (x' # xs) = y @ CHR 0x0A # join_text newline (y' # ws)"
      using 3 ys Cons by (simp add: newline_def)
    from split_first [OF _ _ this] 3 ys have "x = y" "join_text newline (x' # xs) = join_text newline (y' # ws)"
      by (auto simp: one_line_def)
    with 3 ys Cons show ?thesis by simp
  qed
qed simp

lemma upper_not_newline:
  assumes "65 \<le> k" "k \<le> (90 :: nat)"
  shows "char_of k \<noteq> CHR 0x0A"
proof
  assume eq: "char_of k = CHR 0x0A"
  have "(of_char (char_of k :: char) :: nat) = 10" unfolding eq by simp
  with assms show False by (simp only: of_char_of) simp
qed

lemma one_line_upper [simp]: "one_line (js_upper m) = one_line m"
proof -
  define up where "up c = (let n = (of_char c :: nat) in if 97 \<le> n \<and> n \<le> 122 then char_of (n - 32) else c)" for c :: char
  have "up c = CHR 0x0A \<longleftrightarrow> c = CHR 0x0A" for c
  proof (cases "97 \<le> (of_char c :: nat) \<and> (of_char c :: nat) \<le> 122")
    case True
    then have "char_of (of_char c - 32 :: nat) \<noteq> CHR 0x0A" by (intro upper_not_newline) linarith+
    with True show ?thesis by (auto simp: up_def Let_def)
  next
    case False
    then show ?thesis by (auto simp: up_def Let_def)
  qed
  moreover have "js_upper m = map up m" by (simp add: js_upper_def up_def)
  ultimately show ?thesis unfolding one_line_def by (metis image_iff image_set)
qed

text \<open>What a device signs.\<close>

datatype signing =
    SignedRequest string string string string string
  | SignedDirect string string string string string string

fun signed_lines :: "(string \<Rightarrow> string) \<Rightarrow> signing \<Rightarrow> string list" where
  "signed_lines digest (SignedRequest m p t n b) = [js_upper m, p, t, n, digest b]"
| "signed_lines digest (SignedDirect m p t n b r) = [js_upper m, p, t, n, digest b, r]"

definition signed_text :: "(string \<Rightarrow> string) \<Rightarrow> signing \<Rightarrow> string" where
  "signed_text digest e = join_text newline (signed_lines digest e)"

lemma signed_text_canonical:
  "signed_text digest (SignedRequest m p t n b) = buildCanonicalRequest digest m p t n b"
  "isValidRecipientId r \<Longrightarrow> buildDirectPeerCanonicalRequest digest m p t n b r = Inr (signed_text digest (SignedDirect m p t n b r))"
  by (simp_all add: signed_text_def buildCanonicalRequest_def buildDirectPeerCanonicalRequest_def)

lemma signed_text_inj:
  assumes "signed_text digest e = signed_text digest e'" "list_all one_line (signed_lines digest e)"
    "list_all one_line (signed_lines digest e')"
  shows "signed_lines digest e = signed_lines digest e'"
proof -
  have "signed_lines digest x \<noteq> []" for x by (cases x) simp_all
  with assms show ?thesis using join_lines_inj by (simp add: signed_text_def)
qed

lemma digits_one_line: "list_all is_digit t \<Longrightarrow> one_line t"
proof -
  have "\<not> is_digit CHR 0x0A" by code_simp
  then show "list_all is_digit t \<Longrightarrow> one_line t" by (auto simp: list_all_iff one_line_def)
qed

lemma valid_direct:
  assumes "verifyDirectPeerSignature env nowS q recipient signature me = ValidMaterial v"
  shows "\<exists>bytes. recipient = Some me \<and> isValidRecipientId me \<and> isFreshTimestamp nowS (vq_timestamp q) (window_of q)
    \<and> verified_by env (vq_public_key q) (signed_text (au_digest env)
        (SignedDirect (vq_method q) (vq_path q) (vq_timestamp q) (vq_nonce q) (vq_body q) me)) bytes"
  using assms
  by (auto simp: verifyDirectPeerSignature_def present_def Let_def signed_text_canonical
      split: option.splits if_splits sum.splits)

text \<open>C14: a valid request is one its peer signed for this device. When the peer's key verifies nothing but
  requests the peer signed, one text per line, a request that passes \<open>verifyDirectPeerSignature\<close> is fresh, names
  this device as its recipient, and the peer signed a recipient-bound request for this very device with
  the same method, path, time and nonce and a body of the same digest; neither an older signature nor one
  made for another device passes.\<close>

theorem direct_request_was_signed:
  assumes "verifyDirectPeerSignature env nowS q recipient signature me = ValidMaterial v"
    "\<forall>m bytes. verified_by env (vq_public_key q) m bytes \<longrightarrow> m \<in> signed_text (au_digest env) ` signed"
    "\<forall>e\<in>signed. list_all one_line (signed_lines (au_digest env) e)"
    "one_line (vq_method q)" "one_line (vq_path q)" "one_line (vq_nonce q)" "one_line (au_digest env (vq_body q))"
  shows "recipient = Some me \<and> \<bar>nowS - int (digits_value 10 (vq_timestamp q))\<bar> \<le> window_of q
    \<and> (\<exists>m b. SignedDirect m (vq_path q) (vq_timestamp q) (vq_nonce q) b me \<in> signed
         \<and> js_upper m = js_upper (vq_method q) \<and> au_digest env b = au_digest env (vq_body q))"
proof -
  let ?e = "SignedDirect (vq_method q) (vq_path q) (vq_timestamp q) (vq_nonce q) (vq_body q) me"
  from valid_direct [OF assms(1)] obtain bytes where
    ok: "recipient = Some me" "isValidRecipientId me" "isFreshTimestamp nowS (vq_timestamp q) (window_of q)"
      "verified_by env (vq_public_key q) (signed_text (au_digest env) ?e) bytes" by blast
  with assms(2) obtain e where e: "e \<in> signed" "signed_text (au_digest env) ?e = signed_text (au_digest env) e" by blast
  have "list_all one_line (signed_lines (au_digest env) ?e)"
    using assms(4-7) ok(2,3) digits_one_line by (simp add: isFreshTimestamp_def isValidRecipientId_def one_line_def [of me])
  from signed_text_inj [OF e(2) this] e(1) assms(3) have lines: "signed_lines (au_digest env) ?e = signed_lines (au_digest env) e"
    by blast
  then obtain m p t n b r where "e = SignedDirect m p t n b r" by (cases e) auto
  with lines e(1) ok show ?thesis by (auto simp: isFreshTimestamp_def)
qed


text \<open>A peer that has signed one request, whose key is checked against just that.\<close>

definition sample_signing :: signing where
  "sample_signing = SignedDirect ''post'' ''/v1/ops'' ''1000'' ''n1'' ''body'' ''here''"

definition sample_auth :: auth_env where
  "sample_auth = \<lparr> au_digest = (\<lambda>s. ''d'' @ s), au_decode64 = (\<lambda>_. [0, 0, 0, 1, 9, 0, 0, 0, 32] @ replicate 32 7),
     au_verify = (\<lambda>_ m _. m = signed_text (\<lambda>s. ''d'' @ s) sample_signing), au_sign = (\<lambda>_ _. [1]) \<rparr>"

definition sample_verify :: verify_request where
  "sample_verify = \<lparr> vq_method = ''POST'', vq_path = ''/v1/ops'', vq_body = ''body'', vq_timestamp = ''1000'', vq_nonce = ''n1'',
     vq_public_key = ''ssh-ed25519 key'', vq_window = None \<rparr>"

theorem direct_request_was_signed_witness:
  "verifyDirectPeerSignature sample_auth 1200 sample_verify (Some ''here'') (Some ''v3:AQ=='') ''here'' = ValidMaterial ''v3''
   \<and> (\<exists>m b. SignedDirect m ''/v1/ops'' ''1000'' ''n1'' b ''here'' \<in> {sample_signing} \<and> js_upper m = ''POST'')"
proof -
  have ok: "verifyDirectPeerSignature sample_auth 1200 sample_verify (Some ''here'') (Some ''v3:AQ=='') ''here'' = ValidMaterial ''v3''"
    by code_simp
  have "\<forall>m bytes. verified_by sample_auth (vq_public_key sample_verify) m bytes \<longrightarrow> m \<in> signed_text (au_digest sample_auth) ` {sample_signing}"
  proof (intro allI impI)
    fix m bytes
    assume "verified_by sample_auth (vq_public_key sample_verify) m bytes"
    then obtain key where "au_verify sample_auth key m bytes" by (auto simp: verified_by_def split: sum.splits)
    then show "m \<in> signed_text (au_digest sample_auth) ` {sample_signing}" by (simp add: sample_auth_def)
  qed
  moreover have "\<forall>e\<in>{sample_signing}. list_all one_line (signed_lines (au_digest sample_auth) e)"
    "one_line (vq_method sample_verify)" "one_line (vq_path sample_verify)" "one_line (vq_nonce sample_verify)"
    "one_line (au_digest sample_auth (vq_body sample_verify))" "js_upper (vq_method sample_verify) = ''POST''"
    "vq_path sample_verify = ''/v1/ops''" "vq_timestamp sample_verify = ''1000''" "vq_nonce sample_verify = ''n1''"
    by code_simp+
  ultimately show ?thesis using ok direct_request_was_signed [OF ok] by metis
qed

text \<open>A request that was signed for a device verifies there while it is fresh.\<close>

lemma base64_strict:
  assumes "bytes \<noteq> []" "\<And>b. b \<in> set bytes \<Longrightarrow> b < 256"
  shows "decodeStrictBase64 (base64 bytes) = Some bytes"
proof -
  have std: "std_value (std_char n) = Some n \<and> std_char n \<noteq> CHR ''=''" if "n < 64" for n
  proof -
    have "list_all (\<lambda>n. std_value (std_char n) = Some n \<and> std_char n \<noteq> CHR ''='') [0..<64]" by code_simp
    then show ?thesis using that by (simp add: list_all_iff)
  qed
  have plain: "list_all (\<lambda>c. c \<noteq> CHR ''='') (map std_char (sextets bytes))"
    using sextets_range [OF assms(2)] std by (auto simp: list_all_iff)
  have cut: "takeWhile (\<lambda>c. c \<noteq> CHR ''='') (base64 bytes) = map std_char (sextets bytes)"
    using plain by (auto simp: base64_def list_all_iff takeWhile_append takeWhile_eq_all_conv)
  have "List.map_filter std_value (map std_char xs) = xs" if "\<And>x. x \<in> set xs \<Longrightarrow> x < 64" for xs
    using that std by (induction xs) (auto simp: List.map_filter_simps)
  then have "unsextets (List.map_filter std_value (map std_char (sextets bytes))) = bytes"
    using sextets_range [OF assms(2)] unsextets_sextets [OF assms(2)] by simp
  moreover have "base64 bytes \<noteq> []" using assms(1) by (cases bytes rule: sextets.cases) (auto simp: base64_def)
  ultimately show ?thesis unfolding decodeStrictBase64_def cut Let_def by simp
qed

lemma direct_request_verifies:
  assumes "signDirectPeerRequest env (Some k) method path body timestamp nonce recipientId = Inr signature" "k \<noteq> []"
    "\<And>m. au_sign env k m \<noteq> []" "\<And>m b. b \<in> set (au_sign env k m) \<Longrightarrow> b < 256"
    "\<And>m. verified_by env publicKey m (au_sign env k m)"
    "isFreshTimestamp nowS timestamp (or_default window DEFAULT_TIME_WINDOW_S)"
  shows "verifyDirectPeerSignature env nowS \<lparr> vq_method = method, vq_path = path, vq_body = body, vq_timestamp = timestamp,
      vq_nonce = nonce, vq_public_key = publicKey, vq_window = window \<rparr> (Some recipientId) (Some signature) me
    = (if recipientId = me then ValidMaterial ''v3'' else InvalidMaterial RecipientMismatch)"
proof -
  let ?m = "signed_text (au_digest env) (SignedDirect method path timestamp nonce body recipientId)"
  have ok: "isValidRecipientId recipientId" "signature = ''v3:'' @ base64 (au_sign env k ?m)"
    using assms(1,2) by (auto simp: signDirectPeerRequest_def signed_text_canonical buildDirectPeerCanonicalRequest_def
        signCanonicalRequest_def DIRECT_PEER_SIGNATURE_VERSION_def signed_text_def buildCanonicalRequest_def
        split: if_splits sum.splits)
  have "recipientId \<noteq> []" using ok(1) by (auto simp: isValidRecipientId_def)
  moreover have "decodeStrictBase64 (base64 (au_sign env k ?m)) = Some (au_sign env k ?m)"
    using assms(3,4) by (intro base64_strict)
  ultimately show ?thesis
    using ok assms(5,6)
    by (simp add: verifyDirectPeerSignature_def present_def window_of_def DIRECT_PEER_SIGNATURE_VERSION_def Let_def
        starts_with_def signed_text_canonical)
qed

end
