(* ===== verification/Retirement_Delivery.thy ===== *)
theory Retirement_Delivery
  imports Sync_Auth Apply_Convergence
begin

text \<open>
  Delivering scope retirements to the peers that may hold the memory
  (\<open>packages/core/src/memory-retirement-delivery.ts\<close>): the queue of the source, the signed batch, its receipt
  with the erasure of the retired rows, and the acknowledgement. \<open>JSON.parse\<close> of a received body is a parameter;
  the vector index is not modelled.
\<close>

section \<open>Features\<close>

definition SYNC_FEATURES :: "string list" where
  "SYNC_FEATURES = [''reassign_scope'', ''memory_scope_retirement_v1'']"

definition split_commas :: "string \<Rightarrow> string list" where
  "split_commas s = foldr (\<lambda>c ws. if c = CHR '','' then [] # ws
     else (case ws of [] \<Rightarrow> [[c]] | w # ws' \<Rightarrow> (c # w) # ws')) s [[]]"

definition normalizeSyncFeatures :: "json option \<Rightarrow> string list" where
  "normalizeSyncFeatures v =
     (let values = (case v of Some (JArr vs) \<Rightarrow> map js_String vs | Some (JStr s) \<Rightarrow> split_commas s | _ \<Rightarrow> [])
      in sort (remdups (filter (\<lambda>f. f \<in> set SYNC_FEATURES) (map (\<lambda>f. js_lower (js_trim f)) values))))"

definition supportsSyncFeature :: "json option \<Rightarrow> string \<Rightarrow> bool" where
  "supportsSyncFeature v feature \<longleftrightarrow> feature \<in> set (normalizeSyncFeatures v)"

section \<open>Controls\<close>

definition MEMORY_RETIREMENT_FEATURE :: string where "MEMORY_RETIREMENT_FEATURE = ''memory_scope_retirement_v1''"
definition MEMORY_RETIREMENT_PATH :: string where "MEMORY_RETIREMENT_PATH = ''/v1/memory-scope-retirements''"
definition MEMORY_RETIREMENT_ACK_PATH :: string where
  "MEMORY_RETIREMENT_ACK_PATH = ''/v1/memory-scope-retirements/ack''"
definition MAX_CONTROLS :: nat where "MAX_CONTROLS = 100"

text \<open>A control as it stands in a batch: its id, and the three fields as JSON.\<close>

record retirement_control =
  ct_id :: string
  ct_entity :: json
  ct_source :: json
  ct_scope :: json

definition control_digest :: "(string \<Rightarrow> string) \<Rightarrow> json \<Rightarrow> json \<Rightarrow> json \<Rightarrow> string" where
  "control_digest digest entity source scope =
     digest (json_stringify (JArr [JStr MEMORY_RETIREMENT_FEATURE, entity, source, scope]))"

definition controlId :: "(string \<Rightarrow> string) \<Rightarrow> retirement_input \<Rightarrow> string" where
  "controlId digest i = control_digest digest (JStr (ri_entity i)) (JStr (ri_source i)) (JStr (ri_scope i))"

definition control_json :: "retirement_control \<Rightarrow> json" where
  "control_json c = JObj [(''controlId'', JStr (ct_id c)), (''entityId'', ct_entity c),
     (''sourceDeviceId'', ct_source c), (''retiredScopeId'', ct_scope c)]"

definition batch_json :: "string \<Rightarrow> retirement_control list \<Rightarrow> json" where
  "batch_json recipient cs = JObj [(''feature'', JStr MEMORY_RETIREMENT_FEATURE),
     (''recipientDeviceId'', JStr recipient), (''controls'', JArr (map control_json cs))]"

definition batchDigest :: "(string \<Rightarrow> string) \<Rightarrow> json \<Rightarrow> string" where
  "batchDigest digest batch = digest (json_stringify batch)"

section \<open>The source's queue\<close>

definition delivery_key :: "delivery_row \<Rightarrow> string \<times> string" where
  "delivery_key r = (dl_control r, dl_peer r)"

definition queue_delivery :: "(string \<Rightarrow> string) \<Rightarrow> retirement_input \<Rightarrow> string \<Rightarrow> db \<Rightarrow> db" where
  "queue_delivery digest i peer d = d\<lparr> retirement_deliveries := insert_or_ignore delivery_key
     \<lparr> dl_control = controlId digest i, dl_peer = peer, dl_entity = ri_entity i, dl_source = ri_source i,
        dl_scope = ri_scope i, dl_acknowledged_at = None \<rparr> (retirement_deliveries d) \<rparr>"

definition queueMemoryRetirement ::
    "(string \<Rightarrow> string) \<Rightarrow> bool \<Rightarrow> string \<Rightarrow> db \<Rightarrow> retirement_input \<Rightarrow> string \<Rightarrow> string \<Rightarrow> string + db" where
  "queueMemoryRetirement digest in_tx wall d i localDeviceId now =
     (case recordMemoryScopeRetirement in_tx wall now d i localDeviceId of
        Inl e \<Rightarrow> Inl e
      | Inr d1 \<Rightarrow> Inr (fold (queue_delivery digest i)
          (map sm_device (filter (\<lambda>m. sm_scope m = ri_scope i \<and> sm_device m \<noteq> localDeviceId) (memberships d1))) d1))"

definition control_of :: "delivery_row \<Rightarrow> retirement_control" where
  "control_of r = \<lparr> ct_id = dl_control r, ct_entity = JStr (dl_entity r), ct_source = JStr (dl_source r),
     ct_scope = JStr (dl_scope r) \<rparr>"

definition pendingRetirementBatch :: "db \<Rightarrow> string \<Rightarrow> string \<Rightarrow> json option \<Rightarrow> retirement_control list option" where
  "pendingRetirementBatch d localDeviceId peerDeviceId peerFeatures =
     (if \<not> supportsSyncFeature peerFeatures MEMORY_RETIREMENT_FEATURE then None
      else (let controls = map control_of (take MAX_CONTROLS (sort_key dl_control
              (filter (\<lambda>r. dl_peer r = peerDeviceId \<and> dl_source r = localDeviceId \<and> dl_acknowledged_at r = None)
                 (retirement_deliveries d))))
            in if controls = [] then None else Some controls))"

section \<open>Packets\<close>

record packet =
  pk_body :: string
  pk_timestamp :: string
  pk_nonce :: string
  pk_signature :: string
  pk_recipient :: string

record retirement_peer =
  rp_device :: string
  rp_public_key :: string

record delivery_env =
  de_auth :: auth_env
  de_seconds :: int
  de_parse :: "string \<Rightarrow> json option"
  de_wall :: string

definition authenticateRetirementPacket ::
    "delivery_env \<Rightarrow> packet \<Rightarrow> retirement_peer \<Rightarrow> string \<Rightarrow> string \<Rightarrow> string + unit" where
  "authenticateRetirementPacket env p peer localDeviceId path =
     (if int (utf8_length (pk_body p)) > 512000 then Inl ''retirement_packet_too_large''
      else (case verifyDirectPeerSignature (de_auth env) (de_seconds env)
              \<lparr> vq_method = ''POST'', vq_path = path, vq_body = pk_body p, vq_timestamp = pk_timestamp p,
                 vq_nonce = pk_nonce p, vq_public_key = rp_public_key peer, vq_window = None \<rparr>
              (Some (pk_recipient p)) (Some (pk_signature p)) localDeviceId of
              ValidMaterial _ \<Rightarrow> Inr ()
            | _ \<Rightarrow> Inl ''retirement_authentication_failed''))"

text \<open>An object whose keys are exactly the four of a control, in any order, and whose id is its digest.\<close>

definition parse_control :: "(string \<Rightarrow> string) \<Rightarrow> json \<Rightarrow> retirement_control option" where
  "parse_control digest v = (case v of
     JObj ps \<Rightarrow>
       if sort (map fst ps) \<noteq> [''controlId'', ''entityId'', ''retiredScopeId'', ''sourceDeviceId''] then None
       else (let entity = or_default (field ''entityId'' ps) JNull; source = or_default (field ''sourceDeviceId'' ps) JNull;
                 scope = or_default (field ''retiredScopeId'' ps) JNull; i = control_digest digest entity source scope
             in if field ''controlId'' ps \<noteq> Some (JStr i) then None
                else Some \<lparr> ct_id = i, ct_entity = entity, ct_source = source, ct_scope = scope \<rparr>)
   | _ \<Rightarrow> None)"

fun parse_controls :: "(string \<Rightarrow> string) \<Rightarrow> json list \<Rightarrow> retirement_control list option" where
  "parse_controls digest [] = Some []"
| "parse_controls digest (v # vs) = (case (parse_control digest v, parse_controls digest vs) of
     (Some c, Some cs) \<Rightarrow> Some (c # cs) | _ \<Rightarrow> None)"

definition parseRetirementBatch ::
    "(string \<Rightarrow> string) \<Rightarrow> (string \<Rightarrow> json option) \<Rightarrow> string \<Rightarrow> string \<Rightarrow> string + json \<times> retirement_control list" where
  "parseRetirementBatch digest parse body recipient = (case parse body of
     None \<Rightarrow> Inl ''JSON.parse: invalid JSON''
   | Some v \<Rightarrow>
       (let ps = or_default (as_object v) [] in
        if field ''feature'' ps \<noteq> Some (JStr MEMORY_RETIREMENT_FEATURE)
           \<or> field ''recipientDeviceId'' ps \<noteq> Some (JStr recipient) then Inl ''retirement_batch_invalid''
        else (case field ''controls'' ps of
                Some (JArr vs) \<Rightarrow>
                  if vs = [] \<or> length vs > MAX_CONTROLS then Inl ''retirement_batch_invalid''
                  else if \<not> set (map fst ps) \<subseteq> {''feature'', ''recipientDeviceId'', ''controls''}
                  then Inl ''retirement_batch_invalid''
                  else (case parse_controls digest vs of
                          None \<Rightarrow> Inl ''retirement_control_invalid''
                        | Some cs \<Rightarrow> if \<not> distinct (map ct_id cs) then Inl ''retirement_control_duplicate''
                                      else Inr (v, cs))
              | _ \<Rightarrow> Inl ''retirement_batch_invalid'')))"

section \<open>Receiving\<close>

definition erase_memory :: "int \<Rightarrow> db \<Rightarrow> db" where
  "erase_memory i d = (let d1 = clearMemoryRefs d i in
     d1\<lparr> memories := delete_where (\<lambda>m. m_id m = i) (memories d1) \<rparr>)"

definition cleanupRetiredMemory :: "(string \<Rightarrow> string) \<Rightarrow> db \<Rightarrow> string \<Rightarrow> string \<Rightarrow> string + db" where
  "cleanupRetiredMemory digest d entity scope =
     (let ids = map m_id (filter (\<lambda>m. m_import_key m = Some entity \<and> m_scope_id m = Some scope) (memories d))
      in case snapshotSessionExportKeysForMemoryIds digest True d ids of
           Inl e \<Rightarrow> Inl e | Inr d1 \<Rightarrow> Inr (fold erase_memory ids d1))"

definition control_input :: "retirement_control \<Rightarrow> retirement_input option" where
  "control_input c = (case (ct_entity c, ct_source c, ct_scope c) of
     (JStr e, JStr s, JStr sc) \<Rightarrow> Some \<lparr> ri_entity = e, ri_source = s, ri_scope = sc \<rparr> | _ \<Rightarrow> None)"

definition receipt :: "string \<Rightarrow> string \<Rightarrow> string \<Rightarrow> db \<Rightarrow> db" where
  "receipt i source now d = d\<lparr> retirement_receipts := insert_or_ignore rc_control
     \<lparr> rc_control = i, rc_source = source, rc_received_at = now \<rparr> (retirement_receipts d) \<rparr>"

definition apply_control :: "delivery_env \<Rightarrow> string \<Rightarrow> string \<Rightarrow> retirement_control \<Rightarrow> db \<Rightarrow> string + db" where
  "apply_control env source now c d = (case control_input c of
     None \<Rightarrow> Inl ''memory_retirement_invalid''
   | Some i \<Rightarrow>
       (case recordMemoryScopeRetirement True (de_wall env) now d i source of
          Inl e \<Rightarrow> Inl e
        | Inr d1 \<Rightarrow> (case cleanupRetiredMemory (au_digest (de_auth env)) d1 (ri_entity i) (ri_scope i) of
             Inl e \<Rightarrow> Inl e | Inr d2 \<Rightarrow> Inr (receipt (ct_id c) source now d2))))"

fun apply_controls :: "delivery_env \<Rightarrow> string \<Rightarrow> string \<Rightarrow> retirement_control list \<Rightarrow> db \<Rightarrow> string + db" where
  "apply_controls env source now [] d = Inr d"
| "apply_controls env source now (c # cs) d = (case apply_control env source now c d of
     Inl e \<Rightarrow> Inl e | Inr d1 \<Rightarrow> apply_controls env source now cs d1)"

definition applyAuthenticatedRetirementControls ::
    "delivery_env \<Rightarrow> bool \<Rightarrow> retirement_control list \<Rightarrow> string \<Rightarrow> string \<Rightarrow> db \<Rightarrow> string + db" where
  "applyAuthenticatedRetirementControls env in_tx cs source now d =
     (if \<not> in_tx then Inl ''memory_retirement_transaction_required'' else apply_controls env source now cs d)"

text \<open>The digest of the acknowledgement and the database; an exception leaves the database as it was.\<close>

definition receiveRetirementBatch ::
    "delivery_env \<Rightarrow> db \<Rightarrow> packet \<Rightarrow> string \<Rightarrow> retirement_peer \<Rightarrow> json option \<Rightarrow> string \<Rightarrow> string + string \<times> db" where
  "receiveRetirementBatch env d p localDeviceId peer peerFeatures now =
     (if \<not> supportsSyncFeature peerFeatures MEMORY_RETIREMENT_FEATURE then Inl ''retirement_feature_required''
      else (case authenticateRetirementPacket env p peer localDeviceId MEMORY_RETIREMENT_PATH of
              Inl e \<Rightarrow> Inl e
            | Inr _ \<Rightarrow>
                (case parseRetirementBatch (au_digest (de_auth env)) (de_parse env) (pk_body p) localDeviceId of
                   Inl e \<Rightarrow> Inl e
                 | Inr (batch, cs) \<Rightarrow>
                     (case recordNonce d (rp_device peer) (pk_nonce p) now of
                        (False, _) \<Rightarrow> Inl ''retirement_nonce_replayed''
                      | (True, d1) \<Rightarrow>
                          (case applyAuthenticatedRetirementControls env True cs (rp_device peer) now d1 of
                             Inl e \<Rightarrow> Inl e
                           | Inr d2 \<Rightarrow> Inr (batchDigest (au_digest (de_auth env)) batch, d2))))))"

section \<open>Acknowledging\<close>

definition acknowledge_control :: "string \<Rightarrow> string \<Rightarrow> string \<Rightarrow> retirement_control \<Rightarrow> db \<Rightarrow> db" where
  "acknowledge_control localDeviceId peerDeviceId now c d = d\<lparr> retirement_deliveries := update_where
     (\<lambda>r. dl_control r = ct_id c \<and> dl_peer r = peerDeviceId \<and> dl_source r = localDeviceId)
     (\<lambda>r. r\<lparr> dl_acknowledged_at := coalesce (dl_acknowledged_at r) (Some now) \<rparr>) (retirement_deliveries d) \<rparr>"

definition acknowledgeBatch ::
    "delivery_env \<Rightarrow> db \<Rightarrow> retirement_control list \<Rightarrow> packet \<Rightarrow> string \<Rightarrow> retirement_peer \<Rightarrow> string \<Rightarrow> string + db" where
  "acknowledgeBatch env d cs p localDeviceId peer now =
     (case authenticateRetirementPacket env p peer localDeviceId MEMORY_RETIREMENT_ACK_PATH of
        Inl e \<Rightarrow> Inl e
      | Inr _ \<Rightarrow> (case de_parse env (pk_body p) of
          None \<Rightarrow> Inl ''JSON.parse: invalid JSON''
        | Some v \<Rightarrow>
            (let ps = or_default (as_object v) [] in
             if v = JNull then Inl ''TypeError''
             else if field ''feature'' ps \<noteq> Some (JStr MEMORY_RETIREMENT_FEATURE)
                \<or> field ''batchDigest'' ps
                    \<noteq> Some (JStr (batchDigest (au_digest (de_auth env)) (batch_json (rp_device peer) cs)))
             then Inl ''retirement_ack_mismatch''
             else (case recordNonce d (rp_device peer) (pk_nonce p) now of
                     (False, _) \<Rightarrow> Inl ''retirement_nonce_replayed''
                   | (True, d1) \<Rightarrow> Inr (fold (acknowledge_control localDeviceId (rp_device peer) now) cs d1)))))"

datatype replay_status = Unsupported | Idle | Acknowledged

definition replayMemoryRetirements ::
    "delivery_env \<Rightarrow> db \<Rightarrow> string \<Rightarrow> retirement_peer \<Rightarrow> json option \<Rightarrow> string
     \<Rightarrow> (retirement_control list \<Rightarrow> string + packet) \<Rightarrow> string + (nat \<times> replay_status) \<times> db" where
  "replayMemoryRetirements env d localDeviceId peer peerFeatures now exchange =
     (if \<not> supportsSyncFeature peerFeatures MEMORY_RETIREMENT_FEATURE then Inr ((0, Unsupported), d)
      else (case pendingRetirementBatch d localDeviceId (rp_device peer) peerFeatures of
              None \<Rightarrow> Inr ((0, Idle), d)
            | Some cs \<Rightarrow> (case exchange cs of
                Inl e \<Rightarrow> Inl e
              | Inr p \<Rightarrow> (case acknowledgeBatch env d cs p localDeviceId peer now of
                  Inl e \<Rightarrow> Inl e | Inr d1 \<Rightarrow> Inr ((length cs, Acknowledged), d1)))))"


section \<open>What receiving does\<close>

lemma erase_memory_fields [simp]:
  "memories (erase_memory i d) = delete_where (\<lambda>m. m_id m = i) (memories d)" "retirements (erase_memory i d) = retirements d"
  "ops (erase_memory i d) = ops d" "nonces (erase_memory i d) = nonces d"
  by (simp_all add: erase_memory_def clearMemoryRefs_def Let_def)

lemma erase_memories:
  "memories (fold erase_memory ids d) = filter (\<lambda>m. m_id m \<notin> set ids) (memories d)
   \<and> retirements (fold erase_memory ids d) = retirements d \<and> ops (fold erase_memory ids d) = ops d
   \<and> nonces (fold erase_memory ids d) = nonces d"
  by (induction ids arbitrary: d) (auto simp: delete_where_def conj_commute intro!: filter_cong)

definition of_control :: "retirement_input \<Rightarrow> memory_row \<Rightarrow> bool" where
  "of_control i m \<longleftrightarrow> m_import_key m = Some (ri_entity i) \<and> m_scope_id m = Some (ri_scope i)"

lemma cleanup_erases:
  assumes "cleanupRetiredMemory digest d (ri_entity i) (ri_scope i) = Inr d'" "distinct (map m_id (memories d))"
  shows "memories d' = filter (\<lambda>m. \<not> of_control i m) (memories d) \<and> retirements d' = retirements d \<and> ops d' = ops d
    \<and> nonces d' = nonces d"
proof -
  let ?ids = "map m_id (filter (of_control i) (memories d))"
  obtain ss where ss: "snapshotSessionExportKeysForMemoryIds digest True d ?ids = Inr (d\<lparr> sessions := ss \<rparr>)"
    using snapshotSessionExportKeys_only by blast
  have d': "d' = fold erase_memory ?ids (d\<lparr> sessions := ss \<rparr>)"
    using assms(1) ss by (simp add: cleanupRetiredMemory_def of_control_def [abs_def])
  have "m_id m \<in> set ?ids \<longleftrightarrow> of_control i m" if "m \<in> set (memories d)" for m
    using assms(2) that by (auto simp: distinct_map dest: inj_onD)
  then have "filter (\<lambda>m. m_id m \<notin> set ?ids) (memories d) = filter (\<lambda>m. \<not> of_control i m) (memories d)"
    by (intro filter_cong) auto
  then show ?thesis using erase_memories [of ?ids "d\<lparr> sessions := ss \<rparr>"] d' by simp
qed

lemma recordMemoryScopeRetirement_Inr:
  assumes "recordMemoryScopeRetirement True wall now d i source = Inr d'"
  shows "ri_source i = source \<and> memorySourceNamespace (ri_entity i) = Some source
    \<and> isMemoryScopeRetired d' (ri_entity i) (Some (ri_scope i)) \<and> set (retirements d) \<subseteq> set (retirements d')
    \<and> memories d' = memories d \<and> ops d' = ops d \<and> nonces d' = nonces d"
  using assms
  by (auto simp: recordMemoryScopeRetirement_def verifyAuthenticatedMemorySource_def persistBinding_def
      isMemoryScopeRetired_def exists_where_iff validateRetirement_def valid_retirement_text_def
      split: if_splits sum.splits option.splits) blast+

lemma receipt_fields [simp]:
  "memories (receipt i s t d) = memories d" "retirements (receipt i s t d) = retirements d" "ops (receipt i s t d) = ops d"
  "nonces (receipt i s t d) = nonces d"
  by (simp_all add: receipt_def)

lemma isMemoryScopeRetired_more:
  "set (retirements d) \<subseteq> set (retirements d') \<Longrightarrow> isMemoryScopeRetired d e s \<Longrightarrow> isMemoryScopeRetired d' e s"
  by (auto simp: isMemoryScopeRetired_def exists_where_iff split: option.splits)

text \<open>The row is named by a control of the batch.\<close>

definition named_by :: "retirement_control list \<Rightarrow> memory_row \<Rightarrow> bool" where
  "named_by cs m \<longleftrightarrow> list_ex (\<lambda>c. case control_input c of None \<Rightarrow> False | Some i \<Rightarrow> of_control i m) cs"

lemma apply_control_Inr:
  assumes "apply_control env source now c d = Inr d'" "distinct (map m_id (memories d))"
  shows "\<exists>i. control_input c = Some i \<and> ri_source i = source \<and> memorySourceNamespace (ri_entity i) = Some source
    \<and> isMemoryScopeRetired d' (ri_entity i) (Some (ri_scope i)) \<and> set (retirements d) \<subseteq> set (retirements d')
    \<and> memories d' = filter (\<lambda>m. \<not> of_control i m) (memories d) \<and> ops d' = ops d \<and> nonces d' = nonces d"
proof -
  from assms(1) obtain i d1 d2 where run: "control_input c = Some i"
    "recordMemoryScopeRetirement True (de_wall env) now d i source = Inr d1"
    "cleanupRetiredMemory (au_digest (de_auth env)) d1 (ri_entity i) (ri_scope i) = Inr d2" "d' = receipt (ct_id c) source now d2"
    by (auto simp: apply_control_def split: option.splits sum.splits)
  note rec = recordMemoryScopeRetirement_Inr [OF run(2)]
  then have "distinct (map m_id (memories d1))" using assms(2) by simp
  note clean = cleanup_erases [OF run(3) this]
  have "isMemoryScopeRetired d' (ri_entity i) (Some (ri_scope i))"
    using rec clean run(4) isMemoryScopeRetired_more [of d1 d'] by simp
  then show ?thesis using run(1,4) rec clean by simp
qed

lemma apply_controls_Inr:
  assumes "apply_controls env source now cs d = Inr d'" "distinct (map m_id (memories d))"
  shows "(\<forall>c\<in>set cs. \<exists>i. control_input c = Some i \<and> ri_source i = source \<and> memorySourceNamespace (ri_entity i) = Some source
      \<and> isMemoryScopeRetired d' (ri_entity i) (Some (ri_scope i)))
    \<and> set (retirements d) \<subseteq> set (retirements d') \<and> memories d' = filter (\<lambda>m. \<not> named_by cs m) (memories d)
    \<and> ops d' = ops d \<and> nonces d' = nonces d"
  using assms
proof (induction cs arbitrary: d)
  case Nil
  then show ?case by (simp add: named_by_def)
next
  case (Cons c cs)
  from Cons.prems(1) obtain d1 where d1: "apply_control env source now c d = Inr d1" "apply_controls env source now cs d1 = Inr d'"
    by (auto split: sum.splits)
  from apply_control_Inr [OF d1(1) Cons.prems(2)] obtain i where
    i: "control_input c = Some i" "ri_source i = source" "memorySourceNamespace (ri_entity i) = Some source"
      "isMemoryScopeRetired d1 (ri_entity i) (Some (ri_scope i))" "set (retirements d) \<subseteq> set (retirements d1)"
      "memories d1 = filter (\<lambda>m. \<not> of_control i m) (memories d)" "ops d1 = ops d" "nonces d1 = nonces d" by blast
  have "distinct (map m_id (memories d1))" using Cons.prems(2) i(6) by (simp add: distinct_map_filter)
  note rest = Cons.IH [OF d1(2) this]
  then have "isMemoryScopeRetired d' (ri_entity i) (Some (ri_scope i))"
    using i(4) isMemoryScopeRetired_more by blast
  moreover have "memories d' = filter (\<lambda>m. \<not> named_by (c # cs) m) (memories d)"
    using rest i(1,6) by (auto simp: named_by_def intro!: filter_cong)
  ultimately show ?case using rest i by auto
qed

lemma receive_Inr:
  assumes "receiveRetirementBatch env d p me peer features now = Inr (ack, d')" "distinct (map m_id (memories d))"
  shows "\<exists>batch cs. authenticateRetirementPacket env p peer me MEMORY_RETIREMENT_PATH = Inr ()
    \<and> parseRetirementBatch (au_digest (de_auth env)) (de_parse env) (pk_body p) me = Inr (batch, cs)
    \<and> ack = batchDigest (au_digest (de_auth env)) batch
    \<and> \<not> exists_where (\<lambda>r. no_nonce r = pk_nonce p) (nonces d)
    \<and> nonces d' = nonces d @ [\<lparr> no_nonce = pk_nonce p, no_device = rp_device peer, no_created_at = now \<rparr>]
    \<and> (\<forall>c\<in>set cs. \<exists>i. control_input c = Some i \<and> ri_source i = rp_device peer
        \<and> memorySourceNamespace (ri_entity i) = Some (rp_device peer)
        \<and> isMemoryScopeRetired d' (ri_entity i) (Some (ri_scope i)))
    \<and> memories d' = filter (\<lambda>m. \<not> named_by cs m) (memories d) \<and> ops d' = ops d"
proof -
  from assms(1) obtain batch cs d1 where run:
    "authenticateRetirementPacket env p peer me MEMORY_RETIREMENT_PATH = Inr ()"
    "parseRetirementBatch (au_digest (de_auth env)) (de_parse env) (pk_body p) me = Inr (batch, cs)"
    "recordNonce d (rp_device peer) (pk_nonce p) now = (True, d1)"
    "apply_controls env (rp_device peer) now cs d1 = Inr d'" "ack = batchDigest (au_digest (de_auth env)) batch"
    by (auto simp: receiveRetirementBatch_def applyAuthenticatedRetirementControls_def split: if_splits sum.splits prod.splits bool.splits)
  have d1: "\<not> exists_where (\<lambda>r. no_nonce r = pk_nonce p) (nonces d)"
    "d1 = d\<lparr> nonces := nonces d @ [\<lparr> no_nonce = pk_nonce p, no_device = rp_device peer, no_created_at = now \<rparr>] \<rparr>"
    using run(3) by (auto simp: recordNonce_def split: if_splits)
  have "distinct (map m_id (memories d1))" using assms(2) d1 by simp
  from apply_controls_Inr [OF run(4) this] run d1 show ?thesis by auto
qed


section \<open>From source to recipient\<close>

lemma parse_control_json: "parse_control digest (control_json c) = Some c' \<Longrightarrow> c' = c"
  by (cases c) (auto simp: parse_control_def control_json_def field_def Let_def split: if_splits)

lemma parse_controls_json: "parse_controls digest (map control_json cs) = Some cs' \<Longrightarrow> cs' = cs"
  by (induction cs arbitrary: cs') (auto split: option.splits dest: parse_control_json)

lemma parse_batch_json:
  assumes "parseRetirementBatch digest parse body dst = Inr (batch, cs')" "parse body = Some (batch_json dst cs)"
  shows "batch = batch_json dst cs \<and> cs' = cs"
  using assms
  by (auto simp: parseRetirementBatch_def batch_json_def as_object_def field_def Let_def split: if_splits option.splits
      dest: parse_controls_json)

lemma pending_controls:
  assumes "pendingRetirementBatch d src dst feats = Some cs" "c \<in> set cs"
  shows "\<exists>r\<in>set (retirement_deliveries d). c = control_of r \<and> dl_peer r = dst \<and> dl_source r = src \<and> dl_acknowledged_at r = None"
  using assms
proof -
  from assms obtain r where "r \<in> set (take MAX_CONTROLS (sort_key dl_control (filter (\<lambda>r. dl_peer r = dst \<and> dl_source r = src
      \<and> dl_acknowledged_at r = None) (retirement_deliveries d))))" "c = control_of r"
    by (auto simp: pendingRetirementBatch_def Let_def split: if_splits)
  then show ?thesis by (intro bexI [of _ r]) (auto dest: in_set_takeD)
qed

text \<open>An acknowledgement marks the deliveries of its batch, and only those, and the next batch starts after them.\<close>

definition settled :: "retirement_control list \<Rightarrow> string \<Rightarrow> string \<Rightarrow> delivery_row \<Rightarrow> bool" where
  "settled cs me dev r \<longleftrightarrow> dl_control r \<in> ct_id ` set cs \<and> dl_peer r = dev \<and> dl_source r = me"

lemma fold_acknowledge:
  "retirement_deliveries (fold (acknowledge_control me dev now) cs d) = map (\<lambda>r. if settled cs me dev r
     then r\<lparr> dl_acknowledged_at := coalesce (dl_acknowledged_at r) (Some now) \<rparr> else r) (retirement_deliveries d)"
  by (induction cs arbitrary: d)
    (auto simp: settled_def acknowledge_control_def update_where_def coalesce_def split: option.splits)

lemma acknowledged_batch:
  assumes "acknowledgeBatch env d cs p me peer now = Inr d'"
  shows "retirement_deliveries d' = map (\<lambda>r. if settled cs me (rp_device peer) r
      then r\<lparr> dl_acknowledged_at := coalesce (dl_acknowledged_at r) (Some now) \<rparr> else r) (retirement_deliveries d)
    \<and> (\<exists>ps. de_parse env (pk_body p) = Some (JObj ps)
        \<and> field ''batchDigest'' ps = Some (JStr (batchDigest (au_digest (de_auth env)) (batch_json (rp_device peer) cs))))"
proof -
  from assms obtain v d1 where v: "de_parse env (pk_body p) = Some v" "recordNonce d (rp_device peer) (pk_nonce p) now = (True, d1)"
    "field ''batchDigest'' (or_default (as_object v) []) = Some (JStr (batchDigest (au_digest (de_auth env)) (batch_json (rp_device peer) cs)))"
    "d' = fold (acknowledge_control me (rp_device peer) now) cs d1"
    by (auto simp: acknowledgeBatch_def Let_def split: sum.splits option.splits if_splits prod.splits bool.splits)
  have "retirement_deliveries d1 = retirement_deliveries d" using v(2) by (auto simp: recordNonce_def split: if_splits)
  moreover obtain ps where "v = JObj ps" using v(3) by (cases v) (auto simp: as_object_def field_def)
  ultimately show ?thesis using v by (simp add: fold_acknowledge as_object_def)
qed

text \<open>C26: a delivered retirement takes the memory off the recipient. When a recipient accepts the batch its source
  had pending for it, the fence of every control in it stands there, on a memory whose identity names that
  source; exactly the rows the controls name are gone and nothing else of the memories or the log has
  changed; the answer is the digest of this batch; and the same packet is refused from then on.\<close>

theorem retirement_is_delivered:
  assumes "pendingRetirementBatch ds src dst feats = Some cs" "rp_device peer = src"
    "de_parse env (pk_body p) = Some (batch_json dst cs)"
    "receiveRetirementBatch env d p dst peer feats' now = Inr (ack, d')" "distinct (map m_id (memories d))"
  shows "(\<forall>c\<in>set cs. \<exists>r\<in>set (retirement_deliveries ds). c = control_of r \<and> memorySourceNamespace (dl_entity r) = Some src
      \<and> isMemoryScopeRetired d' (dl_entity r) (Some (dl_scope r))
      \<and> (\<forall>m\<in>set (memories d'). \<not> (m_import_key m = Some (dl_entity r) \<and> m_scope_id m = Some (dl_scope r))))
    \<and> memories d' = filter (\<lambda>m. \<not> named_by cs m) (memories d) \<and> ops d' = ops d
    \<and> ack = batchDigest (au_digest (de_auth env)) (batch_json dst cs)
    \<and> receiveRetirementBatch env d' p dst peer feats' later = Inl ''retirement_nonce_replayed''"
proof -
  from receive_Inr [OF assms(4,5)] obtain batch cs' where
    run: "authenticateRetirementPacket env p peer dst MEMORY_RETIREMENT_PATH = Inr ()"
      "parseRetirementBatch (au_digest (de_auth env)) (de_parse env) (pk_body p) dst = Inr (batch, cs')"
      "ack = batchDigest (au_digest (de_auth env)) batch" "memories d' = filter (\<lambda>m. \<not> named_by cs' m) (memories d)" "ops d' = ops d"
      "nonces d' = nonces d @ [\<lparr> no_nonce = pk_nonce p, no_device = rp_device peer, no_created_at = now \<rparr>]"
    and each: "\<forall>c\<in>set cs'. \<exists>i. control_input c = Some i \<and> ri_source i = rp_device peer
        \<and> memorySourceNamespace (ri_entity i) = Some (rp_device peer) \<and> isMemoryScopeRetired d' (ri_entity i) (Some (ri_scope i))"
    by blast
  note same = parse_batch_json [OF run(2) assms(3)]
  have "\<exists>r\<in>set (retirement_deliveries ds). c = control_of r \<and> memorySourceNamespace (dl_entity r) = Some src
      \<and> isMemoryScopeRetired d' (dl_entity r) (Some (dl_scope r))
      \<and> (\<forall>m\<in>set (memories d'). \<not> (m_import_key m = Some (dl_entity r) \<and> m_scope_id m = Some (dl_scope r)))"
    if c: "c \<in> set cs" for c
  proof -
    from pending_controls [OF assms(1) c] obtain r where r: "r \<in> set (retirement_deliveries ds)" "c = control_of r" by blast
    have i: "control_input c = Some \<lparr> ri_entity = dl_entity r, ri_source = dl_source r, ri_scope = dl_scope r \<rparr>"
      by (simp add: r(2) control_input_def control_of_def)
    have "named_by cs m" if "m_import_key m = Some (dl_entity r)" "m_scope_id m = Some (dl_scope r)" for m
      using c i that by (auto simp: named_by_def list_ex_iff of_control_def intro!: bexI [of _ c])
    then show ?thesis using each c same i r assms(2) run(4) by fastforce
  qed
  moreover have "supportsSyncFeature feats' MEMORY_RETIREMENT_FEATURE"
    using assms(4) by (auto simp: receiveRetirementBatch_def split: if_splits)
  then have "receiveRetirementBatch env d' p dst peer feats' later = Inl ''retirement_nonce_replayed''"
    using run(1,2,6) by (simp add: receiveRetirementBatch_def recordNonce_def exists_where_iff)
  ultimately show ?thesis using run(3-5) same by simp
qed

text \<open>A source that wants a memory of its own gone, and the peer that holds it.\<close>

definition retired_entity :: string where
  "retired_entity = qualified_identity ''here'' ''123e4567-e89b-42d3-a456-426614174000''"

definition retired_input :: retirement_input where
  "retired_input = \<lparr> ri_entity = retired_entity, ri_source = ''here'', ri_scope = ''team'' \<rparr>"

definition source_db :: db where
  "source_db = queue_delivery (\<lambda>s. s) retired_input ''there'' empty_db"

definition holding_db :: db where
  "holding_db = sample_db\<lparr> memories := map (\<lambda>m. m\<lparr> m_import_key := Some retired_entity \<rparr>) (memories sample_db) \<rparr>"

definition retired_controls :: "retirement_control list" where
  "retired_controls = map control_of (retirement_deliveries source_db)"

definition sample_delivery :: delivery_env where
  "sample_delivery = \<lparr> de_auth = sample_auth\<lparr> au_digest := (\<lambda>s. s), au_verify := (\<lambda>_ _ _. True) \<rparr>, de_seconds = 1000,
     de_parse = (\<lambda>_. Some (batch_json ''there'' retired_controls)), de_wall = ''2028'' \<rparr>"

definition sample_packet :: packet where
  "sample_packet = \<lparr> pk_body = ''b'', pk_timestamp = ''1000'', pk_nonce = ''n1'', pk_signature = ''v3:AQ=='', pk_recipient = ''there'' \<rparr>"

definition source_peer :: retirement_peer where
  "source_peer = \<lparr> rp_device = ''here'', rp_public_key = ''ssh-ed25519 key'' \<rparr>"

definition retirement_features :: "json option" where
  "retirement_features = Some (JStr MEMORY_RETIREMENT_FEATURE)"

theorem retirement_is_delivered_witness:
  "\<exists>ack d'. receiveRetirementBatch sample_delivery holding_db sample_packet ''there'' source_peer retirement_features ''2028'' = Inr (ack, d')
     \<and> (\<exists>m\<in>set (memories holding_db). m_import_key m = Some retired_entity) \<and> memories d' = []
     \<and> receiveRetirementBatch sample_delivery d' sample_packet ''there'' source_peer retirement_features ''2029''
       = Inl ''retirement_nonce_replayed''"
proof -
  let ?run = "receiveRetirementBatch sample_delivery holding_db sample_packet ''there'' source_peer retirement_features ''2028''"
  have "map_sum id (\<lambda>(ack, d'). ()) ?run = Inr ()" by code_simp
  then obtain ack d' where run: "?run = Inr (ack, d')" by (cases ?run) auto
  have parts: "pendingRetirementBatch source_db ''here'' ''there'' retirement_features = Some retired_controls"
    "rp_device source_peer = ''here''" "distinct (map m_id (memories holding_db))"
    "list_ex (\<lambda>m. m_import_key m = Some retired_entity) (memories holding_db)"
    "filter (\<lambda>m. \<not> named_by retired_controls m) (memories holding_db) = []"
    by code_simp+
  have "de_parse sample_delivery (pk_body sample_packet) = Some (batch_json ''there'' retired_controls)"
    by (simp add: sample_delivery_def)
  from retirement_is_delivered [OF parts(1,2) this run parts(3), of "''2029''"] run parts(4,5) show ?thesis
    by (auto simp: list_ex_iff)
qed

end
