(* ===== verification/Retirement_Trust.thy ===== *)
theory Retirement_Trust
  imports Retirement_Delivery
begin

text \<open>
  The keys under which retirements may still be exchanged with a peer (\<open>packages/core/src/memory-retirement-trust.ts\<close>),
  with the tables of a retirement reset. They stand beside the database: no other part of the program reads them.
\<close>

record trust_row =
  tw_local :: string
  tw_peer :: string
  tw_public_key :: string
  tw_fingerprint :: string

record reset_receiver =
  rs_id :: string
  rs_source :: string
  rs_public_key :: string
  rs_local :: string
  rs_boundary :: string
  rs_next_offset :: nat
  rs_complete :: bool
  rs_last_digest :: "string option"

record reset_manifest =
  mf_id :: string
  mf_peer :: string
  mf_source :: string
  mf_boundary :: string
  mf_controls :: "json list"

record reset_store =
  st_trust :: "trust_row list"
  st_receivers :: "reset_receiver list"
  st_manifests :: "reset_manifest list"

type_synonym reset_db = "db \<times> reset_store"

definition validPin :: "(string \<Rightarrow> string) \<Rightarrow> string option \<Rightarrow> string option \<Rightarrow> string option" where
  "validPin fingerprint publicKey pinned = (case (publicKey, pinned) of
     (Some k, Some f) \<Rightarrow> if k \<noteq> [] \<and> f \<noteq> [] \<and> fingerprint k = f then Some k else None
   | _ \<Rightarrow> None)"

definition pinned_peer :: "db \<Rightarrow> string \<Rightarrow> string option \<times> string option" where
  "pinned_peer d peer = (case first_where (\<lambda>p. p_device p = peer) (peers d) of
     None \<Rightarrow> (None, None) | Some p \<Rightarrow> (p_public_key p, p_pinned_fingerprint p))"

text \<open>The first trusted binding wins.\<close>

definition retainRetirementPeerTrust ::
    "(string \<Rightarrow> string) \<Rightarrow> bool \<Rightarrow> reset_db \<Rightarrow> string \<Rightarrow> string \<Rightarrow> string + reset_db" where
  "retainRetirementPeerTrust fingerprint in_tx w me peer =
     (if \<not> in_tx then Inl ''retirement_trust_transaction_required''
      else (case pinned_peer (fst w) peer of (publicKey, pinned) \<Rightarrow>
        (case validPin fingerprint publicKey pinned of
           None \<Rightarrow> Inr w
         | Some k \<Rightarrow> Inr (fst w, (snd w)\<lparr> st_trust := insert_or_ignore (\<lambda>r. (tw_local r, tw_peer r))
             \<lparr> tw_local = me, tw_peer = peer, tw_public_key = k, tw_fingerprint = or_default pinned [] \<rparr>
             (st_trust (snd w)) \<rparr>))))"

definition getRetirementPeer :: "(string \<Rightarrow> string) \<Rightarrow> reset_db \<Rightarrow> string \<Rightarrow> string \<Rightarrow> retirement_peer option" where
  "getRetirementPeer fingerprint w me peer =
     (case (case first_where (\<lambda>r. tw_local r = me \<and> tw_peer r = peer) (st_trust (snd w)) of
          Some r \<Rightarrow> (Some (tw_public_key r), Some (tw_fingerprint r))
        | None \<Rightarrow> pinned_peer (fst w) peer) of (publicKey, pinned) \<Rightarrow>
      map_option (\<lambda>k. \<lparr> rp_device = peer, rp_public_key = k \<rparr>) (validPin fingerprint publicKey pinned))"

end
