(* ===== verification/Snapshot_Bootstrap.thy ===== *)
theory Snapshot_Bootstrap
  imports Snapshot_Pages Sync_Cursors
begin

text \<open>
  Rebuilding a scope from a peer's snapshot (\<open>packages/core/src/sync-bootstrap.ts\<close>): the destructive
  \<open>applyBootstrapSnapshot\<close> and the additive \<open>mergeBootstrapSnapshot\<close>. Both run in one transaction: the
  result is \<open>Inl\<close> of the exception, with the database of the start, or the counts and the new database.
  Deleting a memory deletes its references (the foreign keys cascade). The session cache of the module
  is emptied at the start of each call, so it is a local list here. \<open>br_embeddable\<close> is what the vector
  backfill is queued for.
\<close>

record bootstrap_env =
  be_now :: string
  be_fresh :: string
  be_scan :: "string \<Rightarrow> string"
  be_redact :: "json_obj \<Rightarrow> json_obj"
  be_sha256 :: "string \<Rightarrow> string"

record bootstrap_result =
  br_applied :: nat
  br_deleted :: nat
  br_embeddable :: nat

section \<open>Items\<close>

definition parseSnapshotPayload :: "snapshot_page_item \<Rightarrow> json_obj option" where
  "parseSnapshotPayload item =
     (if text_is_empty (Some (sp_payload item)) then None
      else (case json_parse (sp_payload item) of None \<Rightarrow> None | Some v \<Rightarrow> as_object v))"

definition text_field :: "string \<Rightarrow> string \<Rightarrow> json_obj \<Rightarrow> string" where
  "text_field k fallback p = or_default (as_text (field k p)) fallback"

definition number_field :: "string \<Rightarrow> json_obj \<Rightarrow> rat option" where
  "number_field k p = (case field k p of Some (JNum q) \<Rightarrow> Some q | _ \<Rightarrow> None)"

definition array_field :: "string \<Rightarrow> json_obj \<Rightarrow> json_text option" where
  "array_field k p = (case field k p of Some (JArr vs) \<Rightarrow> Some (JsonDoc (JArr vs)) | _ \<Rightarrow> None)"

definition isEmbeddableSnapshotPayload :: "json_obj \<Rightarrow> bool" where
  "isEmbeddableSnapshotPayload p = (js_trim (text_field ''title'' [] p @ CHR 0x0A # text_field ''body_text'' [] p) \<noteq> [])"

definition retirementSnapshotItems :: "db \<Rightarrow> snapshot_page_item list \<Rightarrow> string option \<Rightarrow> snapshot_page_item list" where
  "retirementSnapshotItems d items scope = filter (\<lambda>item. case parseSnapshotPayload item of
     None \<Rightarrow> False | Some p \<Rightarrow> retirementAllowsSnapshot d (sp_entity item) p scope) items"

definition normalizeBootstrapScopeId :: "json option \<Rightarrow> string option" where
  "normalizeBootstrapScopeId v = cleanText v"

definition snapshotPayloadScopeId :: "json_obj \<Rightarrow> string option \<Rightarrow> string option" where
  "snapshotPayloadScopeId p bootstrapScopeId =
     coalesce bootstrapScopeId (normalizeBootstrapScopeId (field ''scope_id'' p))"

text \<open>Whether the items may be applied to the scope; \<open>False\<close> is the exception \<open>scope_mismatch\<close>.\<close>

definition validateSnapshotScopes :: "snapshot_page_item list \<Rightarrow> string option \<Rightarrow> bool" where
  "validateSnapshotScopes items bootstrapScopeId \<longleftrightarrow>
     bootstrapScopeId \<noteq> Some DEFAULT_SYNC_SCOPE_ID
     \<and> list_all (\<lambda>item. case parseSnapshotPayload item of
          None \<Rightarrow> True
        | Some p \<Rightarrow> bootstrapScopeId \<noteq> None
            \<and> (case normalizeBootstrapScopeId (field ''scope_id'' p) of
                 None \<Rightarrow> True | Some s \<Rightarrow> Some s = bootstrapScopeId)) items"

subsection \<open>Redaction of an untyped payload\<close>

definition redact_field :: "(json \<Rightarrow> json) \<Rightarrow> string \<Rightarrow> json_obj \<Rightarrow> json_obj" where
  "redact_field f k p = (case field k p of None \<Rightarrow> p | Some v \<Rightarrow> set_field k (f v) p)"

definition scan_string :: "(string \<Rightarrow> string) \<Rightarrow> json \<Rightarrow> json" where
  "scan_string scan v = (case v of JStr s \<Rightarrow> if s = [] then v else JStr (scan s) | _ \<Rightarrow> v)"

definition scan_tags :: "(string \<Rightarrow> string) \<Rightarrow> json \<Rightarrow> json" where
  "scan_tags scan v = (case v of
     JStr s \<Rightarrow> if s = [] then v else JStr (join_text '' '' (map scan (space_words [] s))) | _ \<Rightarrow> v)"

text \<open>An array under \<open>metadata_json\<close> is redacted too, and then not stored.\<close>

definition scan_metadata :: "(json_obj \<Rightarrow> json_obj) \<Rightarrow> json \<Rightarrow> json" where
  "scan_metadata redact v = (case v of JObj ps \<Rightarrow> JObj (redact ps) | _ \<Rightarrow> v)"

definition redact_payload :: "(string \<Rightarrow> string) \<Rightarrow> (json_obj \<Rightarrow> json_obj) \<Rightarrow> json_obj \<Rightarrow> json_obj" where
  "redact_payload scan redact p =
     redact_field (scan_metadata redact) ''metadata_json''
      (fold (redact_field (redact_list scan)) [''facts'', ''concepts'', ''files_read'', ''files_modified'']
        (redact_field (scan_tags scan) ''tags_text''
          (fold (redact_field (scan_string scan))
             [''title'', ''subtitle'', ''body_text'', ''narrative'', ''actor_display_name'', ''origin_source''] p)))"

section \<open>Sessions\<close>

definition SYNC_BOOTSTRAP_CWD_PREFIX :: string where "SYNC_BOOTSTRAP_CWD_PREFIX = ''__sync_bootstrap__''"

type_synonym session_cache = "(string \<times> int) list"

definition bootstrap_session :: "string \<Rightarrow> string \<Rightarrow> string option \<Rightarrow> int \<Rightarrow> session_row" where
  "bootstrap_session now cwd project i = \<lparr> s_id = i, s_started_at = now, s_ended_at = None, s_cwd = Some cwd,
     s_project = project, s_git_remote = None, s_git_branch = None, s_user = Some ''sync'',
     s_tool_version = Some ''bootstrap'', s_metadata = None, s_import_key = None \<rparr>"

definition ensureSessionForBootstrap ::
    "string \<Rightarrow> string option \<Rightarrow> session_cache \<times> db \<Rightarrow> int \<times> session_cache \<times> db" where
  "ensureSessionForBootstrap now project st = (case st of (cache, d) \<Rightarrow>
     (let projectKey = or_default project ''__none__'' in
      case map_of cache projectKey of
        Some i \<Rightarrow> (i, cache, d)
      | None \<Rightarrow>
          let cwd = (case project of None \<Rightarrow> SYNC_BOOTSTRAP_CWD_PREFIX
                     | Some p \<Rightarrow> SYNC_BOOTSTRAP_CWD_PREFIX @ CHR '':'' # p) in
          (case first_where (\<lambda>s. s_cwd s = Some cwd) (sessions d) of
             Some s \<Rightarrow> (s_id s, (projectKey, s_id s) # cache, d)
           | None \<Rightarrow> let i = next_session_id d in
               (i, (projectKey, i) # cache, d\<lparr> sessions := sessions d @ [bootstrap_session now cwd project i] \<rparr>))))"

section \<open>Writing one item\<close>

definition snapshot_metadata :: "json_obj \<Rightarrow> string \<Rightarrow> json_obj" where
  "snapshot_metadata p clockDeviceId = set_field ''clock_device_id'' (JStr clockDeviceId) (metadataRecord (Some p))"

definition bootstrap_row :: "snapshot_page_item \<Rightarrow> json_obj \<Rightarrow> string option \<Rightarrow> int \<Rightarrow> int \<Rightarrow> memory_row" where
  "bootstrap_row item p scopeId sessionId rowid =
     (let isDeleted = (sp_op_type item = ''delete''); opt = (\<lambda>k. as_text (field k p)) in \<lparr>
     m_id = rowid, m_session_id = sessionId,
     m_kind = text_field ''kind'' ''discovery'' p, m_title = text_field ''title'' [] p,
     m_subtitle = opt ''subtitle'', m_body_text = text_field ''body_text'' [] p,
     m_confidence = Some (or_default (number_field ''confidence'' p) (1 / 2)),
     m_tags_text = Some (text_field ''tags_text'' [] p),
     m_active = Some (if isDeleted then 0 else 1),
     m_created_at = text_field ''created_at'' (sp_clock_updated_at item) p,
     m_updated_at = sp_clock_updated_at item,
     m_metadata = Some (toJson (JObj (snapshot_metadata p (sp_clock_device item)))),
     m_actor_id = opt ''actor_id'', m_actor_display_name = opt ''actor_display_name'',
     m_visibility = Some (text_field ''visibility'' ''shared'' p),
     m_workspace_id = Some (text_field ''workspace_id'' ''shared:default'' p),
     m_workspace_kind = Some (text_field ''workspace_kind'' ''shared'' p),
     m_origin_device_id = Some (text_field ''origin_device_id'' (sp_clock_device item) p),
     m_origin_source = opt ''origin_source'', m_trust_state = Some (text_field ''trust_state'' ''trusted'' p),
     m_facts = array_field ''facts'' p, m_narrative = opt ''narrative'', m_concepts = array_field ''concepts'' p,
     m_files_read = array_field ''files_read'' p, m_files_modified = array_field ''files_modified'' p,
     m_user_prompt_id = number_field ''user_prompt_id'' p, m_prompt_number = number_field ''prompt_number'' p,
     m_deleted_at = (if isDeleted then Some (sp_clock_updated_at item) else None),
     m_rev = Some (sp_clock_rev item), m_dedup_key = None, m_import_key = Some (sp_entity item),
     m_scope_id = scopeId, m_project = cleanText (field ''project'' p) \<rparr>)"

record inserted_item =
  ii_applied :: bool
  ii_embeddable :: bool

definition insertSnapshotItem ::
    "bootstrap_env \<Rightarrow> snapshot_page_item \<Rightarrow> string option \<Rightarrow> session_cache \<times> db \<Rightarrow> inserted_item \<times> session_cache \<times> db" where
  "insertSnapshotItem env item bootstrapScopeId st = (case parseSnapshotPayload item of
     None \<Rightarrow> (\<lparr> ii_applied = False, ii_embeddable = False \<rparr>, st)
   | Some raw \<Rightarrow>
       let p = redact_payload (be_scan env) (be_redact env) raw;
           scopeId = snapshotPayloadScopeId p bootstrapScopeId;
           (sessionId, cache, d) = ensureSessionForBootstrap (be_now env) (cleanText (field ''project'' p)) st
       in (\<lparr> ii_applied = True, ii_embeddable = (sp_op_type item \<noteq> ''delete'' \<and> isEmbeddableSnapshotPayload p) \<rparr>,
           cache, d\<lparr> memories := memories d @ [bootstrap_row item p scopeId sessionId (next_memory_id d)] \<rparr>))"

definition delete_memories :: "(memory_row \<Rightarrow> bool) \<Rightarrow> db \<Rightarrow> db" where
  "delete_memories p d = (let gone = map m_id (filter p (memories d)) in
     d\<lparr> memories := delete_where p (memories d),
        file_refs := delete_where (\<lambda>f. ff_memory f \<in> set gone) (file_refs d),
        concept_refs := delete_where (\<lambda>c. cf_memory c \<in> set gone) (concept_refs d) \<rparr>)"

text \<open>\<open>COALESCE(visibility, '') != 'private'\<close>.\<close>

definition not_private :: "memory_row \<Rightarrow> bool" where
  "not_private m \<longleftrightarrow> or_default (m_visibility m) [] \<noteq> ''private''"

definition replaceable :: "string \<Rightarrow> memory_row \<Rightarrow> bool" where
  "replaceable scopeId m \<longleftrightarrow> m_import_key m \<noteq> None \<and> m_scope_id m = Some scopeId \<and> not_private m"

definition deleteSyncedMemoriesInScope :: "bootstrap_env \<Rightarrow> db \<Rightarrow> string \<Rightarrow> string + nat \<times> db" where
  "deleteSyncedMemoriesInScope env d scopeId =
     (let affected = filter (replaceable scopeId) (memories d) in
      case snapshotSessionExportKeysForMemoryIds (be_sha256 env) True d (map m_id affected) of
        Inl e \<Rightarrow> Inl e
      | Inr d1 \<Rightarrow> Inr (length affected, delete_memories (replaceable scopeId) d1))"

section \<open>The cursor and the boundary\<close>

definition SCOPED_NULL_BASELINE_BOOTSTRAP_CURSOR_MARKER :: string where
  "SCOPED_NULL_BASELINE_BOOTSTRAP_CURSOR_MARKER = ''__codemem_scoped_null_baseline_bootstrap__''"

definition clearScopedAckedCursor :: "string \<Rightarrow> db \<Rightarrow> string \<Rightarrow> string \<Rightarrow> db" where
  "clearScopedAckedCursor now d peerDeviceId scopeId =
     d\<lparr> cursors := update_where (\<lambda>c. cursor_key c = (peerDeviceId, scopeId))
          (\<lambda>c. c\<lparr> cr_last_acked := None, cr_updated_at := now \<rparr>) (cursors d) \<rparr>"

definition given :: "string option \<Rightarrow> bool" where
  "given v \<longleftrightarrow> or_default v [] \<noteq> []"

definition bootstrap_cursor :: "bootstrap_env \<Rightarrow> db \<Rightarrow> string \<Rightarrow> reset_boundary \<Rightarrow> db" where
  "bootstrap_cursor env d peerDeviceId info =
     (let scope = rb_scope_id info; baseline = rb_baseline_cursor info in
      if given baseline \<or> given scope
      then (let d1 = (if given scope \<and> \<not> given baseline
                      then clearReplicationCursorLastApplied (be_now env) d peerDeviceId scope else d);
                d2 = (if given scope \<and> given baseline
                      then clearScopedAckedCursor (be_now env) d1 peerDeviceId (or_default scope []) else d1)
            in setReplicationCursor (be_now env) d2 peerDeviceId baseline
                 (if given baseline then None else Some SCOPED_NULL_BASELINE_BOOTSTRAP_CURSOR_MARKER) scope)
      else d)"

definition bootstrap_boundary :: "reset_boundary \<Rightarrow> reset_updates" where
  "bootstrap_boundary info = \<lparr> ru_scope_id = None, ru_generation = Some (rb_generation info),
     ru_snapshot_id = Some (rb_snapshot_id info), ru_baseline_cursor = Some (rb_baseline_cursor info),
     ru_retained_floor_cursor = None \<rparr>"

definition advanceMergedSnapshotBoundary :: "bootstrap_env \<Rightarrow> db \<Rightarrow> string \<Rightarrow> reset_boundary \<Rightarrow> bool \<Rightarrow> db" where
  "advanceMergedSnapshotBoundary env d peerDeviceId info preserve =
     (if preserve then d
      else snd (setSyncResetState (be_now env) (be_fresh env) (bootstrap_cursor env d peerDeviceId info)
             (bootstrap_boundary info) (map_option Some (rb_scope_id info))))"

section \<open>The two ways to apply a snapshot\<close>

record bootstrap_state =
  bs_cache :: session_cache
  bs_db :: db
  bs_result :: bootstrap_result

definition record_item ::
    "bootstrap_env \<Rightarrow> snapshot_page_item \<Rightarrow> string option \<Rightarrow> bootstrap_state \<Rightarrow> string + bootstrap_state" where
  "record_item env item scope st =
     (let (inserted, cache, d) = insertSnapshotItem env item scope (bs_cache st, bs_db st) in
      if \<not> ii_applied inserted then Inr (st\<lparr> bs_cache := cache, bs_db := d \<rparr>)
      else (case recordForeignMemoryRevision True (be_now env) d (sp_entity item) BootstrapPath of
              Inl e \<Rightarrow> Inl e
            | Inr d1 \<Rightarrow> Inr \<lparr> bs_cache = cache, bs_db = d1, bs_result = (bs_result st)
                \<lparr> br_applied := br_applied (bs_result st) + 1,
                  br_embeddable := br_embeddable (bs_result st) + (if ii_embeddable inserted then 1 else 0) \<rparr> \<rparr>))"

fun record_items ::
    "bootstrap_env \<Rightarrow> snapshot_page_item list \<Rightarrow> string option \<Rightarrow> bootstrap_state \<Rightarrow> string + bootstrap_state" where
  "record_items env [] scope st = Inr st"
| "record_items env (item # items) scope st =
     (case record_item env item scope st of Inl e \<Rightarrow> Inl e | Inr st1 \<Rightarrow> record_items env items scope st1)"

definition applyBootstrapSnapshot ::
    "bootstrap_env \<Rightarrow> db \<Rightarrow> string \<Rightarrow> snapshot_page_item list \<Rightarrow> reset_boundary \<Rightarrow> string + bootstrap_result \<times> db" where
  "applyBootstrapSnapshot env d peerDeviceId items info =
     (let scope = clean_text (rb_scope_id info) in
      if \<not> validateSnapshotScopes items scope then Inl ''scope_mismatch''
      else (case (case scope of None \<Rightarrow> Inr (0, d) | Some s \<Rightarrow> deleteSyncedMemoriesInScope env d s) of
         Inl e \<Rightarrow> Inl e
       | Inr (deleted, d1) \<Rightarrow>
           (case record_items env (retirementSnapshotItems d1 items scope) scope
                   \<lparr> bs_cache = [], bs_db = d1,
                     bs_result = \<lparr> br_applied = 0, br_deleted = deleted, br_embeddable = 0 \<rparr> \<rparr> of
              Inl e \<Rightarrow> Inl e
            | Inr st \<Rightarrow> Inr (bs_result st, snd (setSyncResetState (be_now env) (be_fresh env)
                (bootstrap_cursor env (bs_db st) peerDeviceId info)
                (bootstrap_boundary info) (map_option Some (rb_scope_id info)))))))"

definition item_clock :: "snapshot_page_item \<Rightarrow> clock" where
  "item_clock item = clockTuple (sp_clock_rev item) (sp_clock_updated_at item) (sp_clock_device item)"

definition shouldReplaceExistingSnapshotRows :: "memory_row list \<Rightarrow> snapshot_page_item \<Rightarrow> bool" where
  "shouldReplaceExistingSnapshotRows existing item \<longleftrightarrow>
     list_all (\<lambda>m. isNewerClock (item_clock item) (row_clock m)) existing"

definition merge_target :: "string option \<Rightarrow> snapshot_page_item \<Rightarrow> memory_row \<Rightarrow> bool" where
  "merge_target scope item m \<longleftrightarrow> m_import_key m = Some (sp_entity item)
     \<and> (case scope of Some s \<Rightarrow> m_scope_id m = Some s
        | None \<Rightarrow> m_scope_id m = None \<or> m_scope_id m = Some DEFAULT_SYNC_SCOPE_ID)
     \<and> not_private m"

definition merge_item ::
    "bootstrap_env \<Rightarrow> snapshot_page_item \<Rightarrow> string option \<Rightarrow> bootstrap_state \<Rightarrow> string + bootstrap_state" where
  "merge_item env item scope st =
     (if parseSnapshotPayload item = None then Inr st
      else (let existing = filter (merge_target scope item) (memories (bs_db st)) in
        if \<not> shouldReplaceExistingSnapshotRows existing item then Inr st
        else if existing = [] then record_item env item scope st
        else (case snapshotSessionExportKeysForMemoryIds (be_sha256 env) True (bs_db st) (map m_id existing) of
                Inl e \<Rightarrow> Inl e
              | Inr d1 \<Rightarrow>
                  let gone = (\<lambda>m. m_id m \<in> set (map m_id existing)) in
                  record_item env item scope (st\<lparr> bs_db := delete_memories gone d1,
                    bs_result := (bs_result st)\<lparr> br_deleted := br_deleted (bs_result st)
                      + length (filter gone (memories d1)) \<rparr> \<rparr>))))"

fun merge_items ::
    "bootstrap_env \<Rightarrow> snapshot_page_item list \<Rightarrow> string option \<Rightarrow> bootstrap_state \<Rightarrow> string + bootstrap_state" where
  "merge_items env [] scope st = Inr st"
| "merge_items env (item # items) scope st =
     (case merge_item env item scope st of Inl e \<Rightarrow> Inl e | Inr st1 \<Rightarrow> merge_items env items scope st1)"

definition mergeBootstrapSnapshot ::
    "bootstrap_env \<Rightarrow> db \<Rightarrow> string \<Rightarrow> snapshot_page_item list \<Rightarrow> reset_boundary \<Rightarrow> bool \<Rightarrow> string + bootstrap_result \<times> db" where
  "mergeBootstrapSnapshot env d peerDeviceId items info preserve =
     (let scope = clean_text (rb_scope_id info) in
      if \<not> validateSnapshotScopes items scope then Inl ''scope_mismatch''
      else (case merge_items env (retirementSnapshotItems d items scope) scope
                   \<lparr> bs_cache = [], bs_db = d, bs_result = \<lparr> br_applied = 0, br_deleted = 0, br_embeddable = 0 \<rparr> \<rparr> of
              Inl e \<Rightarrow> Inl e
            | Inr st \<Rightarrow> Inr (bs_result st, advanceMergedSnapshotBoundary env (bs_db st) peerDeviceId info preserve)))"

section \<open>What writing items does\<close>

text \<open>Tables that writing an item leaves alone.\<close>

definition same_logs :: "db \<Rightarrow> db \<Rightarrow> bool" where
  "same_logs d d' \<longleftrightarrow> ops d' = ops d \<and> retirements d' = retirements d \<and> cursors d' = cursors d
     \<and> legacy_cursors d' = legacy_cursors d \<and> reset_states d' = reset_states d \<and> legacy_reset d' = legacy_reset d
     \<and> scopes d' = scopes d \<and> memberships d' = memberships d"

lemma same_logs_refl [simp]: "same_logs d d"
  by (simp add: same_logs_def)

lemma same_logs_trans: "same_logs a b \<Longrightarrow> same_logs b c \<Longrightarrow> same_logs a c"
  by (simp add: same_logs_def)

lemma same_logs_sessions [simp]: "same_logs d (d\<lparr> sessions := ss \<rparr>)" "same_logs d (d\<lparr> memories := ms \<rparr>)"
  "same_logs d (delete_memories p d)" "same_logs d (note_foreign_revision now d e path)"
  by (simp_all add: same_logs_def delete_memories_def note_foreign_revision_def Let_def)

lemma ensureSession_only:
  "ensureSessionForBootstrap now project (cache, d) = (i, cache', d') \<Longrightarrow> \<exists>ss. d' = d\<lparr> sessions := ss \<rparr>"
  by (auto simp: ensureSessionForBootstrap_def Let_def split: option.splits intro: exI [of _ "sessions d"])

text \<open>The row an item is written to.\<close>

definition written_row :: "bootstrap_env \<Rightarrow> string option \<Rightarrow> snapshot_page_item \<Rightarrow> memory_row \<Rightarrow> bool" where
  "written_row env scope item m \<longleftrightarrow> (case parseSnapshotPayload item of None \<Rightarrow> False
     | Some raw \<Rightarrow> let p = redact_payload (be_scan env) (be_redact env) raw in
         m = bootstrap_row item p (snapshotPayloadScopeId p scope) (m_session_id m) (m_id m))"

lemma fresh_memory_id: "next_memory_id d \<notin> set (map m_id (memories d))"
proof
  assume "next_memory_id d \<in> set (map m_id (memories d))"
  then have "next_memory_id d \<le> Max (insert 0 (set (map m_id (memories d))))" by (intro Max_ge) auto
  then show False by (simp add: next_memory_id_def)
qed

lemma record_item_writes:
  assumes "parseSnapshotPayload item \<noteq> None"
  shows "\<exists>st1 m. record_item env item scope st = Inr st1 \<and> written_row env scope item m
    \<and> m_id m = next_memory_id (bs_db st)
    \<and> memories (bs_db st1) = memories (bs_db st) @ [m] \<and> same_logs (bs_db st) (bs_db st1)
    \<and> br_applied (bs_result st1) = br_applied (bs_result st) + 1 \<and> br_deleted (bs_result st1) = br_deleted (bs_result st)"
proof -
  from assms obtain raw where raw: "parseSnapshotPayload item = Some raw" by blast
  let ?p = "redact_payload (be_scan env) (be_redact env) raw"
  obtain i cache d where s: "ensureSessionForBootstrap (be_now env) (cleanText (field ''project'' ?p)) (bs_cache st, bs_db st) = (i, cache, d)"
    using prod_cases3 by blast
  from ensureSession_only [OF s] obtain ss where d: "d = bs_db st\<lparr> sessions := ss \<rparr>" by blast
  have id: "next_memory_id d = next_memory_id (bs_db st)" by (simp add: d next_memory_id_def)
  let ?m = "bootstrap_row item ?p (snapshotPayloadScopeId ?p scope) i (next_memory_id d)"
  let ?d1 = "note_foreign_revision (be_now env) (d\<lparr> memories := memories d @ [?m] \<rparr>) (sp_entity item) BootstrapPath"
  have "memories ?d1 = memories (bs_db st) @ [?m]" by (simp add: d)
  moreover have "same_logs (bs_db st) ?d1"
    using same_logs_trans [of "bs_db st" d "d\<lparr> memories := memories d @ [?m] \<rparr>"]
      same_logs_trans [of "bs_db st" "d\<lparr> memories := memories d @ [?m] \<rparr>" ?d1] by (simp add: d)
  moreover have "written_row env scope item ?m" by (simp add: written_row_def raw Let_def bootstrap_row_def)
  moreover have "m_id ?m = next_memory_id (bs_db st)" by (simp add: bootstrap_row_def Let_def id)
  moreover have "record_item env item scope st = Inr \<lparr> bs_cache = cache, bs_db = ?d1, bs_result = (bs_result st)
      \<lparr> br_applied := br_applied (bs_result st) + 1, br_embeddable := br_embeddable (bs_result st)
        + (if sp_op_type item \<noteq> ''delete'' \<and> isEmbeddableSnapshotPayload ?p then 1 else 0) \<rparr> \<rparr>"
    using s by (simp add: record_item_def insertSnapshotItem_def raw Let_def recordForeignMemoryRevision_def)
  ultimately show ?thesis by simp
qed

lemma record_items_writes:
  assumes "\<forall>item\<in>set items. parseSnapshotPayload item \<noteq> None"
  shows "\<exists>st1 rows. record_items env items scope st = Inr st1 \<and> list_all2 (written_row env scope) items rows
    \<and> memories (bs_db st1) = memories (bs_db st) @ rows \<and> same_logs (bs_db st) (bs_db st1)
    \<and> br_applied (bs_result st1) = br_applied (bs_result st) + length items
    \<and> br_deleted (bs_result st1) = br_deleted (bs_result st)"
  using assms
proof (induction items arbitrary: st)
  case (Cons item items)
  from Cons.prems record_item_writes [of item env scope st] obtain st1 m where
    one: "record_item env item scope st = Inr st1" "written_row env scope item m"
      "memories (bs_db st1) = memories (bs_db st) @ [m]" "same_logs (bs_db st) (bs_db st1)"
      "br_applied (bs_result st1) = br_applied (bs_result st) + 1" "br_deleted (bs_result st1) = br_deleted (bs_result st)"
    by auto
  from Cons.IH [of st1] Cons.prems obtain st2 rows where
    rest: "record_items env items scope st1 = Inr st2" "list_all2 (written_row env scope) items rows"
      "memories (bs_db st2) = memories (bs_db st1) @ rows" "same_logs (bs_db st1) (bs_db st2)"
      "br_applied (bs_result st2) = br_applied (bs_result st1) + length items"
      "br_deleted (bs_result st2) = br_deleted (bs_result st1)" by auto
  show ?case
    by (rule exI [of _ st2], rule exI [of _ "m # rows"])
      (use one rest same_logs_trans [OF one(4) rest(4)] in simp)
qed simp

text \<open>What is known of a written row, whatever the payload.\<close>

lemma written_row_facts:
  assumes "written_row env (Some s) item m"
  shows "m_import_key m = Some (sp_entity item)" "m_scope_id m = Some s" "row_clock m = item_clock item"
    "m_active m = Some (if sp_op_type item = ''delete'' then 0 else 1)"
proof -
  from assms obtain p i j where m: "m = bootstrap_row item p (snapshotPayloadScopeId p (Some s)) i j"
    by (auto simp: written_row_def Let_def split: option.splits)
  show "m_import_key m = Some (sp_entity item)" "m_scope_id m = Some s"
    "m_active m = Some (if sp_op_type item = ''delete'' then 0 else 1)"
    by (simp_all add: m bootstrap_row_def Let_def snapshotPayloadScopeId_def)
  show "row_clock m = item_clock item"
    by (simp add: m bootstrap_row_def Let_def row_clock_def item_clock_def clockDeviceIdFromMetadataJson_def
        snapshot_metadata_def toJson_def fromJson_def text_is_empty_def json_parse_def as_object_def as_text_def)
qed

lemma delete_synced:
  "\<exists>d1. deleteSyncedMemoriesInScope env d s = Inr (length (filter (replaceable s) (memories d)), d1)
    \<and> memories d1 = delete_where (replaceable s) (memories d) \<and> same_logs d d1"
proof -
  obtain ss where ss: "snapshotSessionExportKeysForMemoryIds (be_sha256 env) True d
      (map m_id (filter (replaceable s) (memories d))) = Inr (d\<lparr> sessions := ss \<rparr>)"
    using snapshotSessionExportKeys_only by blast
  have "same_logs d (delete_memories (replaceable s) (d\<lparr> sessions := ss \<rparr>))"
    using same_logs_trans [OF same_logs_sessions(1) same_logs_sessions(3)] .
  then show ?thesis
    by (simp add: deleteSyncedMemoriesInScope_def ss Let_def) (simp add: delete_memories_def Let_def)
qed

lemma retirement_items_parse:
  "item \<in> set (retirementSnapshotItems d items scope) \<Longrightarrow> parseSnapshotPayload item \<noteq> None"
  by (auto simp: retirementSnapshotItems_def split: option.splits)

lemma retirementAllowsSnapshot_same:
  "retirements d' = retirements d \<Longrightarrow> retirementAllowsSnapshot d' = retirementAllowsSnapshot d"
proof -
  assume r: "retirements d' = retirements d"
  have "hasMemoryScopeRetirement d' = hasMemoryScopeRetirement d" "isMemoryScopeRetired d' = isMemoryScopeRetired d"
    by (intro ext; simp add: r hasMemoryScopeRetirement_def isMemoryScopeRetired_def split: option.split)+
  then show ?thesis by (intro ext) (simp only: retirementAllowsSnapshot_def)
qed

lemma retirement_items_same:
  "retirements d' = retirements d \<Longrightarrow> retirementSnapshotItems d' items scope = retirementSnapshotItems d items scope"
  by (simp only: retirementSnapshotItems_def retirementAllowsSnapshot_same [of d' d])

section \<open>The cursor and the boundary after it\<close>

lemma reset_frame [simp]:
  "memories (snd (setSyncResetState now fresh d u k)) = memories d" "ops (snd (setSyncResetState now fresh d u k)) = ops d"
  "cursors (snd (setSyncResetState now fresh d u k)) = cursors d"
  "legacy_cursors (snd (setSyncResetState now fresh d u k)) = legacy_cursors d"
  "retirements (snd (setSyncResetState now fresh d u k)) = retirements d"
  by (simp_all add: setSyncResetState_def getSyncResetState_def write_boundary_def seed_reset_def Let_def
      seedDefaultSyncResetStateFromLegacy_def mirrorDefaultSyncResetStateToLegacy_def split: option.splits)

lemma bootstrap_cursor_frame [simp]:
  "memories (bootstrap_cursor env d peer info) = memories d" "ops (bootstrap_cursor env d peer info) = ops d"
  "retirements (bootstrap_cursor env d peer info) = retirements d"
  by (simp_all add: bootstrap_cursor_def setReplicationCursor_def clearReplicationCursorLastApplied_def Let_def
      clearScopedAckedCursor_def seed_for_scope_def seedDefaultReplicationCursorFromLegacy_def
      mirrorDefaultReplicationCursorToLegacy_def)

lemma read_cursor_frame:
  "cursors d' = cursors d \<Longrightarrow> legacy_cursors d' = legacy_cursors d \<Longrightarrow> read_cursor d' k = read_cursor d k"
  by (simp add: read_cursor_def getReplicationCursor_visible visible_cursor_def find_cursor_def)

lemma find_cursor_clear:
  assumes "\<And>c. cursor_key (f c) = cursor_key c"
  shows "find_cursor p s (d\<lparr> cursors := update_where (\<lambda>c. cursor_key c = k) f (cursors d) \<rparr>)
    = map_option (\<lambda>c. if cursor_key c = k then f c else c) (find_cursor p s d)"
  using assms by (simp add: find_cursor_def first_where_update)

text \<open>After a bootstrap of a scope its cursor is the peer's baseline and nothing is acknowledged; without a baseline
  the marker says that the bootstrap took place.\<close>

lemma bootstrap_cursor_reads:
  assumes "rb_scope_id info = Some s" "clean_text (Some s) = Some s" "s \<noteq> DEFAULT_SYNC_SCOPE_ID"
  shows "read_cursor (bootstrap_cursor env d peer info) (peer, Some s)
    = (rb_baseline_cursor info,
       if given (rb_baseline_cursor info) then None else Some SCOPED_NULL_BASELINE_BOOTSTRAP_CURSOR_MARKER)"
proof -
  have s: "normalizeSyncStateScopeId (Some s) = s" "s \<noteq> []" "given (Some s)"
    using assms(2) clean_text_Some_nonempty [OF assms(2)] by (simp_all add: normalizeSyncStateScopeId_clean given_def)
  let ?clear = "\<lambda>d. clearReplicationCursorLastApplied (be_now env) d peer (Some s)"
  let ?acked = "\<lambda>d. clearScopedAckedCursor (be_now env) d peer s"
  have key: "find_cursor p k d' = Some c \<Longrightarrow> cursor_key c = (p, k)" for p k d' c
    by (auto simp: find_cursor_def dest: first_where_SomeD)
  have upd [simp]: "cursor_key (c\<lparr> cr_last_applied := v \<rparr>) = cursor_key c"
    "cursor_key (c\<lparr> cr_last_acked := v \<rparr>) = cursor_key c" "cursor_key (c\<lparr> cr_updated_at := t \<rparr>) = cursor_key c" for c v t
    by (simp_all add: cursor_key_def)
  have cleared: "find_cursor peer s (?clear d) = map_option (\<lambda>c. c\<lparr> cr_last_applied := None, cr_last_acked := None,
      cr_updated_at := be_now env \<rparr>) (find_cursor peer s d)"
    unfolding clearReplicationCursorLastApplied_def Let_def s(1)
    by (subst find_cursor_clear, simp, cases "find_cursor peer s d") (auto simp: key)
  have acked: "find_cursor peer s (?acked d) = map_option (\<lambda>c. c\<lparr> cr_last_acked := None,
      cr_updated_at := be_now env \<rparr>) (find_cursor peer s d)"
    unfolding clearScopedAckedCursor_def
    by (subst find_cursor_clear, simp, cases "find_cursor peer s d") (auto simp: key)
  have read: "read_cursor d' (peer, Some s) = (case find_cursor peer s d' of None \<Rightarrow> (None, None)
      | Some c \<Rightarrow> (cr_last_applied c, cr_last_acked c))" for d'
    by (simp add: read_cursor_def getReplicationCursor_visible s(1) visible_cursor_def assms(3) split: option.splits)
  have set: "read_cursor (setReplicationCursor (be_now env) d' peer a b (Some s)) (peer, Some s)
      = (coalesce a (fst (read_cursor d' (peer, Some s))), coalesce b (snd (read_cursor d' (peer, Some s))))" for d' a b
    using sync_cursor.get_put_same [of "be_now env" d' "(peer, Some s)" a b] by (simp add: write_cursor_def)
  show ?thesis
  proof (cases "given (rb_baseline_cursor info)")
    case True
    then obtain b where "rb_baseline_cursor info = Some b" by (cases "rb_baseline_cursor info") (auto simp: given_def)
    moreover have "snd (read_cursor (?acked d) (peer, Some s)) = None" by (simp add: read acked split: option.splits)
    ultimately show ?thesis using True s(3) by (simp add: bootstrap_cursor_def assms(1) set Let_def)
  next
    case False
    have "fst (read_cursor (?clear d) (peer, Some s)) = None" by (simp add: read cleared split: option.splits)
    then show ?thesis
      using False s(3) by (cases "rb_baseline_cursor info") (simp_all add: bootstrap_cursor_def assms(1) set Let_def)
  qed
qed

lemma bootstrap_boundary_reads:
  assumes "rb_scope_id info = Some s" "clean_text (Some s) = Some s"
  shows "\<exists>b. getSyncResetState now' fresh' (snd (setSyncResetState now fresh d (bootstrap_boundary info) (map_option Some (rb_scope_id info)))) (Some (Some s))
      = (b, snd (setSyncResetState now fresh d (bootstrap_boundary info) (map_option Some (rb_scope_id info))))
    \<and> rb_generation b = rb_generation info \<and> rb_snapshot_id b = rb_snapshot_id info
    \<and> rb_baseline_cursor b = normalizeCursor (rb_baseline_cursor info)"
proof -
  have "effective_scope (Some (Some s)) = written_scope (bootstrap_boundary info) (Some (Some s))"
    by (simp add: written_scope_def)
  from getSyncResetState_set [OF this, of now' fresh' now fresh d] show ?thesis
    by (simp add: assms(1)) (simp add: setSyncResetState_def Let_def updated_boundary_def bootstrap_boundary_def)
qed

section \<open>The destructive bootstrap\<close>

lemma applied_snapshot:
  assumes "rb_scope_id info = Some s" "clean_text (Some s) = Some s" "validateSnapshotScopes items (Some s)"
  shows "\<exists>res d0 d' rows. applyBootstrapSnapshot env d peer items info = Inr (res, d')
    \<and> d' = snd (setSyncResetState (be_now env) (be_fresh env) (bootstrap_cursor env d0 peer info) (bootstrap_boundary info) (Some (Some s)))
    \<and> memories d' = delete_where (replaceable s) (memories d) @ rows
    \<and> list_all2 (written_row env (Some s)) (retirementSnapshotItems d items (Some s)) rows
    \<and> br_applied res = length rows \<and> br_deleted res = length (filter (replaceable s) (memories d)) \<and> same_logs d d0
    \<and> ops d' = ops d0 \<and> retirements d' = retirements d0"
proof -
  from delete_synced [of env d s] obtain d1 where
    d1: "deleteSyncedMemoriesInScope env d s = Inr (length (filter (replaceable s) (memories d)), d1)"
      "memories d1 = delete_where (replaceable s) (memories d)" "same_logs d d1" by blast
  let ?kept = "retirementSnapshotItems d items (Some s)"
  let ?st = "\<lparr> bs_cache = [], bs_db = d1, bs_result = \<lparr> br_applied = 0, br_deleted = length (filter (replaceable s) (memories d)),
    br_embeddable = 0 \<rparr> \<rparr>"
  have kept: "retirementSnapshotItems d1 items (Some s) = ?kept"
    by (rule retirement_items_same) (use d1(3) in \<open>simp add: same_logs_def\<close>)
  from record_items_writes [of ?kept env "Some s" ?st] retirement_items_parse obtain st rows where
    st: "record_items env ?kept (Some s) ?st = Inr st" "list_all2 (written_row env (Some s)) ?kept rows"
      "memories (bs_db st) = memories d1 @ rows" "same_logs d1 (bs_db st)"
      "br_applied (bs_result st) = length ?kept" "br_deleted (bs_result st) = length (filter (replaceable s) (memories d))"
    by fastforce
  let ?d' = "snd (setSyncResetState (be_now env) (be_fresh env) (bootstrap_cursor env (bs_db st) peer info)
      (bootstrap_boundary info) (Some (Some s)))"
  have run: "applyBootstrapSnapshot env d peer items info = Inr (bs_result st, ?d')"
    unfolding applyBootstrapSnapshot_def assms(1,2) Let_def using assms(3) by (simp add: d1(1) kept st(1))
  have logs: "same_logs d (bs_db st)" using same_logs_trans [OF d1(3) st(4)] .
  show ?thesis
    by (rule exI [of _ "bs_result st"], rule exI [of _ "bs_db st"], rule exI [of _ ?d'], rule exI [of _ rows])
      (use run st d1(2) logs list_all2_lengthD [OF st(2)] in simp)
qed

theorem bootstrap_replaces_scope:
  assumes "rb_scope_id info = Some s" "clean_text (Some s) = Some s" "validateSnapshotScopes items (Some s)"
  shows "\<exists>res d' rows. applyBootstrapSnapshot env d peer items info = Inr (res, d')
    \<and> memories d' = delete_where (replaceable s) (memories d) @ rows
    \<and> list_all2 (written_row env (Some s)) (retirementSnapshotItems d items (Some s)) rows
    \<and> br_applied res = length rows \<and> br_deleted res = length (filter (replaceable s) (memories d))
    \<and> ops d' = ops d \<and> retirements d' = retirements d
    \<and> read_cursor d' (peer, Some s) = (rb_baseline_cursor info,
        if given (rb_baseline_cursor info) then None else Some SCOPED_NULL_BASELINE_BOOTSTRAP_CURSOR_MARKER)
    \<and> (\<exists>b. getSyncResetState now' fresh' d' (Some (Some s)) = (b, d')
        \<and> rb_generation b = rb_generation info \<and> rb_snapshot_id b = rb_snapshot_id info
        \<and> rb_baseline_cursor b = normalizeCursor (rb_baseline_cursor info))"
proof -
  have s: "s \<noteq> DEFAULT_SYNC_SCOPE_ID" using assms(3) by (auto simp: validateSnapshotScopes_def)
  from applied_snapshot [OF assms, of env d peer] obtain res d0 d' rows where
    run: "applyBootstrapSnapshot env d peer items info = Inr (res, d')"
      "d' = snd (setSyncResetState (be_now env) (be_fresh env) (bootstrap_cursor env d0 peer info) (bootstrap_boundary info) (Some (Some s)))"
      "memories d' = delete_where (replaceable s) (memories d) @ rows"
      "list_all2 (written_row env (Some s)) (retirementSnapshotItems d items (Some s)) rows"
      "br_applied res = length rows" "br_deleted res = length (filter (replaceable s) (memories d))" "same_logs d d0"
      "ops d' = ops d0" "retirements d' = retirements d0"
    by blast
  have "read_cursor d' (peer, Some s) = read_cursor (bootstrap_cursor env d0 peer info) (peer, Some s)"
    unfolding run(2) by (rule read_cursor_frame) simp_all
  also note bootstrap_cursor_reads [OF assms(1,2) s]
  finally have "read_cursor d' (peer, Some s) = (rb_baseline_cursor info,
      if given (rb_baseline_cursor info) then None else Some SCOPED_NULL_BASELINE_BOOTSTRAP_CURSOR_MARKER)" .
  moreover have "\<exists>b. getSyncResetState now' fresh' d' (Some (Some s)) = (b, d')
        \<and> rb_generation b = rb_generation info \<and> rb_snapshot_id b = rb_snapshot_id info
        \<and> rb_baseline_cursor b = normalizeCursor (rb_baseline_cursor info)"
    unfolding run(2) using bootstrap_boundary_reads [OF assms(1,2)] assms(1) by simp
  moreover have "ops d' = ops d" "retirements d' = retirements d" using run(7-9) by (simp_all add: same_logs_def)
  ultimately show ?thesis using run(1,3-6) by blast
qed

section \<open>The additive merge\<close>

text \<open>The rows a merge into a scope looks at for an entity, and what the memories of a later state still cover of
  an earlier one: no row disappears without a row of the same key whose clock is at least as new.\<close>

definition covers :: "(memory_row \<Rightarrow> bool) \<Rightarrow> memory_row list \<Rightarrow> memory_row list \<Rightarrow> bool" where
  "covers P before after \<longleftrightarrow> (\<forall>m\<in>set before. P m \<longrightarrow> (\<exists>m'\<in>set after. P m' \<and> m_import_key m' = m_import_key m
     \<and> m_scope_id m' = m_scope_id m \<and> row_clock m \<le> row_clock m'))"

lemma covers_refl [simp]: "covers P ms ms"
  by (auto simp: covers_def)

lemma covers_trans:
  assumes "covers P a b" "covers P b c"
  shows "covers P a c"
  unfolding covers_def
proof (intro ballI impI)
  fix m assume "m \<in> set a" "P m"
  with assms(1) obtain m1 where m1: "m1 \<in> set b" "P m1" "m_import_key m1 = m_import_key m" "m_scope_id m1 = m_scope_id m"
    "row_clock m \<le> row_clock m1" by (auto simp: covers_def)
  with assms(2) obtain m2 where "m2 \<in> set c" "P m2" "m_import_key m2 = m_import_key m1"
    "m_scope_id m2 = m_scope_id m1" "row_clock m1 \<le> row_clock m2" unfolding covers_def by blast
  with m1 show "\<exists>m'\<in>set c. P m' \<and> m_import_key m' = m_import_key m \<and> m_scope_id m' = m_scope_id m
      \<and> row_clock m \<le> row_clock m'" by (metis order_trans)
qed

text \<open>The item is in the memories, or something newer is.\<close>

definition holds_item :: "(memory_row \<Rightarrow> bool) \<Rightarrow> string \<Rightarrow> snapshot_page_item \<Rightarrow> memory_row list \<Rightarrow> bool" where
  "holds_item P s item ms \<longleftrightarrow> (\<exists>m\<in>set ms. P m \<and> m_import_key m = Some (sp_entity item) \<and> m_scope_id m = Some s
     \<and> item_clock item \<le> row_clock m)"

lemma holds_item_covers: "holds_item P s item a \<Longrightarrow> covers P a b \<Longrightarrow> holds_item P s item b"
  unfolding holds_item_def covers_def by (metis order_trans)

text \<open>A row that a merge with these items may replace.\<close>

definition merge_touches :: "string \<Rightarrow> snapshot_page_item list \<Rightarrow> memory_row \<Rightarrow> bool" where
  "merge_touches s items m \<longleftrightarrow> list_ex (\<lambda>item. merge_target (Some s) item m) items"

lemma same_row: "distinct (map m_id ms) \<Longrightarrow> m \<in> set ms \<Longrightarrow> m' \<in> set ms \<Longrightarrow> m_id m = m_id m' \<Longrightarrow> m = m'"
  by (meson distinct_map inj_onD)

lemma merge_item_step:
  assumes "parseSnapshotPayload item \<noteq> None" "distinct (map m_id (memories (bs_db st)))"
    "\<And>m. written_row env (Some s) item m \<Longrightarrow> P m" "\<And>m. not_private m \<Longrightarrow> P m"
  shows "\<exists>st1. merge_item env item (Some s) st = Inr st1 \<and> same_logs (bs_db st) (bs_db st1)
    \<and> distinct (map m_id (memories (bs_db st1)))
    \<and> covers P (memories (bs_db st)) (memories (bs_db st1)) \<and> holds_item P s item (memories (bs_db st1))
    \<and> (\<forall>m. \<not> merge_target (Some s) item m \<longrightarrow> m \<in> set (memories (bs_db st)) \<longrightarrow> m \<in> set (memories (bs_db st1)))"
proof -
  let ?ms = "memories (bs_db st)" and ?hit = "merge_target (Some s) item"
  let ?existing = "filter ?hit ?ms"
  show ?thesis
  proof (cases "shouldReplaceExistingSnapshotRows ?existing item")
    case False
    then obtain m where m: "m \<in> set ?ms" "?hit m" "\<not> isNewerClock (item_clock item) (row_clock m)"
      by (auto simp: shouldReplaceExistingSnapshotRows_def list_all_iff)
    then have "holds_item P s item ?ms"
      using assms(4) by (auto simp: holds_item_def merge_target_def isNewerClock_less not_less intro!: bexI [of _ m])
    then show ?thesis using False assms by (simp add: merge_item_def)
  next
    case True
    then have older: "row_clock m \<le> item_clock item" if "m \<in> set ?ms" "?hit m" for m
      using that by (auto simp: shouldReplaceExistingSnapshotRows_def list_all_iff isNewerClock_less intro: less_imp_le)
    obtain ss where ss: "snapshotSessionExportKeysForMemoryIds (be_sha256 env) True (bs_db st) (map m_id ?existing)
        = Inr (bs_db st\<lparr> sessions := ss \<rparr>)" using snapshotSessionExportKeys_only by blast
    let ?gone = "\<lambda>m. m_id m \<in> set (map m_id ?existing)"
    let ?d1 = "delete_memories ?gone (bs_db st\<lparr> sessions := ss \<rparr>)"
    let ?st1 = "if ?existing = [] then st else st\<lparr> bs_db := ?d1, bs_result := (bs_result st)\<lparr> br_deleted :=
        br_deleted (bs_result st) + length (filter ?gone ?ms) \<rparr> \<rparr>"
    have gone: "?gone m \<longleftrightarrow> ?hit m" if "m \<in> set ?ms" for m
      using that same_row [OF assms(2)] by auto
    have left: "memories (bs_db ?st1) = filter (\<lambda>m. \<not> ?hit m) ?ms"
      using gone by (auto simp: delete_memories_def delete_where_def Let_def filter_empty_conv
          intro!: filter_cong filter_id_conv [THEN iffD2, symmetric])
    have logs: "same_logs (bs_db st) (bs_db ?st1)"
      using same_logs_trans [OF same_logs_sessions(1) same_logs_sessions(3)] by simp
    have step: "merge_item env item (Some s) st = record_item env item (Some s) ?st1"
      using True assms(1) ss by (auto simp: merge_item_def Let_def)
    from record_item_writes [OF assms(1), of env "Some s" ?st1] obtain st2 m where
      st2: "record_item env item (Some s) ?st1 = Inr st2" "written_row env (Some s) item m"
        "m_id m = next_memory_id (bs_db ?st1)" "memories (bs_db st2) = memories (bs_db ?st1) @ [m]"
        "same_logs (bs_db ?st1) (bs_db st2)" by blast
    note facts = written_row_facts [OF st2(2)]
    have "distinct (map m_id (memories (bs_db st2)))"
      using st2(3,4) left fresh_memory_id [of "bs_db ?st1"] assms(2) by (simp add: distinct_map_filter)
    moreover have "covers P ?ms (memories (bs_db st2))"
      unfolding covers_def st2(4) left using older facts assms(3) [OF st2(2)]
      by (auto simp: merge_target_def split: option.splits intro: bexI [of _ m])
    moreover have "holds_item P s item (memories (bs_db st2))"
      using facts assms(3) [OF st2(2)] by (auto simp: holds_item_def st2(4))
    moreover have "m' \<in> set (memories (bs_db st2))" if "\<not> ?hit m'" "m' \<in> set ?ms" for m'
      using that by (simp add: st2(4) left)
    ultimately show ?thesis
      using step st2(1) same_logs_trans [OF logs st2(5)] by auto
  qed
qed

lemma merge_items_steps:
  assumes "\<forall>item\<in>set items. parseSnapshotPayload item \<noteq> None" "distinct (map m_id (memories (bs_db st)))"
    "\<And>m. not_private m \<Longrightarrow> P m"
    "\<forall>item\<in>set items. \<forall>m. written_row env (Some s) item m \<longrightarrow> P m"
  shows "\<exists>st1. merge_items env items (Some s) st = Inr st1 \<and> same_logs (bs_db st) (bs_db st1)
    \<and> distinct (map m_id (memories (bs_db st1)))
    \<and> covers P (memories (bs_db st)) (memories (bs_db st1))
    \<and> (\<forall>item\<in>set items. holds_item P s item (memories (bs_db st1)))
    \<and> (\<forall>m\<in>set (memories (bs_db st)). \<not> merge_touches s items m \<longrightarrow> m \<in> set (memories (bs_db st1)))"
  using assms
proof (induction items arbitrary: st)
  case (Cons item items)
  from Cons.prems merge_item_step [of item st env s P] obtain st1 where
    one: "merge_item env item (Some s) st = Inr st1" "same_logs (bs_db st) (bs_db st1)"
      "distinct (map m_id (memories (bs_db st1)))" "covers P (memories (bs_db st)) (memories (bs_db st1))"
      "holds_item P s item (memories (bs_db st1))"
      "\<And>m. \<not> merge_target (Some s) item m \<Longrightarrow> m \<in> set (memories (bs_db st)) \<Longrightarrow> m \<in> set (memories (bs_db st1))"
    by auto
  from Cons.IH [of st1] Cons.prems one(3) obtain st2 where
    rest: "merge_items env items (Some s) st1 = Inr st2" "same_logs (bs_db st1) (bs_db st2)"
      "distinct (map m_id (memories (bs_db st2)))" "covers P (memories (bs_db st1)) (memories (bs_db st2))"
      "\<forall>item\<in>set items. holds_item P s item (memories (bs_db st2))"
      "\<forall>m\<in>set (memories (bs_db st1)). \<not> merge_touches s items m \<longrightarrow> m \<in> set (memories (bs_db st2))" by auto
  show ?case
    by (rule exI [of _ st2])
      (use one rest same_logs_trans [OF one(2) rest(2)] covers_trans [OF one(4) rest(4)]
        holds_item_covers [OF one(5) rest(4)] in \<open>auto simp: merge_touches_def\<close>)
qed (simp add: merge_touches_def)

text \<open>With a row as new as each item, and none of it private, there is nothing left to merge.\<close>

lemma merge_item_idle:
  assumes "\<exists>m\<in>set (memories (bs_db st)). merge_target (Some s) item m \<and> item_clock item \<le> row_clock m"
  shows "merge_item env item (Some s) st = Inr st"
proof -
  from assms obtain m where "m \<in> set (memories (bs_db st))" "merge_target (Some s) item m" "item_clock item \<le> row_clock m" by blast
  then have "\<not> shouldReplaceExistingSnapshotRows (filter (merge_target (Some s) item) (memories (bs_db st))) item"
    by (auto simp: shouldReplaceExistingSnapshotRows_def list_all_iff isNewerClock_less not_less)
  then show ?thesis by (simp add: merge_item_def Let_def)
qed

lemma merge_items_idle:
  assumes "\<forall>item\<in>set items. \<exists>m\<in>set (memories (bs_db st)). merge_target (Some s) item m \<and> item_clock item \<le> row_clock m"
  shows "merge_items env items (Some s) st = Inr st"
  using assms by (induction items) (simp_all add: merge_item_idle)

text \<open>An item that is not private once written.\<close>

definition public_item :: "snapshot_page_item \<Rightarrow> bool" where
  "public_item item \<longleftrightarrow> (case parseSnapshotPayload item of None \<Rightarrow> False
     | Some p \<Rightarrow> text_field ''visibility'' ''shared'' p \<noteq> ''private'')"

lemma field_redact_field [simp]:
  "field k (redact_field f k' p) = (if k = k' then map_option f (field k p) else field k p)"
  by (simp add: redact_field_def split: option.splits)

lemma field_redact_payload:
  assumes "k \<notin> {''title'', ''subtitle'', ''body_text'', ''narrative'', ''actor_display_name'', ''origin_source'', ''tags_text'',
    ''facts'', ''concepts'', ''files_read'', ''files_modified'', ''metadata_json''}"
  shows "field k (redact_payload scan redact p) = field k p"
  using assms by (simp add: redact_payload_def)

lemma public_item_row: "public_item item \<Longrightarrow> written_row env scope item m \<Longrightarrow> not_private m"
proof -
  assume public: "public_item item" and row: "written_row env scope item m"
  then obtain raw i j where raw: "parseSnapshotPayload item = Some raw"
    and m: "m = bootstrap_row item (redact_payload (be_scan env) (be_redact env) raw) (snapshotPayloadScopeId
      (redact_payload (be_scan env) (be_redact env) raw) scope) i j"
    by (auto simp: written_row_def Let_def split: option.splits)
  from public raw show ?thesis
    by (simp add: m not_private_def bootstrap_row_def Let_def public_item_def text_field_def field_redact_payload)
qed

theorem merge_keeps_newest:
  assumes "rb_scope_id info = Some s" "clean_text (Some s) = Some s" "validateSnapshotScopes items (Some s)"
    "distinct (map m_id (memories d))"
  shows "\<exists>res d'. mergeBootstrapSnapshot env d peer items info preserve = Inr (res, d')
    \<and> covers (\<lambda>m. True) (memories d) (memories d')
    \<and> (\<forall>item\<in>set (retirementSnapshotItems d items (Some s)). holds_item (\<lambda>m. True) s item (memories d'))
    \<and> (\<forall>m\<in>set (memories d). \<not> merge_touches s items m \<longrightarrow> m \<in> set (memories d'))
    \<and> ops d' = ops d \<and> retirements d' = retirements d
    \<and> ((\<forall>item\<in>set (retirementSnapshotItems d items (Some s)). public_item item) \<longrightarrow>
        (\<exists>res2 d2. mergeBootstrapSnapshot env d' peer items info preserve = Inr (res2, d2)
          \<and> memories d2 = memories d' \<and> br_applied res2 = 0 \<and> br_deleted res2 = 0))"
proof -
  let ?kept = "retirementSnapshotItems d items (Some s)"
  let ?none = "\<lparr> br_applied = 0, br_deleted = 0, br_embeddable = 0 \<rparr>"
  let ?st = "\<lparr> bs_cache = [], bs_db = d, bs_result = ?none \<rparr>"
  let ?bound = "\<lambda>d. advanceMergedSnapshotBoundary env d peer info preserve"
  have parse: "\<forall>item\<in>set ?kept. parseSnapshotPayload item \<noteq> None" using retirement_items_parse by blast
  have bound: "memories (?bound d) = memories d" "ops (?bound d) = ops d" "retirements (?bound d) = retirements d" for d
    by (simp_all add: advanceMergedSnapshotBoundary_def)
  have run: "mergeBootstrapSnapshot env d0 peer items info preserve
      = (case merge_items env (retirementSnapshotItems d0 items (Some s)) (Some s)
            \<lparr> bs_cache = [], bs_db = d0, bs_result = ?none \<rparr> of
          Inl e \<Rightarrow> Inl e | Inr st \<Rightarrow> Inr (bs_result st, ?bound (bs_db st)))" for d0
    unfolding mergeBootstrapSnapshot_def assms(1,2) Let_def using assms(3) by simp
  from merge_items_steps [OF parse, of ?st "\<lambda>m. True" env s] assms(4) obtain st where
    st: "merge_items env ?kept (Some s) ?st = Inr st" "same_logs d (bs_db st)"
      "covers (\<lambda>m. True) (memories d) (memories (bs_db st))"
      "\<forall>item\<in>set ?kept. holds_item (\<lambda>m. True) s item (memories (bs_db st))"
      "\<forall>m\<in>set (memories d). \<not> merge_touches s ?kept m \<longrightarrow> m \<in> set (memories (bs_db st))" by auto
  have touch: "merge_touches s ?kept m \<Longrightarrow> merge_touches s items m" for m
    by (auto simp: merge_touches_def list_ex_iff retirementSnapshotItems_def)
  have again: "\<exists>res2 d2. mergeBootstrapSnapshot env (?bound (bs_db st)) peer items info preserve = Inr (res2, d2)
      \<and> memories d2 = memories (bs_db st) \<and> br_applied res2 = 0 \<and> br_deleted res2 = 0"
    if public: "\<forall>item\<in>set ?kept. public_item item"
  proof -
    have "\<forall>item\<in>set ?kept. \<forall>m. written_row env (Some s) item m \<longrightarrow> not_private m"
      using public public_item_row by blast
    from merge_items_steps [where P = not_private and st = ?st, OF parse _ _ this] assms(4) st(1)
    have "\<forall>item\<in>set ?kept. holds_item not_private s item (memories (bs_db st))" by auto
    then have "\<forall>item\<in>set ?kept. \<exists>m\<in>set (memories (?bound (bs_db st))). merge_target (Some s) item m \<and> item_clock item \<le> row_clock m"
      by (fastforce simp: holds_item_def merge_target_def bound(1))
    then have "merge_items env ?kept (Some s) \<lparr> bs_cache = [], bs_db = ?bound (bs_db st), bs_result = ?none \<rparr>
        = Inr \<lparr> bs_cache = [], bs_db = ?bound (bs_db st), bs_result = ?none \<rparr>"
      by (intro merge_items_idle) simp
    moreover have "retirementSnapshotItems (?bound (bs_db st)) items (Some s) = ?kept"
      by (rule retirement_items_same) (use st(2) bound(3) in \<open>simp add: same_logs_def\<close>)
    ultimately show ?thesis using bound(1) by (simp add: run)
  qed
  show ?thesis
    by (rule exI [of _ "bs_result st"], rule exI [of _ "?bound (bs_db st)"])
      (use run [of d] st touch again in \<open>auto simp: bound same_logs_def\<close>)
qed

lemma list_all2_find: "list_all2 P xs ys \<Longrightarrow> x \<in> set xs \<Longrightarrow> \<exists>y\<in>set ys. P x y"
  by (induction rule: list_all2_induct) auto

text \<open>Rows a bootstrap keeps because they are private are written again when the peer serves them: the same item
  applied twice leaves two rows of its key in the scope.\<close>

theorem private_rows_pile_up:
  assumes "rb_scope_id info = Some s" "clean_text (Some s) = Some s" "validateSnapshotScopes items (Some s)"
    "item \<in> set (retirementSnapshotItems d items (Some s))" "\<not> public_item item"
    "applyBootstrapSnapshot env d peer items info = Inr (res, d1)"
    "applyBootstrapSnapshot env d1 peer items info = Inr (res', d2)"
  shows "2 \<le> length (filter (\<lambda>m. m_import_key m = Some (sp_entity item) \<and> m_scope_id m = Some s) (memories d2))"
proof -
  let ?hit = "\<lambda>m. m_import_key m = Some (sp_entity item) \<and> m_scope_id m = Some s"
  have written: "\<exists>m\<in>set rows. ?hit m \<and> \<not> not_private m"
    if "list_all2 (written_row env (Some s)) (retirementSnapshotItems d items (Some s)) rows" for rows
  proof -
    from list_all2_find [OF that assms(4)] obtain m where m: "m \<in> set rows" "written_row env (Some s) item m" by blast
    then obtain raw i j where "parseSnapshotPayload item = Some raw"
      "m = bootstrap_row item (redact_payload (be_scan env) (be_redact env) raw) (snapshotPayloadScopeId
        (redact_payload (be_scan env) (be_redact env) raw) (Some s)) i j"
      by (auto simp: written_row_def Let_def split: option.splits)
    then have "\<not> not_private m" using assms(5)
      by (simp add: not_private_def bootstrap_row_def Let_def public_item_def text_field_def field_redact_payload)
    with m written_row_facts [OF m(2)] show ?thesis by blast
  qed
  from bootstrap_replaces_scope [OF assms(1-3), of env d peer] assms(6) obtain rows where
    d1: "memories d1 = delete_where (replaceable s) (memories d) @ rows" "retirements d1 = retirements d"
      "list_all2 (written_row env (Some s)) (retirementSnapshotItems d items (Some s)) rows" by fastforce
  note kept = retirement_items_same [OF d1(2)]
  from bootstrap_replaces_scope [OF assms(1-3), of env d1 peer] assms(7) obtain rows' where
    d2: "memories d2 = delete_where (replaceable s) (memories d1) @ rows'"
      "list_all2 (written_row env (Some s)) (retirementSnapshotItems d items (Some s)) rows'"
    unfolding kept by fastforce
  from written [OF d1(3)] obtain m where "m \<in> set (filter ?hit (delete_where (replaceable s) (memories d1)))"
    by (auto simp: d1(1) delete_where_def replaceable_def)
  then have "1 \<le> length (filter ?hit (delete_where (replaceable s) (memories d1)))"
    by (cases "filter ?hit (delete_where (replaceable s) (memories d1))") auto
  moreover from written [OF d2(2)] obtain m' where "m' \<in> set (filter ?hit rows')" by auto
  then have "1 \<le> length (filter ?hit rows')" by (cases "filter ?hit rows'") auto
  ultimately show ?thesis by (simp add: d2(1))
qed

end
