(* ===== verification/Retirement_Reset.thy ===== *)
theory Retirement_Reset
  imports Retirement_Trust Snapshot_Bootstrap
begin

text \<open>
  The reset of a former recipient (\<open>packages/core/src/memory-retirement-reset.ts\<close>): before
  a device that lost its state takes content from a snapshot, it fetches, page by page, every retirement the source ever
  queued for it. The tables of the reset and of the retained trust stand beside the database.
\<close>

section \<open>Requests and pages\<close>

definition RETIREMENT_RESET_REQUEST_PATH :: string where
  "RETIREMENT_RESET_REQUEST_PATH = ''/v1/memory-scope-retirements/reset''"
definition RETIREMENT_RESET_PAGE_PATH :: string where "RETIREMENT_RESET_PAGE_PATH = RETIREMENT_RESET_REQUEST_PATH @ ''/page''"
definition PAGE_SIZE :: nat where "PAGE_SIZE = 100"
definition MAX_RESET_CONTROLS :: int where "MAX_RESET_CONTROLS = 100000"

text \<open>\<open>LIMIT n\<close>.\<close>

fun limit_rows :: "int \<Rightarrow> 'a list \<Rightarrow> 'a list" where
  "limit_rows n [] = []"
| "limit_rows n (x # xs) = (if n \<le> 0 then [] else x # limit_rows (n - 1) xs)"

record reset_request =
  rg_id :: string
  rg_boundary :: string
  rg_offset :: nat

record reset_page = reset_request +
  rg_recipient :: string
  rg_controls :: "json list"
  rg_complete :: bool

record reset_env =
  rv_delivery :: delivery_env
  rv_fingerprint :: "string \<Rightarrow> string"
  rv_uuid :: string
  rv_boot :: bootstrap_env

record reset_options =
  rx_me :: string
  rx_peer :: retirement_peer
  rx_features :: "json option"
  rx_now :: string

definition reset_digest :: "reset_env \<Rightarrow> json \<Rightarrow> string" where
  "reset_digest env v = au_digest (de_auth (rv_delivery env)) (json_stringify v)"

definition boundaryDigest :: "reset_env \<Rightarrow> reset_boundary \<Rightarrow> string" where
  "boundaryDigest env info = reset_digest env (JArr [json_of_text (rb_scope_id info), JNum (of_int (rb_generation info)),
     JStr (rb_snapshot_id info), json_of_text (rb_baseline_cursor info)])"

definition requireInternalReset :: "reset_env \<Rightarrow> bool \<Rightarrow> reset_db \<Rightarrow> reset_options \<Rightarrow> string + unit" where
  "requireInternalReset env in_tx w opts =
     (if in_tx then Inl ''retirement_outer_transaction_forbidden''
      else if \<not> supportsSyncFeature (rx_features opts) MEMORY_RETIREMENT_FEATURE then Inl ''retirement_feature_required''
      else (case getRetirementPeer (rv_fingerprint env) w (rx_me opts) (rp_device (rx_peer opts)) of
          None \<Rightarrow> Inl ''retirement_peer_untrusted''
        | Some p \<Rightarrow> if rp_public_key p \<noteq> rp_public_key (rx_peer opts) then Inl ''retirement_peer_untrusted'' else Inr ()))"

definition resetState :: "reset_store \<Rightarrow> string \<Rightarrow> string + reset_receiver" where
  "resetState t i = (case first_where (\<lambda>r. rs_id r = i) (st_receivers t) of
     None \<Rightarrow> Inl ''retirement_reset_unknown'' | Some r \<Rightarrow> Inr r)"

definition requestFromState :: "reset_receiver \<Rightarrow> reset_request" where
  "requestFromState r = \<lparr> rg_id = rs_id r, rg_boundary = rs_boundary r, rg_offset = rs_next_offset r \<rparr>"

definition beginRetirementReset ::
    "reset_env \<Rightarrow> bool \<Rightarrow> reset_db \<Rightarrow> reset_options \<Rightarrow> reset_boundary \<Rightarrow> string + reset_request \<times> reset_db" where
  "beginRetirementReset env in_tx w opts info = (case requireInternalReset env in_tx w opts of
     Inl e \<Rightarrow> Inl e
   | Inr _ \<Rightarrow>
       if exists_where (\<lambda>r. rs_id r = rv_uuid env) (st_receivers (snd w)) then Inl ''UNIQUE constraint failed''
       else (let row = \<lparr> rs_id = rv_uuid env, rs_source = rp_device (rx_peer opts), rs_public_key = rp_public_key (rx_peer opts),
                   rs_local = rx_me opts, rs_boundary = boundaryDigest env info, rs_next_offset = 0, rs_complete = False,
                   rs_last_digest = None \<rparr>;
                 t = (snd w)\<lparr> st_receivers := st_receivers (snd w) @ [row] \<rparr>
             in map_sum id (\<lambda>r. (requestFromState r, (fst w, t))) (resetState t (rv_uuid env))))"

definition retirementResetProgress :: "reset_store \<Rightarrow> string \<Rightarrow> string + reset_request \<times> bool" where
  "retirementResetProgress t i = map_sum id (\<lambda>r. (requestFromState r, rs_complete r)) (resetState t i)"

definition hex_text :: "nat \<Rightarrow> string \<Rightarrow> string \<Rightarrow> bool" where
  "hex_text n extra s \<longleftrightarrow> length s = n \<and> list_all (\<lambda>c. lower_hex c \<or> c \<in> set extra) s"

definition validateRequest :: "json \<Rightarrow> reset_request option" where
  "validateRequest v = (let ps = or_default (as_object v) [] in
     case (as_text (field ''resetId'' ps), as_text (field ''boundary'' ps), json_safe_integer (field ''offset'' ps)) of
       (Some i, Some b, Some n) \<Rightarrow>
         if field ''feature'' ps = Some (JStr MEMORY_RETIREMENT_FEATURE) \<and> hex_text 36 ''-'' i \<and> hex_text 64 [] b
            \<and> 0 \<le> n \<and> n \<le> MAX_RESET_CONTROLS \<and> n mod int PAGE_SIZE = 0
         then Some \<lparr> rg_id = i, rg_boundary = b, rg_offset = nat n \<rparr> else None
     | _ \<Rightarrow> None)"

section \<open>The source\<close>

definition find_manifest :: "reset_store \<Rightarrow> string \<Rightarrow> string \<Rightarrow> string \<Rightarrow> reset_manifest option" where
  "find_manifest t i peer source = first_where (\<lambda>m. mf_id m = i \<and> mf_peer m = peer \<and> mf_source m = source) (st_manifests t)"

text \<open>Every control ever queued for the peer, acknowledged or not.\<close>

definition queued_controls :: "db \<Rightarrow> string \<Rightarrow> string \<Rightarrow> json list" where
  "queued_controls d peer source = map (\<lambda>r. control_json (control_of r))
     (sort_key dl_control (filter (\<lambda>r. dl_peer r = peer \<and> dl_source r = source) (retirement_deliveries d)))"

definition resetManifest :: "reset_db \<Rightarrow> reset_request \<Rightarrow> reset_options \<Rightarrow> string + json list \<times> reset_store" where
  "resetManifest w rq opts =
     (let peer = rp_device (rx_peer opts) in
      case find_manifest (snd w) (rg_id rq) peer (rx_me opts) of
        Some m \<Rightarrow> if mf_boundary m \<noteq> rg_boundary rq then Inl ''retirement_reset_boundary_mismatch'' else Inr (mf_controls m, snd w)
      | None \<Rightarrow>
          if rg_offset rq \<noteq> 0 then Inl ''retirement_reset_start_required''
          else (let controls = limit_rows (MAX_RESET_CONTROLS + 1) (queued_controls (fst w) peer (rx_me opts)) in
            if int (length controls) > MAX_RESET_CONTROLS then Inl ''retirement_reset_too_large''
            else Inr (controls, (snd w)\<lparr> st_manifests := st_manifests (snd w) @
              [\<lparr> mf_id = rg_id rq, mf_peer = peer, mf_source = rx_me opts, mf_boundary = rg_boundary rq,
                 mf_controls = controls \<rparr>] \<rparr>)))"

definition serveRetirementReset ::
    "reset_env \<Rightarrow> bool \<Rightarrow> reset_db \<Rightarrow> packet \<Rightarrow> reset_options \<Rightarrow> string + reset_page \<times> reset_db" where
  "serveRetirementReset env in_tx w p opts = (case requireInternalReset env in_tx w opts of
     Inl e \<Rightarrow> Inl e
   | Inr _ \<Rightarrow> (case authenticateRetirementPacket (rv_delivery env) p (rx_peer opts) (rx_me opts) RETIREMENT_RESET_REQUEST_PATH of
       Inl e \<Rightarrow> Inl e
     | Inr _ \<Rightarrow> (case de_parse (rv_delivery env) (pk_body p) of
         None \<Rightarrow> Inl ''JSON.parse: invalid JSON''
       | Some v \<Rightarrow> (case validateRequest v of
           None \<Rightarrow> Inl ''retirement_reset_request_invalid''
         | Some rq \<Rightarrow> (case recordNonce (fst w) (rp_device (rx_peer opts)) (pk_nonce p) (rx_now opts) of
             (False, _) \<Rightarrow> Inl ''retirement_nonce_replayed''
           | (True, d1) \<Rightarrow> (case resetManifest (d1, snd w) rq opts of
               Inl e \<Rightarrow> Inl e
             | Inr (controls, t1) \<Rightarrow>
                 if rg_offset rq > length controls then Inl ''retirement_reset_offset_invalid''
                 else Inr (\<lparr> rg_id = rg_id rq, rg_boundary = rg_boundary rq, rg_offset = rg_offset rq,
                       rg_recipient = rp_device (rx_peer opts), rg_controls = take PAGE_SIZE (drop (rg_offset rq) controls),
                       rg_complete = (rg_offset rq + PAGE_SIZE \<ge> length controls) \<rparr>, (d1, t1))))))))"

section \<open>The recipient\<close>

definition controls_batch :: "string \<Rightarrow> json list \<Rightarrow> json" where
  "controls_batch recipient controls = JObj [(''feature'', JStr MEMORY_RETIREMENT_FEATURE),
     (''recipientDeviceId'', JStr recipient), (''controls'', JArr controls)]"

definition validatedPage ::
    "reset_env \<Rightarrow> packet \<Rightarrow> reset_options \<Rightarrow> string + json \<times> reset_page \<times> retirement_control list" where
  "validatedPage env p opts =
     (case authenticateRetirementPacket (rv_delivery env) p (rx_peer opts) (rx_me opts) RETIREMENT_RESET_PAGE_PATH of
        Inl e \<Rightarrow> Inl e
      | Inr _ \<Rightarrow> (case de_parse (rv_delivery env) (pk_body p) of
          None \<Rightarrow> Inl ''JSON.parse: invalid JSON''
        | Some v \<Rightarrow> (case validateRequest v of
            None \<Rightarrow> Inl ''retirement_reset_request_invalid''
          | Some rq \<Rightarrow>
              (let ps = or_default (as_object v) [] in
               case (field ''recipientDeviceId'' ps, field ''complete'' ps, field ''controls'' ps) of
                 (Some (JStr recipient), Some (JBool isComplete), Some (JArr controls)) \<Rightarrow>
                   if recipient \<noteq> rx_me opts \<or> length controls > PAGE_SIZE \<or> (\<not> isComplete \<and> length controls \<noteq> PAGE_SIZE)
                      \<or> \<not> set (map fst ps) \<subseteq> {''feature'', ''resetId'', ''boundary'', ''offset'', ''recipientDeviceId'', ''controls'',
                          ''complete''}
                   then Inl ''retirement_reset_page_invalid''
                   else
                     let page = \<lparr> rg_id = rg_id rq, rg_boundary = rg_boundary rq, rg_offset = rg_offset rq, rg_recipient = recipient,
                           rg_controls = controls, rg_complete = isComplete \<rparr>;
                         batch = controls_batch recipient controls
                     in if controls = [] then Inr (v, page, [])
                        else map_sum id (\<lambda>(_, cs). (v, page, cs))
                          (parseRetirementBatch (au_digest (de_auth (rv_delivery env))) (\<lambda>_. Some batch) (json_stringify batch) (rx_me opts))
               | _ \<Rightarrow> Inl ''retirement_reset_page_invalid''))))"

definition update_receiver :: "reset_page \<Rightarrow> string \<Rightarrow> reset_store \<Rightarrow> reset_store" where
  "update_receiver page pageDigest t = t\<lparr> st_receivers := update_where (\<lambda>r. rs_id r = rg_id page)
     (\<lambda>r. r\<lparr> rs_next_offset := rg_offset page + length (rg_controls page), rs_complete := rg_complete page,
        rs_last_digest := Some pageDigest \<rparr>) (st_receivers t) \<rparr>"

definition receiveRetirementResetPage ::
    "reset_env \<Rightarrow> bool \<Rightarrow> reset_db \<Rightarrow> packet \<Rightarrow> reset_options \<Rightarrow> string + reset_db" where
  "receiveRetirementResetPage env in_tx w p opts = (case requireInternalReset env in_tx w opts of
     Inl e \<Rightarrow> Inl e
   | Inr _ \<Rightarrow> (case validatedPage env p opts of
       Inl e \<Rightarrow> Inl e
     | Inr (v, page, cs) \<Rightarrow> (case resetState (snd w) (rg_id page) of
         Inl e \<Rightarrow> Inl e
       | Inr state \<Rightarrow>
           if rs_source state \<noteq> rp_device (rx_peer opts) \<or> rs_public_key state \<noteq> rp_public_key (rx_peer opts)
              \<or> rs_local state \<noteq> rx_me opts \<or> rs_boundary state \<noteq> rg_boundary page
           then Inl ''retirement_reset_source_mismatch''
           else if rs_last_digest state = Some (reset_digest env v) then Inr w
           else if rs_complete state \<or> rs_next_offset state \<noteq> rg_offset page then Inl ''retirement_reset_page_out_of_order''
           else (case recordNonce (fst w) (rp_device (rx_peer opts)) (pk_nonce p) (rx_now opts) of
               (False, _) \<Rightarrow> Inl ''retirement_nonce_replayed''
             | (True, d1) \<Rightarrow>
                 map_sum id (\<lambda>d2. (d2, update_receiver page (reset_digest env v) (snd w)))
                   (applyAuthenticatedRetirementControls (rv_delivery env) True cs (rp_device (rx_peer opts)) (rx_now opts) d1)))))"

fun verify_items :: "reset_env \<Rightarrow> string \<Rightarrow> snapshot_page_item list \<Rightarrow> db \<Rightarrow> string + db" where
  "verify_items env source [] d = Inr d"
| "verify_items env source (item # items) d = (case memorySourceNamespace (sp_entity item) of
     None \<Rightarrow> Inl ''memory_source_verification_required''
   | Some ns \<Rightarrow>
       if ns \<noteq> source then Inl ''retirement_snapshot_source_required''
       else (case verifyAuthenticatedMemorySource True (de_wall (rv_delivery env)) d (sp_entity item) source of
           Inl e \<Rightarrow> Inl e
         | Inr (_, d1) \<Rightarrow> verify_items env source items d1))"

datatype snapshot_mode = Replace | Merge

definition applyRetirementProtectedSnapshot ::
    "reset_env \<Rightarrow> bool \<Rightarrow> reset_db \<Rightarrow> reset_options \<Rightarrow> string \<Rightarrow> reset_boundary \<Rightarrow> snapshot_page_item list \<Rightarrow> snapshot_mode
     \<Rightarrow> bool \<Rightarrow> string + bootstrap_result \<times> reset_db" where
  "applyRetirementProtectedSnapshot env in_tx w opts resetId info items mode sourceOnly =
     (case requireInternalReset env in_tx w opts of
        Inl e \<Rightarrow> Inl e
      | Inr _ \<Rightarrow>
          if sourceOnly \<and> mode \<noteq> Merge then Inl ''retirement_snapshot_merge_required''
          else (case resetState (snd w) resetId of
              Inl e \<Rightarrow> Inl e
            | Inr state \<Rightarrow>
                if \<not> rs_complete state \<or> rs_source state \<noteq> rp_device (rx_peer opts)
                   \<or> rs_public_key state \<noteq> rp_public_key (rx_peer opts) \<or> rs_local state \<noteq> rx_me opts
                   \<or> rs_boundary state \<noteq> boundaryDigest env info
                then Inl ''retirement_reset_not_ready''
                else (case verify_items env (rp_device (rx_peer opts)) items (fst w) of
                    Inl e \<Rightarrow> Inl e
                  | Inr d1 \<Rightarrow> map_sum id (\<lambda>(res, d2). (res, (d2, snd w)))
                      (if mode = Replace then applyBootstrapSnapshot (rv_boot env) d1 (rp_device (rx_peer opts)) items info
                       else mergeBootstrapSnapshot (rv_boot env) d1 (rp_device (rx_peer opts)) items info sourceOnly))))"


section \<open>Controls of a page\<close>

text \<open>The fence of a queued delivery stands, on a trimmed identity.\<close>

definition delivery_stands :: "db \<Rightarrow> delivery_row \<Rightarrow> bool" where
  "delivery_stands d r \<longleftrightarrow> isMemoryScopeRetired d (dl_entity r) (Some (dl_scope r)) \<and> js_trim (dl_entity r) = dl_entity r"

definition control_stands :: "db \<Rightarrow> json \<Rightarrow> bool" where
  "control_stands d v \<longleftrightarrow> (\<forall>r. v = control_json (control_of r) \<longrightarrow> delivery_stands d r)"

lemma control_stands_more:
  "set (retirements d) \<subseteq> set (retirements d') \<Longrightarrow> control_stands d v \<Longrightarrow> control_stands d' v"
  by (auto simp: control_stands_def delivery_stands_def isMemoryScopeRetired_more)

lemma control_input_of [simp]:
  "control_input (control_of r) = Some \<lparr> ri_entity = dl_entity r, ri_source = dl_source r, ri_scope = dl_scope r \<rparr>"
  by (simp add: control_input_def control_of_def)

lemma recorded_retirement_trimmed:
  "recordMemoryScopeRetirement in_tx wall now d i source = Inr d' \<Longrightarrow> js_trim (ri_entity i) = ri_entity i"
  by (auto simp: recordMemoryScopeRetirement_def validateRetirement_def valid_retirement_text_def split: if_splits)

lemma apply_control_retires:
  assumes "apply_control env source now c d = Inr d'"
  shows "\<exists>i. control_input c = Some i \<and> isMemoryScopeRetired d' (ri_entity i) (Some (ri_scope i))
    \<and> js_trim (ri_entity i) = ri_entity i \<and> set (retirements d) \<subseteq> set (retirements d')"
proof -
  from assms obtain i d1 d2 where run: "control_input c = Some i"
    "recordMemoryScopeRetirement True (de_wall env) now d i source = Inr d1"
    "cleanupRetiredMemory (au_digest (de_auth env)) d1 (ri_entity i) (ri_scope i) = Inr d2" "d' = receipt (ct_id c) source now d2"
    by (auto simp: apply_control_def split: option.splits sum.splits)
  obtain ss where "snapshotSessionExportKeysForMemoryIds (au_digest (de_auth env)) True d1
      (map m_id (filter (\<lambda>m. m_import_key m = Some (ri_entity i) \<and> m_scope_id m = Some (ri_scope i)) (memories d1)))
        = Inr (d1\<lparr> sessions := ss \<rparr>)"
    using snapshotSessionExportKeys_only by blast
  then have "retirements d2 = retirements d1"
    using run(3) by (auto simp: cleanupRetiredMemory_def Let_def erase_memories)
  then show ?thesis
    using recordMemoryScopeRetirement_Inr [OF run(2)] recorded_retirement_trimmed [OF run(2)] run(1,4)
      isMemoryScopeRetired_more [of d1 d'] by simp
qed

lemma apply_controls_retire:
  assumes "apply_controls env source now cs d = Inr d'"
  shows "set (retirements d) \<subseteq> set (retirements d') \<and> (\<forall>r. control_of r \<in> set cs \<longrightarrow> delivery_stands d' r)"
  using assms
proof (induction cs arbitrary: d)
  case (Cons c cs)
  from Cons.prems obtain d1 where d1: "apply_control env source now c d = Inr d1" "apply_controls env source now cs d1 = Inr d'"
    by (auto split: sum.splits)
  from apply_control_retires [OF d1(1)] Cons.IH [OF d1(2)] show ?case
    using isMemoryScopeRetired_more [of d1 d'] by (auto simp: delivery_stands_def)
qed simp

lemma parse_controls_elements:
  "parse_controls digest vs = Some cs \<Longrightarrow> v \<in> set vs \<Longrightarrow> \<exists>c\<in>set cs. parse_control digest v = Some c"
  by (induction vs arbitrary: cs) (auto split: option.splits)

lemma parse_reset_batch:
  assumes "parseRetirementBatch digest (\<lambda>_. Some (controls_batch recipient vs)) body dst = Inr (b, cs)"
  shows "parse_controls digest vs = Some cs"
  using assms
  by (auto simp: parseRetirementBatch_def controls_batch_def as_object_def field_def Let_def split: if_splits option.splits)

text \<open>What an accepted page does to the recipient: a repetition of the last page changes nothing; any other page is the
  next one, all its controls stand, and the row of the reset moves behind them.\<close>

lemma validateRequest_object: "validateRequest v = Some rq \<Longrightarrow> \<exists>ps. as_object v = Some ps"
  by (cases "as_object v") (auto simp: validateRequest_def field_def as_text_def Let_def split: option.splits)

lemma validatedPage_Inr:
  assumes "validatedPage env p opts = Inr (v, page, cs)"
  shows "\<exists>rq ps. de_parse (rv_delivery env) (pk_body p) = Some v \<and> validateRequest v = Some rq \<and> as_object v = Some ps
    \<and> field ''controls'' ps = Some (JArr (rg_controls page)) \<and> field ''complete'' ps = Some (JBool (rg_complete page))
    \<and> field ''recipientDeviceId'' ps = Some (JStr (rx_me opts)) \<and> rg_id page = rg_id rq \<and> rg_boundary page = rg_boundary rq
    \<and> rg_offset page = rg_offset rq
    \<and> parse_controls (au_digest (de_auth (rv_delivery env))) (rg_controls page) = Some cs"
  using assms
  by (auto simp: validatedPage_def Let_def map_sum_Inr_iff dest!: validateRequest_object dest: parse_reset_batch
      split: sum.splits option.splits json.splits if_splits prod.splits)


section \<open>One reset, seen from both sides\<close>

lemma parse_control_of: "parse_controls digest vs = Some cs \<Longrightarrow> control_json (control_of r) \<in> set vs \<Longrightarrow> control_of r \<in> set cs"
  using parse_controls_elements parse_control_json by blast

lemma receive_page_Inr:
  assumes "receiveRetirementResetPage env in_tx w p opts = Inr w'"
  shows "\<exists>v page cs state. validatedPage env p opts = Inr (v, page, cs) \<and> resetState (snd w) (rg_id page) = Inr state
    \<and> rs_source state = rp_device (rx_peer opts) \<and> rs_local state = rx_me opts
    \<and> (w' = w \<or> rs_next_offset state = rg_offset page \<and> \<not> rs_complete state
        \<and> set (retirements (fst w)) \<subseteq> set (retirements (fst w')) \<and> list_all (control_stands (fst w')) (rg_controls page)
        \<and> snd w' = update_receiver page (reset_digest env v) (snd w))"
proof -
  from assms obtain v page cs state where run: "validatedPage env p opts = Inr (v, page, cs)" "resetState (snd w) (rg_id page) = Inr state"
    "rs_source state = rp_device (rx_peer opts)" "rs_local state = rx_me opts"
    "w' = w \<or> rs_next_offset state = rg_offset page \<and> \<not> rs_complete state \<and> snd w' = update_receiver page (reset_digest env v) (snd w)
       \<and> (\<exists>d1. recordNonce (fst w) (rp_device (rx_peer opts)) (pk_nonce p) (rx_now opts) = (True, d1)
            \<and> apply_controls (rv_delivery env) (rp_device (rx_peer opts)) (rx_now opts) cs d1 = Inr (fst w'))"
    by (auto simp: receiveRetirementResetPage_def applyAuthenticatedRetirementControls_def map_sum_Inr_iff
        split: sum.splits if_splits prod.splits bool.splits)
  from validatedPage_Inr [OF run(1)] have cs: "parse_controls (au_digest (de_auth (rv_delivery env))) (rg_controls page) = Some cs"
    by blast
  have "set (retirements (fst w)) \<subseteq> set (retirements (fst w')) \<and> list_all (control_stands (fst w')) (rg_controls page)"
    if "recordNonce (fst w) (rp_device (rx_peer opts)) (pk_nonce p) (rx_now opts) = (True, d1)"
      "apply_controls (rv_delivery env) (rp_device (rx_peer opts)) (rx_now opts) cs d1 = Inr (fst w')" for d1
  proof -
    have "retirements d1 = retirements (fst w)" using that(1) by (auto simp: recordNonce_def split: if_splits)
    then show ?thesis
      using apply_controls_retire [OF that(2)] parse_control_of [OF cs] by (auto simp: list_all_iff control_stands_def)
  qed
  with run show ?thesis by blast
qed

text \<open>The body of a page on the wire.\<close>

definition page_json :: "reset_page \<Rightarrow> json" where
  "page_json page = JObj [(''feature'', JStr MEMORY_RETIREMENT_FEATURE), (''resetId'', JStr (rg_id page)),
     (''boundary'', JStr (rg_boundary page)), (''offset'', JNum (of_int (int (rg_offset page)))),
     (''recipientDeviceId'', JStr (rg_recipient page)), (''controls'', JArr (rg_controls page)),
     (''complete'', JBool (rg_complete page))]"

type_synonym reset_world = "reset_db \<times> reset_db \<times> reset_page list"

text \<open>The source, the recipient and the pages the source has served. Of the recipient's packets, those that authenticate
  as the source's and belong to the reset hold a page the source served: what the signature promises. Everything
  else either device does keeps the queue, the manifests, the fences and the row of the reset.\<close>

inductive reset_step :: "string \<Rightarrow> string \<Rightarrow> string \<Rightarrow> reset_world \<Rightarrow> reset_world \<Rightarrow> bool"
  for i source recipient where
  serves: "serveRetirementReset env in_tx a p opts = Inr (page, a') \<Longrightarrow> rx_me opts = source
    \<Longrightarrow> reset_step i source recipient (a, b, served) (a', b, page # served)"
| receives: "receiveRetirementResetPage env in_tx b p opts = Inr b' \<Longrightarrow> rx_me opts = recipient
    \<Longrightarrow> (\<And>v rq. rp_device (rx_peer opts) = source \<Longrightarrow> de_parse (rv_delivery env) (pk_body p) = Some v
          \<Longrightarrow> validateRequest v = Some rq \<Longrightarrow> rg_id rq = i \<Longrightarrow> v \<in> page_json ` set served)
    \<Longrightarrow> reset_step i source recipient (a, b, served) (a, b', served)"
| source_works: "set (queued_controls (fst a) recipient source) \<subseteq> set (queued_controls (fst a') recipient source)
    \<Longrightarrow> find_manifest (snd a') i recipient source = find_manifest (snd a) i recipient source
    \<Longrightarrow> reset_step i source recipient (a, b, served) (a', b, served)"
| recipient_works: "set (retirements (fst b)) \<subseteq> set (retirements (fst b')) \<Longrightarrow> resetState (snd b') i = resetState (snd b) i
    \<Longrightarrow> reset_step i source recipient (a, b, served) (a, b', served)"

definition manifest_page :: "reset_manifest \<Rightarrow> reset_page \<Rightarrow> bool" where
  "manifest_page m page \<longleftrightarrow> rg_controls page = take PAGE_SIZE (drop (rg_offset page) (mf_controls m))
     \<and> (rg_complete page \<longrightarrow> length (mf_controls m) \<le> rg_offset page + PAGE_SIZE)"

definition received_of :: "db \<Rightarrow> reset_manifest \<Rightarrow> reset_receiver \<Rightarrow> bool" where
  "received_of d m r \<longleftrightarrow> list_all (control_stands d) (take (rs_next_offset r) (mf_controls m))
     \<and> (rs_complete r \<longrightarrow> length (mf_controls m) \<le> rs_next_offset r)"

definition reset_invariant :: "json list \<Rightarrow> string \<Rightarrow> string \<Rightarrow> string \<Rightarrow> reset_world \<Rightarrow> bool" where
  "reset_invariant queue i source recipient = (\<lambda>(a, b, served).
     let m = find_manifest (snd a) i recipient source in
       set queue \<subseteq> set (queued_controls (fst a) recipient source)
     \<and> pred_option (\<lambda>m. set queue \<subseteq> set (mf_controls m)) m
     \<and> (\<forall>page\<in>set served. rg_id page = i \<longrightarrow> rg_recipient page = recipient \<longrightarrow> (\<exists>m'. m = Some m' \<and> manifest_page m' page))
     \<and> (\<exists>r. resetState (snd b) i = Inr r \<and> rs_source r = source
          \<and> (rs_next_offset r = 0 \<and> \<not> rs_complete r \<or> (\<exists>m'. m = Some m' \<and> received_of (fst b) m' r))))"

lemma serve_Inr:
  assumes "serveRetirementReset env in_tx a p opts = Inr (page, a')"
  shows "\<exists>rq controls. resetManifest a rq opts = Inr (controls, snd a')
    \<and> queued_controls (fst a') = queued_controls (fst a)
    \<and> page = \<lparr> rg_id = rg_id rq, rg_boundary = rg_boundary rq, rg_offset = rg_offset rq, rg_recipient = rp_device (rx_peer opts),
        rg_controls = take PAGE_SIZE (drop (rg_offset rq) controls), rg_complete = (rg_offset rq + PAGE_SIZE \<ge> length controls) \<rparr>"
proof -
  from assms obtain rq controls d1 where run: "recordNonce (fst a) (rp_device (rx_peer opts)) (pk_nonce p) (rx_now opts) = (True, d1)"
    "resetManifest (d1, snd a) rq opts = Inr (controls, snd a')" "fst a' = d1"
    "page = \<lparr> rg_id = rg_id rq, rg_boundary = rg_boundary rq, rg_offset = rg_offset rq, rg_recipient = rp_device (rx_peer opts),
        rg_controls = take PAGE_SIZE (drop (rg_offset rq) controls), rg_complete = (rg_offset rq + PAGE_SIZE \<ge> length controls) \<rparr>"
    by (auto simp: serveRetirementReset_def split: sum.splits if_splits option.splits prod.splits bool.splits)
  have same: "queued_controls d1 = queued_controls (fst a)"
    using run(1) by (auto simp: recordNonce_def queued_controls_def fun_eq_iff split: if_splits)
  have "resetManifest (d1, snd a) rq opts = resetManifest a rq opts"
    unfolding resetManifest_def fst_conv snd_conv same ..
  with run same show ?thesis by metis
qed

lemma limit_rows_short: "int (length (limit_rows (n + 1) xs)) \<le> n \<Longrightarrow> limit_rows (n + 1) xs = xs"
proof (induction xs arbitrary: n)
  case (Cons x xs)
  then show ?case using Cons.IH [of "n - 1"] by (auto split: if_splits)
qed simp

lemma resetManifest_Inr:
  assumes "resetManifest w rq opts = Inr (controls, t)"
  shows "\<exists>m. find_manifest t (rg_id rq) (rp_device (rx_peer opts)) (rx_me opts) = Some m \<and> mf_controls m = controls
    \<and> (find_manifest (snd w) (rg_id rq) (rp_device (rx_peer opts)) (rx_me opts) = Some m
      \<or> find_manifest (snd w) (rg_id rq) (rp_device (rx_peer opts)) (rx_me opts) = None
        \<and> controls = queued_controls (fst w) (rp_device (rx_peer opts)) (rx_me opts))
    \<and> (\<forall>j peer source. (j, peer, source) \<noteq> (rg_id rq, rp_device (rx_peer opts), rx_me opts)
        \<longrightarrow> find_manifest t j peer source = find_manifest (snd w) j peer source)"
  using assms
  by (auto simp: resetManifest_def find_manifest_def first_where_append Let_def coalesce_def not_less intro!: limit_rows_short
      split: option.splits if_splits)


lemma validateRequest_page_json:
  "validateRequest (page_json page) = Some rq \<Longrightarrow> rq = \<lparr> rg_id = rg_id page, rg_boundary = rg_boundary page, rg_offset = rg_offset page \<rparr>"
  by (auto simp: validateRequest_def page_json_def as_object_def as_text_def json_safe_integer_def field_def Let_def
      split: option.splits if_splits)

lemma validated_page_json:
  assumes "validatedPage env p opts = Inr (page_json page', page, cs)"
  shows "rg_id page = rg_id page' \<and> rg_offset page = rg_offset page' \<and> rg_controls page = rg_controls page'
    \<and> rg_complete page = rg_complete page' \<and> rg_recipient page' = rx_me opts"
proof -
  from validatedPage_Inr [OF assms] obtain rq ps where
    "validateRequest (page_json page') = Some rq" "as_object (page_json page') = Some ps"
    "field ''controls'' ps = Some (JArr (rg_controls page))" "field ''complete'' ps = Some (JBool (rg_complete page))"
    "field ''recipientDeviceId'' ps = Some (JStr (rx_me opts))" "rg_id page = rg_id rq" "rg_offset page = rg_offset rq" by blast
  with validateRequest_page_json show ?thesis by (fastforce simp: page_json_def as_object_def field_def)
qed

lemma resetState_update:
  "resetState (update_receiver page pd t) i = map_sum id (\<lambda>r. if rs_id r = rg_id page
     then r\<lparr> rs_next_offset := rg_offset page + length (rg_controls page), rs_complete := rg_complete page,
       rs_last_digest := Some pd \<rparr> else r) (resetState t i)"
  unfolding resetState_def update_receiver_def by (simp add: first_where_update split: option.splits)

lemma resetState_id: "resetState t i = Inr r \<Longrightarrow> rs_id r = i"
  by (auto simp: resetState_def split: option.splits dest: first_where_SomeD)

lemma received_more:
  "received_of d m r \<Longrightarrow> set (retirements d) \<subseteq> set (retirements d') \<Longrightarrow> received_of d' m r"
  by (auto simp: received_of_def list_all_iff control_stands_more)

text \<open>The next page of the manifest extends what stands.\<close>

lemma received_page:
  assumes "rs_next_offset r = 0 \<or> received_of d m r" "manifest_page m page" "rs_next_offset r = rg_offset page"
    "set (retirements d) \<subseteq> set (retirements d')" "list_all (control_stands d') (rg_controls page)"
  shows "received_of d' m (r\<lparr> rs_next_offset := rg_offset page + length (rg_controls page), rs_complete := rg_complete page,
    rs_last_digest := x \<rparr>)"
proof -
  have "list_all (control_stands d') (take (rg_offset page) (mf_controls m))"
    using assms(1,3,4) by (auto simp: received_of_def list_all_iff control_stands_more)
  moreover have "take (rg_offset page + length (rg_controls page)) (mf_controls m)
      = take (rg_offset page) (mf_controls m) @ rg_controls page"
    using assms(2) by (simp add: manifest_page_def take_add min_def)
  ultimately show ?thesis using assms(2,5) by (auto simp: received_of_def manifest_page_def)
qed

lemma reset_step_invariant:
  assumes "reset_step i source recipient x y" "reset_invariant queue i source recipient x"
  shows "reset_invariant queue i source recipient y"
  using assms
proof cases
  case (serves env in_tx a p opts page a' b served)
  from serve_Inr [OF serves(3)] obtain rq controls where
    rq: "resetManifest a rq opts = Inr (controls, snd a')" "queued_controls (fst a') = queued_controls (fst a)"
      "page = \<lparr> rg_id = rg_id rq, rg_boundary = rg_boundary rq, rg_offset = rg_offset rq, rg_recipient = rp_device (rx_peer opts),
        rg_controls = take PAGE_SIZE (drop (rg_offset rq) controls), rg_complete = (rg_offset rq + PAGE_SIZE \<ge> length controls) \<rparr>" by blast
  show ?thesis
    using resetManifest_Inr [OF rq(1)] rq(2,3) assms(2) serves(1,2,4)
    by (cases "rg_id rq = i \<and> rp_device (rx_peer opts) = recipient") (auto simp: reset_invariant_def manifest_page_def Let_def)
next
  case (receives env in_tx b p opts b' served a)
  from receive_page_Inr [OF receives(3)] obtain v page cs state where
    got: "validatedPage env p opts = Inr (v, page, cs)" "resetState (snd b) (rg_id page) = Inr state"
      "rs_source state = rp_device (rx_peer opts)"
      "b' = b \<or> rs_next_offset state = rg_offset page \<and> set (retirements (fst b)) \<subseteq> set (retirements (fst b'))
        \<and> list_all (control_stands (fst b')) (rg_controls page) \<and> snd b' = update_receiver page (reset_digest env v) (snd b)" by blast
  from assms(2) receives(1) obtain r where r: "resetState (snd b) i = Inr r" "rs_source r = source"
    by (auto simp: reset_invariant_def Let_def)
  show ?thesis
  proof (cases "rg_id page = i \<and> b' \<noteq> b")
    case False
    then have "resetState (snd b') i = resetState (snd b) i \<and> set (retirements (fst b)) \<subseteq> set (retirements (fst b'))"
      using got(4) r resetState_id [OF r(1)] by (auto simp: resetState_update)
    then show ?thesis using assms(2) receives(1,2) by (auto simp: reset_invariant_def Let_def received_more)
  next
    case True
    with got r have state: "state = r" "rp_device (rx_peer opts) = source" by auto
    from validatedPage_Inr [OF got(1)] True receives(5) [OF state(2), of v] obtain page' where
      page': "page' \<in> set served" "v = page_json page'" by auto
    note same = validated_page_json [OF got(1) [unfolded page'(2)]]
    from assms(2) receives(1,4) page'(1) same True obtain m where m: "find_manifest (snd a) i recipient source = Some m" "manifest_page m page"
      by (auto simp: reset_invariant_def Let_def manifest_page_def)
    have "rs_next_offset r = 0 \<or> received_of (fst b) m r"
      using assms(2) receives(1) r(1) m(1) by (auto simp: reset_invariant_def Let_def)
    from received_page [OF this m(2)] got(4) True state(1) have
      "received_of (fst b') m (r\<lparr> rs_next_offset := rg_offset page + length (rg_controls page), rs_complete := rg_complete page,
        rs_last_digest := Some (reset_digest env v) \<rparr>)" by auto
    moreover have "resetState (snd b') i = Inr (r\<lparr> rs_next_offset := rg_offset page + length (rg_controls page),
        rs_complete := rg_complete page, rs_last_digest := Some (reset_digest env v) \<rparr>)"
      using got(4) True r resetState_id [OF r(1)] by (simp add: resetState_update)
    ultimately show ?thesis using assms(2) receives(1,2) r m(1) by (auto simp: reset_invariant_def Let_def)
  qed
next
  case (source_works a a' b served)
  then show ?thesis using assms(2) by (auto simp: reset_invariant_def Let_def)
next
  case (recipient_works b b' a served)
  then show ?thesis using assms(2) by (auto simp: reset_invariant_def Let_def received_more)
qed

lemma reset_run_invariant:
  "(reset_step i source recipient)\<^sup>*\<^sup>* x y \<Longrightarrow> reset_invariant queue i source recipient x \<Longrightarrow> reset_invariant queue i source recipient y"
  by (induction rule: rtranclp_induct) (auto intro: reset_step_invariant)

lemma reset_invariant_row:
  "reset_invariant queue i source recipient (a, b, served) \<Longrightarrow> \<exists>r. resetState (snd b) i = Inr r \<and> rs_source r = source
    \<and> (rs_complete r \<longrightarrow> (\<exists>m. set queue \<subseteq> set (mf_controls m) \<and> received_of (fst b) m r))"
  by (auto simp: reset_invariant_def Let_def) (rule exI, erule conjI)

lemma begin_reset_Inr:
  assumes "beginRetirementReset env in_tx w opts info = Inr (rq, w')"
  shows "fst w' = fst w \<and> (\<exists>r. resetState (snd w') (rg_id rq) = Inr r \<and> rs_source r = rp_device (rx_peer opts)
    \<and> rs_next_offset r = 0 \<and> \<not> rs_complete r)"
  using assms
  by (auto simp: beginRetirementReset_def Let_def resetState_def requestFromState_def first_where_append exists_where_iff coalesce_def
      split: sum.splits if_splits option.splits dest: first_where_SomeD)


section \<open>Content\<close>

lemma verify_items_Inr:
  "verify_items env source items d = Inr d' \<Longrightarrow> retirements d' = retirements d \<and> memories d' = memories d
    \<and> (\<forall>item\<in>set items. memorySourceNamespace (sp_entity item) = Some source)"
proof (induction items arbitrary: d)
  case (Cons item items)
  then obtain b d1 where "verifyAuthenticatedMemorySource True (de_wall (rv_delivery env)) d (sp_entity item) source = Inr (b, d1)"
    "verify_items env source items d1 = Inr d'" "memorySourceNamespace (sp_entity item) = Some source"
    by (auto split: option.splits sum.splits if_splits)
  with Cons.IH [of d1] show ?case
    by (auto simp: verifyAuthenticatedMemorySource_def persistBinding_def split: if_splits option.splits)
qed simp

text \<open>A row of a merge is a row of before or one written from an item.\<close>

lemma merge_item_rows:
  assumes "merge_item env item (Some s) st = Inr st1" "m \<in> set (memories (bs_db st1))"
  shows "m \<in> set (memories (bs_db st)) \<or> written_row env (Some s) item m"
proof (cases "parseSnapshotPayload item")
  case (Some raw)
  let ?existing = "filter (merge_target (Some s) item) (memories (bs_db st))"
  obtain ss where ss: "snapshotSessionExportKeysForMemoryIds (be_sha256 env) True (bs_db st) (map m_id ?existing)
      = Inr (bs_db st\<lparr> sessions := ss \<rparr>)" using snapshotSessionExportKeys_only by blast
  have kept: "set (memories (bs_db (st\<lparr> bs_db := delete_memories (\<lambda>m. m_id m \<in> set ids) (bs_db st\<lparr> sessions := ss \<rparr>), bs_result := x \<rparr>)))
      \<subseteq> set (memories (bs_db st))" for ids x
    by (auto simp: delete_memories_def delete_where_def Let_def)
  from assms(1) Some ss obtain st0 where st0: "st1 = st \<or> record_item env item (Some s) st0 = Inr st1"
    "set (memories (bs_db st0)) \<subseteq> set (memories (bs_db st))"
    using kept [of _ "map m_id ?existing"] by (force simp: merge_item_def Let_def split: if_splits)
  from Some record_item_writes [of item env "Some s" st0] show ?thesis using st0 assms(2) by auto
qed (use assms in \<open>simp add: merge_item_def\<close>)

lemma merge_items_rows:
  "merge_items env items (Some s) st = Inr st1 \<Longrightarrow> m \<in> set (memories (bs_db st1))
    \<Longrightarrow> m \<in> set (memories (bs_db st)) \<or> (\<exists>item\<in>set items. written_row env (Some s) item m)"
  by (induction items arbitrary: st) (auto split: sum.splits dest: merge_item_rows)

lemma list_all2_find_right: "list_all2 P xs ys \<Longrightarrow> y \<in> set ys \<Longrightarrow> \<exists>x\<in>set xs. P x y"
  by (induction rule: list_all2_induct) auto

lemma applied_snapshot_rows:
  assumes "rb_scope_id info = Some s" "clean_text (Some s) = Some s"
    "(if mode = Replace then applyBootstrapSnapshot env d peer items info
      else mergeBootstrapSnapshot env d peer items info sourceOnly) = Inr (res, d')" "m \<in> set (memories d')"
  shows "m \<in> set (memories d) \<or> (\<exists>item\<in>set (retirementSnapshotItems d items (Some s)). written_row env (Some s) item m)"
proof (cases "mode = Replace")
  case True
  with assms have run: "applyBootstrapSnapshot env d peer items info = Inr (res, d')" by simp
  then have valid: "validateSnapshotScopes items (Some s)"
    using assms(1,2) by (auto simp: applyBootstrapSnapshot_def Let_def split: if_splits)
  from bootstrap_replaces_scope [OF assms(1,2) valid, of env d peer] run obtain rows where
    "memories d' = delete_where (replaceable s) (memories d) @ rows"
    "list_all2 (written_row env (Some s)) (retirementSnapshotItems d items (Some s)) rows" by fastforce
  with assms(4) list_all2_find_right show ?thesis by (fastforce simp: delete_where_def)
next
  case False
  with assms have "mergeBootstrapSnapshot env d peer items info sourceOnly = Inr (res, d')" by simp
  with assms(1,2) obtain st where "merge_items env (retirementSnapshotItems d items (Some s)) (Some s)
      \<lparr> bs_cache = [], bs_db = d, bs_result = \<lparr> br_applied = 0, br_deleted = 0, br_embeddable = 0 \<rparr> \<rparr> = Inr st"
    "memories d' = memories (bs_db st)"
    by (auto simp: mergeBootstrapSnapshot_def advanceMergedSnapshotBoundary_def Let_def split: if_splits sum.splits)
  with assms(4) show ?thesis using merge_items_rows by fastforce
qed

lemma retired_item_refused:
  assumes "delivery_stands d r" "item \<in> set (retirementSnapshotItems d items (Some (dl_scope r)))"
  shows "sp_entity item \<noteq> dl_entity r"
  using assms
  by (auto simp: delivery_stands_def retirementSnapshotItems_def retirementAllowsSnapshot_def isMemoryScopeRetired_def
      hasMemoryScopeRetirement_def exists_where_iff Let_def split: option.splits if_splits)

text \<open>C27: retirements precede content. A recipient begins a reset; the source serves its pages, the recipient takes them,
  and both devices do other work in between, in any order. If the recipient then applies a snapshot of a scope
  under that reset, every retirement the source had queued for it at the beginning, acknowledged or not,
  stands there before the first row is written; every item comes from a memory of the source; and no row of a
  retired memory in its retired scope is added, whatever the snapshot holds.\<close>

theorem reset_precedes_content:
  assumes "beginRetirementReset env False w opts info = Inr (rq, w0)" "rp_device (rx_peer opts) = source"
    "find_manifest (snd a) (rg_id rq) recipient source = None"
    "(reset_step (rg_id rq) source recipient)\<^sup>*\<^sup>* (a, w0, []) (a1, w1, served)"
    "applyRetirementProtectedSnapshot env1 in_tx w1 opts1 (rg_id rq) info1 items mode sourceOnly = Inr (res, w2)"
    "rb_scope_id info1 = Some s" "clean_text (Some s) = Some s"
  shows "(\<forall>r\<in>set (retirement_deliveries (fst a)). dl_peer r = recipient \<longrightarrow> dl_source r = source \<longrightarrow>
      isMemoryScopeRetired (fst w1) (dl_entity r) (Some (dl_scope r))
      \<and> (\<forall>m\<in>set (memories (fst w2)). m_import_key m = Some (dl_entity r) \<longrightarrow> m_scope_id m = Some (dl_scope r)
          \<longrightarrow> m \<in> set (memories (fst w1))))
    \<and> (\<forall>item\<in>set items. memorySourceNamespace (sp_entity item) = Some source)"
proof -
  let ?queue = "queued_controls (fst a) recipient source"
  from begin_reset_Inr [OF assms(1)] assms(2,3) have "reset_invariant ?queue (rg_id rq) source recipient (a, w0, [])"
    by (auto simp: reset_invariant_def Let_def)
  from reset_run_invariant [OF assms(4) this] obtain row where row: "resetState (snd w1) (rg_id rq) = Inr row" "rs_source row = source"
    "rs_complete row \<longrightarrow> (\<exists>m. set ?queue \<subseteq> set (mf_controls m) \<and> received_of (fst w1) m row)"
    using reset_invariant_row by blast
  from assms(5) row(1) obtain d1 d2 where run: "rs_complete row" "rs_source row = rp_device (rx_peer opts1)"
    "verify_items env1 (rp_device (rx_peer opts1)) items (fst w1) = Inr d1" "fst w2 = d2"
    "(if mode = Replace then applyBootstrapSnapshot (rv_boot env1) d1 (rp_device (rx_peer opts1)) items info1
      else mergeBootstrapSnapshot (rv_boot env1) d1 (rp_device (rx_peer opts1)) items info1 sourceOnly) = Inr (res, d2)"
    by (auto simp: applyRetirementProtectedSnapshot_def map_sum_Inr_iff split: sum.splits if_splits)
  note verified = verify_items_Inr [OF run(3)]
  have queued: "control_json (control_of r) \<in> set ?queue"
    if "r \<in> set (retirement_deliveries (fst a))" "dl_peer r = recipient" "dl_source r = source" for r
    using that by (auto simp: queued_controls_def)
  from row(3) run(1) have stands: "control_stands (fst w1) v" if "v \<in> set ?queue" for v
    using that by (auto simp: received_of_def list_all_iff)
  have "delivery_stands (fst w1) r \<and> (\<forall>m\<in>set (memories d2). m_import_key m = Some (dl_entity r)
      \<longrightarrow> m_scope_id m = Some (dl_scope r) \<longrightarrow> m \<in> set (memories (fst w1)))"
    if r: "r \<in> set (retirement_deliveries (fst a))" "dl_peer r = recipient" "dl_source r = source" for r
  proof -
    from stands [OF queued [OF r]] have fence: "delivery_stands (fst w1) r" by (simp add: control_stands_def)
    then have "delivery_stands d1 r" using verified by (simp add: delivery_stands_def isMemoryScopeRetired_def)
    with applied_snapshot_rows [OF assms(6,7) run(5)] verified have
      "m \<in> set (memories (fst w1))" if "m \<in> set (memories d2)" "m_import_key m = Some (dl_entity r)" "m_scope_id m = Some (dl_scope r)" for m
      using that retired_item_refused [of d1 r] written_row_facts(1,2) by (metis option.inject)
    with fence show ?thesis by blast
  qed
  then show ?thesis using verified row(2) run(2,4) by (auto simp: delivery_stands_def)
qed


text \<open>A device that lost the memory of \<open>retired_entity\<close> comes back; the source has one retirement queued for it.\<close>

definition reset_hash :: "string \<Rightarrow> string" where
  "reset_hash s = replicate 64 CHR ''a''"

definition reset_sample_boot :: bootstrap_env where
  "reset_sample_boot = \<lparr> be_now = ''t1'', be_fresh = ''f'', be_scan = (\<lambda>s. s), be_redact = (\<lambda>p. p), be_sha256 = (\<lambda>s. s) \<rparr>"

definition reset_sample :: "json \<Rightarrow> reset_env" where
  "reset_sample body = \<lparr> rv_delivery = sample_delivery\<lparr> de_auth := (de_auth sample_delivery)\<lparr> au_digest := reset_hash \<rparr>,
     de_parse := (\<lambda>_. Some body) \<rparr>, rv_fingerprint = (\<lambda>k. k), rv_uuid = replicate 36 CHR ''a'', rv_boot = reset_sample_boot \<rparr>"

definition reset_party :: "string \<Rightarrow> string \<Rightarrow> reset_options" where
  "reset_party me peer = \<lparr> rx_me = me, rx_peer = \<lparr> rp_device = peer, rp_public_key = ''ssh-ed25519 key'' \<rparr>,
     rx_features = retirement_features, rx_now = ''2028'' \<rparr>"

definition trusting :: "string \<Rightarrow> string \<Rightarrow> db \<Rightarrow> reset_db" where
  "trusting me peer d = (d, \<lparr> st_trust = [\<lparr> tw_local = me, tw_peer = peer, tw_public_key = ''ssh-ed25519 key'',
     tw_fingerprint = ''ssh-ed25519 key'' \<rparr>], st_receivers = [], st_manifests = [] \<rparr>)"

definition reset_source :: reset_db where
  "reset_source = trusting ''here'' ''there'' (queue_delivery reset_hash retired_input ''there'' empty_db)"

definition reset_boundary_sample :: reset_boundary where
  "reset_boundary_sample = \<lparr> rb_scope_id = Some ''team'', rb_generation = 1, rb_snapshot_id = ''snap'', rb_baseline_cursor = None,
     rb_retained_floor_cursor = None \<rparr>"

definition retired_item :: snapshot_page_item where
  "retired_item = \<lparr> sp_entity = retired_entity, sp_op_type = ''upsert'',
     sp_payload = JsonDoc (JObj [(''scope_id'', JStr ''team''), (''title'', JStr ''back'')]), sp_clock_rev = 9,
     sp_clock_updated_at = ''2028'', sp_clock_device = ''here'' \<rparr>"

definition request_packet :: "string \<Rightarrow> packet" where
  "request_packet recipient = sample_packet\<lparr> pk_recipient := recipient \<rparr>"

definition request_json :: "reset_request \<Rightarrow> json" where
  "request_json rq = JObj [(''feature'', JStr MEMORY_RETIREMENT_FEATURE), (''resetId'', JStr (rg_id rq)),
     (''boundary'', JStr (rg_boundary rq)), (''offset'', JNum (of_int (int (rg_offset rq))))]"

lemma reset_sample_supports: "supportsSyncFeature retirement_features MEMORY_RETIREMENT_FEATURE"
  by code_simp

lemma reset_sample_material:
  "sshEd25519ToPublicKey (\<lambda>_. [0, 0, 0, 1, 9, 0, 0, 0, 32] @ replicate 32 7) ''ssh-ed25519 key'' = Inr (replicate 32 7)"
  "decodeStrictBase64 ''AQ=='' = Some [1]" "isFreshTimestamp 1000 ''1000'' DEFAULT_TIME_WINDOW_S"
  "isValidRecipientId ''there''" "isValidRecipientId ''here''" "utf8_length ''b'' = 1"
  by code_simp+

lemma reset_sample_requires:
  "requireInternalReset (reset_sample v) False (d, \<lparr> st_trust = st_trust (snd (trusting me peer e)), st_receivers = rs, st_manifests = ms \<rparr>)
     (reset_party me peer) = Inr ()"
  by (simp add: requireInternalReset_def reset_party_def reset_sample_supports getRetirementPeer_def trusting_def validPin_def reset_sample_def)

lemma reset_sample_authentic:
  assumes "me = ''here'' \<or> me = ''there''"
  shows "authenticateRetirementPacket (rv_delivery (reset_sample v)) (request_packet me) (rx_peer (reset_party me peer)) me path = Inr ()"
  using assms reset_sample_material
  by (auto simp: authenticateRetirementPacket_def reset_sample_def request_packet_def sample_packet_def sample_delivery_def
      sample_auth_def verifyDirectPeerSignature_def present_def window_of_def buildDirectPeerCanonicalRequest_def verified_by_def
      DIRECT_PEER_SIGNATURE_VERSION_def starts_with_def reset_party_def Let_def)

definition reset_sample_rq :: reset_request where
  "reset_sample_rq = \<lparr> rg_id = replicate 36 CHR ''a'', rg_boundary = replicate 64 CHR ''a'', rg_offset = 0 \<rparr>"

definition reset_sample_row :: reset_receiver where
  "reset_sample_row = \<lparr> rs_id = rg_id reset_sample_rq, rs_source = ''here'', rs_public_key = ''ssh-ed25519 key'',
                   rs_local = ''there'', rs_boundary = rg_boundary reset_sample_rq, rs_next_offset = 0, rs_complete = False,
                   rs_last_digest = None \<rparr>"

definition reset_sample_begun :: reset_db where
  "reset_sample_begun = (fst (trusting ''there'' ''here'' empty_db), (snd (trusting ''there'' ''here'' empty_db))\<lparr> st_receivers := [reset_sample_row] \<rparr>)"

lemma trusting_store: "trusting me peer d = (d, \<lparr> st_trust = st_trust (snd (trusting me peer e)), st_receivers = [], st_manifests = [] \<rparr>)"
  by (simp add: trusting_def)

lemma reset_sample_begins:
  "beginRetirementReset (reset_sample JNull) False (trusting ''there'' ''here'' empty_db) (reset_party ''there'' ''here'')
     reset_boundary_sample = Inr (reset_sample_rq, reset_sample_begun)"
  using reset_sample_requires [of JNull empty_db "''there''" "''here''" empty_db "[]" "[]", folded trusting_store]
  by (simp add: beginRetirementReset_def Let_def exists_where_iff resetState_def requestFromState_def reset_sample_rq_def reset_sample_row_def
    reset_sample_def reset_party_def boundaryDigest_def reset_digest_def reset_hash_def reset_sample_begun_def trusting_def)

definition reset_sample_page :: reset_page where
  "reset_sample_page = \<lparr> rg_id = rg_id reset_sample_rq, rg_boundary = rg_boundary reset_sample_rq, rg_offset = 0, rg_recipient = ''there'',
     rg_controls = queued_controls (fst reset_source) ''there'' ''here'', rg_complete = True \<rparr>"

lemma reset_sample_request_valid: "validateRequest (request_json reset_sample_rq) = Some reset_sample_rq"
  by code_simp

lemma reset_sample_rq_offset: "rg_offset reset_sample_rq = 0"
  by (simp add: reset_sample_rq_def)

lemma reset_sample_queue: "\<exists>c. queued_controls (fst reset_source) ''there'' ''here'' = [c]" "nonces (fst reset_source) = []"
proof -
  have "length (queued_controls (fst reset_source) ''there'' ''here'') = 1" by code_simp
  then show "\<exists>c. queued_controls (fst reset_source) ''there'' ''here'' = [c]" by (simp add: length_Suc_conv)
  show "nonces (fst reset_source) = []" by code_simp
qed

lemma reset_sample_parse [simp]: "de_parse (rv_delivery (reset_sample b)) x = Some b"
  by (simp add: reset_sample_def)

lemma queued_controls_nonces [simp]: "queued_controls (d\<lparr> nonces := ns \<rparr>) = queued_controls d"
  by (simp add: queued_controls_def fun_eq_iff)

lemma reset_sample_serves: "\<exists>a1. serveRetirementReset (reset_sample (request_json reset_sample_rq)) False reset_source (request_packet ''here'')
    (reset_party ''here'' ''there'') = Inr (reset_sample_page, a1)"
proof -
  obtain c where c: "queued_controls (fst reset_source) ''there'' ''here'' = [c]" using reset_sample_queue(1) by blast
  have store: "reset_source = (fst reset_source, \<lparr> st_trust = st_trust (snd (trusting ''here'' ''there'' empty_db)), st_receivers = [], st_manifests = [] \<rparr>)"
    by (simp add: reset_source_def trusting_def)
  have "find_manifest (snd reset_source) i p x = None" for i p x
    by (simp add: reset_source_def trusting_def find_manifest_def)
  moreover note reset_sample_requires [of "request_json reset_sample_rq" "fst reset_source" "''here''" "''there''" empty_db "[]" "[]", folded store]
  ultimately show ?thesis
    using reset_sample_authentic [of "''here''" "request_json reset_sample_rq" "''there''" RETIREMENT_RESET_REQUEST_PATH]
    by (simp add: serveRetirementReset_def reset_sample_request_valid recordNonce_def reset_sample_queue(2) exists_where_iff resetManifest_def c
        reset_party_def Let_def reset_sample_rq_offset MAX_RESET_CONTROLS_def PAGE_SIZE_def reset_sample_page_def)
qed

lemma validateRequest_fields:
  assumes "list_all (\<lambda>k. field k (or_default (as_object v) []) = field k (or_default (as_object u) []))
    [''feature'', ''resetId'', ''boundary'', ''offset'']"
  shows "validateRequest v = validateRequest u"
proof -
  from assms have same: "field ''feature'' (or_default (as_object v) []) = field ''feature'' (or_default (as_object u) [])"
    "field ''resetId'' (or_default (as_object v) []) = field ''resetId'' (or_default (as_object u) [])"
    "field ''boundary'' (or_default (as_object v) []) = field ''boundary'' (or_default (as_object u) [])"
    "field ''offset'' (or_default (as_object v) []) = field ''offset'' (or_default (as_object u) [])" by simp_all
  show ?thesis unfolding validateRequest_def Let_def same ..
qed

lemma reset_sample_page_valid: "validateRequest (page_json reset_sample_page) = Some reset_sample_rq"
  unfolding reset_sample_request_valid [symmetric]
  by (rule validateRequest_fields)
    (simp add: page_json_def request_json_def as_object_def field_def reset_sample_page_def reset_sample_rq_offset)

definition reset_sample_receipt :: "string + db \<times> db \<times> bootstrap_result \<times> db" where
  "reset_sample_receipt = (case parseRetirementBatch reset_hash (\<lambda>_. Some (controls_batch ''there'' (rg_controls reset_sample_page))) [] ''there'' of
     Inl e \<Rightarrow> Inl e
   | Inr (_, cs) \<Rightarrow> (case applyAuthenticatedRetirementControls (rv_delivery (reset_sample (page_json reset_sample_page))) True cs ''here'' ''2028''
        (snd (recordNonce empty_db ''here'' ''n1'' ''2028'')) of
      Inl e \<Rightarrow> Inl e
    | Inr d2 \<Rightarrow> (case verify_items (reset_sample JNull) ''here'' [retired_item] d2 of
        Inl e \<Rightarrow> Inl e
      | Inr d3 \<Rightarrow> (case mergeBootstrapSnapshot reset_sample_boot d3 ''here'' [retired_item] reset_boundary_sample True of
          Inl e \<Rightarrow> Inl e | Inr (res, d4) \<Rightarrow> Inr (d2, d3, res, d4)))))"

lemma reset_sample_receipt_runs: "\<exists>d2 d3 res d4. reset_sample_receipt = Inr (d2, d3, res, d4)"
proof -
  have "isl reset_sample_receipt = False" by code_simp
  then have "reset_sample_receipt = Inr (projr reset_sample_receipt)" by simp
  then show ?thesis by (metis prod_cases4)
qed

text \<open>The recipient after the page, and after the snapshot.\<close>

definition reset_sample_after_page :: "db \<Rightarrow> reset_db" where
  "reset_sample_after_page d = (d, update_receiver reset_sample_page (reset_digest (reset_sample (page_json reset_sample_page)) (page_json reset_sample_page))
     (snd reset_sample_begun))"

lemma parse_constant: "parseRetirementBatch digest (\<lambda>_. r) body = parseRetirementBatch digest (\<lambda>_. r) []"
  by (simp add: parseRetirementBatch_def fun_eq_iff)

lemma reset_sample_begun_store:
  "reset_sample_begun = (empty_db, \<lparr> st_trust = st_trust (snd (trusting ''there'' ''here'' empty_db)), st_receivers = [reset_sample_row], st_manifests = [] \<rparr>)"
  by (simp add: reset_sample_begun_def trusting_def)

lemma reset_sample_digest [simp]: "au_digest (de_auth (rv_delivery (reset_sample v))) = reset_hash"
  by (simp add: reset_sample_def)

lemma reset_sample_page_validated:
  assumes "parseRetirementBatch reset_hash (\<lambda>_. Some (controls_batch ''there'' (rg_controls reset_sample_page))) [] ''there'' = Inr (b, cs)"
  shows "validatedPage (reset_sample (page_json reset_sample_page)) (request_packet ''there'') (reset_party ''there'' ''here'')
    = Inr (page_json reset_sample_page, reset_sample_page, cs)"
proof -
  obtain c where c: "queued_controls (fst reset_source) ''there'' ''here'' = [c]" using reset_sample_queue(1) by blast
  have fields: "as_object (page_json reset_sample_page) = Some [(''feature'', JStr MEMORY_RETIREMENT_FEATURE), (''resetId'', JStr (rg_id reset_sample_page)),
     (''boundary'', JStr (rg_boundary reset_sample_page)), (''offset'', JNum (of_int (int (rg_offset reset_sample_page)))),
     (''recipientDeviceId'', JStr ''there''), (''controls'', JArr [c]), (''complete'', JBool True)]"
    by (simp add: page_json_def as_object_def reset_sample_page_def c)
  have page: "\<lparr> rg_id = rg_id reset_sample_rq, rg_boundary = rg_boundary reset_sample_rq, rg_offset = rg_offset reset_sample_rq, rg_recipient = ''there'',
      rg_controls = [c], rg_complete = True \<rparr> = reset_sample_page" "rg_controls reset_sample_page = [c]"
    by (simp_all add: reset_sample_page_def c reset_sample_rq_offset)
  show ?thesis
    using reset_sample_authentic [of "''there''" "page_json reset_sample_page" "''here''" RETIREMENT_RESET_PAGE_PATH] assms
      parse_constant [of reset_hash "Some (controls_batch ''there'' [c])" "json_stringify (controls_batch ''there'' [c])"]
    by (simp add: validatedPage_def reset_sample_page_valid fields field_def page reset_party_def Let_def PAGE_SIZE_def)
qed

lemma reset_sample_receives:
  "\<exists>d2 res w2. receiveRetirementResetPage (reset_sample (page_json reset_sample_page)) False reset_sample_begun (request_packet ''there'')
      (reset_party ''there'' ''here'') = Inr (reset_sample_after_page d2)
    \<and> applyRetirementProtectedSnapshot (reset_sample JNull) False (reset_sample_after_page d2) (reset_party ''there'' ''here'') (rg_id reset_sample_rq)
        reset_boundary_sample [retired_item] Merge True = Inr (res, w2)"
proof -
  from reset_sample_receipt_runs obtain d2 d3 res d4 where "reset_sample_receipt = Inr (d2, d3, res, d4)" by blast
  then obtain b cs where run:
    "parseRetirementBatch reset_hash (\<lambda>_. Some (controls_batch ''there'' (rg_controls reset_sample_page))) [] ''there'' = Inr (b, cs)"
    "applyAuthenticatedRetirementControls (rv_delivery (reset_sample (page_json reset_sample_page))) True cs ''here'' ''2028''
        (snd (recordNonce empty_db ''here'' ''n1'' ''2028'')) = Inr d2"
    "verify_items (reset_sample JNull) ''here'' [retired_item] d2 = Inr d3"
    "mergeBootstrapSnapshot reset_sample_boot d3 ''here'' [retired_item] reset_boundary_sample True = Inr (res, d4)"
    by (auto simp: reset_sample_receipt_def simp del: verify_items.simps split: sum.splits)
  obtain d1 where nonce: "recordNonce empty_db ''here'' ''n1'' ''2028'' = (True, d1)"
    by (simp add: recordNonce_def empty_db_def exists_where_iff)
  have state: "resetState (snd reset_sample_begun) (rg_id reset_sample_page) = Inr reset_sample_row"
    by (simp add: resetState_def reset_sample_begun_store reset_sample_row_def reset_sample_page_def)
  have row: "rs_source reset_sample_row = ''here''" "rs_public_key reset_sample_row = ''ssh-ed25519 key''" "rs_local reset_sample_row = ''there''"
    "rs_boundary reset_sample_row = rg_boundary reset_sample_page" "rs_last_digest reset_sample_row = None" "\<not> rs_complete reset_sample_row"
    "rs_next_offset reset_sample_row = rg_offset reset_sample_page" by (simp_all add: reset_sample_row_def reset_sample_page_def)
  have party: "rx_me (reset_party ''there'' ''here'') = ''there''" "rp_device (rx_peer (reset_party ''there'' ''here'')) = ''here''"
    "rp_public_key (rx_peer (reset_party ''there'' ''here'')) = ''ssh-ed25519 key''" "rx_now (reset_party ''there'' ''here'') = ''2028''"
    "pk_nonce (request_packet ''there'') = ''n1''"
    by (simp_all add: reset_party_def request_packet_def sample_packet_def)
  note ready = reset_sample_requires [of "page_json reset_sample_page" empty_db "''there''" "''here''" empty_db "[reset_sample_row]" "[]", folded reset_sample_begun_store]
  have got: "receiveRetirementResetPage (reset_sample (page_json reset_sample_page)) False reset_sample_begun (request_packet ''there'')
      (reset_party ''there'' ''here'') = Inr (reset_sample_after_page d2)"
    using ready reset_sample_page_validated [OF run(1)] state row nonce run(2) [unfolded nonce snd_conv]
    by (simp add: receiveRetirementResetPage_def party reset_sample_begun_store reset_sample_after_page_def del: verify_items.simps)
  let ?row = "reset_sample_row\<lparr> rs_next_offset := rg_offset reset_sample_page + length (rg_controls reset_sample_page), rs_complete := True,
    rs_last_digest := Some (reset_digest (reset_sample (page_json reset_sample_page)) (page_json reset_sample_page)) \<rparr>"
  let ?store = "snd (reset_sample_after_page d2)"
  have store: "reset_sample_after_page d2 = (d2, \<lparr> st_trust = st_trust (snd (trusting ''there'' ''here'' empty_db)),
      st_receivers = st_receivers ?store, st_manifests = [] \<rparr>)"
    by (simp add: reset_sample_after_page_def update_receiver_def reset_sample_begun_store)
  have after: "resetState ?store (rg_id reset_sample_rq) = Inr ?row"
    using state by (simp add: reset_sample_after_page_def resetState_update reset_sample_page_def reset_sample_row_def)
  have boundary: "boundaryDigest (reset_sample JNull) reset_boundary_sample = rg_boundary reset_sample_page"
    by (simp add: boundaryDigest_def reset_digest_def reset_hash_def reset_sample_page_def reset_sample_rq_def)
  have boot: "rv_boot (reset_sample JNull) = reset_sample_boot" "fst (reset_sample_after_page d2) = d2"
    by (simp_all add: reset_sample_def reset_sample_after_page_def)
  note ready' = reset_sample_requires [of JNull d2 "''there''" "''here''" empty_db "st_receivers ?store" "[]", folded store]
  have "applyRetirementProtectedSnapshot (reset_sample JNull) False (reset_sample_after_page d2) (reset_party ''there'' ''here'')
      (rg_id reset_sample_rq) reset_boundary_sample [retired_item] Merge True = Inr (res, (d4, ?store))"
    using ready' row run(3,4)
    by (simp add: applyRetirementProtectedSnapshot_def after boundary boot party del: verify_items.simps)
  with got show ?thesis by blast
qed

theorem reset_precedes_content_witness:
  "\<exists>w1 res w2. applyRetirementProtectedSnapshot (reset_sample JNull) False w1 (reset_party ''there'' ''here'') (rg_id reset_sample_rq)
        reset_boundary_sample [retired_item] Merge True = Inr (res, w2)
    \<and> isMemoryScopeRetired (fst w1) retired_entity (Some ''team'')
    \<and> (\<forall>m\<in>set (memories (fst w2)). m_import_key m = Some retired_entity \<longrightarrow> m_scope_id m = Some ''team'' \<longrightarrow> m \<in> set (memories (fst w1)))"
proof -
  obtain a1 where serve: "serveRetirementReset (reset_sample (request_json reset_sample_rq)) False reset_source (request_packet ''here'')
    (reset_party ''here'' ''there'') = Inr (reset_sample_page, a1)" using reset_sample_serves by blast
  obtain d2 res w2 where take: "receiveRetirementResetPage (reset_sample (page_json reset_sample_page)) False reset_sample_begun
      (request_packet ''there'') (reset_party ''there'' ''here'') = Inr (reset_sample_after_page d2)"
    and snap: "applyRetirementProtectedSnapshot (reset_sample JNull) False (reset_sample_after_page d2) (reset_party ''there'' ''here'')
      (rg_id reset_sample_rq) reset_boundary_sample [retired_item] Merge True = Inr (res, w2)" using reset_sample_receives by blast
  let ?step = "reset_step (rg_id reset_sample_rq) ''here'' ''there''"
  have "?step (reset_source, reset_sample_begun, []) (a1, reset_sample_begun, [reset_sample_page])"
    by (rule reset_step.serves [OF serve]) (simp add: reset_party_def)
  moreover have "?step (a1, reset_sample_begun, [reset_sample_page]) (a1, reset_sample_after_page d2, [reset_sample_page])"
    by (rule reset_step.receives [OF take]) (simp_all add: reset_party_def)
  ultimately have run: "?step\<^sup>*\<^sup>* (reset_source, reset_sample_begun, []) (a1, reset_sample_after_page d2, [reset_sample_page])"
    by (meson converse_rtranclp_into_rtranclp r_into_rtranclp)
  obtain r where r: "r \<in> set (retirement_deliveries (fst reset_source))" "dl_peer r = ''there''" "dl_source r = ''here''"
    "dl_entity r = retired_entity" "dl_scope r = ''team''"
    by (auto simp: reset_source_def trusting_def queue_delivery_def insert_or_ignore_def exists_where_iff empty_db_def
        retired_input_def split: if_splits)
  have none: "find_manifest (snd reset_source) i p x = None" for i p x
    by (simp add: reset_source_def trusting_def find_manifest_def)
  have scope: "rb_scope_id reset_boundary_sample = Some ''team''" "clean_text (Some ''team'') = Some ''team''"
    by code_simp+
  have "rp_device (rx_peer (reset_party ''there'' ''here'')) = ''here''" by (simp add: reset_party_def)
  note safe = reset_precedes_content [OF reset_sample_begins this none run snap scope]
  from conjunct1 [OF safe] r have "isMemoryScopeRetired (fst (reset_sample_after_page d2)) retired_entity (Some ''team'')
    \<and> (\<forall>m\<in>set (memories (fst w2)). m_import_key m = Some retired_entity \<longrightarrow> m_scope_id m = Some ''team''
        \<longrightarrow> m \<in> set (memories (fst (reset_sample_after_page d2))))" by metis
  with snap show ?thesis by blast
qed

end
