(* ===== verification/Sync_Protocol.thy ===== *)
theory Sync_Protocol
  imports Op_Log Scope_Authorization Scope_Resolution Snapshot_Bootstrap
begin

text \<open>
  What two peers agree to speak (\<open>packages/core/src/sync-capability.ts\<close>) and which scopes a peer may ask for
  (\<open>packages/core/src/sync-scope-protocol.ts\<close>): the negotiated capability, \<open>parseSyncScopeRequest\<close>, the scopes
  that are advertised to a peer, and the per-scope state a device shows of a peer.

  \<open>scope_env\<close> holds what the authorization cache is asked with: the parse of a signing key, of a date, the time;
  \<open>localeCompare\<close> and the snapshot id drawn for a scope that has no boundary yet. An outer \<open>Inl\<close> is an exception.
\<close>

section \<open>Capabilities\<close>

datatype sync_capability = Unsupported | Aware | Enforcing | Scoped

fun capability_text :: "sync_capability \<Rightarrow> string" where
  "capability_text Unsupported = ''unsupported''"
| "capability_text Aware = ''aware''"
| "capability_text Enforcing = ''enforcing''"
| "capability_text Scoped = ''scoped''"

definition SYNC_CAPABILITIES :: "sync_capability list" where
  "SYNC_CAPABILITIES = [Unsupported, Aware, Enforcing, Scoped]"

definition LOCAL_SYNC_CAPABILITY :: sync_capability where "LOCAL_SYNC_CAPABILITY = Scoped"

fun CAPABILITY_RANK :: "sync_capability \<Rightarrow> nat" where
  "CAPABILITY_RANK Unsupported = 0"
| "CAPABILITY_RANK Aware = 1"
| "CAPABILITY_RANK Enforcing = 2"
| "CAPABILITY_RANK Scoped = 3"

definition isScopedSyncCapability :: "sync_capability \<Rightarrow> bool" where
  "isScopedSyncCapability c \<longleftrightarrow> CAPABILITY_RANK c \<ge> CAPABILITY_RANK Scoped"

definition normalizeSyncCapability :: "json option \<Rightarrow> sync_capability" where
  "normalizeSyncCapability v = (case v of
     Some (JStr s) \<Rightarrow> or_default (first_where (\<lambda>c. capability_text c = js_lower (js_trim s)) SYNC_CAPABILITIES) Unsupported
   | _ \<Rightarrow> Unsupported)"

definition negotiateSyncCapability :: "json option \<Rightarrow> json option \<Rightarrow> sync_capability" where
  "negotiateSyncCapability localCapability peerCapability =
     (let mine = normalizeSyncCapability localCapability; peer = normalizeSyncCapability peerCapability
      in if CAPABILITY_RANK mine \<le> CAPABILITY_RANK peer then mine else peer)"

text \<open>Capabilities are ordered by their rank.\<close>

instantiation sync_capability :: linorder
begin

definition less_eq_sync_capability :: "sync_capability \<Rightarrow> sync_capability \<Rightarrow> bool" where
  "a \<le> b \<longleftrightarrow> CAPABILITY_RANK a \<le> CAPABILITY_RANK b"

definition less_sync_capability :: "sync_capability \<Rightarrow> sync_capability \<Rightarrow> bool" where
  "a < b \<longleftrightarrow> CAPABILITY_RANK a < CAPABILITY_RANK b"

instance
proof
  fix a b c :: sync_capability
  show "a \<le> b \<Longrightarrow> b \<le> a \<Longrightarrow> a = b" by (cases a; cases b) (simp_all add: less_eq_sync_capability_def)
qed (auto simp: less_eq_sync_capability_def less_sync_capability_def)

end

lemma capability_roundtrip: "normalizeSyncCapability (Some (JStr (capability_text c))) = c"
  by (cases c; simp only:; code_simp)

lemma negotiate_min: "negotiateSyncCapability a b = min (normalizeSyncCapability a) (normalizeSyncCapability b)"
  by (simp add: negotiateSyncCapability_def Let_def min_def less_eq_sync_capability_def)

section \<open>A scope request\<close>

datatype scope_reset_reason = MissingScopeReset | UnsupportedScopeReset | StaleEpochReset | ScopeInactiveReset

record scope_env =
  xv_key_id :: "string \<Rightarrow> string option"
  xv_parse_date :: "string \<Rightarrow> int option"
  xv_now_ms :: int
  xv_locale :: "string \<Rightarrow> string \<Rightarrow> int"
  xv_fresh :: "string \<Rightarrow> string"

text \<open>\<open>syncScopeAuthorizationContext\<close>; the keys are null when they are not known.\<close>

record scope_context =
  xc_local :: string
  xc_local_key :: "string option"
  xc_peer :: string
  xc_peer_key :: "string option"

definition effective_authorization :: "scope_env \<Rightarrow> db \<Rightarrow> string \<Rightarrow> string \<Rightarrow> string option \<Rightarrow> string + scope_authorization" where
  "effective_authorization env d deviceId scopeId key =
     map_sum id fst (getEffectiveCachedScopeAuthorization (xv_key_id env) (xv_parse_date env) (xv_now_ms env)
       DEFAULT_SCOPE_MEMBERSHIP_CACHE_MAX_AGE_MS d deviceId scopeId None (Some (or_default key [])))"

definition is_local_authority :: "scope_authorization \<Rightarrow> bool" where
  "is_local_authority au \<longleftrightarrow> map_option sc_authority_type (au_scope au) = Some ''local''"

definition scopeAuthorizationFailureReason :: "scope_authorization \<Rightarrow> scope_reset_reason option" where
  "scopeAuthorizationFailureReason au =
     (if is_local_authority au then Some MissingScopeReset
      else if au_authorized au then None
      else Some (case au_state au of
          StaleEpochState \<Rightarrow> StaleEpochReset
        | Revoked \<Rightarrow> ScopeInactiveReset
        | ScopeInactive \<Rightarrow> ScopeInactiveReset
        | _ \<Rightarrow> MissingScopeReset))"

text \<open>The scope of an accepted request, \<open>None\<close> for the legacy mode.\<close>

definition parseSyncScopeRequest ::
    "scope_env \<Rightarrow> db \<Rightarrow> json option \<Rightarrow> bool \<Rightarrow> scope_context \<Rightarrow> sync_capability
     \<Rightarrow> string + (scope_reset_reason + string option)" where
  "parseSyncScopeRequest env d v provided ctx negotiated =
     (if \<not> provided then Inr (Inr None)
      else (let scopeId = (case v of Some (JStr s) \<Rightarrow> js_trim s | _ \<Rightarrow> []);
                mine = js_trim (xc_local ctx); peer = js_trim (xc_peer ctx) in
        if scopeId = [] then Inr (Inl MissingScopeReset)
        else if \<not> isScopedSyncCapability negotiated then Inr (Inl UnsupportedScopeReset)
        else if mine = [] \<or> peer = [] then Inr (Inl MissingScopeReset)
        else (case effective_authorization env d mine scopeId (xc_local_key ctx) of
            Inl e \<Rightarrow> Inl e
          | Inr localAuthorization \<Rightarrow>
              (case scopeAuthorizationFailureReason localAuthorization of
                 Some reason \<Rightarrow> Inr (Inl reason)
               | None \<Rightarrow>
                   (case effective_authorization env d peer scopeId (xc_peer_key ctx) of
                      Inl e \<Rightarrow> Inl e
                    | Inr peerAuthorization \<Rightarrow>
                        (case scopeAuthorizationFailureReason peerAuthorization of
                           Some reason \<Rightarrow> Inr (Inl reason)
                         | None \<Rightarrow> Inr (Inr (Some scopeId))))))))"

definition addSyncScopeToBoundary :: "reset_boundary \<Rightarrow> string option \<Rightarrow> reset_boundary" where
  "addSyncScopeToBoundary b scopeId = b\<lparr> rb_scope_id := scopeId \<rparr>"

record scope_reset_payload =
  sy_boundary :: reset_boundary
  sy_reason :: scope_reset_reason
  sy_capability :: sync_capability

definition syncScopeResetRequiredPayload ::
    "reset_boundary \<Rightarrow> scope_reset_reason \<Rightarrow> sync_capability \<Rightarrow> string option \<Rightarrow> scope_reset_payload" where
  "syncScopeResetRequiredPayload b reason capability scopeId =
     \<lparr> sy_boundary = addSyncScopeToBoundary b scopeId, sy_reason = reason, sy_capability = capability \<rparr>"

section \<open>The scopes that are advertised\<close>

record scope_entry =
  ae_scope :: string
  ae_label :: string
  ae_authority_type :: string
  ae_epoch :: int

definition advertise :: "scope_env \<Rightarrow> db \<Rightarrow> scope_context \<Rightarrow> membership_row \<Rightarrow> string + scope_entry option" where
  "advertise env d ctx m =
     (if sm_scope m = [] \<or> sm_scope m = DEFAULT_SYNC_SCOPE_ID then Inr None
      else (case effective_authorization env d (js_trim (xc_local ctx)) (sm_scope m) (xc_local_key ctx) of
          Inl e \<Rightarrow> Inl e
        | Inr localAuth \<Rightarrow>
            if \<not> au_authorized localAuth \<or> is_local_authority localAuth then Inr None
            else (case effective_authorization env d (js_trim (xc_peer ctx)) (sm_scope m) (xc_peer_key ctx) of
                Inl e \<Rightarrow> Inl e
              | Inr peerAuth \<Rightarrow> Inr
                  (case au_scope peerAuth of
                     None \<Rightarrow> None
                   | Some s \<Rightarrow>
                       if \<not> au_authorized peerAuth \<or> sc_status s \<noteq> ''active'' then None
                       else Some \<lparr> ae_scope = sm_scope m, ae_label = sc_label s,
                              ae_authority_type = sc_authority_type s, ae_epoch = sc_epoch s \<rparr>))))"

fun advertise_all :: "scope_env \<Rightarrow> db \<Rightarrow> scope_context \<Rightarrow> membership_row list \<Rightarrow> string + scope_entry list" where
  "advertise_all env d ctx [] = Inr []"
| "advertise_all env d ctx (m # ms) = (case advertise env d ctx m of
     Inl e \<Rightarrow> Inl e
   | Inr entry \<Rightarrow> map_sum id (\<lambda>es. case entry of None \<Rightarrow> es | Some x \<Rightarrow> x # es) (advertise_all env d ctx ms))"

definition listAuthorizedScopeMembershipsForPeer :: "scope_env \<Rightarrow> db \<Rightarrow> scope_context \<Rightarrow> string + scope_entry list" where
  "listAuthorizedScopeMembershipsForPeer env d ctx =
     (let mine = js_trim (xc_local ctx); peer = js_trim (xc_peer ctx) in
      if mine = [] \<or> peer = [] \<or> mine = peer then Inr []
      else map_sum id (toSorted (\<lambda>a b. xv_locale env (ae_scope a) (ae_scope b)))
        (advertise_all env d ctx (filter (\<lambda>m. sm_device m = mine \<and> sm_status m = ''active'') (memberships d))))"

text \<open>Each boundary is read in turn, and created where there is none.\<close>

fun advertise_boundaries :: "scope_env \<Rightarrow> string \<Rightarrow> db \<Rightarrow> scope_entry list \<Rightarrow> (scope_entry \<times> reset_boundary) list \<times> db" where
  "advertise_boundaries env now d [] = ([], d)"
| "advertise_boundaries env now d (e # es) =
     (let (b, d1) = getSyncResetState now (xv_fresh env (ae_scope e)) d (Some (Some (ae_scope e)));
          (rest, d2) = advertise_boundaries env now d1 es
      in ((e, addSyncScopeToBoundary b (Some (ae_scope e))) # rest, d2))"

definition listAuthorizedScopesForPeer ::
    "scope_env \<Rightarrow> string \<Rightarrow> db \<Rightarrow> scope_context \<Rightarrow> string + (scope_entry \<times> reset_boundary) list \<times> db" where
  "listAuthorizedScopesForPeer env now d ctx =
     map_sum id (advertise_boundaries env now d) (listAuthorizedScopeMembershipsForPeer env d ctx)"

section \<open>The state of a peer's scopes\<close>

record peer_scope_state = scope_entry +
  pv_last_applied :: "string option"
  pv_last_acked :: "string option"
  pv_bootstrapped :: bool

definition listPerPeerScopeSyncState ::
    "scope_env \<Rightarrow> db \<Rightarrow> string option \<Rightarrow> scope_context \<Rightarrow> string + peer_scope_state list" where
  "listPerPeerScopeSyncState env d localDevice ctx =
     (let mine = js_trim (or_default localDevice []); peer = js_trim (xc_peer ctx) in
      if mine = [] \<or> peer = [] then Inr []
      else map_sum id (map (\<lambda>e.
          (let cursor = first_where (\<lambda>c. cr_peer c = peer \<and> cr_scope c = ae_scope e) (cursors d);
               applied = (case cursor of None \<Rightarrow> None | Some c \<Rightarrow> cr_last_applied c);
               acked = (case cursor of None \<Rightarrow> None | Some c \<Rightarrow> cr_last_acked c);
               marker = (acked = Some SCOPED_NULL_BASELINE_BOOTSTRAP_CURSOR_MARKER)
           in scope_entry.extend e (peer_scope_state.fields applied (if marker then None else acked) (applied \<noteq> None \<or> marker)))))
        (listAuthorizedScopeMembershipsForPeer env d (ctx\<lparr> xc_local := mine, xc_peer := peer \<rparr>)))"


section \<open>What is advertised can be requested\<close>

lemma effective_authorization_facts:
  assumes "effective_authorization env d dev s key = Inr au" "clean_text (Some dev) = Some dev" "clean_text (Some s) = Some s"
  shows "au_scope au = auth_scope d dev s" "au_authorized au \<Longrightarrow> cached_decision d dev s = Authorized"
proof -
  obtain m sc where rows: "readCachedScopeRows d dev s None = (m, sc)" by fastforce
  then obtain cached where read: "readCachedScopeAuthorization (xv_parse_date env) (xv_now_ms env)
      DEFAULT_SCOPE_MEMBERSHIP_CACHE_MAX_AGE_MS d dev s None = Inr cached" "au_scope cached = auth_scope d dev s"
      "au_authorized cached = (cached_decision d dev s = Authorized)"
    using assms(2,3)
    by (simp add: readCachedScopeAuthorization_def cached_decision_def auth_scope_def Let_def)
  show "au_scope au = auth_scope d dev s" "au_authorized au \<Longrightarrow> cached_decision d dev s = Authorized"
    using assms(1) read
    by (auto simp: effective_authorization_def getEffectiveCachedScopeAuthorization_def split: option.splits if_splits)
qed

lemma authorized_row:
  assumes "cached_decision d dev s = Authorized"
  shows "\<exists>m sc. m \<in> set (memberships d) \<and> sm_device m = dev \<and> sm_scope m = s \<and> sm_status m = ''active''
    \<and> auth_scope d dev s = Some sc \<and> (sc_status sc = [] \<or> sc_status sc = ''active'')
    \<and> first_where (\<lambda>r. sc_id r = s) (scopes d) = Some sc"
proof -
  obtain m sc where rows: "readCachedScopeRows d dev s None = (Some m, Some sc)" "sm_status m = ''active''"
      "sc_status sc = [] \<or> sc_status sc = ''active''"
    using assms
    by (cases "readCachedScopeRows d dev s None")
      (auto simp: cached_decision_def cachedScopeDecisionState_def split: option.splits if_splits)
  from rows(1) have found: "first_where (\<lambda>m. sm_device m = dev \<and> sm_scope m = s \<and> joined_authority_ok d None m) (memberships d) = Some m"
      "scopeFromJoinedRow d m = Some sc"
    by (auto simp: readCachedScopeRows_def split: option.splits)
  from first_where_SomeD [OF found(1)] have m: "m \<in> set (memberships d)" "sm_device m = dev" "sm_scope m = s" by auto
  with found(2) have "first_where (\<lambda>r. sc_id r = s) (scopes d) = Some sc"
    by (simp add: scopeFromJoinedRow_def joined_scope_def split: option.splits if_splits)
  with m rows show ?thesis by (auto simp: auth_scope_def)
qed

lemma advertise_all_iff:
  assumes "advertise_all env d ctx ms = Inr es"
  shows "e \<in> set es \<longleftrightarrow> (\<exists>m\<in>set ms. advertise env d ctx m = Inr (Some e))"
  using assms
proof (induction ms arbitrary: es)
  case (Cons m ms)
  then show ?case by (cases "advertise env d ctx m"; cases "advertise_all env d ctx ms") (auto split: option.splits)
qed simp

lemma advertise_all_answers: "advertise_all env d ctx ms = Inr es \<Longrightarrow> m \<in> set ms \<Longrightarrow> \<exists>r. advertise env d ctx m = Inr r"
  by (induction ms arbitrary: es) (auto split: sum.splits simp: map_sum_def)


definition may_use :: "scope_env \<Rightarrow> db \<Rightarrow> string \<Rightarrow> string option \<Rightarrow> string \<Rightarrow> bool" where
  "may_use env d dev key s \<longleftrightarrow> (\<exists>au. effective_authorization env d dev s key = Inr au
     \<and> scopeAuthorizationFailureReason au = None)"

definition requestable :: "scope_env \<Rightarrow> db \<Rightarrow> scope_context \<Rightarrow> string \<Rightarrow> bool" where
  "requestable env d ctx s \<longleftrightarrow> may_use env d (xc_local ctx) (xc_local_key ctx) s \<and> may_use env d (xc_peer ctx) (xc_peer_key ctx) s"

lemma failure_reason_None: "scopeAuthorizationFailureReason au = None \<longleftrightarrow> au_authorized au \<and> \<not> is_local_authority au"
  by (simp add: scopeAuthorizationFailureReason_def)

lemma parse_requestable:
  assumes "js_trim (xc_local ctx) = xc_local ctx" "js_trim (xc_peer ctx) = xc_peer ctx" "js_trim s = s"
    "parseSyncScopeRequest env d (Some (JStr s)) True ctx negotiated = Inr (Inr (Some s'))"
  shows "s' = s \<and> requestable env d ctx s \<and> negotiated = Scoped"
  using assms
  by (cases negotiated) (auto simp: parseSyncScopeRequest_def requestable_def may_use_def Let_def
      isScopedSyncCapability_def split: sum.splits if_splits option.splits)

lemma requestable_parse:
  assumes "js_trim (xc_local ctx) = xc_local ctx" "js_trim (xc_peer ctx) = xc_peer ctx" "js_trim s = s"
    "xc_local ctx \<noteq> []" "xc_peer ctx \<noteq> []" "s \<noteq> []" "requestable env d ctx s"
  shows "parseSyncScopeRequest env d (Some (JStr s)) True ctx Scoped = Inr (Inr (Some s))"
  using assms
  by (auto simp: parseSyncScopeRequest_def requestable_def may_use_def Let_def isScopedSyncCapability_def)

text \<open>C19: what is advertised can be requested, and nothing else. The scopes a device lists for a peer are exactly those for
  which a request of that peer is let through: the two paths, one over the memberships and one over the scope of a
  request, decide alike.\<close>

theorem advertised_iff_requestable:
  assumes "listAuthorizedScopeMembershipsForPeer env d ctx = Inr es"
    "js_trim (xc_local ctx) = xc_local ctx" "js_trim (xc_peer ctx) = xc_peer ctx" "js_trim s = s"
    "xc_local ctx \<noteq> []" "xc_peer ctx \<noteq> []" "xc_local ctx \<noteq> xc_peer ctx" "s \<noteq> []" "s \<noteq> DEFAULT_SYNC_SCOPE_ID"
    "\<forall>sc\<in>set (scopes d). sc_status sc \<noteq> []"
  shows "(\<exists>e\<in>set es. ae_scope e = s)
    \<longleftrightarrow> parseSyncScopeRequest env d (Some (JStr s)) True ctx Scoped = Inr (Inr (Some s))"
proof -
  define ms where "ms = filter (\<lambda>m. sm_device m = xc_local ctx \<and> sm_status m = ''active'') (memberships d)"
  obtain es0 where all: "advertise_all env d ctx ms = Inr es0" "set es = set es0"
    using assms(1-7) by (auto simp: listAuthorizedScopeMembershipsForPeer_def Let_def ms_def map_sum_def split: sum.splits)
  have clean: "clean_text (Some x) = Some x" if "x \<noteq> []" "js_trim x = x" for x
    using that by (simp add: clean_text_def)
  note facts = effective_authorization_facts [OF _ clean clean]
  have "(\<exists>m\<in>set ms. \<exists>e. advertise env d ctx m = Inr (Some e) \<and> ae_scope e = s) \<longleftrightarrow> requestable env d ctx s"
  proof
    assume "\<exists>m\<in>set ms. \<exists>e. advertise env d ctx m = Inr (Some e) \<and> ae_scope e = s"
    then obtain m e where m: "m \<in> set ms" "advertise env d ctx m = Inr (Some e)" "ae_scope e = s" by blast
    then obtain la pa sc where ok: "effective_authorization env d (xc_local ctx) s (xc_local_key ctx) = Inr la"
        "au_authorized la" "\<not> is_local_authority la"
        "effective_authorization env d (xc_peer ctx) s (xc_peer_key ctx) = Inr pa" "au_authorized pa" "au_scope pa = Some sc"
      using assms(2,3) by (auto simp: advertise_def split: if_splits sum.splits option.splits)
    note l = facts [OF ok(1)] and p = facts [OF ok(4)]
    have "cached_decision d (xc_local ctx) s = Authorized" "cached_decision d (xc_peer ctx) s = Authorized"
      using l p ok assms by simp_all
    then have "au_scope la = au_scope pa"
      using l(1) p(1) assms authorized_row [of d "xc_local ctx" s] authorized_row [of d "xc_peer ctx" s] by auto
    then have "\<not> is_local_authority pa" using ok(3) by (simp add: is_local_authority_def)
    with ok show "requestable env d ctx s" by (auto simp: requestable_def may_use_def failure_reason_None)
  next
    assume "requestable env d ctx s"
    then obtain la pa where ok: "effective_authorization env d (xc_local ctx) s (xc_local_key ctx) = Inr la"
        "au_authorized la" "\<not> is_local_authority la"
        "effective_authorization env d (xc_peer ctx) s (xc_peer_key ctx) = Inr pa" "au_authorized pa"
      by (auto simp: requestable_def may_use_def failure_reason_None)
    note l = facts [OF ok(1)] and p = facts [OF ok(4)]
    have dec: "cached_decision d (xc_local ctx) s = Authorized" "cached_decision d (xc_peer ctx) s = Authorized"
      using l p ok assms by simp_all
    from authorized_row [OF dec(1)] obtain m where m: "m \<in> set ms" "sm_scope m = s" by (auto simp: ms_def)
    from authorized_row [OF dec(2)] obtain sc where sc: "auth_scope d (xc_peer ctx) s = Some sc"
        "sc_status sc = [] \<or> sc_status sc = ''active''" "sc \<in> set (scopes d)" by (auto dest!: first_where_SomeD)
    then have "sc_status sc = ''active''" "au_scope pa = Some sc" using assms p by auto
    with ok m(2) assms have "\<exists>e. advertise env d ctx m = Inr (Some e) \<and> ae_scope e = s"
      by (simp add: advertise_def)
    with m(1) show "\<exists>m\<in>set ms. \<exists>e. advertise env d ctx m = Inr (Some e) \<and> ae_scope e = s" by blast
  qed
  moreover have "(\<exists>e\<in>set es. ae_scope e = s) \<longleftrightarrow> (\<exists>m\<in>set ms. \<exists>e. advertise env d ctx m = Inr (Some e) \<and> ae_scope e = s)"
    using all(2) advertise_all_iff [OF all(1)] by metis
  ultimately show ?thesis using requestable_parse parse_requestable assms by blast
qed


text \<open>Two members of a scope that a group administers by hand.\<close>

definition sample_scope_env :: scope_env where
  "sample_scope_env = \<lparr> xv_key_id = Some, xv_parse_date = (\<lambda>_. None), xv_now_ms = 0,
     xv_locale = (\<lambda>a b. if a < b then - 1 else if a = b then 0 else 1), xv_fresh = (\<lambda>s. ''snap-'' @ s) \<rparr>"

definition sample_member :: "string \<Rightarrow> string \<Rightarrow> membership_row" where
  "sample_member scope device = \<lparr> sm_scope = scope, sm_device = device, sm_role = ''member'', sm_status = ''active'', sm_epoch = 1,
     sm_coordinator_id = None, sm_group_id = None, sm_manifest_issuer = None, sm_manifest_hash = None,
     sm_signed_manifest = None, sm_updated_at = ''t'' \<rparr>"

definition sample_scope :: "string \<Rightarrow> scope_row" where
  "sample_scope scope = \<lparr> sc_id = scope, sc_label = ''Team'', sc_kind = ''team'', sc_authority_type = ''manual'',
     sc_coordinator_id = None, sc_group_id = None, sc_manifest_issuer = None, sc_epoch = 1, sc_manifest_hash = None,
     sc_status = ''active'', sc_created_at = ''t'', sc_updated_at = ''t'' \<rparr>"

definition sample_scope_db :: db where
  "sample_scope_db = empty_db\<lparr> scopes := [sample_scope ''team''],
     memberships := [sample_member ''team'' ''here'', sample_member ''team'' ''peer''] \<rparr>"

definition sample_scope_context :: scope_context where
  "sample_scope_context = \<lparr> xc_local = ''here'', xc_local_key = Some ''k1'', xc_peer = ''peer'', xc_peer_key = Some ''k2'' \<rparr>"

theorem advertised_iff_requestable_witness:
  "\<exists>es. listAuthorizedScopeMembershipsForPeer sample_scope_env sample_scope_db sample_scope_context = Inr es
    \<and> (\<exists>e\<in>set es. ae_scope e = ''team'')
    \<and> parseSyncScopeRequest sample_scope_env sample_scope_db (Some (JStr ''team'')) True sample_scope_context Scoped
        = Inr (Inr (Some ''team''))"
proof -
  let ?e = "\<lparr> ae_scope = ''team'', ae_label = ''Team'', ae_authority_type = ''manual'', ae_epoch = 1 \<rparr>"
  have listed: "listAuthorizedScopeMembershipsForPeer sample_scope_env sample_scope_db sample_scope_context = Inr [?e]"
    by code_simp
  have clean: "js_trim (xc_local sample_scope_context) = xc_local sample_scope_context"
      "js_trim (xc_peer sample_scope_context) = xc_peer sample_scope_context" "js_trim ''team'' = ''team''"
      "xc_local sample_scope_context \<noteq> []" "xc_peer sample_scope_context \<noteq> []"
      "xc_local sample_scope_context \<noteq> xc_peer sample_scope_context" "''team'' \<noteq> []" "''team'' \<noteq> DEFAULT_SYNC_SCOPE_ID"
      "\<forall>sc\<in>set (scopes sample_scope_db). sc_status sc \<noteq> []"
    by code_simp+
  show ?thesis using listed advertised_iff_requestable [OF listed clean] by auto
qed

end
