(* ===== verification/Request_Authorization.thy ===== *)
theory Request_Authorization
  imports Sync_Auth
begin

text \<open>
  Who may talk to the sync routes (\<open>authorizeSyncRequest\<close> of
  \<open>packages/viewer-server/src/routes/sync.ts\<close> and \<open>recordHighestObservedDirectSignatureVersion\<close> of
  \<open>packages/core/src/db.ts\<close>): the peer must be paired, its key pinned, its signature valid, its nonce new, and
  a peer that once signed for a recipient may not go back to signatures that name none.

  \<open>moment\<close> is one call's view of the outside: the time (\<open>Date.now()\<close>, in milliseconds, the same for the
  whole call) and whether SQLite answers that the database is locked. \<open>toISOString\<close> is the parameter
  \<open>se_iso\<close>; \<open>se_local\<close> is the answer of \<open>ensureDeviceIdentity\<close>, \<open>None\<close> when it throws.
\<close>

record server_env =
  se_auth :: auth_env
  se_iso :: "int \<Rightarrow> string"
  se_local :: "string option"

record moment =
  mo_now :: int
  mo_nonce_busy :: bool
  mo_cleanup_busy :: bool
  mo_version_busy :: bool

record http_request =
  hr_method :: string
  hr_path :: string
  hr_headers :: "(string \<times> string) list"
  hr_body :: string

definition header :: "http_request \<Rightarrow> string \<Rightarrow> string option" where
  "header r name = map_of (hr_headers r) name"

datatype sync_auth = Authenticated string string | NotAuthenticated string string

definition SYNC_AUTH_STORE_BUSY_REASON :: string where "SYNC_AUTH_STORE_BUSY_REASON = ''sync_auth_store_busy''"

definition DIRECT_PEER_SIGNATURE_VERSION_NUMBER :: int where "DIRECT_PEER_SIGNATURE_VERSION_NUMBER = 3"

section \<open>The signature version a peer was seen with\<close>

definition recordHighestObservedDirectSignatureVersion :: "db \<Rightarrow> string \<Rightarrow> int \<Rightarrow> string + bool \<times> db" where
  "recordHighestObservedDirectSignatureVersion d peerDeviceId version =
     (if \<not> safe_integer version \<or> version < 1 then Inl ''Direct signature version must be a positive safe integer''
      else (let known = exists_where (\<lambda>p. p_device p = peerDeviceId) (peers d);
                advanced = (known \<and> (case first_where (\<lambda>r. sv_peer r = peerDeviceId) (signature_states d) of
                              None \<Rightarrow> True | Some r \<Rightarrow> sv_version r < version));
                d1 = (if advanced then d\<lparr> signature_states := upsert_row sv_peer (\<lambda>new old. new)
                        \<lparr> sv_peer = peerDeviceId, sv_version = version \<rparr> (signature_states d) \<rparr> else d)
            in Inr (advanced, d1\<lparr> peers := update_where (\<lambda>p. p_device p = peerDeviceId
                     \<and> (case p_direct_version p of None \<Rightarrow> True | Some v \<Rightarrow> v < version))
                   (\<lambda>p. p\<lparr> p_direct_version := Some version \<rparr>) (peers d1) \<rparr>)))"

text \<open>The refusal, if there is one; an exception other than a lock cannot occur for version 3.\<close>

definition recordDirectPeerSignatureVersion :: "moment \<Rightarrow> db \<Rightarrow> string \<Rightarrow> int \<Rightarrow> sync_auth option \<times> db" where
  "recordDirectPeerSignatureVersion mo d deviceId version =
     (if mo_version_busy mo then (Some (NotAuthenticated SYNC_AUTH_STORE_BUSY_REASON deviceId), d)
      else (case recordHighestObservedDirectSignatureVersion d deviceId version of
              Inl e \<Rightarrow> (Some (NotAuthenticated e deviceId), d)
            | Inr (advanced, d1) \<Rightarrow>
                if \<not> advanced \<and> \<not> exists_where (\<lambda>p. p_device p = deviceId) (peers d1)
                then (Some (NotAuthenticated ''unknown_peer'' deviceId), d1) else (None, d1)))"

section \<open>Nonces\<close>

definition nonce_cutoff :: "server_env \<Rightarrow> int \<Rightarrow> string" where
  "nonce_cutoff env now = se_iso env (now - DEFAULT_TIME_WINDOW_S * 2 * 1000)"

definition recordSyncAuthNonce :: "server_env \<Rightarrow> moment \<Rightarrow> db \<Rightarrow> string \<Rightarrow> string \<Rightarrow> sync_auth option \<times> db" where
  "recordSyncAuthNonce env mo d deviceId nonce =
     (if mo_nonce_busy mo then (Some (NotAuthenticated SYNC_AUTH_STORE_BUSY_REASON deviceId), d)
      else (case recordNonce d deviceId nonce (se_iso env (mo_now mo)) of
              (False, d1) \<Rightarrow> (Some (NotAuthenticated ''nonce_replay'' deviceId), d1)
            | (True, d1) \<Rightarrow> (None, if mo_cleanup_busy mo then d1 else cleanupNonces d1 (nonce_cutoff env (mo_now mo)))))"

section \<open>The signatures of a request\<close>

definition signed_parts :: "http_request \<Rightarrow> string \<Rightarrow> verify_request" where
  "signed_parts r publicKey = \<lparr> vq_method = hr_method r, vq_path = hr_path r, vq_body = hr_body r,
     vq_timestamp = or_default (header r ''X-Opencode-Timestamp'') [], vq_nonce = or_default (header r ''X-Opencode-Nonce'') [],
     vq_public_key = publicKey, vq_window = None \<rparr>"

text \<open>The signature version, or the reason of the refusal.\<close>

definition verifyDirectPeerRequestSignature ::
    "auth_env \<Rightarrow> int \<Rightarrow> http_request \<Rightarrow> string \<Rightarrow> string \<Rightarrow> int option \<Rightarrow> string + int" where
  "verifyDirectPeerRequestSignature env nowSeconds r publicKey expectedRecipientId highestObservedVersion =
     (let recipientHeader = header r ''X-Codemem-Recipient''; directHeader = header r ''X-Codemem-Signature'';
          q = signed_parts r publicKey;
          direct = verifyDirectPeerSignature env nowSeconds q recipientHeader directHeader expectedRecipientId
      in if (recipientHeader \<noteq> None \<or> directHeader \<noteq> None) \<and> direct = AbsentMaterial then Inl ''invalid_direct_signature''
         else (case direct of
             InvalidMaterial reason \<Rightarrow>
               Inl (if reason = RecipientMismatch then ''recipient_mismatch'' else ''invalid_direct_signature'')
           | _ \<Rightarrow>
               if \<not> verifySignature env nowSeconds q (or_default (header r ''X-Opencode-Signature'') []) then Inl ''invalid_signature''
               else if direct = AbsentMaterial
                       \<and> or_default highestObservedVersion 0 \<ge> DIRECT_PEER_SIGNATURE_VERSION_NUMBER
               then Inl ''signature_downgrade''
               else Inr (if direct = AbsentMaterial then 2 else 3)))"

section \<open>The request\<close>

definition trimmed_text :: "string option \<Rightarrow> string" where
  "trimmed_text v = js_trim (or_default v [])"

definition highest_observed :: "db \<Rightarrow> string \<Rightarrow> int option" where
  "highest_observed d deviceId = map_option sv_version (first_where (\<lambda>s. sv_peer s = deviceId) (signature_states d))"

definition authorizeSyncRequest :: "server_env \<Rightarrow> moment \<Rightarrow> db \<Rightarrow> http_request \<Rightarrow> sync_auth \<times> db" where
  "authorizeSyncRequest env mo d r =
     (let deviceId = trimmed_text (header r ''X-Opencode-Device'');
          nonce = or_default (header r ''X-Opencode-Nonce'') []
      in if deviceId = [] \<or> or_default (header r ''X-Opencode-Signature'') [] = []
            \<or> or_default (header r ''X-Opencode-Timestamp'') [] = [] \<or> nonce = []
         then (NotAuthenticated ''missing_headers'' deviceId, d)
         else (case first_where (\<lambda>p. p_device p = deviceId) (peers d) of
             None \<Rightarrow> (NotAuthenticated ''unknown_peer'' deviceId, d)
           | Some peer \<Rightarrow>
               let pinnedFingerprint = trimmed_text (p_pinned_fingerprint peer); publicKey = trimmed_text (p_public_key peer) in
               if pinnedFingerprint = [] \<or> publicKey = [] then (NotAuthenticated ''peer_record_incomplete'' deviceId, d)
               else if au_digest (se_auth env) publicKey \<noteq> pinnedFingerprint
               then (NotAuthenticated ''fingerprint_mismatch'' deviceId, d)
               else (case se_local env of
                   None \<Rightarrow> (NotAuthenticated ''signature_verification_error'' deviceId, d)
                 | Some localDeviceId \<Rightarrow>
                     (case verifyDirectPeerRequestSignature (se_auth env) (mo_now mo div 1000) r publicKey localDeviceId
                             (highest_observed d deviceId) of
                        Inl reason \<Rightarrow> (NotAuthenticated reason deviceId, d)
                      | Inr version \<Rightarrow>
                          (case recordSyncAuthNonce env mo d deviceId nonce of
                             (Some refused, d1) \<Rightarrow> (refused, d1)
                           | (None, d1) \<Rightarrow>
                               if version = DIRECT_PEER_SIGNATURE_VERSION_NUMBER
                               then (case recordDirectPeerSignatureVersion mo d1 deviceId version of
                                       (Some refused, d2) \<Rightarrow> (refused, d2)
                                     | (None, d2) \<Rightarrow> (Authenticated deviceId publicKey, d2))
                               else (Authenticated deviceId publicKey, d1))))))"

section \<open>What a request leaves behind\<close>

definition not_before :: "(string \<Rightarrow> bool) \<Rightarrow> db \<Rightarrow> db \<Rightarrow> bool" where
  "not_before kept d d' \<longleftrightarrow> (\<forall>row\<in>set (nonces d). kept (no_created_at row) \<longrightarrow> row \<in> set (nonces d'))
    \<and> (\<forall>q x. highest_observed d q = Some x \<longrightarrow> (\<exists>y. highest_observed d' q = Some y \<and> x \<le> y))"

lemma not_before_refl [simp]: "not_before kept d d"
  by (auto simp: not_before_def)

lemma not_before_trans: "not_before kept d d1 \<Longrightarrow> not_before kept d1 d2 \<Longrightarrow> not_before kept d d2"
  unfolding not_before_def by (meson order_trans)

lemma highest_observed_upsert:
  "highest_observed (d\<lparr> signature_states := upsert_row sv_peer (\<lambda>new old. new) \<lparr> sv_peer = p, sv_version = v \<rparr> (signature_states d) \<rparr>) q =
     (if q = p then Some v else highest_observed d q)"
  by (auto simp: highest_observed_def first_where_upsert split: option.splits)

lemma highest_version_frame:
  assumes "recordHighestObservedDirectSignatureVersion d p v = Inr (a, d')"
  shows "not_before kept d d' \<and> map p_device (peers d') = map p_device (peers d)
    \<and> (p \<in> set (map p_device (peers d)) \<longrightarrow> (\<exists>y. highest_observed d' p = Some y \<and> v \<le> y))"
proof -
  define up where "up = d\<lparr> signature_states := upsert_row sv_peer (\<lambda>new old. new) \<lparr> sv_peer = p, sv_version = v \<rparr> (signature_states d) \<rparr>"
  define known where "known \<longleftrightarrow> p \<in> set (map p_device (peers d))"
  define d1 where "d1 = (if known \<and> (case highest_observed d p of None \<Rightarrow> True | Some x \<Rightarrow> x < v) then up else d)"
  have adv: "(case first_where (\<lambda>r. sv_peer r = p) (signature_states d) of None \<Rightarrow> True | Some r \<Rightarrow> sv_version r < v) =
      (case highest_observed d p of None \<Rightarrow> True | Some x \<Rightarrow> x < v)"
    by (simp add: highest_observed_def split: option.splits)
  have known: "exists_where (\<lambda>q. p_device q = p) (peers d) = known" by (auto simp: known_def exists_where_iff)
  have d': "nonces d' = nonces d1" "signature_states d' = signature_states d1" "map p_device (peers d') = map p_device (peers d)"
    using assms
    by (auto simp: recordHighestObservedDirectSignatureVersion_def Let_def adv known d1_def up_def update_where_def
        split: if_splits)
  have hi: "highest_observed d' = highest_observed d1" by (rule ext) (simp add: highest_observed_def d'(2))
  have h1: "highest_observed d1 q = (if known \<and> (case highest_observed d p of None \<Rightarrow> True | Some x \<Rightarrow> x < v) \<and> q = p
      then Some v else highest_observed d q)" for q
    using highest_observed_upsert [where d = d and p = p and v = v and q = q] by (auto simp: d1_def up_def [symmetric])
  have "nonces d1 = nonces d" by (simp add: d1_def up_def)
  then show ?thesis
    using d' unfolding known_def [symmetric] by (auto simp: not_before_def hi h1 split: option.splits)
qed

lemma direct_version_frame:
  assumes "recordDirectPeerSignatureVersion mo d p 3 = (res, d')"
  shows "not_before kept d d' \<and> (res = None \<longrightarrow> (\<exists>y. highest_observed d' p = Some y \<and> 3 \<le> y))
    \<and> (\<forall>a. res \<noteq> Some (Authenticated p' a))"
proof (cases "mo_version_busy mo \<or> (\<exists>e. recordHighestObservedDirectSignatureVersion d p 3 = Inl e)")
  case True
  then show ?thesis using assms by (auto simp: recordDirectPeerSignatureVersion_def split: if_splits)
next
  case False
  then obtain a d1 where run: "recordHighestObservedDirectSignatureVersion d p 3 = Inr (a, d1)" "\<not> mo_version_busy mo"
    by (cases "recordHighestObservedDirectSignatureVersion d p 3") auto
  have d1: "d' = d1" "res = None \<or> (\<exists>why. res = Some (NotAuthenticated why p))"
    using assms run by (auto simp: recordDirectPeerSignatureVersion_def split: if_splits)
  have "p \<in> set (map p_device (peers d))" if "res = None"
  proof (rule ccontr)
    assume out: "p \<notin> set (map p_device (peers d))"
    have known: "exists_where (\<lambda>q. p_device q = p) rows = (p \<in> set (map p_device rows))" for rows :: "peer_row list"
      by (auto simp: exists_where_iff)
    have gone: "\<not> exists_where (\<lambda>q. p_device q = p) (peers d)" "\<not> exists_where (\<lambda>q. p_device q = p) (peers d1)"
      using out highest_version_frame [OF run(1)] unfolding known by simp_all
    then have "\<not> a" using run gone by (auto simp: recordHighestObservedDirectSignatureVersion_def Let_def split: if_splits)
    with gone(2) have "res \<noteq> None"
      using assms run by (auto simp: recordDirectPeerSignatureVersion_def)
    with that show False by simp
  qed
  then show ?thesis using highest_version_frame [OF run(1), of kept] d1 by auto
qed

lemma version_not_accepted: "\<not> recordDirectPeerSignatureVersion mo d p 3 = (Some (Authenticated q k), d')"
  using direct_version_frame by blast

lemma nonce_frame:
  assumes "recordSyncAuthNonce env mo d dev n = (res, d')"
  shows "(\<forall>t. kept t \<longrightarrow> \<not> t < nonce_cutoff env (mo_now mo)) \<Longrightarrow> not_before kept d d'"
    "peers d' = peers d" "highest_observed d' = highest_observed d"
    "res = None \<Longrightarrow> \<not> exists_where (\<lambda>row. no_nonce row = n) (nonces d)"
    "res = None \<Longrightarrow> \<not> se_iso env (mo_now mo) < nonce_cutoff env (mo_now mo) \<Longrightarrow>
       \<lparr> no_nonce = n, no_device = dev, no_created_at = se_iso env (mo_now mo) \<rparr> \<in> set (nonces d')"
    "res \<noteq> Some (Authenticated p' k)"
  using assms
  by (auto simp: recordSyncAuthNonce_def recordNonce_def cleanupNonces_def delete_where_def highest_observed_def
      not_before_def fun_eq_iff split: if_splits)

text \<open>A request either changes nothing, or its signatures held and its nonce was looked up.\<close>

lemma authorize_cases:
  assumes "authorizeSyncRequest env mo d r = (res, d')"
  obtains (unchanged) why where "d' = d" "res = NotAuthenticated why (trimmed_text (header r ''X-Opencode-Device''))"
  | (verified) peer me version d1 refused where
      "first_where (\<lambda>p. p_device p = trimmed_text (header r ''X-Opencode-Device'')) (peers d) = Some peer"
      "au_digest (se_auth env) (trimmed_text (p_public_key peer)) = trimmed_text (p_pinned_fingerprint peer)"
      "se_local env = Some me"
      "verifyDirectPeerRequestSignature (se_auth env) (mo_now mo div 1000) r (trimmed_text (p_public_key peer)) me
         (highest_observed d (trimmed_text (header r ''X-Opencode-Device''))) = Inr version"
      "recordSyncAuthNonce env mo d (trimmed_text (header r ''X-Opencode-Device''))
         (or_default (header r ''X-Opencode-Nonce'') []) = (refused, d1)"
      "(case refused of Some a \<Rightarrow> res = a \<and> d' = d1
        | None \<Rightarrow> if version = 3
            then (case recordDirectPeerSignatureVersion mo d1 (trimmed_text (header r ''X-Opencode-Device'')) 3 of
                (Some a, d2) \<Rightarrow> res = a \<and> d' = d2
              | (None, d2) \<Rightarrow> res = Authenticated (trimmed_text (header r ''X-Opencode-Device'')) (trimmed_text (p_public_key peer)) \<and> d' = d2)
            else res = Authenticated (trimmed_text (header r ''X-Opencode-Device'')) (trimmed_text (p_public_key peer)) \<and> d' = d1)"
  using assms
  unfolding authorizeSyncRequest_def Let_def DIRECT_PEER_SIGNATURE_VERSION_NUMBER_def
  by (auto split: if_splits option.splits sum.splits prod.splits)

lemma authorize_keeps:
  assumes "authorizeSyncRequest env mo d r = (res, d')" "\<forall>t. kept t \<longrightarrow> \<not> t < nonce_cutoff env (mo_now mo)"
  shows "not_before kept d d'"
  using assms(1)
proof (cases rule: authorize_cases)
  case (verified peer me version d1 refused)
  have d1: "not_before kept d d1" by (rule nonce_frame [OF verified(5)]) (rule assms(2))
  show ?thesis
  proof (cases "d' = d1")
    case False
    then obtain a where "recordDirectPeerSignatureVersion mo d1 (trimmed_text (header r ''X-Opencode-Device'')) 3 = (a, d')"
      using verified(6) by (auto split: option.splits if_splits prod.splits)
    from not_before_trans [OF d1] direct_version_frame [OF this] show ?thesis by blast
  qed (use d1 in simp)
qed simp


lemma authorize_accepts:
  assumes "authorizeSyncRequest env mo d r = (Authenticated dev key, d')"
  obtains peer me version where
    "dev = trimmed_text (header r ''X-Opencode-Device'')"
    "first_where (\<lambda>p. p_device p = dev) (peers d) = Some peer" "key = trimmed_text (p_public_key peer)"
    "au_digest (se_auth env) key = trimmed_text (p_pinned_fingerprint peer)" "se_local env = Some me"
    "verifyDirectPeerRequestSignature (se_auth env) (mo_now mo div 1000) r key me (highest_observed d dev) = Inr version"
    "\<not> exists_where (\<lambda>row. no_nonce row = or_default (header r ''X-Opencode-Nonce'') []) (nonces d)"
    "\<not> se_iso env (mo_now mo) < nonce_cutoff env (mo_now mo) \<longrightarrow>
      \<lparr> no_nonce = or_default (header r ''X-Opencode-Nonce'') [], no_device = dev, no_created_at = se_iso env (mo_now mo) \<rparr>
        \<in> set (nonces d')"
    "version = 3 \<longrightarrow> (\<exists>y. highest_observed d' dev = Some y \<and> 3 \<le> y)"
  using assms
proof (cases rule: authorize_cases)
  case (verified peer me version d1 refused)
  from nonce_frame(6) [OF verified(5)] verified(6) have none: "refused = None" by (cases refused) auto
  have dev: "dev = trimmed_text (header r ''X-Opencode-Device'')" "key = trimmed_text (p_public_key peer)"
    using verified(6) none by (auto simp: version_not_accepted split: if_splits prod.splits option.splits)
  have kept: "row \<in> set (nonces d')" if "row \<in> set (nonces d1)" for row
  proof (cases "version = 3")
    case True
    then obtain a where "recordDirectPeerSignatureVersion mo d1 (trimmed_text (header r ''X-Opencode-Device'')) 3 = (a, d')"
      using verified(6) none by (auto split: option.splits prod.splits)
    from direct_version_frame [OF this, where kept = "\<lambda>_. True"] that show ?thesis by (auto simp: not_before_def)
  qed (use verified(6) none that in simp)
  have seen: "\<exists>y. highest_observed d' dev = Some y \<and> 3 \<le> y" if "version = 3"
  proof -
    obtain a d2 where a: "recordDirectPeerSignatureVersion mo d1 (trimmed_text (header r ''X-Opencode-Device'')) 3 = (a, d2)"
      by fastforce
    with verified(6) none \<open>version = 3\<close> have "d2 = d'" "a = None"
      using version_not_accepted by (cases a; fastforce)+
    with direct_version_frame [OF a(1), where p' = dev] dev show ?thesis by auto
  qed
  show ?thesis
    by (rule that [OF dev(1) _ dev(2)]) (use verified none dev kept seen nonce_frame(4,5) [OF verified(5)] in auto)
qed simp

section \<open>Time passes\<close>

text \<open>Between two requests the server does other work; nothing else writes \<open>sync_nonces\<close> or
  \<open>sync_peer_signature_state\<close> in a running server.\<close>

inductive serving :: "server_env \<Rightarrow> db \<Rightarrow> int \<Rightarrow> db \<Rightarrow> int \<Rightarrow> bool" for env d now where
  serving_start: "serving env d now d now"
| serving_request: "serving env d now d1 t \<Longrightarrow> t \<le> mo_now mo \<Longrightarrow> authorizeSyncRequest env mo d1 r = (res, d2)
    \<Longrightarrow> serving env d now d2 (mo_now mo)"
| serving_work: "serving env d now d1 t \<Longrightarrow> t \<le> t2 \<Longrightarrow> nonces d2 = nonces d1 \<Longrightarrow> signature_states d2 = signature_states d1
    \<Longrightarrow> serving env d now d2 t2"

lemma serving_time: "serving env d now d' t \<Longrightarrow> now \<le> t"
  by (induction rule: serving.induct) auto

lemma serving_keeps:
  assumes "serving env d now d' t" "\<And>s c. now \<le> s \<Longrightarrow> s \<le> t \<Longrightarrow> kept c \<Longrightarrow> \<not> c < nonce_cutoff env s"
  shows "not_before kept d d'"
  using assms
proof (induction rule: serving.induct)
  case (serving_request d1 t mo r res d2)
  have now: "now \<le> mo_now mo" using serving_time [OF serving_request(1)] serving_request(2) by simp
  have "not_before kept d d1" using serving_request by (intro serving_request.IH) auto
  moreover have "not_before kept d1 d2"
    by (rule authorize_keeps [OF serving_request(3)]) (use serving_request.prems now in auto)
  ultimately show ?case by (rule not_before_trans)
next
  case (serving_work d1 t t2 d2)
  have "not_before kept d d1" using serving_work by (intro serving_work.IH) auto
  moreover have "not_before kept d1 d2" using serving_work(3,4) by (auto simp: not_before_def highest_observed_def)
  ultimately show ?case by (rule not_before_trans)
qed simp

text \<open>\<open>toISOString\<close> orders the times from 1970 to the end of the year 9999.\<close>

definition LAST_ISO_TIME :: int where "LAST_ISO_TIME = 253402300799999"

definition iso_ordered :: "(int \<Rightarrow> string) \<Rightarrow> bool" where
  "iso_ordered stamp \<longleftrightarrow> (\<forall>s t. 0 \<le> s \<longrightarrow> s \<le> t \<longrightarrow> t \<le> LAST_ISO_TIME \<longrightarrow> stamp s \<le> stamp t)"

lemma verified_fresh:
  assumes "verifyDirectPeerRequestSignature aenv nowS r key me high = Inr v"
  shows "\<bar>nowS - int (digits_value 10 (or_default (header r ''X-Opencode-Timestamp'') []))\<bar> \<le> 300"
  using assms
  by (auto simp: verifyDirectPeerRequestSignature_def Let_def verifySignature_def isFreshTimestamp_def signed_parts_def
      window_of_def DEFAULT_TIME_WINDOW_S_def split: direct_verification.splits if_splits)

text \<open>C15: a replay is refused. When a request was accepted and, after any number of further requests, another one with the
  same nonce and timestamp is accepted too, then more than ten minutes lie between the two, and less than one second
  over ten minutes: nonces are kept for exactly the window in which the timestamp counts as fresh, and only the rounding
  of the timestamp to seconds leaves a gap.\<close>

theorem replay_is_refused:
  assumes "iso_ordered (se_iso env)" "600000 \<le> mo_now mo" "mo_now mo' \<le> LAST_ISO_TIME"
    "authorizeSyncRequest env mo d r = (Authenticated dev key, d1)"
    "serving env d1 (mo_now mo) d2 t" "t \<le> mo_now mo'"
    "authorizeSyncRequest env mo' d2 r' = (Authenticated dev' key', d3)"
    "header r' ''X-Opencode-Nonce'' = header r ''X-Opencode-Nonce''"
    "header r' ''X-Opencode-Timestamp'' = header r ''X-Opencode-Timestamp''"
  shows "600000 < mo_now mo' - mo_now mo \<and> mo_now mo' - mo_now mo < 601000"
proof
  note le = serving_time [OF assms(5)]
  have cut: "nonce_cutoff env s = se_iso env (s - 600000)" for s
    by (simp add: nonce_cutoff_def DEFAULT_TIME_WINDOW_S_def)
  obtain peer me v where first: "verifyDirectPeerRequestSignature (se_auth env) (mo_now mo div 1000) r key me (highest_observed d dev) = Inr v"
      "\<not> se_iso env (mo_now mo) < nonce_cutoff env (mo_now mo) \<longrightarrow>
      \<lparr> no_nonce = or_default (header r ''X-Opencode-Nonce'') [], no_device = dev, no_created_at = se_iso env (mo_now mo) \<rparr>
        \<in> set (nonces d1)"
    using authorize_accepts [OF assms(4)] by metis
  obtain peer' me' v' where second: "verifyDirectPeerRequestSignature (se_auth env) (mo_now mo' div 1000) r' key' me' (highest_observed d2 dev') = Inr v'"
      "\<not> exists_where (\<lambda>row. no_nonce row = or_default (header r' ''X-Opencode-Nonce'') []) (nonces d2)"
    using authorize_accepts [OF assms(7)] by metis
  show "600000 < mo_now mo' - mo_now mo"
  proof (rule ccontr)
    assume "\<not> ?thesis"
    then have ok: "\<not> se_iso env (mo_now mo) < nonce_cutoff env s" if "mo_now mo \<le> s" "s \<le> mo_now mo'" for s
      using assms(1-3) that by (auto simp: cut iso_ordered_def not_less)
    have "not_before (\<lambda>c. c = se_iso env (mo_now mo)) d1 d2"
      by (rule serving_keeps [OF assms(5)]) (use ok assms(6) in auto)
    moreover have "\<lparr> no_nonce = or_default (header r ''X-Opencode-Nonce'') [], no_device = dev, no_created_at = se_iso env (mo_now mo) \<rparr>
        \<in> set (nonces d1)"
      using first(2) ok [of "mo_now mo"] le assms(6) by simp
    ultimately have "\<lparr> no_nonce = or_default (header r ''X-Opencode-Nonce'') [], no_device = dev, no_created_at = se_iso env (mo_now mo) \<rparr>
        \<in> set (nonces d2)"
      by (simp add: not_before_def)
    with second(2) assms(8) show False by (auto simp: exists_where_iff)
  qed
  have "mo_now mo' div 1000 - mo_now mo div 1000 \<le> 600"
    using verified_fresh [OF first(1)] verified_fresh [OF second(1)] assms(9) by simp
  then show "mo_now mo' - mo_now mo < 601000" by linarith
qed

text \<open>C16: signatures are not downgraded. Once a peer has sent a request with a signature bound to its recipient, every
  later request that is accepted from it, after any number of others, names this device as its recipient and its key
  verifies the recipient-bound text; the older headers alone no longer do.\<close>

theorem no_signature_downgrade:
  assumes "authorizeSyncRequest env mo d r = (Authenticated dev key, d1)"
    "header r ''X-Codemem-Recipient'' \<noteq> None \<or> header r ''X-Codemem-Signature'' \<noteq> None"
    "serving env d1 (mo_now mo) d2 t"
    "authorizeSyncRequest env mo' d2 r' = (Authenticated dev key', d3)"
  shows "\<exists>me bytes. se_local env = Some me \<and> header r' ''X-Codemem-Recipient'' = Some me
    \<and> verified_by (se_auth env) key' (signed_text (au_digest (se_auth env))
        (SignedDirect (hr_method r') (hr_path r') (or_default (header r' ''X-Opencode-Timestamp'') [])
           (or_default (header r' ''X-Opencode-Nonce'') []) (hr_body r') me)) bytes"
proof -
  obtain peer me v where first: "verifyDirectPeerRequestSignature (se_auth env) (mo_now mo div 1000) r key me (highest_observed d dev) = Inr v"
      "v = 3 \<longrightarrow> (\<exists>y. highest_observed d1 dev = Some y \<and> 3 \<le> y)"
    using authorize_accepts [OF assms(1)] by metis
  have "v = 3" using first(1) assms(2)
    by (auto simp: verifyDirectPeerRequestSignature_def Let_def split: direct_verification.splits if_splits)
  with first(2) obtain y where "highest_observed d1 dev = Some y" "3 \<le> y" by blast
  moreover have "not_before (\<lambda>_. False) d1 d2" by (rule serving_keeps [OF assms(3)]) simp
  ultimately obtain z where z: "highest_observed d2 dev = Some z" "3 \<le> z" by (fastforce simp: not_before_def)
  obtain peer' me' v' where second: "se_local env = Some me'"
      "verifyDirectPeerRequestSignature (se_auth env) (mo_now mo' div 1000) r' key' me' (highest_observed d2 dev) = Inr v'"
    using authorize_accepts [OF assms(4)] by metis
  then have "\<exists>version. verifyDirectPeerSignature (se_auth env) (mo_now mo' div 1000) (signed_parts r' key')
      (header r' ''X-Codemem-Recipient'') (header r' ''X-Codemem-Signature'') me' = ValidMaterial version"
    using z by (auto simp: verifyDirectPeerRequestSignature_def Let_def DIRECT_PEER_SIGNATURE_VERSION_NUMBER_def
        split: direct_verification.splits if_splits)
  with valid_direct second(1) show ?thesis by (fastforce simp: signed_parts_def)
qed


text \<open>A paired device signs two requests, ten minutes and less than a second apart, and the first is replayed.\<close>

definition sample_server :: server_env where
  "sample_server = \<lparr> se_auth = \<lparr> au_digest = (\<lambda>s. ''d'' @ s), au_decode64 = (\<lambda>_. [0, 0, 0, 1, 9, 0, 0, 0, 32] @ replicate 32 7),
     au_verify = (\<lambda>_ _ _. True), au_sign = (\<lambda>_ _. [1]) \<rparr>,
     se_iso = (\<lambda>t. if t \<le> 1001000 then ''a'' else ''b''), se_local = Some ''here'' \<rparr>"

definition sample_server_db :: db where
  "sample_server_db = empty_db\<lparr> peers := [(new_peer ''peer'')\<lparr> p_pinned_fingerprint := Some ''dssh-ed25519 key'',
     p_public_key := Some ''ssh-ed25519 key'' \<rparr>] \<rparr>"

definition sample_request :: "string \<Rightarrow> string \<Rightarrow> (string \<times> string) list \<Rightarrow> http_request" where
  "sample_request timestamp nonce headers = \<lparr> hr_method = ''GET'', hr_path = ''/v1/ops'',
     hr_headers = [(''X-Opencode-Device'', ''peer''), (''X-Opencode-Signature'', ''v2:AQ==''),
       (''X-Opencode-Timestamp'', timestamp), (''X-Opencode-Nonce'', nonce)] @ headers, hr_body = [] \<rparr>"

definition sample_moment :: "int \<Rightarrow> moment" where
  "sample_moment now = \<lparr> mo_now = now, mo_nonce_busy = False, mo_cleanup_busy = False, mo_version_busy = False \<rparr>"

definition sample_after :: "db \<Rightarrow> int \<Rightarrow> http_request \<Rightarrow> db" where
  "sample_after d now r = snd (authorizeSyncRequest sample_server (sample_moment now) d r)"

lemma sample_run:
  assumes "authorizeSyncRequest sample_server (sample_moment now) d r = (res, d1)" "now \<le> t"
  shows "serving sample_server d now d1 t"
proof -
  have "serving sample_server d now d1 (mo_now (sample_moment now))"
    by (rule serving_request [OF serving_start _ assms(1)]) (simp add: sample_moment_def)
  from serving_work [OF this _ refl refl] assms(2) show ?thesis by (simp add: sample_moment_def)
qed

theorem replay_is_refused_witness:
  "\<exists>d1 d2. authorizeSyncRequest sample_server (sample_moment 1001000) sample_server_db (sample_request ''1301'' ''n1'' [])
      = (Authenticated ''peer'' ''ssh-ed25519 key'', d1)
    \<and> serving sample_server d1 1001000 d2 1601500
    \<and> fst (authorizeSyncRequest sample_server (sample_moment 1601999) d2 (sample_request ''1301'' ''n1'' []))
        = Authenticated ''peer'' ''ssh-ed25519 key'' \<and> 600000 < (1601999 :: int) - 1001000"
proof -
  let ?r = "sample_request ''1301'' ''n1'' []" and ?between = "sample_request ''1601'' ''n2'' []"
  define d1 where "d1 = sample_after sample_server_db 1001000 ?r"
  define d2 where "d2 = sample_after d1 1601500 ?between"
  have first: "authorizeSyncRequest sample_server (sample_moment 1001000) sample_server_db ?r = (Authenticated ''peer'' ''ssh-ed25519 key'', d1)"
    unfolding d1_def by code_simp
  have again: "fst (authorizeSyncRequest sample_server (sample_moment 1601999) d2 ?r) = Authenticated ''peer'' ''ssh-ed25519 key''"
    unfolding d2_def d1_def by code_simp
  then obtain d3 where second: "authorizeSyncRequest sample_server (sample_moment 1601999) d2 ?r = (Authenticated ''peer'' ''ssh-ed25519 key'', d3)"
    by (metis prod.collapse)
  have between: "serving sample_server d1 1001000 d2 1601500"
  proof -
    have start: "serving sample_server d1 1001000 d1 1601500" by (rule serving_work [OF serving_start]) simp_all
    obtain res where "authorizeSyncRequest sample_server (sample_moment 1601500) d1 ?between = (res, d2)"
      by (metis d2_def prod.collapse sample_after_def)
    from serving_request [OF start _ this] show ?thesis by (simp add: sample_moment_def)
  qed
  have iso: "iso_ordered (se_iso sample_server)" by (auto simp: iso_ordered_def sample_server_def)
  have now: "mo_now (sample_moment t) = t" for t by (simp add: sample_moment_def)
  have run: "serving sample_server d1 (mo_now (sample_moment 1001000)) d2 1601500" using between by (simp only: now)
  have bounds: "600000 \<le> mo_now (sample_moment 1001000)" "mo_now (sample_moment 1601999) \<le> LAST_ISO_TIME"
    "1601500 \<le> mo_now (sample_moment 1601999)"
    by (simp_all add: now LAST_ISO_TIME_def)
  have "600000 < mo_now (sample_moment 1601999) - mo_now (sample_moment 1001000)
      \<and> mo_now (sample_moment 1601999) - mo_now (sample_moment 1001000) < 601000"
    by (rule replay_is_refused [OF iso bounds(1,2) first run bounds(3) second refl refl])
  then have "600000 < (1601999 :: int) - 1001000" by (simp only: now)
  with first between again show ?thesis by blast
qed

theorem no_signature_downgrade_witness:
  "\<exists>d1. fst (authorizeSyncRequest sample_server (sample_moment 1001000) sample_server_db
        (sample_request ''1301'' ''n1'' [(''X-Codemem-Recipient'', ''here''), (''X-Codemem-Signature'', ''v3:AQ=='')]))
      = Authenticated ''peer'' ''ssh-ed25519 key''
    \<and> serving sample_server d1 1001000 d1 1002000
    \<and> fst (authorizeSyncRequest sample_server (sample_moment 1002000) d1 (sample_request ''1301'' ''n2'' []))
      = NotAuthenticated ''signature_downgrade'' ''peer''
    \<and> (\<exists>me. fst (authorizeSyncRequest sample_server (sample_moment 1002000) d1
        (sample_request ''1301'' ''n2'' [(''X-Codemem-Recipient'', ''here''), (''X-Codemem-Signature'', ''v3:AQ=='')]))
        = Authenticated ''peer'' ''ssh-ed25519 key'' \<and> me = ''here'')"
proof -
  let ?direct = "[(''X-Codemem-Recipient'', ''here''), (''X-Codemem-Signature'', ''v3:AQ=='')]"
  let ?r = "sample_request ''1301'' ''n1'' ?direct" and ?again = "sample_request ''1301'' ''n2'' ?direct"
  define d1 where "d1 = sample_after sample_server_db 1001000 ?r"
  have first: "authorizeSyncRequest sample_server (sample_moment 1001000) sample_server_db ?r = (Authenticated ''peer'' ''ssh-ed25519 key'', d1)"
    unfolding d1_def by code_simp
  have run: "serving sample_server d1 1001000 d1 1002000" by (rule serving_work [OF serving_start]) simp_all
  have later: "fst (authorizeSyncRequest sample_server (sample_moment 1002000) d1 ?again) = Authenticated ''peer'' ''ssh-ed25519 key''"
    unfolding d1_def by code_simp
  then obtain d3 where second: "authorizeSyncRequest sample_server (sample_moment 1002000) d1 ?again = (Authenticated ''peer'' ''ssh-ed25519 key'', d3)"
    by (metis prod.collapse)
  have material: "header ?r ''X-Codemem-Recipient'' \<noteq> None \<or> header ?r ''X-Codemem-Signature'' \<noteq> None" by code_simp
  have run': "serving sample_server d1 (mo_now (sample_moment 1001000)) d1 1002000" using run by (simp add: sample_moment_def)
  have "header ?again ''X-Codemem-Recipient'' = Some ''here''"
    using no_signature_downgrade [OF first material run' second] by (auto simp: sample_server_def)
  moreover have "fst (authorizeSyncRequest sample_server (sample_moment 1002000) d1 (sample_request ''1301'' ''n2'' []))
      = NotAuthenticated ''signature_downgrade'' ''peer''"
    unfolding d1_def by code_simp
  ultimately show ?thesis using first run later by (intro exI [of _ d1]) simp
qed

end
