(* ===== verification/Sync_Routes.thy ===== *)
theory Sync_Routes
  imports Sync_Protocol Request_Authorization Apply_Ops Retirement_Delivery Snapshot_Pages
begin

text \<open>
  The peer routes (\<open>packages/viewer-server/src/routes/sync.ts\<close>): \<open>GET /v1/ops\<close>, the page of \<open>GET /v1/snapshot\<close> once
  the peer is authenticated (with \<open>snapshot-source.ts\<close>), and \<open>POST /v1/ops\<close>.

  A request carries its parsed query; \<open>JSON.parse\<close> is the parameter \<open>en_parse\<close>, and the answer of the rate limiter
  is part of the moment of a request. An exception that reaches the route is \<open>InternalError\<close>. A pushed op whose fields
  have other JSON types than \<open>ReplicationOp\<close> declares is outside the model (\<open>None\<close>). An integer of a query is exact.
\<close>

section \<open>Requests and responses\<close>

record sync_request = http_request +
  hq_query :: "(string \<times> string) list"

record route_moment = moment +
  mo_limited :: bool

record route_env =
  en_server :: server_env
  en_scope :: scope_env
  en_cfg :: sync_config
  en_apply :: apply_context
  en_local_key :: "string option"
  en_parse :: "string \<Rightarrow> json option"
  en_max_body :: int
  en_max_ops :: int

record safe_skipped_detail =
  sd_reason :: skip_reason
  sd_count :: nat
  sd_scope :: "string option"
  sd_project :: "string option"
  sd_visibility :: "string option"

datatype response =
    StoreBusy | RateLimited | Unauthorized | InternalError
  | PayloadTooLarge | InvalidJson | InvalidOps | TooManyOps
  | ReassignCapabilityRequired | ReassignPayloadInvalid | InvalidOpDevice string
  | ScopeReset scope_reset_payload
  | OpsReset reset_boundary reset_reason
  | OpsPage reset_boundary "replication_op list" "string option" nat "safe_skipped_detail option"
  | SnapshotPage "string option" reset_boundary "snapshot_page_item list" "string option" bool
  | SnapshotError string
  | ScopeRejected rejection_reason "inbound_rejection list" "string option"
  | OpsApplied apply_result nat "safe_skipped_detail option" "string option"

definition query :: "sync_request \<Rightarrow> string \<Rightarrow> string option" where
  "query q name = map_of (hq_query q) name"

definition safeSkippedSyncDetail :: "skipped_report option \<Rightarrow> safe_skipped_detail option" where
  "safeSkippedSyncDetail = map_option (\<lambda>s. \<lparr> sd_reason = sk_reason (sr_detail s), sd_count = sr_count s,
     sd_scope = or_default (sk_scope (sr_detail s)) None, sd_project = or_default (sk_project (sr_detail s)) None,
     sd_visibility = or_default (sk_visibility (sr_detail s)) None \<rparr>)"

text \<open>\<open>Number.parseInt(text, 10)\<close>; \<open>None\<close> is \<open>NaN\<close>.\<close>

definition parseInt :: "string \<Rightarrow> int option" where
  "parseInt s = (let t = dropWhile js_space s;
       (sign, u) = (case t of c # v \<Rightarrow> if c = CHR ''-'' then (- 1, v) else if c = CHR ''+'' then (1, v) else (1, t) | [] \<Rightarrow> (1, t));
       ds = takeWhile is_digit u
     in if ds = [] then None else Some (sign * int (digits_value 10 ds)))"

definition page_size :: "string option \<Rightarrow> int \<Rightarrow> int" where
  "page_size raw most = (case parseInt (or_default raw ''200'') of None \<Rightarrow> 200 | Some n \<Rightarrow> max 1 (min n most))"

definition negotiatedSyncCapability :: "sync_request \<Rightarrow> sync_capability" where
  "negotiatedSyncCapability q = negotiateSyncCapability (Some (JStr (capability_text LOCAL_SYNC_CAPABILITY)))
     (Some (JStr (capability_text (normalizeSyncCapability
        (Some (case map_of (hr_headers q) ''X-Codemem-Sync-Capability'' of None \<Rightarrow> JNull | Some s \<Rightarrow> JStr s))))))"

definition scope_ctx :: "route_env \<Rightarrow> string \<Rightarrow> string \<Rightarrow> string \<Rightarrow> scope_context" where
  "scope_ctx env me peer key = \<lparr> xc_local = me, xc_local_key = en_local_key env, xc_peer = peer, xc_peer_key = Some key \<rparr>"

definition route_now :: "route_env \<Rightarrow> route_moment \<Rightarrow> string" where
  "route_now env mo = se_iso (en_server env) (mo_now mo)"

definition default_boundary :: "route_env \<Rightarrow> route_moment \<Rightarrow> db \<Rightarrow> reset_boundary \<times> db" where
  "default_boundary env mo d =
     getSyncResetState (route_now env mo) (xv_fresh (en_scope env) DEFAULT_SYNC_SCOPE_ID) d None"

definition scope_reset :: "route_env \<Rightarrow> route_moment \<Rightarrow> db \<Rightarrow> scope_reset_reason \<Rightarrow> string option \<Rightarrow> response \<times> db" where
  "scope_reset env mo d reason scope =
     (let (b, d1) = default_boundary env mo d
      in (ScopeReset (syncScopeResetRequiredPayload b reason LOCAL_SYNC_CAPABILITY scope), d1))"

text \<open>The first lines of every route: who is asking, and is there room.\<close>

definition authenticated ::
    "route_env \<Rightarrow> route_moment \<Rightarrow> db \<Rightarrow> sync_request \<Rightarrow> (response + string \<times> string) \<times> db" where
  "authenticated env mo d q =
     (case authorizeSyncRequest (en_server env) (moment.truncate mo) d (http_request.truncate q) of
        (NotAuthenticated reason _, d1) \<Rightarrow>
          (Inl (if reason = SYNC_AUTH_STORE_BUSY_REASON then StoreBusy else if mo_limited mo then RateLimited else Unauthorized), d1)
      | (Authenticated peer key, d1) \<Rightarrow> (if mo_limited mo then Inl RateLimited else Inr (peer, key), d1))"

section \<open>\<open>GET /v1/ops\<close>\<close>

definition filterOpsForPeer ::
    "route_env \<Rightarrow> db \<Rightarrow> string \<Rightarrow> string \<Rightarrow> replication_op list \<Rightarrow> bool \<Rightarrow> bool
     \<Rightarrow> replication_op list \<times> nat \<times> safe_skipped_detail option" where
  "filterOpsForPeer env d peer me rs applyScopeFilter supportsReassignScope =
     (let (allowed, _, skipped) = filterReplicationOpsForSyncWithStatus (en_cfg env) d rs (Some peer)
            \<lparr> fo_local_device = Some me, fo_apply_scope = applyScopeFilter, fo_supports_reassign = supportsReassignScope \<rparr>
      in (allowed, (case skipped of None \<Rightarrow> 0 | Some s \<Rightarrow> sr_count s), safeSkippedSyncDetail skipped))"

definition ops_request :: "sync_request \<Rightarrow> string \<Rightarrow> string option \<Rightarrow> peer_request" where
  "ops_request q me scope = \<lparr> pq_since = query q ''since'', pq_limit = page_size (query q ''limit'') 1000,
     pq_device = Some me,
     pq_generation = (case query q ''generation'' of None \<Rightarrow> None
        | Some raw \<Rightarrow> if js_trim raw = [] then None else parseInt raw),
     pq_snapshot = query q ''snapshot_id'', pq_baseline = query q ''baseline_cursor'',
     pq_scope = map_option Some scope \<rparr>"

definition requested_scope :: "sync_request \<Rightarrow> json option" where
  "requested_scope q = map_option JStr (query q ''scope_id'')"

definition serve_ops :: "route_env \<Rightarrow> route_moment \<Rightarrow> db \<Rightarrow> sync_request \<Rightarrow> string \<Rightarrow> string \<Rightarrow> response \<times> db" where
  "serve_ops env mo d q peer key = (case se_local (en_server env) of
     None \<Rightarrow> (InternalError, d)
   | Some me \<Rightarrow>
       (case parseSyncScopeRequest (en_scope env) d (requested_scope q) (query q ''scope_id'' \<noteq> None)
               (scope_ctx env me peer key) (negotiatedSyncCapability q) of
          Inl _ \<Rightarrow> (InternalError, d)
        | Inr (Inl reason) \<Rightarrow> scope_reset env mo d reason None
        | Inr (Inr scope) \<Rightarrow>
            (case loadReplicationOpsForPeer (route_now env mo) (xv_fresh (en_scope env) (or_default scope DEFAULT_SYNC_SCOPE_ID))
                    d (ops_request q me scope) of
               (ResetRequired reason b, d1) \<Rightarrow> (OpsReset (addSyncScopeToBoundary b scope) reason, d1)
             | (PeerOps b rs nextCursor, d1) \<Rightarrow>
                 (let (allowed, skipped, detail) = filterOpsForPeer env d1 peer me rs True
                        (supportsSyncFeature (map_option JStr (map_of (hr_headers q) ''X-Codemem-Sync-Features'')) ''reassign_scope'')
                  in (OpsPage (addSyncScopeToBoundary b scope) allowed nextCursor skipped detail, d1)))))"

definition getOps :: "route_env \<Rightarrow> route_moment \<Rightarrow> db \<Rightarrow> sync_request \<Rightarrow> response \<times> db" where
  "getOps env mo d q = (case authenticated env mo d (q\<lparr> hr_body := [] \<rparr>) of
     (Inl refused, d1) \<Rightarrow> (refused, d1)
   | (Inr (peer, key), d1) \<Rightarrow> serve_ops env mo d1 q peer key)"

section \<open>\<open>GET /v1/snapshot\<close>\<close>

definition snapshotGeneration :: "string option \<Rightarrow> int option" where
  "snapshotGeneration raw = (if js_trim (or_default raw []) = [] then None else parseInt (or_default raw []))"

definition snapshotSourceDevice :: "string option \<Rightarrow> string \<Rightarrow> string + string option" where
  "snapshotSourceDevice requested me =
     (if requested \<noteq> None \<and> requested \<noteq> Some me then Inl ''retirement_snapshot_source_required'' else Inr requested)"

definition snapshotErrorStatus :: "string \<Rightarrow> int option" where
  "snapshotErrorStatus message =
     (if message \<in> {''retirement_snapshot_source_required'', ''missing_generation'', ''missing_snapshot_id''} then Some 400
      else if message = ''generation_mismatch'' \<or> message = ''boundary_mismatch'' then Some 409 else None)"

definition snapshotPageRequest ::
    "sync_request \<Rightarrow> string \<Rightarrow> string \<Rightarrow> string option \<Rightarrow> string + snapshot_request" where
  "snapshotPageRequest q me peer scope =
     (case snapshotGeneration (query q ''generation'') of
        None \<Rightarrow> Inl ''missing_generation''
      | Some generation \<Rightarrow>
          if or_default (query q ''snapshot_id'') [] = [] then Inl ''missing_snapshot_id''
          else map_sum id (\<lambda>source. \<lparr> sq_source = source, sq_limit = Some (page_size (query q ''limit'') 5000),
              sq_token = query q ''page_token'', sq_peer = Some peer, sq_scope = map_option Some scope,
              sq_generation = Some generation, sq_snapshot = query q ''snapshot_id'',
              sq_baseline = query q ''baseline_cursor'' \<rparr>)
            (snapshotSourceDevice (query q ''source_device_id'') me))"

definition snapshot_failure :: "string \<Rightarrow> response" where
  "snapshot_failure message = (if snapshotErrorStatus message = None then InternalError else SnapshotError message)"

text \<open>\<open>None\<close>: the page scan does not return.\<close>

definition serveAuthorizedSnapshot ::
    "route_env \<Rightarrow> route_moment \<Rightarrow> db \<Rightarrow> sync_request \<Rightarrow> string \<Rightarrow> string \<Rightarrow> (response \<times> db) option" where
  "serveAuthorizedSnapshot env mo d q peer key = (case se_local (en_server env) of
     None \<Rightarrow> Some (InternalError, d)
   | Some me \<Rightarrow>
       (case parseSyncScopeRequest (en_scope env) d (requested_scope q) (query q ''scope_id'' \<noteq> None)
               (scope_ctx env me peer key) (negotiatedSyncCapability q) of
          Inl e \<Rightarrow> Some (snapshot_failure e, d)
        | Inr (Inl reason) \<Rightarrow> Some (scope_reset env mo d reason None)
        | Inr (Inr scope) \<Rightarrow>
            (case snapshotPageRequest q me peer scope of
               Inl e \<Rightarrow> Some (snapshot_failure e, d)
             | Inr page \<Rightarrow>
                 map_option (\<lambda>(res, d1). (case res of
                     Inl e \<Rightarrow> snapshot_failure e
                   | Inr p \<Rightarrow> SnapshotPage (sq_source page) (addSyncScopeToBoundary (sg_boundary p) scope) (sg_items p)
                       (sg_next p) (sg_more p), d1))
                   (loadMemorySnapshotPageForPeer (en_cfg env) (route_now env mo)
                      (xv_fresh (en_scope env) (or_default scope DEFAULT_SYNC_SCOPE_ID)) d page))))"


section \<open>\<open>POST /v1/ops\<close>\<close>

definition op_text :: "string \<Rightarrow> json_obj \<Rightarrow> string option" where
  "op_text name ps = (case field name ps of Some (JStr s) \<Rightarrow> Some s | _ \<Rightarrow> None)"

definition op_nullable :: "string \<Rightarrow> json_obj \<Rightarrow> string option option" where
  "op_nullable name ps = (case field name ps of
     None \<Rightarrow> Some None | Some JNull \<Rightarrow> Some None | Some (JStr s) \<Rightarrow> Some (Some s) | _ \<Rightarrow> None)"

definition stored_text :: "(string \<Rightarrow> json option) \<Rightarrow> string \<Rightarrow> json_text" where
  "stored_text parse s = (case parse s of Some v \<Rightarrow> JsonDoc v | None \<Rightarrow> BadText s)"

text \<open>The op an element of \<open>ops\<close> is, when its fields have the declared types.\<close>

definition op_of_json :: "(string \<Rightarrow> json option) \<Rightarrow> json \<Rightarrow> replication_op option" where
  "op_of_json parse v = (case v of
     JObj ps \<Rightarrow>
       (case (op_text ''op_id'' ps, op_text ''entity_type'' ps, op_text ''entity_id'' ps, op_text ''op_type'' ps,
              op_nullable ''payload_json'' ps, field ''clock_rev'' ps) of
          (Some i, Some et, Some ei, Some ty, Some payload, Some (JNum rv)) \<Rightarrow>
            (case (op_text ''clock_updated_at'' ps, op_text ''clock_device_id'' ps, op_text ''device_id'' ps,
                   op_text ''created_at'' ps, op_nullable ''scope_id'' ps) of
               (Some updated, Some clockDevice, Some device, Some created, Some scope) \<Rightarrow>
                 if rv \<noteq> of_int \<lfloor>rv\<rfloor> then None
                 else Some \<lparr> op_id = i, op_entity_type = et, op_entity_id = ei, op_type = ty,
                   op_payload = map_option (stored_text parse) payload, op_clock_rev = \<lfloor>rv\<rfloor>, op_clock_updated_at = updated,
                   op_clock_device_id = clockDevice, op_device_id = device, op_created_at = created, op_scope_id = scope \<rparr>
             | _ \<Rightarrow> None)
        | _ \<Rightarrow> None)
   | _ \<Rightarrow> None)"

fun ops_of_json :: "(string \<Rightarrow> json option) \<Rightarrow> json list \<Rightarrow> replication_op list option" where
  "ops_of_json parse [] = Some []"
| "ops_of_json parse (v # vs) = (case (op_of_json parse v, ops_of_json parse vs) of
     (Some r, Some rs) \<Rightarrow> Some (r # rs) | _ \<Rightarrow> None)"

text \<open>The first scope without proof and the reason; \<open>None\<close> when every scope has it.\<close>

fun validateManagedScopes ::
    "scope_env \<Rightarrow> db \<Rightarrow> scope_context \<Rightarrow> string list \<Rightarrow> string + (string \<times> scope_reset_reason) option" where
  "validateManagedScopes env d ctx [] = Inr None"
| "validateManagedScopes env d ctx (s # scopeIds) =
     (if s = [] \<or> s = DEFAULT_SYNC_SCOPE_ID then validateManagedScopes env d ctx scopeIds
      else (case effective_authorization env d (xc_local ctx) s (map_option js_trim (xc_local_key ctx)) of
          Inl e \<Rightarrow> Inl e
        | Inr localAuthorization \<Rightarrow>
            let authority = map_option sc_authority_type (au_scope localAuthorization) in
            if authority \<in> {Some ''manual'', Some ''invite'', Some ''local''} then validateManagedScopes env d ctx scopeIds
            else if authority \<noteq> Some ''coordinator'' then Inr (Some (s, MissingScopeReset))
            else (case scopeAuthorizationFailureReason localAuthorization of
                Some reason \<Rightarrow> Inr (Some (s, reason))
              | None \<Rightarrow>
                  (case effective_authorization env d (xc_peer ctx) s (map_option js_trim (xc_peer_key ctx)) of
                     Inl e \<Rightarrow> Inl e
                   | Inr peerAuthorization \<Rightarrow>
                       (case scopeAuthorizationFailureReason peerAuthorization of
                          Some reason \<Rightarrow> Inr (Some (s, reason))
                        | None \<Rightarrow> validateManagedScopes env d ctx scopeIds)))))"

definition existing_scopes :: "db \<Rightarrow> replication_op list \<Rightarrow> string list" where
  "existing_scopes d rs = concat (map (\<lambda>r.
     if op_type r \<in> {''upsert'', ''delete'', ''reassign_scope''}
     then filter (\<lambda>s. s \<noteq> []) (map (\<lambda>m. js_trim (or_default (m_scope_id m) []))
            (filter (\<lambda>m. m_import_key m = Some (op_entity_id r)) (memories d)))
     else []) rs)"

definition addExistingMutationScopes :: "db \<Rightarrow> replication_op list \<Rightarrow> string list \<Rightarrow> string list" where
  "addExistingMutationScopes d rs scopeIds = set_of_list (scopeIds @ existing_scopes d rs)"

definition rejectUnauthorizedInboundBatch ::
    "route_env \<Rightarrow> route_moment \<Rightarrow> db \<Rightarrow> replication_op list \<Rightarrow> scope_context \<Rightarrow> bool \<Rightarrow> string option \<Rightarrow> string list
     \<Rightarrow> response option \<times> db" where
  "rejectUnauthorizedInboundBatch env mo d rs ctx enabled scopeId managedScopeIds =
     (case rejectInboundScopeFailures (route_now env mo) d rs (xc_local ctx) \<lparr> io_peer = Some (xc_peer ctx), io_enabled = enabled \<rparr> of
        Some (rejected, d1) \<Rightarrow>
          (Some (ScopeRejected (case ap_rejections rejected of [] \<Rightarrow> ScopeMismatch | x # _ \<Rightarrow> ir_reason x)
             (ap_rejections rejected) scopeId), d1)
      | None \<Rightarrow>
          (case validateManagedScopes (en_scope env) d ctx (addExistingMutationScopes d rs managedScopeIds) of
             Inl _ \<Rightarrow> (Some InternalError, d)
           | Inr None \<Rightarrow> (None, d)
           | Inr (Some (s, reason)) \<Rightarrow> (let (res, d1) = scope_reset env mo d reason (Some s) in (Some res, d1))))"

definition reassign_scopes :: "replication_op list \<Rightarrow> string list option" where
  "reassign_scopes rs = foldr (\<lambda>r acc. case (parseReassignScopePayload r, acc) of
     (Some ra, Some ss) \<Rightarrow> Some (ra_old_scope ra # ra_new_scope ra # ss) | _ \<Rightarrow> None)
     (filter (\<lambda>r. op_type r = REASSIGN_SCOPE_OP_TYPE) rs) (Some [])"

definition applyInboundSyncOps :: "route_env \<Rightarrow> db \<Rightarrow> replication_op list \<Rightarrow> string \<Rightarrow> apply_result \<times> db" where
  "applyInboundSyncOps env d rs me = applyReplicationOps ((en_apply env)\<lparr> ax_local := me \<rparr>) None d rs"

definition receive_ops ::
    "route_env \<Rightarrow> route_moment \<Rightarrow> db \<Rightarrow> replication_op list \<Rightarrow> json_obj \<Rightarrow> scope_context \<Rightarrow> sync_capability
     \<Rightarrow> string option \<Rightarrow> response \<times> db" where
  "receive_ops env mo d rs body ctx negotiated scope =
     (let peerFeatures = normalizeSyncFeatures (field ''sync_features'' body) in
      if exists_where (\<lambda>r. op_type r = REASSIGN_SCOPE_OP_TYPE) rs \<and> REASSIGN_SCOPE_OP_TYPE \<notin> set peerFeatures
      then (ReassignCapabilityRequired, d)
      else (case reassign_scopes rs of
          None \<Rightarrow> (ReassignPayloadInvalid, d)
        | Some reassigned \<Rightarrow>
            (case first_where (\<lambda>r. op_device_id r \<noteq> xc_peer ctx \<or> op_clock_device_id r \<noteq> xc_peer ctx) rs of
               Some r \<Rightarrow> (InvalidOpDevice (op_id r), d)
             | None \<Rightarrow>
                 (let (allowed, skipped, detail) = filterOpsForPeer env d (xc_peer ctx) (xc_local ctx) rs False
                        (REASSIGN_SCOPE_OP_TYPE \<in> set peerFeatures);
                      scopeIds = set_of_list (map (\<lambda>r. js_trim (or_default (op_scope_id r) [])) rs @ reassigned)
                  in (case rejectUnauthorizedInboundBatch env mo d rs ctx (negotiated \<noteq> sync_capability.Unsupported) scope scopeIds of
                        (Some refused, d1) \<Rightarrow> (refused, d1)
                      | (None, d1) \<Rightarrow>
                          (let (res, d2) = applyInboundSyncOps env d1 allowed (xc_local ctx)
                           in (OpsApplied res (ap_skipped res + skipped) detail scope, d2)))))))"

definition accept_body ::
    "route_env \<Rightarrow> route_moment \<Rightarrow> db \<Rightarrow> sync_request \<Rightarrow> string \<Rightarrow> string \<Rightarrow> (response \<times> db) option" where
  "accept_body env mo d q peer key = (case en_parse env (hr_body q) of
     Some (JObj body) \<Rightarrow>
       (case se_local (en_server env) of
          None \<Rightarrow> Some (InternalError, d)
        | Some me \<Rightarrow>
            (let ctx = scope_ctx env me peer key;
                 negotiated = negotiateSyncCapability (Some (JStr (capability_text LOCAL_SYNC_CAPABILITY)))
                   (Some (JStr (capability_text (normalizeSyncCapability (field ''sync_capability'' body)))))
             in (case parseSyncScopeRequest (en_scope env) d (field ''scope_id'' body) (field ''scope_id'' body \<noteq> None) ctx negotiated of
                   Inl _ \<Rightarrow> Some (InternalError, d)
                 | Inr (Inl reason) \<Rightarrow> Some (scope_reset env mo d reason None)
                 | Inr (Inr scope) \<Rightarrow>
                     (case field ''ops'' body of
                        Some (JArr vs) \<Rightarrow>
                          if int (length vs) > en_max_ops env then Some (TooManyOps, d)
                          else map_option (\<lambda>rs. receive_ops env mo d rs body ctx negotiated scope)
                                 (ops_of_json (en_parse env) (extractReplicationOps (JObj body)))
                      | _ \<Rightarrow> Some (InvalidOps, d)))))
   | _ \<Rightarrow> Some (InvalidJson, d))"

definition body_too_large :: "route_env \<Rightarrow> sync_request \<Rightarrow> bool" where
  "body_too_large env q \<longleftrightarrow>
     (case parseInt (or_default (map_of (hr_headers q) ''content-length'') []) of None \<Rightarrow> False | Some n \<Rightarrow> n > en_max_body env)
     \<or> int (length (hr_body q)) > en_max_body env"

definition postOps :: "route_env \<Rightarrow> route_moment \<Rightarrow> db \<Rightarrow> sync_request \<Rightarrow> (response \<times> db) option" where
  "postOps env mo d q =
     (if body_too_large env q then Some (PayloadTooLarge, d)
      else (case authenticated env mo d q of
          (Inl refused, d1) \<Rightarrow> Some (refused, d1)
        | (Inr (peer, key), d1) \<Rightarrow> accept_body env mo d1 q peer key))"


section \<open>What a request changes besides the log\<close>

text \<open>Everything but the tables of authentication, of reset boundaries and of logged refusals is as before.\<close>

definition without_bookkeeping :: "db \<Rightarrow> db" where
  "without_bookkeeping d = d\<lparr> nonces := [], signature_states := [], peers := [], reset_states := [], legacy_reset := None,
     rejections := [] \<rparr>"

definition bookkeeping :: "db \<Rightarrow> db \<Rightarrow> bool" where
  "bookkeeping d d' \<longleftrightarrow> without_bookkeeping d' = without_bookkeeping d"

lemma bookkeeping_refl [simp]: "bookkeeping d d"
  by (simp add: bookkeeping_def)

lemma bookkeeping_trans: "bookkeeping d d1 \<Longrightarrow> bookkeeping d1 d2 \<Longrightarrow> bookkeeping d d2"
  by (simp add: bookkeeping_def)

lemma without_bookkeeping_tables:
  "memories (without_bookkeeping d) = memories d" "ops (without_bookkeeping d) = ops d"
  "memberships (without_bookkeeping d) = memberships d" "scopes (without_bookkeeping d) = scopes d"
  "joined_scope (without_bookkeeping d) = joined_scope d" "loadScope (without_bookkeeping d) = loadScope d"
  "getAnyRecipientPolicyDenyOverlayForScopeDevice (without_bookkeeping d) = getAnyRecipientPolicyDenyOverlayForScopeDevice d"
  "loadCacheStates (without_bookkeeping d) = loadCacheStates d"
  "getRetainedScopeAuthorizationKey k (without_bookkeeping d) = getRetainedScopeAuthorizationKey k d"
  by (simp_all add: without_bookkeeping_def fun_eq_iff joined_scope_def loadScope_def loadCacheStates_def
      getAnyRecipientPolicyDenyOverlayForScopeDevice_def getRetainedScopeAuthorizationKey_def split: option.splits)

lemma without_bookkeeping_rows: "readCachedScopeRows (without_bookkeeping d) = readCachedScopeRows d"
proof -
  have "joined_authority_ok (without_bookkeeping d) = joined_authority_ok d" "scopeFromJoinedRow (without_bookkeeping d) = scopeFromJoinedRow d"
    unfolding fun_eq_iff joined_authority_ok_def scopeFromJoinedRow_def without_bookkeeping_tables by simp_all
  note same = this
  show ?thesis unfolding fun_eq_iff readCachedScopeRows_def same without_bookkeeping_tables by simp
qed

lemma without_bookkeeping_gates:
  "scope_gate (without_bookkeeping d) = scope_gate d"
  "effective_authorization env (without_bookkeeping d) = effective_authorization env d"
  unfolding fun_eq_iff scope_gate_def cached_decision_def effective_authorization_def
    getEffectiveCachedScopeAuthorization_def readCachedScopeAuthorization_def without_bookkeeping_rows without_bookkeeping_tables
  by simp_all

lemma bookkeeping_keeps:
  assumes "bookkeeping d d'"
  shows "memories d' = memories d" "ops d' = ops d" "memberships d' = memberships d" "scopes d' = scopes d"
    "scope_gate d' = scope_gate d" "effective_authorization env d' = effective_authorization env d"
  using assms without_bookkeeping_tables(1-4) [of d] without_bookkeeping_tables(1-4) [of d']
    without_bookkeeping_gates(1) [of d] without_bookkeeping_gates(1) [of d']
    without_bookkeeping_gates(2) [of env d] without_bookkeeping_gates(2) [of env d']
  by (simp_all add: bookkeeping_def)

lemma bookkeeping_boundary:
  assumes "getSyncResetState now fresh d k = (b, d')"
  shows "bookkeeping d d'"
  using assms
  by (auto simp: getSyncResetState_def seed_reset_def seedDefaultSyncResetStateFromLegacy_def bookkeeping_def
      without_bookkeeping_def mirrorDefaultSyncResetStateToLegacy_def Let_def split: option.splits if_splits)

lemma bookkeeping_authorize:
  assumes "authorizeSyncRequest env mo d r = (res, d')"
  shows "bookkeeping d d'"
  using assms
proof (cases rule: authorize_cases)
  case (verified peer me version d1 refused)
  have d1: "bookkeeping d d1"
    using verified(5) by (auto simp: recordSyncAuthNonce_def recordNonce_def cleanupNonces_def bookkeeping_def
        without_bookkeeping_def split: if_splits)
  have "bookkeeping d1 d2" if "recordDirectPeerSignatureVersion m d1 p 3 = (a, d2)" for m p a d2
    using that by (auto simp: recordDirectPeerSignatureVersion_def recordHighestObservedDirectSignatureVersion_def
        bookkeeping_def without_bookkeeping_def Let_def split: if_splits sum.splits)
  with d1 verified(6) bookkeeping_trans show ?thesis by (auto split: option.splits if_splits prod.splits)
qed simp

lemma authenticated_facts:
  assumes "authenticated env mo d q = (res, d')"
  shows "bookkeeping d d'" "res = Inr (peer, key) \<Longrightarrow>
    fst (authorizeSyncRequest (en_server env) (moment.truncate mo) d (http_request.truncate q)) = Authenticated peer key"
  using assms bookkeeping_authorize
  by (fastforce simp: authenticated_def split: prod.splits sync_auth.splits if_splits)+


section \<open>What is served\<close>

lemma parse_scope_facts:
  assumes "parseSyncScopeRequest env d v provided ctx negotiated = Inr (Inr scope)"
  shows "scope = None \<or> (\<exists>s. scope = Some s \<and> clean_text (Some s) = Some s
    \<and> may_use env d (js_trim (xc_local ctx)) (xc_local_key ctx) s \<and> may_use env d (js_trim (xc_peer ctx)) (xc_peer_key ctx) s)"
proof -
  define scopeId where "scopeId = (case v of Some (JStr s) \<Rightarrow> js_trim s | _ \<Rightarrow> [])"
  have trimmed: "js_trim scopeId = scopeId" by (auto simp: scopeId_def split: option.splits json.splits)
  show ?thesis
  proof (cases "provided")
    case True
    note parsed = assms [unfolded parseSyncScopeRequest_def scopeId_def [symmetric] Let_def]
    then have "scope = Some scopeId \<and> scopeId \<noteq> []
        \<and> may_use env d (js_trim (xc_local ctx)) (xc_local_key ctx) scopeId
        \<and> may_use env d (js_trim (xc_peer ctx)) (xc_peer_key ctx) scopeId"
      using True unfolding may_use_def by (simp split: if_split_asm sum.split_asm option.split_asm)
    with trimmed show ?thesis by (simp add: clean_text_def)
  qed (use assms in \<open>simp add: parseSyncScopeRequest_def\<close>)
qed

lemma effective_requested_scope:
  assumes "scope = None \<or> (\<exists>s. scope = Some s \<and> clean_text (Some s) = Some s)"
  shows "effective_scope (map_option Some scope) = or_default scope DEFAULT_SYNC_SCOPE_ID"
  using assms by (auto simp: effective_scope_def normalizeSyncStateScopeId_clean clean_text_def)

lemma authenticated_peer:
  assumes "fst (authorizeSyncRequest env mo d r) = Authenticated peer key"
  shows "js_trim peer = peer \<and> clean_text (Some peer) = Some peer"
proof -
  obtain d' where accepted: "authorizeSyncRequest env mo d r = (Authenticated peer key, d')" using assms by (metis prod.collapse)
  have dev: "peer = trimmed_text (header r ''X-Opencode-Device'')" using authorize_accepts [OF accepted] by metis
  have "peer \<noteq> []"
  proof
    assume "peer = []"
    with dev have "fst (authorizeSyncRequest env mo d r) = NotAuthenticated ''missing_headers'' []"
      by (simp add: authorizeSyncRequest_def)
    with assms show False by simp
  qed
  with dev show ?thesis by (simp add: trimmed_text_def clean_text_def)
qed

lemma filterOpsForPeer_allowed:
  "fst (filterOpsForPeer env d peer me rs scoped reassign) = filter (\<lambda>r. outbound_decision (en_cfg env) d (Some peer)
     \<lparr> fo_local_device = Some me, fo_apply_scope = scoped, fo_supports_reassign = reassign \<rparr> r = None) rs"
  by (simp add: filterOpsForPeer_def filterReplicationOps_result Let_def)

text \<open>The parts of a served page.\<close>

lemma serve_ops_page:
  assumes "serve_ops env mo d q peer key = (OpsPage b rs nextCursor skipped detail, d')"
  obtains me scope reassign rows where "se_local (en_server env) = Some me" "rb_scope_id b = scope" "bookkeeping d d'"
    "parseSyncScopeRequest (en_scope env) d (requested_scope q) (query q ''scope_id'' \<noteq> None)
       (scope_ctx env me peer key) (negotiatedSyncCapability q) = Inr (Inr scope)"
    "rs = filter (\<lambda>r. outbound_decision (en_cfg env) d' (Some peer)
       \<lparr> fo_local_device = Some me, fo_apply_scope = True, fo_supports_reassign = reassign \<rparr> r = None) rows"
    "set rows \<subseteq> {r \<in> set (ops d). authored_by (Some me) r \<and> in_op_scope (effective_scope (map_option Some scope)) r}"
proof -
  from assms obtain me scope b0 rows d1 where parts: "se_local (en_server env) = Some me"
      "parseSyncScopeRequest (en_scope env) d (requested_scope q) (query q ''scope_id'' \<noteq> None)
         (scope_ctx env me peer key) (negotiatedSyncCapability q) = Inr (Inr scope)"
      "loadReplicationOpsForPeer (route_now env mo) (xv_fresh (en_scope env) (or_default scope DEFAULT_SYNC_SCOPE_ID)) d
         (ops_request q me scope) = (PeerOps b0 rows nextCursor, d1)"
      "b = addSyncScopeToBoundary b0 scope" "d' = d1"
      "rs = fst (filterOpsForPeer env d1 peer me rows True
         (supportsSyncFeature (map_option JStr (map_of (hr_headers q) ''X-Codemem-Sync-Features'')) ''reassign_scope''))"
    by (auto simp: serve_ops_def scope_reset_def split: option.splits sum.splits prod.splits peer_ops.splits)
  from loadReplicationOpsForPeer_served [OF parts(3)] obtain loaded where
    loaded: "d1 = snd (getSyncResetState (route_now env mo) (xv_fresh (en_scope env) (or_default scope DEFAULT_SYNC_SCOPE_ID)) d
        (map_option Some scope))"
      "loadReplicationOpsSince d1 (normalizeCursor (query q ''since'')) (page_size (query q ''limit'') 1000) (Some me)
         (Some (Some (effective_scope (map_option Some scope)))) = (loaded, nextCursor)" "rows = filter (servable d1) loaded"
    by (auto simp: ops_request_def)
  have book: "bookkeeping d d1" using loaded(1) bookkeeping_boundary by (metis prod.collapse)
  have "set rows \<subseteq> {r \<in> set (ops d). authored_by (Some me) r \<and> in_op_scope (effective_scope (map_option Some scope)) r}"
    using loaded(2,3) bookkeeping_keeps(2) [OF book]
    by (auto simp: loadReplicationOpsSince_def Let_def sql_limit_def dest!: in_set_takeD split: if_splits)
  with that parts book show thesis by (auto simp: filterOpsForPeer_allowed addSyncScopeToBoundary_def)
qed



section \<open>What is accepted\<close>

text \<open>The proof a scope needs: it is known and not managed, or both devices are members with their retained keys.\<close>

definition managed_proof :: "scope_env \<Rightarrow> db \<Rightarrow> scope_context \<Rightarrow> string \<Rightarrow> bool" where
  "managed_proof env d ctx s \<longleftrightarrow> (\<exists>au. effective_authorization env d (xc_local ctx) s (map_option js_trim (xc_local_key ctx)) = Inr au
     \<and> map_option sc_authority_type (au_scope au) \<in> {Some ''manual'', Some ''invite'', Some ''local''})
   \<or> (may_use env d (xc_local ctx) (map_option js_trim (xc_local_key ctx)) s
      \<and> may_use env d (xc_peer ctx) (map_option js_trim (xc_peer_key ctx)) s)"

lemma validateManagedScopes_proved:
  "validateManagedScopes env d ctx ss = Inr None \<Longrightarrow> s \<in> set ss \<Longrightarrow> s \<noteq> [] \<Longrightarrow> s \<noteq> DEFAULT_SYNC_SCOPE_ID \<Longrightarrow> managed_proof env d ctx s"
proof (induction ss)
  case (Cons x ss)
  show ?case
  proof (cases "s = x")
    case True
    with Cons.prems show ?thesis
      by (auto simp: managed_proof_def may_use_def Let_def split: if_splits sum.splits option.splits)
  next
    case False
    have "validateManagedScopes env d ctx ss = Inr None"
      using Cons.prems(1) by (auto simp: Let_def split: if_splits sum.splits option.splits)
    with Cons False show ?thesis by simp
  qed
qed simp

definition touched_scopes :: "db \<Rightarrow> replication_op \<Rightarrow> string list" where
  "touched_scopes d r = js_trim (or_default (op_scope_id r) [])
     # (case parseReassignScopePayload r of None \<Rightarrow> [] | Some ra \<Rightarrow> [ra_old_scope ra, ra_new_scope ra]) @ existing_scopes d [r]"

lemma reassign_scopes_set:
  "reassign_scopes rs = Some ss \<Longrightarrow> r \<in> set rs \<Longrightarrow> parseReassignScopePayload r = Some ra \<Longrightarrow> {ra_old_scope ra, ra_new_scope ra} \<subseteq> set ss"
proof (induction rs arbitrary: ss)
  case (Cons x rs)
  have kind: "op_type r = REASSIGN_SCOPE_OP_TYPE" using Cons.prems(3) by (simp add: parseReassignScopePayload_def split: if_splits)
  show ?case
  proof (cases "op_type x = REASSIGN_SCOPE_OP_TYPE")
    case True
    with Cons.prems(1) obtain rx rest where rx: "parseReassignScopePayload x = Some rx" "reassign_scopes rs = Some rest"
        "ss = ra_old_scope rx # ra_new_scope rx # rest"
      by (auto simp: reassign_scopes_def split: option.splits)
    with Cons show ?thesis by (cases "r = x") auto
  next
    case False
    with Cons.prems(1) have "reassign_scopes rs = Some ss" by (simp add: reassign_scopes_def)
    with Cons kind False show ?thesis by auto
  qed
qed simp

lemma set_set_of_list [simp]: "set (set_of_list xs) = set xs"
  by (simp add: set_of_list_def)

lemma touched_in_batch:
  assumes "reassign_scopes rs = Some ss" "r \<in> set rs" "s \<in> set (touched_scopes d r)"
  shows "s \<in> set (addExistingMutationScopes d rs (set_of_list (map (\<lambda>r. js_trim (or_default (op_scope_id r) [])) rs @ ss)))"
proof -
  have "set (existing_scopes d [r]) \<subseteq> set (existing_scopes d rs)"
    using assms(2) by (auto simp: existing_scopes_def)
  with assms reassign_scopes_set [OF assms(1,2)] show ?thesis
    by (auto simp: touched_scopes_def addExistingMutationScopes_def split: option.splits)
qed

definition is_applied :: "response \<Rightarrow> bool" where
  "is_applied resp \<longleftrightarrow> (case resp of OpsApplied _ _ _ _ \<Rightarrow> True | _ \<Rightarrow> False)"

lemma scope_reset_refuses: "scope_reset env mo d reason s = (x, d1) \<Longrightarrow> bookkeeping d d1 \<and> \<not> is_applied x"
  using bookkeeping_boundary by (auto simp: scope_reset_def default_boundary_def is_applied_def split: prod.splits)

lemma receive_ops_outcome:
  assumes "receive_ops env mo d rs body ctx negotiated scope = (resp, d')"
  shows "(\<exists>res skipped detail allowed. resp = OpsApplied res skipped detail scope
      \<and> applyReplicationOps ((en_apply env)\<lparr> ax_local := xc_local ctx \<rparr>) None d allowed = (res, d') \<and> set allowed \<subseteq> set rs
      \<and> (\<forall>r\<in>set rs. op_device_id r = xc_peer ctx \<and> op_clock_device_id r = xc_peer ctx
          \<and> validateInboundLocalOnlyOp d \<lparr> io_peer = Some (xc_peer ctx), io_enabled = (negotiated \<noteq> sync_capability.Unsupported) \<rparr> r = None
          \<and> (\<forall>s\<in>set (touched_scopes d r). s \<noteq> [] \<longrightarrow> s \<noteq> DEFAULT_SYNC_SCOPE_ID \<longrightarrow> managed_proof (en_scope env) d ctx s)))
    \<or> (bookkeeping d d' \<and> \<not> is_applied resp)"
proof -
  define opts where "opts = \<lparr> io_peer = Some (xc_peer ctx), io_enabled = (negotiated \<noteq> sync_capability.Unsupported) \<rparr>"
  have gate: "bookkeeping d d1 \<and> (\<forall>x. refused = Some x \<longrightarrow> \<not> is_applied x)
      \<and> (refused = None \<longrightarrow> d1 = d \<and> rejectInboundScopeFailures (route_now env mo) d rs (xc_local ctx) opts = None
          \<and> validateManagedScopes (en_scope env) d ctx (addExistingMutationScopes d rs ss) = Inr None)"
    if "rejectUnauthorizedInboundBatch env mo d rs ctx (negotiated \<noteq> sync_capability.Unsupported) scope ss = (refused, d1)" for ss refused d1
  proof (cases "rejectInboundScopeFailures (route_now env mo) d rs (xc_local ctx) opts")
    case None
    with that show ?thesis
      by (auto simp: rejectUnauthorizedInboundBatch_def opts_def [symmetric] is_applied_def [of InternalError]
          dest!: scope_reset_refuses split: sum.splits option.splits prod.splits)
  next
    case (Some a)
    obtain res d2 where a: "a = (res, d2)" by (cases a)
    have "bookkeeping d (recordInboundScopeRejections now d rejs)" for now rejs
      using log_rejections_only [of rejs now d] by (auto simp: bookkeeping_def without_bookkeeping_def)
    with Some a have "bookkeeping d d2" by (auto simp: rejectInboundScopeFailures_def Let_def split: if_splits)
    with that Some a show ?thesis by (auto simp: rejectUnauthorizedInboundBatch_def opts_def [symmetric] is_applied_def)
  qed
  define reassign where "reassign \<longleftrightarrow> REASSIGN_SCOPE_OP_TYPE \<in> set (normalizeSyncFeatures (field ''sync_features'' body))"
  obtain allowed skipped detail where filtered: "filterOpsForPeer env d (xc_peer ctx) (xc_local ctx) rs False reassign = (allowed, skipped, detail)"
    by (metis prod_cases3)
  note run = assms [unfolded receive_ops_def Let_def reassign_def [symmetric], unfolded filtered]
  show ?thesis
  proof (cases "(exists_where (\<lambda>r. op_type r = REASSIGN_SCOPE_OP_TYPE) rs \<and> \<not> reassign) \<or> reassign_scopes rs = None
      \<or> first_where (\<lambda>r. op_device_id r \<noteq> xc_peer ctx \<or> op_clock_device_id r \<noteq> xc_peer ctx) rs \<noteq> None")
    case True
    with run show ?thesis by (auto simp: is_applied_def split: if_splits option.splits)
  next
    case False
    then obtain reassigned where guards: "\<not> (exists_where (\<lambda>r. op_type r = REASSIGN_SCOPE_OP_TYPE) rs \<and> \<not> reassign)"
        "reassign_scopes rs = Some reassigned"
        "first_where (\<lambda>r. op_device_id r \<noteq> xc_peer ctx \<or> op_clock_device_id r \<noteq> xc_peer ctx) rs = None" by auto
    let ?ss = "set_of_list (map (\<lambda>r. js_trim (or_default (op_scope_id r) [])) rs @ reassigned)"
    obtain refused d1 where rej: "rejectUnauthorizedInboundBatch env mo d rs ctx (negotiated \<noteq> sync_capability.Unsupported) scope ?ss = (refused, d1)"
      by fastforce
    note checked = gate [OF rej]
    show ?thesis
    proof (cases refused)
      case (Some x)
      with run guards rej checked show ?thesis by simp
    next
      case None
      with checked have ok: "d1 = d" "rejectInboundScopeFailures (route_now env mo) d rs (xc_local ctx) opts = None"
        "validateManagedScopes (en_scope env) d ctx (addExistingMutationScopes d rs ?ss) = Inr None" by auto
      obtain res d2 where applied: "applyInboundSyncOps env d allowed (xc_local ctx) = (res, d2)" by fastforce
      have "resp = OpsApplied res (ap_skipped res + skipped) detail scope" "d' = d2"
        using run guards rej None ok(1) applied by simp_all
      moreover have "set allowed \<subseteq> set rs" using filterOpsForPeer_allowed [of env d "xc_peer ctx" "xc_local ctx" rs False reassign] unfolding filtered by auto
      moreover have "\<forall>r\<in>set rs. op_device_id r = xc_peer ctx \<and> op_clock_device_id r = xc_peer ctx \<and> validateInboundLocalOnlyOp d opts r = None
          \<and> (\<forall>s\<in>set (touched_scopes d r). s \<noteq> [] \<longrightarrow> s \<noteq> DEFAULT_SYNC_SCOPE_ID \<longrightarrow> managed_proof (en_scope env) d ctx s)"
        using guards(3) ok(2) validateManagedScopes_proved [OF ok(3) touched_in_batch [OF guards(2)]]
        by (auto simp: first_where_None_iff rejectInbound_None)
      ultimately show ?thesis using applied unfolding opts_def applyInboundSyncOps_def by blast
    qed
  qed
qed



text \<open>A paired device that shares a scope with this one pulls its op, and pushes one of its own.\<close>

definition route_db :: db where
  "route_db = sample_scope_db\<lparr> peers := peers sample_server_db, ops := [sample_op ''o1'' ''k1'' ''upsert'' 1 ''here''],
     reset_states := [\<lparr> rs_scope = ''team'', rs_generation = 1, rs_snapshot_id = ''s1'', rs_baseline_cursor = None,
       rs_retained_floor_cursor = None, rs_updated_at = ''t'' \<rparr>] \<rparr>"

definition sample_route_env :: route_env where
  "sample_route_env = \<lparr> en_server = sample_server, en_scope = sample_scope_env, en_cfg = no_filters,
     en_apply = \<lparr> ax_local = ''here'', ax_now = ''2027'', ax_scan = (\<lambda>t. t), ax_redact = (\<lambda>p. p), ax_sha256 = (\<lambda>t. t) \<rparr>,
     en_local_key = Some ''k1'', en_parse = (\<lambda>s. if s = ''push'' then Some (JObj [(''sync_capability'', JStr ''scoped''),
         (''scope_id'', JStr ''team''), (''ops'', JArr [op_json (sample_op ''o2'' ''k2'' ''upsert'' 1 ''peer'')])])
       else Some (JObj [(''title'', JStr ''t'')])), en_max_body = 1048576, en_max_ops = 2000 \<rparr>"

definition sample_route_moment :: route_moment where
  "sample_route_moment = moment.extend (sample_moment 1001000) (route_moment.fields False)"

definition sample_route :: "string \<Rightarrow> (string \<times> string) list \<Rightarrow> sync_request" where
  "sample_route body q = http_request.extend
     ((sample_request ''1301'' ''n1'' [(''X-Codemem-Sync-Capability'', ''scoped'')])\<lparr> hr_body := body \<rparr>) (sync_request.fields q)"

definition pull_request :: sync_request where
  "pull_request = sample_route [] [(''scope_id'', ''team''), (''generation'', ''1''), (''snapshot_id'', ''s1'')]"

definition served_ops :: "response \<Rightarrow> replication_op list" where
  "served_ops resp = (case resp of OpsPage b rs nextCursor skipped detail \<Rightarrow> rs | _ \<Rightarrow> [])"

lemma pull_served: "served_ops (fst (getOps sample_route_env sample_route_moment route_db pull_request)) = [sample_op ''o1'' ''k1'' ''upsert'' 1 ''here'']"
  by code_simp

lemma push_applied: "map_option (is_applied \<circ> fst) (postOps sample_route_env sample_route_moment route_db (sample_route ''push'' [])) = Some True"
  by code_simp



end
