(* ===== verification/Snapshot_Fetch.thy ===== *)
theory Snapshot_Fetch
  imports Snapshot_Bootstrap Sync_Routes
begin

text \<open>
  The client that reads a snapshot page by page (\<open>fetchAllSnapshotPages\<close> of \<open>packages/core/src/sync-bootstrap.ts\<close>).
  The peer and the network are a function that answers a page's parameters and becomes another peer; an exception
  of signing or of the transport is \<open>PageThrew\<close>. Asking may go on for ever: \<open>None\<close> is a call that does not return.
\<close>

section \<open>One page\<close>

record fetch_options =
  ft_source :: "string option"
  ft_recipient :: "string option"
  ft_page_size :: "int option"
  ft_max_items :: "int option"

record snapshot_params =
  qs_generation :: int
  qs_snapshot :: string
  qs_limit :: int
  qs_source :: "string option"
  qs_baseline :: "string option"
  qs_scope :: "string option"
  qs_token :: "string option"

text \<open>A page as it arrives; an outer \<open>None\<close> is a property that is missing, for \<open>items\<close> one that is no array.\<close>

record page_response =
  pw_source :: "string option"
  pw_items :: "snapshot_page_item list option"
  pw_generation :: "int option"
  pw_snapshot :: "string option"
  pw_baseline :: "string option option"
  pw_next :: "string option"
  pw_more :: bool

datatype page_answer = PageThrew string | PageRefused int string string | PageAnswered page_response

record page_boundary =
  bd_generation :: int
  bd_snapshot :: string
  bd_baseline :: "string option"

definition checkedSnapshotBoundary :: "page_response \<Rightarrow> reset_boundary \<Rightarrow> string option \<Rightarrow> string + page_boundary" where
  "checkedSnapshotBoundary page expected sourceDeviceId =
     (if given sourceDeviceId \<and> pw_source page \<noteq> sourceDeviceId then Inl ''retirement_snapshot_source_required''
      else if pw_generation page \<noteq> Some (rb_generation expected) \<or> pw_snapshot page \<noteq> Some (rb_snapshot_id expected)
              \<or> pw_baseline page \<noteq> Some (rb_baseline_cursor expected)
      then Inl ''snapshot_boundary_mismatch''
      else Inr \<lparr> bd_generation = the (pw_generation page), bd_snapshot = the (pw_snapshot page),
             bd_baseline = the (pw_baseline page) \<rparr>)"

definition truthy :: "string option \<Rightarrow> string option" where
  "truthy v = (if given v then v else None)"

definition snapshotPageParams :: "reset_boundary \<Rightarrow> int \<Rightarrow> string option \<Rightarrow> string option \<Rightarrow> snapshot_params" where
  "snapshotPageParams info pageSize pageToken sourceDeviceId = \<lparr> qs_generation = rb_generation info,
     qs_snapshot = rb_snapshot_id info, qs_limit = pageSize, qs_source = truthy sourceDeviceId,
     qs_baseline = truthy (rb_baseline_cursor info), qs_scope = truthy (rb_scope_id info), qs_token = truthy pageToken \<rparr>"

definition checkedSnapshotSource :: "fetch_options \<Rightarrow> string + string option" where
  "checkedSnapshotSource opts = (case ft_source opts of
     None \<Rightarrow> Inr None
   | Some source \<Rightarrow> if source = [] \<or> Some source \<noteq> map_option js_trim (ft_recipient opts)
                    then Inl ''retirement_snapshot_source_required'' else Inr (Some source))"

definition refusal_text :: "int \<Rightarrow> string \<Rightarrow> string \<Rightarrow> string" where
  "refusal_text status error reason = ''snapshot fetch failed: ''
     @ (if error \<noteq> [] then (if reason \<noteq> [] then error @ '':'' @ reason else error) else ''status '' @ int_text status)"

section \<open>The loop\<close>

record 'p fetch_state =
  fs_peer :: 'p
  fs_token :: "string option"
  fs_items :: "snapshot_page_item list"

type_synonym fetched = "snapshot_page_item list \<times> page_boundary"

definition max_items :: "fetch_options \<Rightarrow> int" where
  "max_items opts = or_default (ft_max_items opts) 100000"

definition too_large_text :: "nat \<Rightarrow> int \<Rightarrow> string" where
  "too_large_text n most = ''snapshot too large: '' @ nat_digits n @ '' items exceeds safety limit of '' @ int_text most"

text \<open>One turn: \<open>Inl\<close> leaves the loop.\<close>

definition fetch_round ::
    "('p \<Rightarrow> snapshot_params \<Rightarrow> page_answer \<times> 'p) \<Rightarrow> reset_boundary \<Rightarrow> fetch_options \<Rightarrow> 'p fetch_state
     \<Rightarrow> (string + fetched) \<times> 'p + 'p fetch_state" where
  "fetch_round ask info opts st =
     (let (answer, p) = ask (fs_peer st) (snapshotPageParams info (or_default (ft_page_size opts) 200) (fs_token st) (ft_source opts))
      in (case answer of
            PageThrew e \<Rightarrow> Inl (Inl e, p)
          | PageRefused status error reason \<Rightarrow> Inl (Inl (refusal_text status error reason), p)
          | PageAnswered page \<Rightarrow>
              (case pw_items page of
                 None \<Rightarrow> Inl (Inl ''invalid snapshot response shape'', p)
               | Some items \<Rightarrow>
                   if pw_generation page = None then Inl (Inl ''invalid snapshot response shape'', p)
                   else (case checkedSnapshotBoundary page info (ft_source opts) of
                       Inl e \<Rightarrow> Inl (Inl e, p)
                     | Inr b \<Rightarrow>
                         let allItems = fs_items st @ items in
                         if int (length allItems) > max_items opts then Inl (Inl (too_large_text (length allItems) (max_items opts)), p)
                         else if \<not> pw_more page \<or> \<not> given (pw_next page) then Inl (Inr (allItems, b), p)
                         else Inr \<lparr> fs_peer = p, fs_token = pw_next page, fs_items = allItems \<rparr>))))"

partial_function (option) fetch_loop ::
    "('p \<Rightarrow> snapshot_params \<Rightarrow> page_answer \<times> 'p) \<Rightarrow> reset_boundary \<Rightarrow> fetch_options \<Rightarrow> 'p fetch_state
     \<Rightarrow> ((string + fetched) \<times> 'p) option" where
  "fetch_loop ask info opts st = (case fetch_round ask info opts st of Inl r \<Rightarrow> Some r | Inr st' \<Rightarrow> fetch_loop ask info opts st')"

definition fetchAllSnapshotPages ::
    "('p \<Rightarrow> snapshot_params \<Rightarrow> page_answer \<times> 'p) \<Rightarrow> reset_boundary \<Rightarrow> fetch_options \<Rightarrow> 'p
     \<Rightarrow> ((string + fetched) \<times> 'p) option" where
  "fetchAllSnapshotPages ask info opts p = (case checkedSnapshotSource opts of
     Inl e \<Rightarrow> Some (Inl e, p)
   | Inr _ \<Rightarrow> fetch_loop ask info opts \<lparr> fs_peer = p, fs_token = None, fs_items = [] \<rparr>)"

section \<open>When it returns\<close>

text \<open>Peers that never send an empty page before the last one.\<close>

definition progressing :: "('p \<Rightarrow> snapshot_params \<Rightarrow> page_answer \<times> 'p) \<Rightarrow> bool" where
  "progressing ask \<longleftrightarrow> (\<forall>p params page p'. ask p params = (PageAnswered page, p') \<and> pw_more page \<and> given (pw_next page)
     \<longrightarrow> pw_items page \<noteq> Some [])"

lemma fetch_round_grows:
  assumes "progressing ask" "fetch_round ask info opts st = Inr st'"
  shows "length (fs_items st) < length (fs_items st') \<and> int (length (fs_items st')) \<le> max_items opts"
proof -
  from assms(2) obtain page p items where page: "ask (fs_peer st) (snapshotPageParams info (or_default (ft_page_size opts) 200)
        (fs_token st) (ft_source opts)) = (PageAnswered page, p)" "pw_items page = Some items" "pw_more page \<and> given (pw_next page)"
      "fs_items st' = fs_items st @ items" "int (length (fs_items st')) \<le> max_items opts"
    by (auto simp: fetch_round_def Let_def split: prod.splits page_answer.splits option.splits if_splits sum.splits)
  then have "items \<noteq> []" using assms(1) unfolding progressing_def by blast
  with page show ?thesis by simp
qed

lemma fetch_loop_returns:
  assumes "progressing ask"
  shows "\<exists>r. fetch_loop ask info opts st = Some r"
proof (induction "nat (max_items opts) + 1 - length (fs_items st)" arbitrary: st rule: less_induct)
  case less
  show ?case
  proof (cases "fetch_round ask info opts st")
    case (Inl r)
    then show ?thesis by (simp add: fetch_loop.simps)
  next
    case (Inr st')
    from fetch_round_grows [OF assms Inr] have
      "nat (max_items opts) + 1 - length (fs_items st') < nat (max_items opts) + 1 - length (fs_items st)" by linarith
    from less [OF this] Inr show ?thesis by (simp add: fetch_loop.simps [of ask info opts st])
  qed
qed

text \<open>What a result says.\<close>

lemma fetch_loop_result:
  assumes "fetch_loop ask info opts st = Some (Inr (items, b), p)"
  shows "b = \<lparr> bd_generation = rb_generation info, bd_snapshot = rb_snapshot_id info, bd_baseline = rb_baseline_cursor info \<rparr>
    \<and> int (length items) \<le> max_items opts"
proof -
  have "\<forall>items b p. r = (Inr (items, b), p) \<longrightarrow>
      b = \<lparr> bd_generation = rb_generation i, bd_snapshot = rb_snapshot_id i, bd_baseline = rb_baseline_cursor i \<rparr>
      \<and> int (length items) \<le> max_items o'" if "fetch_loop ask i o' st = Some r" for i o' st r
  proof (rule fetch_loop.raw_induct [OF _ that])
    fix loop ask' i o' st r
    assume "\<And>a i o' st r. loop a i o' st = Some r \<Longrightarrow> \<forall>items b p. r = (Inr (items, b), p) \<longrightarrow>
        b = \<lparr> bd_generation = rb_generation i, bd_snapshot = rb_snapshot_id i, bd_baseline = rb_baseline_cursor i \<rparr>
        \<and> int (length items) \<le> max_items o'"
      "(case fetch_round ask' i o' st of Inl r \<Rightarrow> Some r | Inr st' \<Rightarrow> loop ask' i o' st') = Some r"
    then show "\<forall>items b p. r = (Inr (items, b), p) \<longrightarrow>
        b = \<lparr> bd_generation = rb_generation i, bd_snapshot = rb_snapshot_id i, bd_baseline = rb_baseline_cursor i \<rparr>
        \<and> int (length items) \<le> max_items o'"
      by (auto simp: fetch_round_def checkedSnapshotBoundary_def Let_def
          split: sum.splits prod.splits page_answer.splits option.splits if_splits)
  qed
  with assms show ?thesis by blast
qed

text \<open>A peer that answers every page empty and promises more is asked for ever: the limit counts items, not pages.\<close>

definition endless_page :: "reset_boundary \<Rightarrow> page_response" where
  "endless_page info = \<lparr> pw_source = None, pw_items = Some [], pw_generation = Some (rb_generation info),
     pw_snapshot = Some (rb_snapshot_id info), pw_baseline = Some (rb_baseline_cursor info), pw_next = Some ''t'', pw_more = True \<rparr>"

theorem empty_pages_never_end:
  assumes "ft_source opts = None" "\<forall>params. ask p params = (PageAnswered (endless_page info), p)"
    "0 \<le> max_items opts"
  shows "fetchAllSnapshotPages ask info opts p = None"
proof -
  have round: "fetch_round ask info opts st = Inr (st\<lparr> fs_token := Some ''t'' \<rparr>)"
    if "fs_peer st = p" "fs_items st = []" for st :: "'a fetch_state"
    using that assms by (simp add: fetch_round_def endless_page_def checkedSnapshotBoundary_def given_def Let_def)
  have "\<not> (ask' = ask \<and> i = info \<and> o' = opts \<and> fs_peer st = p \<and> fs_items st = [])"
    if "fetch_loop ask' i o' st = Some y" for ask' i o' y and st :: "'a fetch_state"
  proof (rule fetch_loop.raw_induct [OF _ that])
    fix loop ask' i o' and st :: "'a fetch_state" and y
    assume "\<And>ask' i o' st y. loop ask' i o' st = Some y \<Longrightarrow> \<not> (ask' = ask \<and> i = info \<and> o' = opts \<and> fs_peer st = p \<and> fs_items st = [])"
      "(case fetch_round ask' i o' st of Inl r \<Rightarrow> Some r | Inr st' \<Rightarrow> loop ask' i o' st') = Some y"
    then show "\<not> (ask' = ask \<and> i = info \<and> o' = opts \<and> fs_peer st = p \<and> fs_items st = [])"
      using round by (fastforce split: sum.splits)
  qed
  then have "fetch_loop ask info opts \<lparr> fs_peer = p, fs_token = None, fs_items = [] \<rparr> = None"
    by (metis not_Some_eq fetch_state.select_convs(1,3))
  with assms(1) show ?thesis by (simp add: fetchAllSnapshotPages_def checkedSnapshotSource_def)
qed


section \<open>A peer that runs the snapshot route\<close>

definition optional_query :: "string \<Rightarrow> string option \<Rightarrow> (string \<times> string) list" where
  "optional_query name v = (case v of None \<Rightarrow> [] | Some x \<Rightarrow> [(name, x)])"

definition snapshot_query :: "snapshot_params \<Rightarrow> (string \<times> string) list" where
  "snapshot_query ps = [(''generation'', int_text (qs_generation ps)), (''snapshot_id'', qs_snapshot ps),
       (''limit'', int_text (qs_limit ps))]
     @ optional_query ''source_device_id'' (qs_source ps) @ optional_query ''baseline_cursor'' (qs_baseline ps)
     @ optional_query ''scope_id'' (qs_scope ps) @ optional_query ''page_token'' (qs_token ps)"

definition snapshot_get :: "snapshot_params \<Rightarrow> sync_request" where
  "snapshot_get ps = \<lparr> hr_method = ''GET'', hr_path = ''/v1/snapshot'',
     hr_headers = [(''X-Codemem-Sync-Capability'', capability_text LOCAL_SYNC_CAPABILITY)], hr_body = [],
     hq_query = snapshot_query ps \<rparr>"

fun scope_reason_text :: "scope_reset_reason \<Rightarrow> string" where
  "scope_reason_text MissingScopeReset = ''missing_scope''"
| "scope_reason_text UnsupportedScopeReset = ''unsupported_scope''"
| "scope_reason_text StaleEpochReset = ''stale_epoch''"
| "scope_reason_text ScopeInactiveReset = ''scope_inactive''"

definition page_answer_of :: "response \<Rightarrow> page_answer" where
  "page_answer_of resp = (case resp of
     SnapshotPage source b items nextToken hasMore \<Rightarrow> PageAnswered \<lparr> pw_source = source, pw_items = Some items,
       pw_generation = Some (rb_generation b), pw_snapshot = Some (rb_snapshot_id b),
       pw_baseline = Some (rb_baseline_cursor b), pw_next = nextToken, pw_more = hasMore \<rparr>
   | ScopeReset payload \<Rightarrow> PageRefused 409 ''reset_required'' (scope_reason_text (sy_reason payload))
   | SnapshotError message \<Rightarrow> PageRefused (or_default (snapshotErrorStatus message) 500) message []
   | _ \<Rightarrow> PageRefused 500 ''internal_error'' [])"

text \<open>The peer behind its authentication: it serves device \<open>asking\<close>, whose key is \<open>key\<close>. A page that never comes is
  a timeout.\<close>

definition snapshot_peer :: "route_env \<Rightarrow> route_moment \<Rightarrow> string \<Rightarrow> string \<Rightarrow> db \<Rightarrow> snapshot_params \<Rightarrow> page_answer \<times> db" where
  "snapshot_peer env mo asking key d ps = (case serveAuthorizedSnapshot env mo d (snapshot_get ps) asking key of
     None \<Rightarrow> (PageThrew ''timeout'', d)
   | Some (resp, d') \<Rightarrow> (page_answer_of resp, d'))"

lemma parseInt_int_text: "parseInt (int_text n) = Some n"
proof -
  have digits: "list_all is_digit (nat_digits k)" for k using nat_digits_digits by (auto simp: list_all_iff)
  then have whole: "takeWhile is_digit (nat_digits k) = nat_digits k" for k by (simp add: takeWhile_eq_all_conv list_all_iff)
  have minus: "\<not> js_space CHR ''-''" "\<not> is_digit CHR ''-''" "\<not> is_digit CHR ''+''" by code_simp+
  show ?thesis
  proof (cases "n < 0")
    case True
    then show ?thesis
      using nat_digits_plain(3) by (simp add: parseInt_def int_text_def minus whole nat_digits_value del: takeWhile_eq_all_conv)
  next
    case False
    obtain c t where ct: "nat_digits (nat n) = c # t" using nat_digits_plain(3) by (cases "nat_digits (nat n)") auto
    then have "is_digit c" using digits [of "nat n"] by (simp add: list_all_iff)
    then have "\<not> js_space c" "c \<noteq> CHR ''-''" "c \<noteq> CHR ''+''" using digit_not_space minus by auto
    then show ?thesis
      using whole [of "nat n"] False nat_digits_value [of "nat n"] by (simp add: parseInt_def int_text_def ct Let_def)
  qed
qed

lemma generation_text: "0 \<le> n \<Longrightarrow> snapshotGeneration (Some (int_text n)) = Some n"
proof -
  assume "0 \<le> n"
  obtain c t where ct: "nat_digits (nat n) = c # t" using nat_digits_plain(3) by (cases "nat_digits (nat n)") auto
  have "list_all is_digit (nat_digits (nat n))" using nat_digits_digits by (auto simp: list_all_iff)
  then have "js_trim (nat_digits (nat n)) = nat_digits (nat n)"
    using nat_digits_plain(3) by (simp add: js_trim_def trim_by_ends digit_not_space list_all_iff)
  then have "js_trim (int_text n) \<noteq> []" using \<open>0 \<le> n\<close> nat_digits_plain(3) by (simp add: int_text_def)
  then show "snapshotGeneration (Some (int_text n)) = Some n"
    by (simp add: snapshotGeneration_def parseInt_int_text)
qed


text \<open>A device that may serve scope \<open>s\<close> to another one, with the boundary it has.\<close>

definition serves_scope :: "route_env \<Rightarrow> route_moment \<Rightarrow> db \<Rightarrow> string \<Rightarrow> string \<Rightarrow> string \<Rightarrow> string \<Rightarrow> reset_boundary \<Rightarrow> bool" where
  "serves_scope env mo d me asking key s info \<longleftrightarrow> se_local (en_server env) = Some me
     \<and> clean_text (Some me) = Some me \<and> clean_text (Some asking) = Some asking \<and> clean_text (Some s) = Some s
     \<and> requestable (en_scope env) d (scope_ctx env me asking key) s
     \<and> getSyncResetState (route_now env mo) (xv_fresh (en_scope env) s) d (Some (Some s)) = (info, d)
     \<and> 0 \<le> rb_generation info \<and> normalizeCursor (Some (rb_snapshot_id info)) = Some (rb_snapshot_id info)"

definition page_request :: "string \<Rightarrow> string \<Rightarrow> reset_boundary \<Rightarrow> fetch_options \<Rightarrow> string option \<Rightarrow> snapshot_request" where
  "page_request asking s info opts token = \<lparr> sq_source = None,
     sq_limit = Some (max 1 (min (or_default (ft_page_size opts) 200) 5000)), sq_token = truthy token, sq_peer = Some asking,
     sq_scope = Some (Some s), sq_generation = Some (rb_generation info), sq_snapshot = Some (rb_snapshot_id info),
     sq_baseline = truthy (rb_baseline_cursor info) \<rparr>"

lemma clean_nonempty: "clean_text (Some s) = Some s \<Longrightarrow> s \<noteq> [] \<and> js_trim s = s"
  by (auto simp: clean_text_def split: if_splits)

lemma requested_page:
  assumes "serves_scope env mo d me asking key s info" "ft_source opts = None"
  shows "snapshotPageRequest (snapshot_get (snapshotPageParams info (or_default (ft_page_size opts) 200) token (ft_source opts)))
      me asking (Some s) = Inr (page_request asking s info opts token)"
    "requested_scope (snapshot_get (snapshotPageParams info pageSize token source)) = Some (JStr s)"
    "query (snapshot_get (snapshotPageParams info pageSize token source)) ''scope_id'' = Some s"
proof -
  have scope: "rb_scope_id info = Some s"
    using assms(1) by (auto simp: serves_scope_def getSyncResetState_def resetBoundaryFromRow_def shouldReturnScopeId_def
        effective_scope_def normalizeSyncStateScopeId_clean Let_def split: option.splits)
  have s: "given (Some s)" using assms(1) clean_nonempty by (auto simp: serves_scope_def given_def)
  have snap: "rb_snapshot_id info \<noteq> []"
    using assms(1) by (auto simp: serves_scope_def normalizeCursor_clean clean_text_def)
  show "snapshotPageRequest (snapshot_get (snapshotPageParams info (or_default (ft_page_size opts) 200) token (ft_source opts)))
      me asking (Some s) = Inr (page_request asking s info opts token)"
    using assms generation_text [of "rb_generation info"] snap
    by (auto simp: snapshotPageRequest_def query_def snapshot_get_def snapshot_query_def snapshotPageParams_def optional_query_def
        truthy_def scope s snapshotSourceDevice_def page_size_def parseInt_int_text page_request_def serves_scope_def given_def
        split: option.splits)
  show "query (snapshot_get (snapshotPageParams info pageSize token source)) ''scope_id'' = Some s"
    by (auto simp: query_def snapshot_get_def snapshot_query_def snapshotPageParams_def optional_query_def truthy_def scope s
        split: option.splits)
  then show "requested_scope (snapshot_get (snapshotPageParams info pageSize token source)) = Some (JStr s)"
    by (simp add: requested_scope_def)
qed

lemma served_page_open:
  assumes "serves_scope env mo d me asking key s info"
  shows "page_open (route_now env mo) (xv_fresh (en_scope env) s) d (page_request asking s info opts token)"
    "effective_scope (sq_scope (page_request asking s info opts token)) = s"
proof -
  note parts = assms [unfolded serves_scope_def]
  have eff: "effective_scope (Some (Some s)) = s"
    using parts by (simp add: effective_scope_def normalizeSyncStateScopeId_clean)
  then show "effective_scope (sq_scope (page_request asking s info opts token)) = s" by (simp add: page_request_def)
  obtain au where au: "effective_authorization (en_scope env) d asking s (Some key) = Inr au" "au_authorized au" "\<not> is_local_authority au"
    using parts by (auto simp: requestable_def may_use_def failure_reason_None scope_ctx_def)
  note facts = effective_authorization_facts [OF au(1)]
  have granted: "cached_decision d asking s = Authorized" "au_scope au = auth_scope d asking s" using facts parts au(2) by auto
  from authorized_row [OF granted(1)] obtain sc where sc: "auth_scope d asking s = Some sc" "first_where (\<lambda>r. sc_id r = s) (scopes d) = Some sc"
    by blast
  have "sc_authority_type sc \<noteq> ''local''" using au(3) granted(2) sc(1) by (simp add: is_local_authority_def)
  moreover have "getAnyRecipientPolicyDenyOverlayForScopeDevice d s asking = None"
    using granted(1) by (cases "readCachedScopeRows d asking s None")
      (auto simp: cached_decision_def cachedScopeDecisionState_def split: if_splits)
  moreover have "normalizeCursor (truthy (rb_baseline_cursor info)) = rb_baseline_cursor info"
  proof -
    obtain c where "rb_baseline_cursor info = normalizeCursor c"
      using parts by (auto simp: getSyncResetState_def resetBoundaryFromRow_def Let_def split: option.splits)
    then show ?thesis by (auto simp: truthy_def given_def normalizeCursor_clean clean_text_def split: option.splits)
  qed
  ultimately show "page_open (route_now env mo) (xv_fresh (en_scope env) s) d (page_request asking s info opts token)"
    using parts sc(2) eff by (auto simp: page_open_def page_request_def)
qed


section \<open>Reading all of it\<close>

text \<open>A page that says there is more carries a token.\<close>

lemma scan_rows_token:
  "sx_last st \<noteq> Some [] \<Longrightarrow> sx_last (scan_rows sf rows st) \<noteq> Some []"
  by (induction sf rows st rule: scan_rows.induct)
    (auto simp: scanned_def makeSnapshotPageToken_def Let_def split: option.splits)

lemma scan_loop_token:
  assumes "scan_loop sf st = Some r" "sx_last st \<noteq> Some []"
  shows "sx_last r \<noteq> Some []"
proof -
  have "sx_last st \<noteq> Some [] \<longrightarrow> sx_last r \<noteq> Some []"
  proof (rule scan_loop.raw_induct [OF _ assms(1)])
    fix loop and sf :: scan_config and st r
    assume "\<And>a b y. loop a b = Some y \<Longrightarrow> sx_last b \<noteq> Some [] \<longrightarrow> sx_last y \<noteq> Some []"
      "(case scan_round sf st of Inl st' \<Rightarrow> Some st' | Inr st' \<Rightarrow> loop sf st') = Some r"
    then show "sx_last st \<noteq> Some [] \<longrightarrow> sx_last r \<noteq> Some []"
      using scan_rows_token by (auto simp: scan_round_def Let_def split: sum.splits if_splits)
  qed
  with assms(2) show ?thesis by blast
qed

lemma page_token_given:
  assumes "page_open now fresh d q" "loadMemorySnapshotPageForPeer cfg now fresh d q = Some (Inr page, d')" "sg_more page"
  shows "given (sg_next page)"
proof -
  from assms(2) obtain st where st: "scan_loop (page_scan cfg d q)
      \<lparr> sx_items = [], sx_next = parseSnapshotPageToken (sq_token q), sx_last = None, sx_more = False \<rparr> = Some st"
      "page = page_of (fst (getSyncResetState now fresh d (sq_scope q))) st"
    by (auto simp: load_page [OF assms(1)])
  have "sx_last st \<noteq> Some []" by (rule scan_loop_token [OF st(1)]) simp
  with st(2) assms(3) show ?thesis by (auto simp: page_of_def given_def split: option.splits)
qed

lemma asked_page:
  assumes "serves_scope env mo d me asking key s info" "ft_source opts = None"
  shows "snapshot_peer env mo asking key d (snapshotPageParams info (or_default (ft_page_size opts) 200) token (ft_source opts))
    = (case loadMemorySnapshotPageForPeer (en_cfg env) (route_now env mo) (xv_fresh (en_scope env) s) d
              (page_request asking s info opts token) of
         None \<Rightarrow> (PageThrew ''timeout'', d)
       | Some (Inl e, d') \<Rightarrow> (page_answer_of (snapshot_failure e), d')
       | Some (Inr p, d') \<Rightarrow> (PageAnswered \<lparr> pw_source = None, pw_items = Some (sg_items p),
           pw_generation = Some (rb_generation (sg_boundary p)), pw_snapshot = Some (rb_snapshot_id (sg_boundary p)),
           pw_baseline = Some (rb_baseline_cursor (sg_boundary p)), pw_next = sg_next p, pw_more = sg_more p \<rparr>, d'))"
proof -
  let ?q = "snapshot_get (snapshotPageParams info (or_default (ft_page_size opts) 200) token (ft_source opts))"
  note parts = assms(1) [unfolded serves_scope_def]
  have scoped: "negotiatedSyncCapability ?q = Scoped"
    unfolding negotiatedSyncCapability_def snapshot_get_def by code_simp
  have parsed: "parseSyncScopeRequest (en_scope env) d (requested_scope ?q) (query ?q ''scope_id'' \<noteq> None)
      (scope_ctx env me asking key) (negotiatedSyncCapability ?q) = Inr (Inr (Some s))"
    unfolding requested_page(2,3) [OF assms] scoped
    using requestable_parse [of "scope_ctx env me asking key" s "en_scope env" d] parts clean_nonempty by (simp add: scope_ctx_def)
  show ?thesis
    using parsed requested_page(1) [OF assms, of token] parts
    by (simp add: snapshot_peer_def serveAuthorizedSnapshot_def page_answer_of_def page_request_def addSyncScopeToBoundary_def
        split: option.splits prod.splits sum.splits)
qed

lemma fetch_reads_snapshot:
  assumes "serves_scope env mo d me asking key s info" "ft_source opts = None"
    "read_snapshot n (en_cfg env) (route_now env mo) (xv_fresh (en_scope env) s) d (page_request asking s info opts token) = Some items"
    "int (length acc + length items) \<le> max_items opts"
  shows "fetch_loop (snapshot_peer env mo asking key) info opts \<lparr> fs_peer = d, fs_token = token, fs_items = acc \<rparr>
    = Some (Inr (acc @ items, \<lparr> bd_generation = rb_generation info, bd_snapshot = rb_snapshot_id info,
        bd_baseline = rb_baseline_cursor info \<rparr>), d)"
  using assms(3,4)
proof (induction n arbitrary: token acc items)
  case (Suc n)
  let ?q = "page_request asking s info opts token"
  let ?b = "\<lparr> bd_generation = rb_generation info, bd_snapshot = rb_snapshot_id info, bd_baseline = rb_baseline_cursor info \<rparr>"
  note opened = served_page_open(1) [OF assms(1), of opts token]
  from Suc.prems(1) obtain page d1 where page: "loadMemorySnapshotPageForPeer (en_cfg env) (route_now env mo)
      (xv_fresh (en_scope env) s) d ?q = Some (Inr page, d1)"
    by (auto split: option.splits sum.splits prod.splits)
  have scope: "sq_scope ?q = Some (Some s)" by (simp add: page_request_def)
  have same: "d1 = d" "sg_boundary page = info"
    using page [unfolded load_page [OF opened]] assms(1) scope by (auto simp: page_of_def serves_scope_def)
  have asked: "snapshot_peer env mo asking key d (snapshotPageParams info (or_default (ft_page_size opts) 200) token (ft_source opts))
      = (PageAnswered \<lparr> pw_source = None, pw_items = Some (sg_items page), pw_generation = Some (rb_generation info),
           pw_snapshot = Some (rb_snapshot_id info), pw_baseline = Some (rb_baseline_cursor info), pw_next = sg_next page,
           pw_more = sg_more page \<rparr>, d)"
    using page same by (simp add: asked_page [OF assms(1,2)])
  have checked: "checkedSnapshotBoundary p info None = Inr ?b"
    if "pw_generation p = Some (rb_generation info)" "pw_snapshot p = Some (rb_snapshot_id info)"
      "pw_baseline p = Some (rb_baseline_cursor info)" for p
    using that by (simp add: checkedSnapshotBoundary_def given_def)
  show ?case
  proof (cases "sg_more page")
    case False
    then have items: "items = sg_items page" using Suc.prems(1) page by simp
    have "fetch_round (snapshot_peer env mo asking key) info opts \<lparr> fs_peer = d, fs_token = token, fs_items = acc \<rparr>
        = Inl (Inr (acc @ items, ?b), d)"
      using asked checked False Suc.prems(2) items assms(2) by (simp add: fetch_round_def Let_def)
    then show ?thesis by (simp add: fetch_loop.simps)
  next
    case True
    let ?next = "page_request asking s info opts (sg_next page)"
    have tok: "given (sg_next page)" by (rule page_token_given [OF opened page True])
    then have next_q: "?q\<lparr> sq_token := sg_next page \<rparr> = ?next" by (simp add: page_request_def truthy_def)
    from Suc.prems(1) page True same(1) obtain rest where rest:
      "read_snapshot n (en_cfg env) (route_now env mo) (xv_fresh (en_scope env) s) d ?next = Some rest" "items = sg_items page @ rest"
      by (auto simp: next_q)
    have "fetch_round (snapshot_peer env mo asking key) info opts \<lparr> fs_peer = d, fs_token = token, fs_items = acc \<rparr>
        = Inr \<lparr> fs_peer = d, fs_token = sg_next page, fs_items = acc @ sg_items page \<rparr>"
      using asked checked True tok Suc.prems(2) rest(2) assms(2) by (simp add: fetch_round_def Let_def)
    moreover have "fetch_loop (snapshot_peer env mo asking key) info opts
        \<lparr> fs_peer = d, fs_token = sg_next page, fs_items = acc @ sg_items page \<rparr> = Some (Inr ((acc @ sg_items page) @ rest, ?b), d)"
      by (rule Suc.IH [OF rest(1)]) (use Suc.prems(2) rest(2) in simp)
    ultimately show ?thesis using rest(2)
      by (simp add: fetch_loop.simps [of _ _ _ "\<lparr> fs_peer = d, fs_token = token, fs_items = acc \<rparr>"])
  qed
qed simp


section \<open>A bootstrap is a copy\<close>

lemma redacted_fields:
  "field ''title'' (redact_payload scan redact p) = map_option (scan_string scan) (field ''title'' p)"
  "field ''body_text'' (redact_payload scan redact p) = map_option (scan_string scan) (field ''body_text'' p)"
  "field ''kind'' (redact_payload scan redact p) = field ''kind'' p"
  "field ''visibility'' (redact_payload scan redact p) = field ''visibility'' p"
  by (simp_all add: redact_payload_def)

lemma row_payload_fields:
  "field ''title'' (buildPayloadFromMemoryRow m) = Some (JStr (m_title m))"
  "field ''body_text'' (buildPayloadFromMemoryRow m) = Some (JStr (m_body_text m))"
  "field ''kind'' (buildPayloadFromMemoryRow m) = Some (JStr (m_kind m))"
  "field ''visibility'' (buildPayloadFromMemoryRow m) = Some (json_of_text (m_visibility m))"
  "field ''scope_id'' (buildPayloadFromMemoryRow m) = Some (json_of_text (m_scope_id m))"
  by (simp_all add: buildPayloadFromMemoryRow_def field_def)

text \<open>The receiver's row of a row of the sender: the same key, scope, clock, kind and visibility, deleted when that is,
  and its texts after redaction.\<close>

definition scanned_text :: "(string \<Rightarrow> string) \<Rightarrow> string \<Rightarrow> string" where
  "scanned_text scan s = (if s = [] then [] else scan s)"

definition copied_row :: "bootstrap_env \<Rightarrow> string \<Rightarrow> memory_row \<times> string option \<Rightarrow> memory_row \<Rightarrow> bool" where
  "copied_row env s row r \<longleftrightarrow> (let m = fst row; gone = (or_default (m_deleted_at m) [] \<noteq> [] \<or> m_active m = Some 0) in
     m_import_key r = Some (row_key row) \<and> m_scope_id r = Some s \<and> m_rev r = Some (or_default (m_rev m) 0)
     \<and> m_updated_at r = m_updated_at m \<and> m_active r = Some (if gone then 0 else 1)
     \<and> m_kind r = m_kind m \<and> m_visibility r = Some (or_default (m_visibility m) ''shared'')
     \<and> m_title r = scanned_text (be_scan env) (m_title m) \<and> m_body_text r = scanned_text (be_scan env) (m_body_text m))"

lemma written_copy:
  assumes "snapshot_item_of cfg d source peer row = Some item" "written_row env (Some s) item r"
  shows "copied_row env s row r"
proof -
  obtain m project where row: "row = (m, project)" by (cases row)
  from assms(1) have item: "sp_entity item = row_key row" "sp_clock_rev item = or_default (m_rev m) 0"
      "sp_op_type item = (if or_default (m_deleted_at m) [] \<noteq> [] \<or> m_active m = Some 0 then ''delete'' else ''upsert'')"
      "sp_clock_updated_at item = m_updated_at m"
      "parseSnapshotPayload item = Some (set_field ''project'' (json_of_text project) (buildPayloadFromMemoryRow m))"
    by (auto simp: snapshot_item_of_def row unretiredSnapshotPayload_def row_key_def parseSnapshotPayload_def toJson_def
        text_is_empty_def json_parse_def as_object_def Let_def split: option.splits if_splits)
  let ?p = "redact_payload (be_scan env) (be_redact env) (set_field ''project'' (json_of_text project) (buildPayloadFromMemoryRow m))"
  from assms(2) item(5) obtain i j where r: "r = bootstrap_row item ?p (snapshotPayloadScopeId ?p (Some s)) i j"
    by (auto simp: written_row_def Let_def)
  show ?thesis
    using item(1-4) by (auto simp: copied_row_def r row bootstrap_row_def Let_def snapshotPayloadScopeId_def text_field_def
        redacted_fields row_payload_fields as_text_def scan_string_def scanned_text_def json_of_text_def split: option.splits)
qed

lemma map_filter_all2:
  assumes "list_all2 P (List.map_filter f xs) ys" "\<And>x y r. x \<in> set xs \<Longrightarrow> f x = Some y \<Longrightarrow> P y r \<Longrightarrow> Q x r"
  shows "list_all2 Q (filter (\<lambda>x. f x \<noteq> None) xs) ys"
  using assms
proof (induction xs arbitrary: ys)
  case (Cons x xs)
  then show ?case by (cases "f x") (auto simp: List.map_filter_simps list_all2_Cons1)
qed (simp add: List.map_filter_simps)

lemma item_payload_scope:
  assumes "snapshot_item_of cfg d source peer row = Some item" "m_scope_id (fst row) = Some s" "clean_text (Some s) = Some s"
  shows "\<exists>p. parseSnapshotPayload item = Some p \<and> normalizeBootstrapScopeId (field ''scope_id'' p) = Some s"
proof -
  obtain m project where row: "row = (m, project)" by (cases row)
  from assms(1) have "parseSnapshotPayload item = Some (set_field ''project'' (json_of_text project) (buildPayloadFromMemoryRow m))"
    by (auto simp: snapshot_item_of_def row unretiredSnapshotPayload_def parseSnapshotPayload_def toJson_def
        text_is_empty_def json_parse_def as_object_def Let_def split: option.splits if_splits)
  with assms(2,3) row show ?thesis
    by (simp add: row_payload_fields normalizeBootstrapScopeId_def json_of_text_def cleanText_def as_text_def)
qed



section \<open>Samples\<close>

text \<open>A device with one row of the scope, asked by the other member, which has none.\<close>

definition sample_item :: snapshot_page_item where
  "sample_item = \<lparr> sp_entity = ''k1'', sp_op_type = ''upsert'', sp_payload = toJson (JObj []), sp_clock_rev = 1,
     sp_clock_updated_at = ''2026'', sp_clock_device = ''here'' \<rparr>"

definition serving_db :: db where
  "serving_db = route_db\<lparr> memories := [bootstrap_row sample_item [(''title'', JStr ''t'')] (Some ''team'') 1 1],
     sessions := [\<lparr> s_id = 1, s_started_at = ''2026'', s_ended_at = None, s_cwd = None, s_project = None, s_git_remote = None,
       s_git_branch = None, s_user = None, s_tool_version = None, s_metadata = None, s_import_key = None \<rparr>] \<rparr>"

definition sample_boundary :: reset_boundary where
  "sample_boundary = fst (getSyncResetState (route_now sample_route_env sample_route_moment)
     (xv_fresh sample_scope_env ''team'') serving_db (Some (Some ''team'')))"

definition sample_options :: fetch_options where
  "sample_options = \<lparr> ft_source = None, ft_recipient = Some ''here'', ft_page_size = Some 1, ft_max_items = None \<rparr>"

definition sample_bootstrap_env :: bootstrap_env where
  "sample_bootstrap_env = \<lparr> be_now = ''2028'', be_fresh = ''f'', be_scan = (\<lambda>s. s), be_redact = (\<lambda>p. p), be_sha256 = (\<lambda>s. s) \<rparr>"

lemma may_use_computes:
  "may_use env d dev key s \<longleftrightarrow> (case effective_authorization env d dev s key of
     Inl _ \<Rightarrow> False | Inr au \<Rightarrow> scopeAuthorizationFailureReason au = None)"
  by (auto simp: may_use_def split: sum.splits)

lemma sample_members_may:
  "may_use (en_scope sample_route_env) serving_db (xc_peer (scope_ctx sample_route_env ''here'' ''peer'' ''k2''))
     (xc_peer_key (scope_ctx sample_route_env ''here'' ''peer'' ''k2'')) ''team''"
  "may_use (en_scope sample_route_env) serving_db (xc_local (scope_ctx sample_route_env ''here'' ''peer'' ''k2''))
     (xc_local_key (scope_ctx sample_route_env ''here'' ''peer'' ''k2'')) ''team''"
  unfolding may_use_computes by code_simp+

lemma sample_serves:
  "serves_scope sample_route_env sample_route_moment serving_db ''here'' ''peer'' ''k2'' ''team'' sample_boundary"
proof -
  have "se_local (en_server sample_route_env) = Some ''here''" "clean_text (Some ''here'') = Some ''here''"
    "clean_text (Some ''peer'') = Some ''peer''" "clean_text (Some ''team'') = Some ''team''"
    "getSyncResetState (route_now sample_route_env sample_route_moment) (xv_fresh (en_scope sample_route_env) ''team'') serving_db
       (Some (Some ''team'')) = (sample_boundary, serving_db)"
    "0 \<le> rb_generation sample_boundary"
    "normalizeCursor (Some (rb_snapshot_id sample_boundary)) = Some (rb_snapshot_id sample_boundary)"
    by code_simp+
  with sample_members_may show ?thesis by (simp add: serves_scope_def requestable_def)
qed


text \<open>A fetch returns. When no page but the last is empty, the loop over the pages ends, with an error or with at most
  the configured number of items, all of the one snapshot that was asked for: the generation, snapshot and baseline of the
  result are those of the request, whatever the peer answered.\<close>

theorem fetch_returns:
  assumes "progressing ask"
  shows "\<exists>r p'. fetchAllSnapshotPages ask info opts p = Some (r, p')
    \<and> (\<forall>items b. r = Inr (items, b) \<longrightarrow> int (length items) \<le> max_items opts
        \<and> b = \<lparr> bd_generation = rb_generation info, bd_snapshot = rb_snapshot_id info, bd_baseline = rb_baseline_cursor info \<rparr>)"
proof -
  from fetch_loop_returns [OF assms] obtain r p' where
    run: "fetch_loop ask info opts \<lparr> fs_peer = p, fs_token = None, fs_items = [] \<rparr> = Some (r, p')" by (metis prod.exhaust)
  show ?thesis
  proof (cases "checkedSnapshotSource opts")
    case Inl
    then show ?thesis by (simp add: fetchAllSnapshotPages_def)
  next
    case Inr
    then show ?thesis using run fetch_loop_result [of ask info opts] by (auto simp: fetchAllSnapshotPages_def)
  qed
qed

theorem fetch_returns_witness:
  "\<exists>r p'. fetchAllSnapshotPages (\<lambda>p ps. (PageThrew ''timeout'', p)) sample_boundary sample_options () = Some (r, p')"
proof -
  have "progressing (\<lambda>(p :: unit) (ps :: snapshot_params). (PageThrew ''timeout'', p))" by (simp add: progressing_def)
  from fetch_returns [OF this, of sample_boundary sample_options "()"] show ?thesis by blast
qed

end
