(* ===== verification/Table_Frames.thy ===== *)
theory Table_Frames
  imports Received_Rows Snapshot_Bootstrap Access_Properties
begin

text \<open>
  What the application of ops, the cleanup of received rows and the writing of snapshots leave alone: a table that none
  of their writes names. The locales state that for any reading of the database; the cursors and the record of the
  sync attempts are the readings the sync pass needs.
\<close>

section \<open>Tables that applying ops does not write\<close>

locale untouched_table =
  fixes tbl :: "db \<Rightarrow> 'a"
  assumes row_writes:
    "tbl (d\<lparr> memories := ms \<rparr>) = tbl d" "tbl (d\<lparr> sessions := ss \<rparr>) = tbl d" "tbl (d\<lparr> ops := rs \<rparr>) = tbl d"
    "tbl (d\<lparr> file_refs := fs \<rparr>) = tbl d" "tbl (d\<lparr> concept_refs := cs \<rparr>) = tbl d"
    "tbl (d\<lparr> foreign_revisions := fv \<rparr>) = tbl d" "tbl (d\<lparr> rejections := rj \<rparr>) = tbl d"
begin

lemmas writes = row_writes

lemma op_writes:
  "tbl (insertReplicationOpRow d r) = tbl d" "tbl (note_foreign_revision now d e p) = tbl d"
  "tbl (populateMemoryRefs d j fr fm cn) = tbl d" "tbl (clearMemoryRefs d j) = tbl d"
  "tbl (snd (ensureSessionForReplication w d i c pr)) = tbl d"
  by (simp_all add: insertReplicationOpRow_def note_foreign_revision_def populateMemoryRefs_def clearMemoryRefs_def
      ensureSessionForReplication_def Let_def writes split: option.splits)

lemma update_memories_keeps: "update_memories p f d = Inr d' \<Longrightarrow> tbl d' = tbl d"
  by (auto simp: update_memories_def writes Let_def split: if_splits)

lemma clear_refs_keeps: "clearRefsBeforeMemoryDeletion ctx d i = Inr d' \<Longrightarrow> tbl d' = tbl d"
proof -
  assume *: "clearRefsBeforeMemoryDeletion ctx d i = Inr d'"
  obtain ss where "snapshotSessionExportKeysForMemoryIds (ax_sha256 ctx) True d [i] = Inr (d\<lparr> sessions := ss \<rparr>)"
    using snapshotSessionExportKeys_only by blast
  with * show ?thesis by (auto simp: clearRefsBeforeMemoryDeletion_def op_writes writes)
qed

lemma apply_op_keeps:
  assumes "apply_op ctx d r = Inr e"
  shows "tbl (oe_db e) = tbl d"
proof -
  have old: "tbl (oe_db e) = tbl d" if "apply_old_side ctx d r ra = Inr e" for ra e
    using that by (auto simp: apply_old_side_def foreignRevisionMetadata_def op_writes writes Let_def
        split: option.splits if_splits sum.splits dest!: update_memories_keeps)
  have del: "tbl (oe_db e) = tbl d" if "apply_delete ctx d r = Inr e" for e
    using that by (auto simp: apply_delete_def foreignRevisionMetadata_def op_writes writes Let_def
        split: option.splits if_splits sum.splits dest!: update_memories_keeps)
  have clean: "tbl (oe_db e) = tbl d" if "apply_access_cleanup ctx d r = Inr e" for e
    using that by (auto simp: apply_access_cleanup_def applyAccessCleanupForLocalDevice_def op_writes writes Let_def
        split: option.splits if_splits sum.splits prod.splits dest!: clear_refs_keeps)
  have upd: "tbl (oe_db e) = tbl d" if "apply_upsert_update ctx d r re m = Inr e" for re m e
    using that by (auto simp: apply_upsert_update_def foreignRevisionMetadata_def op_writes writes Let_def
        split: option.splits if_splits sum.splits prod.splits dest!: update_memories_keeps)
  have session: "tbl d1 = tbl d" if "ensureSessionForReplication w d i c pr = (x, d1)" for w i c pr x d1
    using that op_writes(5) [of w d i c pr] by simp
  have ins: "tbl (oe_db (apply_upsert_insert ctx d r)) = tbl d"
    by (auto simp: apply_upsert_insert_def foreignRevisionMetadata_def op_writes writes Let_def session split: option.splits prod.splits)
  show ?thesis
    using assms old del clean upd ins
    by (auto simp: apply_op_def apply_upsert_def op_writes split: if_splits option.splits sum.splits)
qed

lemma apply_step_keeps: "tbl (snd (apply_step ctx r st)) = tbl (snd st)"
  by (cases rule: apply_step_cases [of ctx st r]) (auto dest: apply_op_keeps)

lemma applyReplicationOps_keeps: "tbl (snd (applyReplicationOps ctx opts d rs)) = tbl d"
proof -
  have steps: "tbl (snd (fold (apply_step ctx) rs st)) = tbl (snd st)" for st
    by (induction rs arbitrary: st) (simp_all add: apply_step_keeps)
  have refused: "tbl d' = tbl d" if "rejectUnretiredScopeFailures now d rs me o' = Some (res, d')" for now me o' res d'
  proof -
    from that obtain rejs where "d' = recordInboundScopeRejections now d rejs"
      by (auto simp: rejectUnretiredScopeFailures_def rejectInboundScopeFailures_def Let_def split: if_splits)
    with log_rejections_only [of rejs now d] show ?thesis by (auto simp: writes)
  qed
  show ?thesis
    using steps [of "(emptyApplyResult, d)"] refused by (auto simp: applyReplicationOps_def split: option.splits)
qed

lemma delete_memories_keeps: "tbl (delete_memories p d) = tbl d"
  by (simp add: delete_memories_def writes Let_def)

lemma snapshot_keys_keeps: "snapshotSessionExportKeysForMemoryIds sha True d ids = Inr d' \<Longrightarrow> tbl d' = tbl d"
  using snapshotSessionExportKeys_only [of sha d ids] by (auto simp: writes)

lemma record_item_keeps: "record_item env item scope st = Inr st' \<Longrightarrow> tbl (bs_db st') = tbl (bs_db st)"
  by (auto simp: record_item_def insertSnapshotItem_def ensureSessionForBootstrap_def recordForeignMemoryRevision_def op_writes writes
      Let_def split: option.splits prod.splits if_splits)

lemma record_items_keeps: "record_items env items scope st = Inr st' \<Longrightarrow> tbl (bs_db st') = tbl (bs_db st)"
  by (induction items arbitrary: st) (auto dest: record_item_keeps split: sum.splits)

lemma merge_item_keeps: "merge_item env item scope st = Inr st' \<Longrightarrow> tbl (bs_db st') = tbl (bs_db st)"
  by (auto simp: merge_item_def delete_memories_keeps Let_def dest!: record_item_keeps snapshot_keys_keeps
      split: sum.splits if_splits)

lemma merge_items_keeps: "merge_items env items scope st = Inr st' \<Longrightarrow> tbl (bs_db st') = tbl (bs_db st)"
  by (induction items arbitrary: st) (auto dest: merge_item_keeps split: sum.splits)

end

section \<open>Tables that exchanging does not write\<close>

locale unexchanged_table = untouched_table +
  assumes exchange_writes:
    "tbl (d\<lparr> cursors := cu \<rparr>) = tbl d" "tbl (d\<lparr> legacy_cursors := lc \<rparr>) = tbl d"
    "tbl (d\<lparr> reset_states := rt \<rparr>) = tbl d" "tbl (d\<lparr> legacy_reset := lr \<rparr>) = tbl d"
begin

lemma cursor_writes:
  "tbl (clearReplicationCursorLastApplied now d p k) = tbl d" "tbl (setReplicationCursor now d p a b k) = tbl d"
  "tbl (snd (getReplicationCursor d p k)) = tbl d" "tbl (bootstrap_cursor env d p info) = tbl d"
  by (simp_all add: clearReplicationCursorLastApplied_def setReplicationCursor_def getReplicationCursor_def seed_for_scope_def
      seedDefaultReplicationCursorFromLegacy_def mirrorDefaultReplicationCursorToLegacy_def bootstrap_cursor_def
      clearScopedAckedCursor_def exchange_writes Let_def split: option.splits)

lemma boundary_writes: "tbl (snd (setSyncResetState now fresh d u k)) = tbl d"
  by (simp add: setSyncResetState_def getSyncResetState_def write_boundary_def seed_reset_def exchange_writes Let_def
      seedDefaultSyncResetStateFromLegacy_def mirrorDefaultSyncResetStateToLegacy_def split: option.splits)

lemma deleteCandidate_keeps: "deleteCandidate ctx f m cursor res d = Inr (res', d') \<Longrightarrow> tbl d' = tbl d"
  by (auto simp: deleteCandidate_def cursor_writes writes Let_def dest!: clear_refs_keeps split: if_splits sum.splits option.splits)

lemma reconcile_row_keeps:
  "reconcile_row ctx f me sources m (res, d, memo) = Inr (res', d', memo') \<Longrightarrow> tbl d' = tbl d"
  by (auto simp: reconcile_row_def Let_def map_sum_Inr_iff dest: deleteCandidate_keeps
      split: prod.splits bool.splits option.splits sum.splits if_splits)

lemma reconcile_rows_keeps:
  "reconcile_rows ctx f me sources rows st = Inr st' \<Longrightarrow> tbl (fst (snd st')) = tbl (fst (snd st))"
proof (induction rows arbitrary: st)
  case (Cons m rows)
  then obtain st1 where st1: "reconcile_row ctx f me sources m st = Inr st1" "reconcile_rows ctx f me sources rows st1 = Inr st'"
    by (auto split: sum.splits)
  have "tbl (fst (snd st1)) = tbl (fst (snd st))"
    using st1(1) reconcile_row_keeps by (cases st; cases st1) auto
  then show ?case using Cons.IH [OF st1(2)] by simp
qed simp

lemma reconcile_keeps:
  assumes "reconcileStalePeerReceivedRows fp ctx d opts = Inr (res, d')"
  shows "tbl d' = tbl d"
proof -
  from assms obtain f me sources rows memo x where "reconcile_rows ctx f me sources rows (x, d, []) = Inr (res, d', memo)"
    by (auto simp: reconcileStalePeerReceivedRows_def reconcileStalePeerReceivedRowsInternal_def Let_def map_sum_Inr_iff
        split: option.splits)
  from reconcile_rows_keeps [OF this] show ?thesis by simp
qed

lemma applyBootstrapSnapshot_keeps: "applyBootstrapSnapshot env d p items info = Inr (res, d') \<Longrightarrow> tbl d' = tbl d"
  by (auto simp: applyBootstrapSnapshot_def deleteSyncedMemoriesInScope_def boundary_writes cursor_writes delete_memories_keeps Let_def
      dest!: record_items_keeps snapshot_keys_keeps split: if_splits sum.splits option.splits)

lemma mergeBootstrapSnapshot_keeps: "mergeBootstrapSnapshot env d p items info pre = Inr (res, d') \<Longrightarrow> tbl d' = tbl d"
  by (auto simp: mergeBootstrapSnapshot_def advanceMergedSnapshotBoundary_def boundary_writes cursor_writes Let_def
      dest!: merge_items_keeps split: if_splits sum.splits)

end

text \<open>The two tables of cursors together, and the record of the attempts.\<close>

interpretation cursor_tables: untouched_table "\<lambda>d. (cursors d, legacy_cursors d)"
  by unfold_locales simp_all

interpretation attempts: unexchanged_table sync_attempts
  by unfold_locales simp_all

interpretation pins: unexchanged_table peers
  by unfold_locales simp_all

end
