(* ===== verification/Peer_Addresses.thy ===== *)
theory Peer_Addresses
  imports Sync_State
begin

text \<open>
  The addresses of a peer (\<open>packages/core/src/address-utils.ts\<close>, \<open>sync-peer-addresses.ts\<close>, \<open>sync-http-client.ts\<close> and
  \<open>recordPeerSuccess\<close> of \<open>sync-discovery.ts\<close>): normalising and merging them, the limit on how many are dialled, and the
  two functions that store them.

  \<open>new URL\<close> is the parameter \<open>parse\<close>, setting the port of a URL the parameter \<open>with_port\<close>.
\<close>

section \<open>Normalising\<close>

record url =
  ur_protocol :: string
  ur_hostname :: string
  ur_port :: string
  ur_pathname :: string
  ur_origin :: string

record url_env =
  ue_parse :: "string \<Rightarrow> url option"
  ue_with_port :: "url \<Rightarrow> string \<Rightarrow> url"

definition MAX_PEER_ADDRESSES :: nat where "MAX_PEER_ADDRESSES = 8"
definition COORDINATOR_FALLBACK_ADDRESSES :: nat where "COORDINATOR_FALLBACK_ADDRESSES = 2"

text \<open>What follows a host in \<open>/^http:\/\/(?:\[[^\]]+\]|[^/?#:]+):0*80(?:[/?#]|$)/i\<close>.\<close>

definition port_80 :: "string \<Rightarrow> bool" where
  "port_80 s \<longleftrightarrow> (case s of
     [] \<Rightarrow> False
   | c # rest \<Rightarrow> c = CHR '':'' \<and> (let digits = dropWhile (\<lambda>c. c = CHR ''0'') rest in
       starts_with ''80'' digits \<and> (case drop 2 digits of [] \<Rightarrow> True | x # _ \<Rightarrow> x \<in> set ''/?#'')))"

definition hasExplicitDefaultHttpPort :: "string \<Rightarrow> bool" where
  "hasExplicitDefaultHttpPort s \<longleftrightarrow> js_lower (take 7 s) = ''http://''
     \<and> (let rest = drop 7 s; bracket = takeWhile (\<lambda>c. c \<noteq> CHR '']'') rest; plain = takeWhile (\<lambda>c. c \<notin> set ''/?#:'') rest in
        (starts_with ''['' rest \<and> length bracket > 1 \<and> length bracket < length rest \<and> port_80 (drop (length bracket + 1) rest))
        \<or> (plain \<noteq> [] \<and> port_80 (drop (length plain) rest)))"

fun strip_trailing :: "char \<Rightarrow> string \<Rightarrow> string" where
  "strip_trailing c s = rev (dropWhile (\<lambda>x. x = c) (rev s))"

text \<open>An empty text is an address that cannot be used.\<close>

definition normalizeAddress :: "url_env \<Rightarrow> string \<Rightarrow> int option \<Rightarrow> string" where
  "normalizeAddress env address defaultHttpPort =
     (let value = js_trim address; hasScheme = text_contains ''://'' value;
          withScheme = (if hasScheme then value else ''http://'' @ value);
          finish = (\<lambda>u. ur_origin u @ strip_trailing (CHR ''/'') (ur_pathname u)) in
      if value = [] then []
      else (case ue_parse env withScheme of
          None \<Rightarrow> []
        | Some u \<Rightarrow>
            if ur_hostname u = [] then []
            else if ur_port u \<noteq> [] \<and> (digits_value 10 (ur_port u) = 0 \<or> digits_value 10 (ur_port u) > 65535) then []
            else (case defaultHttpPort of
                None \<Rightarrow> finish u
              | Some port \<Rightarrow>
                  if ur_port u = [] \<and> \<not> hasExplicitDefaultHttpPort withScheme \<and> ur_protocol u = ''http:'' \<and> port \<noteq> 0
                  then (if port \<le> 0 \<or> port > 65535 then []
                        else if port \<noteq> 80 \<and> (\<not> hasScheme \<or> js_lower (take 7 value) = ''http://'')
                        then finish (ue_with_port env u (int_text port)) else finish u)
                  else finish u)))"

definition formatHostPort :: "string \<Rightarrow> int \<Rightarrow> string" where
  "formatHostPort host port =
     (let value = js_trim host in
      if value = [] \<or> port \<le> 0 \<or> port > 65535 then []
      else (if CHR '':'' \<in> set value \<and> \<not> starts_with ''['' value then ''['' @ value @ '']'' else value) @ '':'' @ int_text port)"

definition addressDedupeKey :: "url_env \<Rightarrow> string \<Rightarrow> string" where
  "addressDedupeKey env address =
     (if address = [] then []
      else (case ue_parse env address of
          None \<Rightarrow> address
        | Some u \<Rightarrow>
            let host = js_lower (ur_hostname u) in
            if host = [] then address
            else ur_protocol u @ ''//'' @ host @ (if ur_port u = [] then [] else CHR '':'' # ur_port u) @ ur_pathname u))"

section \<open>Merging\<close>

record merge_options =
  ma_port :: "int option"
  ma_max :: "nat option"

definition unlimited :: merge_options where "unlimited = \<lparr> ma_port = None, ma_max = None \<rparr>"
definition at_most :: "nat \<Rightarrow> merge_options" where "at_most n = \<lparr> ma_port = None, ma_max = Some n \<rparr>"

definition limit_reached :: "merge_options \<Rightarrow> string list \<Rightarrow> bool" where
  "limit_reached opts merged \<longleftrightarrow> (case ma_max opts of None \<Rightarrow> False | Some n \<Rightarrow> n \<noteq> 0 \<and> length merged \<ge> n)"

fun merge_loop :: "url_env \<Rightarrow> merge_options \<Rightarrow> string list \<Rightarrow> string list \<Rightarrow> string list \<Rightarrow> string list" where
  "merge_loop env opts seen normalized [] = normalized"
| "merge_loop env opts seen normalized (address # rest) =
     (let cleaned = normalizeAddress env address (ma_port opts); key = addressDedupeKey env cleaned in
      if cleaned = [] \<or> key \<in> set seen then merge_loop env opts seen normalized rest
      else (let merged = normalized @ [cleaned] in
        if limit_reached opts merged then merged else merge_loop env opts (key # seen) merged rest))"

definition mergeAddresses :: "url_env \<Rightarrow> string list \<Rightarrow> string list \<Rightarrow> merge_options \<Rightarrow> string list" where
  "mergeAddresses env existing candidates opts = merge_loop env opts [] [] (existing @ candidates)"

definition mergeAddressesPreferCandidates :: "url_env \<Rightarrow> string list \<Rightarrow> string list \<Rightarrow> merge_options \<Rightarrow> string list" where
  "mergeAddressesPreferCandidates env existing candidates opts = mergeAddresses env candidates existing opts"

definition selectDialAddresses :: "url_env \<Rightarrow> string list \<Rightarrow> string list \<Rightarrow> string list" where
  "selectDialAddresses env stored mdns =
     (if mdns = [] then mergeAddresses env stored [] unlimited else mergeAddresses env mdns stored unlimited)"

definition hex_digit :: "char \<Rightarrow> bool" where
  "hex_digit c \<longleftrightarrow> is_digit c \<or> (CHR ''a'' \<le> c \<and> c \<le> CHR ''f'')"

text \<open>\<open>/^\[fe[89ab][0-9a-f]:/i\<close>.\<close>

definition isIpv6LinkLocalAddress :: "url_env \<Rightarrow> string \<Rightarrow> bool" where
  "isIpv6LinkLocalAddress env address = (case ue_parse env address of
     None \<Rightarrow> False
   | Some u \<Rightarrow> (case js_lower (ur_hostname u) of
       b # f # e # x # y # colon # _ \<Rightarrow> b = CHR ''['' \<and> f = CHR ''f'' \<and> e = CHR ''e'' \<and> x \<in> set ''89ab'' \<and> hex_digit y \<and> colon = CHR '':''
     | _ \<Rightarrow> False))"

definition mergeCoordinatorPeerAddresses ::
    "url_env \<Rightarrow> string list \<Rightarrow> string list \<Rightarrow> string list \<Rightarrow> nat option \<Rightarrow> string option \<Rightarrow> string list" where
  "mergeCoordinatorPeerAddresses env existing candidates manual requiredFresh successful =
     (let pinned = mergeAddresses env manual [] unlimited;
          manualFallbacks = (if length pinned \<le> MAX_PEER_ADDRESSES then pinned
            else mergeAddresses env (take 2 pinned) (drop (length pinned - 2) pinned) unlimited);
          protected = mergeAddresses env (if or_default successful [] = [] then [] else [or_default successful []]) manualFallbacks
            (at_most MAX_PEER_ADDRESSES);
          candidates1 = mergeAddresses env candidates [] unlimited;
          freshCandidates = (if requiredFresh = None then sort_key (isIpv6LinkLocalAddress env) candidates1 else candidates1);
          fallbackFreshLimit = (if protected \<noteq> [] then MAX_PEER_ADDRESSES - length protected
            else MAX_PEER_ADDRESSES - COORDINATOR_FALLBACK_ADDRESSES);
          coordinatorFreshLimit = (if requiredFresh = None
            then min (length freshCandidates) (MAX_PEER_ADDRESSES - COORDINATOR_FALLBACK_ADDRESSES) else 0);
          freshLimit = max fallbackFreshLimit (max coordinatorFreshLimit
            (min (or_default requiredFresh (if freshCandidates = [] then 0 else 1)) MAX_PEER_ADDRESSES))
      in if freshLimit = 0 then protected
         else (let withManual = mergeAddresses env (take freshLimit freshCandidates) (take (MAX_PEER_ADDRESSES - freshLimit) protected)
                     (at_most MAX_PEER_ADDRESSES);
                   withFallbacks = mergeAddresses env withManual existing (at_most MAX_PEER_ADDRESSES)
               in mergeAddresses env withFallbacks freshCandidates (at_most MAX_PEER_ADDRESSES)))"

text \<open>\<open>hasUrlScheme\<close> and \<open>buildBaseUrl\<close> of the HTTP client.\<close>

definition ascii_letter :: "char \<Rightarrow> bool" where
  "ascii_letter c \<longleftrightarrow> (CHR ''A'' \<le> c \<and> c \<le> CHR ''Z'') \<or> (CHR ''a'' \<le> c \<and> c \<le> CHR ''z'')"

fun before_scheme_mark :: "string \<Rightarrow> string option" where
  "before_scheme_mark [] = None"
| "before_scheme_mark (c # s) = (if starts_with ''://'' (c # s) then Some [] else map_option ((#) c) (before_scheme_mark s))"

definition hasUrlScheme :: "string \<Rightarrow> bool" where
  "hasUrlScheme s = (case before_scheme_mark s of
     Some (c # rest) \<Rightarrow> ascii_letter c \<and> list_all (\<lambda>x. ascii_letter x \<or> is_digit x \<or> x \<in> set ''+-.'') rest
   | _ \<Rightarrow> False)"

definition buildBaseUrl :: "string \<Rightarrow> string" where
  "buildBaseUrl address =
     (let trimmed = strip_trailing (CHR ''/'') (js_trim address) in
      if trimmed = [] then [] else if hasUrlScheme trimmed then trimmed else ''http://'' @ trimmed)"

section \<open>Stored addresses\<close>

definition text_items :: "json_text \<Rightarrow> string list" where
  "text_items t = (case json_parse t of Some (JArr vs) \<Rightarrow> List.map_filter (\<lambda>v. as_text (Some v)) vs | _ \<Rightarrow> [])"

definition stored_texts :: "string list \<Rightarrow> json_text" where
  "stored_texts addresses = JsonDoc (JArr (map JStr addresses))"

definition find_peer :: "db \<Rightarrow> string \<Rightarrow> peer_row option" where
  "find_peer d peer = first_where (\<lambda>p. p_device p = peer) (peers d)"

definition loadPeerAddresses :: "db \<Rightarrow> string \<Rightarrow> string list" where
  "loadPeerAddresses d peer = (case find_peer d peer of
     None \<Rightarrow> []
   | Some p \<Rightarrow> if text_is_empty (p_addresses p) then [] else (case p_addresses p of None \<Rightarrow> [] | Some t \<Rightarrow> text_items t))"

text \<open>\<open>None\<close>: the peer is older than the record of where addresses come from.\<close>

definition loadManualPeerAddresses :: "db \<Rightarrow> string \<Rightarrow> string list option" where
  "loadManualPeerAddresses d peer = (case find_peer d peer of None \<Rightarrow> None | Some p \<Rightarrow> map_option text_items (p_manual_addresses p))"

definition loadSuccessfulPeerAddress :: "db \<Rightarrow> string \<Rightarrow> string option" where
  "loadSuccessfulPeerAddress d peer = (case find_peer d peer of None \<Rightarrow> None | Some p \<Rightarrow> p_last_success_address p)"

record update_options =
  uo_name :: "string option"
  uo_pinned_fingerprint :: "string option"
  uo_public_key :: "string option"
  uo_replace_trust :: bool
  uo_coordinator :: bool

definition merged_peer :: "update_options \<Rightarrow> peer_row \<Rightarrow> peer_row \<Rightarrow> peer_row" where
  "merged_peer opts excluded old = old\<lparr> p_name := coalesce (p_name excluded) (p_name old),
     p_pinned_fingerprint := (if uo_replace_trust opts then coalesce (p_pinned_fingerprint excluded) (p_pinned_fingerprint old)
       else coalesce (p_pinned_fingerprint old) (p_pinned_fingerprint excluded)),
     p_public_key := (if uo_replace_trust opts then coalesce (p_public_key excluded) (p_public_key old)
       else coalesce (p_public_key old) (p_public_key excluded)),
     p_addresses := p_addresses excluded, p_manual_addresses := p_manual_addresses excluded \<rparr>"

definition updatePeerAddresses ::
    "url_env \<Rightarrow> db \<Rightarrow> string \<Rightarrow> string list \<Rightarrow> update_options \<Rightarrow> string list \<times> db" where
  "updatePeerAddresses env d peer addresses opts =
     (let existing = loadPeerAddresses d peer; legacyManual = or_default (loadManualPeerAddresses d peer) existing;
          replaced = (uo_replace_trust opts \<and> addresses \<noteq> []);
          manual = (if replaced then mergeAddresses env legacyManual addresses unlimited else legacyManual);
          successful = loadSuccessfulPeerAddress d peer;
          merged = (if uo_coordinator opts then mergeCoordinatorPeerAddresses env existing addresses manual None successful
            else if replaced then mergeCoordinatorPeerAddresses env existing addresses manual
              (Some (min (length (mergeAddresses env addresses [] unlimited)) MAX_PEER_ADDRESSES)) successful
            else mergeAddresses env existing addresses unlimited);
          new = (new_peer peer)\<lparr> p_name := uo_name opts, p_pinned_fingerprint := uo_pinned_fingerprint opts,
            p_public_key := uo_public_key opts, p_addresses := Some (stored_texts merged),
            p_manual_addresses := Some (stored_texts manual) \<rparr>
      in (merged, d\<lparr> peers := upsert_row p_device (merged_peer opts) new (peers d) \<rparr>))"

definition recordPeerSuccess :: "url_env \<Rightarrow> db \<Rightarrow> string \<Rightarrow> string option \<Rightarrow> string list \<times> db" where
  "recordPeerSuccess env d peer address =
     (let promoted = normalizeAddress env (or_default address []) None;
          addresses = loadPeerAddresses d peer;
          remaining = (if promoted \<noteq> [] then filter (\<lambda>item. normalizeAddress env item None \<noteq> promoted) addresses else addresses);
          manual = or_default (loadManualPeerAddresses d peer) addresses;
          ordered = mergeCoordinatorPeerAddresses env [] (if promoted \<noteq> [] then promoted # remaining else addresses) manual
            (Some (if promoted \<noteq> [] then 1 else 0)) (if promoted \<noteq> [] then Some promoted else None)
      in (ordered, d\<lparr> peers := update_where (\<lambda>p. p_device p = peer)
            (\<lambda>p. p\<lparr> p_addresses := Some (stored_texts ordered), p_manual_addresses := Some (stored_texts manual),
               p_last_success_address := (if promoted \<noteq> [] then Some promoted else p_last_success_address p) \<rparr>) (peers d) \<rparr>))"

end
