(* ===== verification/Address_Book.thy ===== *)
theory Address_Book
  imports Peer_Addresses
begin

text \<open>
  What holds of the stored addresses of a peer: the address that worked is dialled first, the list stays short and without
  repetitions, the addresses entered by hand stay in it, and an update of addresses does not touch a pin.
\<close>

section \<open>Merging\<close>

abbreviation address_keys :: "url_env \<Rightarrow> string list \<Rightarrow> string list" where
  "address_keys env \<equiv> map (addressDedupeKey env)"

lemma merge_loop_extends:
  assumes "set seen = set (address_keys env normalized)" "distinct (address_keys env normalized)"
  shows "\<exists>extra. merge_loop env opts seen normalized as = normalized @ extra
    \<and> distinct (address_keys env (normalized @ extra))
    \<and> (\<forall>x\<in>set extra. x \<noteq> [] \<and> (\<exists>a\<in>set as. x = normalizeAddress env a (ma_port opts)))"
  using assms
proof (induction as arbitrary: seen normalized)
  case (Cons a as)
  let ?c = "normalizeAddress env a (ma_port opts)"
  consider "?c = [] \<or> addressDedupeKey env ?c \<in> set seen"
    | "?c \<noteq> []" "addressDedupeKey env ?c \<notin> set seen" "limit_reached opts (normalized @ [?c])"
    | "?c \<noteq> []" "addressDedupeKey env ?c \<notin> set seen" "\<not> limit_reached opts (normalized @ [?c])" by blast
  then show ?case
  proof cases
    case 1
    with Cons.IH [OF Cons.prems] show ?thesis by (auto simp: Let_def)
  next
    case 2
    with Cons.prems show ?thesis by (auto simp: Let_def intro: exI [of _ "[?c]"])
  next
    case 3
    with Cons.prems have "set (addressDedupeKey env ?c # seen) = set (address_keys env (normalized @ [?c]))"
      "distinct (address_keys env (normalized @ [?c]))" by auto
    from Cons.IH [OF this] 3 show ?thesis by (auto simp: Let_def)
  qed
qed simp

lemma merge_loop_limit:
  assumes "ma_max opts = Some n" "0 < n" "length normalized < n"
  shows "length (merge_loop env opts seen normalized as) \<le> n"
  using assms(3)
proof (induction as arbitrary: seen normalized)
  case (Cons a as)
  then show ?case using assms(1,2) by (auto simp: Let_def limit_reached_def)
qed simp

lemma merge_loop_keeps: "set normalized \<subseteq> set (merge_loop env opts seen normalized as)"
proof (induction as arbitrary: seen normalized)
  case (Cons a as)
  let ?c = "normalizeAddress env a (ma_port opts)"
  show ?case using Cons [of normalized seen] Cons [of "normalized @ [?c]" "addressDedupeKey env ?c # seen"] by (auto simp: Let_def)
qed simp

text \<open>No address is passed over, unless the list is full.\<close>

lemma merge_loop_covers:
  assumes "set seen = set (address_keys env normalized)" "a \<in> set as" "normalizeAddress env a (ma_port opts) \<noteq> []"
    "\<not> limit_reached opts (merge_loop env opts seen normalized as)"
  shows "addressDedupeKey env (normalizeAddress env a (ma_port opts)) \<in> set (address_keys env (merge_loop env opts seen normalized as))"
  using assms
proof (induction as arbitrary: seen normalized)
  case (Cons b as)
  let ?c = "normalizeAddress env b (ma_port opts)"
  have extends: "set (address_keys env xs) \<subseteq> set (address_keys env (merge_loop env opts s xs as))" for s xs
    using merge_loop_keeps [of xs env opts s as] by auto
  show ?case
  proof (cases "?c = [] \<or> addressDedupeKey env ?c \<in> set seen")
    case True
    then have same: "merge_loop env opts seen normalized (b # as) = merge_loop env opts seen normalized as" by (simp add: Let_def)
    show ?thesis
    proof (cases "a = b")
      case True
      with Cons.prems(3) \<open>?c = [] \<or> _\<close> Cons.prems(1) extends [of normalized seen] show ?thesis unfolding same by auto
    next
      case False
      with Cons show ?thesis unfolding same by simp
    qed
  next
    case False
    have below: "\<not> limit_reached opts (normalized @ [?c])"
    proof
      assume "limit_reached opts (normalized @ [?c])"
      with False Cons.prems(4) show False by (simp add: Let_def)
    qed
    with False have same: "merge_loop env opts seen normalized (b # as)
        = merge_loop env opts (addressDedupeKey env ?c # seen) (normalized @ [?c]) as" by (simp add: Let_def)
    have seen: "set (addressDedupeKey env ?c # seen) = set (address_keys env (normalized @ [?c]))" using Cons.prems(1) by auto
    show ?thesis
    proof (cases "a = b")
      case True
      with extends [of "normalized @ [?c]" "addressDedupeKey env ?c # seen"] show ?thesis unfolding same by auto
    next
      case False
      with Cons.IH [OF seen] Cons.prems same show ?thesis by simp
    qed
  qed
qed simp

lemma merged_distinct: "distinct (address_keys env (mergeAddresses env xs ys opts))"
  using merge_loop_extends [of "[]" env "[]" opts "xs @ ys"] by (auto simp: mergeAddresses_def)

lemma merged_from:
  "x \<in> set (mergeAddresses env xs ys opts) \<Longrightarrow> x \<noteq> [] \<and> (\<exists>a\<in>set xs \<union> set ys. x = normalizeAddress env a (ma_port opts))"
  using merge_loop_extends [of "[]" env "[]" opts "xs @ ys"] by (auto simp: mergeAddresses_def)

lemma merged_length: "0 < n \<Longrightarrow> length (mergeAddresses env xs ys (at_most n)) \<le> n"
  using merge_loop_limit [of "at_most n" n "[]"] by (simp add: mergeAddresses_def at_most_def)

lemma merged_first:
  assumes "normalizeAddress env x (ma_port opts) \<noteq> []"
  shows "\<exists>rest. mergeAddresses env (x # xs) ys opts = normalizeAddress env x (ma_port opts) # rest"
proof -
  let ?c = "normalizeAddress env x (ma_port opts)"
  from merge_loop_extends [of "[addressDedupeKey env ?c]" env "[?c]" opts "xs @ ys"] obtain extra where
    "merge_loop env opts [addressDedupeKey env ?c] [?c] (xs @ ys) = ?c # extra" by auto
  with assms show ?thesis by (auto simp: mergeAddresses_def Let_def)
qed

lemma merged_covers:
  assumes "a \<in> set xs \<union> set ys" "normalizeAddress env a (ma_port opts) \<noteq> []"
    "\<not> limit_reached opts (mergeAddresses env xs ys opts)"
  shows "addressDedupeKey env (normalizeAddress env a (ma_port opts)) \<in> set (address_keys env (mergeAddresses env xs ys opts))"
  using merge_loop_covers [of "[]" env "[]" a "xs @ ys" opts] assms by (simp add: mergeAddresses_def)

text \<open>A list that fits is merged as if there were no limit; one that is merged already stays in front.\<close>

lemma merge_loop_fits:
  "length normalized + length as \<le> n \<Longrightarrow> merge_loop env (at_most n) seen normalized as = merge_loop env unlimited seen normalized as"
proof (induction as arbitrary: seen normalized)
  case (Cons a as)
  let ?c = "normalizeAddress env a None"
  have port: "ma_port (at_most n) = None" "ma_port unlimited = None" by (simp_all add: at_most_def unlimited_def)
  have free: "\<not> limit_reached unlimited zs" for zs by (simp add: limit_reached_def unlimited_def)
  have full: "as = []" if "limit_reached (at_most n) (normalized @ [?c])"
    using that Cons.prems by (cases as) (simp_all add: limit_reached_def at_most_def)
  show ?case
  proof (cases "limit_reached (at_most n) (normalized @ [?c])")
    case True
    from Cons show ?thesis by (simp add: Let_def port free True full [OF True])
  next
    case False
    from Cons show ?thesis by (simp add: Let_def port free False)
  qed
qed simp

lemma merged_fits: "length xs + length ys \<le> n \<Longrightarrow> mergeAddresses env xs ys (at_most n) = mergeAddresses env xs ys unlimited"
  by (simp add: mergeAddresses_def merge_loop_fits)

lemma merged_size: "length (mergeAddresses env xs ys opts) \<le> length xs + length ys"
proof -
  have "length (merge_loop env opts seen nd as) \<le> length nd + length as" for seen nd as
  proof (induction as arbitrary: seen nd)
    case (Cons a as)
    let ?c = "normalizeAddress env a (ma_port opts)"
    show ?case using Cons [of seen nd] Cons [of "addressDedupeKey env ?c # seen" "nd @ [?c]"] by (auto simp: Let_def)
  qed simp
  from this [of "[]" "[]" "xs @ ys"] show ?thesis by (simp add: mergeAddresses_def)
qed

definition normal_address :: "url_env \<Rightarrow> string \<Rightarrow> bool" where
  "normal_address env a \<longleftrightarrow> a \<noteq> [] \<and> normalizeAddress env a None = a"

lemma merge_prefix:
  assumes "\<forall>a\<in>set xs. normal_address env a" "distinct (address_keys env xs)" "length xs \<le> n"
  shows "\<exists>extra. mergeAddresses env xs ys (at_most n) = xs @ extra"
proof -
  have "\<exists>extra. merge_loop env (at_most n) seen nd (xs @ ys) = nd @ xs @ extra"
    if "set seen = set (address_keys env nd)" "distinct (address_keys env (nd @ xs))" "length nd + length xs \<le> n"
      "\<forall>a\<in>set xs. normal_address env a" for seen nd
    using that
  proof (induction xs arbitrary: seen nd)
    case Nil
    then show ?case using merge_loop_extends [of seen env nd "at_most n" ys] by auto
  next
    case (Cons a xs)
    then have a: "normalizeAddress env a (ma_port (at_most n)) = a" "a \<noteq> []" "addressDedupeKey env a \<notin> set seen"
      by (auto simp: normal_address_def at_most_def)
    show ?case
    proof (cases "limit_reached (at_most n) (nd @ [a])")
      case True
      with Cons.prems(3) have "xs = []" by (cases xs) (simp_all add: limit_reached_def at_most_def)
      with True a show ?thesis by (simp add: Let_def)
    next
      case False
      have "set (addressDedupeKey env a # seen) = set (address_keys env (nd @ [a]))" using Cons.prems(1) by auto
      from Cons.IH [OF this] Cons.prems(2-4) False a show ?thesis by (simp add: Let_def)
    qed
  qed
  from this [of "[]" "[]"] assms show ?thesis by (simp add: mergeAddresses_def)
qed

lemma merged_normal:
  assumes "\<forall>a\<in>set xs \<union> set ys. normal_address env a" "ma_port opts = None"
  shows "set (mergeAddresses env xs ys opts) \<subseteq> set xs \<union> set ys"
proof
  fix x assume "x \<in> set (mergeAddresses env xs ys opts)"
  then obtain a where "a \<in> set xs \<union> set ys" "x = normalizeAddress env a None" using merged_from [of x env xs ys opts] assms(2) by auto
  with assms(1) show "x \<in> set xs \<union> set ys" by (auto simp: normal_address_def)
qed

lemma merged_covers_normal:
  assumes "a \<in> set xs \<union> set ys" "normal_address env a" "length xs + length ys \<le> n \<or> opts = unlimited" "opts = at_most n \<or> opts = unlimited"
  shows "addressDedupeKey env a \<in> set (address_keys env (mergeAddresses env xs ys opts))"
proof -
  have "mergeAddresses env xs ys opts = mergeAddresses env xs ys unlimited" using assms(3,4) merged_fits by metis
  moreover have "normalizeAddress env a (ma_port unlimited) = a" "a \<noteq> []" using assms(2) by (auto simp: normal_address_def unlimited_def)
  moreover have "\<not> limit_reached unlimited zs" for zs by (simp add: limit_reached_def unlimited_def)
  ultimately show ?thesis using merged_covers [of a xs ys env unlimited] assms(1) by simp
qed


text \<open>Normalising once is enough for the addresses at hand.\<close>

definition settles :: "url_env \<Rightarrow> string \<Rightarrow> bool" where
  "settles env a \<longleftrightarrow> normalizeAddress env a None = [] \<or> normal_address env (normalizeAddress env a None)"

lemma normal_settles: "normal_address env a \<Longrightarrow> settles env a"
  by (simp add: normal_address_def settles_def)

lemma merged_settled:
  assumes "\<forall>a\<in>set xs \<union> set ys. settles env a" "ma_port opts = None" "x \<in> set (mergeAddresses env xs ys opts)"
  shows "normal_address env x"
  using merged_from [OF assms(3)] assms(1,2) by (auto simp: settles_def)

lemma merged_all_normal:
  assumes "\<forall>a\<in>set xs. normal_address env a" "\<forall>a\<in>set ys. normal_address env a" "ma_port opts = None"
  shows "\<forall>x\<in>set (mergeAddresses env xs ys opts). normal_address env x"
  using merged_settled [of xs ys env opts] assms normal_settles by blast

lemma option_fields [simp]: "ma_port unlimited = None" "ma_port (at_most n) = None" "ma_max (at_most n) = Some n"
  "\<not> limit_reached unlimited zs"
  by (simp_all add: unlimited_def at_most_def limit_reached_def)

section \<open>The working address\<close>

lemma MAX_is_8: "MAX_PEER_ADDRESSES = 8"
  by (simp add: MAX_PEER_ADDRESSES_def)

lemma coordinator_merge_first:
  assumes p: "normal_address env p" and rest: "\<forall>a\<in>set rest. settles env a" and manual: "\<forall>a\<in>set manual. settles env a"
  defines "merged \<equiv> mergeCoordinatorPeerAddresses env [] (p # rest) manual (Some 1) (Some p)"
  shows "\<exists>others. merged = p # others" "length merged \<le> MAX_PEER_ADDRESSES" "distinct (address_keys env merged)"
    "length manual \<le> 6 \<Longrightarrow> a \<in> set manual \<Longrightarrow> normalizeAddress env a None \<noteq> []
      \<Longrightarrow> addressDedupeKey env (normalizeAddress env a None) \<in> set (address_keys env merged)"
proof -
  have p': "p \<noteq> []" "normalizeAddress env p None = p" using p by (simp_all add: normal_address_def)
  define pinned where "pinned = mergeAddresses env manual [] unlimited"
  define fallbacks where "fallbacks = (if length pinned \<le> MAX_PEER_ADDRESSES then pinned
            else mergeAddresses env (take 2 pinned) (drop (length pinned - 2) pinned) unlimited)"
  define protected where "protected = mergeAddresses env [p] fallbacks (at_most MAX_PEER_ADDRESSES)"
  define fresh where "fresh = mergeAddresses env (p # rest) [] unlimited"
  define limit where "limit = max (8 - length protected) (Suc 0)"
  obtain fresh' where fresh': "fresh = p # fresh'" using merged_first [of env p unlimited rest "[]"] p' by (auto simp: fresh_def)
  obtain protected' where protected': "protected = p # protected'"
    using merged_first [of env p "at_most MAX_PEER_ADDRESSES" "[]" fallbacks] p' by (auto simp: protected_def)
  define front where "front = mergeAddresses env (take limit fresh) (take (8 - limit) protected) (at_most 8)"
  define middle where "middle = mergeAddresses env front [] (at_most 8)"
  have limit: "0 < limit" by (simp add: limit_def)
  have nonempty: "protected \<noteq> []" by (simp add: protected')
  have merged: "merged = mergeAddresses env middle fresh (at_most 8)"
    using nonempty limit p'(1)
    by (simp add: merged_def mergeCoordinatorPeerAddresses_def Let_def pinned_def [symmetric] fallbacks_def [symmetric, unfolded MAX_is_8] MAX_is_8
        protected_def [symmetric, unfolded MAX_is_8] fresh_def [symmetric] limit_def [symmetric]
        front_def [symmetric] middle_def [symmetric] or_default_def)
  have pinned_normal: "\<forall>x\<in>set pinned. normal_address env x"
    using merged_settled [of manual "[]" env unlimited] manual by (auto simp: pinned_def)
  have "\<forall>x\<in>set (take 2 pinned). normal_address env x" "\<forall>x\<in>set (drop (length pinned - 2) pinned). normal_address env x"
    using pinned_normal by (auto dest: in_set_takeD in_set_dropD)
  then have "\<forall>x\<in>set (mergeAddresses env (take 2 pinned) (drop (length pinned - 2) pinned) unlimited). normal_address env x"
    by (intro merged_all_normal) simp_all
  with pinned_normal have fallbacks_normal: "\<forall>x\<in>set fallbacks. normal_address env x"
    unfolding fallbacks_def by presburger
  with p have protected_normal: "\<forall>x\<in>set protected. normal_address env x"
    unfolding protected_def by (intro merged_all_normal) simp_all
  have fresh_normal: "\<forall>x\<in>set fresh. normal_address env x"
    using merged_settled [of "p # rest" "[]" env unlimited] p rest normal_settles by (auto simp: fresh_def)
  have "\<forall>x\<in>set (take limit fresh). normal_address env x" "\<forall>x\<in>set (take (8 - limit) protected). normal_address env x"
    using fresh_normal protected_normal by (auto dest: in_set_takeD)
  then have front_normal: "\<forall>x\<in>set front. normal_address env x"
    unfolding front_def by (intro merged_all_normal) simp_all
  have front_size: "length front \<le> 8" "distinct (address_keys env front)" by (simp_all add: front_def merged_length merged_distinct)
  have middle: "\<exists>extra. middle = front @ extra" unfolding middle_def by (rule merge_prefix) (use front_normal front_size in auto)
  have middle_normal: "\<forall>x\<in>set middle. normal_address env x"
    unfolding middle_def by (intro merged_all_normal) (simp_all add: front_normal)
  have "\<exists>extra. merged = middle @ extra" unfolding merged
    by (rule merge_prefix) (use middle_normal in \<open>auto simp: middle_def merged_length merged_distinct\<close>)
  with middle have prefix: "\<exists>extra. merged = front @ extra" by auto
  obtain front' where front': "front = p # front'"
    using merged_first [of env p "at_most 8" "take (limit - 1) fresh'" "take (8 - limit) protected"] p' limit
    by (auto simp: front_def fresh' take_Cons')
  from prefix front' show "\<exists>others. merged = p # others" by auto
  show "length merged \<le> MAX_PEER_ADDRESSES" by (simp add: merged merged_length MAX_is_8)
  show "distinct (address_keys env merged)" by (simp add: merged merged_distinct)
  assume few: "length manual \<le> 6" and a: "a \<in> set manual" "normalizeAddress env a None \<noteq> []"
  have pinned_size: "length pinned \<le> 6" using merged_size [of env manual "[]" unlimited] few by (simp add: pinned_def)
  then have fallbacks: "fallbacks = pinned" by (simp add: fallbacks_def MAX_is_8)
  have key: "addressDedupeKey env (normalizeAddress env a None) \<in> set (address_keys env pinned)"
    using merged_covers [of a manual "[]" env unlimited] a by (simp add: pinned_def)
  then obtain b where b: "b \<in> set pinned" "addressDedupeKey env b = addressDedupeKey env (normalizeAddress env a None)" by auto
  have "addressDedupeKey env b \<in> set (address_keys env protected)"
    unfolding protected_def fallbacks
    by (rule merged_covers_normal [where n = MAX_PEER_ADDRESSES]) (use b pinned_normal pinned_size in \<open>auto simp: MAX_is_8\<close>)
  then obtain c where c: "c \<in> set protected" "addressDedupeKey env c = addressDedupeKey env b" by auto
  have "length protected \<le> 7" using merged_size [of env "[p]" fallbacks "at_most MAX_PEER_ADDRESSES"] pinned_size by (simp add: protected_def fallbacks)
  then have whole: "take (8 - limit) protected = protected" "length (take limit fresh) + length protected \<le> 8"
    by (auto simp: limit_def min_def)
  have "addressDedupeKey env c \<in> set (address_keys env front)"
    unfolding front_def whole(1)
    by (rule merged_covers_normal [where n = 8]) (use c protected_normal whole(2) in auto)
  with prefix c(2) b(2) show "addressDedupeKey env (normalizeAddress env a None) \<in> set (address_keys env merged)" by auto
qed

lemma text_items_stored [simp]: "text_items (stored_texts xs) = xs"
  by (induction xs) (simp_all add: text_items_def stored_texts_def json_parse_def as_text_def map_filter_simps)

lemma stored_not_empty [simp]: "\<not> text_is_empty (Some (stored_texts xs))"
  by (simp add: stored_texts_def text_is_empty_def)

definition hand_entered :: "db \<Rightarrow> string \<Rightarrow> string list" where
  "hand_entered d peer = or_default (loadManualPeerAddresses d peer) (loadPeerAddresses d peer)"

text \<open>C25: after a success the address that worked is the first to be dialled, the list is short and without repetitions,
  and up to six addresses entered by hand all stay in it.\<close>

theorem working_address_first:
  assumes "recordPeerSuccess env d peer (Some address) = (ordered, d')" "find_peer d peer \<noteq> None"
    "normal_address env address" "\<forall>a\<in>set (loadPeerAddresses d peer) \<union> set (hand_entered d peer). settles env a"
  shows "loadPeerAddresses d' peer = ordered \<and> hd ordered = address \<and> ordered \<noteq> [] \<and> loadSuccessfulPeerAddress d' peer = Some address
    \<and> length ordered \<le> MAX_PEER_ADDRESSES \<and> distinct (address_keys env ordered)
    \<and> (length (hand_entered d peer) \<le> 6 \<longrightarrow> (\<forall>a\<in>set (hand_entered d peer). normalizeAddress env a None = []
          \<or> addressDedupeKey env (normalizeAddress env a None) \<in> set (address_keys env ordered)))"
proof -
  have address: "normalizeAddress env address None = address" "address \<noteq> []" using assms(3) by (simp_all add: normal_address_def)
  let ?rest = "filter (\<lambda>item. normalizeAddress env item None \<noteq> address) (loadPeerAddresses d peer)"
  let ?manual = "hand_entered d peer"
  have ordered: "ordered = mergeCoordinatorPeerAddresses env [] (address # ?rest) ?manual (Some 1) (Some address)"
    and d': "d' = d\<lparr> peers := update_where (\<lambda>p. p_device p = peer) (\<lambda>p. p\<lparr> p_addresses := Some (stored_texts ordered),
      p_manual_addresses := Some (stored_texts ?manual), p_last_success_address := Some address \<rparr>) (peers d) \<rparr>"
    using assms(1) by (auto simp: recordPeerSuccess_def Let_def address or_default_def hand_entered_def)
  obtain p where p: "find_peer d peer = Some p" using assms(2) by blast
  have "find_peer d' peer = Some (p\<lparr> p_addresses := Some (stored_texts ordered),
      p_manual_addresses := Some (stored_texts ?manual), p_last_success_address := Some address \<rparr>)"
    using p by (auto simp: find_peer_def d' first_where_update dest: first_where_SomeD)
  then have "loadPeerAddresses d' peer = ordered" "loadSuccessfulPeerAddress d' peer = Some address"
    by (simp_all add: loadPeerAddresses_def loadSuccessfulPeerAddress_def)
  moreover have "\<forall>a\<in>set ?rest. settles env a" "\<forall>a\<in>set ?manual. settles env a" using assms(4) by auto
  note first = coordinator_merge_first [OF assms(3) this, folded ordered]
  moreover from first(1) have "hd ordered = address" "ordered \<noteq> []" by auto
  ultimately show ?thesis by blast
qed

section \<open>Pins\<close>

text \<open>What discovery and passes record of peers.\<close>

datatype contact =
    Learned string "string list" update_options
  | Succeeded string "string option"

fun record_contact :: "url_env \<Rightarrow> contact \<Rightarrow> db \<Rightarrow> db" where
  "record_contact env (Learned peer addresses opts) d = snd (updatePeerAddresses env d peer addresses opts)"
| "record_contact env (Succeeded peer address) d = snd (recordPeerSuccess env d peer address)"

fun keeps_trust :: "contact \<Rightarrow> bool" where
  "keeps_trust (Learned _ _ opts) \<longleftrightarrow> \<not> uo_replace_trust opts"
| "keeps_trust (Succeeded _ _) \<longleftrightarrow> True"

definition pinned_as :: "db \<Rightarrow> string \<Rightarrow> string \<Rightarrow> string option \<Rightarrow> bool" where
  "pinned_as d peer f k \<longleftrightarrow> (case find_peer d peer of
     None \<Rightarrow> False | Some p \<Rightarrow> p_pinned_fingerprint p = Some f \<and> (k \<noteq> None \<longrightarrow> p_public_key p = k))"

lemma find_peer_update:
  assumes "\<And>p. p_device (f p) = p_device p"
  shows "find_peer (d\<lparr> peers := update_where (\<lambda>p. p_device p = q) f (peers d) \<rparr>) peer
    = map_option (\<lambda>p. if p_device p = q then f p else p) (find_peer d peer)"
  by (simp add: find_peer_def first_where_update assms)

lemma contact_keeps_pin: "keeps_trust c \<Longrightarrow> pinned_as d peer f k \<Longrightarrow> pinned_as (record_contact env c d) peer f k"
proof (cases c)
  case (Learned q addresses opts)
  assume "keeps_trust c" "pinned_as d peer f k"
  then show ?thesis
    by (auto simp: Learned pinned_as_def find_peer_def updatePeerAddresses_def Let_def merged_peer_def new_peer_def first_where_upsert
        split: option.splits)
next
  case (Succeeded q address)
  assume "pinned_as d peer f k"
  then show ?thesis
    by (auto simp: Succeeded pinned_as_def recordPeerSuccess_def Let_def find_peer_update split: option.splits)
qed

text \<open>However many contacts with peers are recorded, the fingerprint and the key a peer is pinned to stay as they are, as
  long as none of them is told to replace them.\<close>

theorem pins_survive_contacts:
  assumes "pinned_as d peer f k" "\<forall>c\<in>set contacts. keeps_trust c"
  shows "pinned_as (fold (record_contact env) contacts d) peer f k"
  using assms by (induction contacts arbitrary: d) (auto intro: contact_keeps_pin)

section \<open>Samples\<close>

text \<open>Addresses \<open>http://host\<close> only.\<close>

definition sample_urls :: url_env where
  "sample_urls = \<lparr> ue_parse = (\<lambda>s. Some \<lparr> ur_protocol = ''http:'', ur_hostname = drop 7 s, ur_port = [], ur_pathname = ''/'',
       ur_origin = s \<rparr>), ue_with_port = (\<lambda>u port. u\<lparr> ur_port := port \<rparr>) \<rparr>"

definition sample_known_peer :: db where
  "sample_known_peer = empty_db\<lparr> peers := [(new_peer ''here'')\<lparr> p_pinned_fingerprint := Some ''f1'',
     p_addresses := Some (stored_texts [''http://a'', ''http://b'']), p_manual_addresses := Some (stored_texts [''http://c'']) \<rparr>] \<rparr>"

theorem working_address_first_witness:
  "\<exists>ordered d'. recordPeerSuccess sample_urls sample_known_peer ''here'' (Some ''http://b'') = (ordered, d')
    \<and> hd (loadPeerAddresses d' ''here'') = ''http://b''
    \<and> addressDedupeKey sample_urls ''http://c'' \<in> set (address_keys sample_urls ordered)"
proof -
  let ?run = "recordPeerSuccess sample_urls sample_known_peer ''here'' (Some ''http://b'')"
  have "find_peer sample_known_peer ''here'' \<noteq> None" by code_simp
  moreover have "normal_address sample_urls ''http://b''" by code_simp
  moreover have "\<forall>a\<in>set (loadPeerAddresses sample_known_peer ''here'') \<union> set (hand_entered sample_known_peer ''here''). settles sample_urls a"
    by code_simp
  moreover have "hand_entered sample_known_peer ''here'' = [''http://c'']" "normalizeAddress sample_urls ''http://c'' None = ''http://c''"
    by code_simp+
  ultimately show ?thesis
    using working_address_first [of sample_urls sample_known_peer "''here''" "''http://b''" "fst ?run" "snd ?run"]
    by (intro exI [of _ "fst ?run"] exI [of _ "snd ?run"]) auto
qed

theorem pins_survive_contacts_witness:
  "pinned_as (fold (record_contact sample_urls)
     [Learned ''here'' [''http://x''] \<lparr> uo_name = None, uo_pinned_fingerprint = Some ''f2'', uo_public_key = Some ''k2'',
        uo_replace_trust = False, uo_coordinator = True \<rparr>, Succeeded ''here'' (Some ''http://x'')] sample_known_peer) ''here'' ''f1'' None"
proof -
  have "pinned_as sample_known_peer ''here'' ''f1'' None"
    by (simp add: pinned_as_def find_peer_def sample_known_peer_def new_peer_def)
  from pins_survive_contacts [OF this, of "[Learned ''here'' [''http://x''] \<lparr> uo_name = None, uo_pinned_fingerprint = Some ''f2'',
      uo_public_key = Some ''k2'', uo_replace_trust = False, uo_coordinator = True \<rparr>, Succeeded ''here'' (Some ''http://x'')]" sample_urls]
  show ?thesis by simp
qed

end
