(* ===== verification/Sync_Exchange.thy ===== *)
theory Sync_Exchange
  imports Snapshot_Fetch Table_Frames Address_Book
begin

text \<open>
  The client of one scope (\<open>packages/core/src/sync-pass.ts\<close>, lines 170-1145, with
  \<open>packages/core/src/sync-failure-classification.ts\<close>): what a device does with the answers of a peer it
  pulls a scope from, merges or bootstraps it from, and pushes to.

  A call awaits the peer's answer, and while it waits other calls of the same device may run: the state of an exchange is
  the pair of the local database and of the rest of the world, and a request may change both. A result \<open>None\<close> is a call
  that does not return, or that receives ops with fields of other types than declared.
\<close>

declare fetch_loop.simps [code] scan_loop.simps [code]

section \<open>Failures\<close>

datatype failure_category = TrustFailure | ScopeFailure | ConnectivityFailure | CompatibilityFailure | OtherFailure

fun category_text :: "failure_category \<Rightarrow> string" where
  "category_text TrustFailure = ''trust''"
| "category_text ScopeFailure = ''scope''"
| "category_text ConnectivityFailure = ''connectivity''"
| "category_text CompatibilityFailure = ''compatibility''"
| "category_text OtherFailure = ''other''"

definition SYNC_FAILURE_PHRASES :: "(failure_category \<times> string list) list" where
  "SYNC_FAILURE_PHRASES =
     [(TrustFailure, [''fingerprint mismatch'', ''peer not pinned'']),
      (ScopeFailure, [''scope_rejected'', ''scope rejected'', ''missing_scope'', ''stale_epoch'', ''scope_inactive'']),
      (ConnectivityFailure, [''no dialable peer addresses'', ''fetch failed'', ''connection refused'', ''network'', ''timeout'',
         ''503'', ''502'', ''504'', ''peer status failed'', ''peer ops fetch failed'', ''snapshot fetch failed''])]"

definition categorizeSyncFailure :: "string option \<Rightarrow> failure_category" where
  "categorizeSyncFailure error =
     (let lower = js_lower (or_default error []) in
      if lower = [] then OtherFailure
      else if text_contains ''401'' lower \<and> text_contains ''unauthorized'' lower then TrustFailure
      else (case first_where (\<lambda>(_, phrases). list_ex (\<lambda>phrase. text_contains phrase lower) phrases) SYNC_FAILURE_PHRASES of
          Some (category, _) \<Rightarrow> category
        | None \<Rightarrow> OtherFailure))"

section \<open>Answers\<close>

type_synonym answer = "string + int \<times> json_obj option"

text \<open>The JSON requests of an exchange: an exception of the transport or of signing is an \<open>Inl\<close>.\<close>

record 'w outside =
  os_status :: "'w \<Rightarrow> answer \<times> 'w"
  os_get_ops :: "(string \<times> string) list \<Rightarrow> 'w \<Rightarrow> answer \<times> 'w"
  os_post_ops :: "replication_op list \<Rightarrow> 'w \<Rightarrow> answer \<times> 'w"
  os_page :: "'w \<Rightarrow> snapshot_params \<Rightarrow> page_answer \<times> 'w"

definition errorDetail :: "json_obj option \<Rightarrow> string option" where
  "errorDetail payload = (case (field_of ''error'' payload, field_of ''reason'' payload) of
     (Some (JStr e), Some (JStr r)) \<Rightarrow> Some (e @ '':'' @ r)
   | (Some (JStr e), _) \<Rightarrow> Some e
   | _ \<Rightarrow> None)"

definition failed_with :: "string \<Rightarrow> int \<Rightarrow> json_obj option \<Rightarrow> string" where
  "failed_with what status payload = what @ (case errorDetail payload of
     Some detail \<Rightarrow> if detail = [] then '' ('' @ int_text status @ '')'' else '' ('' @ int_text status @ '': '' @ detail @ '')''
   | None \<Rightarrow> '' ('' @ int_text status @ '')'')"

text \<open>The message of an exception; one without a message has its class name.\<close>

definition thrown :: "string \<Rightarrow> string" where
  "thrown e = (if js_trim e = [] then ''Error'' else js_trim e)"

definition asOptionalCursor :: "json option \<Rightarrow> string option" where
  "asOptionalCursor v = (case v of Some (JStr s) \<Rightarrow> clean_text (Some s) | _ \<Rightarrow> None)"

text \<open>\<open>Number(v)\<close>; \<open>None\<close> is \<open>NaN\<close>. A generation that is no integer is read like one that is no number.\<close>

definition json_Number :: "json option \<Rightarrow> rat option" where
  "json_Number v = (case v of
     None \<Rightarrow> None
   | Some JNull \<Rightarrow> Some 0
   | Some (JBool b) \<Rightarrow> Some (if b then 1 else 0)
   | Some (JNum q) \<Rightarrow> Some q
   | Some w \<Rightarrow> js_Number (js_String w))"

definition whole :: "rat option \<Rightarrow> int option" where
  "whole q = (case q of Some r \<Rightarrow> if r = of_int \<lfloor>r\<rfloor> then Some \<lfloor>r\<rfloor> else None | None \<Rightarrow> None)"

definition finite_number :: "json option \<Rightarrow> bool" where
  "finite_number v \<longleftrightarrow> (case v of Some (JNum q) \<Rightarrow> True | _ \<Rightarrow> False)"

definition plain_text :: "json option \<Rightarrow> bool" where
  "plain_text v \<longleftrightarrow> (case v of Some (JStr s) \<Rightarrow> js_trim s \<noteq> [] | _ \<Rightarrow> False)"

definition text_or_null :: "json option \<Rightarrow> bool" where
  "text_or_null v \<longleftrightarrow> (case v of None \<Rightarrow> True | Some JNull \<Rightarrow> True | Some (JStr s) \<Rightarrow> True | _ \<Rightarrow> False)"

definition isValidIncrementalOpsResponse :: "json_obj \<Rightarrow> bool" where
  "isValidIncrementalOpsResponse p \<longleftrightarrow>
     field ''reset_required'' p = Some (JBool False) \<and> finite_number (field ''generation'' p)
     \<and> plain_text (field ''snapshot_id'' p) \<and> text_or_null (field ''baseline_cursor'' p)
     \<and> text_or_null (field ''retained_floor_cursor'' p)
     \<and> (case field ''ops'' p of Some (JArr _) \<Rightarrow> True | _ \<Rightarrow> False)
     \<and> text_or_null (field ''next_cursor'' p) \<and> finite_number (field ''skipped'' p)"

definition parsePeerResetBoundary :: "json_obj option \<Rightarrow> reset_boundary option" where
  "parsePeerResetBoundary payload = (case field_of ''sync_reset'' payload of
     Some (JObj b) \<Rightarrow>
       (case (field ''generation'' b, field ''snapshot_id'' b) of
          (Some (JNum g), Some (JStr s)) \<Rightarrow>
            if js_trim s = [] then None
            else map_option (\<lambda>n. \<lparr> rb_scope_id = asOptionalCursor (field ''scope_id'' b), rb_generation = n,
              rb_snapshot_id = js_trim s, rb_baseline_cursor = asOptionalCursor (field ''baseline_cursor'' b),
              rb_retained_floor_cursor = asOptionalCursor (field ''retained_floor_cursor'' b) \<rparr>) (whole (Some g))
        | _ \<Rightarrow> None)
   | _ \<Rightarrow> None)"

section \<open>Scopes a peer advertises\<close>

record authorized_scope =
  ad_scope :: string
  ad_label :: "string option"
  ad_authority_type :: "string option"
  ad_epoch :: "rat option"
  ad_reset :: reset_boundary

definition authorized_scope_of :: "json \<Rightarrow> authorized_scope option" where
  "authorized_scope_of raw = (case raw of
     JObj entry \<Rightarrow>
       (let scopeId = js_trim (or_default (as_text (field ''scope_id'' entry)) []) in
        if scopeId = [] then None
        else (case field ''sync_reset'' entry of
            Some (JObj reset) \<Rightarrow>
              (case whole (json_Number (field ''generation'' reset)) of
                 None \<Rightarrow> None
               | Some generation \<Rightarrow>
                   (let snapshotId = js_trim (or_default (as_text (field ''snapshot_id'' reset)) []) in
                    if snapshotId = [] then None
                    else Some \<lparr> ad_scope = scopeId, ad_label = as_text (field ''label'' entry),
                      ad_authority_type = as_text (field ''authority_type'' entry),
                      ad_epoch = (case field ''membership_epoch'' entry of Some (JNum q) \<Rightarrow> Some q | _ \<Rightarrow> None),
                      ad_reset = \<lparr> rb_scope_id = as_text (field ''scope_id'' reset), rb_generation = generation,
                        rb_snapshot_id = snapshotId, rb_baseline_cursor = asOptionalCursor (field ''baseline_cursor'' reset),
                        rb_retained_floor_cursor = asOptionalCursor (field ''retained_floor_cursor'' reset) \<rparr> \<rparr>))
          | _ \<Rightarrow> None))
   | _ \<Rightarrow> None)"

definition parseAuthorizedScopes :: "json option \<Rightarrow> authorized_scope list" where
  "parseAuthorizedScopes v = (case v of Some (JArr raws) \<Rightarrow> List.map_filter authorized_scope_of raws | _ \<Rightarrow> [])"

definition hasLocalRowsInScope :: "db \<Rightarrow> string \<Rightarrow> bool" where
  "hasLocalRowsInScope d scopeId = exists_where (\<lambda>m. m_import_key m \<noteq> None \<and> m_scope_id m = Some scopeId) (memories d)"

datatype required_reason = InitialBootstrap | StaleCursorReset | GenerationReset | BoundaryReset
  | ScopeMissing | ScopeNotActive | EpochStale | ScopeNotSupported

fun required_reason_text :: "required_reason \<Rightarrow> string" where
  "required_reason_text InitialBootstrap = ''initial_bootstrap''"
| "required_reason_text StaleCursorReset = ''stale_cursor''"
| "required_reason_text GenerationReset = ''generation_mismatch''"
| "required_reason_text BoundaryReset = ''boundary_mismatch''"
| "required_reason_text ScopeMissing = ''missing_scope''"
| "required_reason_text ScopeNotActive = ''scope_inactive''"
| "required_reason_text EpochStale = ''stale_epoch''"
| "required_reason_text ScopeNotSupported = ''unsupported_scope''"

fun membership_failures :: "db \<Rightarrow> string \<Rightarrow> int \<Rightarrow> string list \<Rightarrow> required_reason option" where
  "membership_failures d scopeId requiredEpoch [] = None"
| "membership_failures d scopeId requiredEpoch (device # devices) =
     (case first_where (\<lambda>m. sm_scope m = scopeId \<and> sm_device m = device) (memberships d) of
        None \<Rightarrow> Some ScopeMissing
      | Some m \<Rightarrow>
          if sm_status m \<noteq> ''active'' then Some ScopeNotActive
          else if sm_epoch m < requiredEpoch then Some EpochStale
          else membership_failures d scopeId requiredEpoch devices)"

definition scopedSnapshotAccessFailure :: "db \<Rightarrow> string \<Rightarrow> string \<Rightarrow> string \<Rightarrow> required_reason option" where
  "scopedSnapshotAccessFailure d scopeId peer me = (case first_where (\<lambda>s. sc_id s = scopeId) (scopes d) of
     None \<Rightarrow> Some ScopeMissing
   | Some s \<Rightarrow>
       if sc_status s \<noteq> ''active'' then Some ScopeNotActive
       else if sc_authority_type s = ''local'' then Some ScopeMissing
       else membership_failures d scopeId (sc_epoch s) [me, peer])"

definition scopeResetFailureCategory :: "required_reason \<Rightarrow> failure_category" where
  "scopeResetFailureCategory reason =
     (if reason \<in> {ScopeMissing, ScopeNotActive, EpochStale} then ScopeFailure else OtherFailure)"

section \<open>Results\<close>

record scope_result =
  so_scope :: string
  so_label :: "string option"
  so_ok :: bool
  so_category :: "failure_category option"
  so_in :: nat
  so_error :: "string option"
  so_reset :: "(required_reason \<times> reset_boundary) option"
  so_bootstrapped :: bool

definition scopeFailureCategory :: "string option \<Rightarrow> failure_category" where
  "scopeFailureCategory error = categorizeSyncFailure error"

definition aggregateScopeFailureCategory :: "scope_result list \<Rightarrow> failure_category option" where
  "aggregateScopeFailureCategory results =
     (case remdups (map (\<lambda>r. or_default (so_category r) (scopeFailureCategory (so_error r))) (filter (\<lambda>r. \<not> so_ok r) results)) of
        [] \<Rightarrow> None
      | [category] \<Rightarrow> Some category
      | _ \<Rightarrow> Some OtherFailure)"


section \<open>One scope\<close>

text \<open>What a call knows: the devices, the page limit, the parameters of its parts, and \<open>pc_vectors\<close>, the two error texts
  when neither the queue of vector work nor its fallback can be written.\<close>

record pass_context =
  pc_peer :: string
  pc_me :: string
  pc_limit :: int
  pc_now :: string
  pc_fresh :: string
  pc_cfg :: sync_config
  pc_apply :: apply_context
  pc_boot :: bootstrap_env
  pc_parse :: "string \<Rightarrow> json option"
  pc_fingerprint :: "string \<Rightarrow> string"
  pc_public_key :: "string option"
  pc_vectors :: "int list \<Rightarrow> int list \<Rightarrow> (string \<times> string) option"
  pc_urls :: url_env
  pc_grant :: "string option"

definition BOOTSTRAP_PAGE_SIZE :: int where "BOOTSTRAP_PAGE_SIZE = 2000"

definition scope_failed :: "authorized_scope \<Rightarrow> failure_category \<Rightarrow> string \<Rightarrow> bool \<Rightarrow> scope_result" where
  "scope_failed scope category error bootstrapped = \<lparr> so_scope = ad_scope scope, so_label = ad_label scope, so_ok = False,
     so_category = Some category, so_in = 0, so_error = Some error, so_reset = None, so_bootstrapped = bootstrapped \<rparr>"

definition scope_synced :: "authorized_scope \<Rightarrow> nat \<Rightarrow> bool \<Rightarrow> scope_result" where
  "scope_synced scope opsIn bootstrapped = \<lparr> so_scope = ad_scope scope, so_label = ad_label scope, so_ok = True,
     so_category = None, so_in = opsIn, so_error = None, so_reset = None, so_bootstrapped = bootstrapped \<rparr>"

definition scope_reset_needed :: "authorized_scope \<Rightarrow> required_reason \<Rightarrow> reset_boundary \<Rightarrow> scope_result" where
  "scope_reset_needed scope reason b =
     (scope_failed scope (scopeResetFailureCategory reason) (''reset_required:'' @ required_reason_text reason) False)
       \<lparr> so_reset := Some (reason, b) \<rparr>"

definition scope_reset_info :: "authorized_scope \<Rightarrow> reset_boundary" where
  "scope_reset_info scope = (ad_reset scope)\<lparr> rb_scope_id := Some (ad_scope scope) \<rparr>"

definition bootstrap_options :: "pass_context \<Rightarrow> int option \<Rightarrow> fetch_options" where
  "bootstrap_options ctx pageSize = \<lparr> ft_source = None, ft_recipient = Some (pc_peer ctx), ft_page_size = pageSize,
     ft_max_items = None \<rparr>"

definition recover_scope ::
    "(db \<times> 'q) outside \<Rightarrow> pass_context \<Rightarrow> authorized_scope \<Rightarrow> db \<times> 'q \<Rightarrow> (scope_result \<times> db \<times> 'q) option" where
  "recover_scope os ctx scope w =
     (let failed = (\<lambda>e. let error = ''scoped merge bootstrap failed: '' @ thrown e
            in scope_failed scope (scopeFailureCategory (Some error)) error True) in
      case fetchAllSnapshotPages (os_page os) (scope_reset_info scope) (bootstrap_options ctx (Some BOOTSTRAP_PAGE_SIZE)) w of
        None \<Rightarrow> None
      | Some (Inl e, w1) \<Rightarrow> Some (failed e, w1)
      | Some (Inr (items, _), (d1, q1)) \<Rightarrow>
          (case mergeBootstrapSnapshot (pc_boot ctx) d1 (pc_peer ctx) items (scope_reset_info scope) False of
             Inl e \<Rightarrow> Some (failed e, (d1, q1))
           | Inr (res, d2) \<Rightarrow> Some (scope_synced scope (br_applied res) True, (d2, q1))))"

definition bootstrap_scope ::
    "(db \<times> 'q) outside \<Rightarrow> pass_context \<Rightarrow> authorized_scope \<Rightarrow> db \<times> 'q \<Rightarrow> (scope_result \<times> db \<times> 'q) option" where
  "bootstrap_scope os ctx scope w =
     (let failed = (\<lambda>e. let error = ''scoped bootstrap failed: '' @ thrown e
            in scope_failed scope (scopeFailureCategory (Some error)) error True) in
      case fetchAllSnapshotPages (os_page os) (scope_reset_info scope) (bootstrap_options ctx (Some BOOTSTRAP_PAGE_SIZE)) w of
        None \<Rightarrow> None
      | Some (Inl e, w1) \<Rightarrow> Some (failed e, w1)
      | Some (Inr (items, _), (d1, q1)) \<Rightarrow>
          if hasLocalRowsInScope d1 (ad_scope scope)
          then Some (scope_failed scope OtherFailure ''needs_attention:shared_memories_appeared_during_bootstrap'' True, (d1, q1))
          else (case applyBootstrapSnapshot (pc_boot ctx) d1 (pc_peer ctx) items (scope_reset_info scope) of
             Inl e \<Rightarrow> Some (failed e, (d1, q1))
           | Inr (res, d2) \<Rightarrow> Some (scope_synced scope (br_applied res) True, (d2, q1))))"

text \<open>Pulled ops: they are applied under validation, rows this device must not keep are cleaned up, vector work is queued.\<close>

datatype pull_failure = PullRefused string | CleanupThrew string | VectorsFailed string string

definition apply_pulled :: "pass_context \<Rightarrow> bool \<Rightarrow> db \<Rightarrow> replication_op list \<Rightarrow> (pull_failure + apply_result) \<times> db" where
  "apply_pulled ctx enabled d rs =
     (let (res, d1) = applyReplicationOps ((pc_apply ctx)\<lparr> ax_local := pc_me ctx \<rparr>)
                        (Some \<lparr> io_peer = Some (pc_peer ctx), io_enabled = enabled \<rparr>) d rs in
      if ap_rejected res > 0
      then (Inl (PullRefused (case ap_rejections res of [] \<Rightarrow> ''scope_rejected'' | x # _ \<Rightarrow> reason_text (ir_reason x))), d1)
      else (case reconcileStalePeerReceivedRows (pc_fingerprint ctx) (pc_apply ctx) d1
                   \<lparr> ro_local = pc_me ctx, ro_peer = Some (pc_peer ctx), ro_max_rows = None, ro_public_key = pc_public_key ctx \<rparr> of
          Inl e \<Rightarrow> (Inl (CleanupThrew e), d1)
        | Inr (cleanup, d2) \<Rightarrow>
            (case pc_vectors ctx (ap_upsert_vectors res) (ap_delete_vectors res @ rr_deleted_ids cleanup) of
               Some (queueError, fallbackError) \<Rightarrow> (Inl (VectorsFailed queueError fallbackError), d2)
             | None \<Rightarrow> (Inr res, d2))))"

text \<open>The query of \<open>GET /v1/ops\<close>.\<close>

definition ops_query :: "pass_context \<Rightarrow> string option \<Rightarrow> reset_boundary \<Rightarrow> string option \<Rightarrow> (string \<times> string) list" where
  "ops_query ctx scopeId b lastApplied =
     optional_query ''scope_id'' scopeId
     @ [(''since'', or_default lastApplied []), (''limit'', int_text (pc_limit ctx)), (''generation'', int_text (rb_generation b)),
        (''snapshot_id'', rb_snapshot_id b)]
     @ optional_query ''baseline_cursor'' (truthy (rb_baseline_cursor b))"

text \<open>A page of ops, or why there is none; an outer \<open>None\<close> is a page whose ops have fields of other types.\<close>

datatype ops_answer = OpsThrew string | OpsResetRequired json_obj | OpsFailed int "json_obj option" | OpsInvalid
  | OpsMismatched string | OpsPulled "replication_op list" "string option"

definition read_ops_answer :: "pass_context \<Rightarrow> answer \<Rightarrow> ops_answer option" where
  "read_ops_answer ctx a = (case a of
     Inl e \<Rightarrow> Some (OpsThrew e)
   | Inr (status, payload) \<Rightarrow>
       if status = 409 \<and> field_of ''reset_required'' payload = Some (JBool True) then map_option OpsResetRequired payload
       else (case payload of
          None \<Rightarrow> Some (OpsFailed status None)
        | Some p \<Rightarrow>
            if status \<noteq> 200 then Some (OpsFailed status (Some p))
            else if \<not> isValidIncrementalOpsResponse p then Some OpsInvalid
            else (case ops_of_json (pc_parse ctx) (extractReplicationOps (JObj p)) of
                None \<Rightarrow> None
              | Some rs \<Rightarrow>
                  (case first_where (\<lambda>r. op_device_id r \<noteq> pc_peer ctx \<or> op_clock_device_id r \<noteq> pc_peer ctx) rs of
                     Some r \<Rightarrow> Some (OpsMismatched (op_id r))
                   | None \<Rightarrow> Some (OpsPulled rs (asOptionalCursor (field ''next_cursor'' p)))))))"

definition scoped_reset_reason :: "json option \<Rightarrow> required_reason" where
  "scoped_reset_reason v = (case v of
     Some (JStr s) \<Rightarrow> or_default (first_where (\<lambda>r. required_reason_text r = s)
       [GenerationReset, BoundaryReset, ScopeMissing, ScopeNotActive, EpochStale, ScopeNotSupported]) StaleCursorReset
   | _ \<Rightarrow> StaleCursorReset)"

definition trimmed_cursor :: "json option \<Rightarrow> string option" where
  "trimmed_cursor v = map_option js_trim (as_text v)"

definition scoped_reset_boundary :: "authorized_scope \<Rightarrow> json_obj \<Rightarrow> reset_boundary" where
  "scoped_reset_boundary scope p =
     \<lparr> rb_scope_id = Some (or_default (as_text (field ''scope_id'' p)) (ad_scope scope)),
       rb_generation = or_default (whole (json_Number (if nullish (field ''generation'' p) then None else field ''generation'' p)))
         (rb_generation (ad_reset scope)),
       rb_snapshot_id = (if nullish (field ''snapshot_id'' p) then rb_snapshot_id (ad_reset scope)
         else js_String (the (field ''snapshot_id'' p))),
       rb_baseline_cursor = trimmed_cursor (field ''baseline_cursor'' p),
       rb_retained_floor_cursor = trimmed_cursor (field ''retained_floor_cursor'' p) \<rparr>"

definition pull_scope ::
    "(db \<times> 'q) outside \<Rightarrow> pass_context \<Rightarrow> authorized_scope \<Rightarrow> string option \<Rightarrow> bool \<Rightarrow> db \<times> 'q
     \<Rightarrow> (scope_result \<times> db \<times> 'q) option" where
  "pull_scope os ctx scope lastApplied bootstrapped w =
     (let s = ad_scope scope;
          threw = (\<lambda>e. let error = ''scoped incremental failed: '' @ thrown e
            in scope_failed scope (scopeFailureCategory (Some error)) error False);
          (a, d1, q1) = os_get_ops os (ops_query ctx (Some s) (ad_reset scope) lastApplied) w in
      case read_ops_answer ctx a of
        None \<Rightarrow> None
      | Some (OpsThrew e) \<Rightarrow> Some (threw e, d1, q1)
      | Some (OpsResetRequired p) \<Rightarrow>
          Some (scope_reset_needed scope (scoped_reset_reason (field ''reason'' p)) (scoped_reset_boundary scope p),
                clearReplicationCursorLastApplied (pc_now ctx) d1 (pc_peer ctx) (Some s), q1)
      | Some (OpsFailed status payload) \<Rightarrow>
          (let error = failed_with ''peer scoped ops fetch failed'' status payload
           in Some (scope_failed scope (scopeFailureCategory (Some error)) error False, d1, q1))
      | Some OpsInvalid \<Rightarrow> Some (scope_failed scope OtherFailure ''invalid scoped ops response'' False, d1, q1)
      | Some (OpsMismatched opId) \<Rightarrow>
          Some (scope_failed scope OtherFailure (''inbound op device mismatch:'' @ opId) False, d1, q1)
      | Some (OpsPulled rs nextCursor) \<Rightarrow>
          (case apply_pulled ctx True d1 rs of
             (Inl (PullRefused reason), d2) \<Rightarrow>
               Some (scope_failed scope ScopeFailure (''inbound scope rejected:'' @ reason) False, d2, q1)
           | (Inl (CleanupThrew e), d2) \<Rightarrow> Some (threw e, d2, q1)
           | (Inl (VectorsFailed queueError fallbackError), d2) \<Rightarrow>
               Some (scope_failed scope OtherFailure
                 (''vector catch-up failed: '' @ queueError @ ''; fallback failed: '' @ fallbackError) False, d2, q1)
           | (Inr res, d2) \<Rightarrow>
               if ap_errors res \<noteq> []
               then Some ((scope_failed scope OtherFailure (''inbound apply incomplete: '' @ nat_digits (length (ap_errors res))
                   @ '' op(s) failed; cursor held for retry'') bootstrapped)\<lparr> so_in := ap_applied res \<rparr>, d2, q1)
               else Some (scope_synced scope (ap_applied res) bootstrapped,
                 if cursorAdvances lastApplied nextCursor
                 then setReplicationCursor (pc_now ctx) d2 (pc_peer ctx) nextCursor None (Some s) else d2, q1)))"

definition syncOneScope ::
    "(db \<times> 'q) outside \<Rightarrow> pass_context \<Rightarrow> authorized_scope \<Rightarrow> db \<times> 'q \<Rightarrow> (scope_result \<times> db \<times> 'q) option" where
  "syncOneScope os ctx scope w =
     (let s = ad_scope scope;
          ((lastApplied, lastAcked), d) = getReplicationCursor (fst w) (pc_peer ctx) (Some s);
          hasMarker = (lastAcked = Some SCOPED_NULL_BASELINE_BOOTSTRAP_CURSOR_MARKER);
          stillCurrent = (hasMarker \<and> rb_baseline_cursor (ad_reset scope) = None);
          rowsPresent = hasLocalRowsInScope d s in
      if lastApplied = None \<and> \<not> stillCurrent
      then (case scopedSnapshotAccessFailure d s (pc_peer ctx) (pc_me ctx) of
          Some reason \<Rightarrow> Some (scope_reset_needed scope reason (scope_reset_info scope), d, snd w)
        | None \<Rightarrow> if rowsPresent then recover_scope os ctx scope (d, snd w) else bootstrap_scope os ctx scope (d, snd w))
      else pull_scope os ctx scope lastApplied hasMarker (d, snd w))"

fun runScopedSync ::
    "(db \<times> 'q) outside \<Rightarrow> pass_context \<Rightarrow> authorized_scope list \<Rightarrow> db \<times> 'q
     \<Rightarrow> (scope_result list \<times> nat \<times> db \<times> 'q) option" where
  "runScopedSync os ctx [] w = Some ([], 0, w)"
| "runScopedSync os ctx (scope # rest) w = (case syncOneScope os ctx scope w of
     None \<Rightarrow> None
   | Some (res, w1) \<Rightarrow>
       (case runScopedSync os ctx rest w1 of
          None \<Rightarrow> None
        | Some (results, n, w2) \<Rightarrow> Some (res # results, (if so_ok res then so_in res else 0) + n, w2)))"

section \<open>What waiting may change\<close>

text \<open>A relation between databases that other calls respect while a fetch waits is respected by the whole fetch.\<close>

definition stays_in :: "('w \<Rightarrow> 'w \<Rightarrow> bool) \<Rightarrow> ('w \<Rightarrow> 'a \<Rightarrow> 'b \<times> 'w) \<Rightarrow> bool" where
  "stays_in R ask \<longleftrightarrow> (\<forall>w x. R w (snd (ask w x)))"

lemma fetch_loop_respects:
  assumes "fetch_loop ask info opts st = Some (r, w')" "stays_in R ask" "reflp R" "transp R"
  shows "R (fs_peer st) w'"
proof -
  have "stays_in R ask' \<longrightarrow> R (fs_peer st) (snd y)" if "fetch_loop ask' i o' st = Some y" for ask' i o' st y
  proof (rule fetch_loop.raw_induct [OF _ that])
    fix loop ask' i o' st y
    assume IH: "\<And>a i o' st y. loop a i o' st = Some y \<Longrightarrow> stays_in R a \<longrightarrow> R (fs_peer st) (snd y)"
      and run: "(case fetch_round ask' i o' st of Inl r \<Rightarrow> Some r | Inr st' \<Rightarrow> loop ask' i o' st') = Some y"
    show "stays_in R ask' \<longrightarrow> R (fs_peer st) (snd y)"
    proof
      assume ask: "stays_in R ask'"
      have step: "R (fs_peer st) (snd (ask' (fs_peer st) x))" for x using ask by (simp add: stays_in_def)
      show "R (fs_peer st) (snd y)"
      proof (cases "fetch_round ask' i o' st")
        case (Inl r)
        then have "snd r = snd (ask' (fs_peer st) (snapshotPageParams i (or_default (ft_page_size o') 200) (fs_token st) (ft_source o')))"
          by (auto simp: fetch_round_def Let_def split: prod.splits page_answer.splits option.splits sum.splits if_splits)
        with Inl run step show ?thesis by simp
      next
        case (Inr st')
        then have "fs_peer st' = snd (ask' (fs_peer st) (snapshotPageParams i (or_default (ft_page_size o') 200) (fs_token st) (ft_source o')))"
          by (auto simp: fetch_round_def Let_def split: prod.splits page_answer.splits option.splits sum.splits if_splits)
        with step have "R (fs_peer st) (fs_peer st')" by simp
        moreover have "R (fs_peer st') (snd y)" using IH run Inr ask by simp
        ultimately show ?thesis using assms(4) by (meson transpD)
      qed
    qed
  qed
  from this [OF assms(1)] assms(2) show ?thesis by simp
qed

lemma fetch_respects:
  assumes "fetchAllSnapshotPages ask info opts w = Some (r, w')" "stays_in R ask" "reflp R" "transp R"
  shows "R w w'"
  using assms fetch_loop_respects [of ask info opts "\<lparr> fs_peer = w, fs_token = None, fs_items = [] \<rparr>" r w' R]
  by (auto simp: fetchAllSnapshotPages_def reflp_def split: sum.splits)


text \<open>Rows are kept: each has a row of its key and scope afterwards that is at least as new, and the ids stay different.\<close>

definition rows_kept :: "db \<times> 'q \<Rightarrow> db \<times> 'q \<Rightarrow> bool" where
  "rows_kept w w' \<longleftrightarrow> covers (\<lambda>m. True) (memories (fst w)) (memories (fst w'))
     \<and> (distinct (map m_id (memories (fst w))) \<longrightarrow> distinct (map m_id (memories (fst w'))))"

lemma rows_kept_order: "reflp rows_kept" "transp rows_kept"
  by (auto simp: rows_kept_def reflp_def transp_def intro: covers_trans)

lemma covers_append: "covers P a (a @ b)"
  by (auto simp: covers_def)

lemma merge_validated: "mergeBootstrapSnapshot env d peer items info p = Inr r \<Longrightarrow> validateSnapshotScopes items (clean_text (rb_scope_id info))"
  by (auto simp: mergeBootstrapSnapshot_def Let_def split: if_splits)

lemma bootstrap_validated: "applyBootstrapSnapshot env d peer items info = Inr r \<Longrightarrow> validateSnapshotScopes items (clean_text (rb_scope_id info))"
  by (auto simp: applyBootstrapSnapshot_def Let_def split: if_splits)

lemma written_holds:
  assumes "list_all2 (written_row env (Some s)) items rows" "item \<in> set items"
  shows "holds_item (\<lambda>m. True) s item (ms @ rows)"
proof -
  from assms obtain m where "m \<in> set rows" "written_row env (Some s) item m"
    by (metis in_set_conv_nth list_all2_conv_all_nth)
  then show ?thesis using written_row_facts by (fastforce simp: holds_item_def)
qed

text \<open>What starting a scope from a snapshot leaves: the rows there were, and, when it succeeds, every item of the snapshot that
  is not retired here, each possibly in a newer revision.\<close>

definition scope_started ::
    "(db \<times> 'q) outside \<Rightarrow> pass_context \<Rightarrow> authorized_scope \<Rightarrow> db \<times> 'q \<Rightarrow> scope_result \<Rightarrow> db \<times> 'q \<Rightarrow> bool" where
  "scope_started os ctx scope w res w' \<longleftrightarrow> covers (\<lambda>m. True) (memories (fst w)) (memories (fst w'))
    \<and> (so_ok res \<longrightarrow> (\<exists>items b w1. fetchAllSnapshotPages (os_page os) (scope_reset_info scope)
          (bootstrap_options ctx (Some BOOTSTRAP_PAGE_SIZE)) w = Some (Inr (items, b), w1)
        \<and> (\<forall>item\<in>set (retirementSnapshotItems (fst w1) items (Some (ad_scope scope))).
             holds_item (\<lambda>m. True) (ad_scope scope) item (memories (fst w')))))"

lemma recover_scope_keeps:
  assumes "stays_in rows_kept (os_page os)" "distinct (map m_id (memories (fst w)))"
    "clean_text (Some (ad_scope scope)) = Some (ad_scope scope)" "recover_scope os ctx scope w = Some (res, w')"
  shows "scope_started os ctx scope w res w'"
proof -
  let ?fetch = "fetchAllSnapshotPages (os_page os) (scope_reset_info scope) (bootstrap_options ctx (Some BOOTSTRAP_PAGE_SIZE)) w"
  obtain r d1 q1 where fetch: "?fetch = Some (r, d1, q1)"
    using assms(4) by (auto simp: recover_scope_def split: option.splits prod.splits)
  then have kept: "covers (\<lambda>m. True) (memories (fst w)) (memories d1)" "distinct (map m_id (memories d1))"
    using fetch_respects [OF fetch assms(1) rows_kept_order] assms(2) by (auto simp: rows_kept_def)
  show ?thesis
  proof (cases r)
    case (Inl e)
    with fetch assms(4) kept show ?thesis by (auto simp: recover_scope_def scope_failed_def scope_started_def Let_def)
  next
    case (Inr page)
    obtain items b where page: "page = (items, b)" by (cases page)
    have info: "rb_scope_id (scope_reset_info scope) = Some (ad_scope scope)" by (simp add: scope_reset_info_def)
    show ?thesis
    proof (cases "mergeBootstrapSnapshot (pc_boot ctx) d1 (pc_peer ctx) items (scope_reset_info scope) False")
      case (Inl e)
      with Inr page fetch assms(4) kept show ?thesis by (auto simp: recover_scope_def scope_failed_def scope_started_def Let_def)
    next
      case merged: (Inr outcome)
      obtain mr d2 where outcome: "outcome = (mr, d2)" by (cases outcome)
      have valid: "validateSnapshotScopes items (Some (ad_scope scope))" using merge_validated [OF merged] info assms(3) by simp
      from merge_keeps_newest [OF info assms(3) valid kept(2), of "pc_boot ctx" "pc_peer ctx" False] merged outcome
      have "covers (\<lambda>m. True) (memories d1) (memories d2)"
        "\<forall>item\<in>set (retirementSnapshotItems d1 items (Some (ad_scope scope))). holds_item (\<lambda>m. True) (ad_scope scope) item (memories d2)"
        by auto
      moreover have "w' = (d2, q1)" using assms(4) fetch Inr page merged outcome by (simp add: recover_scope_def Let_def)
      ultimately show ?thesis using fetch Inr page covers_trans [OF kept(1)] by (auto simp: scope_started_def)
    qed
  qed
qed

lemma bootstrap_scope_keeps:
  assumes "stays_in rows_kept (os_page os)" "distinct (map m_id (memories (fst w)))"
    "clean_text (Some (ad_scope scope)) = Some (ad_scope scope)" "bootstrap_scope os ctx scope w = Some (res, w')"
  shows "scope_started os ctx scope w res w'"
proof -
  let ?s = "ad_scope scope" and ?info = "scope_reset_info scope"
  let ?fetch = "fetchAllSnapshotPages (os_page os) ?info (bootstrap_options ctx (Some BOOTSTRAP_PAGE_SIZE)) w"
  obtain r d1 q1 where fetch: "?fetch = Some (r, d1, q1)"
    using assms(4) by (auto simp: bootstrap_scope_def split: option.splits prod.splits)
  then have kept: "covers (\<lambda>m. True) (memories (fst w)) (memories d1)"
    using fetch_respects [OF fetch assms(1) rows_kept_order] by (auto simp: rows_kept_def)
  show ?thesis
  proof (cases "\<exists>items b. r = Inr (items, b) \<and> \<not> hasLocalRowsInScope d1 ?s
      \<and> (\<exists>x. applyBootstrapSnapshot (pc_boot ctx) d1 (pc_peer ctx) items ?info = Inr x)")
    case False
    with fetch assms(4) kept show ?thesis
      by (auto simp: bootstrap_scope_def scope_failed_def scope_started_def Let_def split: sum.splits prod.splits if_splits)
  next
    case True
    then obtain items b br d2 where run: "r = Inr (items, b)" "\<not> hasLocalRowsInScope d1 ?s"
      "applyBootstrapSnapshot (pc_boot ctx) d1 (pc_peer ctx) items ?info = Inr (br, d2)" by fastforce
    have info: "rb_scope_id ?info = Some ?s" by (simp add: scope_reset_info_def)
    have valid: "validateSnapshotScopes items (Some ?s)" using bootstrap_validated [OF run(3)] info assms(3) by simp
    from bootstrap_replaces_scope [OF info assms(3) valid, of "pc_boot ctx" d1 "pc_peer ctx"] run(3) obtain rows where
      rows: "memories d2 = delete_where (replaceable ?s) (memories d1) @ rows"
        "list_all2 (written_row (pc_boot ctx) (Some ?s)) (retirementSnapshotItems d1 items (Some ?s)) rows" by auto
    have "delete_where (replaceable ?s) (memories d1) = memories d1"
      using run(2) by (auto simp: delete_where_def hasLocalRowsInScope_def exists_where_iff replaceable_def filter_id_conv)
    with rows have "covers (\<lambda>m. True) (memories d1) (memories d2)"
      "\<forall>item\<in>set (retirementSnapshotItems d1 items (Some ?s)). holds_item (\<lambda>m. True) ?s item (memories d2)"
      using covers_append written_holds [OF rows(2)] by metis+
    moreover have "w' = (d2, q1)" using assms(4) fetch run by (simp add: bootstrap_scope_def Let_def)
    ultimately show ?thesis using fetch run(1) covers_trans [OF kept] by (auto simp: scope_started_def)
  qed
qed

text \<open>C8: starting a scope from a snapshot loses nothing. While a device fetches the pages of a scope it has no cursor for,
  other calls may work on its database, as long as they keep rows or put newer ones in their place. Afterwards each row
  it had is still there, in the same or a newer revision; and if the scope counts as synced, every item of the snapshot
  that is not retired here is there too. If the memberships do not allow it, the result says why and no memory was
  touched.\<close>

theorem scope_start_loses_nothing:
  assumes "syncOneScope os ctx scope w = Some (res, w')"
    "read_cursor (fst w) (pc_peer ctx, Some (ad_scope scope)) = (None, acked)"
    "acked \<noteq> Some SCOPED_NULL_BASELINE_BOOTSTRAP_CURSOR_MARKER"
    "clean_text (Some (ad_scope scope)) = Some (ad_scope scope)" "distinct (map m_id (memories (fst w)))"
    "stays_in rows_kept (os_page os)"
  shows "(case so_reset res of
       Some (reason, b) \<Rightarrow> scopedSnapshotAccessFailure (fst w) (ad_scope scope) (pc_peer ctx) (pc_me ctx) = Some reason
         \<and> \<not> so_ok res \<and> memories (fst w') = memories (fst w)
     | None \<Rightarrow> \<exists>d. memories d = memories (fst w) \<and> scope_started os ctx scope (d, snd w) res w')"
proof -
  let ?s = "ad_scope scope"
  obtain d where d: "getReplicationCursor (fst w) (pc_peer ctx) (Some ?s) = ((None, acked), d)"
    using assms(2) by (cases "getReplicationCursor (fst w) (pc_peer ctx) (Some ?s)") (simp add: read_cursor_def)
  then have same: "memories d = memories (fst w)" "scopes d = scopes (fst w)" "memberships d = memberships (fst w)"
    by (auto simp: getReplicationCursor_def seed_for_scope_def seedDefaultReplicationCursorFromLegacy_def Let_def
        split: option.splits if_splits)
  have access: "scopedSnapshotAccessFailure d ?s (pc_peer ctx) (pc_me ctx)
      = scopedSnapshotAccessFailure (fst w) ?s (pc_peer ctx) (pc_me ctx)"
  proof -
    have "membership_failures d ?s e ds = membership_failures (fst w) ?s e ds" for e ds
      by (induction ds) (simp_all add: same split: option.splits)
    then show ?thesis by (simp add: scopedSnapshotAccessFailure_def same split: option.splits)
  qed
  show ?thesis
  proof (cases "scopedSnapshotAccessFailure d ?s (pc_peer ctx) (pc_me ctx)")
    case (Some reason)
    with assms(1,3) d show ?thesis
      by (auto simp: syncOneScope_def scope_reset_needed_def scope_failed_def Let_def same access)
  next
    case None
    have "so_reset res = None \<and> scope_started os ctx scope (d, snd w) res w'"
    proof (cases "hasLocalRowsInScope d ?s")
      case True
      with None assms(1,3) d have run: "recover_scope os ctx scope (d, snd w) = Some (res, w')" by (simp add: syncOneScope_def)
      then have "so_reset res = None"
        by (auto simp: recover_scope_def scope_failed_def scope_synced_def Let_def split: option.splits sum.splits prod.splits)
      with recover_scope_keeps [OF assms(6) _ assms(4) run] assms(5) same show ?thesis by simp
    next
      case False
      with None assms(1,3) d have run: "bootstrap_scope os ctx scope (d, snd w) = Some (res, w')" by (simp add: syncOneScope_def)
      then have "so_reset res = None"
        by (auto simp: bootstrap_scope_def scope_failed_def scope_synced_def Let_def split: option.splits sum.splits prod.splits if_splits)
      with bootstrap_scope_keeps [OF assms(6) _ assms(4) run] assms(5) same show ?thesis by simp
    qed
    with same show ?thesis by auto
  qed
qed

section \<open>What the cleanup does to the cursors\<close>

text \<open>A cleanup leaves the log alone and takes away cursors, but moves none.\<close>

definition tidied :: "db \<Rightarrow> db \<Rightarrow> bool" where
  "tidied d d' \<longleftrightarrow> ops d' = ops d \<and> retirements d' = retirements d
     \<and> (\<forall>k. fst (read_cursor d' k) = None \<or> fst (read_cursor d' k) = fst (read_cursor d k))"

lemma tidied_refl [simp]: "tidied d d"
  by (simp add: tidied_def)

lemma tidied_trans: "tidied a b \<Longrightarrow> tidied b c \<Longrightarrow> tidied a c"
  unfolding tidied_def by metis

lemma tidied_same:
  "ops d' = ops d \<Longrightarrow> retirements d' = retirements d \<Longrightarrow> (cursors d', legacy_cursors d') = (cursors d, legacy_cursors d) \<Longrightarrow> tidied d d'"
  using read_cursor_frame [of d' d] by (auto simp: tidied_def)

lemma clear_cursor_tidied: "tidied d (clearReplicationCursorLastApplied now d p s)"
proof -
  have "fst (read_cursor (clearReplicationCursorLastApplied now d p s) k) \<in> {None, fst (read_cursor d k)}" for k
  proof -
    let ?f = "\<lambda>c. c\<lparr> cr_last_applied := None, cr_last_acked := None, cr_updated_at := now \<rparr>"
    have "cursor_key (?f c) = cursor_key c" for c by (simp add: cursor_key_def)
    from find_cursor_clear [where f = ?f and d = d, OF this] show ?thesis
      by (auto simp: read_cursor_def getReplicationCursor_visible visible_cursor_def clearReplicationCursorLastApplied_def Let_def
          coalesce_def split: option.splits)
  qed
  then show ?thesis by (auto simp: tidied_def clearReplicationCursorLastApplied_def Let_def)
qed

lemma deleteCandidate_tidied:
  assumes "deleteCandidate ctx f m cursor res d = Inr (res', d')"
  shows "tidied d d'"
proof (cases f)
  case True
  with assms obtain d1 where d1: "clearRefsBeforeMemoryDeletion ctx d (m_id m) = Inr d1"
    by (auto simp: deleteCandidate_def split: sum.splits)
  let ?d2 = "d1\<lparr> memories := delete_where (\<lambda>x. m_id x = m_id m) (memories d1) \<rparr>"
  have "tidied d ?d2"
    using clearRefsBeforeMemoryDeletion_frame [OF d1] cursor_tables.clear_refs_keeps [OF d1] by (intro tidied_same) simp_all
  moreover have "tidied ?d2 d'"
    using assms True d1 clear_cursor_tidied by (auto simp: deleteCandidate_def Let_def split: option.splits if_splits)
  ultimately show ?thesis by (rule tidied_trans)
qed (use assms in \<open>simp add: deleteCandidate_def\<close>)

lemma with_memo_Inr: "map_sum id (\<lambda>(a, b). (a, b, memo)) x = Inr (r, d', memo') \<longleftrightarrow> x = Inr (r, d') \<and> memo' = memo"
  by (cases x) auto

lemma reconcile_row_tidied:
  "reconcile_row ctx f me sources m (res, d, memo) = Inr (res', d', memo') \<Longrightarrow> tidied d d'"
  by (auto simp: reconcile_row_def Let_def with_memo_Inr dest: deleteCandidate_tidied split: prod.splits bool.splits option.splits sum.splits if_splits)

lemma reconcile_rows_tidied:
  "reconcile_rows ctx f me sources rows st = Inr st' \<Longrightarrow> tidied (fst (snd st)) (fst (snd st'))"
proof (induction rows arbitrary: st)
  case (Cons m rows)
  then obtain st1 where st1: "reconcile_row ctx f me sources m st = Inr st1" "reconcile_rows ctx f me sources rows st1 = Inr st'"
    by (auto split: sum.splits)
  have "tidied (fst (snd st)) (fst (snd st1))"
    using st1(1) reconcile_row_tidied by (cases st; cases st1) fastforce
  then show ?case using Cons.IH [OF st1(2)] tidied_trans by blast
qed simp

lemma reconcile_tidied:
  assumes "reconcileStalePeerReceivedRows fp ctx d opts = Inr (res, d')"
  shows "tidied d d'"
proof -
  from assms obtain f me sources rows memo x where "reconcile_rows ctx f me sources rows (x, d, []) = Inr (res, d', memo)"
    by (auto simp: reconcileStalePeerReceivedRows_def reconcileStalePeerReceivedRowsInternal_def Let_def map_sum_Inr_iff
        split: option.splits)
  from reconcile_rows_tidied [OF this] show ?thesis by simp
qed

text \<open>Pulled ops that went in without an error are in the log, or barred by a retirement.\<close>

lemma apply_pulled_tidied:
  assumes "apply_pulled ctx enabled d rs = (r, d')"
  shows "\<forall>k. fst (read_cursor d' k) = None \<or> fst (read_cursor d' k) = fst (read_cursor d k)"
proof -
  let ?apply = "applyReplicationOps ((pc_apply ctx)\<lparr> ax_local := pc_me ctx \<rparr>)
      (Some \<lparr> io_peer = Some (pc_peer ctx), io_enabled = enabled \<rparr>) d rs"
  obtain res d1 where run: "?apply = (res, d1)" by fastforce
  then have same: "read_cursor d1 k = read_cursor d k" for k
    using cursor_tables.applyReplicationOps_keeps [of "(pc_apply ctx)\<lparr> ax_local := pc_me ctx \<rparr>"
        "Some \<lparr> io_peer = Some (pc_peer ctx), io_enabled = enabled \<rparr>" d rs] by (intro read_cursor_frame) simp_all
  have "d' = d1 \<or> (\<exists>cleanup. reconcileStalePeerReceivedRows (pc_fingerprint ctx) (pc_apply ctx) d1
      \<lparr> ro_local = pc_me ctx, ro_peer = Some (pc_peer ctx), ro_max_rows = None, ro_public_key = pc_public_key ctx \<rparr> = Inr (cleanup, d'))"
    using assms run by (auto simp: apply_pulled_def Let_def split: if_splits sum.splits prod.splits option.splits)
  then show ?thesis using same reconcile_tidied by (fastforce simp: tidied_def)
qed

lemma apply_pulled_delivers:
  assumes "apply_pulled ctx enabled d rs = (Inr res, d')" "ap_errors res = []" "r \<in> set rs"
  shows "delivered ((pc_apply ctx)\<lparr> ax_local := pc_me ctx \<rparr>) r d'"
proof -
  let ?ctx = "(pc_apply ctx)\<lparr> ax_local := pc_me ctx \<rparr>"
  obtain d1 where run: "applyReplicationOps ?ctx (Some \<lparr> io_peer = Some (pc_peer ctx), io_enabled = enabled \<rparr>) d rs = (res, d1)"
      "ap_rejected res = 0" "tidied d1 d'"
    using assms(1) reconcile_tidied by (auto simp: apply_pulled_def Let_def split: if_splits sum.splits prod.splits option.splits)
  have "rejectUnretiredScopeFailures (ax_now ?ctx) d rs (pc_me ctx) \<lparr> io_peer = Some (pc_peer ctx), io_enabled = enabled \<rparr> = None"
  proof (rule ccontr)
    assume "\<not> ?thesis"
    then obtain res0 d0 where "rejectUnretiredScopeFailures (ax_now ?ctx) d rs (pc_me ctx)
        \<lparr> io_peer = Some (pc_peer ctx), io_enabled = enabled \<rparr> = Some (res0, d0)" by auto
    then show False using run(1,2)
      by (auto simp: applyReplicationOps_def rejectUnretiredScopeFailures_def rejectInboundScopeFailures_def Let_def split: if_splits)
  qed
  then have "apply_steps ?ctx rs (emptyApplyResult, d) = (res, d1)" using run(1) by (simp add: applyReplicationOps_def apply_steps_def)
  with steps_deliver [of ?ctx rs "(emptyApplyResult, d)" r] assms(2,3) have "delivered ?ctx r d1"
    by (simp add: op_failures_def)
  moreover have "retirementBlocksMemoryOp d' r = retirementBlocksMemoryOp d1 r"
    using run(3) by (intro retirementBlocks_frame) (simp add: tidied_def)
  ultimately show ?thesis using run(3)
    by (simp add: delivered_def skipOwnRetiredOrAppliedOp_def skipOwnOrRetiredMemoryOp_def tidied_def)
qed


lemma read_written: "fst (read_cursor (setReplicationCursor now d p (Some c) acked k) (p, k)) = Some c"
  using sync_cursor.get_put_same [where s = d and k = "(p, k)" and a = "Some c" and b = acked] by (simp add: write_cursor_def)

lemma cursor_write_frame:
  "ops (setReplicationCursor now d p a b k) = ops d" "retirements (setReplicationCursor now d p a b k) = retirements d"
  by (simp_all add: setReplicationCursor_def mirrorDefaultReplicationCursorToLegacy_def seed_for_scope_def
      seedDefaultReplicationCursorFromLegacy_def Let_def)

lemma cursorAdvances_None: "\<not> cursorAdvances c None"
  by (simp add: cursorAdvances_def)

text \<open>C3: a cursor waits for its ops. The cursor of a scope moves to the next cursor of a page only when every op of that
  page was delivered: it is in the log, or is the device's own, or is of a memory retired here; and all come from the
  peer that was asked. Whatever fails, on the network, in the answer, in the validation, in the cleanup or in the
  application, leaves the cursor where it was or clears it.\<close>

theorem cursor_waits_for_delivery:
  assumes "pull_scope os ctx scope lastApplied b w = Some (res, d', q')"
    "os_get_ops os (ops_query ctx (Some (ad_scope scope)) (ad_reset scope) lastApplied) w = (a, d1, q1)"
  shows "(let k = (pc_peer ctx, Some (ad_scope scope)); before = fst (read_cursor d1 k); after = fst (read_cursor d' k) in
      (after = None \<or> after = before
        \<or> (so_ok res \<and> cursorAdvances lastApplied after \<and> (\<exists>rs. read_ops_answer ctx a = Some (OpsPulled rs after))))
      \<and> (so_ok res \<longrightarrow> (\<exists>rs nextCursor. read_ops_answer ctx a = Some (OpsPulled rs nextCursor)
          \<and> (cursorAdvances lastApplied nextCursor \<longrightarrow> after = nextCursor)
          \<and> (\<forall>r\<in>set rs. op_device_id r = pc_peer ctx \<and> op_clock_device_id r = pc_peer ctx
               \<and> delivered ((pc_apply ctx)\<lparr> ax_local := pc_me ctx \<rparr>) r d'))))"
proof -
  let ?k = "(pc_peer ctx, Some (ad_scope scope))"
  obtain answer where answer: "read_ops_answer ctx a = Some answer" using assms by (auto simp: pull_scope_def Let_def split: option.splits)
  show ?thesis
  proof (cases "\<exists>rs nextCursor r. answer = OpsPulled rs nextCursor \<and> fst (apply_pulled ctx True d1 rs) = Inr r \<and> ap_errors r = []")
    case False
    have "\<not> so_ok res \<and> (fst (read_cursor d' ?k) = None \<or> fst (read_cursor d' ?k) = fst (read_cursor d1 ?k))"
    proof (cases answer)
      case (OpsResetRequired p)
      with assms answer clear_cursor_tidied [of d1 "pc_now ctx" "pc_peer ctx" "Some (ad_scope scope)"] show ?thesis
        by (auto simp: pull_scope_def scope_reset_needed_def scope_failed_def tidied_def Let_def)
    next
      case (OpsPulled rs nextCursor)
      obtain r d2 where pulled: "apply_pulled ctx True d1 rs = (r, d2)" by fastforce
      then have "\<not> so_ok res \<and> d' = d2"
        using assms answer OpsPulled False
        by (auto simp: pull_scope_def scope_failed_def Let_def split: sum.splits pull_failure.splits if_splits)
      with apply_pulled_tidied [OF pulled] show ?thesis by auto
    qed (use assms answer in \<open>auto simp: pull_scope_def scope_failed_def Let_def\<close>)
    then show ?thesis by (simp add: Let_def)
  next
    case True
    then obtain rs nextCursor r d2 where pulled: "answer = OpsPulled rs nextCursor" "apply_pulled ctx True d1 rs = (Inr r, d2)"
      "ap_errors r = []" by (metis prod.collapse)
    then have res: "so_ok res" "d' = (if cursorAdvances lastApplied nextCursor
        then setReplicationCursor (pc_now ctx) d2 (pc_peer ctx) nextCursor None (Some (ad_scope scope)) else d2)"
      using assms answer by (auto simp: pull_scope_def scope_synced_def Let_def)
    have "delivered ((pc_apply ctx)\<lparr> ax_local := pc_me ctx \<rparr>) x d' = delivered ((pc_apply ctx)\<lparr> ax_local := pc_me ctx \<rparr>) x d2" for x
      unfolding res(2) using cursor_write_frame retirementBlocks_frame [OF cursor_write_frame(2)]
      by (simp add: delivered_def skipOwnRetiredOrAppliedOp_def skipOwnOrRetiredMemoryOp_def)
    moreover have "\<forall>r\<in>set rs. delivered ((pc_apply ctx)\<lparr> ax_local := pc_me ctx \<rparr>) r d2" using apply_pulled_delivers [OF pulled(2,3)] by blast
    moreover have "\<forall>r\<in>set rs. op_device_id r = pc_peer ctx \<and> op_clock_device_id r = pc_peer ctx"
      using answer pulled(1) by (auto simp: read_ops_answer_def first_where_None_iff split: sum.splits prod.splits if_splits option.splits)
    moreover have "cursorAdvances lastApplied nextCursor \<Longrightarrow> fst (read_cursor d' ?k) = nextCursor"
      by (cases nextCursor) (simp_all add: res(2) read_written cursorAdvances_None)
    moreover have "\<not> cursorAdvances lastApplied nextCursor \<Longrightarrow> fst (read_cursor d' ?k) = None \<or> fst (read_cursor d' ?k) = fst (read_cursor d1 ?k)"
      using apply_pulled_tidied [OF pulled(2)] by (simp add: res(2))
    ultimately show ?thesis using answer pulled(1) res(1)
      by (cases "cursorAdvances lastApplied nextCursor") (auto simp: Let_def)
  qed
qed


section \<open>Samples\<close>

text \<open>A member that has nothing yet, and a peer that answers every request with one page.\<close>

definition sample_pass :: pass_context where
  "sample_pass = \<lparr> pc_peer = ''here'', pc_me = ''peer'', pc_limit = 500, pc_now = ''2028'', pc_fresh = ''f'', pc_cfg = no_filters,
     pc_apply = sample_context, pc_boot = sample_bootstrap_env, pc_parse = (\<lambda>s. Some (JObj [(''title'', JStr ''t'')])),
     pc_fingerprint = (\<lambda>s. s), pc_public_key = None, pc_vectors = (\<lambda>ups dels. None),
     pc_urls = sample_urls, pc_grant = None \<rparr>"

definition sample_page :: json_obj where
  "sample_page = [(''reset_required'', JBool False), (''generation'', JNum 1), (''snapshot_id'', JStr ''s1''),
     (''baseline_cursor'', JNull), (''retained_floor_cursor'', JNull),
     (''ops'', JArr [op_json (sample_op ''o1'' ''k1'' ''upsert'' 1 ''here'')]), (''next_cursor'', JStr ''2026|o1''), (''skipped'', JNum 0)]"

definition sample_reset :: reset_boundary where
  "sample_reset = \<lparr> rb_scope_id = Some ''team'', rb_generation = 1, rb_snapshot_id = ''s1'', rb_baseline_cursor = None,
     rb_retained_floor_cursor = None \<rparr>"

definition sample_last_page :: page_response where
  "sample_last_page = \<lparr> pw_source = None, pw_items = Some [sample_item], pw_generation = Some 1, pw_snapshot = Some ''s1'',
     pw_baseline = Some None, pw_next = None, pw_more = False \<rparr>"

definition sample_outside :: "(db \<times> unit) outside" where
  "sample_outside = \<lparr> os_status = (\<lambda>w. (Inl ''timeout'', w)), os_get_ops = (\<lambda>q w. (Inr (200, Some sample_page), w)),
     os_post_ops = (\<lambda>rs w. (Inr (200, Some []), w)), os_page = (\<lambda>w ps. (PageAnswered sample_last_page, w)) \<rparr>"

definition sample_advert :: authorized_scope where
  "sample_advert = \<lparr> ad_scope = ''team'', ad_label = None, ad_authority_type = None, ad_epoch = None, ad_reset = sample_reset \<rparr>"

lemma sample_started: "map_option (\<lambda>(res, d, q). (so_ok res, so_reset res, map m_import_key (memories d)))
    (syncOneScope sample_outside sample_pass sample_advert (sample_scope_db, ())) = Some (True, None, [Some ''k1''])"
  by code_simp

lemma sample_pulled: "map_option (\<lambda>(res, d, q). (so_ok res, map m_import_key (memories d)))
    (pull_scope sample_outside sample_pass sample_advert (Some ''2025|o0'') False (sample_scope_db, ())) = Some (True, [Some ''k1''])"
  by code_simp


lemma sample_keeps_rows: "stays_in rows_kept (os_page sample_outside)"
  by (simp add: stays_in_def rows_kept_def sample_outside_def split: prod.splits)

theorem scope_start_loses_nothing_witness:
  "\<exists>res d q. syncOneScope sample_outside sample_pass sample_advert (sample_scope_db, ()) = Some (res, d, q)
    \<and> so_ok res \<and> covers (\<lambda>m. True) (memories sample_scope_db) (memories d) \<and> memories d \<noteq> []"
proof -
  obtain res d q where run: "syncOneScope sample_outside sample_pass sample_advert (sample_scope_db, ()) = Some (res, d, q)"
    "so_ok res" "so_reset res = None" "map m_import_key (memories d) = [Some ''k1'']"
    using sample_started by (cases "syncOneScope sample_outside sample_pass sample_advert (sample_scope_db, ())") auto
  have "read_cursor (fst (sample_scope_db, ())) (pc_peer sample_pass, Some (ad_scope sample_advert)) = (None, None)"
    "None \<noteq> Some SCOPED_NULL_BASELINE_BOOTSTRAP_CURSOR_MARKER"
    "clean_text (Some (ad_scope sample_advert)) = Some (ad_scope sample_advert)"
    "distinct (map m_id (memories (fst (sample_scope_db, ()))))" by code_simp+
  from scope_start_loses_nothing [OF run(1) this sample_keeps_rows] run show ?thesis
    by (auto simp: scope_started_def sample_advert_def)
qed

theorem cursor_waits_for_delivery_witness:
  "\<exists>res d q. pull_scope sample_outside sample_pass sample_advert (Some ''2025|o0'') False (sample_scope_db, ()) = Some (res, d, q)
    \<and> fst (read_cursor d (''here'', Some ''team'')) = Some ''2026|o1''"
proof -
  obtain res d q where run: "pull_scope sample_outside sample_pass sample_advert (Some ''2025|o0'') False (sample_scope_db, ())
      = Some (res, d, q)" "so_ok res" using sample_pulled
    by (cases "pull_scope sample_outside sample_pass sample_advert (Some ''2025|o0'') False (sample_scope_db, ())") auto
  have asked: "os_get_ops sample_outside (ops_query sample_pass (Some (ad_scope sample_advert)) (ad_reset sample_advert) (Some ''2025|o0''))
      (sample_scope_db, ()) = (Inr (200, Some sample_page), sample_scope_db, ())" by (simp add: sample_outside_def)
  have "read_ops_answer sample_pass (Inr (200, Some sample_page)) = Some (OpsPulled [sample_op ''o1'' ''k1'' ''upsert'' 1 ''here''] (Some ''2026|o1''))"
    "cursorAdvances (Some ''2025|o0'') (Some ''2026|o1'')" "pc_peer sample_pass = ''here''" "ad_scope sample_advert = ''team''" by code_simp+
  with cursor_waits_for_delivery [OF run(1) asked] run show ?thesis by (auto simp: Let_def)
qed

end
