(* ===== verification/Sync_Pass.thy ===== *)
theory Sync_Pass
  imports Sync_Exchange
begin

text \<open>
  One sync pass with a peer (\<open>packages/core/src/sync-pass.ts\<close>, lines 170-525 and 1145-1990, with
  \<open>sync-failure-classification.ts\<close>): negotiation, the first bootstrap, the pull and the push of the default scope, the
  scopes the peer advertises, and the record every pass leaves.

  Columns of a peer that only describe contacts (times, the last error, runtime versions) are
  not in the model, so \<open>persistPeerRuntimeVersion\<close> changes nothing here; nor do the additive migrations of the schema.
\<close>

section \<open>Failures as they are stored\<close>

definition word_char :: "char \<Rightarrow> bool" where
  "word_char c \<longleftrightarrow> is_digit c \<or> c = CHR ''_'' \<or> (CHR ''a'' \<le> c \<and> c \<le> CHR ''z'') \<or> (CHR ''A'' \<le> c \<and> c \<le> CHR ''Z'')"

text \<open>\<open>/\b50[234]\b/\<close>, read with the character before.\<close>

fun gateway_status :: "bool \<Rightarrow> string \<Rightarrow> bool" where
  "gateway_status in_word [] = False"
| "gateway_status in_word (c # s) =
     ((\<not> in_word \<and> take 3 (c # s) \<in> {''502'', ''503'', ''504''} \<and> (case drop 2 s of [] \<Rightarrow> True | x # _ \<Rightarrow> \<not> word_char x))
      \<or> gateway_status (word_char c) s)"

definition unreachable_status :: "string \<Rightarrow> bool" where
  "unreachable_status s \<longleftrightarrow> gateway_status False s \<or> text_contains ''sync_auth_store_busy'' s"

text \<open>\<open>text.split(/\s+/)\<close>.\<close>

fun split_spaces :: "bool \<Rightarrow> string \<Rightarrow> string \<Rightarrow> string list" where
  "split_spaces in_space word [] = [word]"
| "split_spaces in_space word (c # s) =
     (if js_space c then (if in_space then split_spaces True word s else word # split_spaces True [] s)
      else split_spaces False (word @ [c]) s)"

definition withoutPeerAddresses :: "string \<Rightarrow> string" where
  "withoutPeerAddresses t = join_text '' '' (filter (\<lambda>token. \<not> text_contains ''://'' token) (split_spaces False [] t))"

definition AGGREGATE_PREFIXES :: "string list" where
  "AGGREGATE_PREFIXES = [''scoped sync incomplete:'', ''inbound apply incomplete'']"

definition ANSWERED_RESPONSE_PHRASES :: "string list" where
  "ANSWERED_RESPONSE_PHRASES = [''peer status failed'', ''peer ops fetch failed'', ''peer ops push failed'', ''snapshot fetch failed'']"

definition classifyRecordedSyncFailure :: "string option \<Rightarrow> failure_category" where
  "classifyRecordedSyncFailure error =
     (let t = js_trim (or_default error []) in
      if t = [] then OtherFailure
      else if list_ex (\<lambda>prefix. starts_with prefix (js_lower t)) AGGREGATE_PREFIXES then OtherFailure
      else
        let plain = withoutPeerAddresses t; lower = js_lower plain in
        if text_contains ''protocol mismatch'' lower then CompatibilityFailure
        else
          let category = categorizeSyncFailure (Some plain);
              peerAnswered = list_ex (\<lambda>phrase. text_contains phrase lower) ANSWERED_RESPONSE_PHRASES
          in if category = ConnectivityFailure \<and> peerAnswered \<and> \<not> unreachable_status lower then OtherFailure else category)"

definition STORED_CATEGORY_PRIORITY :: "failure_category list" where
  "STORED_CATEGORY_PRIORITY = [TrustFailure, ScopeFailure, CompatibilityFailure, ConnectivityFailure]"

definition storedAddressFailureCategory :: "(string \<times> string) list \<Rightarrow> string \<Rightarrow> failure_category" where
  "storedAddressFailureCategory addressErrors fallbackError =
     (if addressErrors = [] then categorizeSyncFailure (Some fallbackError)
      else (let categories = map (\<lambda>(_, e). classifyRecordedSyncFailure (Some e)) addressErrors in
        or_default (first_where (\<lambda>c. c \<in> set categories) STORED_CATEGORY_PRIORITY) OtherFailure))"

definition summarizeAddressErrors :: "(string \<times> string) list \<Rightarrow> string option" where
  "summarizeAddressErrors addressErrors =
     (if addressErrors = [] then None
      else Some (''all addresses failed | '' @ join_text '' || '' (map (\<lambda>(address, e). address @ '': '' @ e) addressErrors)))"

section \<open>The record of a pass\<close>

text \<open>Nothing deletes attempts, so the id SQLite gives a new one is one more than the largest.\<close>

definition capabilityDiagnostics :: "json option \<Rightarrow> sync_capability \<times> sync_capability" where
  "capabilityDiagnostics peerCapability =
     (normalizeSyncCapability peerCapability,
      negotiateSyncCapability (Some (JStr (capability_text LOCAL_SYNC_CAPABILITY)))
        (Some (JStr (capability_text (normalizeSyncCapability peerCapability)))))"

definition defaultCapabilityDiagnostics :: "sync_capability \<times> sync_capability" where
  "defaultCapabilityDiagnostics = capabilityDiagnostics (Some (JStr ''unsupported''))"

record sync_result =
  rz_ok :: bool
  rz_error :: "string option"
  rz_category :: "failure_category option"
  rz_in :: nat
  rz_out :: nat
  rz_skipped :: "skipped_report option"
  rz_address :: "string option"
  rz_address_errors :: "(string \<times> string) list"
  rz_reset :: "(required_reason \<times> reset_boundary) option"
  rz_scopes :: "scope_result list"

definition recordSyncAttempt ::
    "pass_context \<Rightarrow> bool \<Rightarrow> nat \<Rightarrow> nat \<Rightarrow> string option \<Rightarrow> failure_category option \<Rightarrow> sync_capability \<times> sync_capability
     \<Rightarrow> db \<Rightarrow> db" where
  "recordSyncAttempt ctx ok opsIn opsOut error category capabilities d = d\<lparr> sync_attempts := sync_attempts d @
     [\<lparr> at_id = Max (insert 0 (set (map at_id (sync_attempts d)))) + 1, at_peer = pc_peer ctx, at_started_at = pc_now ctx,
        at_finished_at = Some (pc_now ctx), at_ok = (if ok then 1 else 0), at_ops_in = int opsIn, at_ops_out = int opsOut,
        at_error = error, at_local_capability = Some (capability_text LOCAL_SYNC_CAPABILITY),
        at_peer_capability = Some (capability_text (fst capabilities)),
        at_negotiated_capability = Some (capability_text (snd capabilities)),
        at_failure_category = (if ok then None else Some (category_text (or_default category OtherFailure))) \<rparr>] \<rparr>"

section \<open>Negotiation\<close>

record negotiated_peer =
  px_url :: string
  px_status :: json_obj
  px_reset :: reset_boundary
  px_capabilities :: "sync_capability \<times> sync_capability"

text \<open>An error of an address, with the capabilities when the peer told them, and whether it was the protocol.\<close>

record address_failure =
  af_error :: string
  af_capabilities :: "(sync_capability \<times> sync_capability) option"
  af_mismatch :: bool

definition plain_failure :: "string \<Rightarrow> address_failure" where
  "plain_failure e = \<lparr> af_error = thrown e, af_capabilities = None, af_mismatch = False \<rparr>"

definition EXPECTED_SYNC_PROTOCOL_VERSION :: string where "EXPECTED_SYNC_PROTOCOL_VERSION = ''2''"

definition reconcilePeerRowsBeforeExchange :: "pass_context \<Rightarrow> db \<Rightarrow> (string + unit) \<times> db" where
  "reconcilePeerRowsBeforeExchange ctx d =
     (case reconcileStalePeerReceivedRows (pc_fingerprint ctx) (pc_apply ctx) d
             \<lparr> ro_local = pc_me ctx, ro_peer = Some (pc_peer ctx), ro_max_rows = None, ro_public_key = pc_public_key ctx \<rparr> of
        Inl e \<Rightarrow> (Inl e, d)
      | Inr (cleanup, d1) \<Rightarrow>
          if rr_deleted_ids cleanup = [] then (Inr (), d1)
          else (case pc_vectors ctx [] (rr_deleted_ids cleanup) of
              Some (queueError, fallbackError) \<Rightarrow>
                (Inl (''peer recovery vector cleanup failed: '' @ queueError @ ''; fallback failed: '' @ fallbackError), d1)
            | None \<Rightarrow> (Inr (), d1)))"

text \<open>The grant the peer was added with is used up once the peer has answered.\<close>

definition redeem_grant :: "pass_context \<Rightarrow> db \<Rightarrow> db" where
  "redeem_grant ctx d = (case pc_grant ctx of
     None \<Rightarrow> d
   | Some g \<Rightarrow> d\<lparr> peers := update_where (\<lambda>p. p_device p = pc_peer ctx \<and> p_pending_grant p = Some g)
       (\<lambda>p. p\<lparr> p_pending_grant := None \<rparr>) (peers d) \<rparr>)"

definition negotiatePeerExchange ::
    "(db \<times> 'q) outside \<Rightarrow> pass_context \<Rightarrow> string \<Rightarrow> string \<Rightarrow> db \<times> 'q \<Rightarrow> (address_failure + negotiated_peer) \<times> db \<times> 'q" where
  "negotiatePeerExchange os ctx pinnedFingerprint url w = (case os_status os w of
     (Inl e, w1) \<Rightarrow> (Inl (plain_failure e), w1)
   | (Inr (status, payload), (d1, q1)) \<Rightarrow>
       if status \<noteq> 200 then (Inl (plain_failure (failed_with ''peer status failed'' status payload)), d1, q1)
       else (case payload of
          None \<Rightarrow> (Inl (plain_failure (failed_with ''peer status failed'' status None)), d1, q1)
        | Some p \<Rightarrow>
            if field ''fingerprint'' p \<noteq> Some (JStr pinnedFingerprint)
            then (Inl (plain_failure ''peer fingerprint mismatch''), d1, q1)
            else
              let capabilities = capabilityDiagnostics (field ''sync_capability'' p);
                  failed = (\<lambda>e mismatch. \<lparr> af_error = thrown e, af_capabilities = Some capabilities, af_mismatch = mismatch \<rparr>);
                  version = (if nullish (field ''protocol_version'' p) then None else map_option js_String (field ''protocol_version'' p))
              in if or_default version [] \<noteq> EXPECTED_SYNC_PROTOCOL_VERSION
                 then (Inl (failed (''peer protocol mismatch (expected '' @ EXPECTED_SYNC_PROTOCOL_VERSION @ '', got ''
                        @ or_default version ''missing'' @ '')'') True), d1, q1)
                 else (case parsePeerResetBoundary (Some p) of
                    None \<Rightarrow> (Inl (failed ''peer status missing sync_reset boundary'' False), d1, q1)
                  | Some reset \<Rightarrow>
                      (case reconcilePeerRowsBeforeExchange ctx d1 of
                         (Inl e, d2) \<Rightarrow> (Inl (failed e False), d2, q1)
                       | (Inr _, d2) \<Rightarrow> (Inr \<lparr> px_url = url, px_status = p, px_reset = reset, px_capabilities = capabilities \<rparr>,
                           redeem_grant ctx d2, q1)))))"

section \<open>Snapshots of the default exchange\<close>

definition peer_succeeded :: "pass_context \<Rightarrow> negotiated_peer \<Rightarrow> db \<Rightarrow> db" where
  "peer_succeeded ctx peer d = snd (recordPeerSuccess (pc_urls ctx) d (pc_peer ctx) (Some (px_url peer)))"

definition sharedMemoryCount :: "db \<Rightarrow> nat" where
  "sharedMemoryCount d = length (filter (\<lambda>m. m_import_key m \<noteq> None) (memories d))"

definition failed_pass :: "negotiated_peer \<Rightarrow> string \<Rightarrow> failure_category \<Rightarrow> (required_reason \<times> reset_boundary) option \<Rightarrow> sync_result" where
  "failed_pass peer error category reset = \<lparr> rz_ok = False, rz_error = Some error, rz_category = Some category, rz_in = 0, rz_out = 0,
     rz_skipped = None, rz_address = Some (px_url peer), rz_address_errors = [], rz_reset = reset, rz_scopes = [] \<rparr>"

definition snapshotAccessDenied ::
    "pass_context \<Rightarrow> negotiated_peer \<Rightarrow> required_reason \<times> reset_boundary \<Rightarrow> db \<Rightarrow> (sync_result \<times> db) option" where
  "snapshotAccessDenied ctx peer reset d = (case truthy (rb_scope_id (snd reset)) of
     None \<Rightarrow> None
   | Some s \<Rightarrow> map_option (\<lambda>reason.
       (let error = ''reset_required:'' @ required_reason_text reason in
        (failed_pass peer error (scopeResetFailureCategory reason) (Some (reason, snd reset)),
         recordSyncAttempt ctx False 0 0 (Some error) (Some (scopeResetFailureCategory reason)) (px_capabilities peer) d)))
       (scopedSnapshotAccessFailure d s (pc_peer ctx) (pc_me ctx)))"

definition incomplete_text :: "scope_result list \<Rightarrow> string" where
  "incomplete_text results = ''scoped sync incomplete: '' @ join_text ''; ''
     (map (\<lambda>r. so_scope r @ ''='' @ or_default (so_error r) ''unknown'') (filter (\<lambda>r. \<not> so_ok r) results))"

definition scoped_part ::
    "(db \<times> 'q) outside \<Rightarrow> pass_context \<Rightarrow> negotiated_peer \<Rightarrow> db \<times> 'q \<Rightarrow> (scope_result list \<times> nat \<times> db \<times> 'q) option" where
  "scoped_part os ctx peer w =
     (if snd (px_capabilities peer) = Scoped
      then runScopedSync os ctx (parseAuthorizedScopes (field ''authorized_scopes'' (px_status peer))) w
      else Some ([], 0, w))"

definition finishInitialBootstrap ::
    "(db \<times> 'q) outside \<Rightarrow> pass_context \<Rightarrow> negotiated_peer \<Rightarrow> reset_boundary \<Rightarrow> snapshot_page_item list \<Rightarrow> db \<times> 'q
     \<Rightarrow> ((string + sync_result) \<times> db \<times> 'q) option" where
  "finishInitialBootstrap os ctx peer info items w =
     (case applyBootstrapSnapshot (pc_boot ctx) (fst w) (pc_peer ctx) items info of
        Inl e \<Rightarrow> Some (Inl e, w)
      | Inr (bootstrap, d1) \<Rightarrow>
          (case scoped_part os ctx peer (d1, snd w) of
             None \<Rightarrow> None
           | Some (results, scopedIn, (d2, q2)) \<Rightarrow>
               let ok = list_all so_ok results; category = aggregateScopeFailureCategory results;
                   opsIn = br_applied bootstrap + scopedIn
               in Some (Inr \<lparr> rz_ok = ok, rz_error = None, rz_category = category, rz_in = opsIn, rz_out = 0, rz_skipped = None,
                    rz_address = Some (px_url peer), rz_address_errors = [], rz_reset = None, rz_scopes = results \<rparr>,
                  recordSyncAttempt ctx ok opsIn 0 (if ok then None else Some (incomplete_text results)) category
                    (px_capabilities peer) (peer_succeeded ctx peer d2), q2)))"

definition performInitialBootstrap ::
    "(db \<times> 'q) outside \<Rightarrow> pass_context \<Rightarrow> negotiated_peer \<Rightarrow> db \<times> 'q \<Rightarrow> ((string + sync_result) \<times> db \<times> 'q) option" where
  "performInitialBootstrap os ctx peer w =
     (case snapshotAccessDenied ctx peer (InitialBootstrap, px_reset peer) (fst w) of
        Some (res, d1) \<Rightarrow> Some (Inr res, d1, snd w)
      | None \<Rightarrow>
          (case fetchAllSnapshotPages (os_page os) (px_reset peer) (bootstrap_options ctx (Some BOOTSTRAP_PAGE_SIZE)) w of
             None \<Rightarrow> None
           | Some (Inl e, w1) \<Rightarrow> Some (Inl e, w1)
           | Some (Inr (items, _), (d1, q1)) \<Rightarrow>
               let n = sharedMemoryCount d1 in
               if n > 0
               then Some (Inr (failed_pass peer (''needs attention: '' @ nat_digits n
                      @ '' shared memory change(s) appeared during initial bootstrap fetch'') OtherFailure None),
                    recordSyncAttempt ctx False 0 0 (Some ''needs_attention:shared_memories_appeared_during_bootstrap'')
                      (Some OtherFailure) (px_capabilities peer) d1, q1)
               else finishInitialBootstrap os ctx peer (px_reset peer) items (d1, q1)))"

text \<open>\<open>Inr None\<close>: there is nothing to bootstrap.\<close>

definition tryInitialBootstrap ::
    "(db \<times> 'q) outside \<Rightarrow> pass_context \<Rightarrow> negotiated_peer \<Rightarrow> string option \<times> string option \<Rightarrow> db \<times> 'q
     \<Rightarrow> ((string + sync_result option) \<times> db \<times> 'q) option" where
  "tryInitialBootstrap os ctx peer known w =
     (if known \<noteq> (None, None) \<or> sharedMemoryCount (fst w) \<noteq> 0 then Some (Inr None, w)
      else map_option (\<lambda>(r, w1). ((case r of Inl e \<Rightarrow> Inl (''initial bootstrap failed: '' @ e) | Inr res \<Rightarrow> Inr (Some res)), w1))
             (performInitialBootstrap os ctx peer w))"


definition reset_reason_of :: "json option \<Rightarrow> required_reason" where
  "reset_reason_of v = (case v of
     Some (JStr s) \<Rightarrow> or_default (first_where (\<lambda>r. required_reason_text r = s)
       [GenerationReset, BoundaryReset, ScopeMissing, ScopeNotSupported]) StaleCursorReset
   | _ \<Rightarrow> StaleCursorReset)"

definition resetRequiredFromPayload :: "json_obj \<Rightarrow> required_reason \<times> reset_boundary" where
  "resetRequiredFromPayload p = (reset_reason_of (field ''reason'' p),
     \<lparr> rb_scope_id = as_text (field ''scope_id'' p),
       rb_generation = or_default (whole (json_Number (if nullish (field ''generation'' p) then None else field ''generation'' p))) 1,
       rb_snapshot_id = (if nullish (field ''snapshot_id'' p) then [] else js_String (the (field ''snapshot_id'' p))),
       rb_baseline_cursor = asOptionalCursor (field ''baseline_cursor'' p),
       rb_retained_floor_cursor = asOptionalCursor (field ''retained_floor_cursor'' p) \<rparr>)"

definition resetBlockedResult :: "negotiated_peer \<Rightarrow> nat \<Rightarrow> required_reason \<times> reset_boundary \<Rightarrow> bool \<Rightarrow> sync_result" where
  "resetBlockedResult peer n reset during = failed_pass peer (''needs attention: '' @ nat_digits n @ '' unsynced shared memory change(s)''
     @ (if during then '' appeared during bootstrap fetch'' else '' block automatic reset'')) OtherFailure (Some reset)"

definition blocked_attempt :: "pass_context \<Rightarrow> negotiated_peer \<Rightarrow> nat \<Rightarrow> db \<Rightarrow> db" where
  "blocked_attempt ctx peer n = recordSyncAttempt ctx False 0 0
     (Some (''needs_attention:local_unsynced_shared_memory:'' @ nat_digits n)) (Some OtherFailure) (px_capabilities peer)"

definition failedResetBootstrap ::
    "pass_context \<Rightarrow> negotiated_peer \<Rightarrow> required_reason \<times> reset_boundary \<Rightarrow> string \<Rightarrow> db \<Rightarrow> sync_result \<times> db" where
  "failedResetBootstrap ctx peer reset e d = (failed_pass peer (''bootstrap failed: '' @ e) OtherFailure (Some reset),
     recordSyncAttempt ctx False 0 0 (Some (''bootstrap_failed:'' @ e)) (Some OtherFailure) (px_capabilities peer) d)"

definition performResetBootstrap ::
    "(db \<times> 'q) outside \<Rightarrow> pass_context \<Rightarrow> negotiated_peer \<Rightarrow> required_reason \<times> reset_boundary \<Rightarrow> db \<times> 'q
     \<Rightarrow> (sync_result \<times> db \<times> 'q) option" where
  "performResetBootstrap os ctx peer reset w =
     (let (d, q) = w; (dirty, n) = hasUnsyncedSharedMemoryChanges d 25 in
      if dirty then Some (resetBlockedResult peer n reset False, blocked_attempt ctx peer n d, q)
      else (case snapshotAccessDenied ctx peer reset d of
          Some (res, d1) \<Rightarrow> Some (res, d1, q)
        | None \<Rightarrow>
            (case fetchAllSnapshotPages (os_page os) (snd reset) (bootstrap_options ctx None) (d, q) of
               None \<Rightarrow> None
             | Some (Inl e, (d1, q1)) \<Rightarrow> (case failedResetBootstrap ctx peer reset e d1 of (res, d2) \<Rightarrow> Some (res, d2, q1))
             | Some (Inr (items, _), (d1, q1)) \<Rightarrow>
                 (case hasUnsyncedSharedMemoryChanges d1 25 of (dirty1, n1) \<Rightarrow>
                  if dirty1 then Some (resetBlockedResult peer n1 reset True, blocked_attempt ctx peer n1 d1, q1)
                  else (case applyBootstrapSnapshot (pc_boot ctx) d1 (pc_peer ctx) items (snd reset) of
                      Inl e \<Rightarrow> (case failedResetBootstrap ctx peer reset e d1 of (res, d2) \<Rightarrow> Some (res, d2, q1))
                    | Inr (bootstrap, d2) \<Rightarrow>
                        Some (\<lparr> rz_ok = True, rz_error = None, rz_category = None, rz_in = br_applied bootstrap, rz_out = 0,
                            rz_skipped = None, rz_address = Some (px_url peer), rz_address_errors = [], rz_reset = None, rz_scopes = [] \<rparr>,
                          recordSyncAttempt ctx True (br_applied bootstrap) 0 None None (px_capabilities peer)
                            (peer_succeeded ctx peer d2), q1))))))"

section \<open>Pull and push of the default scope\<close>

datatype pulled_default = PulledThrew string | PulledResult sync_result | PulledOps "replication_op list" "string option"

definition pullDefaultScope ::
    "(db \<times> 'q) outside \<Rightarrow> pass_context \<Rightarrow> negotiated_peer \<Rightarrow> string option \<Rightarrow> db \<times> 'q \<Rightarrow> (pulled_default \<times> db \<times> 'q) option" where
  "pullDefaultScope os ctx peer lastApplied w =
     (case os_get_ops os (ops_query ctx None (px_reset peer) lastApplied) w of (a, w1) \<Rightarrow>
      (case read_ops_answer ctx a of
         None \<Rightarrow> None
       | Some (OpsThrew e) \<Rightarrow> Some (PulledThrew e, w1)
       | Some (OpsResetRequired p) \<Rightarrow>
           map_option (\<lambda>(res, w2). (PulledResult res, w2)) (performResetBootstrap os ctx peer (resetRequiredFromPayload p) w1)
       | Some (OpsFailed status payload) \<Rightarrow> Some (PulledThrew (failed_with ''peer ops fetch failed'' status payload), w1)
       | Some OpsInvalid \<Rightarrow> Some (PulledThrew ''invalid ops response'', w1)
       | Some (OpsMismatched opId) \<Rightarrow> Some (PulledThrew (''inbound op device mismatch:'' @ opId), w1)
       | Some (OpsPulled rs nextCursor) \<Rightarrow> Some (PulledOps rs nextCursor, w1)))"

definition applyPulledDefaultOps ::
    "pass_context \<Rightarrow> negotiated_peer \<Rightarrow> replication_op list \<Rightarrow> string option \<Rightarrow> string option \<Rightarrow> db
     \<Rightarrow> (string + apply_result \<times> string option) \<times> db" where
  "applyPulledDefaultOps ctx peer rs nextCursor lastApplied d =
     (case apply_pulled ctx (snd (px_capabilities peer) \<noteq> sync_capability.Unsupported) d rs of
        (Inl (PullRefused reason), d1) \<Rightarrow> (Inl (''inbound scope rejected:'' @ reason), d1)
      | (Inl (CleanupThrew e), d1) \<Rightarrow> (Inl e, d1)
      | (Inl (VectorsFailed queueError fallbackError), d1) \<Rightarrow>
          (Inl (''vector catch-up queue failed: '' @ queueError @ ''; fallback failed: '' @ fallbackError), d1)
      | (Inr res, d1) \<Rightarrow>
          if ap_errors res \<noteq> [] \<or> \<not> cursorAdvances lastApplied nextCursor then (Inr (res, lastApplied), d1)
          else (Inr (res, nextCursor), setReplicationCursor (pc_now ctx) d1 (pc_peer ctx) nextCursor None None))"

definition MAX_PUSH_SPLIT_DEPTH :: nat where "MAX_PUSH_SPLIT_DEPTH = 8"
definition MAX_SYNC_BODY_BYTES :: int where "MAX_SYNC_BODY_BYTES = 1048576"

text \<open>A body the peer calls too large is cut in halves, at most eight times.\<close>

function pushOps :: "'w outside \<Rightarrow> replication_op list \<Rightarrow> nat \<Rightarrow> 'w \<Rightarrow> (string + unit) \<times> 'w" where
  "pushOps os rs depth w =
     (if rs = [] then (Inr (), w)
      else (case os_post_ops os rs w of
          (Inl e, w1) \<Rightarrow> (Inl e, w1)
        | (Inr (status, payload), w1) \<Rightarrow>
            if status = 200 \<and> payload \<noteq> None then (Inr (), w1)
            else if status = 413 \<and> length rs > 1 \<and> depth < MAX_PUSH_SPLIT_DEPTH
                 \<and> errorDetail payload \<in> {Some ''payload_too_large'', Some ''too_many_ops''}
            then (case pushOps os (take (length rs div 2) rs) (depth + 1) w1 of
                (Inl e, w2) \<Rightarrow> (Inl e, w2)
              | (Inr _, w2) \<Rightarrow> pushOps os (drop (length rs div 2) rs) (depth + 1) w2)
            else (Inl (failed_with ''peer ops push failed'' status payload), w1)))"
  by pat_completeness auto
termination by (relation "measure (\<lambda>(os, rs, depth, w). MAX_PUSH_SPLIT_DEPTH - depth)") auto

declare pushOps.simps [simp del]

fun pushBatches :: "'w outside \<Rightarrow> replication_op list list \<Rightarrow> 'w \<Rightarrow> (string + unit) \<times> 'w" where
  "pushBatches os [] w = (Inr (), w)"
| "pushBatches os (batch # batches) w = (case pushOps os batch 0 w of
     (Inl e, w1) \<Rightarrow> (Inl e, w1) | (Inr _, w1) \<Rightarrow> pushBatches os batches w1)"

definition cut_cursor :: "string \<Rightarrow> string \<times> string" where
  "cut_cursor cursor = or_default (split_cursor cursor) (cursor, [])"

definition loadLocalOpsSince :: "db \<Rightarrow> string option \<Rightarrow> string \<Rightarrow> int \<Rightarrow> replication_op list \<times> string option" where
  "loadLocalOpsSince d cursor deviceId limit =
     (let wanted = (case truthy cursor of None \<Rightarrow> (\<lambda>r. True) | Some c \<Rightarrow> (\<lambda>r. op_position r > cut_cursor c));
          rows = sql_limit limit (sort_key op_position (filter (\<lambda>r. op_device_id r = deviceId \<and> wanted r) (ops d)))
      in (rows, if rows = [] then None else Some (op_cursor (last rows))))"

record pushed_ops =
  pu_ops :: "replication_op list"
  pu_skipped :: "skipped_report option"
  pu_last_acked :: "string option"

definition pushDefaultScope ::
    "(db \<times> 'q) outside \<Rightarrow> pass_context \<Rightarrow> negotiated_peer \<Rightarrow> string option \<Rightarrow> db \<times> 'q \<Rightarrow> (string + pushed_ops) \<times> db \<times> 'q" where
  "pushDefaultScope os ctx peer lastAcked w =
     (let (window, outboundCursor) = loadLocalOpsSince (fst w) lastAcked (pc_me ctx) (pc_limit ctx);
          (outbound, filteredCursor, skipped) = filterReplicationOpsForSyncWithStatus (pc_cfg ctx) (fst w) window (Some (pc_peer ctx))
            \<lparr> fo_local_device = Some (pc_me ctx), fo_apply_scope = True,
              fo_supports_reassign = supportsSyncFeature (field ''sync_features'' (px_status peer)) ''reassign_scope'' \<rparr>
      in case chunkOpsBySize outbound MAX_SYNC_BODY_BYTES of
           Inl e \<Rightarrow> (Inl e, w)
         | Inr batches \<Rightarrow>
             (case pushBatches os batches w of
                (Inl e, w1) \<Rightarrow> (Inl e, w1)
              | (Inr _, (d1, q1)) \<Rightarrow>
                  let ackCursor = coalesce filteredCursor outboundCursor in
                  if given ackCursor \<and> cursorAdvances lastAcked ackCursor
                  then (Inr \<lparr> pu_ops = outbound, pu_skipped = skipped, pu_last_acked = ackCursor \<rparr>,
                        setReplicationCursor (pc_now ctx) d1 (pc_peer ctx) None ackCursor None, q1)
                  else (Inr \<lparr> pu_ops = outbound, pu_skipped = skipped, pu_last_acked = lastAcked \<rparr>, d1, q1)))"

definition finishIncrementalExchange ::
    "(db \<times> 'q) outside \<Rightarrow> pass_context \<Rightarrow> negotiated_peer \<Rightarrow> apply_result \<Rightarrow> pushed_ops \<Rightarrow> db \<times> 'q
     \<Rightarrow> (sync_result \<times> db \<times> 'q) option" where
  "finishIncrementalExchange os ctx peer applied pushed w = (case scoped_part os ctx peer w of
     None \<Rightarrow> None
   | Some (results, scopedIn, (d1, q1)) \<Rightarrow>
       let scopesOk = list_all so_ok results; incomplete = (ap_errors applied \<noteq> []);
           errors = (if incomplete then [''inbound apply incomplete: '' @ nat_digits (length (ap_errors applied))
                 @ '' op(s) failed; cursor held for retry''] else [])
             @ (if scopesOk then [] else [incomplete_text results]);
           ok = (scopesOk \<and> \<not> incomplete); error = (if errors = [] then None else Some (join_text ''; '' errors));
           category = (if incomplete then Some OtherFailure else aggregateScopeFailureCategory results);
           opsIn = ap_applied applied + scopedIn; opsOut = length (pu_ops pushed)
       in Some (\<lparr> rz_ok = ok, rz_error = error, rz_category = category, rz_in = opsIn, rz_out = opsOut,
            rz_skipped = pu_skipped pushed, rz_address = Some (px_url peer), rz_address_errors = [], rz_reset = None,
            rz_scopes = results \<rparr>,
          recordSyncAttempt ctx ok opsIn opsOut error category (px_capabilities peer)
            (if incomplete then d1 else peer_succeeded ctx peer d1), q1))"

section \<open>The pass\<close>

text \<open>An address succeeds with a result or fails; the cursors it has reached stay known for the next one.\<close>

definition syncAddress ::
    "(db \<times> 'q) outside \<Rightarrow> pass_context \<Rightarrow> string \<Rightarrow> string \<Rightarrow> string option \<times> string option \<Rightarrow> db \<times> 'q
     \<Rightarrow> ((address_failure + sync_result) \<times> (string option \<times> string option) \<times> db \<times> 'q) option" where
  "syncAddress os ctx pinnedFingerprint url known w =
     (case negotiatePeerExchange os ctx pinnedFingerprint url w of
        (Inl failure, w1) \<Rightarrow> Some (Inl failure, known, w1)
      | (Inr peer, w1) \<Rightarrow>
          let failed = (\<lambda>e. Inl \<lparr> af_error = thrown e, af_capabilities = Some (px_capabilities peer), af_mismatch = False \<rparr>) in
          (case tryInitialBootstrap os ctx peer known w1 of
             None \<Rightarrow> None
           | Some (Inl e, w2) \<Rightarrow> Some (failed e, known, w2)
           | Some (Inr (Some res), w2) \<Rightarrow> Some (Inr res, known, w2)
           | Some (Inr None, w2) \<Rightarrow>
               (case pullDefaultScope os ctx peer (fst known) w2 of
                  None \<Rightarrow> None
                | Some (PulledThrew e, w3) \<Rightarrow> Some (failed e, known, w3)
                | Some (PulledResult res, w3) \<Rightarrow> Some (Inr res, known, w3)
                | Some (PulledOps rs nextCursor, (d3, q3)) \<Rightarrow>
                    (case applyPulledDefaultOps ctx peer rs nextCursor (fst known) d3 of
                       (Inl e, d4) \<Rightarrow> Some (failed e, known, d4, q3)
                     | (Inr (applied, lastApplied), d4) \<Rightarrow>
                         (case pushDefaultScope os ctx peer (snd known) (d4, q3) of
                            (Inl e, w5) \<Rightarrow> Some (failed e, (lastApplied, snd known), w5)
                          | (Inr pushed, w5) \<Rightarrow>
                              map_option (\<lambda>(res, w6). (Inr res, (lastApplied, pu_last_acked pushed), w6))
                                (finishIncrementalExchange os ctx peer applied pushed w5))))))"

definition failedAddressResult ::
    "pass_context \<Rightarrow> (string \<times> string) list \<Rightarrow> bool \<Rightarrow> (sync_capability \<times> sync_capability) option \<Rightarrow> bool \<Rightarrow> db
     \<Rightarrow> sync_result \<times> db" where
  "failedAddressResult ctx addressErrors attemptedAny capabilities protocolMismatch d =
     (let error = (if \<not> attemptedAny then ''no dialable peer addresses''
            else or_default (summarizeAddressErrors addressErrors) ''sync failed without diagnostic detail'')
      in (\<lparr> rz_ok = False, rz_error = Some error, rz_category = Some (categorizeSyncFailure (Some error)), rz_in = 0, rz_out = 0,
            rz_skipped = None, rz_address = None, rz_address_errors = addressErrors, rz_reset = None, rz_scopes = [] \<rparr>,
          recordSyncAttempt ctx False 0 0 (Some error)
            (Some (if protocolMismatch then CompatibilityFailure else storedAddressFailureCategory addressErrors error))
            (or_default capabilities defaultCapabilityDiagnostics) d))"

fun try_addresses ::
    "(string \<Rightarrow> (db \<times> 'q) outside) \<Rightarrow> pass_context \<Rightarrow> string \<Rightarrow> string option \<times> string option \<Rightarrow> string list
     \<Rightarrow> (string \<times> string) list \<times> bool \<times> (sync_capability \<times> sync_capability) option \<times> bool \<Rightarrow> db \<times> 'q
     \<Rightarrow> (sync_result \<times> db \<times> 'q) option" where
  "try_addresses net ctx pinned known [] (errors, attempted, capabilities, mismatch) w =
     (case failedAddressResult ctx errors attempted capabilities mismatch (fst w) of (res, d) \<Rightarrow> Some (res, d, snd w))"
| "try_addresses net ctx pinned known (address # rest) (errors, attempted, capabilities, mismatch) w =
     (let baseUrl = buildBaseUrl address in
      if baseUrl = [] then try_addresses net ctx pinned known rest (errors, attempted, capabilities, mismatch) w
      else (case syncAddress (net baseUrl) ctx pinned baseUrl known w of
          None \<Rightarrow> None
        | Some (Inr res, _, w1) \<Rightarrow> Some (res, w1)
        | Some (Inl failure, known1, w1) \<Rightarrow>
            try_addresses net ctx pinned known1 rest
              (errors @ [(baseUrl, af_error failure)], True, coalesce (af_capabilities failure) capabilities,
               mismatch \<or> af_mismatch failure) w1))"

definition tryPeerAddresses ::
    "(string \<Rightarrow> (db \<times> 'q) outside) \<Rightarrow> pass_context \<Rightarrow> string \<Rightarrow> string option \<times> string option \<Rightarrow> string list \<Rightarrow> db \<times> 'q
     \<Rightarrow> (sync_result \<times> db \<times> 'q) option" where
  "tryPeerAddresses net ctx pinned known addresses w =
     try_addresses net ctx pinned known (mergeAddresses (pc_urls ctx) addresses [] (at_most MAX_PEER_ADDRESSES))
       ([], False, None, False) w"

definition peerPin :: "db \<Rightarrow> string \<Rightarrow> string" where
  "peerPin d peer = (case first_where (\<lambda>p. p_device p = peer) (peers d) of
     None \<Rightarrow> [] | Some p \<Rightarrow> or_default (p_pinned_fingerprint p) [])"

definition peerGrant :: "db \<Rightarrow> string \<Rightarrow> string option" where
  "peerGrant d peer = (case first_where (\<lambda>p. p_device p = peer) (peers d) of
     None \<Rightarrow> None | Some p \<Rightarrow> clean_text (p_pending_grant p))"

text \<open>The identity of the device is what \<open>ensureDeviceIdentity\<close> gives: an error text or the device id.\<close>

definition unavailableIdentityResult :: "pass_context \<Rightarrow> string \<Rightarrow> db \<Rightarrow> sync_result \<times> db" where
  "unavailableIdentityResult ctx e d =
     (let message = ''device identity unavailable: '' @ thrown e in
      (\<lparr> rz_ok = False, rz_error = Some message, rz_category = Some OtherFailure, rz_in = 0, rz_out = 0, rz_skipped = None,
         rz_address = None, rz_address_errors = [], rz_reset = None, rz_scopes = [] \<rparr>,
       recordSyncAttempt ctx False 0 0 (Some message) (Some OtherFailure) defaultCapabilityDiagnostics d))"

definition prepareSyncExchange ::
    "pass_context \<Rightarrow> string + string \<Rightarrow> db
     \<Rightarrow> (sync_result + string \<times> pass_context \<times> (string option \<times> string option)) \<times> db" where
  "prepareSyncExchange ctx identity d =
     (let pinned = peerPin d (pc_peer ctx) in
      if pinned = []
      then (Inl \<lparr> rz_ok = False, rz_error = Some ''peer not pinned'', rz_category = Some TrustFailure, rz_in = 0, rz_out = 0,
        rz_skipped = None, rz_address = None, rz_address_errors = [], rz_reset = None, rz_scopes = [] \<rparr>, d)
      else (case identity of
          Inl e \<Rightarrow> (case unavailableIdentityResult ctx e d of (res, d1) \<Rightarrow> (Inl res, d1))
        | Inr deviceId \<Rightarrow>
            (case getReplicationCursor d (pc_peer ctx) None of
               (known, d1) \<Rightarrow>
                  (Inr (pinned, ctx\<lparr> pc_me := deviceId, pc_grant := peerGrant d (pc_peer ctx) \<rparr>, known), d1))))"

definition syncOnce ::
    "(string \<Rightarrow> (db \<times> 'q) outside) \<Rightarrow> pass_context \<Rightarrow> string + string \<Rightarrow> string list \<Rightarrow> db \<times> 'q
     \<Rightarrow> (sync_result \<times> db \<times> 'q) option" where
  "syncOnce net ctx identity addresses w = (case prepareSyncExchange ctx identity (fst w) of
     (Inl res, d) \<Rightarrow> Some (res, d, snd w)
   | (Inr (pinned, ctx1, known), d) \<Rightarrow> tryPeerAddresses net ctx1 pinned known addresses (d, snd w))"

definition runSyncPass ::
    "(string \<Rightarrow> (db \<times> 'q) outside) \<Rightarrow> pass_context \<Rightarrow> string + string \<Rightarrow> db \<times> 'q \<Rightarrow> (sync_result \<times> db \<times> 'q) option" where
  "runSyncPass net ctx identity w = syncOnce net ctx identity (loadPeerAddresses (fst w) (pc_peer ctx)) w"

end
