(* ===== verification/Pass_Properties.thy ===== *)
theory Pass_Properties
  imports Sync_Pass
begin

text \<open>
  What a sync pass guarantees (\<open>packages/core/src/sync-pass.ts\<close>): the push acknowledges what the peer has taken and nothing
  else, every pass leaves one record that agrees with its result, and a pass returns.
\<close>

section \<open>What a peer has taken\<close>

text \<open>The same world with a note of the ops the peer accepted, in the order in which it did.\<close>

definition accepted :: "answer \<Rightarrow> bool" where
  "accepted a \<longleftrightarrow> (case a of Inr (status, payload) \<Rightarrow> status = 200 \<and> payload \<noteq> None | Inl _ \<Rightarrow> False)"

definition beside :: "(db \<times> 'q \<Rightarrow> 'a \<times> db \<times> 'q) \<Rightarrow> db \<times> 'q \<times> 'n \<Rightarrow> 'a \<times> db \<times> 'q \<times> 'n" where
  "beside f w = (case w of (d, q, n) \<Rightarrow> (case f (d, q) of (a, d', q') \<Rightarrow> (a, d', q', n)))"

definition noting :: "(db \<times> 'q) outside \<Rightarrow> (db \<times> 'q \<times> replication_op list) outside" where
  "noting os = \<lparr> os_status = beside (os_status os), os_get_ops = (\<lambda>query. beside (os_get_ops os query)),
     os_post_ops = (\<lambda>rs w. case beside (os_post_ops os rs) w of
       (a, d, q, taken) \<Rightarrow> (a, d, q, if accepted a then taken @ rs else taken)),
     os_page = (\<lambda>w ps. beside (\<lambda>w. os_page os w ps) w) \<rparr>"

lemma post_notes:
  "os_post_ops (noting os) rs (d, q, taken) = (a, d', q', taken') \<Longrightarrow> taken' = (if accepted a then taken @ rs else taken)"
  by (auto simp: noting_def beside_def split: prod.splits)

text \<open>No op is passed over: what was taken is the front of what was to be sent, all of it when the push succeeds.\<close>

definition in_order :: "replication_op list \<Rightarrow> replication_op list \<Rightarrow> (string + unit) \<Rightarrow> replication_op list \<Rightarrow> bool" where
  "in_order taken rs r taken' \<longleftrightarrow> (\<exists>n. taken' = taken @ take n rs) \<and> (r = Inr () \<longrightarrow> taken' = taken @ rs)"

lemma in_order_parts:
  assumes "in_order taken xs r1 taken1"
  shows "r1 = Inl e \<Longrightarrow> in_order taken (xs @ ys) (Inl e) taken1"
    "r1 = Inr () \<Longrightarrow> in_order taken1 ys r taken2 \<Longrightarrow> in_order taken (xs @ ys) r taken2"
proof -
  assume "r1 = Inl e"
  from assms obtain n where "taken1 = taken @ take n xs" by (auto simp: in_order_def)
  then have "taken1 = taken @ take (min n (length xs)) (xs @ ys)" by (simp add: min_def)
  then show "in_order taken (xs @ ys) (Inl e) taken1" unfolding in_order_def by blast
next
  assume "r1 = Inr ()" "in_order taken1 ys r taken2"
  then obtain n where "taken2 = taken @ xs @ take n ys" using assms by (auto simp: in_order_def)
  then have "taken2 = taken @ take (length xs + n) (xs @ ys)" by simp
  then show "in_order taken (xs @ ys) r taken2"
    using \<open>r1 = Inr ()\<close> \<open>in_order taken1 ys r taken2\<close> assms unfolding in_order_def by (metis append.assoc)
qed

lemma pushOps_in_order:
  "pushOps (noting os) rs depth (d, q, taken) = (r, d', q', taken') \<Longrightarrow> in_order taken rs r taken'"
proof (induction "MAX_PUSH_SPLIT_DEPTH - depth" arbitrary: rs depth d q taken r d' q' taken' rule: less_induct)
  case less
  show ?case
  proof (cases "rs = []")
    case True
    with less.prems show ?thesis by (simp add: pushOps.simps in_order_def)
  next
    case False
    obtain a d1 q1 taken1 where post: "os_post_ops (noting os) rs (d, q, taken) = (a, d1, q1, taken1)" by (metis prod_cases4)
    note noted = post_notes [OF post]
    show ?thesis
    proof (cases "\<exists>payload. a = Inr (413, payload) \<and> length rs > 1 \<and> depth < MAX_PUSH_SPLIT_DEPTH
        \<and> errorDetail payload \<in> {Some ''payload_too_large'', Some ''too_many_ops''}")
      case plain: False
      have "taken1 = taken' \<and> (r = Inr () \<longrightarrow> accepted a) \<and> (accepted a \<longrightarrow> r = Inr ())"
        using less.prems False post plain by (subst (asm) pushOps.simps) (auto simp: accepted_def split: sum.splits if_splits)
      then show ?thesis using noted unfolding in_order_def by (metis append.right_neutral take0 take_all_iff order_refl)
    next
      case True
      then obtain payload where a: "a = Inr (413, payload)" "length rs > 1" "depth < MAX_PUSH_SPLIT_DEPTH"
        "errorDetail payload \<in> {Some ''payload_too_large'', Some ''too_many_ops''}" by blast
      let ?mid = "length rs div 2"
      obtain r1 d2 q2 taken2 where half: "pushOps (noting os) (take ?mid rs) (depth + 1) (d1, q1, taken1) = (r1, d2, q2, taken2)"
        by (metis prod_cases4)
      have run: "pushOps (noting os) rs depth (d, q, taken) = (case r1 of Inl e \<Rightarrow> (Inl e, d2, q2, taken2)
          | Inr _ \<Rightarrow> pushOps (noting os) (drop ?mid rs) (depth + 1) (d2, q2, taken2))"
        using False post a half by (subst pushOps.simps) (simp split: sum.splits)
      have same: "taken1 = taken" using noted a(1) by (simp add: accepted_def)
      have "in_order taken1 (take ?mid rs) r1 taken2"
        by (rule less.hyps [OF _ half]) (use a(3) in simp)
      note first = this [unfolded same]
      show ?thesis
      proof (cases r1)
        case (Inl e)
        with in_order_parts(1) [OF first, of e "drop ?mid rs"] less.prems run show ?thesis by simp
      next
        case (Inr u)
        then have rest: "pushOps (noting os) (drop ?mid rs) (depth + 1) (d2, q2, taken2) = (r, d', q', taken')"
          using less.prems run by simp
        have "in_order taken2 (drop ?mid rs) r taken'"
          by (rule less.hyps [OF _ rest]) (use a(3) in simp)
        with in_order_parts(2) [OF first] Inr show ?thesis by (metis append_take_drop_id old.unit.exhaust)
      qed
    qed
  qed
qed


lemma pushBatches_in_order:
  "pushBatches (noting os) batches (d, q, taken) = (r, d', q', taken') \<Longrightarrow> in_order taken (concat batches) r taken'"
proof (induction batches arbitrary: d q taken)
  case (Cons batch batches)
  obtain r1 d1 q1 taken1 where push: "pushOps (noting os) batch 0 (d, q, taken) = (r1, d1, q1, taken1)" by (metis prod_cases4)
  note first = pushOps_in_order [OF push]
  show ?case
  proof (cases r1)
    case (Inl e)
    with in_order_parts(1) [OF first, of e "concat batches"] Cons.prems push show ?thesis by simp
  next
    case (Inr u)
    with Cons push in_order_parts(2) [OF first] show ?thesis by simp
  qed
qed (simp add: in_order_def)

text \<open>The window of local ops: those after the cursor, up to the last one it holds.\<close>

definition unacknowledged :: "pass_context \<Rightarrow> string option \<Rightarrow> replication_op \<Rightarrow> bool" where
  "unacknowledged ctx lastAcked r \<longleftrightarrow> op_device_id r = pc_me ctx
     \<and> (case truthy lastAcked of None \<Rightarrow> True | Some c \<Rightarrow> op_position r > cut_cursor c)"

lemma sql_limit_take: "\<exists>k. sql_limit n xs = take k xs"
  by (auto simp: sql_limit_def intro: exI [of _ "length xs"])

lemma front_of_sorted:
  fixes pos :: "'a \<Rightarrow> 'b::linorder"
  assumes "sorted (map pos xs)" "distinct (map pos xs)" "x \<in> set xs" "take k xs \<noteq> []" "pos x \<le> pos (last (take k xs))"
  shows "x \<in> set (take k xs)"
proof (rule ccontr)
  assume "x \<notin> set (take k xs)"
  with assms(3) have x: "x \<in> set (drop k xs)" by (metis Un_iff append_take_drop_id set_append)
  have l: "last (take k xs) \<in> set (take k xs)" using assms(4) by (rule last_in_set)
  have "sorted (map pos (take k xs) @ map pos (drop k xs))" "distinct (map pos (take k xs) @ map pos (drop k xs))"
    using assms(1,2) by (simp_all flip: map_append)
  then have "pos (last (take k xs)) \<le> pos x" "pos (last (take k xs)) \<noteq> pos x" using x l by (auto simp: sorted_append)
  with assms(5) show False by simp
qed

lemma window_complete:
  assumes "loadLocalOpsSince d lastAcked (pc_me ctx) limit = (window, Some c)" "distinct (map op_id (ops d))"
    "CHR ''|'' \<notin> set (op_created_at (last window))" "x \<in> set (ops d)" "unacknowledged ctx lastAcked x" "op_position x \<le> cut_cursor c"
  shows "x \<in> set window"
proof -
  let ?all = "sort_key op_position (filter (unacknowledged ctx lastAcked) (ops d))"
  have window: "window = sql_limit limit ?all" "window \<noteq> []" "c = op_cursor (last window)"
    using assms(1) by (auto simp: loadLocalOpsSince_def unacknowledged_def [abs_def] Let_def split: option.splits if_splits)
  obtain k where k: "window = take k ?all" using window(1) sql_limit_take by metis
  have "cut_cursor c = op_position (last window)"
    using parse_computeCursor [OF assms(3)] by (simp add: window(3) cut_cursor_def op_cursor_def parseCursor_def op_position_def)
  moreover have "distinct (map op_position ?all)"
  proof -
    have "inj_on op_id (set (ops d))" "distinct (ops d)" using assms(2) by (simp_all add: distinct_map)
    then have "inj_on op_position (set ?all)" by (auto simp: inj_on_def op_position_def)
    then show ?thesis using \<open>distinct (ops d)\<close> by (simp add: distinct_map)
  qed
  moreover have "x \<in> set ?all" using assms(4,5) by simp
  ultimately show ?thesis using front_of_sorted [of op_position ?all x k] assms(6) k window(2) by (simp add: sorted_sort_key)
qed

definition push_decision :: "pass_context \<Rightarrow> negotiated_peer \<Rightarrow> db \<Rightarrow> replication_op \<Rightarrow> skip_detail option" where
  "push_decision ctx peer d = outbound_decision (pc_cfg ctx) d (Some (pc_peer ctx))
     \<lparr> fo_local_device = Some (pc_me ctx), fo_apply_scope = True,
       fo_supports_reassign = supportsSyncFeature (field ''sync_features'' (px_status peer)) ''reassign_scope'' \<rparr>"

text \<open>C4: a push acknowledges what the peer took. The ops the peer accepted, across batches and bodies that were cut in
  halves, are the front of those the outbound filter lets pass, in their order; and when the cursor moves, every op of
  this device between the old and the new position was either accepted or is one the filter holds back.\<close>

theorem push_acknowledges_what_was_taken:
  assumes "pushDefaultScope (noting os) ctx peer lastAcked (d, q, taken) = (r, d', q', taken')"
    "distinct (map op_id (ops d))" "\<forall>x\<in>set (ops d). CHR ''|'' \<notin> set (op_created_at x)"
  shows "(\<exists>n. taken' = taken @ take n (filter (\<lambda>x. push_decision ctx peer d x = None)
        (fst (loadLocalOpsSince d lastAcked (pc_me ctx) (pc_limit ctx)))))
    \<and> (case r of Inl e \<Rightarrow> True | Inr pushed \<Rightarrow> taken' = taken @ pu_ops pushed
        \<and> (pu_last_acked pushed \<noteq> lastAcked \<longrightarrow> snd (read_cursor d' (pc_peer ctx, None)) = pu_last_acked pushed
            \<and> (\<forall>x\<in>set (ops d). unacknowledged ctx lastAcked x \<and> op_position x \<le> cut_cursor (the (pu_last_acked pushed))
                 \<longrightarrow> x \<in> set (pu_ops pushed) \<or> push_decision ctx peer d x \<noteq> None)))"
proof -
  obtain window c0 where window: "loadLocalOpsSince d lastAcked (pc_me ctx) (pc_limit ctx) = (window, c0)" by fastforce
  let ?out = "filter (\<lambda>x. push_decision ctx peer d x = None) window"
  have c0: "c0 = (if window = [] then None else Some (op_cursor (last window)))"
    using window by (auto simp: loadLocalOpsSince_def Let_def)
  obtain skipped where filtered: "filterReplicationOpsForSyncWithStatus (pc_cfg ctx) d window (Some (pc_peer ctx))
      \<lparr> fo_local_device = Some (pc_me ctx), fo_apply_scope = True,
        fo_supports_reassign = supportsSyncFeature (field ''sync_features'' (px_status peer)) ''reassign_scope'' \<rparr> = (?out, c0, skipped)"
    by (simp add: filterReplicationOps_result push_decision_def [symmetric] c0 op_cursor_def Let_def)
  have same: "coalesce c0 c0 = c0" by (cases c0) simp_all
  note run = assms(1) [unfolded pushDefaultScope_def fst_conv window filtered Let_def prod.case same]
  show ?thesis
  proof (cases "chunkOpsBySize ?out MAX_SYNC_BODY_BYTES")
    case (Inl e)
    with run have "r = Inl e" "taken' = taken" by simp_all
    then show ?thesis by (auto intro: exI [of _ 0])
  next
    case (Inr batches)
    have concat: "concat batches = ?out"
      using chunk_loop_result [of MAX_SYNC_BODY_BYTES "[]" "[]" WRAPPER_OVERHEAD ?out batches] Inr
      by (simp add: chunkOpsBySize_def maximal_batches_def)
    obtain r1 d1 q1 taken1 where push: "pushBatches (noting os) batches (d, q, taken) = (r1, d1, q1, taken1)" by (metis prod_cases4)
    note order = pushBatches_in_order [OF push, unfolded concat]
    show ?thesis
    proof (cases r1)
      case (Inl e)
      with run Inr push have "r = Inl e" "taken' = taken1" by simp_all
      with order window show ?thesis by (simp add: in_order_def)
    next
      case ok: (Inr u)
      have taken1: "taken1 = taken @ ?out" using order ok by (simp add: in_order_def)
      have "taken' = taken1" using run Inr push ok by (auto split: if_splits)
      moreover obtain pushed where r: "r = Inr pushed" "pu_ops pushed = ?out" using run Inr push ok by (auto split: if_splits)
      moreover have "snd (read_cursor d' (pc_peer ctx, None)) = pu_last_acked pushed
          \<and> (\<forall>x\<in>set (ops d). unacknowledged ctx lastAcked x \<and> op_position x \<le> cut_cursor (the (pu_last_acked pushed))
                 \<longrightarrow> x \<in> set (pu_ops pushed) \<or> push_decision ctx peer d x \<noteq> None)"
        if moved: "pu_last_acked pushed \<noteq> lastAcked"
      proof -
        have acked: "pu_last_acked pushed = c0" "d' = setReplicationCursor (pc_now ctx) d1 (pc_peer ctx) None c0 None" "given c0"
          using run Inr push ok r moved by (auto split: if_splits)
        then obtain c where c: "c0 = Some c" "window \<noteq> []" using c0 by (auto simp: given_def split: if_splits)
        have "last window \<in> set (ops d)" using window c(2) by (auto simp: loadLocalOpsSince_def Let_def sql_limit_def
              dest!: in_set_takeD last_in_set split: if_splits)
        then have "CHR ''|'' \<notin> set (op_created_at (last window))" using assms(3) by blast
        with window_complete [OF window [unfolded c(1)] assms(2)] have
          "\<forall>x\<in>set (ops d). unacknowledged ctx lastAcked x \<and> op_position x \<le> cut_cursor c \<longrightarrow> x \<in> set window" by blast
        moreover have "snd (read_cursor d' (pc_peer ctx, None)) = Some c"
          using sync_cursor.get_put_same [where s = d1 and k = "(pc_peer ctx, None)" and a = None and b = "Some c"]
          by (simp add: acked(2) c(1) write_cursor_def)
        ultimately show ?thesis using acked(1) c(1) r(2) by auto
      qed
      ultimately show ?thesis using taken1 window by (auto intro: exI [of _ "length ?out"])
    qed
  qed
qed


section \<open>The record a pass leaves\<close>

text \<open>Requests during which nothing else writes attempts.\<close>

definition same_record :: "db \<times> 'q \<Rightarrow> db \<times> 'q \<Rightarrow> bool" where
  "same_record w w' \<longleftrightarrow> sync_attempts (fst w') = sync_attempts (fst w)"

definition record_left_alone :: "(db \<times> 'q) outside \<Rightarrow> bool" where
  "record_left_alone os \<longleftrightarrow> stays_in same_record (\<lambda>w (u :: unit). os_status os w) \<and> stays_in same_record (\<lambda>w query. os_get_ops os query w)
     \<and> stays_in same_record (\<lambda>w rs. os_post_ops os rs w) \<and> stays_in same_record (os_page os)"

lemma request_keeps_record:
  assumes "record_left_alone os"
  shows "os_status os w = (a, w') \<Longrightarrow> sync_attempts (fst w') = sync_attempts (fst w)"
    "os_get_ops os qs w = (a, w') \<Longrightarrow> sync_attempts (fst w') = sync_attempts (fst w)"
    "os_post_ops os rs w = (a, w') \<Longrightarrow> sync_attempts (fst w') = sync_attempts (fst w)"
  using assms unfolding record_left_alone_def stays_in_def same_record_def by (metis snd_conv)+

lemma fetch_keeps_record:
  assumes "record_left_alone os" "fetchAllSnapshotPages (os_page os) info opts w = Some (r, w')"
  shows "sync_attempts (fst w') = sync_attempts (fst w)"
proof -
  have "reflp (same_record :: db \<times> 'a \<Rightarrow> db \<times> 'a \<Rightarrow> bool)" "transp (same_record :: db \<times> 'a \<Rightarrow> db \<times> 'a \<Rightarrow> bool)"
    by (simp_all add: same_record_def reflp_def transp_def)
  from fetch_respects [OF assms(2) _ this] assms(1) show ?thesis by (simp add: record_left_alone_def same_record_def)
qed

lemma apply_pulled_keeps_record: "apply_pulled ctx enabled d rs = (r, d') \<Longrightarrow> sync_attempts d' = sync_attempts d"
proof -
  assume run: "apply_pulled ctx enabled d rs = (r, d')"
  obtain res d1 where applied: "applyReplicationOps ((pc_apply ctx)\<lparr> ax_local := pc_me ctx \<rparr>)
      (Some \<lparr> io_peer = Some (pc_peer ctx), io_enabled = enabled \<rparr>) d rs = (res, d1)" by fastforce
  have "sync_attempts d1 = sync_attempts d" using attempts.applyReplicationOps_keeps applied by (metis snd_conv)
  with run applied show ?thesis
    by (auto simp: apply_pulled_def Let_def dest: attempts.reconcile_keeps split: if_splits sum.splits prod.splits option.splits)
qed

lemma scope_keeps_record:
  assumes "record_left_alone os" "syncOneScope os ctx scope w = Some (res, w')"
  shows "sync_attempts (fst w') = sync_attempts (fst w)"
proof -
  have recover: "sync_attempts (fst w2) = sync_attempts (fst w1)" if "recover_scope os ctx scope w1 = Some (res, w2)" for w1 w2
    using that by (auto simp: recover_scope_def Let_def split: option.splits sum.splits prod.splits
        dest!: fetch_keeps_record [OF assms(1)] attempts.mergeBootstrapSnapshot_keeps)
  have bootstrap: "sync_attempts (fst w2) = sync_attempts (fst w1)" if "bootstrap_scope os ctx scope w1 = Some (res, w2)" for w1 w2
    using that by (auto simp: bootstrap_scope_def Let_def split: option.splits sum.splits prod.splits if_splits
        dest!: fetch_keeps_record [OF assms(1)] attempts.applyBootstrapSnapshot_keeps)
  have pull: "sync_attempts (fst w2) = sync_attempts (fst w1)" if "pull_scope os ctx scope c b w1 = Some (res, w2)" for c b w1 w2
    using that by (auto simp: pull_scope_def Let_def attempts.cursor_writes
        split: option.splits sum.splits prod.splits if_splits ops_answer.splits pull_failure.splits
        dest!: request_keeps_record(2) [OF assms(1)] apply_pulled_keeps_record)
  have read: "sync_attempts d = sync_attempts (fst w)" if "getReplicationCursor (fst w) p k = (c, d)" for p k c d
    using that attempts.cursor_writes(3) [of "fst w" p k] by simp
  show ?thesis
    using assms(2) by (auto simp: syncOneScope_def Let_def split: option.splits prod.splits if_splits dest!: recover bootstrap pull read)
qed

lemma scopes_keep_record:
  "record_left_alone os \<Longrightarrow> runScopedSync os ctx adverts w = Some (results, n, w') \<Longrightarrow> sync_attempts (fst w') = sync_attempts (fst w)"
proof (induction adverts arbitrary: w results n)
  case (Cons scope rest)
  then obtain res w1 results1 n1 where "syncOneScope os ctx scope w = Some (res, w1)"
      "runScopedSync os ctx rest w1 = Some (results1, n1, w')" by (auto split: option.splits)
  with Cons.IH [OF Cons.prems(1)] scope_keeps_record [OF Cons.prems(1)] show ?case by metis
qed simp

lemma scoped_part_keeps_record:
  "record_left_alone os \<Longrightarrow> scoped_part os ctx peer w = Some (results, n, w') \<Longrightarrow> sync_attempts (fst w') = sync_attempts (fst w)"
  by (auto simp: scoped_part_def split: if_splits dest: scopes_keep_record)

lemma pushOps_keeps_record:
  "record_left_alone os \<Longrightarrow> pushOps os rs depth w = (r, w') \<Longrightarrow> sync_attempts (fst w') = sync_attempts (fst w)"
proof (induction os rs depth w arbitrary: r w' rule: pushOps.induct)
  case (1 os rs depth w)
  note asked = request_keeps_record(3) [OF "1.prems"(1), where w = w]
  show ?case
  proof (cases "rs = []")
    case False
    obtain a w1 where post: "os_post_ops os rs w = (a, w1)" by (metis prod.exhaust)
    have kept: "sync_attempts (fst w1) = sync_attempts (fst w)" using asked [OF post] .
    show ?thesis
    proof (cases "\<exists>payload. a = Inr (413, payload) \<and> length rs > 1 \<and> depth < MAX_PUSH_SPLIT_DEPTH
        \<and> errorDetail payload \<in> {Some ''payload_too_large'', Some ''too_many_ops''}")
      case plain: False
      have "w' = w1" using "1.prems"(2) False post plain
        by (subst (asm) pushOps.simps) (auto split: sum.splits if_splits)
      with kept show ?thesis by simp
    next
      case True
      then obtain payload where a: "a = Inr (413, payload)" "length rs > 1" "depth < MAX_PUSH_SPLIT_DEPTH"
        "errorDetail payload \<in> {Some ''payload_too_large'', Some ''too_many_ops''}" by blast
      obtain r1 w2 where half: "pushOps os (take (length rs div 2) rs) (depth + 1) w1 = (r1, w2)" by (metis prod.exhaust)
      have first: "sync_attempts (fst w2) = sync_attempts (fst w1)"
        using "1.IH"(1) [OF False post [symmetric] a(1) refl] "1.prems"(1) a half by auto
      show ?thesis
      proof (cases r1)
        case (Inl e)
        then show ?thesis using "1.prems"(2) False post a half first kept by (subst (asm) pushOps.simps) (auto split: sum.splits)
      next
        case (Inr u)
        then have "pushOps os (drop (length rs div 2) rs) (depth + 1) w2 = (r, w')"
          using "1.prems"(2) False post a half by (subst (asm) pushOps.simps) (auto split: sum.splits)
        then have "sync_attempts (fst w') = sync_attempts (fst w2)"
          using "1.IH"(2) [OF False post [symmetric] a(1) refl] "1.prems"(1) a half Inr by auto
        with first kept show ?thesis by simp
      qed
    qed
  qed (use "1.prems"(2) in \<open>simp add: pushOps.simps\<close>)
qed

lemma push_keeps_record:
  assumes "record_left_alone os" "pushDefaultScope os ctx peer c w = (r, w')"
  shows "sync_attempts (fst w') = sync_attempts (fst w)"
proof -
  have batches: "sync_attempts (fst w2) = sync_attempts (fst w1)" if "pushBatches os bs w1 = (r1, w2)" for bs r1 w1 w2
    using that
  proof (induction bs arbitrary: w1)
    case (Cons b bs)
    then show ?case by (auto dest!: pushOps_keeps_record [OF assms(1)] split: prod.splits sum.splits)
  qed simp
  show ?thesis
    using assms(2) by (auto simp: pushDefaultScope_def Let_def attempts.cursor_writes dest!: batches split: prod.splits sum.splits if_splits)
qed

text \<open>One row more, newer than the rest, that says what the result says.\<close>

definition pass_recorded :: "pass_context \<Rightarrow> db \<Rightarrow> sync_result \<Rightarrow> db \<Rightarrow> bool" where
  "pass_recorded ctx d res d' \<longleftrightarrow> (\<exists>row. sync_attempts d' = sync_attempts d @ [row]
     \<and> (\<forall>a\<in>set (sync_attempts d). at_id a < at_id row) \<and> at_peer row = pc_peer ctx
     \<and> at_ok row = (if rz_ok res then 1 else 0) \<and> at_ops_in row = int (rz_in res) \<and> at_ops_out row = int (rz_out res)
     \<and> (at_error row = None \<longleftrightarrow> rz_ok res) \<and> (at_failure_category row = None \<longleftrightarrow> rz_ok res))"

lemma attempt_recorded:
  assumes "sync_attempts d1 = sync_attempts d" "e = None \<longleftrightarrow> ok" "rz_ok res = ok" "rz_in res = i" "rz_out res = n"
  shows "pass_recorded ctx d res (recordSyncAttempt ctx ok i n e category capabilities d1)"
proof -
  have "a \<in> set (sync_attempts d) \<Longrightarrow> at_id a < Max (insert 0 (set (map at_id (sync_attempts d)))) + 1" for a
    using Max_ge [of "insert 0 (set (map at_id (sync_attempts d)))" "at_id a"] by auto
  then show ?thesis using assms by (auto simp: pass_recorded_def recordSyncAttempt_def)
qed

lemma success_keeps_record [simp]: "sync_attempts (peer_succeeded ctx peer d) = sync_attempts d"
  by (simp add: peer_succeeded_def recordPeerSuccess_def Let_def)

lemma recorded_frame: "sync_attempts d1 = sync_attempts d \<Longrightarrow> pass_recorded ctx d1 res d' \<Longrightarrow> pass_recorded ctx d res d'"
  by (simp add: pass_recorded_def)

lemma access_recorded: "snapshotAccessDenied ctx peer reset d = Some (res, d') \<Longrightarrow> pass_recorded ctx d res d'"
  by (auto simp: snapshotAccessDenied_def failed_pass_def Let_def intro!: attempt_recorded split: option.splits)

lemma initial_recorded:
  assumes "record_left_alone os" "performInitialBootstrap os ctx peer w = Some (r, w')"
  shows "case r of Inl e \<Rightarrow> sync_attempts (fst w') = sync_attempts (fst w) | Inr res \<Rightarrow> pass_recorded ctx (fst w) res (fst w')"
proof -
  have finish: "case r of Inl e \<Rightarrow> w2 = w1 | Inr res \<Rightarrow> pass_recorded ctx (fst w1) res (fst w2)"
    if "finishInitialBootstrap os ctx peer info items w1 = Some (r, w2)" for info items w1 w2 r
    using that by (auto simp: finishInitialBootstrap_def Let_def split: option.splits sum.splits prod.splits
        intro!: attempt_recorded dest!: attempts.applyBootstrapSnapshot_keeps scoped_part_keeps_record [OF assms(1)])
  show ?thesis
  proof (cases "snapshotAccessDenied ctx peer (InitialBootstrap, px_reset peer) (fst w)")
    case (Some denied)
    with assms(2) access_recorded show ?thesis by (auto simp: performInitialBootstrap_def split: prod.splits)
  next
    case None
    obtain a d1 q1 where fetch: "fetchAllSnapshotPages (os_page os) (px_reset peer) (bootstrap_options ctx (Some BOOTSTRAP_PAGE_SIZE)) w
        = Some (a, d1, q1)" using assms(2) None by (auto simp: performInitialBootstrap_def split: option.splits prod.splits)
    have kept: "sync_attempts d1 = sync_attempts (fst w)" using fetch_keeps_record [OF assms(1) fetch] by simp
    show ?thesis
    proof (cases "\<exists>items b. a = Inr (items, b) \<and> sharedMemoryCount d1 = 0")
      case True
      then obtain items where "finishInitialBootstrap os ctx peer (px_reset peer) items (d1, q1) = Some (r, w')"
        using assms(2) None fetch by (auto simp: performInitialBootstrap_def Let_def)
      from finish [OF this] kept show ?thesis by (auto intro: recorded_frame split: sum.splits)
    next
      case False
      with assms(2) None fetch kept show ?thesis
        by (auto simp: performInitialBootstrap_def failed_pass_def Let_def intro!: attempt_recorded split: sum.splits)
    qed
  qed
qed

lemma reset_recorded:
  assumes "record_left_alone os" "performResetBootstrap os ctx peer reset w = Some (res, w')"
  shows "pass_recorded ctx (fst w) res (fst w')"
  using assms(2)
  by (auto simp: performResetBootstrap_def failedResetBootstrap_def blocked_attempt_def resetBlockedResult_def failed_pass_def Let_def
      intro!: attempt_recorded dest!: access_recorded attempts.applyBootstrapSnapshot_keeps fetch_keeps_record [OF assms(1)]
      split: option.splits sum.splits prod.splits if_splits)

lemma pull_recorded:
  assumes "record_left_alone os" "pullDefaultScope os ctx peer c w = Some (p, w')"
  shows "case p of PulledResult res \<Rightarrow> pass_recorded ctx (fst w) res (fst w') | _ \<Rightarrow> sync_attempts (fst w') = sync_attempts (fst w)"
proof -
  obtain a w1 where get: "os_get_ops os (ops_query ctx None (px_reset peer) c) w = (a, w1)" by (metis prod.exhaust)
  note kept = request_keeps_record(2) [OF assms(1) get]
  obtain x where x: "read_ops_answer ctx a = Some x" using assms(2) get by (auto simp: pullDefaultScope_def split: option.splits)
  show ?thesis
  proof (cases x)
    case (OpsResetRequired b)
    then obtain res where "performResetBootstrap os ctx peer (resetRequiredFromPayload b) w1 = Some (res, w')" "p = PulledResult res"
      using assms(2) get x by (auto simp: pullDefaultScope_def)
    with reset_recorded [OF assms(1)] recorded_frame [OF kept] show ?thesis by simp
  qed (use assms(2) get x kept in \<open>auto simp: pullDefaultScope_def\<close>)
qed

lemma pulled_keeps_record: "applyPulledDefaultOps ctx peer rs c c0 d = (r, d') \<Longrightarrow> sync_attempts d' = sync_attempts d"
  by (auto simp: applyPulledDefaultOps_def attempts.cursor_writes dest!: apply_pulled_keeps_record
      split: prod.splits sum.splits pull_failure.splits if_splits)

lemma finish_recorded:
  assumes "record_left_alone os" "finishIncrementalExchange os ctx peer applied pushed w = Some (res, w')"
  shows "pass_recorded ctx (fst w) res (fst w')"
  using assms(2) by (auto simp: finishIncrementalExchange_def Let_def intro!: attempt_recorded
      dest!: scoped_part_keeps_record [OF assms(1)] split: option.splits prod.splits if_splits)

lemma negotiate_keeps_record:
  assumes "record_left_alone os" "negotiatePeerExchange os ctx pinned url w = (r, w')"
  shows "sync_attempts (fst w') = sync_attempts (fst w)"
proof -
  have reconcile: "sync_attempts d2 = sync_attempts d1" if "reconcilePeerRowsBeforeExchange ctx d1 = (x, d2)" for d1 x d2
    using that by (auto simp: reconcilePeerRowsBeforeExchange_def dest!: attempts.reconcile_keeps
        split: sum.splits prod.splits if_splits option.splits)
  have redeem: "sync_attempts (redeem_grant ctx d) = sync_attempts d" for d
    by (simp add: redeem_grant_def split: option.splits)
  show ?thesis using assms(2)
    by (auto simp: negotiatePeerExchange_def Let_def redeem dest!: request_keeps_record(1) [OF assms(1)] reconcile
        split: sum.splits prod.splits if_splits option.splits)
qed

lemma address_recorded:
  assumes "record_left_alone os" "syncAddress os ctx pinned url known w = Some (r, known', w')"
  shows "case r of Inl failure \<Rightarrow> sync_attempts (fst w') = sync_attempts (fst w) | Inr res \<Rightarrow> pass_recorded ctx (fst w) res (fst w')"
proof -
  obtain n w1 where n: "negotiatePeerExchange os ctx pinned url w = (n, w1)" by (metis prod.exhaust)
  note kept1 = negotiate_keeps_record [OF assms(1) n]
  show ?thesis
  proof (cases n)
    case (Inl failure)
    with assms(2) n kept1 show ?thesis by (auto simp: syncAddress_def)
  next
    case (Inr peer)
    obtain t w2 where t: "tryInitialBootstrap os ctx peer known w1 = Some (t, w2)"
      using assms(2) n Inr by (auto simp: syncAddress_def Let_def split: option.splits prod.splits)
    have first: "case t of Inr (Some res) \<Rightarrow> pass_recorded ctx (fst w) res (fst w2) | _ \<Rightarrow> sync_attempts (fst w2) = sync_attempts (fst w)"
    proof (cases "known \<noteq> (None, None) \<or> sharedMemoryCount (fst w1) \<noteq> 0")
      case True
      with t kept1 show ?thesis by (auto simp: tryInitialBootstrap_def)
    next
      case False
      with t obtain r where run: "performInitialBootstrap os ctx peer w1 = Some (r, w2)"
        "t = (case r of Inl e \<Rightarrow> Inl (''initial bootstrap failed: '' @ e) | Inr res \<Rightarrow> Inr (Some res))"
        by (auto simp: tryInitialBootstrap_def)
      from initial_recorded [OF assms(1) run(1)] run(2) kept1 recorded_frame [OF kept1] show ?thesis by (cases r) simp_all
    qed
    show ?thesis
    proof (cases "t = Inr None")
      case False
      with assms(2) n Inr t first show ?thesis by (auto simp: syncAddress_def Let_def split: sum.splits option.splits)
    next
      case True
      with first have kept2: "sync_attempts (fst w2) = sync_attempts (fst w)" by simp
      obtain p d3 q3 where p: "pullDefaultScope os ctx peer (fst known) w2 = Some (p, d3, q3)"
        using assms(2) n Inr t True by (auto simp: syncAddress_def Let_def split: option.splits prod.splits)
      note pulled = pull_recorded [OF assms(1) p]
      show ?thesis
      proof (cases "\<exists>rs nextCursor. p = PulledOps rs nextCursor")
        case False
        with assms(2) n Inr t True p pulled kept2 recorded_frame [OF kept2] show ?thesis
          by (cases p) (auto simp: syncAddress_def Let_def)
      next
        case ops: True
        then obtain rs nextCursor where ops: "p = PulledOps rs nextCursor" by blast
        obtain a d4 where a: "applyPulledDefaultOps ctx peer rs nextCursor (fst known) d3 = (a, d4)" by (metis prod.exhaust)
        obtain b w5 where b: "pushDefaultScope os ctx peer (snd known) (d4, q3) = (b, w5)" by (metis prod.exhaust)
        have kept4: "sync_attempts d4 = sync_attempts (fst w)" using pulled_keeps_record [OF a] pulled ops kept2 by simp
        then have kept5: "sync_attempts (fst w5) = sync_attempts (fst w)" using push_keeps_record [OF assms(1) b] by simp
        show ?thesis
        proof (cases "\<exists>applied lastApplied pushed. a = Inr (applied, lastApplied) \<and> b = Inr pushed")
          case False
          with assms(2) n Inr t True p ops a b kept4 kept5 show ?thesis
            by (cases a; cases b) (auto simp: syncAddress_def Let_def)
        next
          case True
          then obtain applied pushed where "finishIncrementalExchange os ctx peer applied pushed w5 = Some (projr r, w')" "r = Inr (projr r)"
            using assms(2) n Inr t \<open>t = Inr None\<close> p ops a b by (auto simp: syncAddress_def Let_def)
          with finish_recorded [OF assms(1)] recorded_frame [OF kept5] show ?thesis by (metis sum.case(2))
        qed
      qed
    qed
  qed
qed

lemma addresses_recorded:
  assumes "\<And>url. record_left_alone (net url)"
  shows "try_addresses net ctx pinned known addresses st w = Some (res, w') \<Longrightarrow> pass_recorded ctx (fst w) res (fst w')"
proof (induction addresses arbitrary: known st w)
  case Nil
  obtain errors attempted capabilities mismatch where st: "st = (errors, attempted, capabilities, mismatch)" by (metis prod_cases4)
  with Nil show ?case by (auto simp: failedAddressResult_def Let_def intro!: attempt_recorded split: prod.splits)
next
  case (Cons address rest)
  obtain errors attempted capabilities mismatch where st: "st = (errors, attempted, capabilities, mismatch)" by (metis prod_cases4)
  let ?url = "buildBaseUrl address"
  show ?case
  proof (cases "?url = []")
    case False
    then obtain r known1 w1 where step: "syncAddress (net ?url) ctx pinned ?url known w = Some (r, known1, w1)"
      using Cons.prems st by (auto simp: Let_def split: option.splits)
    note one = address_recorded [OF assms step]
    show ?thesis
    proof (cases r)
      case (Inl failure)
      with one have "sync_attempts (fst w1) = sync_attempts (fst w)" by simp
      from recorded_frame [OF this] Cons.IH Cons.prems st step False Inl show ?thesis by (auto simp: Let_def)
    next
      case (Inr x)
      with one Cons.prems st step False show ?thesis by (auto simp: Let_def)
    qed
  qed (use Cons st in \<open>simp add: Let_def\<close>)
qed

lemma once_recorded:
  assumes "\<forall>url. record_left_alone (net url)" "syncOnce net ctx identity addresses w = Some (res, w')"
  shows "if peerPin (fst w) (pc_peer ctx) = [] then w' = w \<and> rz_category res = Some TrustFailure
    else pass_recorded ctx (fst w) res (fst w')"
proof (cases "peerPin (fst w) (pc_peer ctx) = []")
  case False
  show ?thesis
  proof (cases identity)
    case (Inl e)
    then have "(res, fst w') = unavailableIdentityResult ctx e (fst w)"
      using assms(2) False by (auto simp: syncOnce_def prepareSyncExchange_def Let_def split: prod.splits)
    with False show ?thesis by (auto simp: unavailableIdentityResult_def Let_def intro!: attempt_recorded)
  next
    case (Inr me)
    obtain known d where read: "getReplicationCursor (fst w) (pc_peer ctx) None = (known, d)" by (metis prod.exhaust)
    then have same: "sync_attempts d = sync_attempts (fst w)" using attempts.cursor_writes(3) [of "fst w" "pc_peer ctx" None] by simp
    let ?ctx = "ctx\<lparr> pc_me := me, pc_grant := peerGrant (fst w) (pc_peer ctx) \<rparr>"
    have "tryPeerAddresses net ?ctx (peerPin (fst w) (pc_peer ctx)) known addresses (d, snd w)
        = Some (res, w')"
      using assms(2) read False Inr by (simp add: syncOnce_def prepareSyncExchange_def Let_def)
    then have "pass_recorded ?ctx d res (fst w')"
      using addresses_recorded [of net ?ctx] assms(1) unfolding tryPeerAddresses_def by (metis fst_conv)
    with False recorded_frame [OF same] show ?thesis by (simp add: pass_recorded_def)
  qed
qed (use assms(2) in \<open>auto simp: syncOnce_def prepareSyncExchange_def Let_def\<close>)

text \<open>C21: every pass leaves its record. Whatever the addresses answer, a pass with a pinned peer appends exactly one
  attempt, newer than all others, and its flag, counts and failure agree with the result the caller gets; a pass with a
  peer that is not pinned changes nothing.\<close>

theorem pass_is_recorded:
  assumes "\<forall>url. record_left_alone (net url)" "runSyncPass net ctx identity w = Some (res, w')"
  shows "if peerPin (fst w) (pc_peer ctx) = [] then w' = w \<and> rz_category res = Some TrustFailure
    else pass_recorded ctx (fst w) res (fst w')"
  using assms(2) unfolding runSyncPass_def by (rule once_recorded [OF assms(1)])

section \<open>A pass returns\<close>

definition answers_typed :: "pass_context \<Rightarrow> 'w outside \<Rightarrow> bool" where
  "answers_typed ctx os \<longleftrightarrow> (\<forall>q w. read_ops_answer ctx (fst (os_get_ops os q w)) \<noteq> None)"

definition answering :: "pass_context \<Rightarrow> 'w outside \<Rightarrow> bool" where
  "answering ctx os \<longleftrightarrow> progressing (os_page os) \<and> answers_typed ctx os"

lemma fetch_total: "progressing ask \<Longrightarrow> fetchAllSnapshotPages ask info opts p \<noteq> None"
  using fetch_loop_returns [of ask info opts] by (auto simp: fetchAllSnapshotPages_def simp del: not_None_eq split_paired_All split_paired_Ex split: sum.splits)

lemma syncOneScope_total: "answering ctx os \<Longrightarrow> syncOneScope os ctx scope w \<noteq> None"
proof -
  assume "answering ctx os"
  then have fetch: "fetchAllSnapshotPages (os_page os) info opts p \<noteq> None"
    and typed: "read_ops_answer ctx (fst (os_get_ops os query v)) \<noteq> None" for info opts p query v
    by (simp_all add: answering_def fetch_total answers_typed_def del: not_None_eq split_paired_All split_paired_Ex)
  have "recover_scope os ctx scope v \<noteq> None" "bootstrap_scope os ctx scope v \<noteq> None" for v
    using fetch by (auto simp: recover_scope_def bootstrap_scope_def Let_def simp del: not_None_eq split_paired_All split_paired_Ex split: option.splits sum.splits prod.splits)
  moreover have "pull_scope os ctx scope c b v \<noteq> None" for c b v
    using typed [of "ops_query ctx (Some (ad_scope scope)) (ad_reset scope) c" v]
    by (auto simp: pull_scope_def Let_def simp del: not_None_eq split_paired_All split_paired_Ex split: option.splits sum.splits prod.splits ops_answer.splits pull_failure.splits)
  ultimately show ?thesis by (auto simp: syncOneScope_def Let_def simp del: not_None_eq split_paired_All split_paired_Ex split: option.splits prod.splits)
qed

lemma runScopedSync_total: "answering ctx os \<Longrightarrow> runScopedSync os ctx adverts w \<noteq> None"
proof (induction adverts arbitrary: w)
  case (Cons scope rest)
  from syncOneScope_total [OF Cons.prems] obtain res w1 where "syncOneScope os ctx scope w = Some (res, w1)" by fastforce
  with Cons show ?case by (auto simp del: not_None_eq split: option.splits)
qed simp

lemma scoped_part_total: "answering ctx os \<Longrightarrow> scoped_part os ctx peer w \<noteq> None"
  by (simp add: scoped_part_def runScopedSync_total del: not_None_eq)

lemma tryInitialBootstrap_total: "answering ctx os \<Longrightarrow> tryInitialBootstrap os ctx peer known w \<noteq> None"
proof -
  assume a: "answering ctx os"
  have "finishInitialBootstrap os ctx peer info items v \<noteq> None" for info items v
    using scoped_part_total [OF a] by (auto simp: finishInitialBootstrap_def Let_def simp del: not_None_eq split_paired_All split_paired_Ex split: option.splits sum.splits prod.splits)
  moreover have "fetchAllSnapshotPages (os_page os) info opts p \<noteq> None" for info opts p
    using a by (simp add: answering_def fetch_total del: not_None_eq)
  ultimately have "performInitialBootstrap os ctx peer w \<noteq> None"
    by (auto simp: performInitialBootstrap_def Let_def simp del: not_None_eq split_paired_All split_paired_Ex split: option.splits sum.splits prod.splits)
  then show ?thesis by (simp add: tryInitialBootstrap_def del: not_None_eq)
qed

lemma pullDefaultScope_total: "answering ctx os \<Longrightarrow> pullDefaultScope os ctx peer c w \<noteq> None"
proof -
  assume a: "answering ctx os"
  have "performResetBootstrap os ctx peer reset v \<noteq> None" for reset v
    using a by (auto simp: performResetBootstrap_def Let_def answering_def fetch_total simp del: not_None_eq split_paired_All split_paired_Ex split: option.splits sum.splits prod.splits)
  moreover have "read_ops_answer ctx (fst (os_get_ops os (ops_query ctx None (px_reset peer) c) w)) \<noteq> None"
    using a by (simp add: answering_def answers_typed_def del: not_None_eq split_paired_All)
  ultimately show ?thesis
    by (auto simp: pullDefaultScope_def simp del: not_None_eq split_paired_All split_paired_Ex split: option.splits sum.splits prod.splits ops_answer.splits)
qed

lemma syncAddress_total:
  assumes "answering ctx os"
  shows "syncAddress os ctx pinned url known w \<noteq> None"
proof -
  have finish: "finishIncrementalExchange os ctx peer applied pushed v \<noteq> None" for peer applied pushed v
    using scoped_part_total [OF assms]
    by (auto simp: finishIncrementalExchange_def Let_def simp del: not_None_eq split_paired_All split: option.splits prod.splits)
  obtain r w1 where negotiated: "negotiatePeerExchange os ctx pinned url w = (r, w1)" by (metis prod.exhaust)
  show ?thesis
  proof (cases r)
    case (Inr peer)
    obtain t w2 where t: "tryInitialBootstrap os ctx peer known w1 = Some (t, w2)"
      using tryInitialBootstrap_total [OF assms, of peer known w1] by (metis not_Some_eq prod.exhaust)
    obtain p d3 q3 where p: "pullDefaultScope os ctx peer (fst known) w2 = Some (p, d3, q3)"
      using pullDefaultScope_total [OF assms, of peer "fst known" w2] by (metis not_Some_eq prod_cases3)
    show ?thesis
    proof (cases "\<exists>rs nextCursor. t = Inr None \<and> p = PulledOps rs nextCursor")
      case True
      then obtain rs nextCursor where pulled: "t = Inr None" "p = PulledOps rs nextCursor" by blast
      obtain a d4 where a: "applyPulledDefaultOps ctx peer rs nextCursor (fst known) d3 = (a, d4)" by (metis prod.exhaust)
      obtain b w5 where b: "pushDefaultScope os ctx peer (snd known) (d4, q3) = (b, w5)" by (metis prod.exhaust)
      show ?thesis
        using negotiated Inr t p pulled a b finish
        by (cases a; cases b) (simp_all add: syncAddress_def Let_def split: prod.splits del: not_None_eq)
    next
      case False
      with negotiated Inr t p show ?thesis
        by (cases t; cases p) (auto simp: syncAddress_def Let_def split: option.splits)
    qed
  qed (simp add: syncAddress_def negotiated)
qed

lemma try_addresses_total:
  assumes "\<And>url. answering ctx (net url)"
  shows "try_addresses net ctx pinned known addresses st w \<noteq> None"
proof (induction addresses arbitrary: known st w)
  case (Cons address rest)
  obtain errors attempted capabilities mismatch where st: "st = (errors, attempted, capabilities, mismatch)" by (metis prod_cases4)
  let ?url = "buildBaseUrl address"
  obtain r known1 w1 where "syncAddress (net ?url) ctx pinned ?url known w = Some (r, known1, w1)"
    using syncAddress_total [OF assms, of ?url pinned ?url known w] by (metis not_Some_eq prod_cases3)
  with Cons show ?case unfolding st by (cases r) (simp_all add: Let_def del: not_None_eq)
next
  case Nil
  obtain errors attempted capabilities mismatch where st: "st = (errors, attempted, capabilities, mismatch)" by (metis prod_cases4)
  show ?case unfolding st by (simp split: prod.splits)
qed

lemma read_ops_same:
  assumes same: "pc_parse c = pc_parse ctx" "pc_peer c = pc_peer ctx"
  shows "read_ops_answer c = read_ops_answer ctx"
  unfolding read_ops_answer_def same ..

lemma answering_as: "answering (ctx\<lparr> pc_me := me, pc_grant := g \<rparr>) os = answering ctx os"
  unfolding answering_def answers_typed_def by (subst read_ops_same [of "ctx\<lparr> pc_me := me, pc_grant := g \<rparr>" ctx]) simp_all

lemma pass_total: "\<forall>url. answering ctx (net url) \<Longrightarrow> runSyncPass net ctx identity w \<noteq> None"
proof -
  assume a: "\<forall>url. answering ctx (net url)"
  have "tryPeerAddresses net (ctx\<lparr> pc_me := me, pc_grant := g \<rparr>) pinned known addresses v \<noteq> None" for me g pinned known addresses v
    using try_addresses_total [of "ctx\<lparr> pc_me := me, pc_grant := g \<rparr>" net] a
    by (simp add: tryPeerAddresses_def answering_as del: not_None_eq)
  then show ?thesis
    by (auto simp: runSyncPass_def syncOnce_def prepareSyncExchange_def Let_def simp del: not_None_eq split_paired_All split_paired_Ex
        split: prod.splits sum.splits if_splits)
qed

text \<open>C20: a pass returns. When no page of a snapshot but the last is empty and the ops of an answer have fields of the
  types that are stored, a pass over any addresses ends with a result, through bootstraps, resets, the splitting of
  bodies and every advertised scope.\<close>

theorem pass_returns:
  assumes "\<forall>url. answering ctx (net url)"
  shows "\<exists>res w'. runSyncPass net ctx identity w = Some (res, w')"
  using pass_total [OF assms, of identity w] by (metis not_Some_eq prod.exhaust)

section \<open>Samples\<close>

text \<open>A device with one op of its own and one row of a scope; the peer answers at the second of two addresses.\<close>

definition sample_own_op :: replication_op where "sample_own_op = sample_op ''o9'' ''k9'' ''upsert'' 1 ''peer''"

definition sample_status :: json_obj where
  "sample_status = [(''fingerprint'', JStr ''f1''), (''protocol_version'', JStr ''2''),
     (''sync_reset'', JObj [(''generation'', JNum 1), (''snapshot_id'', JStr ''s1''), (''baseline_cursor'', JNull),
       (''retained_floor_cursor'', JNull)])]"

definition sample_empty_page :: json_obj where
  "sample_empty_page = (''ops'', JArr []) # (''next_cursor'', JNull)
     # filter (\<lambda>(k, v). k \<noteq> ''ops'' \<and> k \<noteq> ''next_cursor'') sample_page"

definition sample_net :: "string \<Rightarrow> (db \<times> unit) outside" where
  "sample_net url = \<lparr> os_status = (\<lambda>w. (if url = ''http://here'' then Inr (200, Some sample_status) else Inl ''timeout'', w)),
     os_get_ops = (\<lambda>query w. (Inr (200, Some sample_empty_page), w)), os_post_ops = (\<lambda>rs w. (Inr (200, Some []), w)),
     os_page = (\<lambda>w ps. (PageThrew ''timeout'', w)) \<rparr>"

definition sample_sending_db :: db where
  "sample_sending_db = sample_scope_db\<lparr> ops := [sample_own_op],
     peers := [(new_peer ''here'')\<lparr> p_pinned_fingerprint := Some ''f1'',
       p_addresses := Some (stored_texts [''http://gone'', ''http://here'']) \<rparr>],
     memories := [bootstrap_row sample_item [(''title'', JStr ''t'')] (Some ''team'') 1 1] \<rparr>"

definition sample_negotiated :: negotiated_peer where
  "sample_negotiated = \<lparr> px_url = ''http://here'', px_status = sample_status, px_reset = sample_reset,
     px_capabilities = defaultCapabilityDiagnostics \<rparr>"

theorem push_acknowledges_what_was_taken_witness:
  "\<exists>pushed d' q'. pushDefaultScope (noting (sample_net ''http://here'')) sample_pass sample_negotiated None (sample_sending_db, (), [])
      = (Inr pushed, d', q', [sample_own_op])
    \<and> pu_ops pushed = [sample_own_op] \<and> snd (read_cursor d' (''here'', None)) = Some ''2026|o9''"
proof -
  let ?run = "pushDefaultScope (noting (sample_net ''http://here'')) sample_pass sample_negotiated None (sample_sending_db, (), [])"
  have "(case ?run of (r, _) \<Rightarrow> map_sum (\<lambda>e. ()) (\<lambda>pushed. (pu_ops pushed, pu_last_acked pushed)) r)
      = Inr ([sample_own_op], Some ''2026|o9'')" by code_simp
  then obtain pushed d' q' taken where run: "?run = (Inr pushed, d', q', taken)" "pu_ops pushed = [sample_own_op]"
      "pu_last_acked pushed = Some ''2026|o9''"
    by (cases ?run; cases "fst ?run") auto
  have "distinct (map op_id (ops sample_sending_db))" "\<forall>x\<in>set (ops sample_sending_db). CHR ''|'' \<notin> set (op_created_at x)"
    "pc_peer sample_pass = ''here''" by code_simp+
  with push_acknowledges_what_was_taken [OF run(1)] run show ?thesis by auto
qed

lemma sample_answering: "\<forall>url. answering sample_pass (sample_net url)"
proof -
  have "read_ops_answer sample_pass (Inr (200, Some sample_empty_page)) \<noteq> None" by code_simp
  then show ?thesis by (simp add: answering_def answers_typed_def progressing_def sample_net_def)
qed

lemma sample_keeps_record: "record_left_alone (sample_net url)"
  by (simp add: record_left_alone_def stays_in_def same_record_def sample_net_def)

theorem pass_is_recorded_witness:
  "\<exists>res d q. runSyncPass sample_net sample_pass (Inr ''peer'') (sample_sending_db, ()) = Some (res, d, q)
    \<and> pass_recorded sample_pass sample_sending_db res d"
proof -
  obtain res d q where run: "runSyncPass sample_net sample_pass (Inr ''peer'') (sample_sending_db, ()) = Some (res, d, q)"
    using pass_total [OF sample_answering, of "Inr ''peer''" "(sample_sending_db, ())"] by (metis not_Some_eq prod_cases3)
  have "\<forall>url. record_left_alone (sample_net url)" by (simp add: sample_keeps_record)
  from pass_is_recorded [OF this run] have
    "if peerPin sample_sending_db (pc_peer sample_pass) = [] then rz_category res = Some TrustFailure
     else pass_recorded sample_pass sample_sending_db res d" by (simp split: if_splits)
  moreover have "peerPin sample_sending_db (pc_peer sample_pass) \<noteq> []" by code_simp
  ultimately show ?thesis using run by simp
qed

theorem pass_returns_witness:
  "\<exists>res w'. runSyncPass sample_net sample_pass (Inr ''peer'') (sample_sending_db, ()) = Some (res, w')"
  by (rule pass_returns [OF sample_answering])

end
