(* ===== verification/Sync_Daemon.thy ===== *)
theory Sync_Daemon
  imports Pass_Properties Log_Backfill
begin

text \<open>
  The sync daemon (\<open>packages/core/src/sync-daemon.ts\<close>, with the back-off of \<open>sync-pass.ts\<close>): which peers a tick calls,
  the row it keeps about itself, and the timer that starts the ticks.

  The coordinator's answers, the maintenance callback, the clock and the random numbers are parameters.
\<close>

section \<open>Back-off\<close>

definition CONNECTIVITY_ERROR_PATTERNS :: "string list" where
  "CONNECTIVITY_ERROR_PATTERNS = [''no route to host'', ''connection refused'', ''network is unreachable'', ''timed out'',
     ''name or service not known'', ''nodename nor servname provided'', ''errno 65'', ''errno 61'', ''errno 60'', ''errno 111'']"

definition PEER_BACKOFF_BASE_S :: rat where "PEER_BACKOFF_BASE_S = 120"
definition PEER_BACKOFF_MAX_S :: rat where "PEER_BACKOFF_MAX_S = 1800"

definition isConnectivityError :: "string option \<Rightarrow> bool" where
  "isConnectivityError error = (case truthy error of
     None \<Rightarrow> False
   | Some e \<Rightarrow> list_ex (\<lambda>pattern. text_contains pattern (js_lower e)) CONNECTIVITY_ERROR_PATTERNS)"

text \<open>The index on the peer and the time, read backwards.\<close>

definition newest_attempts :: "db \<Rightarrow> string \<Rightarrow> attempt_row list" where
  "newest_attempts d peer = rev (sort_key (\<lambda>a. (at_started_at a, at_id a)) (filter (\<lambda>a. at_peer a = peer) (sync_attempts d)))"

fun failing_run :: "attempt_row list \<Rightarrow> nat" where
  "failing_run [] = 0"
| "failing_run (a # rest) =
     (if at_ok a \<noteq> 0 then 0 else if isConnectivityError (at_error a) then Suc (failing_run rest) else 0)"

definition consecutiveConnectivityFailures :: "db \<Rightarrow> string \<Rightarrow> int \<Rightarrow> nat" where
  "consecutiveConnectivityFailures d peer limit = failing_run (sql_limit limit (newest_attempts d peer))"

definition peerBackoffSeconds :: "rat \<Rightarrow> nat \<Rightarrow> rat" where
  "peerBackoffSeconds random failures =
     (if failures \<le> 1 then 0
      else (let exponent = min (failures - 1) 8; base = min (PEER_BACKOFF_BASE_S * 2 ^ (exponent - 1)) PEER_BACKOFF_MAX_S
            in base * (1 / 2 + random * (1 / 2))))"

text \<open>\<open>ck_time\<close> is the time of a date text in milliseconds, \<open>None\<close> when it is not a number; \<open>ck_now\<close> and \<open>ck_random\<close>
  are what the clock and the random number generator say when a peer is looked at.\<close>

record daemon_clock =
  ck_time :: "string \<Rightarrow> int option"
  ck_now :: "string \<Rightarrow> int"
  ck_random :: "string \<Rightarrow> rat"

definition shouldSkipOfflinePeer :: "daemon_clock \<Rightarrow> db \<Rightarrow> string \<Rightarrow> bool" where
  "shouldSkipOfflinePeer ck d peer =
     (let failures = consecutiveConnectivityFailures d peer 10; backoff = peerBackoffSeconds (ck_random ck peer) failures in
      if failures < 2 \<or> backoff \<le> 0 then False
      else (case newest_attempts d peer of
          [] \<Rightarrow> False
        | a # _ \<Rightarrow> if at_started_at a = [] then False
            else (case ck_time ck (at_started_at a) of
                None \<Rightarrow> False
              | Some lastAttempt \<Rightarrow> of_int (ck_now ck peer - lastAttempt) / 1000 < backoff)))"

section \<open>The row of the daemon\<close>

datatype daemon_phase = IdentityError | NeedsAttention

fun phase_text :: "daemon_phase \<Rightarrow> string" where
  "phase_text IdentityError = ''identity_error''"
| "phase_text NeedsAttention = ''needs_attention''"

definition new_daemon :: daemon_row where
  "new_daemon = \<lparr> dm_id = 1, dm_last_error = None, dm_last_traceback = None, dm_last_error_at = None, dm_last_ok_at = None,
     dm_phase = None \<rparr>"

definition setSyncDaemonOk :: "string \<Rightarrow> db \<Rightarrow> db" where
  "setSyncDaemonOk now d = d\<lparr> daemon_states := upsert_row dm_id
     (\<lambda>excluded old. old\<lparr> dm_last_ok_at := dm_last_ok_at excluded, dm_phase := None \<rparr>)
     (new_daemon\<lparr> dm_last_ok_at := Some now \<rparr>) (daemon_states d) \<rparr>"

definition setSyncDaemonError :: "string \<Rightarrow> string \<Rightarrow> string option \<Rightarrow> db \<Rightarrow> db" where
  "setSyncDaemonError now error traceback d = d\<lparr> daemon_states := upsert_row dm_id
     (\<lambda>excluded old. old\<lparr> dm_last_error := dm_last_error excluded, dm_last_traceback := dm_last_traceback excluded,
        dm_last_error_at := dm_last_error_at excluded \<rparr>)
     (new_daemon\<lparr> dm_last_error := Some error, dm_last_traceback := traceback, dm_last_error_at := Some now \<rparr>)
     (daemon_states d) \<rparr>"

definition getSyncDaemonPhase :: "db \<Rightarrow> daemon_phase option" where
  "getSyncDaemonPhase d = (case first_where (\<lambda>r. dm_id r = 1) (daemon_states d) of
     None \<Rightarrow> None
   | Some r \<Rightarrow> if dm_phase r = Some ''identity_error'' then Some IdentityError
       else if dm_phase r = Some ''needs_attention'' then Some NeedsAttention else None)"

definition setSyncDaemonPhase :: "daemon_phase option \<Rightarrow> db \<Rightarrow> db" where
  "setSyncDaemonPhase phase d = d\<lparr> daemon_states := upsert_row dm_id (\<lambda>excluded old. old\<lparr> dm_phase := map_option phase_text phase \<rparr>)
     (new_daemon\<lparr> dm_phase := map_option phase_text phase \<rparr>) (daemon_states d) \<rparr>"

text \<open>An exception: its message, its stack, and whether it is a \<open>DeviceIdentityError\<close>.\<close>

record daemon_failure =
  df_message :: string
  df_stack :: string
  df_identity :: bool

definition reportSyncDaemonError :: "string \<Rightarrow> daemon_failure \<Rightarrow> string option \<Rightarrow> daemon_phase option \<Rightarrow> db \<Rightarrow> db" where
  "reportSyncDaemonError now failure prefix phase d =
     (let reported = (case truthy prefix of None \<Rightarrow> df_message failure | Some p \<Rightarrow> p @ '': '' @ df_message failure);
          d1 = setSyncDaemonError now reported (Some (df_stack failure)) d
      in if phase = None then d1 else setSyncDaemonPhase phase d1)"

section \<open>A tick\<close>

text \<open>Whether a value counts as true.\<close>

definition json_truth :: "json option \<Rightarrow> bool" where
  "json_truth v = (case v of None \<Rightarrow> False | Some JNull \<Rightarrow> False | Some (JBool b) \<Rightarrow> b | Some (JNum n) \<Rightarrow> n \<noteq> 0
     | Some (JStr s) \<Rightarrow> s \<noteq> [] | Some _ \<Rightarrow> True)"

definition presence_keys :: "bool \<Rightarrow> json_obj list \<Rightarrow> string list \<times> string list" where
  "presence_keys stale ps =
     (let chosen = filter (\<lambda>p. trimmed_field ''device_id'' p \<noteq> [] \<and> json_truth (field ''stale'' p) = stale) ps
      in (map (trimmed_field ''device_id'') chosen,
          map (\<lambda>p. trimmed_field ''device_id'' p @ '':'' @ trimmed_field ''fingerprint'' p)
            (filter (\<lambda>p. trimmed_field ''fingerprint'' p \<noteq> []) chosen)))"

definition coordinatorStalePeerKeys :: "json_obj list \<Rightarrow> string list" where
  "coordinatorStalePeerKeys ps =
     (let (staleDevices, stalePinned) = presence_keys True ps; (freshDevices, freshPinned) = presence_keys False ps
      in filter (\<lambda>k. k \<notin> set freshDevices) staleDevices @ filter (\<lambda>k. k \<notin> set freshPinned) stalePinned)"

record tick_result =
  tr_ok :: bool
  tr_reason :: "string option"
  tr_error :: "string option"
  tr_counts :: "(nat \<times> nat) option"

definition skipped_peer :: "string \<Rightarrow> tick_result" where
  "skipped_peer reason = \<lparr> tr_ok = False, tr_reason = Some reason, tr_error = None, tr_counts = None \<rparr>"

definition called_peer :: "sync_result \<Rightarrow> tick_result" where
  "called_peer res = \<lparr> tr_ok = rz_ok res, tr_reason = None, tr_error = rz_error res, tr_counts = Some (rz_in res, rz_out res) \<rparr>"

text \<open>What a tick depends on: for each peer the requests to it and the rest of the context of its pass.\<close>

record 'w tick_env =
  ti_net :: "string \<Rightarrow> string \<Rightarrow> 'w outside"
  ti_context :: "string \<Rightarrow> pass_context"
  ti_identity :: "string \<Rightarrow> string + string"
  ti_clock :: daemon_clock
  ti_resolve :: resolve_env
  ti_now :: string
  ti_stack :: "string \<Rightarrow> string"

definition pass_for :: "'w tick_env \<Rightarrow> string \<Rightarrow> pass_context" where
  "pass_for env peer = (ti_context env peer)\<lparr> pc_peer := peer \<rparr>"

definition presence_expired :: "string list \<Rightarrow> string \<Rightarrow> string option \<Rightarrow> bool" where
  "presence_expired stale peer pin \<longleftrightarrow> peer \<in> set stale
     \<or> (js_trim (or_default pin []) \<noteq> [] \<and> peer @ '':'' @ js_trim (or_default pin []) \<in> set stale)"

definition tick_peer ::
    "(db \<times> 'q) tick_env \<Rightarrow> string list \<Rightarrow> string \<times> string option \<Rightarrow> db \<times> 'q \<Rightarrow> (tick_result \<times> db \<times> 'q) option" where
  "tick_peer env stale row w = (case row of (peer, pin) \<Rightarrow>
     if presence_expired stale peer pin then Some (skipped_peer ''peer offline (coordinator presence expired)'', w)
     else if shouldSkipOfflinePeer (ti_clock env) (fst w) peer then Some (skipped_peer ''peer offline (backoff)'', w)
     else map_option (\<lambda>(res, w1). (called_peer res, w1))
            (runSyncPass (ti_net env peer) (pass_for env peer) (ti_identity env peer) w))"

fun tick_peers ::
    "(db \<times> 'q) tick_env \<Rightarrow> string list \<Rightarrow> (string \<times> string option) list \<Rightarrow> db \<times> 'q \<Rightarrow> (tick_result list \<times> db \<times> 'q) option" where
  "tick_peers env stale [] w = Some ([], w)"
| "tick_peers env stale (row # rows) w = (case tick_peer env stale row w of
     None \<Rightarrow> None
   | Some (r, w1) \<Rightarrow> map_option (\<lambda>(rs, w2). (r # rs, w2)) (tick_peers env stale rows w1))"

definition syncPassPreflight :: "resolve_env \<Rightarrow> string \<Rightarrow> db \<Rightarrow> (string + unit) \<times> db" where
  "syncPassPreflight env now d = (case migrateLegacyImportKeys (re_sha256 env) d 2000 of
     (Inl e, d1) \<Rightarrow> (Inl e, d1)
   | (Inr _, d1) \<Rightarrow> (case backfillReplicationOps env now d1 200 of
       (Inl e, d2) \<Rightarrow> (Inl e, d2)
     | (Inr _, d2) \<Rightarrow> (Inr (), d2)))"

definition peer_rows :: "db \<Rightarrow> (string \<times> string option) list" where
  "peer_rows d = map (\<lambda>p. (p_device p, p_pinned_fingerprint p)) (peers d)"

definition syncDaemonTick ::
    "(db \<times> 'q) tick_env \<Rightarrow> string list \<Rightarrow> db \<times> 'q \<Rightarrow> ((string + tick_result list) \<times> db \<times> 'q) option" where
  "syncDaemonTick env stale w =
     (if peers (fst w) = [] then Some (Inr [], w)
      else (case syncPassPreflight (ti_resolve env) (ti_now env) (fst w) of
          (Inl e, d1) \<Rightarrow> Some (Inl e, d1, snd w)
        | (Inr _, d1) \<Rightarrow> map_option (\<lambda>(rs, w1). (Inr rs, w1)) (tick_peers env stale (peer_rows (fst w)) (d1, snd w))))"

text \<open>What the tick asks others, each of which may change the database: the identity of the device, the refresh from the
  coordinator (\<open>None\<close> when it fails or is not configured), the callback, and the lookup of the peers' presence
  (\<open>None\<close> when it fails or is not configured).\<close>

record 'w tick_calls =
  tc_identity :: "'w \<Rightarrow> (daemon_failure + unit) \<times> 'w"
  tc_refresh :: "'w \<Rightarrow> json_obj list option \<times> 'w"
  tc_callback :: "'w \<Rightarrow> (daemon_failure + unit) \<times> 'w"
  tc_lookup :: "'w \<Rightarrow> json_obj list option \<times> 'w"

definition fetchCoordinatorStalePeers :: "'w tick_calls \<Rightarrow> json_obj list option \<Rightarrow> 'w \<Rightarrow> string list \<times> 'w" where
  "fetchCoordinatorStalePeers calls known w = (case known of
     Some ps \<Rightarrow> (coordinatorStalePeerKeys ps, w)
   | None \<Rightarrow> (case tc_lookup calls w of
       (None, w1) \<Rightarrow> ([], w1) | (Some ps, w1) \<Rightarrow> (coordinatorStalePeerKeys ps, w1)))"

definition runTickOnce :: "(db \<times> 'q) tick_env \<Rightarrow> (db \<times> 'q) tick_calls \<Rightarrow> db \<times> 'q \<Rightarrow> (db \<times> 'q) option" where
  "runTickOnce env calls w = (case tc_identity calls w of
     (Inl failure, (d1, q1)) \<Rightarrow> Some (reportSyncDaemonError (ti_now env) failure None
        (if df_identity failure then Some IdentityError else None) d1, q1)
   | (Inr _, w1) \<Rightarrow>
       (case tc_refresh calls w1 of (known, w2) \<Rightarrow>
        (case (case tc_callback calls w2 of
            (Inl failure, (d3, q3)) \<Rightarrow> (True, reportSyncDaemonError (ti_now env) failure (Some ''daemon tick callback failed'') None d3, q3)
          | (Inr _, (d3, q3)) \<Rightarrow> (False, d3, q3)) of (callbackFailed, w3) \<Rightarrow>
         (case fetchCoordinatorStalePeers calls known w3 of (stale, w4) \<Rightarrow>
          (case syncDaemonTick env stale w4 of
             None \<Rightarrow> None
           | Some (Inl e, (d5, q5)) \<Rightarrow> Some (reportSyncDaemonError (ti_now env)
               \<lparr> df_message = e, df_stack = ti_stack env e, df_identity = False \<rparr> None None d5, q5)
           | Some (Inr results, (d5, q5)) \<Rightarrow>
               if list_ex (\<lambda>r. \<not> tr_ok r \<and> text_contains ''needs_attention'' (or_default (tr_error r) [])) results
               then Some (setSyncDaemonPhase (Some NeedsAttention) d5, q5)
               else Some (if callbackFailed then d5 else setSyncDaemonOk (ti_now env) d5, q5))))))"


section \<open>The timer\<close>

record runner =
  ru_running :: bool
  ru_first_completed :: bool

text \<open>A call of the runner, and the end of the tick it started: whether a tick is started, whether the callback is due.\<close>

definition runner_call :: "runner \<Rightarrow> bool \<times> runner" where
  "runner_call r = (if ru_running r then (False, r) else (True, r\<lparr> ru_running := True \<rparr>))"

definition runner_settled :: "runner \<Rightarrow> bool \<times> runner" where
  "runner_settled r = (\<not> ru_first_completed r, r\<lparr> ru_running := False, ru_first_completed := True \<rparr>)"

datatype loop_phase = Starting | Running | Stopping

text \<open>The loop with its interval and its first timeout, the ticks in flight, the phases it has reported, and how many
  ticks began after it was stopped.\<close>

record daemon_loop =
  lp_runner :: runner
  lp_in_flight :: nat
  lp_interval :: bool
  lp_first_timeout :: bool
  lp_phases :: "loop_phase list"
  lp_late :: nat

definition started_loop :: daemon_loop where
  "started_loop = \<lparr> lp_runner = \<lparr> ru_running = False, ru_first_completed = False \<rparr>, lp_in_flight = 0, lp_interval = True,
     lp_first_timeout = True, lp_phases = [Starting], lp_late = 0 \<rparr>"

definition call_tick :: "daemon_loop \<Rightarrow> daemon_loop" where
  "call_tick l = (case runner_call (lp_runner l) of (started, r) \<Rightarrow>
     l\<lparr> lp_runner := r, lp_in_flight := lp_in_flight l + (if started then 1 else 0),
        lp_late := lp_late l + (if started \<and> \<not> lp_interval l then 1 else 0) \<rparr>)"

definition settle_tick :: "daemon_loop \<Rightarrow> daemon_loop" where
  "settle_tick l = (case runner_settled (lp_runner l) of (first, r) \<Rightarrow>
     l\<lparr> lp_runner := r, lp_in_flight := lp_in_flight l - 1, lp_phases := lp_phases l @ (if first then [Running] else []) \<rparr>)"

definition stop_loop :: "daemon_loop \<Rightarrow> daemon_loop" where
  "stop_loop l = l\<lparr> lp_interval := False, lp_phases := lp_phases l @ [Stopping] \<rparr>"

inductive loop_step :: "daemon_loop \<Rightarrow> daemon_loop \<Rightarrow> bool" where
  interval: "lp_interval l \<Longrightarrow> loop_step l (call_tick l)"
| timeout: "lp_first_timeout l \<Longrightarrow> loop_step l (call_tick (l\<lparr> lp_first_timeout := False \<rparr>))"
| settled: "0 < lp_in_flight l \<Longrightarrow> loop_step l (settle_tick l)"
| abort: "lp_interval l \<Longrightarrow> loop_step l (stop_loop l)"

inductive_cases loop_stepE: "loop_step l l'"

definition loop_ok :: "daemon_loop \<Rightarrow> bool" where
  "loop_ok l \<longleftrightarrow> lp_in_flight l = (if ru_running (lp_runner l) then 1 else 0)
     \<and> count_list (lp_phases l) Running = (if ru_first_completed (lp_runner l) then 1 else 0)
     \<and> count_list (lp_phases l) Stopping = (if lp_interval l then 0 else 1)
     \<and> lp_late l + (if lp_first_timeout l then 1 else 0) \<le> 1 \<and> (lp_interval l \<longrightarrow> lp_late l = 0)"

lemma loop_ok_step: "loop_step l l' \<Longrightarrow> loop_ok l \<Longrightarrow> loop_ok l'"
  by (erule loop_stepE)
    (auto simp: loop_ok_def call_tick_def settle_tick_def stop_loop_def runner_call_def runner_settled_def split: if_splits)

lemma loop_ok_reachable: "loop_step\<^sup>*\<^sup>* started_loop l \<Longrightarrow> loop_ok l"
  by (induction rule: rtranclp_induct) (auto simp: loop_ok_def started_loop_def dest: loop_ok_step)

text \<open>C23: ticks never overlap: whatever the timer, the ends of ticks and the stop signal do, at most one tick is in flight, the
  flag of the runner says so, the loop reports that it runs and that it stops at most once each, and at most one tick
  begins after the stop.\<close>

theorem ticks_never_overlap:
  assumes "loop_step\<^sup>*\<^sup>* started_loop l"
  shows "lp_in_flight l \<le> 1 \<and> (ru_running (lp_runner l) \<longleftrightarrow> lp_in_flight l = 1) \<and> count_list (lp_phases l) Running \<le> 1
    \<and> count_list (lp_phases l) Stopping \<le> 1 \<and> lp_late l \<le> 1"
  using loop_ok_reachable [OF assms] by (auto simp: loop_ok_def split: if_splits)

text \<open>The first tick may end after the stop: the loop then reports that it runs as the last thing.\<close>

lemma stop_is_overtaken:
  "\<exists>l. loop_step\<^sup>*\<^sup>* started_loop l \<and> lp_phases l = [Starting, Stopping, Running] \<and> lp_late l = 1"
proof -
  let ?l1 = "stop_loop started_loop"
  let ?l2 = "call_tick (?l1\<lparr> lp_first_timeout := False \<rparr>)"
  let ?l3 = "settle_tick ?l2"
  have "loop_step started_loop ?l1" by (rule loop_step.abort) (simp add: started_loop_def)
  moreover have "loop_step ?l1 ?l2" by (rule loop_step.timeout) (simp add: started_loop_def stop_loop_def)
  moreover have "loop_step ?l2 ?l3"
    by (rule loop_step.settled) (simp add: started_loop_def stop_loop_def call_tick_def runner_call_def)
  ultimately have "loop_step\<^sup>*\<^sup>* started_loop ?l3" by (meson rtranclp.rtrancl_into_rtrancl rtranclp.rtrancl_refl)
  moreover have "lp_phases ?l3 = [Starting, Stopping, Running]" "lp_late ?l3 = 1"
    by (simp_all add: started_loop_def stop_loop_def call_tick_def settle_tick_def runner_call_def runner_settled_def)
  ultimately show ?thesis by blast
qed

section \<open>A peer that is skipped\<close>

lemma backoff_bounds:
  assumes "0 \<le> random" "random \<le> 1"
  shows "0 \<le> peerBackoffSeconds random n" "peerBackoffSeconds random n \<le> PEER_BACKOFF_MAX_S"
proof -
  define base where "base = min (PEER_BACKOFF_BASE_S * 2 ^ (min (n - 1) 8 - 1)) PEER_BACKOFF_MAX_S"
  have base: "0 \<le> base" "base \<le> PEER_BACKOFF_MAX_S" by (simp_all add: base_def PEER_BACKOFF_BASE_S_def PEER_BACKOFF_MAX_S_def)
  have run: "peerBackoffSeconds random n = (if n \<le> 1 then 0 else base * (1 / 2 + random * (1 / 2)))"
    by (simp add: peerBackoffSeconds_def base_def Let_def)
  have jitter: "0 \<le> 1 / 2 + random * (1 / 2)" "1 / 2 + random * (1 / 2) \<le> 1" using assms by simp_all
  show "0 \<le> peerBackoffSeconds random n" using base(1) jitter(1) by (simp add: run)
  have "base * (1 / 2 + random * (1 / 2)) \<le> base" using base(1) jitter by (metis mult.right_neutral mult_left_mono)
  with base(2) show "peerBackoffSeconds random n \<le> PEER_BACKOFF_MAX_S" by (simp add: run PEER_BACKOFF_MAX_S_def)
qed

definition could_not_connect :: "attempt_row \<Rightarrow> bool" where
  "could_not_connect a \<longleftrightarrow> at_ok a = 0 \<and> isConnectivityError (at_error a)"

lemma failing_run_2: "failing_run as \<ge> 2 \<Longrightarrow> \<exists>a b rest. as = a # b # rest \<and> could_not_connect a \<and> could_not_connect b"
  by (cases as rule: failing_run.cases; cases "tl as") (auto simp: could_not_connect_def split: if_splits)

text \<open>C24: a peer that cannot be reached is called again: it is skipped only when its last two attempts both failed to connect,
  and never when half an hour has passed since the last one.\<close>

theorem offline_peer_is_called_again:
  assumes "shouldSkipOfflinePeer ck d peer" "0 \<le> ck_random ck peer" "ck_random ck peer \<le> 1"
  shows "\<exists>a b rest t. newest_attempts d peer = a # b # rest \<and> could_not_connect a \<and> could_not_connect b
    \<and> ck_time ck (at_started_at a) = Some t \<and> ck_now ck peer < t + 1800 * 1000"
proof -
  let ?newest = "newest_attempts d peer"
  have "2 \<le> failing_run (sql_limit 10 ?newest)"
    using assms(1) by (auto simp: shouldSkipOfflinePeer_def consecutiveConnectivityFailures_def Let_def split: if_splits)
  then obtain a b rest where "sql_limit 10 ?newest = a # b # rest" "could_not_connect a" "could_not_connect b"
    using failing_run_2 by blast
  moreover then obtain rest' where newest: "?newest = a # b # rest'"
    by (cases ?newest rule: failing_run.cases; cases "tl ?newest") (auto simp: sql_limit_def split: if_splits)
  moreover obtain t where t: "ck_time ck (at_started_at a) = Some t"
      "of_int (ck_now ck peer - t) / 1000 < peerBackoffSeconds (ck_random ck peer) (consecutiveConnectivityFailures d peer 10)"
    using assms(1) newest by (auto simp: shouldSkipOfflinePeer_def Let_def split: if_splits option.splits)
  moreover have "ck_now ck peer < t + 1800 * 1000"
  proof -
    have "of_int (ck_now ck peer - t) / 1000 < (1800 :: rat)"
      using t(2) backoff_bounds(2) [OF assms(2,3)] unfolding PEER_BACKOFF_MAX_S_def by (rule less_le_trans)
    then have "(of_int (ck_now ck peer - t) :: rat) < of_int 1800000" by simp
    then show ?thesis by (simp only: of_int_less_iff)
  qed
  ultimately show ?thesis by blast
qed

text \<open>The texts Node gives are not among the patterns: a pass over addresses that cannot be reached never counts.\<close>

lemma fetch_errors_never_back_off:
  "\<not> isConnectivityError (summarizeAddressErrors [(''http://here'', ''fetch failed'')])"
  "\<not> isConnectivityError (summarizeAddressErrors [(''http://here'', ''The operation was aborted due to timeout'')])"
  by code_simp+

section \<open>What a tick records\<close>

context untouched_table begin

lemma assign_keeps: "assignMemoryImportKey digest d i k = Inr d' \<Longrightarrow> tbl d' = tbl d"
  by (auto simp: assignMemoryImportKey_def writes dest!: snapshot_keys_keeps split: sum.splits)

lemma migrate_rows_keeps: "migrate_rows digest dev ms n d = (r, d') \<Longrightarrow> tbl d' = tbl d"
  by (induction digest dev ms n d rule: migrate_rows.induct)
    (auto dest: assign_keeps split: option.splits if_splits sum.splits)

lemma migrate_keeps: "migrateLegacyImportKeys digest d limit = (r, d') \<Longrightarrow> tbl d' = tbl d"
  by (auto simp: migrateLegacyImportKeys_def dest: migrate_rows_keeps split: if_splits)

lemma stamp_keeps: "ensureMemoryScopeId env d i = (s, d') \<Longrightarrow> tbl d' = tbl d"
  by (auto simp: ensureMemoryScopeId_def writes split: option.splits if_splits)

lemma backfill_row_keeps: "backfill_row env now dev m d = (r, d') \<Longrightarrow> tbl d' = tbl d"
  by (auto simp: backfill_row_def Let_def op_writes dest!: assign_keeps stamp_keeps split: if_splits sum.splits prod.splits)

lemma backfill_rows_keeps: "backfill_rows env now dev ms n d = (r, d') \<Longrightarrow> tbl d' = tbl d"
  by (induction env now dev ms n d rule: backfill_rows.induct) (auto dest: backfill_row_keeps split: prod.splits sum.splits)

lemma preflight_keeps: "syncPassPreflight env now d = (r, d') \<Longrightarrow> tbl d' = tbl d"
  by (auto simp: syncPassPreflight_def backfillReplicationOps_def Let_def dest!: migrate_keeps backfill_rows_keeps
      split: prod.splits sum.splits if_splits)

end

text \<open>What the row of a peer, the result it gets and the attempts its part of a tick adds have to do with each other.\<close>

definition peer_part :: "string list \<Rightarrow> string \<times> string option \<Rightarrow> attempt_row list \<times> tick_result \<Rightarrow> bool" where
  "peer_part stale row part \<longleftrightarrow> (case (row, part) of ((peer, pin), (added, r)) \<Rightarrow>
     (presence_expired stale peer pin \<longrightarrow> tr_reason r \<noteq> None)
     \<and> (if tr_reason r \<noteq> None then added = [] \<and> \<not> tr_ok r
        else (added = [] \<and> \<not> tr_ok r) \<or> (\<exists>a. added = [a] \<and> at_peer a = peer \<and> (at_ok a = 1 \<longleftrightarrow> tr_ok r)
          \<and> tr_counts r = Some (nat (at_ops_in a), nat (at_ops_out a)))))"

lemma unpinned_fails: "peerPin (fst w) (pc_peer ctx) = [] \<Longrightarrow> runSyncPass net ctx identity w = Some (res, w') \<Longrightarrow> \<not> rz_ok res"
  by (auto simp: runSyncPass_def syncOnce_def prepareSyncExchange_def Let_def)

lemma tick_peer_recorded:
  assumes "\<And>url. record_left_alone (ti_net env (fst row) url)" "tick_peer env stale row w = Some (r, w')"
  shows "\<exists>added. sync_attempts (fst w') = sync_attempts (fst w) @ added \<and> peer_part stale row (added, r)"
proof -
  obtain peer pin where row: "row = (peer, pin)" by fastforce
  show ?thesis
  proof (cases "presence_expired stale peer pin \<or> shouldSkipOfflinePeer (ti_clock env) (fst w) peer")
    case True
    with assms(2) row show ?thesis
      by (auto simp: tick_peer_def peer_part_def skipped_peer_def split: if_splits)
  next
    case False
    with assms(2) row obtain res where run: "runSyncPass (ti_net env peer) (pass_for env peer) (ti_identity env peer) w = Some (res, w')"
      "r = called_peer res" by (auto simp: tick_peer_def)
    have peer: "pc_peer (pass_for env peer) = peer" by (simp add: pass_for_def)
    have "\<forall>url. record_left_alone (ti_net env peer url)" using assms(1) row by simp
    note recorded = once_recorded [OF this run(1) [unfolded runSyncPass_def]]
    show ?thesis
    proof (cases "peerPin (fst w) peer = []")
      case True
      with recorded peer have "w' = w" by simp
      moreover have "\<not> rz_ok res" using unpinned_fails [OF _ run(1)] True peer by simp
      ultimately show ?thesis using False row run(2) by (auto simp: peer_part_def called_peer_def)
    next
      case pinned: False
      with recorded peer have "pass_recorded (pass_for env peer) (fst w) res (fst w')" by simp
      with False row run(2) peer show ?thesis by (auto simp: pass_recorded_def peer_part_def called_peer_def split: if_splits)
    qed
  qed
qed

lemma tick_peers_recorded:
  assumes "\<And>peer url. record_left_alone (ti_net env peer url)"
  shows "tick_peers env stale rows w = Some (results, w') \<Longrightarrow>
    \<exists>parts. sync_attempts (fst w') = sync_attempts (fst w) @ concat parts \<and> length parts = length results
      \<and> list_all2 (peer_part stale) rows (zip parts results)"
proof (induction rows arbitrary: w results)
  case (Cons row rows)
  then obtain r w1 rs where one: "tick_peer env stale row w = Some (r, w1)"
    and others: "tick_peers env stale rows w1 = Some (rs, w')" "results = r # rs"
    by (auto split: option.splits)
  from tick_peer_recorded [OF assms one] obtain added where
    added: "sync_attempts (fst w1) = sync_attempts (fst w) @ added" "peer_part stale row (added, r)" by blast
  from Cons.IH [OF others(1)] obtain parts where "sync_attempts (fst w') = sync_attempts (fst w1) @ concat parts"
    "length parts = length rs" "list_all2 (peer_part stale) rows (zip parts rs)" by blast
  with added others(2) show ?case by (intro exI [of _ "added # parts"]) simp
qed simp


section \<open>Attention\<close>

lemma text_contains_chars: "text_contains p s \<Longrightarrow> set p \<subseteq> set s"
proof (induction s)
  case (Cons c s)
  have "set p \<subseteq> set (c # s)" if "starts_with p (c # s)"
    using that unfolding starts_with_def by (metis set_take_subset)
  with Cons show ?case by auto
qed simp

text \<open>A tick looks for \<open>needs_attention\<close> in the errors of its passes; the error of a reset that is held back says
  \<open>needs attention\<close>.\<close>

lemma blocked_reset_is_not_noticed:
  "\<not> text_contains ''needs_attention'' (or_default (rz_error (resetBlockedResult peer n reset during)) [])"
proof
  assume "text_contains ''needs_attention'' (or_default (rz_error (resetBlockedResult peer n reset during)) [])"
  then have "CHR ''_'' \<in> set (or_default (rz_error (resetBlockedResult peer n reset during)) [])"
    by (auto dest!: text_contains_chars)
  moreover have "CHR ''_'' \<notin> set (nat_digits n)" using nat_digits_digits [of "CHR ''_''" n] by (auto simp: is_digit_def)
  ultimately show False by (auto simp: resetBlockedResult_def failed_pass_def split: if_splits)
qed


section \<open>Samples\<close>

text \<open>A peer that did not answer twice; a loop that was stopped while its first tick ran.\<close>

definition sample_attempt :: "int \<Rightarrow> attempt_row" where
  "sample_attempt i = \<lparr> at_id = i, at_peer = ''here'', at_started_at = ''2028'', at_finished_at = Some ''2028'', at_ok = 0,
     at_ops_in = 0, at_ops_out = 0, at_error = Some ''connect: connection refused'', at_local_capability = None,
     at_peer_capability = None, at_negotiated_capability = None, at_failure_category = Some ''connectivity'' \<rparr>"

definition sample_offline :: db where
  "sample_offline = empty_db\<lparr> sync_attempts := [sample_attempt 1, sample_attempt 2] \<rparr>"

definition sample_clock :: daemon_clock where
  "sample_clock = \<lparr> ck_time = (\<lambda>s. Some 0), ck_now = (\<lambda>peer. 30000), ck_random = (\<lambda>peer. 1 / 2) \<rparr>"

lemma sample_failures: "isConnectivityError (Some ''connect: connection refused'')"
  by code_simp

theorem offline_peer_is_called_again_witness:
  "shouldSkipOfflinePeer sample_clock sample_offline ''here''
    \<and> (\<exists>a b rest t. newest_attempts sample_offline ''here'' = a # b # rest \<and> could_not_connect a \<and> could_not_connect b
        \<and> ck_time sample_clock (at_started_at a) = Some t \<and> ck_now sample_clock ''here'' < t + 1800 * 1000)"
proof -
  have newest: "newest_attempts sample_offline ''here'' = [sample_attempt 2, sample_attempt 1]"
    by (simp add: newest_attempts_def sample_offline_def sample_attempt_def)
  have "shouldSkipOfflinePeer sample_clock sample_offline ''here''"
    unfolding shouldSkipOfflinePeer_def consecutiveConnectivityFailures_def newest
    by (simp add: sample_attempt_def sample_failures sql_limit_def sample_clock_def peerBackoffSeconds_def PEER_BACKOFF_BASE_S_def
        PEER_BACKOFF_MAX_S_def)
  moreover have "0 \<le> ck_random sample_clock ''here''" "ck_random sample_clock ''here'' \<le> 1" by (simp_all add: sample_clock_def)
  ultimately show ?thesis using offline_peer_is_called_again by blast
qed

theorem ticks_never_overlap_witness:
  "lp_in_flight (call_tick started_loop) = 1 \<and> ru_running (lp_runner (call_tick started_loop))"
proof -
  have "loop_step\<^sup>*\<^sup>* started_loop (call_tick started_loop)"
    by (rule r_into_rtranclp, rule loop_step.interval) (simp add: started_loop_def)
  from ticks_never_overlap [OF this] show ?thesis
    by (simp add: call_tick_def started_loop_def runner_call_def)
qed

text \<open>A device whose key cannot be read, and two peers, one of them known to be offline.\<close>

definition sample_tick :: "(db \<times> unit) tick_env" where
  "sample_tick = \<lparr> ti_net = (\<lambda>peer. sample_net), ti_context = (\<lambda>peer. sample_pass), ti_identity = (\<lambda>peer. Inl ''no key''),
     ti_clock = sample_clock, ti_resolve = sample_env, ti_now = ''2028'', ti_stack = (\<lambda>e. []) \<rparr>"

definition sample_two_peers :: db where
  "sample_two_peers = empty_db\<lparr> peers := [new_peer ''gone'', (new_peer ''here'')\<lparr> p_pinned_fingerprint := Some ''f1'' \<rparr>] \<rparr>"


end
