(* ===== verification/Spec2Isabelle.thy ===== *)
theory Spec2Isabelle
  imports
    Memory_Refs
    Op_Log
    Apply_Convergence
    Transport_Properties
    Access_Properties
    Scope_Moves
    Log_Backfill
    Snapshot_Pages
    Received_Rows
    Scope_Resolution
    Retirement_Reset
    Sync_Daemon
begin

text \<open>
  This library verifies the replication of codemem, the part of \<open>packages/core\<close> and \<open>packages/viewer-server\<close>
  that keeps the memories of several devices in step: the operation log and its cursors, the application of
  foreign operations, the scope memberships that decide who may send and receive what, the
  provenance ledger that ties a memory to the device that made it, the routes a peer calls, and the sync pass that
  drives an exchange from negotiation to the record it leaves. Paths below are relative to
  \<open>packages/core/src\<close> unless they say otherwise; definitions carry the names of the functions they translate.

  \<^bold>\<open>The program.\<close> A device stores memories (\<open>memory_items\<close>) and a log of operations on them
  (\<open>replication_ops\<close>) in one SQLite database. A sync pass with a peer reads the log after a cursor
  (\<open>sync-replication.ts\<close>), drops what the peer may not see, cuts the rest into request bodies and
  acknowledges. The receiver validates the batch against its cached scope memberships
  (\<open>scope-membership-cache.ts\<close>, filled from coordinator snapshots), and applies it op by op, each op in
  a savepoint, keeping for every memory the revision with the newest clock. Old ops are pruned; a
  retained floor in the reset boundary tells readers with an older cursor to start over, from a snapshot
  they read page by page. A local change records an op of its own, a move to another scope a pair of them;
  rows that predate the log get theirs from a backfill. The scope of a memory comes from the project
  mappings (\<open>scope-resolution.ts\<close>); rows received from a peer are cleaned up when the device loses its
  right to them. Requests are signed (\<open>sync-auth.ts\<close>), and a memory taken back from a scope is retired on its
  former recipients by signed packets (\<open>memory-retirement-delivery.ts\<close>), all of them again before a recipient that
  lost its state takes a snapshot (\<open>memory-retirement-reset.ts\<close>). A pass (\<open>sync-pass.ts\<close>) tries the
  addresses of a peer in turn: it checks the peer's fingerprint and protocol, bootstraps an empty device from a snapshot
  (\<open>sync-bootstrap.ts\<close>), pulls and applies ops, pushes its own, and repeats the pull for each scope the peer advertises
  (\<open>sync-scope-protocol.ts\<close>). The peer answers by the routes of \<open>packages/viewer-server/src/routes/sync.ts\<close>,
  which authenticate a request, refuse replays, and serve or apply only what both devices are entitled to. The daemon
  (\<open>sync-daemon.ts\<close>) runs a pass with every peer at each tick of its timer, but for those known to be offline.

  \<^bold>\<open>The model.\<close> The database is the record \<open>db\<close> of \<open>Sync_State\<close>: one list of rows per table, a row a
  record with the table's columns. A function that writes takes the database and returns it changed;
  a thrown exception is the \<open>Inl\<close> of a sum or the \<open>None\<close> of an option, and where the source rolls a
  transaction or a savepoint back the model returns the database of its start. Timestamps, ids and
  cursors are strings compared as SQLite and JavaScript compare them; JavaScript integers are \<open>int\<close> with
  the safe-integer test written out; JSON values are the datatype \<open>json\<close> and a stored JSON text is the
  result of parsing it. What is not code of the repository is a parameter: the clock (\<open>now\<close>), fresh
  UUIDs, SHA-256, the Ed25519 primitive and the key store, date parsing, locale comparison, path
  resolution, repository discovery, the secret scanner's rules, and the coordinator's answers. A request to a peer is a
  function of the record \<open>outside\<close> that takes and returns the world, the own database included: what other calls do to the
  database while the request waits is part of its answer, so the pass is verified under interference.

  \<^bold>\<open>The theories.\<close>
  \<^item> \<open>Codemem_Prelude\<close>: SQL and JavaScript primitives (first row, update, upsert, trim, coalesce) and the
    lemmas about them that every component uses; \<open>Json_Values\<close>: JSON, \<open>db.ts\<close> parsing, JavaScript conversions.
  \<^item> \<open>Sync_State\<close>: the tables of \<open>schema.ts\<close> and the record \<open>db\<close>.
  \<^item> \<open>Lamport_Clock\<close>: \<open>clockTuple\<close>, \<open>isNewerClock\<close>; the clocks are an instance of \<open>linorder\<close>; the locale
    \<open>lww_register\<close> is the abstract last-writer-wins register.
  \<^item> \<open>Op_Batches\<close>: \<open>chunkOpsBySize\<close>, \<open>extractReplicationOps\<close>, the JSON text of a request body.
  \<^item> \<open>Sync_Cursors\<close>: \<open>getReplicationCursor\<close>, \<open>setReplicationCursor\<close> over the scoped and the legacy table; the
    locale \<open>cursor_store\<close> is the abstract store of cursor pairs they refine.
  \<^item> \<open>Reset_Boundary\<close>: \<open>getSyncResetState\<close>, \<open>setSyncResetState\<close> and their legacy mirror.
  \<^item> \<open>Op_Log\<close>: \<open>loadReplicationOpsSince\<close>, \<open>loadReplicationOpsForPeer\<close>, the prunes and their loops.
  \<^item> \<open>Source_Identity\<close>, \<open>Memory_Provenance\<close>: \<open>memory-source-identity.ts\<close>, \<open>memory-local-capture.ts\<close>,
    \<open>memory-creation-provenance.ts\<close>, \<open>memory-scope-retirement.ts\<close>; the locale \<open>ledger\<close> is the abstract
    append-only ledger that bindings, retirements and foreign revisions instantiate.
  \<^item> \<open>Scope_Membership\<close>: snapshot validation, cache rows and refreshes (\<open>scope-membership-snapshot.ts\<close>,
    \<open>-evidence.ts\<close>, \<open>-semantics.ts\<close>, \<open>-cache.ts\<close>, \<open>coordinator-scope-authorization.ts\<close>);
    \<open>Scope_Authorization\<close>: what the cache answers; the locale \<open>epoch_cache\<close> is the cache whose epochs
    only grow, which the membership table and the scope table instantiate.
  \<^item> \<open>Replicated_Payloads\<close>: \<open>parseMemoryPayload\<close>, reassignment and cleanup payloads, tags, redaction.
  \<^item> \<open>Outbound_Filter\<close>: \<open>filterReplicationOpsForSyncWithStatus\<close>; \<open>Inbound_Validation\<close>:
    \<open>validateInboundScopeBatch\<close>, \<open>rejectInboundScopeFailures\<close>.
  \<^item> \<open>Memory_Refs\<close>: \<open>populateMemoryRefs\<close>, the export session keys.
  \<^item> \<open>Apply_Ops\<close>: \<open>applyReplicationOps\<close>, every branch; \<open>Apply_Correct\<close>: the change one op makes, as the
    inductive relation \<open>op_change\<close>, and the invariant \<open>wf_tables\<close>; \<open>Apply_Convergence\<close>: batches.
  \<^item> \<open>Wildcard_Match\<close>, \<open>Workspace_Identity\<close>, \<open>Scope_Resolution\<close>, \<open>Scope_Stamping\<close>: which scope a memory gets, and
    which scopes a device may read (\<open>wildcard-match.ts\<close>, \<open>workspace-identity.ts\<close>, \<open>project-identity.ts\<close>,
    \<open>scope-resolution.ts\<close>, \<open>scope-stamping.ts\<close>).
  \<^item> \<open>Received_Rows\<close>: \<open>reconcileStalePeerReceivedRows\<close> and its dry run; \<open>verdict\<close> is what it decides of a row.
  \<^item> \<open>Op_Recording\<close>: \<open>recordReplicationOp\<close>, \<open>recordScopeReassignment\<close>, \<open>recordAccessCleanupOp\<close>,
    \<open>migrateLegacyImportKeys\<close>, \<open>backfillReplicationOps\<close>; \<open>Scope_Moves\<close>: a move on the sender and on the receiver;
    \<open>Log_Backfill\<close>: the backfill catches up.
  \<^item> \<open>Snapshot_Pages\<close>: \<open>loadMemorySnapshotPageForPeer\<close> and its tokens.
  \<^item> \<open>Snapshot_Bootstrap\<close>: \<open>applyBootstrapSnapshot\<close> and \<open>mergeBootstrapSnapshot\<close> of \<open>sync-bootstrap.ts\<close>; \<open>Snapshot_Fetch\<close>:
    \<open>fetchAllSnapshotPages\<close>, composed with the snapshot pages of a serving peer.
  \<^item> \<open>Request_Authorization\<close>: \<open>authorizeSyncRequest\<close> with its nonces and the highest signature version seen;
    \<open>Sync_Protocol\<close>: capabilities, \<open>parseSyncScopeRequest\<close>, \<open>listAuthorizedScopeMembershipsForPeer\<close>;
    \<open>Sync_Routes\<close>: \<open>GET /v1/ops\<close>, \<open>POST /v1/ops\<close> and the managed scopes of a snapshot request.
  \<^item> \<open>Table_Frames\<close>: the locales \<open>untouched_table\<close> and \<open>unexchanged_table\<close>, what applying ops, cleaning up and bootstrapping
    leave alone for any reading of the database, with the cursors, the attempts and the pinned peers as instances.
  \<^item> \<open>Sync_Exchange\<close>: one advertised scope (\<open>syncOneScope\<close>) and the sequence of them (\<open>runScopedSync\<close>), the answers of a
    peer, the categories of failures (\<open>sync-failure-classification.ts\<close>); \<open>Sync_Pass\<close>: \<open>syncOnce\<close> with negotiation, bootstraps, the
    pull and the push of the default scope; \<open>Pass_Properties\<close>: what a pass guarantees.
  \<^item> \<open>Peer_Addresses\<close>: \<open>address-utils.ts\<close>, \<open>sync-peer-addresses.ts\<close> and \<open>recordPeerSuccess\<close>; \<open>Address_Book\<close>: what holds of
    the addresses they store. \<open>Sync_Daemon\<close>: \<open>sync-daemon.ts\<close> and the back-off of \<open>sync-pass.ts\<close>; the timer is the
    step relation \<open>loop_step\<close>.
  \<^item> \<open>Sync_Auth\<close>: \<open>sync-auth.ts\<close>; \<open>Retirement_Delivery\<close>: \<open>memory-retirement-delivery.ts\<close> over it;
    \<open>Retirement_Trust\<close>, \<open>Retirement_Reset\<close>: \<open>memory-retirement-trust.ts\<close> and \<open>memory-retirement-reset.ts\<close>. The tables
    of a reset stand beside \<open>db\<close>; the step relation \<open>reset_step\<close> is a source and a recipient that do other work in between.
  \<^item> \<open>Transport_Properties\<close>, \<open>Access_Properties\<close>: the properties that rest on several components.

  \<^bold>\<open>What is shown.\<close> Application (\<open>Apply_Convergence\<close>): re-delivery is harmless (C1), replicas that see the same upserts
  in any order end with the same clocks (C2), no batch takes a clock back (C12), a retired scope is not re-entered (C13), the
  tables keep their keys (C40). The exchange (\<open>Sync_Exchange\<close>, \<open>Pass_Properties\<close>): a cursor moves only past delivered ops (C3), a
  push acknowledges only what the peer took and the filter holds back (C4), starting a scope from a snapshot loses no row
  even when other calls write meanwhile (C8), a pass returns (C20) and leaves one record that agrees with its result
  (C21). The daemon: a tick records every peer it calls and no other (C22), ticks never overlap (C23), a peer that could not
  be reached is called again (C24), and the address that worked is tried first (C25). Admission: the inbound validation
  (C5, C38), the outbound filter (C6). Snapshots: a bootstrap is a copy of what the peer may show (C7), the pages are complete
  (C31). The log (\<open>Op_Log\<close>): paging is complete (C9), a prune cuts a prefix (C11) and its floor refuses exactly the
  readers that would miss something (C10). Requests: a valid request is one its peer signed for this device (C14), replays are
  refused (C15), the signature version is not downgraded (C16), served ops are admitted (C17), pushed ops are proved
  (C18), and what is advertised is what can be requested (C19). Retirements reach the recipient (C26), and all of them
  stand before a reset brings content back (C27); moves between scopes are recorded once (C29) and reach their receiver (C28),
  the backfill announces every row (C30), and the cleanup of received rows does what its dry run announces (C32). The
  membership cache says what the coordinator said (C33, C34); provenance is permanent (C35); the best mapping wins (C36), a scope is readable only with proof (C37). Batches fit (C39).

  \<^bold>\<open>Loops and bounds.\<close> Every loop of the source is structural recursion or a \<open>function\<close> with a proved
  measure; \<open>prune_by_age\<close> and \<open>prune_by_size\<close> end because each round deletes an op. The one counter is the
  source's own \<open>maxPasses\<close>. \<open>read_pages n\<close> is a client that reads at most \<open>n\<close> pages; C9 shows that as
  many pages as there are ops are enough. \<open>scan_loop\<close>, the loop of a snapshot page, is a partial function:
  it does not return when a batch of rows has blank keys (\<open>blank_keys_hang\<close>); C31 shows that it returns
  otherwise, and that a reader with as many pages as rows gets them all. \<open>fetch_loop\<close>, the client's loop over the pages
  of a snapshot, is a partial function too: a peer that answers empty pages with a next token keeps it busy for ever
  (\<open>empty_pages_never_end\<close>), every other peer lets it return (\<open>fetch_returns\<close>, C20). \<open>pushOps\<close> halves a body at most
  \<open>MAX_PUSH_SPLIT_DEPTH\<close> times, the bound of the source.

  \<^bold>\<open>Not modelled.\<close> The HTTP server and client, mDNS discovery, \<open>GET /v1/status\<close> and the bootstrap grants that let a device
  without a pin read it, the rate limiter, the creation of device keys, the queue of vector work (its two error texts are
  a parameter), the columns of a peer that only describe contacts; what a tick of the daemon asks the coordinator and the
  maintenance it runs (parameters of \<open>runTickOnce\<close>); answers whose
  ops have fields of types that are not stored, or boundaries whose generation is not an integer; the coordinator's own database, the creation and search of memories,
  embeddings, the observer pipeline, the command line and the user interface; repository discovery, which
  runs git. SQLite's atomicity of transactions and savepoints is taken as given.
\<close>

end
